(* ===== verification/CPrelude.thy ===== *)
theory CPrelude
  imports Main "HOL-Library.Word"
begin

text \<open>
  What every component shares: the outcome of a C computation (a value, or the first
  undefined behaviour it runs into), NUL-terminated strings as character lists, the
  functions of the C library the sources call on them (\<open>strcmp\<close>, \<open>atoi\<close>, the \<open>%d\<close>
  conversion, \<open>strstr\<close>, \<open>strtok\<close>), and the generic lemmas and the named collections
  the component proofs use.

  A string of the model is the text in front of the terminating NUL. The targets are
  32-bit (\<open>int\<close>, \<open>unsigned int\<close> and \<open>unsigned long\<close> have 32 bits).
\<close>

section \<open>Outcomes of C code\<close>

unbundle bit_operations_syntax

type_synonym u32 = "32 word"

datatype fault =
    BufferOverflow  \<comment> \<open>a write past the end of an array\<close>
  | ReadPastEnd     \<comment> \<open>a read past the end of an array\<close>
  | UseAfterFree    \<comment> \<open>a read of an object that was released\<close>
  | NullDeref       \<comment> \<open>a read through NULL\<close>
  | Indeterminate   \<comment> \<open>a read of a variable that was never written\<close>
  | IntOverflow     \<comment> \<open>a signed result outside the range of its type\<close>
  | NoReturn        \<comment> \<open>the call does not come back (unbounded recursion or an endless loop)\<close>

datatype 'a cres = Ret 'a | Fault fault

fun cbind :: "'a cres \<Rightarrow> ('a \<Rightarrow> 'b cres) \<Rightarrow> 'b cres" where
  "cbind (Ret a) f = f a"
| "cbind (Fault e) f = Fault e"

named_theorems c_defs \<open>definitions a component proof unfolds\<close>

named_theorems c_split \<open>case splits of C outcomes\<close>

lemma cbind_split [c_split]:
  "P (cbind m f) = ((\<forall>a. m = Ret a \<longrightarrow> P (f a)) \<and> (\<forall>e. m = Fault e \<longrightarrow> P (Fault e)))"
  by (cases m) auto

lemma cbind_eq_Ret [simp]: "cbind m f = Ret b \<longleftrightarrow> (\<exists>a. m = Ret a \<and> f a = Ret b)"
  by (cases m) auto

lemma cbind_RetE: "cbind m f = Ret b \<Longrightarrow> (\<And>a. m = Ret a \<Longrightarrow> f a = Ret b \<Longrightarrow> P) \<Longrightarrow> P"
  by (cases m) auto

lemma cbind_assoc [simp]: "cbind (cbind m f) g = cbind m (\<lambda>x. cbind (f x) g)"
  by (cases m) auto

lemma cbind_Ret_right [simp]: "cbind m Ret = m"
  by (cases m) auto

lemma cbind_cong [fundef_cong]:
  "m = m' \<Longrightarrow> (\<And>a. m' = Ret a \<Longrightarrow> f a = g a) \<Longrightarrow> cbind m f = cbind m' g"
  by (cases m') auto

definition no_fault :: "'a cres \<Rightarrow> bool" where
  "no_fault m \<longleftrightarrow> (\<exists>a. m = Ret a)"

lemma no_fault_Ret [simp]: "no_fault (Ret a)"
  by (simp add: no_fault_def)

lemma no_fault_Fault [simp]: "\<not> no_fault (Fault e)"
  by (simp add: no_fault_def)

lemma no_fault_bind: "no_fault m \<Longrightarrow> (\<And>a. m = Ret a \<Longrightarrow> no_fault (f a)) \<Longrightarrow> no_fault (cbind m f)"
  by (cases m) auto

fun cmap :: "('a \<Rightarrow> 'b cres) \<Rightarrow> 'a list \<Rightarrow> 'b list cres" where
  "cmap f [] = Ret []"
| "cmap f (x # xs) = cbind (f x) (\<lambda>y. cbind (cmap f xs) (\<lambda>ys. Ret (y # ys)))"

lemma cmap_Ret: "(\<And>x. x \<in> set xs \<Longrightarrow> f x = Ret (g x)) \<Longrightarrow> cmap f xs = Ret (map g xs)"
  by (induction xs) auto

section \<open>Characters\<close>

definition cval :: "char \<Rightarrow> nat" where
  "cval c = of_char c"

definition is_digit :: "char \<Rightarrow> bool" where
  "is_digit c \<longleftrightarrow> 48 \<le> cval c \<and> cval c \<le> 57"

definition is_digit19 :: "char \<Rightarrow> bool" where
  "is_digit19 c \<longleftrightarrow> 49 \<le> cval c \<and> cval c \<le> 57"

definition digit_val :: "char \<Rightarrow> nat" where
  "digit_val c = cval c - 48"

definition digit_char :: "nat \<Rightarrow> char" where
  "digit_char d = char_of (48 + d)"

definition lower_char :: "char \<Rightarrow> char" where
  "lower_char c = (if 65 \<le> cval c \<and> cval c \<le> 90 then char_of (cval c + 32) else c)"

definition upper_char :: "char \<Rightarrow> char" where
  "upper_char c = (if 97 \<le> cval c \<and> cval c \<le> 122 then char_of (cval c - 32) else c)"

abbreviation lower :: "string \<Rightarrow> string" where
  "lower s \<equiv> map lower_char s"

abbreviation upper :: "string \<Rightarrow> string" where
  "upper s \<equiv> map upper_char s"

lemma cval_less [simp]: "cval c < 256"
  using of_char_of [of "of_char c :: nat"] by (simp add: cval_def)

lemma cval_char_of: "n < 256 \<Longrightarrow> cval (char_of n) = n"
  by (simp add: cval_def)

lemma cval_inject [simp]: "cval a = cval b \<longleftrightarrow> a = b"
  by (simp add: cval_def)

lemma digit_char_props [simp]:
  assumes "d < 10"
  shows "is_digit (digit_char d)" "digit_val (digit_char d) = d" "cval (digit_char d) = 48 + d"
  using assms by (simp_all add: is_digit_def digit_val_def digit_char_def cval_char_of)

lemma digit_char_neq: "d < 10 \<Longrightarrow> \<not> is_digit c \<Longrightarrow> digit_char d \<noteq> c"
  by (auto simp: is_digit_def digit_char_def cval_char_of)

lemma cval_lower: "cval (lower_char c) = (if 65 \<le> cval c \<and> cval c \<le> 90 then cval c + 32 else cval c)"
  by (auto simp: lower_char_def cval_char_of)

lemma lower_char_fix: "\<not> (65 \<le> cval c \<and> cval c \<le> 90) \<Longrightarrow> lower_char c = c"
  by (auto simp: lower_char_def)

lemma lower_char_idem [simp]: "lower_char (lower_char c) = lower_char c"
  by (rule lower_char_fix) (simp add: cval_lower)

lemma lower_digit [simp]: "is_digit c \<Longrightarrow> lower_char c = c"
  by (rule lower_char_fix) (simp add: is_digit_def)

lemma lower_dot [simp]: "lower_char c = CHR ''.'' \<longleftrightarrow> c = CHR ''.''"
proof -
  have dot: "cval (CHR ''.'') = 46" by (simp add: cval_def)
  have "cval (lower_char c) = 46 \<longleftrightarrow> cval c = 46"
    by (simp add: cval_lower)
  then show ?thesis unfolding dot [symmetric] cval_inject .
qed

text \<open>The same on the bits of a character, which evaluates faster.\<close>

fun lower_bits :: "char \<Rightarrow> char" where
  "lower_bits (Char b0 b1 b2 b3 b4 b5 b6 b7) =
     (if b6 \<and> \<not> b5 \<and> \<not> b7 \<and> (b0 \<or> b1 \<or> b2 \<or> b3 \<or> b4) \<and> \<not> (b4 \<and> b3 \<and> (b2 \<or> b1 \<and> b0))
      then Char b0 b1 b2 b3 b4 True b6 b7 else Char b0 b1 b2 b3 b4 b5 b6 b7)"

lemma lower_char_bits [code]: "lower_char c = lower_bits c"
proof (cases c)
  case (Char b0 b1 b2 b3 b4 b5 b6 b7)
  have "lower_char (Char b0 b1 b2 b3 b4 b5 b6 b7) = lower_bits (Char b0 b1 b2 b3 b4 b5 b6 b7)"
    by (cases b7; cases b6; cases b5; cases b4; cases b3; cases b2; cases b1; cases b0)
       (simp_all add: lower_char_def cval_def char_of_eq_iff take_bit_eq_mod)
  then show ?thesis by (simp add: Char)
qed

lemma is_digit19_code [code]: "is_digit19 c \<longleftrightarrow> c \<in> set ''123456789''"
proof (cases c)
  case (Char b0 b1 b2 b3 b4 b5 b6 b7)
  have "is_digit19 (Char b0 b1 b2 b3 b4 b5 b6 b7) \<longleftrightarrow> Char b0 b1 b2 b3 b4 b5 b6 b7 \<in> set ''123456789''"
    by (cases b7; cases b6; cases b5; cases b4; cases b3; cases b2; cases b1; cases b0)
       (simp_all add: is_digit19_def cval_def)
  then show ?thesis by (simp add: Char)
qed

section \<open>Numbers in text\<close>

subsection \<open>atoi\<close>

fun atoi_digits :: "nat \<Rightarrow> string \<Rightarrow> nat" where
  "atoi_digits acc [] = acc"
| "atoi_digits acc (c # cs) =
     (if is_digit c then atoi_digits (acc * 10 + digit_val c) cs else acc)"

definition is_space :: "char \<Rightarrow> bool" where
  "is_space c \<longleftrightarrow> cval c = 32 \<or> (9 \<le> cval c \<and> cval c \<le> 13)"

definition clamp_int :: "int \<Rightarrow> int" where
  "clamp_int i = max (- (2 ^ 31)) (min (2 ^ 31 - 1) i)"

text \<open>\<open>atoi\<close> skips blanks and a sign and reads digits; a value that does not fit \<open>long\<close>
  (32 bits) saturates, as \<open>strtol\<close> does.\<close>

definition atoi :: "string \<Rightarrow> int" where
  "atoi s =
     (case dropWhile is_space s of
        [] \<Rightarrow> 0
      | c # cs \<Rightarrow>
          if c = CHR ''-'' then clamp_int (- int (atoi_digits 0 cs))
          else if c = CHR ''+'' then clamp_int (int (atoi_digits 0 cs))
          else clamp_int (int (atoi_digits 0 (c # cs))))"

lemma atoi_digits_mono: "acc \<le> atoi_digits acc s"
proof (induction acc s rule: atoi_digits.induct)
  case (2 acc c cs)
  show ?case
  proof (cases "is_digit c")
    case True
    with "2" have "acc * 10 + digit_val c \<le> atoi_digits (acc * 10 + digit_val c) cs" by simp
    with True show ?thesis by simp
  qed simp
qed simp

lemma is_digit_not_space: "is_digit c \<Longrightarrow> \<not> is_space c"
  by (auto simp: is_digit_def is_space_def)

lemma is_digit_not_sign: "is_digit c \<Longrightarrow> c \<noteq> CHR ''-'' \<and> c \<noteq> CHR ''+''"
  by (auto simp: is_digit_def cval_def)

lemma atoi_digit_start:
  assumes "is_digit c"
  shows "atoi (c # cs) = clamp_int (int (atoi_digits 0 (c # cs)))"
  using assms is_digit_not_space is_digit_not_sign by (simp add: atoi_def)

lemma is_digit19_digit: "is_digit19 c \<Longrightarrow> is_digit c"
  by (simp add: is_digit_def is_digit19_def)

lemma atoi_pos:
  assumes "is_digit19 c"
  shows "0 < atoi (c # cs)"
proof -
  have "digit_val c \<le> atoi_digits 0 (c # cs)"
    using assms atoi_digits_mono [of "digit_val c" cs] is_digit19_digit by simp
  moreover have "0 < digit_val c"
    using assms by (simp add: is_digit19_def digit_val_def)
  ultimately show ?thesis
    using assms by (simp add: atoi_digit_start is_digit19_digit clamp_int_def)
qed

subsection \<open>The \<open>%d\<close> conversion\<close>

fun nat_str :: "nat \<Rightarrow> string" where
  "nat_str n = (if n < 10 then [digit_char n] else nat_str (n div 10) @ [digit_char (n mod 10)])"

declare nat_str.simps [simp del]

definition int_str :: "int \<Rightarrow> string" where
  "int_str i = (if i < 0 then CHR ''-'' # nat_str (nat (- i)) else nat_str (nat i))"

lemma atoi_digits_append:
  "(\<forall>c \<in> set s. is_digit c) \<Longrightarrow> atoi_digits acc (s @ t) = atoi_digits (atoi_digits acc s) t"
  by (induction s arbitrary: acc) auto

lemma nat_str_digits: "\<forall>c \<in> set (nat_str n). is_digit c"
proof (induction n rule: nat_str.induct)
  case (1 n)
  then show ?case by (subst nat_str.simps) auto
qed

lemma nat_str_not_Nil [simp]: "nat_str n \<noteq> []"
  by (subst nat_str.simps) simp

lemma atoi_digits_nat_str [simp]: "atoi_digits 0 (nat_str n) = n"
proof (induction n rule: nat_str.induct)
  case (1 n)
  show ?case
  proof (cases "n < 10")
    case True
    then show ?thesis by (subst nat_str.simps) simp
  next
    case False
    with "1" show ?thesis
      by (subst nat_str.simps) (simp add: atoi_digits_append nat_str_digits)
  qed
qed

lemma atoi_nat_str: "n < 2 ^ 31 \<Longrightarrow> atoi (nat_str n) = int n"
proof -
  assume n: "n < 2 ^ 31"
  obtain c cs where s: "nat_str n = c # cs" by (cases "nat_str n") auto
  then have "is_digit c" using nat_str_digits [of n] by simp
  then have "atoi (nat_str n) = clamp_int (int (atoi_digits 0 (nat_str n)))"
    by (simp add: s atoi_digit_start)
  with n show ?thesis by (simp add: clamp_int_def)
qed

lemma nat_str_hd19: "0 < n \<Longrightarrow> is_digit19 (hd (nat_str n))"
proof (induction n rule: nat_str.induct)
  case (1 n)
  show ?case
  proof (cases "n < 10")
    case True
    with "1.prems" show ?thesis
      by (subst nat_str.simps) (simp add: is_digit19_def digit_char_def cval_char_of)
  next
    case False
    with "1" have "is_digit19 (hd (nat_str (n div 10)))" by simp
    with False show ?thesis by (subst nat_str.simps) simp
  qed
qed

lemma nat_str_no_char: "\<not> is_digit c \<Longrightarrow> c \<notin> set (nat_str n)"
  using nat_str_digits by blast

lemma nat_str_length_le: "n < 10 ^ k \<Longrightarrow> 0 < k \<Longrightarrow> length (nat_str n) \<le> k"
proof (induction n arbitrary: k rule: nat_str.induct)
  case (1 n)
  show ?case
  proof (cases "n < 10")
    case True
    with "1.prems" show ?thesis by (subst nat_str.simps) simp
  next
    case False
    then obtain k' where k: "k = Suc k'" "0 < k'"
      using "1.prems" by (cases k; cases "k - 1") auto
    with False "1.prems" have "n div 10 < 10 ^ k'"
      by (simp add: less_mult_imp_div_less mult.commute)
    with "1.IH" False k have "length (nat_str (n div 10)) \<le> k'" by simp
    with False k show ?thesis by (subst nat_str.simps) simp
  qed
qed

section \<open>Comparing and searching strings\<close>

fun strcmp :: "string \<Rightarrow> string \<Rightarrow> int" where
  "strcmp [] [] = 0"
| "strcmp [] (_ # _) = -1"
| "strcmp (_ # _) [] = 1"
| "strcmp (a # s) (b # t) =
     (if a = b then strcmp s t else if cval a < cval b then -1 else 1)"

lemma strcmp_eq_0 [simp]: "strcmp s t = 0 \<longleftrightarrow> s = t"
  by (induction s t rule: strcmp.induct) auto

definition strcasecmp_eq :: "string \<Rightarrow> string \<Rightarrow> bool" where
  "strcasecmp_eq s t \<longleftrightarrow> lower s = lower t"

text \<open>\<open>prefix_of p s\<close>: \<open>strncmp (s, p, strlen (p)) == 0\<close> and \<open>memcmp (s, p, strlen (p)) == 0\<close>
  on a buffer that holds \<open>s\<close>.\<close>

fun prefix_of :: "string \<Rightarrow> string \<Rightarrow> bool" where
  "prefix_of [] s = True"
| "prefix_of (c # p) [] = False"
| "prefix_of (c # p) (d # s) = (c = d \<and> prefix_of p s)"

lemma prefix_of_iff: "prefix_of p s \<longleftrightarrow> (\<exists>t. s = p @ t)"
  by (induction p s rule: prefix_of.induct) auto

lemma prefix_of_append [simp]: "prefix_of p (p @ t)"
  by (auto simp: prefix_of_iff)

text \<open>\<open>strstr\<close>: the text in front of the first occurrence, and the text from it on.\<close>

fun strstr :: "string \<Rightarrow> string \<Rightarrow> (string \<times> string) option" where
  "strstr [] p = (if p = [] then Some ([], []) else None)"
| "strstr (c # s) p =
     (if prefix_of p (c # s) then Some ([], c # s)
      else map_option (\<lambda>(a, b). (c # a, b)) (strstr s p))"

lemma strstr_SomeD: "strstr s p = Some (a, b) \<Longrightarrow> s = a @ b \<and> prefix_of p b"
proof (induction s arbitrary: a b)
  case Nil
  then show ?case by (auto split: if_splits)
next
  case (Cons c s)
  then show ?case by (auto split: if_splits)
qed

lemma strstr_NoneD: "strstr s p = None \<Longrightarrow> s \<noteq> a @ p @ b"
proof (induction s arbitrary: a)
  case Nil
  then show ?case by (auto split: if_splits)
next
  case (Cons c s)
  show ?case
  proof (cases a)
    case Nil
    with Cons.prems show ?thesis by (auto split: if_splits simp: prefix_of_iff)
  next
    case (Cons d a')
    with Cons.prems Cons.IH show ?thesis by (auto split: if_splits)
  qed
qed

text \<open>\<open>strtok\<close> over a whole string: the maximal runs of characters that are not delimiters.\<close>

function strtok_all :: "char \<Rightarrow> string \<Rightarrow> string list" where
  "strtok_all d s =
     (let s' = dropWhile (\<lambda>c. c = d) s
      in if s' = [] then []
         else takeWhile (\<lambda>c. c \<noteq> d) s' # strtok_all d (dropWhile (\<lambda>c. c \<noteq> d) s'))"
  by pat_completeness auto
termination
proof (relation "measure (\<lambda>(d, s). length s)", goal_cases)
  case 1
  show ?case by simp
next
  case (2 d s s')
  then have "hd s' \<noteq> d" using hd_dropWhile [of "\<lambda>c. c = d" s] by simp
  with 2(2) have "length (dropWhile (\<lambda>c. c \<noteq> d) s') < length s'"
    by (cases s') (simp_all add: le_imp_less_Suc length_dropWhile_le)
  moreover have "length s' \<le> length s" using 2 by (simp add: length_dropWhile_le)
  ultimately show ?case by simp
qed

declare strtok_all.simps [simp del]

section \<open>Lists\<close>

lemma takeWhile_append_stop [simp]: "\<forall>x \<in> set xs. P x \<Longrightarrow> \<not> P y \<Longrightarrow> takeWhile P (xs @ y # ys) = xs"
  by (induction xs) auto

lemma dropWhile_append_stop [simp]:
  "\<forall>x \<in> set xs. P x \<Longrightarrow> \<not> P y \<Longrightarrow> dropWhile P (xs @ y # ys) = y # ys"
  by (induction xs) auto

lemma find_map_Some_iff:
  "distinct (map f xs) \<Longrightarrow> x \<in> set xs \<Longrightarrow> find (\<lambda>y. f y = f x) xs = Some x"
proof (induction xs)
  case (Cons a xs)
  show ?case
  proof (cases "f a = f x")
    case True
    with Cons.prems have "a = x" by (auto simp: image_iff)
    then show ?thesis by simp
  qed (use Cons in auto)
qed simp

end
