(* ===== verification/CfgType.thy ===== *)
theory CfgType
  imports CPrelude
begin

text \<open>
  The type tree of the configuration service (\<open>service/cfg/cfg_type.c\<close>,
  \<open>cfg_type.h\<close>, the structures of \<open>cfg_cli.h\<close>): the node types, the numbering
  \<open>cfg_type_init\<close> gives them, the cache that finds a type by its number, and the
  path of type names of a number.

  A pointer to a type is the node itself. The \<open>subtype\<close> array is the list of the
  children, without its closing NULL, and a node's \<open>parent\<close> is the node whose array
  holds it. Where the code walks from a node to its next brother, the model keeps the
  rest of the parent's array, beginning with the node: \<open>cfg_type_get_brother\<close> searches
  that array for the node and returns the element after it.

  A function pointer of \<open>cfg_node_type_ops\<close> is a symbolic address: the default function
  of \<open>cfg_type.c\<close>, or the handler of the given name.
\<close>

section \<open>Data\<close>

datatype fptr = DefaultFunc | Handler string

record cfg_node_ops =
  op_create :: "fptr option"
  op_delete :: "fptr option"
  op_set :: "fptr option"
  op_get :: "fptr option"
  op_commit :: "fptr option"
  op_query :: "fptr option"
  op_memory_type_read :: "fptr option"

datatype cfg_node_type =
  CfgType (type_id: u32) (type_name: string) (type_flag: u32)
    (type_subtype: "cfg_node_type list") (type_ops: "cfg_node_ops option")
    (type_index: "string list option")

definition CFG_TYPE_BASE_VAL :: nat where "CFG_TYPE_BASE_VAL = 100"
definition CFG_TYPE_MAX_NUM :: nat where "CFG_TYPE_MAX_NUM = 1000"
definition CFG_TYPE_FLAG_MULTIPLE :: u32 where "CFG_TYPE_FLAG_MULTIPLE = push_bit 8 1"
definition CFG_TYPE_FLAG_MEMORY :: u32 where "CFG_TYPE_FLAG_MEMORY = push_bit 9 1"
definition CFG_TYPE_FLAG_UPDATE :: u32 where "CFG_TYPE_FLAG_UPDATE = push_bit 10 1"
definition CFG_MAX_TYPE_NAME :: nat where "CFG_MAX_TYPE_NAME = 32"
definition CFG_MAX_NODE_LEVEL :: nat where "CFG_MAX_NODE_LEVEL = 8"
definition CFG_MAX_PATH_NAME :: nat where "CFG_MAX_PATH_NAME = 512"

lemmas cfg_consts [c_defs] =
  CFG_TYPE_BASE_VAL_def CFG_TYPE_MAX_NUM_def CFG_MAX_TYPE_NAME_def CFG_MAX_NODE_LEVEL_def
  CFG_MAX_PATH_NAME_def

text \<open>The three file-scope variables: \<open>cfg_type_root_ptr\<close>, \<open>cfg_type_cache\<close> (its first
  \<open>cfg_type_total_cnt\<close> entries) and \<open>cfg_type_total_cnt\<close>.\<close>

record type_db =
  db_root :: cfg_node_type
  db_cache :: "cfg_node_type list"

definition cfg_type_get_root :: "type_db \<Rightarrow> cfg_node_type" where
  "cfg_type_get_root db = db_root db"

section \<open>Operations\<close>

definition cfg_type_find_by_id :: "type_db \<Rightarrow> u32 \<Rightarrow> cfg_node_type option" where
  "cfg_type_find_by_id db i =
     (let k = unat (i - of_nat CFG_TYPE_BASE_VAL)
      in if k < length (db_cache db) then Some (db_cache db ! k) else None)"

definition cfg_type_is_dynamic_type :: "type_db \<Rightarrow> u32 \<Rightarrow> bool" where
  "cfg_type_is_dynamic_type db i =
     (case cfg_type_find_by_id db i of
        None \<Rightarrow> False
      | Some node \<Rightarrow>
          (case type_ops node of None \<Rightarrow> False | Some ops \<Rightarrow> op_create ops \<noteq> None))"

definition cfg_type_get_child :: "cfg_node_type \<Rightarrow> cfg_node_type option" where
  "cfg_type_get_child node =
     (case type_subtype node of [] \<Rightarrow> None | c # _ \<Rightarrow> Some c)"

text \<open>The loop of \<open>cfg_type_get_brother\<close> over the parent's array; a node is told apart by
  its number.\<close>

fun brother_in :: "cfg_node_type list \<Rightarrow> cfg_node_type \<Rightarrow> cfg_node_type option" where
  "brother_in [] node = None"
| "brother_in (c # cs) node =
     (if type_id c = type_id node then (case cs of [] \<Rightarrow> None | b # _ \<Rightarrow> Some b)
      else brother_in cs node)"

definition cfg_type_get_brother ::
  "cfg_node_type option \<Rightarrow> cfg_node_type \<Rightarrow> cfg_node_type option" where
  "cfg_type_get_brother parent node =
     (case parent of None \<Rightarrow> None | Some p \<Rightarrow> brother_in (type_subtype p) node)"

text \<open>\<open>cfg_type_alloc_id\<close> on a node and the brothers that follow it, from the count
  \<open>cnt\<close>: it numbers the node, enters it in the cache, then goes to the first child and
  then to the next brother. The result is the numbered nodes, the new cache entries and
  the new count. The cache has \<open>CFG_TYPE_MAX_NUM\<close> entries and the code does not look.\<close>

fun cfg_type_alloc_id ::
  "cfg_node_type list \<Rightarrow> nat \<Rightarrow> (cfg_node_type list \<times> cfg_node_type list \<times> nat) cres" where
  "cfg_type_alloc_id [] cnt = Ret ([], [], cnt)"
| "cfg_type_alloc_id (CfgType i nm fl subs ops ix # bs) cnt =
     (if CFG_TYPE_MAX_NUM \<le> cnt then Fault BufferOverflow
      else cbind (cfg_type_alloc_id subs (Suc cnt)) (\<lambda>(subs', cache1, cnt1).
           cbind (cfg_type_alloc_id bs cnt1) (\<lambda>(bs', cache2, cnt2).
             let node = CfgType (of_nat (CFG_TYPE_BASE_VAL + cnt)) nm fl subs' ops ix
             in Ret (node # bs', node # cache1 @ cache2, cnt2))))"

definition cfg_type_init :: "cfg_node_type \<Rightarrow> type_db cres" where
  "cfg_type_init root =
     cbind (cfg_type_alloc_id [root] 0) (\<lambda>(ns, cache, cnt).
       case ns of
         [] \<Rightarrow> Fault NullDeref
       | r # _ \<Rightarrow> Ret \<lparr>db_root = r, db_cache = cache\<rparr>)"

text \<open>The type names met on the way up the \<open>parent\<close> pointers from the node numbered \<open>i\<close>,
  the root first.\<close>

fun type_names_up :: "u32 \<Rightarrow> cfg_node_type list \<Rightarrow> string list option" where
  "type_names_up i [] = None"
| "type_names_up i (CfgType j nm fl subs ops ix # bs) =
     (if j = i then Some [nm]
      else case type_names_up i subs of
             Some ns \<Rightarrow> Some (nm # ns)
           | None \<Rightarrow> type_names_up i bs)"

fun join_dots :: "string list \<Rightarrow> string" where
  "join_dots [] = []"
| "join_dots [x] = x"
| "join_dots (x # y # xs) = x @ CHR ''.'' # join_dots (y # xs)"

text \<open>\<open>cfg_type_id_to_path\<close>: the result code and what it leaves in the caller's buffer of
  \<open>buflen\<close> bytes. The names are collected in an array of \<open>CFG_MAX_NODE_LEVEL\<close> rows; the
  walk upwards does not look at its size.\<close>

definition cfg_type_id_to_path :: "type_db \<Rightarrow> u32 \<Rightarrow> nat \<Rightarrow> (int \<times> string) cres" where
  "cfg_type_id_to_path db i buflen =
     (case cfg_type_find_by_id db i of
        None \<Rightarrow> Ret (-1, [])
      | Some t \<Rightarrow>
          (case type_names_up (type_id t) [db_root db] of
             None \<Rightarrow> Ret (-1, [])
           | Some ns \<Rightarrow>
               if CFG_MAX_NODE_LEVEL < length ns then Fault BufferOverflow
               else Ret (0, take (buflen - 1) (join_dots (map (take (CFG_MAX_TYPE_NAME - 1)) ns)))))"

section \<open>All nodes of a tree\<close>

fun type_nodes :: "cfg_node_type list \<Rightarrow> cfg_node_type list" where
  "type_nodes [] = []"
| "type_nodes (CfgType i nm fl subs ops ix # bs) =
     CfgType i nm fl subs ops ix # type_nodes subs @ type_nodes bs"

text \<open>The tree without its numbers: what \<open>cfg_type_alloc_id\<close> must not change.\<close>

fun unnumbered :: "cfg_node_type list \<Rightarrow> cfg_node_type list" where
  "unnumbered [] = []"
| "unnumbered (CfgType i nm fl subs ops ix # bs) =
     CfgType 0 nm fl (unnumbered subs) ops ix # unnumbered bs"

lemma length_type_nodes_unnumbered: "length (type_nodes (unnumbered ts)) = length (type_nodes ts)"
  by (induction ts rule: type_nodes.induct) auto

lemma length_unnumbered: "length (unnumbered ts) = length ts"
  by (induction ts rule: unnumbered.induct) auto

lemma alloc_id_spec:
  assumes "cfg_type_alloc_id ts cnt = Ret (ts', cache, cnt')"
  shows "cache = type_nodes ts' \<and> unnumbered ts' = unnumbered ts \<and> cnt' = cnt + length cache
    \<and> map type_id cache = map (\<lambda>k. of_nat (CFG_TYPE_BASE_VAL + k)) [cnt ..< cnt']
    \<and> (ts \<noteq> [] \<longrightarrow> cnt' \<le> CFG_TYPE_MAX_NUM)"
  using assms
proof (induction ts cnt arbitrary: ts' cache cnt' rule: cfg_type_alloc_id.induct)
  case (1 cnt)
  then show ?case by auto
next
  case (2 i nm fl subs ops ix bs cnt)
  from "2.prems" have lt: "\<not> CFG_TYPE_MAX_NUM \<le> cnt" by (auto split: if_splits)
  from "2.prems" lt obtain subs' cache1 cnt1 bs' cache2 where
      s: "cfg_type_alloc_id subs (Suc cnt) = Ret (subs', cache1, cnt1)"
    and b: "cfg_type_alloc_id bs cnt1 = Ret (bs', cache2, cnt')"
    and ts': "ts' = CfgType (of_nat (CFG_TYPE_BASE_VAL + cnt)) nm fl subs' ops ix # bs'"
    and cache: "cache = CfgType (of_nat (CFG_TYPE_BASE_VAL + cnt)) nm fl subs' ops ix # cache1 @ cache2"
    by (auto simp: Let_def)
  note IHs = "2.IH"(1) [OF lt s]
  from s b lt have IHb: "cache2 = type_nodes bs' \<and> unnumbered bs' = unnumbered bs
      \<and> cnt' = cnt1 + length cache2
      \<and> map type_id cache2 = map (\<lambda>k. of_nat (CFG_TYPE_BASE_VAL + k)) [cnt1 ..< cnt']
      \<and> (bs \<noteq> [] \<longrightarrow> cnt' \<le> CFG_TYPE_MAX_NUM)"
    by (intro "2.IH"(2)) auto
  have le: "Suc cnt \<le> cnt1" "cnt1 \<le> cnt'" using IHs IHb by auto
  have "[cnt ..< cnt'] = cnt # [Suc cnt ..< cnt1] @ [cnt1 ..< cnt']"
    using le by (metis Suc_le_lessD le_Suc_ex less_le_trans upt_add_eq_append upt_conv_Cons)
  moreover have "cnt' \<le> CFG_TYPE_MAX_NUM"
    using IHs IHb s b lt by (cases subs; cases bs) auto
  ultimately show ?case using IHs IHb ts' cache by auto
qed

lemma alloc_id_total:
  "cnt + length (type_nodes ts) \<le> CFG_TYPE_MAX_NUM \<Longrightarrow>
   \<exists>ts' cache. cfg_type_alloc_id ts cnt = Ret (ts', cache, cnt + length (type_nodes ts))"
proof (induction ts cnt rule: cfg_type_alloc_id.induct)
  case (1 cnt)
  then show ?case by simp
next
  case (2 i nm fl subs ops ix bs cnt)
  then have lt: "\<not> CFG_TYPE_MAX_NUM \<le> cnt" by simp
  from "2.IH"(1) [OF lt] "2.prems" obtain subs' cache1 where
    s: "cfg_type_alloc_id subs (Suc cnt) = Ret (subs', cache1, Suc cnt + length (type_nodes subs))"
    by auto
  from "2.IH"(2) [OF lt s refl refl] "2.prems" obtain bs' cache2 where
    "cfg_type_alloc_id bs (Suc cnt + length (type_nodes subs)) =
       Ret (bs', cache2, Suc cnt + length (type_nodes subs) + length (type_nodes bs))"
    by auto
  with s lt show ?case by (simp add: Let_def)
qed

section \<open>A numbered type tree\<close>

text \<open>What \<open>cfg_type_init\<close> establishes and every later function relies on.\<close>

definition db_ok :: "type_db \<Rightarrow> bool" where
  "db_ok db \<longleftrightarrow>
     db_cache db = type_nodes [db_root db] \<and>
     length (db_cache db) \<le> CFG_TYPE_MAX_NUM \<and>
     map type_id (db_cache db) =
       map (\<lambda>k. of_nat (CFG_TYPE_BASE_VAL + k)) [0 ..< length (db_cache db)]"

lemma db_okD:
  assumes "db_ok db"
  shows "type_nodes [db_root db] = db_cache db"
    and "length (db_cache db) \<le> CFG_TYPE_MAX_NUM"
    and "map type_id (db_cache db) =
       map (\<lambda>k. of_nat (CFG_TYPE_BASE_VAL + k)) [0 ..< length (db_cache db)]"
  using assms by (auto simp: db_ok_def)

lemma db_ok_nth:
  assumes "db_ok db" and "k < length (db_cache db)"
  shows "type_id (db_cache db ! k) = of_nat (CFG_TYPE_BASE_VAL + k)"
proof -
  have "type_id (db_cache db ! k) = map type_id (db_cache db) ! k"
    using assms(2) by simp
  also have "\<dots> = of_nat (CFG_TYPE_BASE_VAL + k)"
    using assms(2) by (simp add: db_okD(3) [OF assms(1)])
  finally show ?thesis .
qed

lemma unat_small [simp]: "k < 2 ^ 32 \<Longrightarrow> unat (of_nat k :: u32) = k"
  by (simp add: unat_of_nat)

lemma find_by_id_nth:
  assumes "db_ok db" and "k < length (db_cache db)"
  shows "cfg_type_find_by_id db (of_nat (CFG_TYPE_BASE_VAL + k)) = Some (db_cache db ! k)"
proof -
  have "k < 2 ^ 32" using db_okD(2) [OF assms(1)] assms(2) by (simp add: c_defs)
  with assms(2) show ?thesis by (simp add: cfg_type_find_by_id_def Let_def)
qed

lemma find_by_id_node:
  assumes "db_ok db" and "t \<in> set (type_nodes [db_root db])"
  shows "cfg_type_find_by_id db (type_id t) = Some t"
proof -
  from assms obtain k where k: "k < length (db_cache db)" "t = db_cache db ! k"
    by (auto simp: db_okD(1) in_set_conv_nth simp del: type_nodes.simps)
  with assms(1) find_by_id_nth db_ok_nth show ?thesis by metis
qed

lemma find_by_id_Some:
  assumes "db_ok db" and "cfg_type_find_by_id db i = Some t"
  shows "t \<in> set (type_nodes [db_root db])" and "type_id t = i"
proof -
  from assms(2) have k: "unat (i - of_nat CFG_TYPE_BASE_VAL) < length (db_cache db)"
    and t: "t = db_cache db ! unat (i - of_nat CFG_TYPE_BASE_VAL)"
    by (auto simp: cfg_type_find_by_id_def Let_def split: if_splits)
  from k t assms(1) show "t \<in> set (type_nodes [db_root db])"
    by (metis db_ok_def nth_mem)
  from db_ok_nth [OF assms(1) k] t show "type_id t = i" by simp
qed

lemma db_ok_id_bounds:
  assumes "db_ok db" and "t \<in> set (type_nodes [db_root db])"
  shows "CFG_TYPE_BASE_VAL \<le> unat (type_id t)" and "unat (type_id t) < CFG_TYPE_BASE_VAL + CFG_TYPE_MAX_NUM"
proof -
  from assms obtain k where k: "k < length (db_cache db)" "t = db_cache db ! k"
    by (auto simp: db_okD(1) in_set_conv_nth simp del: type_nodes.simps)
  then have i: "type_id t = of_nat (CFG_TYPE_BASE_VAL + k)" using assms(1) db_ok_nth by metis
  have b: "k < CFG_TYPE_MAX_NUM" using db_okD(2) [OF assms(1)] k(1) by simp
  then have "CFG_TYPE_BASE_VAL + k < 2 ^ 32" by (simp add: c_defs)
  then have u: "unat (type_id t) = CFG_TYPE_BASE_VAL + k" unfolding i by (rule unat_small)
  show "CFG_TYPE_BASE_VAL \<le> unat (type_id t)" unfolding u by simp
  show "unat (type_id t) < CFG_TYPE_BASE_VAL + CFG_TYPE_MAX_NUM" unfolding u using b by simp
qed

lemma db_ok_distinct:
  assumes "db_ok db"
  shows "distinct (map type_id (type_nodes [db_root db]))"
proof -
  let ?f = "\<lambda>k. of_nat (CFG_TYPE_BASE_VAL + k) :: u32"
  have "inj_on ?f {0 ..< length (db_cache db)}"
  proof (rule inj_onI)
    fix a b assume ab: "a \<in> {0 ..< length (db_cache db)}" "b \<in> {0 ..< length (db_cache db)}"
      and eq: "?f a = ?f b"
    have lt: "CFG_TYPE_BASE_VAL + a < 2 ^ 32" "CFG_TYPE_BASE_VAL + b < 2 ^ 32"
      using ab db_okD(2) [OF assms] by (auto simp: c_defs)
    from eq have "unat (?f a) = unat (?f b)" by simp
    then show "a = b" using lt by (simp only: unat_small)
  qed
  then have "distinct (map type_id (db_cache db))"
    unfolding db_okD(3) [OF assms] by (simp add: distinct_map)
  then show ?thesis by (simp only: db_okD(1) [OF assms])
qed

section \<open>Numbering is total and right\<close>

lemma init_spec:
  assumes "cfg_type_init root = Ret db"
  shows "db_ok db" and "unnumbered [db_root db] = unnumbered [root]"
    and "length (db_cache db) = length (type_nodes [root])"
proof -
  from assms obtain ns cache cnt where a': "cfg_type_alloc_id [root] 0 = Ret (ns, cache, cnt)"
    by (auto simp: cfg_type_init_def)
  with assms have "cache = db_cache db" and ns: "\<exists>rs. ns = db_root db # rs"
    by (auto simp: cfg_type_init_def split: list.splits)
  with a' have a: "cfg_type_alloc_id [root] 0 = Ret (ns, db_cache db, cnt)" by simp
  note sp = alloc_id_spec [OF a]
  from ns obtain rs where "ns = db_root db # rs" by blast
  moreover from sp have "length ns = 1" by (metis length_unnumbered length_Cons list.size(3) One_nat_def)
  ultimately have ns1: "ns = [db_root db]" by simp
  from sp show "db_ok db" by (auto simp: db_ok_def ns1)
  from sp show u: "unnumbered [db_root db] = unnumbered [root]" by (simp add: ns1)
  have "length (type_nodes [db_root db]) = length (type_nodes [root])"
    by (metis u length_type_nodes_unnumbered)
  with sp ns1 show "length (db_cache db) = length (type_nodes [root])" by simp
qed

lemma init_total:
  assumes "length (type_nodes [root]) \<le> CFG_TYPE_MAX_NUM"
  shows "\<exists>db. cfg_type_init root = Ret db"
proof -
  from alloc_id_total [of 0 "[root]"] assms obtain ts' cache where
    a: "cfg_type_alloc_id [root] 0 = Ret (ts', cache, length (type_nodes [root]))" by auto
  from alloc_id_spec [OF a] have "unnumbered ts' \<noteq> []" by (cases root) auto
  then have "ts' \<noteq> []" by auto
  with a show ?thesis by (cases ts') (auto simp: cfg_type_init_def)
qed

end
