(* ===== verification/CfgPath.thy ===== *)
theory CfgPath
  imports CfgType
begin

text \<open>
  Object paths (\<open>service/cfg/cfg_obj.c\<close>, lines 139 to 355 and 555 to 590): splitting a
  dotted path into tokens, the case-insensitive walk down the type tree, the path of a
  type, the array of object numbers of a path, and the parent of a path.

  A path is \<open>root.wan.pvc.1.entry.2\<close>: type names, each of which an instance number may
  follow. An object number holds the type number in its upper and the instance number in
  its lower half.
\<close>

section \<open>Object numbers\<close>

definition CFG_TYPE_SHIFT :: nat where "CFG_TYPE_SHIFT = 16"
definition CFG_TYPE_MASK :: u32 where "CFG_TYPE_MASK = 0xffff0000"
definition CFG_OBJ_MASK :: u32 where "CFG_OBJ_MASK = 0xffff"

definition cfg_obj_type :: "u32 \<Rightarrow> u32" where
  "cfg_obj_type x = drop_bit 16 x AND 0xffff"

definition cfg_obj_id :: "u32 \<Rightarrow> u32" where
  "cfg_obj_id x = x AND 0xffff"

definition mk_oid :: "u32 \<Rightarrow> u32 \<Rightarrow> u32" where
  "mk_oid tid oid = push_bit CFG_TYPE_SHIFT tid OR oid"

section \<open>Tokens and types\<close>

text \<open>The result code, the token and where the path goes on. The last token is copied with
  \<open>strcpy\<close> into the caller's buffer of \<open>CFG_MAX_TYPE_NAME\<close> bytes, whatever its length.\<close>

definition cfg_get_token :: "string option \<Rightarrow> (int \<times> string \<times> string) cres" where
  "cfg_get_token objpath =
     (case objpath of
        None \<Rightarrow> Ret (-1, [], [])
      | Some start \<Rightarrow>
          if start = [] \<or> hd start = CHR ''.'' then Ret (-1, [], start)
          else
            let token = takeWhile (\<lambda>c. c \<noteq> CHR ''.'') start;
                end = dropWhile (\<lambda>c. c \<noteq> CHR ''.'') start
            in if end \<noteq> []
               then if CFG_MAX_TYPE_NAME \<le> length token then Ret (-1, [], start)
                    else Ret (1, token, tl end)
               else if CFG_MAX_TYPE_NAME \<le> length token then Fault BufferOverflow
                    else Ret (0, token, []))"

definition cfg_str_to_lower :: "string \<Rightarrow> string" where
  "cfg_str_to_lower str = lower str"

definition cfg_type_compare :: "string option \<Rightarrow> string option \<Rightarrow> int" where
  "cfg_type_compare s1 s2 =
     (case (s1, s2) of
        (Some a, Some b) \<Rightarrow>
          strcmp (cfg_str_to_lower (take (CFG_MAX_TYPE_NAME - 1) a))
                 (cfg_str_to_lower (take (CFG_MAX_TYPE_NAME - 1) b))
      | _ \<Rightarrow> -1)"

definition cfg_type_query_child ::
  "type_db \<Rightarrow> cfg_node_type option \<Rightarrow> string option \<Rightarrow> cfg_node_type option" where
  "cfg_type_query_child db type child =
     (case child of
        None \<Rightarrow> None
      | Some _ \<Rightarrow>
          (case type of
             None \<Rightarrow>
               if cfg_type_compare (Some (type_name (cfg_type_get_root db))) child = 0
               then Some (cfg_type_get_root db) else None
           | Some t \<Rightarrow>
               find (\<lambda>subtype. cfg_type_compare (Some (type_name subtype)) child = 0)
                 (type_subtype t)))"

definition token_digit :: "string \<Rightarrow> int" where
  "token_digit token =
     (if token \<noteq> [] \<and> is_digit19 (hd token) then atoi token else 0)"

lemma get_token_rest_less:
  "cfg_get_token (Some tmp) = Ret (r, token, rest) \<Longrightarrow> 0 \<le> r \<Longrightarrow> length rest < length tmp"
proof -
  assume a: "cfg_get_token (Some tmp) = Ret (r, token, rest)" and r: "0 \<le> r"
  then have ne: "tmp \<noteq> []" "hd tmp \<noteq> CHR ''.''"
    by (simp_all add: cfg_get_token_def split: if_splits)
  let ?e = "dropWhile (\<lambda>c. c \<noteq> CHR ''.'') tmp"
  have "length ?e \<le> length tmp" by (rule length_dropWhile_le)
  moreover have "0 < length tmp" using ne(1) by simp
  moreover have "length (tl ?e) = length ?e - 1" by simp
  ultimately have "length (tl ?e) < length tmp" by linarith
  with a r ne show ?thesis
    by (auto simp: cfg_get_token_def Let_def split: if_splits)
qed

text \<open>The loop of \<open>cfg_type_query\<close> from its state \<open>(tmp, node, need_alpha, level)\<close>.\<close>

function cfg_type_query_loop ::
  "type_db \<Rightarrow> string \<Rightarrow> cfg_node_type option \<Rightarrow> bool \<Rightarrow> nat \<Rightarrow> cfg_node_type option cres" where
  "cfg_type_query_loop db tmp node need_alpha level =
     (case cfg_get_token (Some tmp) of
        Fault e \<Rightarrow> Fault e
      | Ret (r, token, rest) \<Rightarrow>
          if 0 \<le> r \<and> level < CFG_MAX_NODE_LEVEL
          then let digit = token_digit token
               in if need_alpha \<and> digit \<noteq> 0 then Ret None
                  else if digit \<noteq> 0 then cfg_type_query_loop db rest node True (Suc level)
                  else (case cfg_type_query_child db node (Some token) of
                          None \<Rightarrow> Ret None
                        | Some n \<Rightarrow> cfg_type_query_loop db rest (Some n) False (Suc level))
          else if (if 0 \<le> r then rest else tmp) \<noteq> [] \<or> level = CFG_MAX_NODE_LEVEL then Ret None
          else Ret node)"
  by pat_completeness auto
termination
  by (relation "measure (\<lambda>(db, tmp, node, na, lv). length tmp)")
     (auto dest: get_token_rest_less)

declare cfg_type_query_loop.simps [simp del]

definition cfg_type_query :: "type_db \<Rightarrow> string \<Rightarrow> cfg_node_type option cres" where
  "cfg_type_query db path = cfg_type_query_loop db path None True 0"

definition cfg_type_path_to_id :: "type_db \<Rightarrow> string \<Rightarrow> int cres" where
  "cfg_type_path_to_id db path =
     cbind (cfg_type_query db path) (\<lambda>t.
       Ret (case t of None \<Rightarrow> -1 | Some n \<Rightarrow> sint (type_id n)))"

section \<open>The object numbers of a path\<close>

text \<open>The loop of \<open>cfg_path_to_oid_array\<close>: \<open>objid\<close> holds the entries written so far (its
  length is \<open>level\<close>). The result is the array, or \<open>None\<close> for the return value -1.\<close>

function oid_array_loop ::
  "type_db \<Rightarrow> string \<Rightarrow> u32 list \<Rightarrow> cfg_node_type option \<Rightarrow> bool \<Rightarrow> u32 \<Rightarrow> u32 \<Rightarrow>
   u32 list option cres" where
  "oid_array_loop db tmp objid node need_alpha oid tid =
     (case cfg_get_token (Some tmp) of
        Fault e \<Rightarrow> Fault e
      | Ret (r, token, rest) \<Rightarrow>
          if 0 \<le> r \<and> length objid < CFG_MAX_NODE_LEVEL
          then let digit = token_digit token
               in if need_alpha \<and> digit \<noteq> 0 then Ret None
                  else if digit \<noteq> 0
                  then oid_array_loop db rest objid node True (word_of_int digit) tid
                  else let objid' = (if oid \<noteq> 0 \<and> tid \<noteq> 0 then objid @ [mk_oid tid oid] else objid)
                       in (case cfg_type_query_child db node (Some token) of
                             None \<Rightarrow> Ret None
                           | Some n \<Rightarrow> oid_array_loop db rest objid' (Some n) False 1 (type_id n))
          else if (if 0 \<le> r then rest else tmp) \<noteq> [] \<or> length objid = CFG_MAX_NODE_LEVEL
          then Ret None
          else Ret (Some (objid @ [mk_oid tid oid])))"
  by pat_completeness auto
termination
  by (relation "measure (\<lambda>(db, tmp, objid, node, na, oid, tid). length tmp)")
     (auto dest: get_token_rest_less)

declare oid_array_loop.simps [simp del]

definition cfg_path_to_oid_array :: "type_db \<Rightarrow> string \<Rightarrow> u32 list option cres" where
  "cfg_path_to_oid_array db objpath = oid_array_loop db objpath [] None True 0 0"

text \<open>The text after the last dot, or \<open>None\<close> when the backward search stops at the first
  character (it also does when that character is the only dot).\<close>

definition last_component :: "string \<Rightarrow> string option" where
  "last_component objpath =
     (let after = rev (takeWhile (\<lambda>c. c \<noteq> CHR ''.'') (rev objpath));
          dot = length objpath - Suc (length after)
      in if length after < length objpath \<and> 0 < dot then Some after else None)"

definition cfg_path_to_oid :: "type_db \<Rightarrow> string \<Rightarrow> u32 cres" where
  "cfg_path_to_oid db objpath =
     (let isid = (case last_component objpath of None \<Rightarrow> False | Some s \<Rightarrow> 0 < atoi s)
      in cbind (cfg_path_to_oid_array db objpath) (\<lambda>ids.
           case ids of
             None \<Rightarrow> Ret 0
           | Some objid \<Rightarrow>
               if objid = [] \<or> CFG_MAX_NODE_LEVEL \<le> length objid then Ret 0
               else Ret (if isid then last objid else last objid AND CFG_TYPE_MASK)))"

section \<open>The parent of a path\<close>

text \<open>\<open>cut_dot s len\<close> is the backward loop: the greatest index at most \<open>len\<close> that holds a
  dot, or 0.\<close>

fun cut_dot :: "string \<Rightarrow> nat \<Rightarrow> nat" where
  "cut_dot s 0 = 0"
| "cut_dot s (Suc n) =
     (if Suc n < length s \<and> s ! Suc n = CHR ''.'' then Suc n else cut_dot s n)"

text \<open>The parent is copied with \<open>strcpy\<close> into a buffer of \<open>CFG_MAX_PATH_NAME\<close> bytes.\<close>

definition cfg_get_parent_path :: "string option \<Rightarrow> (int \<times> string) cres" where
  "cfg_get_parent_path objpath =
     (case objpath of
        None \<Rightarrow> Ret (-1, [])
      | Some p \<Rightarrow>
          if CFG_MAX_PATH_NAME \<le> length p then Fault BufferOverflow
          else
            let len = cut_dot p (length p)
            in if len = 0 then Ret (-1, p)
               else if Suc len < length p \<and> is_digit (p ! Suc len)
               then let len2 = cut_dot p (len - 1)
                    in if len2 = 0 then Ret (-1, p) else Ret (0, take len2 p)
               else Ret (0, take len p))"

section \<open>Well-formed names and paths\<close>

definition name_ok :: "string \<Rightarrow> bool" where
  "name_ok n \<longleftrightarrow> n \<noteq> [] \<and> CHR ''.'' \<notin> set n \<and> \<not> is_digit19 (hd n) \<and> length n < CFG_MAX_TYPE_NAME"

definition token_ok :: "string \<Rightarrow> bool" where
  "token_ok n \<longleftrightarrow> n \<noteq> [] \<and> CHR ''.'' \<notin> set n \<and> length n < CFG_MAX_TYPE_NAME"

text \<open>The names of a type tree: no dot, no leading digit 1 to 9, short enough, and different
  from its brothers' without regard to case.\<close>

fun types_ok :: "cfg_node_type list \<Rightarrow> bool" where
  "types_ok [] = True"
| "types_ok (CfgType i nm fl subs ops ix # bs) =
     (name_ok nm \<and> lower nm \<notin> set (map (\<lambda>t. lower (type_name t)) bs)
      \<and> types_ok subs \<and> types_ok bs)"

definition sub_types :: "type_db \<Rightarrow> cfg_node_type option \<Rightarrow> cfg_node_type list" where
  "sub_types db node = (case node of None \<Rightarrow> [db_root db] | Some t \<Rightarrow> type_subtype t)"

definition name_match :: "string \<Rightarrow> string \<Rightarrow> bool" where
  "name_match a b \<longleftrightarrow>
     lower (take (CFG_MAX_TYPE_NAME - 1) a) = lower (take (CFG_MAX_TYPE_NAME - 1) b)"

lemma sub_types_simps [simp]:
  "sub_types db None = [db_root db]" "sub_types db (Some t) = type_subtype t"
  by (simp_all add: sub_types_def)

lemma name_ok_token [simp]: "name_ok n \<Longrightarrow> token_ok n"
  by (simp add: name_ok_def token_ok_def)

lemma name_ok_digit [simp]: "name_ok n \<Longrightarrow> token_digit n = 0"
  by (simp add: name_ok_def token_digit_def)

lemma name_match_ok: "name_ok a \<Longrightarrow> name_ok b \<Longrightarrow> name_match a b \<longleftrightarrow> lower a = lower b"
  by (auto simp: name_match_def name_ok_def c_defs)

lemma query_child_find:
  "cfg_type_query_child db node (Some tok) =
     find (\<lambda>t. name_match (type_name t) tok) (sub_types db node)"
  by (auto simp: cfg_type_query_child_def cfg_type_compare_def cfg_str_to_lower_def
      name_match_def sub_types_def cfg_type_get_root_def split: option.splits)

lemma get_token_mid:
  assumes "token_ok t"
  shows "cfg_get_token (Some (t @ CHR ''.'' # rest)) = Ret (1, t, rest)"
proof -
  have nd: "\<forall>c \<in> set t. c \<noteq> CHR ''.''" using assms by (auto simp: token_ok_def)
  have "takeWhile (\<lambda>c. c \<noteq> CHR ''.'') (t @ CHR ''.'' # rest) = t"
    and "dropWhile (\<lambda>c. c \<noteq> CHR ''.'') (t @ CHR ''.'' # rest) = CHR ''.'' # rest"
    using nd by (simp_all only: takeWhile_append_stop dropWhile_append_stop simp_thms)
  moreover have "hd (t @ CHR ''.'' # rest) \<noteq> CHR ''.''"
    using assms nd by (cases t) (simp_all add: token_ok_def)
  ultimately show ?thesis
    using assms by (simp add: cfg_get_token_def token_ok_def Let_def)
qed

lemma get_token_last:
  assumes "token_ok t"
  shows "cfg_get_token (Some t) = Ret (0, t, [])"
proof -
  have nd: "\<forall>c \<in> set t. c \<noteq> CHR ''.''" using assms by (auto simp: token_ok_def)
  have tw: "takeWhile (\<lambda>c. c \<noteq> CHR ''.'') t = t" and dw: "dropWhile (\<lambda>c. c \<noteq> CHR ''.'') t = []"
    using nd by (simp_all only: takeWhile_eq_all_conv dropWhile_eq_Nil_conv)
  have "hd t \<noteq> CHR ''.''" using assms nd by (cases t) (simp_all add: token_ok_def)
  then show ?thesis
    using assms unfolding cfg_get_token_def option.case Let_def tw dw by (simp add: token_ok_def)
qed

lemma get_token_empty [simp]: "cfg_get_token (Some []) = Ret (-1, [], [])"
  by (simp add: cfg_get_token_def)

text \<open>One token of a joined path.\<close>

lemma get_token_join:
  assumes "token_ok t"
  shows "\<exists>r. 0 \<le> r \<and> cfg_get_token (Some (join_dots (t # ts))) = Ret (r, t, join_dots ts)"
  using assms by (cases ts) (auto simp: get_token_mid get_token_last)

section \<open>The walk down the type tree\<close>

text \<open>What \<open>cfg_type_query\<close> computes on a list of tokens.\<close>

fun walk_tokens :: "type_db \<Rightarrow> cfg_node_type option \<Rightarrow> bool \<Rightarrow> string list \<Rightarrow> cfg_node_type option" where
  "walk_tokens db node need_alpha [] = node"
| "walk_tokens db node need_alpha (t # ts) =
     (if token_digit t \<noteq> 0
      then if need_alpha then None else walk_tokens db node True ts
      else case find (\<lambda>n. name_match (type_name n) t) (sub_types db node) of
             None \<Rightarrow> None
           | Some n \<Rightarrow> walk_tokens db (Some n) False ts)"

lemma query_loop_tokens:
  "\<forall>t \<in> set ts. token_ok t \<Longrightarrow> level + length ts < CFG_MAX_NODE_LEVEL \<Longrightarrow>
   cfg_type_query_loop db (join_dots ts) node need_alpha level =
     Ret (walk_tokens db node need_alpha ts)"
proof (induction ts arbitrary: node need_alpha level)
  case Nil
  then show ?case by (subst cfg_type_query_loop.simps) simp
next
  case (Cons t ts)
  then obtain r where r: "0 \<le> r" "cfg_get_token (Some (join_dots (t # ts))) = Ret (r, t, join_dots ts)"
    using get_token_join by (metis list.set_intros(1))
  have IH: "\<And>n na. cfg_type_query_loop db (join_dots ts) n na (Suc level) = Ret (walk_tokens db n na ts)"
    using Cons by simp
  show ?case
    by (subst cfg_type_query_loop.simps)
       (use r Cons.prems in \<open>simp add: Let_def IH query_child_find split: option.splits\<close>)
qed

lemma query_tokens:
  "\<forall>t \<in> set ts. token_ok t \<Longrightarrow> length ts < CFG_MAX_NODE_LEVEL \<Longrightarrow>
   cfg_type_query db (join_dots ts) = Ret (walk_tokens db None True ts)"
  by (simp add: cfg_type_query_def query_loop_tokens)

text \<open>Walking type names only.\<close>

fun walk_names :: "cfg_node_type list \<Rightarrow> string list \<Rightarrow> cfg_node_type option" where
  "walk_names ts [] = None"
| "walk_names ts (n # ns) =
     (case find (\<lambda>t. name_match (type_name t) n) ts of
        None \<Rightarrow> None
      | Some t \<Rightarrow> if ns = [] then Some t else walk_names (type_subtype t) ns)"

lemma walk_tokens_names:
  "\<forall>n \<in> set ns. name_ok n \<Longrightarrow> ns \<noteq> [] \<Longrightarrow>
   walk_tokens db node na ns = walk_names (sub_types db node) ns"
proof (induction ns arbitrary: node na)
  case (Cons n ns)
  show ?case
  proof (cases "ns = []")
    case True
    with Cons.prems show ?thesis by (auto split: option.splits)
  next
    case False
    have "walk_tokens db (Some u) False ns = walk_names (type_subtype u) ns" for u
      using Cons.IH [of "Some u" False] Cons.prems False by simp
    with False Cons.prems show ?thesis by (simp split: option.splits)
  qed
qed simp

lemma types_ok_names: "types_ok ts \<Longrightarrow> t \<in> set (type_nodes ts) \<Longrightarrow> name_ok (type_name t)"
  by (induction ts rule: types_ok.induct) auto

lemma types_ok_sub: "types_ok ts \<Longrightarrow> t \<in> set ts \<Longrightarrow> types_ok (type_subtype t)"
  by (induction ts rule: types_ok.induct) auto

lemma types_ok_top: "types_ok ts \<Longrightarrow> t \<in> set ts \<Longrightarrow> name_ok (type_name t)"
  by (induction ts rule: types_ok.induct) auto

lemma names_up_hd: "type_names_up i ts = Some ns \<Longrightarrow> ns \<noteq> [] \<and> hd ns \<in> type_name ` set ts"
  by (induction i ts arbitrary: ns rule: type_names_up.induct) (auto split: if_splits option.splits)

lemma names_up_ok: "type_names_up i ts = Some ns \<Longrightarrow> types_ok ts \<Longrightarrow> n \<in> set ns \<Longrightarrow> name_ok n"
  by (induction i ts arbitrary: ns rule: type_names_up.induct) (auto split: if_splits option.splits)

lemma walk_names_skip:
  assumes "types_ok (t # ts)" and "hd ns \<in> type_name ` set ts" and "ns \<noteq> []"
  shows "walk_names (t # ts) ns = walk_names ts ns"
proof -
  obtain i nm fl subs ops ix where t: "t = CfgType i nm fl subs ops ix" by (cases t)
  obtain m ms where ns: "ns = m # ms" using assms(3) by (cases ns) auto
  with assms obtain u where u: "u \<in> set ts" "m = type_name u" by auto
  have "name_ok m" using u assms(1) types_ok_top t by auto
  moreover have "lower nm \<noteq> lower m" using assms(1) u t by auto
  ultimately have "\<not> name_match nm m" using assms(1) t name_match_ok by auto
  then show ?thesis by (simp add: ns t)
qed

lemma names_up_walk:
  "types_ok ts \<Longrightarrow> type_names_up i ts = Some ns \<Longrightarrow>
   \<exists>t. walk_names ts ns = Some t \<and> type_id t = i \<and> t \<in> set (type_nodes ts)"
proof (induction i ts arbitrary: ns rule: type_names_up.induct)
  case (1 i)
  then show ?case by simp
next
  case (2 i j nm fl subs ops ix bs)
  have self: "name_match nm nm" by (simp add: name_match_def)
  show ?case
  proof (cases "j = i")
    case True
    with "2.prems" self show ?thesis by auto
  next
    case False
    show ?thesis
    proof (cases "type_names_up i subs")
      case (Some ms)
      with "2.IH"(1) [OF False] "2.prems" obtain t where
        "walk_names subs ms = Some t" "type_id t = i" "t \<in> set (type_nodes subs)" by auto
      moreover have "ms \<noteq> []" using names_up_hd [OF Some] by simp
      ultimately show ?thesis using False Some "2.prems" self by auto
    next
      case None
      with False "2.prems" have b: "type_names_up i bs = Some ns" by simp
      with "2.IH"(2) [OF False None] "2.prems" obtain t where
        "walk_names bs ns = Some t" "type_id t = i" "t \<in> set (type_nodes bs)" by auto
      with walk_names_skip [OF "2.prems"(1)] names_up_hd [OF b] show ?thesis by auto
    qed
  qed
qed

lemma names_up_exists: "t \<in> set (type_nodes ts) \<Longrightarrow> type_names_up (type_id t) ts \<noteq> None"
  by (induction ts rule: type_nodes.induct) (auto split: option.splits)

lemma length_join_dots: "\<forall>n \<in> set ns. length n < k \<Longrightarrow> length (join_dots ns) \<le> length ns * k"
  by (induction ns rule: join_dots.induct) auto

end
