(* ===== verification/CfgTypes.thy ===== *)
theory CfgTypes
  imports CfgType
begin

text \<open>
  Type tables of \<open>service/cfg/type\<close>. A \<open>static cfg_node_type_t\<close> is a definition with
  the name, the flag, the children and the operations of its initialiser; the number is
  0 until \<open>cfg_type_init\<close> assigns it. The \<open>subtype\<close> array of \<open>cfg_type_root\<close> depends on
  the build, so the root takes it as an argument.
\<close>

definition no_ops :: cfg_node_ops where
  "no_ops = \<lparr>op_create = None, op_delete = None, op_set = None, op_get = None,
     op_commit = None, op_query = None, op_memory_type_read = None\<rparr>"

section \<open>root\<close>

definition cfg_type_root_ops :: cfg_node_ops where
  "cfg_type_root_ops = no_ops \<lparr>op_set := Some DefaultFunc, op_get := Some DefaultFunc,
     op_query := Some DefaultFunc, op_commit := Some DefaultFunc\<rparr>"

definition cfg_type_root :: "cfg_node_type list \<Rightarrow> cfg_node_type" where
  "cfg_type_root subs = CfgType 0 ''root'' 1 subs (Some cfg_type_root_ops) None"

section \<open>Timezone\<close>

definition cfg_type_timezone_entry_ops :: cfg_node_ops where
  "cfg_type_timezone_entry_ops = no_ops \<lparr>op_get := Some DefaultFunc, op_set := Some DefaultFunc,
     op_query := Some DefaultFunc,
     op_commit := Some (Handler ''cfg_type_timezone_entry_func_commit'')\<rparr>"

definition cfg_type_timezone_entry_success :: cfg_node_type where
  "cfg_type_timezone_entry_success =
     CfgType 0 ''Success'' 1 [] (Some cfg_type_timezone_entry_ops) None"

definition cfg_type_timezone_entry_fail :: cfg_node_type where
  "cfg_type_timezone_entry_fail =
     CfgType 0 ''Fail'' 1 [] (Some cfg_type_timezone_entry_ops) None"

definition cfg_type_timezone_entry :: cfg_node_type where
  "cfg_type_timezone_entry =
     CfgType 0 ''Entry'' 1 [cfg_type_timezone_entry_success, cfg_type_timezone_entry_fail]
       (Some cfg_type_timezone_entry_ops) None"

definition cfg_type_timezone_ops :: cfg_node_ops where
  "cfg_type_timezone_ops = no_ops \<lparr>op_set := Some DefaultFunc, op_get := Some DefaultFunc,
     op_query := Some DefaultFunc,
     op_commit := Some (Handler ''cfg_type_timezone_entry_func_commit'')\<rparr>"

definition cfg_type_timezone :: cfg_node_type where
  "cfg_type_timezone =
     CfgType 0 ''Timezone'' 1 [cfg_type_timezone_entry] (Some cfg_type_timezone_ops) None"

lemmas timezone_defs =
  cfg_type_root_def cfg_type_timezone_def cfg_type_timezone_entry_def
  cfg_type_timezone_entry_success_def cfg_type_timezone_entry_fail_def

section \<open>A small numbered tree\<close>

text \<open>The tree of the root and the time zone types, and what \<open>cfg_type_init\<close> makes of it:
  the concrete instance the witnesses run on.\<close>

definition tz_root :: cfg_node_type where
  "tz_root = cfg_type_root [cfg_type_timezone]"

definition tz_success :: cfg_node_type where
  "tz_success = CfgType 103 ''Success'' 1 [] (Some cfg_type_timezone_entry_ops) None"

definition tz_fail :: cfg_node_type where
  "tz_fail = CfgType 104 ''Fail'' 1 [] (Some cfg_type_timezone_entry_ops) None"

definition tz_entry :: cfg_node_type where
  "tz_entry = CfgType 102 ''Entry'' 1 [tz_success, tz_fail] (Some cfg_type_timezone_entry_ops) None"

definition tz_timezone :: cfg_node_type where
  "tz_timezone = CfgType 101 ''Timezone'' 1 [tz_entry] (Some cfg_type_timezone_ops) None"

definition tz_numbered :: cfg_node_type where
  "tz_numbered = CfgType 100 ''root'' 1 [tz_timezone] (Some cfg_type_root_ops) None"

definition tz_db :: type_db where
  "tz_db = \<lparr>db_root = tz_numbered,
     db_cache = [tz_numbered, tz_timezone, tz_entry, tz_success, tz_fail]\<rparr>"

lemmas tz_defs = tz_numbered_def tz_timezone_def tz_entry_def tz_success_def tz_fail_def

lemma tz_init: "cfg_type_init tz_root = Ret tz_db"
  by (simp add: cfg_type_init_def tz_root_def timezone_defs tz_db_def tz_defs Let_def c_defs)

lemma tz_nodes: "type_nodes [tz_numbered] = [tz_numbered, tz_timezone, tz_entry, tz_success, tz_fail]"
  by (simp add: tz_defs)

lemma tz_db_ok: "db_ok tz_db"
  using init_spec(1) [OF tz_init] .

end
