(* ===== verification/CfgPathSpec.thy ===== *)
theory CfgPathSpec
  imports CfgPath CfgTypes
begin

text \<open>
  What the path functions of \<open>CfgPath\<close> compute. A structured path is a list of
  components, a type name and perhaps an instance number; \<open>resolve\<close> is the specification
  of its object numbers by a walk down the type tree. The lemmas relate the scanning loops
  of the code to it and give the properties: the round trip between the number and the
  path of a type, the object numbers of a path, the parent of a path, that the letters'
  case does not matter, and the bound that keeps the fixed buffers safe.
\<close>

section \<open>Halves of an object number\<close>

lemma and_ffff: "(x::u32) AND 0xffff = take_bit 16 x"
  by (simp add: take_bit_eq_mask mask_eq_exp_minus_1)

lemma unat_lt32: "unat (x::u32) < 4294967296"
  using unsigned_less [of x] by simp

lemma unat_take_bit16: "unat (take_bit 16 (x::u32)) = unat x mod 65536"
  by (simp add: take_bit_eq_mod unat_mod)

lemma unat_drop_bit16: "unat (drop_bit 16 (x::u32)) = unat x div 65536"
  by (simp add: drop_bit_eq_div unat_div)

lemma unat_push_bit16: "unat (push_bit 16 (x::u32)) = unat x * 65536 mod 4294967296"
proof -
  have "push_bit 16 x = x * 65536" by (simp add: push_bit_eq_mult)
  then show ?thesis by (simp add: unat_word_ariths)
qed

lemma unat_obj_id: "unat (cfg_obj_id x) = unat x mod 65536"
  by (simp only: cfg_obj_id_def and_ffff unat_take_bit16)

lemma unat_obj_type: "unat (cfg_obj_type x) = unat x div 65536"
proof -
  have "unat x div 65536 < 65536" using unat_lt32 [of x] by simp
  then show ?thesis
    by (simp only: cfg_obj_type_def and_ffff unat_take_bit16 unat_drop_bit16) simp
qed

lemma type_mask_alt: "x AND CFG_TYPE_MASK = push_bit 16 (drop_bit 16 x)"
proof -
  have m: "CFG_TYPE_MASK = NOT (mask 16)" by (simp add: CFG_TYPE_MASK_def mask_eq_exp_minus_1)
  show ?thesis unfolding m by (rule bit_word_eqI) (auto simp: bit_simps)
qed

lemma unat_type_mask: "unat (x AND CFG_TYPE_MASK) = unat x div 65536 * 65536"
proof -
  have "unat x div 65536 * 65536 < 4294967296" using unat_lt32 [of x] by linarith
  then show ?thesis by (simp only: type_mask_alt unat_push_bit16 unat_drop_bit16) simp
qed

lemma unat_mk_oid:
  assumes "unat tid < 65536" "unat oid < 65536"
  shows "unat (mk_oid tid oid) = unat tid * 65536 + unat oid"
proof -
  have t: "take_bit 16 oid = oid" using assms(2)
    by (simp add: word_unat_eq_iff unat_take_bit16)
  have "push_bit 16 tid AND take_bit 16 oid = 0"
    by (rule bit_word_eqI) (auto simp: bit_simps)
  then have "push_bit 16 tid OR oid = push_bit 16 tid + oid"
    by (simp add: t disjunctive_add_eq_or)
  then have "mk_oid tid oid = push_bit 16 tid + oid"
    by (simp add: mk_oid_def CFG_TYPE_SHIFT_def)
  moreover have "unat (push_bit 16 tid) = unat tid * 65536"
    using assms(1) by (simp only: unat_push_bit16) simp
  moreover have "unat tid * 65536 + unat oid < 4294967296" using assms by linarith
  ultimately show ?thesis by (simp add: unat_word_ariths)
qed

section \<open>Structured paths\<close>

type_synonym path_comp = "string \<times> nat option"

fun comp_tokens :: "path_comp \<Rightarrow> string list" where
  "comp_tokens (n, None) = [n]"
| "comp_tokens (n, Some k) = [n, nat_str k]"

definition path_text :: "path_comp list \<Rightarrow> string" where
  "path_text cs = join_dots (concat (map comp_tokens cs))"

fun comp_ok :: "path_comp \<Rightarrow> bool" where
  "comp_ok (n, None) = name_ok n"
| "comp_ok (n, Some k) = (name_ok n \<and> 0 < k \<and> k < 2 ^ 31)"

definition comp_inst :: "path_comp \<Rightarrow> u32" where
  "comp_inst c = (case snd c of None \<Rightarrow> 1 | Some k \<Rightarrow> of_nat k)"

text \<open>The object numbers a path stands for.\<close>

fun resolve :: "cfg_node_type list \<Rightarrow> path_comp list \<Rightarrow> u32 list option" where
  "resolve ts [] = Some []"
| "resolve ts (c # cs) =
     (case find (\<lambda>t. name_match (type_name t) (fst c)) ts of
        None \<Rightarrow> None
      | Some t \<Rightarrow>
          map_option (\<lambda>ids. mk_oid (type_id t) (comp_inst c) # ids) (resolve (type_subtype t) cs))"

lemma nodes_top: "t \<in> set ts \<Longrightarrow> t \<in> set (type_nodes ts)"
  by (induction ts rule: type_nodes.induct) auto

lemma nodes_sub: "t \<in> set (type_nodes ts) \<Longrightarrow> u \<in> set (type_nodes (type_subtype t)) \<Longrightarrow> u \<in> set (type_nodes ts)"
  by (induction ts rule: type_nodes.induct) auto

lemma nat_str_token_ok: "k < 10 ^ 10 \<Longrightarrow> token_ok (nat_str k)"
  using nat_str_length_le [of k 10] nat_str_no_char [of "CHR ''.''" k]
  by (simp add: token_ok_def c_defs is_digit_def cval_def)

lemma nat_str_token_digit: "0 < k \<Longrightarrow> k < 2 ^ 31 \<Longrightarrow> token_digit (nat_str k) = int k"
  by (simp add: token_digit_def nat_str_hd19 atoi_nat_str)

lemma of_nat_u32_neq0: "0 < k \<Longrightarrow> k < 2 ^ 32 \<Longrightarrow> (of_nat k :: u32) \<noteq> 0"
  using unat_small [of k] by (metis unsigned_0 less_numeral_extra(3))

lemma oid_loop_step_name:
  assumes "name_ok n" "length objid < CFG_MAX_NODE_LEVEL"
  shows "oid_array_loop db (join_dots (n # ts)) objid node na oid tid =
    (case find (\<lambda>t. name_match (type_name t) n) (sub_types db node) of
       None \<Rightarrow> Ret None
     | Some t \<Rightarrow> oid_array_loop db (join_dots ts)
         (if oid \<noteq> 0 \<and> tid \<noteq> 0 then objid @ [mk_oid tid oid] else objid) (Some t) False 1 (type_id t))"
proof -
  obtain r where r: "0 \<le> r" "cfg_get_token (Some (join_dots (n # ts))) = Ret (r, n, join_dots ts)"
    using get_token_join assms(1) name_ok_token by metis
  then show ?thesis
    by (subst oid_array_loop.simps) (use assms in \<open>simp add: Let_def query_child_find split: option.splits\<close>)
qed

lemma oid_loop_step_num:
  assumes "0 < k" "k < 2 ^ 31" "length objid < CFG_MAX_NODE_LEVEL"
  shows "oid_array_loop db (join_dots (nat_str k # ts)) objid node False oid tid =
    oid_array_loop db (join_dots ts) objid node True (of_nat k) tid"
proof -
  have "token_ok (nat_str k)" using assms by (intro nat_str_token_ok) simp
  then obtain r where r: "0 \<le> r" "cfg_get_token (Some (join_dots (nat_str k # ts))) = Ret (r, nat_str k, join_dots ts)"
    using get_token_join by metis
  have "token_digit (nat_str k) = int k" using assms by (intro nat_str_token_digit) auto
  with r show ?thesis
    by (subst oid_array_loop.simps) (use assms in \<open>simp add: Let_def\<close>)
qed

lemma oid_loop_end:
  "length objid < CFG_MAX_NODE_LEVEL \<Longrightarrow>
   oid_array_loop db [] objid node na oid tid = Ret (Some (objid @ [mk_oid tid oid]))"
  by (subst oid_array_loop.simps) simp

lemma comp_okD: "comp_ok c \<Longrightarrow> name_ok (fst c)"
  by (cases c rule: comp_ok.cases) auto

lemma comp_inst_neq0: "comp_ok c \<Longrightarrow> comp_inst c \<noteq> 0"
  using of_nat_u32_neq0 by (cases c rule: comp_ok.cases) (auto simp: comp_inst_def)

lemma oid_loop_comp:
  assumes "comp_ok c" "length objid < CFG_MAX_NODE_LEVEL"
    and "length (if oid \<noteq> 0 \<and> tid \<noteq> 0 then objid @ [mk_oid tid oid] else objid) < CFG_MAX_NODE_LEVEL"
  shows "\<exists>na'. oid_array_loop db (path_text (c # cs)) objid node na oid tid =
    (case find (\<lambda>t. name_match (type_name t) (fst c)) (sub_types db node) of
       None \<Rightarrow> Ret None
     | Some t \<Rightarrow> oid_array_loop db (path_text cs)
         (if oid \<noteq> 0 \<and> tid \<noteq> 0 then objid @ [mk_oid tid oid] else objid) (Some t) na' (comp_inst c) (type_id t))"
proof (cases c rule: comp_ok.cases)
  case (1 n)
  then show ?thesis using assms
    by (intro exI [of _ False])
       (simp only: path_text_def list.map concat.simps comp_tokens.simps append.simps fst_conv
          oid_loop_step_name comp_ok.simps comp_inst_def snd_conv option.case)
next
  case (2 n k)
  then show ?thesis using assms
    by (intro exI [of _ True])
       (simp only: path_text_def list.map concat.simps comp_tokens.simps append.simps fst_conv
          oid_loop_step_name comp_ok.simps oid_loop_step_num comp_inst_def snd_conv option.case)
qed

lemma oid_loop_resolve:
  assumes "db_ok db" "\<forall>c \<in> set cs. comp_ok c" "length objid + length cs < CFG_MAX_NODE_LEVEL"
    "t \<in> set (type_nodes [db_root db])" "oid \<noteq> 0"
  shows "oid_array_loop db (path_text cs) objid (Some t) na oid (type_id t) =
    Ret (map_option (\<lambda>ids. objid @ mk_oid (type_id t) oid # ids) (resolve (type_subtype t) cs))"
  using assms(2-)
proof (induction cs arbitrary: objid t na oid)
  case Nil
  then show ?case by (simp add: path_text_def oid_loop_end)
next
  case (Cons c cs)
  have "CFG_TYPE_BASE_VAL \<le> unat (type_id t)" by (rule db_ok_id_bounds [OF assms(1) Cons.prems(3)])
  then have tid: "type_id t \<noteq> 0" by (auto simp: c_defs)
  have c: "comp_ok c" and l: "length objid < CFG_MAX_NODE_LEVEL"
    "length (if oid \<noteq> 0 \<and> type_id t \<noteq> 0 then objid @ [mk_oid (type_id t) oid] else objid) < CFG_MAX_NODE_LEVEL"
    using Cons.prems by auto
  from oid_loop_comp [OF c l, of db cs "Some t" na] obtain na' where step:
    "oid_array_loop db (path_text (c # cs)) objid (Some t) na oid (type_id t) =
    (case find (\<lambda>t. name_match (type_name t) (fst c)) (type_subtype t) of
       None \<Rightarrow> Ret None
     | Some u \<Rightarrow> oid_array_loop db (path_text cs) (objid @ [mk_oid (type_id t) oid]) (Some u) na' (comp_inst c) (type_id u))"
    using Cons.prems(4) tid by auto
  show ?case
  proof (cases "find (\<lambda>t. name_match (type_name t) (fst c)) (type_subtype t)")
    case None
    then show ?thesis using step by simp
  next
    case (Some u)
    then have "u \<in> set (type_subtype t)" by (auto simp: find_Some_iff)
    then have u: "u \<in> set (type_nodes [db_root db])" using nodes_sub nodes_top Cons.prems(3) by blast
    have "oid_array_loop db (path_text cs) (objid @ [mk_oid (type_id t) oid]) (Some u) na' (comp_inst c) (type_id u) =
      Ret (map_option (\<lambda>ids. (objid @ [mk_oid (type_id t) oid]) @ mk_oid (type_id u) (comp_inst c) # ids) (resolve (type_subtype u) cs))"
      using Cons.prems u comp_inst_neq0 [OF c] by (intro Cons.IH) auto
    with step Some show ?thesis by (simp add: option.map_comp o_def)
  qed
qed

lemma oid_array_resolve:
  assumes "db_ok db" "\<forall>c \<in> set cs. comp_ok c" "cs \<noteq> []" "length cs \<le> CFG_MAX_NODE_LEVEL"
  shows "cfg_path_to_oid_array db (path_text cs) = Ret (resolve [db_root db] cs)"
proof -
  obtain c ds where cs: "cs = c # ds" using assms(3) by (cases cs) auto
  have c: "comp_ok c" using assms(2) cs by simp
  have l: "length ([]::u32 list) < CFG_MAX_NODE_LEVEL"
    "length (if (0::u32) \<noteq> 0 \<and> (0::u32) \<noteq> 0 then [] @ [mk_oid 0 0] else []) < CFG_MAX_NODE_LEVEL"
    by (simp_all add: c_defs)
  from oid_loop_comp [OF c l, of db ds None True] obtain na' where step:
    "oid_array_loop db (path_text (c # ds)) [] None True 0 0 =
    (case find (\<lambda>t. name_match (type_name t) (fst c)) [db_root db] of
       None \<Rightarrow> Ret None
     | Some u \<Rightarrow> oid_array_loop db (path_text ds) [] (Some u) na' (comp_inst c) (type_id u))"
    by (auto simp only: sub_types_simps simp_thms if_False)
  show ?thesis
  proof (cases "find (\<lambda>t. name_match (type_name t) (fst c)) [db_root db]")
    case None
    then show ?thesis using step by (simp add: cfg_path_to_oid_array_def cs)
  next
    case (Some u)
    then have "u \<in> set [db_root db]" by (auto simp: find_Some_iff split: if_splits)
    then have "u \<in> set (type_nodes [db_root db])" using nodes_top by blast
    then have "oid_array_loop db (path_text ds) [] (Some u) na' (comp_inst c) (type_id u) =
      Ret (map_option (\<lambda>ids. [] @ mk_oid (type_id u) (comp_inst c) # ids) (resolve (type_subtype u) ds))"
      using assms cs comp_inst_neq0 [OF c] by (intro oid_loop_resolve) auto
    with step Some show ?thesis by (simp add: cfg_path_to_oid_array_def cs)
  qed
qed

section \<open>The last component bounds the copies\<close>

definition final_token :: "string \<Rightarrow> string" where
  "final_token p = rev (takeWhile (\<lambda>c. c \<noteq> CHR ''.'') (rev p))"

lemma final_token_no_dot: "CHR ''.'' \<notin> set p \<Longrightarrow> final_token p = p"
proof -
  assume "CHR ''.'' \<notin> set p"
  then have "takeWhile (\<lambda>c. c \<noteq> CHR ''.'') (rev p) = rev p"
    by (subst takeWhile_eq_all_conv) auto
  then show ?thesis by (simp only: final_token_def rev_rev_ident)
qed

lemma final_token_dot: "final_token (a @ CHR ''.'' # p) = final_token p"
proof (cases "CHR ''.'' \<in> set p")
  case True
  then have "takeWhile (\<lambda>c. c \<noteq> CHR ''.'') (rev p @ CHR ''.'' # rev a) =
      takeWhile (\<lambda>c. c \<noteq> CHR ''.'') (rev p)"
    by (intro takeWhile_append1 [of "CHR ''.''"]) simp_all
  then show ?thesis by (simp only: final_token_def rev_append rev.simps append.simps append_assoc)
next
  case False
  then have "takeWhile (\<lambda>c. c \<noteq> CHR ''.'') (rev p @ CHR ''.'' # rev a) = rev p"
    by (intro takeWhile_append_stop) auto
  then have "final_token (a @ CHR ''.'' # p) = p"
    by (simp only: final_token_def rev_append rev.simps append.simps append_assoc rev_rev_ident)
  with False show ?thesis by (simp only: final_token_no_dot simp_thms)
qed

lemma get_token_cases:
  assumes "cfg_get_token (Some tmp) = Ret (r, tok, rest)" "0 \<le> r"
  shows "rest = [] \<or> tmp = tok @ CHR ''.'' # rest"
proof -
  let ?P = "\<lambda>c. c \<noteq> CHR ''.''"
  from assms have c: "(dropWhile ?P tmp = [] \<and> rest = []) \<or>
      (dropWhile ?P tmp \<noteq> [] \<and> tok = takeWhile ?P tmp \<and> rest = tl (dropWhile ?P tmp))"
    by (auto simp: cfg_get_token_def Let_def split: if_splits)
  have "dropWhile ?P tmp \<noteq> [] \<Longrightarrow> dropWhile ?P tmp = CHR ''.'' # tl (dropWhile ?P tmp)"
    using hd_dropWhile [of ?P tmp] by (metis list.collapse)
  with c show ?thesis by (metis takeWhile_dropWhile_id)
qed

lemma get_token_no_fault:
  assumes "length (final_token tmp) < CFG_MAX_TYPE_NAME"
  shows "\<exists>r tok rest. cfg_get_token (Some tmp) = Ret (r, tok, rest) \<and>
    (0 \<le> r \<longrightarrow> length (final_token rest) < CFG_MAX_TYPE_NAME)"
proof (cases "cfg_get_token (Some tmp)")
  case (Ret x)
  obtain r tok rest where x: "x = (r, tok, rest)" by (cases x)
  have "0 \<le> r \<Longrightarrow> length (final_token rest) < CFG_MAX_TYPE_NAME"
    using get_token_cases [OF Ret [unfolded x]] assms final_token_dot [of tok rest]
    by (auto simp: final_token_def c_defs)
  with Ret x show ?thesis by blast
next
  case (Fault e)
  then have d: "dropWhile (\<lambda>c. c \<noteq> CHR ''.'') tmp = []"
    and l: "CFG_MAX_TYPE_NAME \<le> length (takeWhile (\<lambda>c. c \<noteq> CHR ''.'') tmp)"
    by (auto simp: cfg_get_token_def Let_def split: if_splits)
  from d have "CHR ''.'' \<notin> set tmp" by (simp add: dropWhile_eq_Nil_conv) blast
  moreover have "takeWhile (\<lambda>c. c \<noteq> CHR ''.'') tmp = tmp"
    using takeWhile_dropWhile_id [of "\<lambda>c. c \<noteq> CHR ''.''" tmp] d by simp
  ultimately have False using l assms by (simp only: final_token_no_dot simp_thms not_le)
  then show ?thesis ..
qed

lemma query_loop_no_fault:
  "length (final_token tmp) < CFG_MAX_TYPE_NAME \<Longrightarrow> no_fault (cfg_type_query_loop db tmp node na lv)"
proof (induction db tmp node na lv rule: cfg_type_query_loop.induct)
  case (1 db tmp node na lv)
  from get_token_no_fault [OF "1.prems"] obtain r tok rest where
    t: "cfg_get_token (Some tmp) = Ret (r, tok, rest)"
      "0 \<le> r \<longrightarrow> length (final_token rest) < CFG_MAX_TYPE_NAME" by blast
  note IH = "1.IH" [OF t(1) refl refl]
  show ?case
    by (subst cfg_type_query_loop.simps)
       (use t IH in \<open>auto simp: Let_def split: option.splits\<close>)
qed

lemma oid_loop_no_fault:
  "length (final_token tmp) < CFG_MAX_TYPE_NAME \<Longrightarrow>
   no_fault (oid_array_loop db tmp objid node na oid tid)"
proof (induction db tmp objid node na oid tid rule: oid_array_loop.induct)
  case (1 db tmp objid node na oid tid)
  from get_token_no_fault [OF "1.prems"] obtain r tok rest where
    t: "cfg_get_token (Some tmp) = Ret (r, tok, rest)"
      "0 \<le> r \<longrightarrow> length (final_token rest) < CFG_MAX_TYPE_NAME" by blast
  note IH = "1.IH" [OF t(1) refl refl]
  show ?case
    by (subst oid_array_loop.simps)
       (use t IH in \<open>auto simp: Let_def split: option.splits\<close>)
qed

lemma oid_loop_length:
  "oid_array_loop db tmp objid node na oid tid = Ret (Some ids) \<Longrightarrow>
   length objid \<le> CFG_MAX_NODE_LEVEL \<Longrightarrow> 0 < length ids \<and> length ids \<le> CFG_MAX_NODE_LEVEL"
proof (induction db tmp objid node na oid tid rule: oid_array_loop.induct)
  case (1 db tmp objid node na oid tid)
  from "1.prems"(1) obtain r tok rest where
    t: "cfg_get_token (Some tmp) = Ret (r, tok, rest)"
    by (subst (asm) oid_array_loop.simps) (auto split: cres.splits)
  note IH = "1.IH" [OF t refl refl]
  show ?case
    using "1.prems"
    by (subst (asm) (1) oid_array_loop.simps)
       (use t IH in \<open>auto simp: Let_def split: if_splits option.splits\<close>)
qed

section \<open>Case\<close>

lemma is_digit_lower [simp]: "is_digit (lower_char c) = is_digit c"
  by (auto simp: is_digit_def cval_lower)

lemma is_digit19_lower [simp]: "is_digit19 (lower_char c) = is_digit19 c"
  by (auto simp: is_digit19_def cval_lower)

lemma atoi_digits_lower [simp]: "atoi_digits acc (lower s) = atoi_digits acc s"
  by (induction s arbitrary: acc) auto

lemma token_digit_lower [simp]: "token_digit (lower t) = token_digit t"
proof (cases t)
  case (Cons c cs)
  have "atoi (lower t) = atoi t" if "is_digit19 c"
    using that is_digit19_digit [OF that] atoi_digits_lower [of 0 t] 
    by (simp add: Cons atoi_digit_start)
  then show ?thesis by (auto simp: token_digit_def Cons)
qed (simp add: token_digit_def)

lemma lower_idem [simp]: "lower (lower s) = lower s"
  by (simp add: o_def)

lemma lower_take: "lower (take n s) = take n (lower s)"
  by (simp add: take_map)

lemma query_child_lower:
  "cfg_type_query_child db node (Some (lower t)) = cfg_type_query_child db node (Some t)"
  unfolding query_child_find name_match_def by (simp only: take_map lower_idem)

lemma not_dot_lower: "(\<lambda>c. c \<noteq> CHR ''.'') \<circ> lower_char = (\<lambda>c. c \<noteq> CHR ''.'')"
  by (rule ext) simp

lemma hd_lower_dot: "s \<noteq> [] \<Longrightarrow> hd (lower s) = CHR ''.'' \<longleftrightarrow> hd s = CHR ''.''"
  by (cases s) auto

lemma get_token_lower:
  "cfg_get_token (Some (lower s)) =
     cbind (cfg_get_token (Some s)) (\<lambda>(r, t, rest). Ret (r, lower t, lower rest))"
  by (cases "s = []")
     (auto simp: cfg_get_token_def Let_def takeWhile_map dropWhile_map not_dot_lower hd_lower_dot map_tl)

lemma oid_loop_lower:
  "oid_array_loop db (lower tmp) objid node na oid tid = oid_array_loop db tmp objid node na oid tid"
proof (induction db tmp objid node na oid tid rule: oid_array_loop.induct)
  case (1 db tmp objid node na oid tid)
  show ?case
  proof (cases "cfg_get_token (Some tmp)")
    case (Ret x)
    obtain r tok rest where x: "x = (r, tok, rest)" by (cases x)
    note t = Ret [unfolded x]
    have lt: "cfg_get_token (Some (lower tmp)) = Ret (r, lower tok, lower rest)"
      by (simp add: get_token_lower t)
    note IH = "1.IH" [OF t refl refl]
    show ?thesis
      by (subst (1 2) oid_array_loop.simps)
         (use t lt IH in \<open>auto simp: Let_def query_child_lower split: option.splits\<close>)
  next
    case (Fault e)
    then have "cfg_get_token (Some (lower tmp)) = Fault e" by (simp add: get_token_lower)
    with Fault show ?thesis by (subst (1 2) oid_array_loop.simps) simp
  qed
qed

section \<open>The parent of a structured path\<close>

lemma cut_dot_at:
  "CHR ''.'' \<notin> set b \<Longrightarrow> a \<noteq> [] \<Longrightarrow> length a \<le> n \<Longrightarrow> n \<le> length a + length b \<Longrightarrow>
   cut_dot (a @ CHR ''.'' # b @ c) n = length a"
proof (induction n)
  case 0
  then show ?case by simp
next
  case (Suc n)
  show ?case
  proof (cases "length a = Suc n")
    case True
    then show ?thesis by (simp add: nth_append)
  next
    case False
    with Suc.prems have le: "length a \<le> n" by simp
    then obtain i where i: "n = length a + i" using le_Suc_ex by blast
    with Suc.prems have "i < length b" by simp
    with i have "(a @ CHR ''.'' # b @ c) ! Suc n = b ! i" by (simp add: nth_append)
    moreover have "b ! i \<noteq> CHR ''.''" using \<open>i < length b\<close> Suc.prems(1) nth_mem by fastforce
    ultimately show ?thesis using Suc le by simp
  qed
qed

lemma cut_dot_end:
  assumes "CHR ''.'' \<notin> set b" "a \<noteq> []"
  shows "cut_dot (a @ CHR ''.'' # b) (length (a @ CHR ''.'' # b)) = length a"
  using cut_dot_at [OF assms, of "length a + length b" "[]"] by simp

lemma join_dots_append:
  "xs \<noteq> [] \<Longrightarrow> ys \<noteq> [] \<Longrightarrow> join_dots (xs @ ys) = join_dots xs @ CHR ''.'' # join_dots ys"
proof (induction xs rule: join_dots.induct)
  case (2 x)
  then show ?case by (cases ys) auto
qed auto

lemma comp_tokens_not_Nil [simp]: "comp_tokens c \<noteq> []"
  by (cases c rule: comp_tokens.cases) auto

lemma tokens_not_Nil: "cs \<noteq> [] \<Longrightarrow> concat (map comp_tokens cs) \<noteq> []"
  by (cases cs) auto

lemma path_text_append:
  "cs \<noteq> [] \<Longrightarrow> path_text (cs @ [c]) = path_text cs @ CHR ''.'' # join_dots (comp_tokens c)"
  using join_dots_append [OF tokens_not_Nil, of cs "comp_tokens c"] by (simp add: path_text_def)

lemma join_dots_Nil: "\<forall>x \<in> set xs. x \<noteq> [] \<Longrightarrow> join_dots xs = [] \<Longrightarrow> xs = []"
  by (induction xs rule: join_dots.induct) auto

lemma path_text_not_Nil: "\<forall>c \<in> set cs. comp_ok c \<Longrightarrow> cs \<noteq> [] \<Longrightarrow> path_text cs \<noteq> []"
proof
  assume ok: "\<forall>c \<in> set cs. comp_ok c" and ne: "cs \<noteq> []" and "path_text cs = []"
  moreover have "\<forall>x \<in> set (comp_tokens c). x \<noteq> []" if "comp_ok c" for c
    using that by (cases c rule: comp_ok.cases) (auto simp: name_ok_def)
  ultimately have "concat (map comp_tokens cs) = []"
    unfolding path_text_def by (intro join_dots_Nil) auto
  with tokens_not_Nil [OF ne] show False by simp
qed

lemma parent_path_name:
  assumes "a \<noteq> []" "CHR ''.'' \<notin> set n" "n \<noteq> []" "\<not> is_digit (hd n)"
    and "length (a @ CHR ''.'' # n) < CFG_MAX_PATH_NAME"
  shows "cfg_get_parent_path (Some (a @ CHR ''.'' # n)) = Ret (0, a)"
proof -
  have "(a @ CHR ''.'' # n) ! Suc (length a) = hd n" using assms(3)
    by (simp add: nth_append hd_conv_nth)
  then show ?thesis
    using assms cut_dot_end [OF assms(2,1)] by (simp add: cfg_get_parent_path_def Let_def)
qed

lemma parent_path_inst:
  assumes "a \<noteq> []" "CHR ''.'' \<notin> set n" "n \<noteq> []" "CHR ''.'' \<notin> set k" "k \<noteq> []" "is_digit (hd k)"
    and "length (a @ CHR ''.'' # n @ CHR ''.'' # k) < CFG_MAX_PATH_NAME"
  shows "cfg_get_parent_path (Some (a @ CHR ''.'' # n @ CHR ''.'' # k)) = Ret (0, a)"
proof -
  let ?p = "a @ CHR ''.'' # n @ CHR ''.'' # k" and ?q = "a @ CHR ''.'' # n"
  have p: "?p = ?q @ CHR ''.'' # k" by simp
  have c1: "cut_dot ?p (length ?p) = length ?q"
    unfolding p by (rule cut_dot_end) (use assms in auto)
  have c2: "cut_dot ?p (length ?q - 1) = length a"
    using cut_dot_at [OF assms(2,1), of "length ?q - 1" "CHR ''.'' # k"] by simp
  have d: "?p ! Suc (length ?q) = hd k"
    unfolding p using assms(5) by (simp add: nth_append hd_conv_nth)
  show ?thesis
    unfolding cfg_get_parent_path_def option.case Let_def c1 c2 d
    using assms by simp
qed

lemma parent_path_text:
  assumes "\<forall>d \<in> set cs. comp_ok d" "comp_ok c" "cs \<noteq> []" "\<not> is_digit (hd (fst c))"
    and "length (path_text (cs @ [c])) < CFG_MAX_PATH_NAME"
  shows "cfg_get_parent_path (Some (path_text (cs @ [c]))) = Ret (0, path_text cs)"
proof (cases c rule: comp_ok.cases)
  case (1 n)
  then show ?thesis
    using assms path_text_not_Nil [OF assms(1,3)]
    by (simp add: path_text_append parent_path_name name_ok_def)
next
  case (2 n k)
  have "is_digit (hd (nat_str k))" using nat_str_digits [of k] by simp
  moreover have "CHR ''.'' \<notin> set (nat_str k)" by (rule nat_str_no_char) (simp add: is_digit_def cval_def)
  ultimately show ?thesis
    using "2" assms path_text_not_Nil [OF assms(1,3)]
    by (simp add: path_text_append parent_path_inst name_ok_def)
qed

section \<open>Depth\<close>

fun type_depth :: "cfg_node_type list \<Rightarrow> nat" where
  "type_depth [] = 0"
| "type_depth (CfgType i nm fl subs ops ix # bs) = max (Suc (type_depth subs)) (type_depth bs)"

lemma names_up_depth: "type_names_up i ts = Some ns \<Longrightarrow> length ns \<le> type_depth ts"
  by (induction i ts arbitrary: ns rule: type_names_up.induct) (force split: if_splits option.splits)+

lemma types_ok_unnumbered: "types_ok (unnumbered ts) = types_ok ts"
proof (induction ts rule: unnumbered.induct)
  case (2 i nm fl subs ops ix bs)
  have "map (\<lambda>t. lower (type_name t)) (unnumbered bs) = map (\<lambda>t. lower (type_name t)) bs"
    by (induction bs rule: unnumbered.induct) auto
  then have "(\<lambda>t. lower (type_name t)) ` set (unnumbered bs) = (\<lambda>t. lower (type_name t)) ` set bs"
    by (metis set_map)
  with "2" show ?case by simp
qed simp

lemma type_depth_unnumbered: "type_depth (unnumbered ts) = type_depth ts"
  by (induction ts rule: unnumbered.induct) auto

lemma init_types_ok: "cfg_type_init root = Ret db \<Longrightarrow> types_ok [root] \<Longrightarrow> types_ok [db_root db]"
  by (metis init_spec(2) types_ok_unnumbered)

lemma init_depth: "cfg_type_init root = Ret db \<Longrightarrow> type_depth [db_root db] = type_depth [root]"
  by (metis init_spec(2) type_depth_unnumbered)

lemma type_path_roundtrip_db:
  assumes "db_ok db" "types_ok [db_root db]" "type_depth [db_root db] < CFG_MAX_NODE_LEVEL"
    and "t \<in> set (type_nodes [db_root db])" "CFG_MAX_PATH_NAME \<le> buflen"
  shows "\<exists>p. cfg_type_id_to_path db (type_id t) buflen = Ret (0, p) \<and>
    cfg_type_query db p = Ret (Some t) \<and> length p < CFG_MAX_PATH_NAME"
proof -
  obtain ns where ns: "type_names_up (type_id t) [db_root db] = Some ns"
    using names_up_exists [OF assms(4)] by blast
  have ok: "\<forall>n \<in> set ns. name_ok n" using names_up_ok [OF ns assms(2)] by blast
  then have tok: "\<forall>n \<in> set ns. token_ok n" using name_ok_token by blast
  have len: "length ns < CFG_MAX_NODE_LEVEL" using names_up_depth [OF ns] assms(3) by simp
  have nl: "\<forall>n \<in> set ns. length n < CFG_MAX_TYPE_NAME" using ok by (simp add: name_ok_def)
  then have tk: "map (take (CFG_MAX_TYPE_NAME - 1)) ns = ns"
    by (intro map_idI) (auto simp: c_defs)
  have "length (join_dots ns) \<le> length ns * CFG_MAX_TYPE_NAME" by (rule length_join_dots [OF nl])
  with len have pl: "length (join_dots ns) < CFG_MAX_PATH_NAME - 1" by (simp add: c_defs)
  from names_up_walk [OF assms(2) ns] obtain u where
    u: "walk_names [db_root db] ns = Some u" "type_id u = type_id t" "u \<in> set (type_nodes [db_root db])" by blast
  have "u = t" using find_by_id_node [OF assms(1) u(3)] find_by_id_node [OF assms(1,4)] u(2) by (metis option.inject)
  moreover have "cfg_type_query db (join_dots ns) = Ret (walk_names [db_root db] ns)"
    using query_tokens [OF tok len, of db] walk_tokens_names [OF ok, of db None True] names_up_hd [OF ns]
    by (simp only: sub_types_simps simp_thms)
  moreover have "cfg_type_id_to_path db (type_id t) buflen = Ret (0, join_dots ns)"
    unfolding cfg_type_id_to_path_def find_by_id_node [OF assms(1,4)] option.case ns tk
    using len pl assms(5) by simp
  ultimately show ?thesis using u pl by auto
qed

section \<open>Properties\<close>

lemma tz_types_ok: "types_ok [tz_numbered]"
  by (simp add: tz_defs name_ok_def c_defs is_digit19_def cval_def lower_char_def)



text \<open>C6: For every path made of well-formed names and positive instance numbers, of at
  most eight components, \<open>cfg_path_to_oid_array\<close> terminates without a memory fault and
  fills the array with exactly the object numbers the walk down the type tree gives (type
  number in the upper half, joined with the instance number, 1 by default), or reports
  an error when a name is not found.\<close>

theorem path_to_oid_array_correct:
  assumes "db_ok db" and "\<forall>c \<in> set cs. comp_ok c" and "cs \<noteq> []"
    and "length cs \<le> CFG_MAX_NODE_LEVEL"
  shows "cfg_path_to_oid_array db (path_text cs) = Ret (resolve [db_root db] cs)"
  by (rule oid_array_resolve [OF assms])

theorem path_to_oid_array_correct_witness:
  "cfg_path_to_oid_array tz_db (path_text [(''root'', None), (''timezone'', None), (''entry'', Some 3)]) =
     Ret (Some [0x640001, 0x650001, 0x660003])"
proof -
  let ?cs = "[(''root'', None), (''timezone'', None), (''entry'', Some 3)]"
  have "\<forall>c \<in> set ?cs. comp_ok c" by (simp add: name_ok_def c_defs is_digit19_def cval_def)
  moreover have "length ?cs \<le> CFG_MAX_NODE_LEVEL" by (simp add: c_defs)
  moreover have "resolve [db_root tz_db] ?cs = Some [0x640001, 0x650001, 0x660003]"
    by (simp add: tz_db_def tz_defs name_match_def c_defs lower_char_def cval_def mk_oid_def
        CFG_TYPE_SHIFT_def comp_inst_def char_of_eq_iff take_bit_eq_mod)
  ultimately show ?thesis using path_to_oid_array_correct [OF tz_db_ok, of ?cs] by simp
qed

text \<open>C22: Path resolution never writes outside its token buffer as long as the text after
  the last dot is shorter than \<open>CFG_MAX_TYPE_NAME\<close>, whatever else the path contains; the
  array it fills then has between one and \<open>CFG_MAX_NODE_LEVEL\<close> entries.\<close>

theorem path_lookup_memory_safe:
  assumes "length (final_token p) < CFG_MAX_TYPE_NAME"
  shows "no_fault (cfg_type_query db p) \<and>
    (\<exists>r. cfg_path_to_oid_array db p = Ret r \<and>
       (\<forall>ids. r = Some ids \<longrightarrow> 0 < length ids \<and> length ids \<le> CFG_MAX_NODE_LEVEL))"
proof -
  have "no_fault (cfg_path_to_oid_array db p)"
    unfolding cfg_path_to_oid_array_def by (rule oid_loop_no_fault [OF assms])
  moreover have "no_fault (cfg_type_query db p)"
    unfolding cfg_type_query_def by (rule query_loop_no_fault [OF assms])
  ultimately show ?thesis
    using oid_loop_length [of db p "[]" None True 0 0]
    by (auto simp: no_fault_def cfg_path_to_oid_array_def)
qed

theorem path_lookup_memory_safe_witness:
  "no_fault (cfg_type_query tz_db ''root..x'') \<and> (\<exists>r. cfg_path_to_oid_array tz_db ''root..x'' = Ret r \<and>
     (\<forall>ids. r = Some ids \<longrightarrow> 0 < length ids \<and> length ids \<le> CFG_MAX_NODE_LEVEL))"
  by (rule path_lookup_memory_safe) (simp add: final_token_def c_defs)

text \<open>The bound on the last component is needed: a path that is one name of at least
  \<open>CFG_MAX_TYPE_NAME\<close> characters overruns the token buffer, because the last token is
  copied without a length check.\<close>

theorem long_last_token_overflows:
  assumes "CHR ''.'' \<notin> set p" and "CFG_MAX_TYPE_NAME \<le> length p"
  shows "cfg_path_to_oid_array db p = Fault BufferOverflow"
proof -
  have ne: "p \<noteq> []" using assms(2) by (auto simp: c_defs)
  have nd: "\<forall>c \<in> set p. c \<noteq> CHR ''.''" using assms(1) by auto
  have tw: "takeWhile (\<lambda>c. c \<noteq> CHR ''.'') p = p" and dw: "dropWhile (\<lambda>c. c \<noteq> CHR ''.'') p = []"
    using nd by (simp_all only: takeWhile_eq_all_conv dropWhile_eq_Nil_conv)
  have "hd p \<noteq> CHR ''.''" using ne nd by (cases p) simp_all
  then have "cfg_get_token (Some p) = Fault BufferOverflow"
    using assms(2) ne unfolding cfg_get_token_def option.case Let_def tw dw by simp
  then show ?thesis
    unfolding cfg_path_to_oid_array_def by (subst oid_array_loop.simps) simp
qed

theorem long_last_token_overflows_witness:
  "cfg_path_to_oid_array tz_db (replicate 32 CHR ''a'') = Fault BufferOverflow"
  by (rule long_last_token_overflows) (simp_all add: c_defs)

text \<open>Paths are resolved without regard to the case of letters: the lower-case form of
  a path gives the same object numbers, the same error or the same fault.\<close>

theorem path_case_insensitive:
  "cfg_path_to_oid_array db (lower p) = cfg_path_to_oid_array db p"
  by (simp add: cfg_path_to_oid_array_def oid_loop_lower)

text \<open>\<open>cfg_get_parent_path\<close> removes exactly the last component, its name and its
  instance number if it has one, from a well-formed path that fits the path buffer.\<close>

theorem parent_path_correct:
  assumes "\<forall>d \<in> set cs. comp_ok d" and "comp_ok c" and "cs \<noteq> []" and "\<not> is_digit (hd (fst c))"
    and "length (path_text (cs @ [c])) < CFG_MAX_PATH_NAME"
  shows "cfg_get_parent_path (Some (path_text (cs @ [c]))) = Ret (0, path_text cs)"
  by (rule parent_path_text [OF assms])

theorem parent_path_correct_witness:
  "cfg_get_parent_path (Some (path_text ([(''root'', None), (''Wan'', Some 2)] @ [(''Entry'', Some 13)]))) =
     Ret (0, path_text [(''root'', None), (''Wan'', Some 2)])"
  by (rule parent_path_correct)
     (simp_all add: name_ok_def c_defs is_digit19_def is_digit_def cval_def path_text_def nat_str.simps)

text \<open>Object numbers lose nothing in range and lose information outside it. For a type
  number and an instance number below 65536 both halves are read back. An instance number
  of the form \<open>65536 + k\<close> sets a bit of the type number, so that under a type with an odd
  number it names the same object as instance \<open>k\<close>.\<close>

theorem oid_halves:
  "(\<forall>tid oid. unat tid < 65536 \<longrightarrow> unat oid < 65536 \<longrightarrow>
      cfg_obj_type (mk_oid tid oid) = tid \<and> cfg_obj_id (mk_oid tid oid) = oid \<and>
      mk_oid tid oid AND CFG_TYPE_MASK = mk_oid tid 0) \<and>
   cfg_path_to_oid_array tz_db (path_text [(''root'', None), (''Timezone'', Some 65537)]) =
   cfg_path_to_oid_array tz_db (path_text [(''root'', None), (''Timezone'', Some 1)])"
proof (rule conjI)
  show "\<forall>tid oid. unat tid < 65536 \<longrightarrow> unat oid < 65536 \<longrightarrow>
      cfg_obj_type (mk_oid tid oid) = tid \<and> cfg_obj_id (mk_oid tid oid) = oid \<and>
      mk_oid tid oid AND CFG_TYPE_MASK = mk_oid tid 0"
    by (auto simp: word_unat_eq_iff unat_obj_type unat_obj_id unat_mk_oid unat_type_mask)
  have r: "cfg_path_to_oid_array tz_db (path_text [(''root'', None), (''Timezone'', Some k)]) =
      Ret (resolve [tz_numbered] [(''root'', None), (''Timezone'', Some k)])" if "0 < k" "k < 2 ^ 31" for k
    using that oid_array_resolve [OF tz_db_ok, of "[(''root'', None), (''Timezone'', Some k)]"]
    by (simp add: name_ok_def c_defs is_digit19_def cval_def tz_db_def del: resolve.simps)
  show "cfg_path_to_oid_array tz_db (path_text [(''root'', None), (''Timezone'', Some 65537)]) =
     cfg_path_to_oid_array tz_db (path_text [(''root'', None), (''Timezone'', Some 1)])"
    by (simp add: r tz_defs name_match_def c_defs mk_oid_def CFG_TYPE_SHIFT_def comp_inst_def)
qed

theorem oid_halves_witness:
  "cfg_obj_type (mk_oid 101 7) = 101 \<and> cfg_obj_id (mk_oid 101 7) = 7 \<and>
   mk_oid 101 7 AND CFG_TYPE_MASK = mk_oid 101 0"
  using oid_halves by simp

end
