(* ===== verification/CfgTree.thy ===== *)
theory CfgTree
  imports CfgPathSpec
begin

text \<open>
  The tree of configuration objects (\<open>service/cfg/cfg_obj.c\<close>, the structure
  \<open>cfg_node_obj\<close> of \<open>cfg_cli.h\<close>): children, allocation in the shared pool, building the
  objects of a type, pruning the types that are created on demand, choosing an unused
  instance number, releasing a subtree.

  A \<open>child\<close> pointer and the \<open>brother\<close> chain behind it are the list of the children. The
  \<open>private\<close> block is the attribute array of the XML node the code hangs there. A pointer
  to an object of the tree is the list of object numbers that leads to it from the root,
  each naming the first child that carries it, as \<open>cfg_obj_get_child\<close> finds it.

  The shared pool (\<open>shm_calloc\<close>, \<open>shm_free\<close>, the lock) and \<open>cfg_xml_set_attr\<close>,
  \<open>cfg_xml_get_attr\<close> are object code in the repository, so they are parameters: whether the
  \<open>n\<close>-th allocation succeeds, and how an attribute array changes and is read. The state
  counts the allocations made and the blocks of this file that are live (an object is two
  blocks: the node and its XML node).
\<close>

section \<open>State\<close>

type_synonym attrs = "(string \<times> string) list"

datatype cfg_node_obj =
  CfgObj (obj_id: u32) (obj_private: attrs) (obj_child: "cfg_node_obj list")

text \<open>The variable \<open>cfg_obj_root\<close>: NULL, the root of a live tree, or the address of a
  root that was released.\<close>

datatype root_ptr = RootNull | RootLive cfg_node_obj | RootDangling

datatype lock_ev = Lock | Unlock

record cfg_state =
  cfg_obj_root :: root_ptr
  shm_calls :: nat
  shm_live :: int
  lock_log :: "lock_ev list"
  handler_log :: "(fptr \<times> string) list"

record cfg_env =
  env_types :: type_db
  env_calloc :: "nat \<Rightarrow> bool"
  env_xml_set :: "attrs \<Rightarrow> string \<Rightarrow> string \<Rightarrow> attrs"
  env_xml_get :: "attrs \<Rightarrow> string \<Rightarrow> string option"

definition cfg_obj_lock :: "cfg_state \<Rightarrow> cfg_state" where
  "cfg_obj_lock s = s\<lparr>lock_log := lock_log s @ [Lock]\<rparr>"

definition cfg_obj_unlock :: "cfg_state \<Rightarrow> cfg_state" where
  "cfg_obj_unlock s = s\<lparr>lock_log := lock_log s @ [Unlock]\<rparr>"

definition shm_calloc :: "cfg_env \<Rightarrow> cfg_state \<Rightarrow> bool \<times> cfg_state" where
  "shm_calloc E s =
     (if env_calloc E (shm_calls s)
      then (True, s\<lparr>shm_calls := Suc (shm_calls s), shm_live := shm_live s + 1\<rparr>)
      else (False, s\<lparr>shm_calls := Suc (shm_calls s)\<rparr>))"

definition shm_free :: "cfg_state \<Rightarrow> cfg_state" where
  "shm_free s = s\<lparr>shm_live := shm_live s - 1\<rparr>"

section \<open>Children and pointers\<close>

definition cfg_type_from_oid :: "cfg_env \<Rightarrow> u32 \<Rightarrow> cfg_node_type option" where
  "cfg_type_from_oid E oid = cfg_type_find_by_id (env_types E) (cfg_obj_type oid)"

definition cfg_obj_get_child :: "cfg_node_obj \<Rightarrow> u32 \<Rightarrow> cfg_node_obj option" where
  "cfg_obj_get_child parent oid = find (\<lambda>child. obj_id child = oid) (obj_child parent)"

fun obj_at :: "cfg_node_obj \<Rightarrow> u32 list \<Rightarrow> cfg_node_obj option" where
  "obj_at parent [] = Some parent"
| "obj_at parent (i # ids) =
     (case cfg_obj_get_child parent i of None \<Rightarrow> None | Some c \<Rightarrow> obj_at c ids)"

fun upd_first :: "u32 \<Rightarrow> (cfg_node_obj \<Rightarrow> cfg_node_obj) \<Rightarrow> cfg_node_obj list \<Rightarrow> cfg_node_obj list" where
  "upd_first i g [] = []"
| "upd_first i g (c # cs) = (if obj_id c = i then g c # cs else c # upd_first i g cs)"

fun obj_upd :: "u32 list \<Rightarrow> (cfg_node_obj \<Rightarrow> cfg_node_obj) \<Rightarrow> cfg_node_obj \<Rightarrow> cfg_node_obj" where
  "obj_upd [] f obj = f obj"
| "obj_upd (i # ids) f obj =
     CfgObj (obj_id obj) (obj_private obj) (upd_first i (obj_upd ids f) (obj_child obj))"

fun rem_first :: "u32 \<Rightarrow> cfg_node_obj list \<Rightarrow> cfg_node_obj list" where
  "rem_first i [] = []"
| "rem_first i (c # cs) = (if obj_id c = i then cs else c # rem_first i cs)"

section \<open>Instance numbers\<close>

text \<open>The scan of \<open>cfg_obj_first_unused_oid\<close> from the child it stands at: when that child
  has the number tried, the next number is tried from the same child on (which cannot have
  it), and the earlier children are not looked at again.\<close>

fun unused_scan :: "u32 \<Rightarrow> cfg_node_obj list \<Rightarrow> u32" where
  "unused_scan first [] = first"
| "unused_scan first (c # cs) =
     (if obj_id c = first then unused_scan (first + 1) cs else unused_scan first cs)"

definition cfg_obj_first_unused_oid :: "cfg_node_obj \<Rightarrow> u32 \<Rightarrow> u32" where
  "cfg_obj_first_unused_oid obj oid = unused_scan ((oid AND CFG_TYPE_MASK) + 1) (obj_child obj)"

fun max_oid :: "u32 \<Rightarrow> u32 \<Rightarrow> cfg_node_obj list \<Rightarrow> u32" where
  "max_oid type maxid [] = maxid"
| "max_oid type maxid (c # cs) =
     max_oid type (if obj_id c AND CFG_TYPE_MASK = type \<and> maxid < obj_id c then obj_id c else maxid) cs"

definition cfg_obj_auto_oid :: "cfg_node_obj \<Rightarrow> u32 \<Rightarrow> u32" where
  "cfg_obj_auto_oid obj oid =
     (let type = oid AND CFG_TYPE_MASK; maxid = max_oid type type (obj_child obj)
      in if maxid AND CFG_OBJ_MASK = CFG_OBJ_MASK then cfg_obj_first_unused_oid obj oid
         else maxid + 1)"

section \<open>Building and releasing objects\<close>

definition cfg_obj_alloc_node :: "cfg_env \<Rightarrow> cfg_state \<Rightarrow> bool \<times> cfg_state" where
  "cfg_obj_alloc_node E s =
     (case shm_calloc E s of
        (False, s1) \<Rightarrow> (False, s1)
      | (True, s1) \<Rightarrow>
          (case shm_calloc E s1 of
             (False, s2) \<Rightarrow> (False, shm_free s2)
           | (True, s2) \<Rightarrow> (True, s2)))"

text \<open>\<open>cfg_obj_create_from_type\<close> for a type and the brothers that follow it. When the node
  of a type cannot be allocated the function returns NULL, and the brothers behind it are
  not created either.\<close>

fun cfg_obj_create_from_type ::
  "cfg_env \<Rightarrow> cfg_node_type list \<Rightarrow> cfg_state \<Rightarrow> cfg_node_obj list \<times> cfg_state" where
  "cfg_obj_create_from_type E [] s = ([], s)"
| "cfg_obj_create_from_type E (CfgType i nm fl subs ops ix # bs) s =
     (case cfg_obj_alloc_node E s of
        (False, s1) \<Rightarrow> ([], s1)
      | (True, s1) \<Rightarrow>
          (case cfg_obj_create_from_type E subs s1 of
             (ch, s2) \<Rightarrow>
               (case cfg_obj_create_from_type E bs s2 of
                  (bros, s3) \<Rightarrow> (CfgObj (push_bit CFG_TYPE_SHIFT i + 1) [] ch # bros, s3))))"

text \<open>Freeing an object releases its XML node and the node.\<close>

definition cfg_obj_free_object :: "cfg_state \<Rightarrow> cfg_state" where
  "cfg_obj_free_object s = shm_free (s\<lparr>shm_live := shm_live s - 1\<rparr>)"

text \<open>\<open>cfg_obj_release_object\<close> on an object and the brothers that follow it.\<close>

fun cfg_obj_release_object :: "cfg_node_obj list \<Rightarrow> cfg_state \<Rightarrow> cfg_state" where
  "cfg_obj_release_object [] s = s"
| "cfg_obj_release_object (CfgObj i p ch # bs) s =
     cfg_obj_free_object (cfg_obj_release_object bs (cfg_obj_release_object ch s))"

text \<open>\<open>cfg_obj_del_from_type\<close> on an object and its brothers: children first, then the
  brothers, then the object itself if its type is created on demand. What it leaves of the
  list.\<close>

fun cfg_obj_del_from_type ::
  "cfg_env \<Rightarrow> cfg_node_obj list \<Rightarrow> cfg_state \<Rightarrow> cfg_node_obj list \<times> cfg_state" where
  "cfg_obj_del_from_type E [] s = ([], s)"
| "cfg_obj_del_from_type E (CfgObj i p ch # bs) s =
     (case cfg_obj_del_from_type E ch s of
        (ch', s1) \<Rightarrow>
          (case cfg_obj_del_from_type E bs s1 of
             (bs', s2) \<Rightarrow>
               if cfg_type_is_dynamic_type (env_types E) (cfg_obj_type i)
               then (bs', cfg_obj_release_object [CfgObj i p ch'] s2)
               else (CfgObj i p ch' # bs', s2)))"

definition cfg_obj_load_from_type :: "cfg_env \<Rightarrow> cfg_state \<Rightarrow> root_ptr \<times> cfg_state" where
  "cfg_obj_load_from_type E s =
     (case cfg_obj_create_from_type E [cfg_type_get_root (env_types E)] s of
        ([], s1) \<Rightarrow> (RootNull, s1)
      | (node # _, s1) \<Rightarrow>
          (case cfg_obj_del_from_type E [node] s1 of
             ([], s2) \<Rightarrow> (RootDangling, s2)
           | (node' # _, s2) \<Rightarrow> (RootLive node', s2)))"

section \<open>Counting\<close>

fun obj_count :: "cfg_node_obj list \<Rightarrow> nat" where
  "obj_count [] = 0"
| "obj_count (CfgObj i p ch # bs) = Suc (obj_count ch + obj_count bs)"

lemma obj_count_append [simp]: "obj_count (xs @ ys) = obj_count xs + obj_count ys"
  by (induction xs rule: obj_count.induct) auto

lemma obj_count_Cons: "obj_count (x # xs) = Suc (obj_count (obj_child x) + obj_count xs)"
  by (cases x) simp

text \<open>The state after a pool operation: only the two counters differ.\<close>

definition pool_step :: "cfg_state \<Rightarrow> int \<Rightarrow> cfg_state \<Rightarrow> bool" where
  "pool_step s d s' \<longleftrightarrow> (\<exists>n. s' = s\<lparr>shm_calls := n, shm_live := shm_live s + d\<rparr>)"

lemma pool_step_refl [simp]: "pool_step s 0 s"
  unfolding pool_step_def by (rule exI [of _ "shm_calls s"]) simp

lemma pool_step_trans: "pool_step s d s' \<Longrightarrow> pool_step s' e s'' \<Longrightarrow> pool_step s (d + e) s''"
  unfolding pool_step_def by (auto simp: add.assoc)

lemma pool_stepD:
  assumes "pool_step s d s'"
  shows "cfg_obj_root s' = cfg_obj_root s" "lock_log s' = lock_log s" "handler_log s' = handler_log s"
    "shm_live s' = shm_live s + d"
  using assms by (auto simp: pool_step_def)

lemma pool_step_free: "pool_step s (- 2) (cfg_obj_free_object s)"
  unfolding pool_step_def cfg_obj_free_object_def shm_free_def
  by (rule exI [of _ "shm_calls s"]) simp

lemma pool_step_alloc: "cfg_obj_alloc_node E s = (b, s') \<Longrightarrow> pool_step s (if b then 2 else 0) s'"
  by (auto simp: cfg_obj_alloc_node_def shm_calloc_def shm_free_def pool_step_def add.commute split: if_splits bool.splits)

lemma pool_step_create:
  "cfg_obj_create_from_type E ts s = (os, s') \<Longrightarrow> pool_step s (2 * int (obj_count os)) s'"
proof (induction E ts s arbitrary: os s' rule: cfg_obj_create_from_type.induct)
  case (1 E s)
  then show ?case by simp
next
  case (2 E i nm fl subs ops ix bs s)
  obtain b s1 where a: "cfg_obj_alloc_node E s = (b, s1)" by (cases "cfg_obj_alloc_node E s")
  show ?case
  proof (cases b)
    case False
    with "2.prems" a pool_step_alloc [OF a] show ?thesis by simp
  next
    case True
    obtain ch s2 where c: "cfg_obj_create_from_type E subs s1 = (ch, s2)"
      by (cases "cfg_obj_create_from_type E subs s1")
    obtain bros s3 where d: "cfg_obj_create_from_type E bs s2 = (bros, s3)"
      by (cases "cfg_obj_create_from_type E bs s2")
    from "2.prems" a True c d have r: "os = CfgObj (push_bit CFG_TYPE_SHIFT i + 1) [] ch # bros" "s' = s3"
      by auto
    have "pool_step s 2 s1" using pool_step_alloc [OF a] True by simp
    moreover have "pool_step s1 (2 * int (obj_count ch)) s2" using "2.IH"(1) a True c by simp
    moreover have "pool_step s2 (2 * int (obj_count bros)) s3" using "2.IH"(2) a True c d by simp
    ultimately have "pool_step s (2 + 2 * int (obj_count ch) + 2 * int (obj_count bros)) s3"
      using pool_step_trans by blast
    then show ?thesis by (simp add: r algebra_simps)
  qed
qed

lemma pool_step_release: "pool_step s (- 2 * int (obj_count os)) (cfg_obj_release_object os s)"
proof (induction os s rule: cfg_obj_release_object.induct)
  case (2 i p ch bs s)
  from pool_step_trans [OF pool_step_trans [OF "2"] pool_step_free]
  show ?case by (simp add: algebra_simps)
qed simp

lemma pool_step_del:
  "cfg_obj_del_from_type E os s = (os', s') \<Longrightarrow>
   pool_step s (2 * int (obj_count os') - 2 * int (obj_count os)) s'"
proof (induction E os s arbitrary: os' s' rule: cfg_obj_del_from_type.induct)
  case (1 E s)
  then show ?case by simp
next
  case (2 E i p ch bs s)
  obtain ch' s1 where c: "cfg_obj_del_from_type E ch s = (ch', s1)"
    by (cases "cfg_obj_del_from_type E ch s")
  obtain bs' s2 where d: "cfg_obj_del_from_type E bs s1 = (bs', s2)"
    by (cases "cfg_obj_del_from_type E bs s1")
  have st: "pool_step s (2 * int (obj_count ch') - 2 * int (obj_count ch)
      + (2 * int (obj_count bs') - 2 * int (obj_count bs))) s2"
    using "2.IH"(1) [OF c] "2.IH"(2) [OF c [symmetric] d] pool_step_trans by blast
  show ?case
  proof (cases "cfg_type_is_dynamic_type (env_types E) (cfg_obj_type i)")
    case True
    then have r: "os' = bs'" "s' = cfg_obj_release_object [CfgObj i p ch'] s2"
      using "2.prems" c d by auto
    show ?thesis
      using pool_step_trans [OF st pool_step_release, of "[CfgObj i p ch']"] unfolding r
      by (simp add: algebra_simps)
  next
    case False
    with "2.prems" c d st show ?thesis by (auto simp: algebra_simps)
  qed
qed

section \<open>Different numbers among brothers\<close>

fun tree_ok :: "cfg_node_obj list \<Rightarrow> bool" where
  "tree_ok [] = True"
| "tree_ok (CfgObj i p ch # bs) = (i \<notin> obj_id ` set bs \<and> tree_ok ch \<and> tree_ok bs)"

lemma tree_ok_append:
  "tree_ok (xs @ ys) \<longleftrightarrow> tree_ok xs \<and> tree_ok ys \<and> obj_id ` set xs \<inter> obj_id ` set ys = {}"
  by (induction xs rule: tree_ok.induct) auto

lemma tree_ok_distinct: "tree_ok os \<Longrightarrow> distinct (map obj_id os)"
  by (induction os rule: tree_ok.induct) auto

lemma tree_ok_child: "tree_ok os \<Longrightarrow> obj \<in> set os \<Longrightarrow> tree_ok (obj_child obj)"
  by (induction os rule: tree_ok.induct) auto

lemma tree_ok_single: "tree_ok [obj] \<longleftrightarrow> tree_ok (obj_child obj)"
  by (cases obj) simp

lemma create_ids:
  "cfg_obj_create_from_type E ts s = (os, s') \<Longrightarrow>
   obj_id ` set os \<subseteq> (\<lambda>t. push_bit CFG_TYPE_SHIFT (type_id t) + 1) ` set ts"
proof (induction E ts s arbitrary: os s' rule: cfg_obj_create_from_type.induct)
  case (2 E i nm fl subs ops ix bs s)
  obtain b s1 where a: "cfg_obj_alloc_node E s = (b, s1)" by (cases "cfg_obj_alloc_node E s")
  obtain ch s2 where c: "cfg_obj_create_from_type E subs s1 = (ch, s2)"
    by (cases "cfg_obj_create_from_type E subs s1")
  obtain bros s3 where d: "cfg_obj_create_from_type E bs s2 = (bros, s3)"
    by (cases "cfg_obj_create_from_type E bs s2")
  show ?case
  proof (cases b)
    case True
    then have "obj_id ` set bros \<subseteq> (\<lambda>t. push_bit CFG_TYPE_SHIFT (type_id t) + 1) ` set bs"
      using "2.IH"(2) a c d by simp
    moreover have "os = CfgObj (push_bit CFG_TYPE_SHIFT i + 1) [] ch # bros"
      using "2.prems" a True c d by simp
    ultimately show ?thesis by (simp add: subset_insertI2)
  qed (use "2.prems" a in simp)
qed simp

lemma unat_type_shift: "unat i < 65536 \<Longrightarrow> unat (push_bit CFG_TYPE_SHIFT i + 1 :: u32) = unat i * 65536 + 1"
  using unat_mk_oid [of i 1] unat_push_bit16 [of i]
  by (simp add: CFG_TYPE_SHIFT_def unat_word_ariths)

lemma type_shift_inj:
  "unat i < 65536 \<Longrightarrow> unat j < 65536 \<Longrightarrow>
   push_bit CFG_TYPE_SHIFT i + 1 = (push_bit CFG_TYPE_SHIFT j + 1 :: u32) \<longleftrightarrow> i = j"
  using unat_type_shift by (auto simp: word_unat_eq_iff)

lemma create_tree_ok:
  assumes "cfg_obj_create_from_type E ts s = (os, s')"
    and "distinct (map type_id (type_nodes ts))" and "\<forall>t \<in> set (type_nodes ts). unat (type_id t) < 65536"
  shows "tree_ok os"
  using assms
proof (induction E ts s arbitrary: os s' rule: cfg_obj_create_from_type.induct)
  case (1 E s)
  then show ?case by simp
next
  case (2 E i nm fl subs ops ix bs s)
  obtain b s1 where a: "cfg_obj_alloc_node E s = (b, s1)" by (cases "cfg_obj_alloc_node E s")
  show ?case
  proof (cases b)
    case False
    with "2.prems" a show ?thesis by simp
  next
    case True
    obtain ch s2 where c: "cfg_obj_create_from_type E subs s1 = (ch, s2)"
      by (cases "cfg_obj_create_from_type E subs s1")
    obtain bros s3 where d: "cfg_obj_create_from_type E bs s2 = (bros, s3)"
      by (cases "cfg_obj_create_from_type E bs s2")
    from "2.prems" a True c d have r: "os = CfgObj (push_bit CFG_TYPE_SHIFT i + 1) [] ch # bros" by auto
    have "tree_ok ch" using "2.IH"(1) a True c "2.prems" by simp
    moreover have "tree_ok bros" using "2.IH"(2) a True c d "2.prems" by simp
    moreover have "push_bit CFG_TYPE_SHIFT i + 1 \<notin> obj_id ` set bros"
    proof
      assume "push_bit CFG_TYPE_SHIFT i + 1 \<in> obj_id ` set bros"
      with create_ids [OF d] obtain t where t: "t \<in> set bs"
          "push_bit CFG_TYPE_SHIFT i + 1 = (push_bit CFG_TYPE_SHIFT (type_id t) + 1 :: u32)" by auto
      then have "t \<in> set (type_nodes bs)" by (simp add: nodes_top)
      with t "2.prems" type_shift_inj [of i "type_id t"] show False by auto
    qed
    ultimately show ?thesis by (simp add: r)
  qed
qed

lemma del_ids: "cfg_obj_del_from_type E os s = (os', s') \<Longrightarrow> obj_id ` set os' \<subseteq> obj_id ` set os"
proof (induction E os s arbitrary: os' s' rule: cfg_obj_del_from_type.induct)
  case (2 E i p ch bs s)
  then show ?case by (auto split: prod.splits if_splits) blast+
qed simp

lemma del_tree_ok: "cfg_obj_del_from_type E os s = (os', s') \<Longrightarrow> tree_ok os \<Longrightarrow> tree_ok os'"
proof (induction E os s arbitrary: os' s' rule: cfg_obj_del_from_type.induct)
  case (2 E i p ch bs s)
  obtain ch' s1 where c: "cfg_obj_del_from_type E ch s = (ch', s1)"
    by (cases "cfg_obj_del_from_type E ch s")
  obtain bs' s2 where d: "cfg_obj_del_from_type E bs s1 = (bs', s2)"
    by (cases "cfg_obj_del_from_type E bs s1")
  have "tree_ok ch'" "tree_ok bs'"
    using "2.IH"(1) [OF c] "2.IH"(2) [OF c [symmetric] d] "2.prems" by auto
  moreover have "i \<notin> obj_id ` set bs'" using del_ids [OF d] "2.prems" by auto
  ultimately show ?case using "2.prems" c d by (auto split: if_splits)
qed simp

section \<open>Pointers into the tree\<close>

lemma get_child_SomeD: "cfg_obj_get_child obj i = Some c \<Longrightarrow> c \<in> set (obj_child obj) \<and> obj_id c = i"
  by (auto simp: cfg_obj_get_child_def find_Some_iff)

lemma find_upd_first:
  assumes "\<And>y. obj_id (g y) = obj_id y"
  shows "find (\<lambda>c. obj_id c = j) (upd_first i g cs) =
    (if i = j then map_option g (find (\<lambda>c. obj_id c = j) cs) else find (\<lambda>c. obj_id c = j) cs)"
  using assms by (induction cs) auto

lemma obj_upd_id: "(\<And>y. obj_id (f y) = obj_id y) \<Longrightarrow> obj_id (obj_upd p f obj) = obj_id obj"
  by (cases p) auto

lemma get_child_upd:
  assumes "\<And>y. obj_id (f y) = obj_id y"
  shows "cfg_obj_get_child (obj_upd (i # p) f obj) j =
    (if i = j then map_option (obj_upd p f) (cfg_obj_get_child obj j) else cfg_obj_get_child obj j)"
  using obj_upd_id [of f p, OF assms] by (simp add: cfg_obj_get_child_def find_upd_first)

lemma obj_at_append:
  "obj_at obj (p @ q) = (case obj_at obj p of None \<Rightarrow> None | Some c \<Rightarrow> obj_at c q)"
  by (induction p arbitrary: obj) (auto split: option.splits)

lemma obj_at_upd_below:
  assumes "\<And>y. obj_id (f y) = obj_id y"
  shows "obj_at (obj_upd p f obj) (p @ q) =
    (case obj_at obj p of None \<Rightarrow> None | Some c \<Rightarrow> obj_at (f c) q)"
proof (induction p arbitrary: obj)
  case (Cons i p)
  then show ?case by (auto simp: get_child_upd [OF assms] simp del: obj_upd.simps split: option.splits)
qed simp

lemma obj_at_upd_same:
  "(\<And>y. obj_id (f y) = obj_id y) \<Longrightarrow> obj_at (obj_upd p f obj) p = map_option f (obj_at obj p)"
  using obj_at_upd_below [of f p obj "[]"] by (simp split: option.splits)

text \<open>Away from the updated object only descendants can change.\<close>

lemma obj_at_upd_private:
  assumes "\<And>y. obj_id (f y) = obj_id y" and "\<And>y. obj_child (f y) = obj_child y" and "q \<noteq> p"
  shows "map_option obj_private (obj_at (obj_upd p f obj) q) = map_option obj_private (obj_at obj q)"
  using assms(3)
proof (induction p arbitrary: obj q)
  case Nil
  then obtain j q' where q: "q = j # q'" by (cases q) auto
  show ?case by (simp add: q cfg_obj_get_child_def assms(2))
next
  case (Cons i p)
  show ?case
  proof (cases q)
    case Nil
    then show ?thesis by simp
  next
    case (Cons j q')
    show ?thesis
    proof (cases "i = j")
      case True
      with Cons Cons.prems have "q' \<noteq> p" by simp
      with Cons.IH True Cons show ?thesis
        by (auto simp: get_child_upd [OF assms(1)] simp del: obj_upd.simps split: option.splits)
    next
      case False
      with Cons show ?thesis by (simp add: get_child_upd [OF assms(1)] del: obj_upd.simps)
    qed
  qed
qed

lemma upd_first_ids: "(\<And>y. obj_id (g y) = obj_id y) \<Longrightarrow> map obj_id (upd_first i g cs) = map obj_id cs"
  by (induction cs) auto

lemma upd_first_tree_ok:
  assumes "\<And>y. obj_id (g y) = obj_id y" and "tree_ok cs"
    and "\<And>c. find (\<lambda>c. obj_id c = i) cs = Some c \<Longrightarrow> tree_ok [g c]"
  shows "tree_ok (upd_first i g cs)"
  using assms(2,3)
proof (induction cs)
  case (Cons c cs)
  obtain j p ch where c: "c = CfgObj j p ch" by (cases c)
  show ?case
  proof (cases "j = i")
    case True
    then have "tree_ok [g c]" using Cons.prems(2) [of c] c by simp
    moreover obtain k p' ch' where g: "g c = CfgObj k p' ch'" by (cases "g c")
    moreover have "k = j" using assms(1) [of c] g c by simp
    ultimately show ?thesis using Cons.prems True c by simp
  next
    case False
    then have "tree_ok (upd_first i g cs)" using Cons c by simp
    moreover have "j \<notin> obj_id ` set (upd_first i g cs)"
      using upd_first_ids [of g i cs, OF assms(1)] Cons.prems c by (metis set_map tree_ok.simps(2))
    ultimately show ?thesis using False Cons.prems c by simp
  qed
qed simp

lemma obj_upd_tree_ok:
  assumes "\<And>y. obj_id (f y) = obj_id y"
    and "tree_ok [obj]" and "\<And>c. obj_at obj p = Some c \<Longrightarrow> tree_ok [c] \<Longrightarrow> tree_ok [f c]"
  shows "tree_ok [obj_upd p f obj]"
  using assms(2,3)
proof (induction p arbitrary: obj)
  case Nil
  then show ?case by simp
next
  case (Cons i p)
  have "tree_ok (upd_first i (obj_upd p f) (obj_child obj))"
  proof (rule upd_first_tree_ok)
    show "obj_id (obj_upd p f y) = obj_id y" for y by (rule obj_upd_id) (rule assms(1))
    show "tree_ok (obj_child obj)" using Cons.prems(1) tree_ok_single by blast
    fix c assume fc: "find (\<lambda>c. obj_id c = i) (obj_child obj) = Some c"
    then have gc: "cfg_obj_get_child obj i = Some c" by (simp add: cfg_obj_get_child_def)
    have "tree_ok [c]"
      using Cons.prems(1) get_child_SomeD [OF gc] tree_ok_child [of "obj_child obj" c]
      by (simp only: tree_ok_single)
    with Cons.IH Cons.prems(2) gc show "tree_ok [obj_upd p f c]" by simp
  qed
  then show ?case by simp
qed

lemma upd_first_count:
  "(\<And>c. find (\<lambda>c. obj_id c = i) cs = Some c \<Longrightarrow> int (obj_count [g c]) = int (obj_count [c]) + d) \<Longrightarrow>
   find (\<lambda>c. obj_id c = i) cs \<noteq> None \<Longrightarrow> int (obj_count (upd_first i g cs)) = int (obj_count cs) + d"
proof (induction cs)
  case (Cons c cs)
  show ?case
  proof (cases "obj_id c = i")
    case True
    with Cons.prems(1) [of c] show ?thesis by (simp add: obj_count_Cons)
  next
    case False
    with Cons show ?thesis by (simp add: obj_count_Cons)
  qed
qed simp

lemma obj_upd_count:
  "obj_at obj p = Some c \<Longrightarrow> int (obj_count [f c]) = int (obj_count [c]) + d \<Longrightarrow>
   int (obj_count [obj_upd p f obj]) = int (obj_count [obj]) + d"
proof (induction p arbitrary: obj)
  case (Cons i p)
  from Cons.prems obtain e where e: "cfg_obj_get_child obj i = Some e" "obj_at e p = Some c"
    by (auto split: option.splits)
  obtain j q ch where o: "obj = CfgObj j q ch" by (cases obj)
  have "int (obj_count (upd_first i (obj_upd p f) ch)) = int (obj_count ch) + d"
  proof (rule upd_first_count)
    show "int (obj_count [obj_upd p f x]) = int (obj_count [x]) + d"
      if "find (\<lambda>c. obj_id c = i) ch = Some x" for x
      using that e o Cons.IH [of e] Cons.prems(2) by (simp add: cfg_obj_get_child_def)
    show "find (\<lambda>c. obj_id c = i) ch \<noteq> None" using e o by (simp add: cfg_obj_get_child_def)
  qed
  with o show ?case by simp
qed simp

section \<open>Removing a child\<close>

lemma rem_first_notin: "distinct (map obj_id cs) \<Longrightarrow> i \<notin> obj_id ` set (rem_first i cs)"
  by (induction cs) auto

lemma rem_first_subset: "set (rem_first i cs) \<subseteq> set cs"
  by (induction cs) auto

lemma rem_first_tree_ok: "tree_ok cs \<Longrightarrow> tree_ok (rem_first i cs)"
proof (induction cs rule: tree_ok.induct)
  case (2 j p ch bs)
  then show ?case using rem_first_subset [of i bs] by auto
qed simp

lemma rem_first_other: "j \<noteq> i \<Longrightarrow> find (\<lambda>c. obj_id c = j) (rem_first i cs) = find (\<lambda>c. obj_id c = j) cs"
  by (induction cs) auto

lemma rem_first_count:
  "find (\<lambda>c. obj_id c = i) cs = Some x \<Longrightarrow> obj_count cs = obj_count (rem_first i cs) + obj_count [x]"
proof (induction cs)
  case (Cons c cs)
  from Cons show ?case by (cases "obj_id c = i") (simp_all add: obj_count_Cons)
qed simp

section \<open>Automatic instance numbers\<close>

lemma max_oid_spec:
  "unat maxid div 65536 = unat type div 65536 \<Longrightarrow> type AND CFG_TYPE_MASK = type \<Longrightarrow>
   unat (max_oid type maxid cs) div 65536 = unat type div 65536 \<and>
   unat maxid \<le> unat (max_oid type maxid cs) \<and>
   (\<forall>c \<in> set cs. unat (obj_id c) div 65536 = unat type div 65536 \<longrightarrow>
      unat (obj_id c) \<le> unat (max_oid type maxid cs))"
proof (induction type maxid cs rule: max_oid.induct)
  case (2 type maxid c cs)
  have same: "obj_id c AND CFG_TYPE_MASK = type \<longleftrightarrow> unat (obj_id c) div 65536 = unat type div 65536"
    using "2.prems"(2) by (auto simp: word_unat_eq_iff unat_type_mask)
  define m where "m = (if obj_id c AND CFG_TYPE_MASK = type \<and> maxid < obj_id c then obj_id c else maxid)"
  have m: "unat m div 65536 = unat type div 65536" using "2.prems"(1) same by (auto simp: m_def)
  have le: "unat maxid \<le> unat m" by (auto simp: m_def word_less_nat_alt)
  have c: "unat (obj_id c) div 65536 = unat type div 65536 \<Longrightarrow> unat (obj_id c) \<le> unat m"
    using same by (auto simp: m_def word_less_nat_alt)
  have IH: "unat (max_oid type m cs) div 65536 = unat type div 65536 \<and>
   unat m \<le> unat (max_oid type m cs) \<and>
   (\<forall>c \<in> set cs. unat (obj_id c) div 65536 = unat type div 65536 \<longrightarrow>
      unat (obj_id c) \<le> unat (max_oid type m cs))"
    using "2.IH" m "2.prems"(2) unfolding m_def by blast
  have "max_oid type maxid (c # cs) = max_oid type m cs" by (simp add: m_def)
  with IH le c show ?case by (auto intro: order_trans)
qed simp

lemma type_mask_idem: "(x AND CFG_TYPE_MASK) AND CFG_TYPE_MASK = x AND CFG_TYPE_MASK"
  by (simp add: word_unat_eq_iff unat_type_mask)

lemma auto_oid_spec:
  assumes "max_oid (oid AND CFG_TYPE_MASK) (oid AND CFG_TYPE_MASK) (obj_child obj) AND CFG_OBJ_MASK \<noteq> CFG_OBJ_MASK"
  shows "unat (cfg_obj_auto_oid obj oid) div 65536 = unat oid div 65536"
    and "cfg_obj_auto_oid obj oid \<notin> obj_id ` set (obj_child obj)"
    and "cfg_obj_id (cfg_obj_auto_oid obj oid) \<noteq> 0"
proof -
  let ?t = "oid AND CFG_TYPE_MASK"
  let ?m = "max_oid ?t ?t (obj_child obj)"
  have t: "unat ?t div 65536 = unat oid div 65536" by (simp add: unat_type_mask)
  note sp = max_oid_spec [of ?t ?t "obj_child obj", OF refl type_mask_idem]
  have "unat ?m mod 65536 \<noteq> 65535"
    using assms unat_take_bit16 [of ?m] by (auto simp: CFG_OBJ_MASK_def and_ffff word_unat_eq_iff)
  moreover have "unat ?m mod 65536 < 65536" by simp
  ultimately have lt: "Suc (unat ?m mod 65536) < 65536" by linarith
  have md: "unat ?m = unat ?m div 65536 * 65536 + unat ?m mod 65536" by simp
  have "unat ?m < 4294967296" by (rule unat_lt32)
  then have "unat ?m div 65536 < 65536" by (simp add: less_mult_imp_div_less)
  then have b: "unat ?m + 1 < 4294967296" using lt md by linarith
  have a: "cfg_obj_auto_oid obj oid = ?m + 1" using assms by (simp add: cfg_obj_auto_oid_def Let_def)
  have u: "unat (cfg_obj_auto_oid obj oid) = unat ?m + 1" using b by (simp add: a unat_word_ariths)
  have d: "(unat ?m + 1) div 65536 = unat ?m div 65536" using lt by (simp add: div_Suc mod_Suc)
  have e: "(unat ?m + 1) mod 65536 = Suc (unat ?m mod 65536)" using lt by (simp add: mod_Suc)
  show f: "unat (cfg_obj_auto_oid obj oid) div 65536 = unat oid div 65536"
    using sp t u d by simp
  show "cfg_obj_auto_oid obj oid \<notin> obj_id ` set (obj_child obj)"
  proof
    assume "cfg_obj_auto_oid obj oid \<in> obj_id ` set (obj_child obj)"
    then obtain c where c: "c \<in> set (obj_child obj)" "cfg_obj_auto_oid obj oid = obj_id c" by auto
    with f t have "unat (obj_id c) div 65536 = unat ?t div 65536" by simp
    with sp c have "unat (obj_id c) \<le> unat ?m" by blast
    with c u show False by simp
  qed
  have "unat (cfg_obj_id (cfg_obj_auto_oid obj oid)) \<noteq> 0" using u e by (simp add: unat_obj_id)
  then show "cfg_obj_id (cfg_obj_auto_oid obj oid) \<noteq> 0" by auto
qed

end
