(* ===== verification/CfgObj.thy ===== *)
theory CfgObj
  imports CfgTree
begin

text \<open>
  The operations on configuration objects (\<open>service/cfg/cfg_obj.c\<close>, lines 376 to 1127
  and 1338 to 1419): finding an object by its path, creating, deleting, querying and
  committing it, reading, writing and copying its attributes, and resetting the tree.

  An operation takes the state and returns its value with the new state, or the first
  memory fault. The trace of lock calls is part of the state, and so is the list of the
  type handlers an operation called.
\<close>

section \<open>Pointers\<close>

definition cfg_obj_get_obj :: "cfg_env \<Rightarrow> cfg_state \<Rightarrow> string \<Rightarrow> u32 list option cres" where
  "cfg_obj_get_obj E s objpath =
     (if cfg_obj_root s = RootNull then Ret None
      else cbind (cfg_path_to_oid_array (env_types E) objpath) (\<lambda>id.
        case id of
          None \<Rightarrow> Ret None
        | Some ids \<Rightarrow>
            if length ids = 1 then Ret (Some [])
            else (case cfg_obj_root s of
                    RootLive root \<Rightarrow>
                      Ret (if obj_at root (tl ids) = None then None else Some (tl ids))
                  | _ \<Rightarrow> Fault UseAfterFree)))"

text \<open>Reading the object a pointer leads to.\<close>

definition deref :: "cfg_state \<Rightarrow> u32 list \<Rightarrow> cfg_node_obj cres" where
  "deref s p =
     (case cfg_obj_root s of
        RootNull \<Rightarrow> Fault NullDeref
      | RootDangling \<Rightarrow> Fault UseAfterFree
      | RootLive root \<Rightarrow>
          (case obj_at root p of None \<Rightarrow> Fault UseAfterFree | Some obj \<Rightarrow> Ret obj))"

definition upd_obj :: "u32 list \<Rightarrow> (cfg_node_obj \<Rightarrow> cfg_node_obj) \<Rightarrow> cfg_state \<Rightarrow> cfg_state" where
  "upd_obj p f s =
     (case cfg_obj_root s of
        RootLive root \<Rightarrow> s\<lparr>cfg_obj_root := RootLive (obj_upd p f root)\<rparr>
      | _ \<Rightarrow> s)"

definition link_child :: "cfg_node_obj \<Rightarrow> cfg_node_obj \<Rightarrow> cfg_node_obj" where
  "link_child node obj = CfgObj (obj_id obj) (obj_private obj) (obj_child obj @ [node])"

definition unlink_child :: "u32 \<Rightarrow> cfg_node_obj \<Rightarrow> cfg_node_obj" where
  "unlink_child i obj = CfgObj (obj_id obj) (obj_private obj) (rem_first i (obj_child obj))"

definition set_private :: "attrs \<Rightarrow> cfg_node_obj \<Rightarrow> cfg_node_obj" where
  "set_private a obj = CfgObj (obj_id obj) a (obj_child obj)"

section \<open>Query\<close>

definition cfg_obj_get_child_oid :: "cfg_node_obj \<Rightarrow> u32 \<Rightarrow> int \<times> u32 list" where
  "cfg_obj_get_child_oid node type =
     (let ids = map (\<lambda>c. obj_id c AND CFG_OBJ_MASK)
                  (filter (\<lambda>c. cfg_obj_type (obj_id c) = type) (obj_child node))
      in (int (length ids), ids))"

text \<open>The subtype whose objects \<open>cfg_obj_query_object\<close> counts: \<open>Some None\<close> when none was
  given, \<open>None\<close> when it does not exist.\<close>

definition query_subtype :: "cfg_env \<Rightarrow> string \<Rightarrow> string option \<Rightarrow> cfg_node_type option option cres" where
  "query_subtype E objpath subtype =
     (case subtype of
        None \<Rightarrow> Ret (Some None)
      | Some st \<Rightarrow>
          cbind (cfg_type_query (env_types E) objpath) (\<lambda>type.
            case type of
              None \<Rightarrow> Ret None
            | Some t \<Rightarrow> Ret (map_option Some (cfg_type_query_child (env_types E) (Some t) (Some st)))))"

text \<open>\<open>want_id\<close> says whether the caller passes an array \<open>id\<close>; the numbers written to it are returned
  beside the return value.\<close>

definition cfg_obj_query_object ::
  "cfg_env \<Rightarrow> string \<Rightarrow> string option \<Rightarrow> bool \<Rightarrow> cfg_state \<Rightarrow> ((int \<times> u32 list) \<times> cfg_state) cres" where
  "cfg_obj_query_object E objpath subtype want_id s =
     cbind (query_subtype E objpath subtype) (\<lambda>sub.
       case sub of
         None \<Rightarrow> Ret ((-1, []), s)
       | Some type \<Rightarrow>
           (let s1 = cfg_obj_lock s
            in cbind (cfg_obj_get_obj E s1 objpath) (\<lambda>p.
              case p of
                None \<Rightarrow> Ret ((-1, []), cfg_obj_unlock s1)
              | Some node \<Rightarrow>
                  (case type of
                     None \<Rightarrow>
                       if want_id
                       then cbind (deref s1 node) (\<lambda>obj.
                              Ret ((1, [obj_id obj AND CFG_OBJ_MASK]), cfg_obj_unlock s1))
                       else Ret ((1, []), cfg_obj_unlock s1)
                   | Some t \<Rightarrow>
                       cbind (deref s1 node) (\<lambda>obj.
                         case cfg_obj_get_child_oid obj (type_id t) of
                           (num, ids) \<Rightarrow> Ret ((num, if want_id then ids else []), cfg_obj_unlock s1))))))"

section \<open>Create\<close>

definition cfg_obj_create_sub_obj ::
  "cfg_env \<Rightarrow> u32 list \<Rightarrow> u32 \<Rightarrow> cfg_state \<Rightarrow> (int \<times> cfg_state) cres" where
  "cfg_obj_create_sub_obj E p oid s =
     cbind (deref s p) (\<lambda>obj.
       if cfg_obj_get_child obj oid \<noteq> None then Ret (-1, s)
       else case cfg_type_from_oid E oid of
         None \<Rightarrow> Ret (-1, s)
       | Some type \<Rightarrow>
           (case cfg_obj_alloc_node E s of
              (False, s1) \<Rightarrow> Ret (-1, s1)
            | (True, s1) \<Rightarrow>
                let nid = (if cfg_obj_id oid \<noteq> 0 then oid else cfg_obj_auto_oid obj oid)
                in (case cfg_obj_create_from_type E (type_subtype type) s1 of
                      (ch, s2) \<Rightarrow>
                        (case cfg_obj_del_from_type E ch s2 of
                           (ch', s3) \<Rightarrow>
                             Ret (sint nid, upd_obj p (link_child (CfgObj nid [] ch')) s3)))))"

lemma cut_dot_le: "cut_dot p n \<le> n"
  by (induction p n rule: cut_dot.induct) auto

lemma cut_dot_less: "cut_dot p (length p) \<noteq> 0 \<Longrightarrow> cut_dot p (length p) < length p"
proof -
  have "cut_dot p n \<noteq> 0 \<Longrightarrow> cut_dot p n < length p" for n
    by (induction p n rule: cut_dot.induct) (auto split: if_splits)
  then show "cut_dot p (length p) \<noteq> 0 \<Longrightarrow> cut_dot p (length p) < length p" .
qed

lemma parent_path_shorter:
  assumes "cfg_get_parent_path (Some p) = Ret (r, q)" and "\<not> r < 0"
  shows "length q < length p"
proof -
  let ?l = "cut_dot p (length p)"
  have l: "?l \<noteq> 0 \<Longrightarrow> ?l < length p" by (rule cut_dot_less)
  have l2: "cut_dot p (?l - 1) \<le> ?l - 1" by (rule cut_dot_le)
  from assms have "q = take ?l p \<and> ?l \<noteq> 0 \<or> q = take (cut_dot p (?l - 1)) p \<and> ?l \<noteq> 0"
    by (auto simp: cfg_get_parent_path_def Let_def split: if_splits)
  with l l2 show ?thesis by auto
qed

text \<open>\<open>cfg_obj_create_object\<close> creates a missing parent first when its type can be created
  on demand, and so on up the path.\<close>

function cfg_obj_create_object :: "cfg_env \<Rightarrow> string \<Rightarrow> cfg_state \<Rightarrow> (int \<times> cfg_state) cres" where
  "cfg_obj_create_object E objpath s =
     cbind (cfg_get_parent_path (Some objpath)) (\<lambda>(r, parent).
       if r < 0 then Ret (-1, s)
       else cbind (cfg_obj_query_object E parent None False s) (\<lambda>((q, _), s1).
         cbind (if q \<le> 0
                then cbind (cfg_type_query (env_types E) parent) (\<lambda>type.
                  case type of
                    None \<Rightarrow> Ret (False, s1)
                  | Some t \<Rightarrow>
                      if cfg_type_is_dynamic_type (env_types E) (type_id t)
                      then cbind (cfg_obj_create_object E parent s1) (\<lambda>(r2, s2). Ret (0 < r2, s2))
                      else Ret (False, s1))
                else Ret (True, s1)) (\<lambda>(ok, s2).
           if \<not> ok then Ret (-1, s2)
           else cbind (cfg_path_to_oid (env_types E) objpath) (\<lambda>oid.
             if sint oid \<le> 0 then Ret (-1, s2)
             else
               let s3 = cfg_obj_lock s2
               in cbind (cfg_obj_get_obj E s3 parent) (\<lambda>p.
                    case p of
                      None \<Rightarrow> Ret (0, cfg_obj_unlock s3)
                    | Some node \<Rightarrow>
                        cbind (cfg_obj_create_sub_obj E node oid s3) (\<lambda>(ret, s4).
                          Ret (ret, cfg_obj_unlock s4)))))))"
  by pat_completeness auto
termination
  by (relation "measure (\<lambda>(E, objpath, s). length objpath)") (auto dest: parent_path_shorter)

declare cfg_obj_create_object.simps [simp del]

section \<open>Delete\<close>

definition cfg_obj_unlink_object :: "u32 list \<Rightarrow> cfg_state \<Rightarrow> cfg_state" where
  "cfg_obj_unlink_object p s =
     (if p = [] then s else upd_obj (butlast p) (unlink_child (last p)) s)"

text \<open>An object without parent is the root: its tree is released and \<open>cfg_obj_root\<close> still
  holds its address.\<close>

definition cfg_obj_del_object :: "u32 list \<Rightarrow> cfg_state \<Rightarrow> (int \<times> cfg_state) cres" where
  "cfg_obj_del_object p s =
     cbind (deref s p) (\<lambda>obj.
       let s1 = cfg_obj_unlink_object p s;
           s2 = cfg_obj_release_object [obj] s1
       in Ret (sint (obj_id obj), if p = [] then s2\<lparr>cfg_obj_root := RootDangling\<rparr> else s2))"

definition cfg_obj_delete_object :: "cfg_env \<Rightarrow> string \<Rightarrow> cfg_state \<Rightarrow> (int \<times> cfg_state) cres" where
  "cfg_obj_delete_object E objpath s =
     (let s1 = cfg_obj_lock s
      in cbind (cfg_obj_get_obj E s1 objpath) (\<lambda>p.
           case p of
             None \<Rightarrow> Ret (-1, cfg_obj_unlock s1)
           | Some node \<Rightarrow>
               cbind (cfg_obj_del_object node s1) (\<lambda>(ret, s2). Ret (ret, cfg_obj_unlock s2))))"

section \<open>Attributes\<close>

text \<open>The value read is cut to \<open>size - 1\<close> characters; its length is the return value.\<close>

definition cfg_obj_get_obj_attr ::
  "cfg_env \<Rightarrow> cfg_node_obj \<Rightarrow> string \<Rightarrow> int \<Rightarrow> int \<times> string option" where
  "cfg_obj_get_obj_attr E node name sz =
     (case env_xml_get E (obj_private node) name of
        None \<Rightarrow> (-2, None)
      | Some tmp \<Rightarrow>
          let val = take (nat (sz - 1)) tmp in (int (length val), Some val))"

definition cfg_obj_get_object_attr ::
  "cfg_env \<Rightarrow> string option \<Rightarrow> string option \<Rightarrow> int \<Rightarrow> cfg_state \<Rightarrow>
   ((int \<times> string option) \<times> cfg_state) cres" where
  "cfg_obj_get_object_attr E path attr sz s =
     (case (path, attr) of
        (Some pa, Some at) \<Rightarrow>
          if sz \<le> 0 then Ret ((-1, None), s)
          else
            let s1 = cfg_obj_lock s
            in cbind (cfg_obj_get_obj E s1 pa) (\<lambda>p.
                 case p of
                   None \<Rightarrow> Ret ((-1, None), cfg_obj_unlock s1)
                 | Some node \<Rightarrow>
                     cbind (deref s1 node) (\<lambda>obj.
                       Ret (cfg_obj_get_obj_attr E obj at sz, cfg_obj_unlock s1)))
      | _ \<Rightarrow> Ret ((-1, None), s))"

definition cfg_obj_set_obj_attr ::
  "cfg_env \<Rightarrow> u32 list \<Rightarrow> string \<Rightarrow> string \<Rightarrow> cfg_state \<Rightarrow> (int \<times> cfg_state) cres" where
  "cfg_obj_set_obj_attr E p name val s =
     cbind (deref s p) (\<lambda>obj.
       Ret (0, upd_obj p (\<lambda>y. set_private (env_xml_set E (obj_private y) name val) y) s))"

definition cfg_obj_set_object_attr ::
  "cfg_env \<Rightarrow> string option \<Rightarrow> string option \<Rightarrow> string option \<Rightarrow> cfg_state \<Rightarrow> (int \<times> cfg_state) cres" where
  "cfg_obj_set_object_attr E path attr val s =
     (case (path, attr, val) of
        (Some pa, Some at, Some v) \<Rightarrow>
          if at = [] then Ret (-1, s)
          else
            let s1 = cfg_obj_lock s
            in cbind (cfg_obj_get_obj E s1 pa) (\<lambda>p.
                 case p of
                   None \<Rightarrow> Ret (-1, cfg_obj_unlock s1)
                 | Some node \<Rightarrow>
                     cbind (cfg_obj_set_obj_attr E node at v s1) (\<lambda>(ret, s2).
                       Ret (ret, cfg_obj_unlock s2)))
      | _ \<Rightarrow> Ret (-1, s))"

text \<open>The attributes of \<open>src\<close> set one by one on an attribute array.\<close>

definition copy_attrs :: "cfg_env \<Rightarrow> attrs \<Rightarrow> attrs \<Rightarrow> attrs" where
  "copy_attrs E dst src = fold (\<lambda>(n, v) a. env_xml_set E a n v) src dst"

definition cfg_obj_copy_private ::
  "cfg_env \<Rightarrow> string \<Rightarrow> string \<Rightarrow> cfg_state \<Rightarrow> (int \<times> cfg_state) cres" where
  "cfg_obj_copy_private E dst src s =
     (let s1 = cfg_obj_lock s
      in cbind (cfg_obj_get_obj E s1 dst) (\<lambda>dp.
         cbind (cfg_obj_get_obj E s1 src) (\<lambda>sp.
           case (dp, sp) of
             (Some dstobj, Some srcobj) \<Rightarrow>
               cbind (deref s1 srcobj) (\<lambda>so.
                 case shm_calloc E s1 of
                   (False, s2) \<Rightarrow> Ret (-1, cfg_obj_unlock s2)
                 | (True, s2) \<Rightarrow>
                     let s3 = s2\<lparr>shm_live := shm_live s2 - 1\<rparr>
                     in Ret (0, cfg_obj_unlock
                          (upd_obj dstobj (set_private (copy_attrs E [] (obj_private so))) s3)))
           | _ \<Rightarrow> Ret (-1, cfg_obj_unlock s1))))"

definition cfg_obj_copy_private_without_del ::
  "cfg_env \<Rightarrow> string \<Rightarrow> string \<Rightarrow> cfg_state \<Rightarrow> (int \<times> cfg_state) cres" where
  "cfg_obj_copy_private_without_del E dst src s =
     (let s1 = cfg_obj_lock s
      in cbind (cfg_obj_get_obj E s1 dst) (\<lambda>dp.
         cbind (cfg_obj_get_obj E s1 src) (\<lambda>sp.
           case (dp, sp) of
             (Some dstobj, Some srcobj) \<Rightarrow>
               cbind (deref s1 srcobj) (\<lambda>so.
                 Ret (0, cfg_obj_unlock
                   (upd_obj dstobj
                     (\<lambda>y. set_private (copy_attrs E (obj_private y) (obj_private so)) y) s1)))
           | _ \<Rightarrow> Ret (-1, cfg_obj_unlock s1))))"

section \<open>Commit\<close>

text \<open>The commit handler of the object's type is called with the path.\<close>

definition cfg_obj_commit_object :: "cfg_env \<Rightarrow> string \<Rightarrow> cfg_state \<Rightarrow> (int \<times> cfg_state) cres" where
  "cfg_obj_commit_object E objpath s =
     (let s1 = cfg_obj_lock s
      in cbind (cfg_obj_get_obj E s1 objpath) (\<lambda>p.
         let s2 = cfg_obj_unlock s1
         in case p of
              None \<Rightarrow> Ret (-1, s2)
            | Some node \<Rightarrow>
                cbind (deref s2 node) (\<lambda>obj.
                  case cfg_type_find_by_id (env_types E) (drop_bit CFG_TYPE_SHIFT (obj_id obj)) of
                    None \<Rightarrow> Ret (-1, s2)
                  | Some type \<Rightarrow>
                      (case type_ops type of
                         None \<Rightarrow> Fault NullDeref
                       | Some ops \<Rightarrow>
                           (case op_commit ops of
                              None \<Rightarrow> Ret (0, s2)
                            | Some h \<Rightarrow> Ret (0, s2\<lparr>handler_log := handler_log s2 @ [(h, objpath)]\<rparr>))))))"

section \<open>Resetting the tree\<close>

text \<open>\<open>cfg_load_web_type_node\<close> and \<open>cfg_delete_node\<close> go over the types below the root.
  The path is printed into a buffer of 128 or 64 bytes.\<close>

definition top_path :: "nat \<Rightarrow> cfg_node_type \<Rightarrow> string" where
  "top_path sz type = take (sz - 1) (''root.'' @ type_name type)"

definition web_type_read :: "cfg_node_type \<Rightarrow> cfg_state \<Rightarrow> cfg_state" where
  "web_type_read type s =
     (if type_flag type AND CFG_TYPE_FLAG_MEMORY \<noteq> 0
      then (case type_ops type of
              None \<Rightarrow> s
            | Some ops \<Rightarrow>
                (case op_memory_type_read ops of
                   None \<Rightarrow> s
                 | Some h \<Rightarrow> s\<lparr>handler_log := handler_log s @ [(h, top_path 128 type)]\<rparr>))
      else s)"

definition cfg_load_web_type_node :: "cfg_env \<Rightarrow> cfg_state \<Rightarrow> cfg_state" where
  "cfg_load_web_type_node E s =
     fold web_type_read (type_subtype (cfg_type_get_root (env_types E))) s"

fun delete_nodes :: "cfg_env \<Rightarrow> cfg_node_type list \<Rightarrow> cfg_state \<Rightarrow> cfg_state cres" where
  "delete_nodes E [] s = Ret s"
| "delete_nodes E (type # ts) s =
     cbind (cfg_obj_delete_object E (top_path 64 type) s) (\<lambda>(_, s1).
     cbind (cfg_obj_create_object E (top_path 64 type) s1) (\<lambda>(_, s2).
       delete_nodes E ts s2))"

definition cfg_delete_node :: "cfg_env \<Rightarrow> cfg_state \<Rightarrow> cfg_state cres" where
  "cfg_delete_node E s = delete_nodes E (type_subtype (cfg_type_get_root (env_types E))) s"

text \<open>\<open>cfg_readAll\<close> in a build without \<open>TCSUPPORT_BACKUPROMFILE\<close>.\<close>

definition cfg_readAll :: "cfg_env \<Rightarrow> cfg_state \<Rightarrow> cfg_state cres" where
  "cfg_readAll E s = cbind (cfg_delete_node E s) (\<lambda>s1. Ret (cfg_load_web_type_node E s1))"

end
