(* ===== verification/CfgObjInv.thy ===== *)
theory CfgObjInv
  imports CfgObj
begin

text \<open>
  What every operation on the object tree keeps. Locales state the interface a relation
  between the states before and after a call has to meet to be respected by the whole
  interface (\<open>api_rel\<close>), by creation (\<open>create_rel\<close>) and by the other operations
  (\<open>change_rel\<close>); their interpretations give the accounting of the shared pool, the
  discipline of its lock and that brothers have different numbers.
\<close>

section \<open>Lookups depend on the root only\<close>

lemma lock_fields [simp]:
  "cfg_obj_root (cfg_obj_lock s) = cfg_obj_root s" "shm_live (cfg_obj_lock s) = shm_live s"
  "lock_log (cfg_obj_lock s) = lock_log s @ [Lock]" "shm_calls (cfg_obj_lock s) = shm_calls s"
  "handler_log (cfg_obj_lock s) = handler_log s"
  "cfg_obj_root (cfg_obj_unlock s) = cfg_obj_root s" "shm_live (cfg_obj_unlock s) = shm_live s"
  "lock_log (cfg_obj_unlock s) = lock_log s @ [Unlock]" "shm_calls (cfg_obj_unlock s) = shm_calls s"
  "handler_log (cfg_obj_unlock s) = handler_log s"
  by (simp_all add: cfg_obj_lock_def cfg_obj_unlock_def)

lemma get_obj_root: "cfg_obj_root s' = cfg_obj_root s \<Longrightarrow> cfg_obj_get_obj E s' p = cfg_obj_get_obj E s p"
  by (simp only: cfg_obj_get_obj_def)

lemma deref_root: "cfg_obj_root s' = cfg_obj_root s \<Longrightarrow> deref s' p = deref s p"
  by (simp add: deref_def)

lemma get_obj_locked [simp]:
  "cfg_obj_get_obj E (cfg_obj_lock s) p = cfg_obj_get_obj E s p"
  "cfg_obj_get_obj E (cfg_obj_unlock s) p = cfg_obj_get_obj E s p"
  "deref (cfg_obj_lock s) q = deref s q" "deref (cfg_obj_unlock s) q = deref s q"
  by (rule get_obj_root deref_root, simp)+

lemma deref_RetD: "deref s p = Ret obj \<Longrightarrow> \<exists>r. cfg_obj_root s = RootLive r \<and> obj_at r p = Some obj"
  by (auto simp: deref_def split: root_ptr.splits option.splits)

lemma get_obj_live_eq:
  assumes "cfg_obj_root s = RootLive r"
  shows "cfg_obj_get_obj E s path =
    cbind (cfg_path_to_oid_array (env_types E) path) (\<lambda>id. Ret (case id of
       None \<Rightarrow> None
     | Some ids \<Rightarrow> if length ids = 1 then Some [] else if obj_at r (tl ids) = None then None else Some (tl ids)))"
  unfolding cfg_obj_get_obj_def assms
  by (simp only: root_ptr.simps if_False) (rule cbind_cong, simp_all split: option.split)

lemma get_obj_live:
  assumes "cfg_obj_root s = RootLive r" "cfg_obj_get_obj E s path = Ret (Some p)"
  shows "\<exists>obj. obj_at r p = Some obj \<and> deref s p = Ret obj"
proof -
  from assms(2) have "obj_at r p \<noteq> None"
    unfolding get_obj_live_eq [OF assms(1)]
    by (auto simp del: cbind_eq_Ret elim!: cbind_RetE split: option.splits if_splits)
  with assms(1) show ?thesis by (auto simp: deref_def)
qed

section \<open>Blocks and locks\<close>

text \<open>Every live block of the pool belongs to an object of the tree.\<close>

definition live_ok :: "cfg_state \<Rightarrow> bool" where
  "live_ok s \<longleftrightarrow>
     shm_live s = (case cfg_obj_root s of RootLive r \<Rightarrow> 2 * int (obj_count [r]) | _ \<Rightarrow> 0)"

text \<open>A trace in which the lock is taken only when it is free and given back each time.\<close>

fun bracketed :: "lock_ev list \<Rightarrow> bool" where
  "bracketed [] = True"
| "bracketed (Lock # Unlock # es) = bracketed es"
| "bracketed (_ # _) = False"

lemma bracketed_append: "bracketed xs \<Longrightarrow> bracketed ys \<Longrightarrow> bracketed (xs @ ys)"
  by (induction xs rule: bracketed.induct) auto

text \<open>What every operation of the interface keeps.\<close>

definition api_ok :: "cfg_state \<Rightarrow> cfg_state \<Rightarrow> bool" where
  "api_ok s s' \<longleftrightarrow> (live_ok s \<longrightarrow> live_ok s') \<and> (\<exists>l. lock_log s' = lock_log s @ l \<and> bracketed l)"

lemma api_ok_refl [simp]: "api_ok s s"
  by (auto simp: api_ok_def intro: exI [of _ "[]"])

lemma api_ok_trans: "api_ok s t \<Longrightarrow> api_ok t u \<Longrightarrow> api_ok s u"
  by (auto simp: api_ok_def intro: bracketed_append)

lemma api_okI:
  assumes "live_ok s \<Longrightarrow> live_ok s'" "lock_log s' = lock_log s @ [Lock, Unlock]"
  shows "api_ok s s'"
  using assms by (auto simp: api_ok_def)

lemma live_ok_cong: "cfg_obj_root s' = cfg_obj_root s \<Longrightarrow> shm_live s' = shm_live s \<Longrightarrow> live_ok s' = live_ok s"
  by (simp add: live_ok_def)

lemma api_ok_read: "api_ok s (cfg_obj_unlock (cfg_obj_lock s))"
  by (rule api_okI) (simp_all add: live_ok_def)

lemma query_api_ok:
  "cfg_obj_query_object E p st b s = Ret (r, s') \<Longrightarrow> api_ok s s' \<and> cfg_obj_root s' = cfg_obj_root s"
  by (auto simp: cfg_obj_query_object_def Let_def api_ok_read simp del: cbind_eq_Ret
      elim!: cbind_RetE split: option.splits if_splits prod.splits)

lemma upd_obj_fields [simp]:
  "lock_log (upd_obj p f s) = lock_log s" "shm_live (upd_obj p f s) = shm_live s"
  "shm_calls (upd_obj p f s) = shm_calls s" "handler_log (upd_obj p f s) = handler_log s"
  by (simp_all add: upd_obj_def split: root_ptr.splits)

lemma upd_obj_root: "cfg_obj_root s = RootLive r \<Longrightarrow> cfg_obj_root (upd_obj p f s) = RootLive (obj_upd p f r)"
  by (simp add: upd_obj_def)

lemma link_child_simps [simp]:
  "obj_id (link_child c y) = obj_id y" "obj_private (link_child c y) = obj_private y"
  "obj_child (link_child c y) = obj_child y @ [c]"
  by (simp_all add: link_child_def)

lemma unlink_child_simps [simp]:
  "obj_id (unlink_child i y) = obj_id y" "obj_private (unlink_child i y) = obj_private y"
  "obj_child (unlink_child i y) = rem_first i (obj_child y)"
  by (simp_all add: unlink_child_def)

lemma set_private_simps [simp]:
  "obj_id (set_private a y) = obj_id y" "obj_private (set_private a y) = a"
  "obj_child (set_private a y) = obj_child y"
  by (simp_all add: set_private_def)

lemma create_sub_cases:
  assumes "cfg_obj_create_sub_obj E p oid s = Ret (ret, s')"
  shows "(ret = -1 \<and> pool_step s 0 s') \<or>
    (\<exists>r obj t nid ch ch0 s1 s2 s3. cfg_obj_root s = RootLive r \<and> obj_at r p = Some obj \<and>
       cfg_obj_get_child obj oid = None \<and> cfg_type_from_oid E oid = Some t \<and>
       nid = (if cfg_obj_id oid \<noteq> 0 then oid else cfg_obj_auto_oid obj oid) \<and> ret = sint nid \<and>
       cfg_obj_alloc_node E s = (True, s1) \<and>
       cfg_obj_create_from_type E (type_subtype t) s1 = (ch0, s2) \<and>
       cfg_obj_del_from_type E ch0 s2 = (ch, s3) \<and>
       pool_step s (2 * int (obj_count [CfgObj nid [] ch])) s3 \<and>
       s' = upd_obj p (link_child (CfgObj nid [] ch)) s3)"
proof -
  from assms obtain obj where d: "deref s p = Ret obj" by (auto simp: cfg_obj_create_sub_obj_def)
  from deref_RetD [OF d] obtain r where r: "cfg_obj_root s = RootLive r" "obj_at r p = Some obj" by blast
  show ?thesis
  proof (cases "cfg_obj_get_child obj oid = None \<and> cfg_type_from_oid E oid \<noteq> None \<and> fst (cfg_obj_alloc_node E s)")
    case False
    obtain b s1 where a: "cfg_obj_alloc_node E s = (b, s1)" by (cases "cfg_obj_alloc_node E s")
    from False assms d a have "ret = -1 \<and> (s' = s \<or> \<not> b \<and> s' = s1)"
      by (auto simp: cfg_obj_create_sub_obj_def split: option.splits if_splits bool.splits)
    with pool_step_alloc [OF a] show ?thesis by auto
  next
    case True
    then obtain t s1 where t: "cfg_type_from_oid E oid = Some t" and a: "cfg_obj_alloc_node E s = (True, s1)"
      by (cases "cfg_obj_alloc_node E s") auto
    obtain ch0 s2 where c: "cfg_obj_create_from_type E (type_subtype t) s1 = (ch0, s2)"
      by (cases "cfg_obj_create_from_type E (type_subtype t) s1")
    obtain ch s3 where e: "cfg_obj_del_from_type E ch0 s2 = (ch, s3)"
      by (cases "cfg_obj_del_from_type E ch0 s2")
    define nid where "nid = (if cfg_obj_id oid \<noteq> 0 then oid else cfg_obj_auto_oid obj oid)"
    have res: "ret = sint nid \<and> s' = upd_obj p (link_child (CfgObj nid [] ch)) s3"
      using assms d True t a c e by (auto simp: cfg_obj_create_sub_obj_def Let_def nid_def)
    have "pool_step s 2 s1" using pool_step_alloc [OF a] by simp
    from pool_step_trans [OF pool_step_trans [OF this pool_step_create [OF c]] pool_step_del [OF e]]
    have "pool_step s (2 * int (obj_count [CfgObj nid [] ch])) s3" by (simp add: algebra_simps)
    with res t a c e r True nid_def show ?thesis by blast
  qed
qed

lemma count_link: "obj_count [link_child c y] = obj_count [y] + obj_count [c]"
  by (simp add: obj_count_Cons)

lemma create_sub_live:
  assumes "cfg_obj_create_sub_obj E p oid s = Ret (ret, s')" "live_ok s"
  shows "live_ok s'" "lock_log s' = lock_log s"
proof -
  from create_sub_cases [OF assms(1)] have "live_ok s' \<and> lock_log s' = lock_log s"
  proof (elim disjE exE conjE)
    assume "pool_step s 0 s'"
    then show ?thesis using assms(2) by (simp add: live_ok_def pool_stepD)
  next
    fix r obj t nid ch ch0 s1 s2 s3
    assume r: "cfg_obj_root s = RootLive r" "obj_at r p = Some obj"
      and st: "pool_step s (2 * int (obj_count [CfgObj nid [] ch])) s3"
      and s': "s' = upd_obj p (link_child (CfgObj nid [] ch)) s3"
    have "cfg_obj_root s3 = RootLive r" using pool_stepD [OF st] r by simp
    moreover have "int (obj_count [obj_upd p (link_child (CfgObj nid [] ch)) r]) =
        int (obj_count [r]) + int (obj_count [CfgObj nid [] ch])"
      using r(2) by (rule obj_upd_count) (simp add: count_link)
    ultimately show ?thesis
      using assms(2) pool_stepD [OF st] r by (simp add: live_ok_def s' upd_obj_root)
  qed
  then show "live_ok s'" "lock_log s' = lock_log s" by auto
qed

lemma create_sub_lock: "cfg_obj_create_sub_obj E p oid s = Ret (ret, s') \<Longrightarrow> lock_log s' = lock_log s"
  using create_sub_cases [of E p oid s ret s'] by (auto dest: pool_stepD)

lemma create_sub_api_ok:
  assumes "cfg_obj_create_sub_obj E p oid (cfg_obj_lock s) = Ret (ret, s')"
  shows "api_ok s (cfg_obj_unlock s')"
proof (rule api_okI)
  assume "live_ok s"
  then have "live_ok (cfg_obj_lock s)" by (simp add: live_ok_def)
  then have "live_ok s'" using create_sub_live(1) [OF assms] by blast
  then show "live_ok (cfg_obj_unlock s')" by (simp add: live_ok_def)
next
  show "lock_log (cfg_obj_unlock s') = lock_log s @ [Lock, Unlock]"
    using create_sub_lock [OF assms] by simp
qed

section \<open>One level of creation\<close>

lemma create_object_cases:
  assumes "cfg_obj_create_object E path s = Ret (ret, s')"
  shows "(ret = -1 \<and> s' = s) \<or>
    (\<exists>r parent q ids s1 s2.
       cfg_get_parent_path (Some path) = Ret (r, parent) \<and> \<not> r < 0 \<and>
       cfg_obj_query_object E parent None False s = Ret ((q, ids), s1) \<and>
       (s2 = s1 \<or> (\<exists>r2. cfg_obj_create_object E parent s1 = Ret (r2, s2))) \<and>
       ((ret = -1 \<and> s' = s2) \<or> (ret = 0 \<and> s' = cfg_obj_unlock (cfg_obj_lock s2)) \<or>
        (\<exists>node oid s4. cfg_path_to_oid (env_types E) path = Ret oid \<and> 0 < sint oid \<and>
           cfg_obj_get_obj E s2 parent = Ret (Some node) \<and>
           cfg_obj_create_sub_obj E node oid (cfg_obj_lock s2) = Ret (ret, s4) \<and>
           s' = cfg_obj_unlock s4)))"
proof -
  from assms obtain r parent where p: "cfg_get_parent_path (Some path) = Ret (r, parent)"
    by (subst (asm) cfg_obj_create_object.simps) (auto split: prod.splits)
  show ?thesis
  proof (cases "r < 0")
    case True
    with assms p show ?thesis by (subst (asm) cfg_obj_create_object.simps) simp
  next
    case False
    from assms p False obtain q ids s1 where q: "cfg_obj_query_object E parent None False s = Ret ((q, ids), s1)"
      by (subst (asm) cfg_obj_create_object.simps) (auto split: prod.splits)
    define pre where "pre = (if q \<le> 0
        then cbind (cfg_type_query (env_types E) parent) (\<lambda>type.
          case type of
            None \<Rightarrow> Ret (False, s1)
          | Some t \<Rightarrow>
              if cfg_type_is_dynamic_type (env_types E) (type_id t)
              then cbind (cfg_obj_create_object E parent s1) (\<lambda>(r2, s2). Ret (0 < r2, s2))
              else Ret (False, s1))
        else Ret (True, s1))"
    from assms p False q obtain ok s2 where pre: "pre = Ret (ok, s2)"
      and rest: "(if \<not> ok then Ret (-1, s2)
           else cbind (cfg_path_to_oid (env_types E) path) (\<lambda>oid.
             if sint oid \<le> 0 then Ret (-1, s2)
             else
               let s3 = cfg_obj_lock s2
               in cbind (cfg_obj_get_obj E s3 parent) (\<lambda>p.
                    case p of
                      None \<Rightarrow> Ret (0, cfg_obj_unlock s3)
                    | Some node \<Rightarrow>
                        cbind (cfg_obj_create_sub_obj E node oid s3) (\<lambda>(ret, s4).
                          Ret (ret, cfg_obj_unlock s4))))) = Ret (ret, s')"
      unfolding pre_def
      by (subst (asm) cfg_obj_create_object.simps)
         (simp only: cbind.simps prod.case if_False, erule cbind_RetE, force)
    have "s2 = s1 \<or> (\<exists>r2. cfg_obj_create_object E parent s1 = Ret (r2, s2))"
      using pre unfolding pre_def
      by (auto simp del: cbind_eq_Ret elim!: cbind_RetE split: if_splits option.splits)
    moreover have "(ret = -1 \<and> s' = s2) \<or> (ret = 0 \<and> s' = cfg_obj_unlock (cfg_obj_lock s2)) \<or>
        (\<exists>node oid s4. cfg_path_to_oid (env_types E) path = Ret oid \<and> 0 < sint oid \<and>
           cfg_obj_get_obj E s2 parent = Ret (Some node) \<and>
           cfg_obj_create_sub_obj E node oid (cfg_obj_lock s2) = Ret (ret, s4) \<and>
           s' = cfg_obj_unlock s4)"
      using rest unfolding Let_def get_obj_locked
      by (auto simp del: cbind_eq_Ret elim!: cbind_RetE split: if_splits option.splits)
    ultimately show ?thesis using p False q by blast
  qed
qed

section \<open>Relations the operations respect\<close>

text \<open>Interfaces for relations between the state before and the state after a call: one that
  is reflexive, transitive and respects read-only locked sections; one that also respects
  the insertion of one object, and so \<open>cfg_obj_create_object\<close>, however many parents it
  creates.\<close>

locale read_rel =
  fixes E :: cfg_env and Q :: "cfg_state \<Rightarrow> cfg_state \<Rightarrow> bool"
  assumes rel_refl: "Q s s"
    and rel_trans: "Q s t \<Longrightarrow> Q t u \<Longrightarrow> Q s u"
    and rel_read: "Q s (cfg_obj_unlock (cfg_obj_lock s))"
begin

lemma query_rel:
  "cfg_obj_query_object E p st b s = Ret (r, s') \<Longrightarrow> Q s s'"
  by (auto simp: cfg_obj_query_object_def Let_def rel_refl rel_read simp del: cbind_eq_Ret
      elim!: cbind_RetE split: option.splits if_splits prod.splits)

end

locale create_rel = read_rel +
  assumes rel_sub: "cfg_obj_create_sub_obj E p oid (cfg_obj_lock s) = Ret (ret, t) \<Longrightarrow> Q s (cfg_obj_unlock t)"
begin

lemma create_rel:
  "cfg_obj_create_object E path s = Ret (ret, s') \<Longrightarrow> Q s s'"
proof (induction "length path" arbitrary: path s ret s' rule: less_induct)
  case less
  from create_object_cases [OF less.prems] show ?case
  proof (elim disjE exE conjE)
    assume "s' = s"
    then show ?thesis by (simp add: rel_refl)
  next
    fix r parent q ids s1 s2
    assume "s' = s2" "s2 = s1" "cfg_obj_query_object E parent None False s = Ret ((q, ids), s1)"
    then show ?thesis using query_rel by simp
  qed (metis less.hyps parent_path_shorter query_rel rel_read rel_sub rel_trans)+
qed

end

section \<open>The interface as one relation\<close>

text \<open>A call of the interface that the services and the command line use.\<close>

datatype api_call =
    ApiCreate string
  | ApiDelete string
  | ApiQuery string "string option" bool
  | ApiGet "string option" "string option" int
  | ApiSet "string option" "string option" "string option"
  | ApiCopy string string
  | ApiCopyKeep string string
  | ApiCommit string

fun api_exec :: "cfg_env \<Rightarrow> api_call \<Rightarrow> cfg_state \<Rightarrow> cfg_state cres" where
  "api_exec E (ApiCreate p) s = cbind (cfg_obj_create_object E p s) (\<lambda>(_, s'). Ret s')"
| "api_exec E (ApiDelete p) s = cbind (cfg_obj_delete_object E p s) (\<lambda>(_, s'). Ret s')"
| "api_exec E (ApiQuery p st b) s = cbind (cfg_obj_query_object E p st b s) (\<lambda>(_, s'). Ret s')"
| "api_exec E (ApiGet p a n) s = cbind (cfg_obj_get_object_attr E p a n s) (\<lambda>(_, s'). Ret s')"
| "api_exec E (ApiSet p a v) s = cbind (cfg_obj_set_object_attr E p a v s) (\<lambda>(_, s'). Ret s')"
| "api_exec E (ApiCopy d p) s = cbind (cfg_obj_copy_private E d p s) (\<lambda>(_, s'). Ret s')"
| "api_exec E (ApiCopyKeep d p) s = cbind (cfg_obj_copy_private_without_del E d p s) (\<lambda>(_, s'). Ret s')"
| "api_exec E (ApiCommit p) s = cbind (cfg_obj_commit_object E p s) (\<lambda>(_, s'). Ret s')"

inductive api_run :: "cfg_env \<Rightarrow> cfg_state \<Rightarrow> cfg_state \<Rightarrow> bool" for E where
  run_refl: "api_run E s s"
| run_step: "api_run E s t \<Longrightarrow> api_exec E c t = Ret u \<Longrightarrow> api_run E s u"

lemma calloc_pool:
  "shm_calloc E s = (True, t) \<Longrightarrow> pool_step s 0 (t\<lparr>shm_live := shm_live t - 1\<rparr>)"
  "shm_calloc E s = (False, t) \<Longrightarrow> pool_step s 0 t"
  unfolding shm_calloc_def pool_step_def by (auto split: if_splits)

lemma deref_found:
  "deref s q = Ret obj \<Longrightarrow> cfg_obj_get_obj E s path = Ret (Some p) \<Longrightarrow> \<exists>x. deref s p = Ret x"
  using deref_RetD get_obj_live by blast

text \<open>Relations that deletion, attribute changes and commits respect.\<close>

locale change_rel = read_rel +
  assumes rel_del: "cfg_obj_del_object p (cfg_obj_lock s) = Ret (ret, t) \<Longrightarrow> Q s (cfg_obj_unlock t)"
    and rel_attr: "deref s p = Ret obj \<Longrightarrow>
      Q s (cfg_obj_unlock (upd_obj p (\<lambda>y. set_private (f y) y) (cfg_obj_lock s)))"
    and rel_renew: "pool_step (cfg_obj_lock s) 0 t \<Longrightarrow> deref s p = Ret obj \<Longrightarrow>
      Q s (cfg_obj_unlock (upd_obj p (set_private a) t))"
    and rel_alloc: "pool_step (cfg_obj_lock s) 0 t \<Longrightarrow> Q s (cfg_obj_unlock t)"
    and rel_commit: "Q s (s\<lparr>handler_log := h\<rparr>)"
begin

lemma delete_rel: "cfg_obj_delete_object E p s = Ret (ret, s') \<Longrightarrow> Q s s'"
  by (auto simp: cfg_obj_delete_object_def Let_def rel_read rel_del simp del: cbind_eq_Ret
      elim!: cbind_RetE split: option.splits prod.splits)

lemma get_rel: "cfg_obj_get_object_attr E p a n s = Ret (ret, s') \<Longrightarrow> Q s s'"
  by (auto simp: cfg_obj_get_object_attr_def Let_def rel_refl rel_read simp del: cbind_eq_Ret
      elim!: cbind_RetE split: option.splits if_splits)

lemma set_rel: "cfg_obj_set_object_attr E p a v s = Ret (ret, s') \<Longrightarrow> Q s s'"
  by (auto simp: cfg_obj_set_object_attr_def cfg_obj_set_obj_attr_def Let_def rel_refl rel_read
      intro: rel_attr simp del: cbind_eq_Ret elim!: cbind_RetE split: option.splits if_splits)

lemma copy_rel:
  assumes "cfg_obj_copy_private E d p s = Ret (ret, s')"
  shows "Q s s'"
proof -
  obtain b t where c: "shm_calloc E (cfg_obj_lock s) = (b, t)" by (cases "shm_calloc E (cfg_obj_lock s)")
  from assms obtain dp sp where g: "cfg_obj_get_obj E s d = Ret dp" "cfg_obj_get_obj E s p = Ret sp"
    by (auto simp: cfg_obj_copy_private_def Let_def)
  show ?thesis
  proof (cases "dp = None \<or> sp = None")
    case True
    with assms g have "s' = cfg_obj_unlock (cfg_obj_lock s)"
      by (auto simp: cfg_obj_copy_private_def Let_def split: option.splits)
    then show ?thesis by (simp add: rel_read)
  next
    case False
    then obtain x y where xy: "dp = Some x" "sp = Some y" by auto
    with assms g obtain so where so: "deref s y = Ret so"
      by (auto simp: cfg_obj_copy_private_def Let_def)
    obtain o2 where o2: "deref s x = Ret o2" using deref_found [OF so] g xy by blast
    show ?thesis
    proof (cases b)
      case True
      with assms g xy so c have "s' = cfg_obj_unlock
          (upd_obj x (set_private (copy_attrs E [] (obj_private so))) (t\<lparr>shm_live := shm_live t - 1\<rparr>))"
        by (simp add: cfg_obj_copy_private_def Let_def)
      with rel_renew [OF calloc_pool(1) o2] c True show ?thesis by simp
    next
      case False
      with assms g xy so c have "s' = cfg_obj_unlock t"
        by (simp add: cfg_obj_copy_private_def Let_def)
      with rel_alloc [OF calloc_pool(2)] c False show ?thesis by simp
    qed
  qed
qed

lemma copy_keep_rel:
  assumes "cfg_obj_copy_private_without_del E d p s = Ret (ret, s')"
  shows "Q s s'"
proof -
  from assms obtain dp sp where g: "cfg_obj_get_obj E s d = Ret dp" "cfg_obj_get_obj E s p = Ret sp"
    by (auto simp: cfg_obj_copy_private_without_del_def Let_def)
  show ?thesis
  proof (cases "dp = None \<or> sp = None")
    case True
    with assms g have "s' = cfg_obj_unlock (cfg_obj_lock s)"
      by (auto simp: cfg_obj_copy_private_without_del_def Let_def split: option.splits)
    then show ?thesis by (simp add: rel_read)
  next
    case False
    then obtain x y where xy: "dp = Some x" "sp = Some y" by auto
    with assms g obtain so where so: "deref s y = Ret so"
      by (auto simp: cfg_obj_copy_private_without_del_def Let_def)
    obtain o2 where "deref s x = Ret o2" using deref_found [OF so] g xy by blast
    with assms g xy so show ?thesis
      by (auto simp: cfg_obj_copy_private_without_del_def Let_def intro: rel_attr)
  qed
qed

lemma commit_rel: "cfg_obj_commit_object E p s = Ret (ret, s') \<Longrightarrow> Q s s'"
  by (auto simp: cfg_obj_commit_object_def Let_def rel_read simp del: cbind_eq_Ret
      elim!: cbind_RetE split: option.splits)
     (rule rel_trans [OF rel_read rel_commit])

end

locale api_rel = create_rel + change_rel
begin

lemma exec_rel: "api_exec E c s = Ret s' \<Longrightarrow> Q s s'"
  by (cases c) (auto dest: create_rel delete_rel query_rel get_rel set_rel copy_rel copy_keep_rel commit_rel)

lemma run_rel: "api_run E s s' \<Longrightarrow> Q s s'"
  by (induction rule: api_run.induct) (auto intro: rel_refl rel_trans exec_rel)

end

section \<open>Blocks and locks over a run\<close>

lemma pool_unlock: "pool_step (cfg_obj_lock s) 0 t \<Longrightarrow> api_ok s (cfg_obj_unlock t)"
  using pool_stepD [of "cfg_obj_lock s" 0 t] by (intro api_okI) (auto simp: live_ok_def)

lemma obj_upd_count_same:
  assumes "\<And>y. obj_count [f y] = obj_count [y]"
  shows "obj_count [obj_upd p f r] = obj_count [r]"
proof (induction p arbitrary: r)
  case (Cons i p)
  have "obj_count (upd_first i (obj_upd p f) cs) = obj_count cs" for cs
    using Cons.IH by (induction cs) (auto simp: obj_count_Cons)
  then show ?case by (simp add: obj_count_Cons)
qed (simp add: assms)

lemma live_ok_upd:
  assumes "\<And>y. obj_count [f y] = obj_count [y]"
  shows "live_ok (upd_obj p f s) = live_ok s"
  by (cases "cfg_obj_root s")
     (simp_all add: live_ok_def upd_obj_def obj_upd_count_same [OF assms] del: obj_count.simps)

lemma del_object_live:
  assumes "cfg_obj_del_object p s = Ret (ret, t)" "live_ok s"
  shows "live_ok t"
proof -
  from assms(1) obtain obj where d: "deref s p = Ret obj" by (auto simp: cfg_obj_del_object_def)
  from deref_RetD [OF d] obtain r where r: "cfg_obj_root s = RootLive r" "obj_at r p = Some obj" by blast
  let ?u = "cfg_obj_unlink_object p s"
  have st: "pool_step ?u (- 2 * int (obj_count [obj])) (cfg_obj_release_object [obj] ?u)"
    by (rule pool_step_release)
  show ?thesis
  proof (cases "p = []")
    case True
    with r have "obj = r" by simp
    with assms d True r pool_stepD(4) [OF st] show ?thesis
      by (auto simp: cfg_obj_del_object_def Let_def live_ok_def cfg_obj_unlink_object_def
          simp del: cfg_obj_release_object.simps)
  next
    case False
    then have pl: "p = butlast p @ [last p]" by simp
    with r(2) obtain par where par: "obj_at r (butlast p) = Some par" "cfg_obj_get_child par (last p) = Some obj"
      using obj_at_append [of r "butlast p" "[last p]"] by (auto split: option.splits)
    have "int (obj_count [obj_upd (butlast p) (unlink_child (last p)) r]) =
        int (obj_count [r]) + - int (obj_count [obj])"
      using par(1)
    proof (rule obj_upd_count)
      have "obj_count (obj_child par) = obj_count (rem_first (last p) (obj_child par)) + obj_count [obj]"
        using par(2) by (intro rem_first_count) (simp add: cfg_obj_get_child_def)
      then show "int (obj_count [unlink_child (last p) par]) = int (obj_count [par]) + - int (obj_count [obj])"
        by (simp add: obj_count_Cons)
    qed
    moreover have "t = cfg_obj_release_object [obj] ?u"
      using assms(1) d False by (simp add: cfg_obj_del_object_def Let_def)
    ultimately show ?thesis
      using assms(2) r pool_stepD [OF st] False
      by (simp add: live_ok_def cfg_obj_unlink_object_def upd_obj_root del: cfg_obj_release_object.simps obj_count.simps)
  qed
qed

lemma del_object_lock: "cfg_obj_del_object p s = Ret (ret, t) \<Longrightarrow> lock_log t = lock_log s"
  using pool_stepD(2) [OF pool_step_release]
  by (auto simp: cfg_obj_del_object_def Let_def cfg_obj_unlink_object_def
      simp del: cfg_obj_release_object.simps)

lemma del_object_api_ok:
  assumes "cfg_obj_del_object p (cfg_obj_lock s) = Ret (ret, t)"
  shows "api_ok s (cfg_obj_unlock t)"
proof (rule api_okI)
  assume "live_ok s"
  then have "live_ok (cfg_obj_lock s)" by (simp add: live_ok_def)
  then have "live_ok t" using del_object_live [OF assms] by blast
  then show "live_ok (cfg_obj_unlock t)" by (simp add: live_ok_def)
next
  show "lock_log (cfg_obj_unlock t) = lock_log s @ [Lock, Unlock]"
    using del_object_lock [OF assms] by simp
qed

lemma set_private_count: "obj_count [set_private a y] = obj_count [y]"
  by (simp add: obj_count_Cons)

lemma live_ok_locked [simp]: "live_ok (cfg_obj_lock s) = live_ok s" "live_ok (cfg_obj_unlock s) = live_ok s"
  by (simp_all add: live_ok_def)

lemma attr_api_ok: "api_ok s (cfg_obj_unlock (upd_obj p (\<lambda>y. set_private (f y) y) (cfg_obj_lock s)))"
  by (rule api_okI) (simp_all add: live_ok_upd set_private_count)

lemma renew_api_ok:
  assumes "pool_step (cfg_obj_lock s) 0 t"
  shows "api_ok s (cfg_obj_unlock (upd_obj p (set_private a) t))"
proof -
  have "live_ok t = live_ok (cfg_obj_lock s)"
    using pool_stepD [OF assms] by (intro live_ok_cong) simp_all
  then show ?thesis
    using pool_stepD(2) [OF assms] by (intro api_okI) (simp_all add: live_ok_upd set_private_count)
qed

lemma commit_api_ok: "api_ok s (s\<lparr>handler_log := h\<rparr>)"
  by (auto simp: api_ok_def live_ok_def intro: exI [of _ "[]"])

interpretation api: api_rel E api_ok for E
  by unfold_locales
     (assumption | rule api_ok_refl api_ok_read create_sub_api_ok del_object_api_ok attr_api_ok
       renew_api_ok pool_unlock commit_api_ok | erule api_ok_trans)+

section \<open>Numbers stay different\<close>

fun all_ids :: "cfg_node_obj list \<Rightarrow> u32 list" where
  "all_ids [] = []"
| "all_ids (CfgObj i p ch # bs) = i # all_ids ch @ all_ids bs"

lemma all_ids_Cons: "set (all_ids (x # xs)) = insert (obj_id x) (set (all_ids (obj_child x)) \<union> set (all_ids xs))"
  by (cases x) auto

lemma all_ids_append [simp]: "all_ids (xs @ ys) = all_ids xs @ all_ids ys"
  by (induction xs rule: all_ids.induct) auto

lemma all_ids_top: "obj_id ` set os \<subseteq> set (all_ids os)"
  by (induction os rule: all_ids.induct) auto

lemma all_ids_at: "obj_at r p = Some obj \<Longrightarrow> set (all_ids (obj_child obj)) \<subseteq> set (all_ids [r])"
proof (induction p arbitrary: r)
  case Nil
  then show ?case by (auto simp: all_ids_Cons)
next
  case (Cons i p)
  then obtain c where c: "cfg_obj_get_child r i = Some c" "obj_at c p = Some obj"
    by (auto split: option.splits)
  have "set (all_ids [c]) \<subseteq> set (all_ids cs)" if "c \<in> set cs" for cs
    using that by (induction cs) (auto simp: all_ids_Cons)
  then have "set (all_ids [c]) \<subseteq> set (all_ids (obj_child r))" using get_child_SomeD [OF c(1)] by blast
  with Cons.IH [OF c(2)] show ?case by (auto simp: all_ids_Cons)
qed

lemma all_ids_upd_mono:
  assumes "\<And>y. set (all_ids [y]) \<subseteq> set (all_ids [f y])"
  shows "set (all_ids [r]) \<subseteq> set (all_ids [obj_upd p f r])"
proof (induction p arbitrary: r)
  case (Cons i p)
  note IH = Cons.IH
  have "set (all_ids cs) \<subseteq> set (all_ids (upd_first i (obj_upd p f) cs))" for cs
  proof (induction cs)
    case (Cons c cs)
    have "set (all_ids [c]) \<subseteq> set (all_ids [obj_upd p f c])" by (rule IH)
    with Cons show ?case by (auto simp: all_ids_Cons)
  qed simp
  then show ?case by (auto simp: all_ids_Cons)
qed (simp add: assms)

text \<open>No object carries the last instance number.\<close>

definition room :: "cfg_state \<Rightarrow> bool" where
  "room s \<longleftrightarrow> (case cfg_obj_root s of
     RootLive r \<Rightarrow> (\<forall>i \<in> set (all_ids [r]). i AND CFG_OBJ_MASK \<noteq> CFG_OBJ_MASK) | _ \<Rightarrow> True)"

definition ids_ok :: "cfg_state \<Rightarrow> bool" where
  "ids_ok s \<longleftrightarrow> (case cfg_obj_root s of RootLive r \<Rightarrow> tree_ok [r] | _ \<Rightarrow> True)"

lemma ids_ok_root: "cfg_obj_root s' = cfg_obj_root s \<Longrightarrow> ids_ok s' = ids_ok s"
  by (simp add: ids_ok_def)

lemma room_root: "cfg_obj_root s' = cfg_obj_root s \<Longrightarrow> room s' = room s"
  by (simp add: room_def)

lemma locked_ids [simp]:
  "ids_ok (cfg_obj_lock s) = ids_ok s" "ids_ok (cfg_obj_unlock s) = ids_ok s"
  "room (cfg_obj_lock s) = room s" "room (cfg_obj_unlock s) = room s"
  "ids_ok (s\<lparr>handler_log := h\<rparr>) = ids_ok s"
  by (simp_all add: ids_ok_def room_def)

lemma max_oid_in: "max_oid t m cs = m \<or> max_oid t m cs \<in> obj_id ` set cs"
proof (induction t m cs rule: max_oid.induct)
  case (2 t m c cs)
  then show ?case by (simp split: if_splits) blast
qed simp

lemma distinct_sub_types:
  "distinct (map type_id (type_nodes ts)) \<Longrightarrow> t \<in> set (type_nodes ts) \<Longrightarrow>
   distinct (map type_id (type_nodes (type_subtype t)))"
  by (induction ts rule: type_nodes.induct) auto

lemma new_subtree_ok:
  assumes "db_ok (env_types E)" "cfg_type_from_oid E oid = Some t"
    "cfg_obj_create_from_type E (type_subtype t) s1 = (ch0, s2)" "cfg_obj_del_from_type E ch0 s2 = (ch, s3)"
  shows "tree_ok ch"
proof -
  have t: "t \<in> set (type_nodes [db_root (env_types E)])"
    using find_by_id_Some(1) [OF assms(1)] assms(2) by (simp add: cfg_type_from_oid_def del: type_nodes.simps)
  have "unat (type_id u) < 65536" if "u \<in> set (type_nodes (type_subtype t))" for u
    using db_ok_id_bounds(2) [OF assms(1) nodes_sub [OF t that]] by (simp add: c_defs)
  with create_tree_ok [OF assms(3) distinct_sub_types [OF db_ok_distinct [OF assms(1)] t]]
  show ?thesis using del_tree_ok [OF assms(4)] by blast
qed

lemma auto_oid_room:
  assumes "\<forall>i \<in> obj_id ` set (obj_child obj). i AND CFG_OBJ_MASK \<noteq> CFG_OBJ_MASK"
  shows "max_oid (oid AND CFG_TYPE_MASK) (oid AND CFG_TYPE_MASK) (obj_child obj) AND CFG_OBJ_MASK \<noteq> CFG_OBJ_MASK"
proof -
  have "(oid AND CFG_TYPE_MASK) AND CFG_OBJ_MASK = 0"
    by (simp add: and.assoc CFG_TYPE_MASK_def CFG_OBJ_MASK_def)
  moreover have "CFG_OBJ_MASK \<noteq> 0" by (simp add: CFG_OBJ_MASK_def)
  ultimately show ?thesis
    using max_oid_in [of "oid AND CFG_TYPE_MASK" "oid AND CFG_TYPE_MASK" "obj_child obj"] assms by auto
qed

definition uniq_rel :: "cfg_env \<Rightarrow> cfg_state \<Rightarrow> cfg_state \<Rightarrow> bool" where
  "uniq_rel E s s' \<longleftrightarrow>
     (db_ok (env_types E) \<longrightarrow> (room s' \<longrightarrow> room s) \<and> (ids_ok s \<longrightarrow> room s' \<longrightarrow> ids_ok s'))"

lemma uniq_rel_root: "cfg_obj_root s' = cfg_obj_root s \<Longrightarrow> uniq_rel E s s'"
  using ids_ok_root [of s' s] room_root [of s' s] by (simp add: uniq_rel_def)

lemma create_sub_uniq:
  assumes "cfg_obj_create_sub_obj E p oid s = Ret (ret, s')"
  shows "uniq_rel E s s'"
  using create_sub_cases [OF assms]
proof (elim disjE exE conjE)
  assume "pool_step s 0 s'"
  then show ?thesis by (intro uniq_rel_root) (rule pool_stepD)
next
  fix r obj t nid ch ch0 s1 s2 s3
  assume r: "cfg_obj_root s = RootLive r" "obj_at r p = Some obj"
    and gc: "cfg_obj_get_child obj oid = None" and t: "cfg_type_from_oid E oid = Some t"
    and nid: "nid = (if cfg_obj_id oid \<noteq> 0 then oid else cfg_obj_auto_oid obj oid)"
    and c: "cfg_obj_create_from_type E (type_subtype t) s1 = (ch0, s2)" "cfg_obj_del_from_type E ch0 s2 = (ch, s3)"
    and st: "pool_step s (2 * int (obj_count [CfgObj nid [] ch])) s3"
    and s': "s' = upd_obj p (link_child (CfgObj nid [] ch)) s3"
  let ?f = "link_child (CfgObj nid [] ch)"
  have r': "cfg_obj_root s' = RootLive (obj_upd p ?f r)"
    using pool_stepD(1) [OF st] r by (simp add: s' upd_obj_root)
  have mono: "set (all_ids [r]) \<subseteq> set (all_ids [obj_upd p ?f r])"
    by (rule all_ids_upd_mono) (auto simp: all_ids_Cons)
  have rm: "room s' \<Longrightarrow> room s" using mono r r' by (auto simp: room_def simp del: all_ids.simps)
  have "tree_ok [obj_upd p ?f r]" if db: "db_ok (env_types E)" and ok: "tree_ok [r]" and rs: "room s"
  proof (rule obj_upd_tree_ok [OF _ ok])
    fix y assume y: "obj_at r p = Some y" "tree_ok [y]"
    then have y: "y = obj" "tree_ok (obj_child obj)" using r by (auto simp: tree_ok_single simp del: tree_ok.simps)
    have "\<forall>i \<in> obj_id ` set (obj_child obj). i AND CFG_OBJ_MASK \<noteq> CFG_OBJ_MASK"
      using rs r all_ids_at [OF r(2)] all_ids_top [of "obj_child obj"]
      by (auto simp: room_def simp del: all_ids.simps)
    from auto_oid_spec(2) [OF auto_oid_room [OF this]] have "nid \<notin> obj_id ` set (obj_child obj)"
      using nid gc by (auto simp: cfg_obj_get_child_def find_None_iff split: if_splits)
    then show "tree_ok [link_child (CfgObj nid [] ch) y]"
      using y new_subtree_ok [OF db t c] by (auto simp: tree_ok_single tree_ok_append)
  qed simp
  with rm r r' show ?thesis by (simp add: uniq_rel_def ids_ok_def del: tree_ok.simps)
qed

interpretation uniq: create_rel E "uniq_rel E" for E
proof unfold_locales
  fix p oid s ret t
  assume a: "cfg_obj_create_sub_obj E p oid (cfg_obj_lock s) = Ret (ret, t)"
  then show "uniq_rel E s (cfg_obj_unlock t)"
    using create_sub_uniq [OF a] by (simp add: uniq_rel_def)
qed (auto simp: uniq_rel_def)

definition ids_rel :: "cfg_state \<Rightarrow> cfg_state \<Rightarrow> bool" where
  "ids_rel s s' \<longleftrightarrow> (ids_ok s \<longrightarrow> ids_ok s')"

lemma ids_rel_root: "cfg_obj_root s' = cfg_obj_root s \<Longrightarrow> ids_rel s s'"
  using ids_ok_root [of s' s] by (simp add: ids_rel_def)

lemma ids_rel_upd:
  assumes "cfg_obj_root t = cfg_obj_root s" "\<And>y. obj_id (f y) = obj_id y"
    "\<And>y. tree_ok [y] \<Longrightarrow> tree_ok [f y]"
  shows "ids_rel s (cfg_obj_unlock (upd_obj p f t))"
  using assms(1) obj_upd_tree_ok [of f, OF assms(2)] assms(3)
  by (auto simp: ids_rel_def ids_ok_def upd_obj_def simp del: tree_ok.simps split: root_ptr.splits)

lemma del_object_ids:
  assumes "cfg_obj_del_object p (cfg_obj_lock s) = Ret (ret, t)"
  shows "ids_rel s (cfg_obj_unlock t)"
proof -
  from assms obtain obj where d: "deref s p = Ret obj" by (auto simp: cfg_obj_del_object_def)
  let ?u = "cfg_obj_unlink_object p (cfg_obj_lock s)"
  have rel: "cfg_obj_root (cfg_obj_release_object [obj] ?u) = cfg_obj_root ?u"
    by (rule pool_stepD(1) [OF pool_step_release])
  show ?thesis
  proof (cases "p = []")
    case True
    with assms d have "cfg_obj_root t = RootDangling" by (auto simp: cfg_obj_del_object_def Let_def)
    then show ?thesis by (simp add: ids_rel_def ids_ok_def)
  next
    case False
    with assms d have t: "cfg_obj_root t = cfg_obj_root ?u"
      using rel by (simp add: cfg_obj_del_object_def Let_def del: cfg_obj_release_object.simps)
    have "ids_rel s (cfg_obj_unlock (upd_obj (butlast p) (unlink_child (last p)) (cfg_obj_lock s)))"
      by (rule ids_rel_upd) (simp_all add: tree_ok_single rem_first_tree_ok del: tree_ok.simps)
    with False t show ?thesis
      by (simp add: ids_rel_def ids_ok_def cfg_obj_unlink_object_def)
  qed
qed

lemma ids_rel_private:
  "cfg_obj_root t = cfg_obj_root s \<Longrightarrow> ids_rel s (cfg_obj_unlock (upd_obj p (\<lambda>y. set_private (f y) y) t))"
  by (rule ids_rel_upd) (simp_all add: tree_ok_single del: tree_ok.simps)

interpretation ids: change_rel E ids_rel for E
proof unfold_locales
  fix s t p obj a
  assume "pool_step (cfg_obj_lock s) 0 t"
  then have "cfg_obj_root t = cfg_obj_root s" using pool_stepD(1) by fastforce
  then show "ids_rel s (cfg_obj_unlock (upd_obj p (set_private a) t))"
    using ids_rel_private [of t s p "\<lambda>y. a"] by simp
next
  fix s t
  assume "pool_step (cfg_obj_lock s) 0 t"
  then show "ids_rel s (cfg_obj_unlock t)" using pool_stepD(1) by (intro ids_rel_root) fastforce
next
  fix p s ret t
  assume "cfg_obj_del_object p (cfg_obj_lock s) = Ret (ret, t)"
  then show "ids_rel s (cfg_obj_unlock t)" by (rule del_object_ids)
next
  fix s p f
  show "ids_rel s (cfg_obj_unlock (upd_obj p (\<lambda>y. set_private (f y) y) (cfg_obj_lock s)))"
    by (rule ids_rel_private) simp
qed (auto simp: ids_rel_def)

end
