(* ===== verification/CfgObjSpec.thy ===== *)
theory CfgObjSpec
  imports CfgObjInv "HOL-Library.AList"
begin

text \<open>
  What the operations on objects do: an attribute written is the attribute read, a created
  object is found and a deleted one is not, other objects are left alone, copies agree with
  their source, the initial tree is the tree of the static types. The attribute functions
  of the XML library are parameters; \<open>xml_laws\<close> states what is relied on of them.
\<close>

section \<open>Attributes\<close>

text \<open>What is relied on of \<open>cfg_xml_get_attr\<close> and \<open>cfg_xml_set_attr\<close>: the first finds the
  entry of a name in the attribute array, the second makes it the given value and leaves
  the other names alone.\<close>

definition xml_laws :: "cfg_env \<Rightarrow> bool" where
  "xml_laws E \<longleftrightarrow>
     (\<forall>a n. env_xml_get E a n = map_of a n) \<and>
     (\<forall>a n v. map_of (env_xml_set E a n v) = (map_of a)(n \<mapsto> v))"

lemma obj_at_upd_None:
  assumes "\<And>y. obj_id (f y) = obj_id y" "\<And>y. obj_child (f y) = obj_child y"
  shows "obj_at (obj_upd p f r) q = None \<longleftrightarrow> obj_at r q = None"
proof (cases "q = p")
  case True
  then show ?thesis using obj_at_upd_same [of f p r, OF assms(1)] by simp
next
  case False
  from obj_at_upd_private [of f q p r, OF assms(1) assms(2) False] show ?thesis
    by (metis map_option_is_None)
qed

lemma get_obj_upd:
  assumes "\<And>y. obj_id (f y) = obj_id y" "\<And>y. obj_child (f y) = obj_child y"
  shows "cfg_obj_get_obj E (upd_obj p f s) q = cfg_obj_get_obj E s q"
proof (cases "cfg_obj_root s")
  case (RootLive r)
  show ?thesis
    unfolding get_obj_live_eq [OF RootLive] get_obj_live_eq [OF upd_obj_root [OF RootLive]]
      obj_at_upd_None [of f, OF assms] ..
qed (simp_all add: upd_obj_def)

text \<open>The attribute a read of object \<open>p\<close> sees.\<close>

definition attr_at :: "cfg_state \<Rightarrow> u32 list \<Rightarrow> string \<Rightarrow> string option" where
  "attr_at s p n =
     (case cfg_obj_root s of
        RootLive r \<Rightarrow> (case obj_at r p of None \<Rightarrow> None | Some obj \<Rightarrow> map_of (obj_private obj) n)
      | _ \<Rightarrow> None)"

lemma attr_at_unlock [simp]: "attr_at (cfg_obj_unlock s) = attr_at s" "attr_at (cfg_obj_lock s) = attr_at s"
  by (auto simp: attr_at_def fun_eq_iff)

lemma attr_at_upd:
  assumes "cfg_obj_root s = RootLive r" "obj_at r p = Some obj"
  shows "attr_at (upd_obj p (\<lambda>y. set_private (f y) y) s) q n =
    (if q = p then map_of (f obj) n else attr_at s q n)"
proof (cases "q = p")
  case True
  have "obj_at (obj_upd p (\<lambda>y. set_private (f y) y) r) p = Some (set_private (f obj) obj)"
    using assms by (subst obj_at_upd_same) simp_all
  with True assms(1) show ?thesis by (simp add: attr_at_def upd_obj_root)
next
  case False
  let ?f = "\<lambda>y. set_private (f y) y"
  have "map_option obj_private (obj_at (obj_upd p ?f r) q) = map_option obj_private (obj_at r q)"
    using False by (intro obj_at_upd_private) simp_all
  with False assms(1) show ?thesis
    by (auto simp: attr_at_def upd_obj_root split: option.splits)
qed

lemma get_attr_eq:
  assumes "xml_laws E" "cfg_obj_get_obj E s path = Ret (Some p)" "cfg_obj_root s = RootLive r" "0 < n"
  shows "cfg_obj_get_object_attr E (Some path) (Some a) n s =
    Ret (case attr_at s p a of None \<Rightarrow> (-2, None)
         | Some v \<Rightarrow> (int (length (take (nat (n - 1)) v)), Some (take (nat (n - 1)) v)),
         cfg_obj_unlock (cfg_obj_lock s))"
proof -
  obtain obj where "obj_at r p = Some obj" "deref s p = Ret obj" using get_obj_live [OF assms(3,2)] by blast
  with assms show ?thesis
    by (simp add: cfg_obj_get_object_attr_def Let_def cfg_obj_get_obj_attr_def attr_at_def xml_laws_def
        split: option.splits)
qed

lemma set_attr_cases:
  assumes "cfg_obj_set_object_attr E (Some path) (Some a) (Some v) s = Ret (0, s')"
  shows "\<exists>r p obj. cfg_obj_root s = RootLive r \<and> obj_at r p = Some obj \<and> a \<noteq> [] \<and>
    cfg_obj_get_obj E s path = Ret (Some p) \<and>
    s' = cfg_obj_unlock (upd_obj p (\<lambda>y. set_private (env_xml_set E (obj_private y) a v) y) (cfg_obj_lock s))"
  using assms
  by (auto simp: cfg_obj_set_object_attr_def cfg_obj_set_obj_attr_def Let_def simp del: cbind_eq_Ret
      elim!: cbind_RetE dest!: deref_RetD split: option.splits if_splits)

section \<open>Copying\<close>

lemma copy_attrs_map_of:
  assumes "xml_laws E"
  shows "map_of (copy_attrs E dst src) = map_of dst ++ map_of (rev src)"
proof -
  have "map_of (fold (\<lambda>(n, v) a. env_xml_set E a n v) src d) = map_of d ++ map_of (rev src)" for d
  proof (induction src arbitrary: d)
    case (Cons x src)
    obtain n v where x: "x = (n, v)" by (cases x)
    show ?case
      using Cons.IH [of "env_xml_set E d n v"] assms
      by (simp add: x xml_laws_def map_add_assoc [symmetric]) (simp add: map_add_def fun_eq_iff split: option.splits)
  qed simp
  then show ?thesis by (simp add: copy_attrs_def)
qed

lemma map_of_rev_distinct: "distinct (map fst xs) \<Longrightarrow> map_of (rev xs) = map_of xs"
proof (induction xs)
  case (Cons x xs)
  obtain n v where x: "x = (n, v)" by (cases x)
  with Cons.prems have "map_of xs n = None" by (simp add: map_of_eq_None_iff)
  with Cons show ?case by (auto simp: x fun_eq_iff map_add_def split: option.splits)
qed simp

section \<open>Creation\<close>

text \<open>Every object visible before is visible after, with the same attributes.\<close>

definition keeps :: "cfg_state \<Rightarrow> cfg_state \<Rightarrow> bool" where
  "keeps s s' \<longleftrightarrow> (\<forall>r q x. cfg_obj_root s = RootLive r \<longrightarrow> obj_at r q = Some x \<longrightarrow>
     (\<exists>r' x'. cfg_obj_root s' = RootLive r' \<and> obj_at r' q = Some x' \<and> obj_private x' = obj_private x))"

lemma keeps_root: "cfg_obj_root s' = cfg_obj_root s \<Longrightarrow> keeps s s'"
  by (simp add: keeps_def)

lemma get_child_link:
  "cfg_obj_get_child (link_child c y) i =
     (case cfg_obj_get_child y i of Some z \<Rightarrow> Some z | None \<Rightarrow> if obj_id c = i then Some c else None)"
proof -
  have "find P (xs @ [c]) = (case find P xs of Some z \<Rightarrow> Some z | None \<Rightarrow> if P c then Some c else None)"
    for P and xs :: "cfg_node_obj list" by (induction xs) auto
  then show ?thesis by (simp add: cfg_obj_get_child_def)
qed

lemma obj_at_link_keeps:
  "obj_at r q = Some x \<Longrightarrow> \<exists>x'. obj_at (obj_upd p (link_child c) r) q = Some x' \<and> obj_private x' = obj_private x"
proof (induction p arbitrary: r q)
  case Nil
  then show ?case
    by (cases q) (auto simp: get_child_link split: option.splits)
next
  case (Cons i p)
  show ?case
  proof (cases q)
    case Nil
    with Cons.prems show ?thesis by auto
  next
    case (Cons j q')
    with Cons.prems obtain d where d: "cfg_obj_get_child r j = Some d" "obj_at d q' = Some x"
      by (auto split: option.splits)
    from get_child_upd [of "link_child c" i p r j]
    have "cfg_obj_get_child (obj_upd (i # p) (link_child c) r) j =
        Some (if i = j then obj_upd p (link_child c) d else d)" using d by simp
    with Cons.IH [OF d(2)] d Cons show ?thesis by (auto simp del: obj_upd.simps)
  qed
qed

lemma create_sub_keeps: "cfg_obj_create_sub_obj E p oid s = Ret (ret, s') \<Longrightarrow> keeps s s'"
proof -
  assume a: "cfg_obj_create_sub_obj E p oid s = Ret (ret, s')"
  from create_sub_cases [OF a] show ?thesis
  proof (elim disjE exE conjE)
    assume "pool_step s 0 s'"
    then show ?thesis by (intro keeps_root) (rule pool_stepD)
  next
    fix r obj t nid ch ch0 s1 s2 s3
    assume r: "cfg_obj_root s = RootLive r"
      and st: "pool_step s (2 * int (obj_count [CfgObj nid [] ch])) s3"
      and s': "s' = upd_obj p (link_child (CfgObj nid [] ch)) s3"
    have "cfg_obj_root s' = RootLive (obj_upd p (link_child (CfgObj nid [] ch)) r)"
      using pool_stepD(1) [OF st] r by (simp add: s' upd_obj_root)
    then show ?thesis using r obj_at_link_keeps by (fastforce simp: keeps_def)
  qed
qed

interpretation keep: create_rel E keeps for E
proof unfold_locales
  fix p oid s ret t
  assume a: "cfg_obj_create_sub_obj E p oid (cfg_obj_lock s) = Ret (ret, t)"
  show "keeps s (cfg_obj_unlock t)" using create_sub_keeps [OF a] by (simp add: keeps_def)
next
  fix s t u assume "keeps s t" "keeps t u"
  then show "keeps s u" unfolding keeps_def by metis
qed (auto simp: keeps_def)

lemma create_sub_found:
  assumes "cfg_obj_create_sub_obj E p oid s = Ret (ret, s')" "cfg_obj_id oid \<noteq> 0" "0 < ret"
  shows "\<exists>r' ch. cfg_obj_root s' = RootLive r' \<and> obj_at r' (p @ [oid]) = Some (CfgObj oid [] ch) \<and> ret = sint oid"
  using create_sub_cases [OF assms(1)]
proof (elim disjE exE conjE)
  assume "ret = -1"
  then show ?thesis using assms(3) by simp
next
  fix r obj t nid ch ch0 s1 s2 s3
  assume r: "cfg_obj_root s = RootLive r" "obj_at r p = Some obj"
    and gc: "cfg_obj_get_child obj oid = None"
    and nid: "nid = (if cfg_obj_id oid \<noteq> 0 then oid else cfg_obj_auto_oid obj oid)" "ret = sint nid"
    and st: "pool_step s (2 * int (obj_count [CfgObj nid [] ch])) s3"
    and s': "s' = upd_obj p (link_child (CfgObj nid [] ch)) s3"
  have "cfg_obj_root s' = RootLive (obj_upd p (link_child (CfgObj oid [] ch)) r)"
    using pool_stepD(1) [OF st] r nid assms(2) by (simp add: s' upd_obj_root)
  moreover have "obj_at (obj_upd p (link_child (CfgObj oid [] ch)) r) (p @ [oid]) = Some (CfgObj oid [] ch)"
    using r gc by (subst obj_at_upd_below) (simp_all add: get_child_link)
  ultimately show ?thesis using nid assms(2) by auto
qed

section \<open>Paths of instances\<close>

lemma resolve_append:
  "resolve ts (cs @ [c]) = Some ids \<Longrightarrow> \<exists>ids0 t. resolve ts cs = Some ids0 \<and>
     ids = ids0 @ [mk_oid (type_id t) (comp_inst c)] \<and> t \<in> set (type_nodes ts)"
proof (induction cs arbitrary: ts ids)
  case Nil
  then obtain u where u: "find (\<lambda>t. name_match (type_name t) (fst c)) ts = Some u"
      "ids = [mk_oid (type_id u) (comp_inst c)]" by (auto split: option.splits)
  then have "u \<in> set ts" by (auto simp: find_Some_iff)
  then show ?case using u nodes_top by auto
next
  case (Cons d cs)
  then obtain u ids' where u: "find (\<lambda>t. name_match (type_name t) (fst d)) ts = Some u"
      "resolve (type_subtype u) (cs @ [c]) = Some ids'" "ids = mk_oid (type_id u) (comp_inst d) # ids'"
    by (auto split: option.splits)
  from Cons.IH [OF u(2)] obtain ids0 t where i: "resolve (type_subtype u) cs = Some ids0"
      "ids' = ids0 @ [mk_oid (type_id t) (comp_inst c)]" "t \<in> set (type_nodes (type_subtype u))" by blast
  have "u \<in> set ts" using u(1) by (auto simp: find_Some_iff)
  then have "t \<in> set (type_nodes ts)" using nodes_sub nodes_top i(3) by blast
  with u i show ?case by auto
qed

lemma resolve_length: "resolve ts cs = Some ids \<Longrightarrow> length ids = length cs"
  by (induction cs arbitrary: ts ids) (auto split: option.splits)

lemma last_component_dot:
  assumes "a \<noteq> []" "CHR ''.'' \<notin> set b"
  shows "last_component (a @ CHR ''.'' # b) = Some b"
proof -
  have "takeWhile (\<lambda>c. c \<noteq> CHR ''.'') (rev b @ CHR ''.'' # rev a) = rev b"
    using assms(2) by (intro takeWhile_append_stop) auto
  then have r: "rev (takeWhile (\<lambda>c. c \<noteq> CHR ''.'') (rev (a @ CHR ''.'' # b))) = b"
    by (simp only: rev_append rev.simps append.simps append_assoc rev_rev_ident)
  show ?thesis unfolding last_component_def r Let_def using assms(1) by simp
qed

lemma path_to_oid_inst:
  assumes "db_ok db" "\<forall>d \<in> set cs. comp_ok d" "comp_ok (n, Some k)" "cs \<noteq> []"
    "length cs < CFG_MAX_NODE_LEVEL - 1"
  shows "cfg_path_to_oid db (path_text (cs @ [(n, Some k)])) =
    Ret (case resolve [db_root db] (cs @ [(n, Some k)]) of None \<Rightarrow> 0 | Some ids \<Rightarrow> last ids)"
proof -
  let ?cs = "cs @ [(n, Some k)]"
  have arr: "cfg_path_to_oid_array db (path_text ?cs) = Ret (resolve [db_root db] ?cs)"
    using assms by (intro oid_array_resolve) (auto simp: c_defs)
  have nd: "CHR ''.'' \<notin> set (nat_str k)" by (rule nat_str_no_char) (simp add: is_digit_def cval_def)
  have p: "path_text ?cs = (path_text cs @ CHR ''.'' # n) @ CHR ''.'' # nat_str k"
    using assms(4) by (simp add: path_text_append)
  have "last_component (path_text ?cs) = Some (nat_str k)"
    unfolding p by (rule last_component_dot) (simp_all add: nd)
  moreover have "0 < atoi (nat_str k)" using assms(3) by (simp add: atoi_nat_str)
  ultimately show ?thesis
    using resolve_length [of "[db_root db]" ?cs] assms(5)
    by (auto simp: cfg_path_to_oid_def arr c_defs simp del: resolve.simps split: option.splits)
qed

lemma get_obj_path:
  assumes "db_ok (env_types E)" "\<forall>d \<in> set cs. comp_ok d" "cs \<noteq> []" "length cs \<le> CFG_MAX_NODE_LEVEL"
    "cfg_obj_root s = RootLive r"
  shows "cfg_obj_get_obj E s (path_text cs) = Ret (case resolve [db_root (env_types E)] cs of
      None \<Rightarrow> None | Some ids \<Rightarrow> if obj_at r (tl ids) = None then None else Some (tl ids))"
proof -
  have tl1: "length ids = 1 \<Longrightarrow> tl ids = []" for ids :: "u32 list" by (cases ids) auto
  show ?thesis
    unfolding get_obj_live_eq [OF assms(5)] oid_array_resolve [OF assms(1-4)]
    using tl1 by (auto simp del: resolve.simps split: option.splits)
qed

lemma create_object_found:
  assumes "db_ok (env_types E)" "\<forall>d \<in> set cs. comp_ok d" "name_ok n" "\<not> is_digit (hd n)" "0 < k" "k < 65536"
    "cs \<noteq> []" "length cs < CFG_MAX_NODE_LEVEL - 1"
    "length (path_text (cs @ [(n, Some k)])) < CFG_MAX_PATH_NAME"
    "cfg_obj_create_object E (path_text (cs @ [(n, Some k)])) s = Ret (ret, s')" "0 < ret"
  shows "\<exists>p r' ch oid. cfg_obj_get_obj E s' (path_text (cs @ [(n, Some k)])) = Ret (Some p) \<and>
    cfg_obj_root s' = RootLive r' \<and> obj_at r' p = Some (CfgObj oid [] ch) \<and> ret = sint oid \<and>
    cfg_obj_id oid = of_nat k"
proof -
  let ?c = "(n, Some k)" and ?db = "env_types E"
  have c: "comp_ok ?c" using assms by simp
  have pp: "cfg_get_parent_path (Some (path_text (cs @ [?c]))) = Ret (0, path_text cs)"
    using parent_path_text [OF assms(2) c assms(7)] assms by simp
  from create_object_cases [OF assms(10)] assms(11) obtain s2 node oid s4 where
      po: "cfg_path_to_oid ?db (path_text (cs @ [?c])) = Ret oid" "0 < sint oid"
    and gp: "cfg_obj_get_obj E s2 (path_text cs) = Ret (Some node)"
    and sub: "cfg_obj_create_sub_obj E node oid (cfg_obj_lock s2) = Ret (ret, s4)" "s' = cfg_obj_unlock s4"
    unfolding pp by auto
  have "oid \<noteq> 0" using po by auto
  then obtain ids where ids: "resolve [db_root ?db] (cs @ [?c]) = Some ids" "oid = last ids"
    using po path_to_oid_inst [OF assms(1,2) c assms(7,8)] by (auto split: option.splits)
  from resolve_append [OF ids(1)] obtain ids0 t where i0: "resolve [db_root ?db] cs = Some ids0"
      "ids = ids0 @ [mk_oid (type_id t) (comp_inst ?c)]" "t \<in> set (type_nodes [db_root ?db])" by blast
  have tb: "unat (type_id t) < 65536" using db_ok_id_bounds(2) [OF assms(1) i0(3)] by (simp add: c_defs)
  have ks: "k < 2 ^ 32" using assms(6) by simp
  have kb: "unat (of_nat k :: u32) = k" by (rule unat_small [OF ks])
  have oid: "oid = mk_oid (type_id t) (of_nat k)" using ids i0 by (simp add: comp_inst_def)
  then have inst: "cfg_obj_id oid = of_nat k"
    using tb kb assms(6) by (simp add: word_unat_eq_iff unat_obj_id unat_mk_oid)
  have nz: "cfg_obj_id oid \<noteq> 0" unfolding inst by (rule of_nat_u32_neq0) (use assms in auto)
  obtain r2 where r2: "cfg_obj_root s2 = RootLive r2"
    using sub(1) deref_RetD by (fastforce simp: cfg_obj_create_sub_obj_def simp del: cbind_eq_Ret elim!: cbind_RetE)
  have node: "node = tl ids0"
    using gp get_obj_path [OF assms(1,2,7) _ r2] i0(1) assms(8) by (auto simp del: resolve.simps split: if_splits)
  from create_sub_found [OF sub(1) nz assms(11)] obtain r' ch where
    r': "cfg_obj_root s' = RootLive r'" "obj_at r' (node @ [oid]) = Some (CfgObj oid [] ch)" "ret = sint oid"
    using sub(2) by auto
  have "ids0 \<noteq> []" using resolve_length [OF i0(1)] assms(7) by auto
  then have tl: "tl ids = node @ [oid]" using i0 ids node by (cases ids0) auto
  have "cfg_obj_get_obj E s' (path_text (cs @ [?c])) = Ret (Some (node @ [oid]))"
    using get_obj_path [of E "cs @ [?c]", OF assms(1) _ _ _ r'(1)] assms(2,8) c ids(1) r'(2) tl
    by (auto simp: c_defs simp del: resolve.simps)
  with r' inst show ?thesis by blast
qed

section \<open>Deletion\<close>

lemma tree_ok_at: "tree_ok [r] \<Longrightarrow> obj_at r p = Some x \<Longrightarrow> tree_ok [x]"
proof (induction p arbitrary: r)
  case (Cons i p)
  then obtain c where c: "cfg_obj_get_child r i = Some c" "obj_at c p = Some x" by (auto split: option.splits)
  have "tree_ok [c]"
    using Cons.prems(1) get_child_SomeD [OF c(1)] tree_ok_child [of "obj_child r" c]
    by (simp only: tree_ok_single)
  with Cons.IH c show ?case by blast
qed simp

lemma get_child_unlink:
  "tree_ok [y] \<Longrightarrow> cfg_obj_get_child (unlink_child i y) j = (if j = i then None else cfg_obj_get_child y j)"
  using rem_first_notin [of "obj_child y" i] rem_first_other [of j i "obj_child y"]
    tree_ok_distinct [of "obj_child y"]
  by (auto simp: cfg_obj_get_child_def find_None_iff tree_ok_single simp del: tree_ok.simps)

lemma obj_at_unlinked:
  assumes "tree_ok [r]"
  shows "obj_at (obj_upd p (unlink_child i) r) (p @ [i]) = None"
proof -
  have "obj_at (obj_upd p (unlink_child i) r) (p @ [i]) =
      (case obj_at r p of None \<Rightarrow> None | Some c \<Rightarrow> obj_at (unlink_child i c) [i])"
    by (rule obj_at_upd_below) simp
  then show ?thesis
    using tree_ok_at [OF assms] by (auto simp: get_child_unlink simp del: tree_ok.simps split: option.splits)
qed

lemma get_child_unlink_other: "j \<noteq> i \<Longrightarrow> cfg_obj_get_child (unlink_child i y) j = cfg_obj_get_child y j"
  using rem_first_other [of j i "obj_child y"] by (simp add: cfg_obj_get_child_def)

lemma obj_at_unlink_other:
  "take (Suc (length p)) q \<noteq> p @ [i] \<Longrightarrow>
   map_option obj_private (obj_at (obj_upd p (unlink_child i) r) q) = map_option obj_private (obj_at r q)"
proof (induction p arbitrary: r q)
  case Nil
  then show ?case by (cases q) (auto simp: get_child_unlink_other)
next
  case (Cons k p)
  show ?case
  proof (cases q)
    case (Cons j q')
    have g: "cfg_obj_get_child (obj_upd (k # p) (unlink_child i) r) j =
        (if k = j then map_option (obj_upd p (unlink_child i)) (cfg_obj_get_child r j) else cfg_obj_get_child r j)"
      by (rule get_child_upd) simp
    show ?thesis
      using Cons.IH [of q'] Cons.prems g by (auto simp: local.Cons simp del: obj_upd.simps split: option.splits)
  qed simp
qed

lemma delete_object_cases:
  assumes "cfg_obj_delete_object E path s = Ret (ret, s')" "0 < ret"
  shows "\<exists>p r obj. cfg_obj_get_obj E s path = Ret (Some p) \<and> cfg_obj_root s = RootLive r \<and>
    obj_at r p = Some obj \<and> ret = sint (obj_id obj) \<and>
    cfg_obj_root s' = (if p = [] then RootDangling else RootLive (obj_upd (butlast p) (unlink_child (last p)) r))"
proof -
  from assms obtain p s2 where p: "cfg_obj_get_obj E s path = Ret (Some p)"
      and d: "cfg_obj_del_object p (cfg_obj_lock s) = Ret (ret, s2)" "s' = cfg_obj_unlock s2"
    by (auto simp: cfg_obj_delete_object_def Let_def simp del: cbind_eq_Ret elim!: cbind_RetE split: option.splits)
  from d obtain obj where obj: "deref s p = Ret obj" by (auto simp: cfg_obj_del_object_def)
  from deref_RetD [OF obj] obtain r where r: "cfg_obj_root s = RootLive r" "obj_at r p = Some obj" by blast
  let ?u = "cfg_obj_unlink_object p (cfg_obj_lock s)"
  have "cfg_obj_root (cfg_obj_release_object [obj] ?u) = cfg_obj_root ?u"
    by (rule pool_stepD(1) [OF pool_step_release])
  with d obj have "cfg_obj_root s' = (if p = [] then RootDangling else cfg_obj_root ?u)" "ret = sint (obj_id obj)"
    by (auto simp: cfg_obj_del_object_def Let_def simp del: cfg_obj_release_object.simps)
  then show ?thesis using p r by (auto simp: cfg_obj_unlink_object_def upd_obj_root)
qed

section \<open>The tree of a type tree\<close>

text \<open>The objects that exist without being created: one instance of every type that is not
  below a type created on demand.\<close>

fun static_objs :: "type_db \<Rightarrow> cfg_node_type list \<Rightarrow> cfg_node_obj list" where
  "static_objs db [] = []"
| "static_objs db (CfgType i nm fl subs ops ix # bs) =
     (if cfg_type_is_dynamic_type db i then static_objs db bs
      else CfgObj (mk_oid i 1) [] (static_objs db subs) # static_objs db bs)"

lemma shift_mk_oid: "unat i < 65536 \<Longrightarrow> push_bit CFG_TYPE_SHIFT i + 1 = mk_oid i 1"
  by (simp add: word_unat_eq_iff unat_type_shift unat_mk_oid)

lemma obj_type_shift: "unat i < 65536 \<Longrightarrow> cfg_obj_type (mk_oid i 1) = i"
  by (simp add: word_unat_eq_iff unat_obj_type unat_mk_oid)

lemma alloc_ok: "(\<forall>n. env_calloc E n) \<Longrightarrow> \<exists>s'. cfg_obj_alloc_node E s = (True, s')"
  by (simp add: cfg_obj_alloc_node_def shm_calloc_def)

lemma create_del_static:
  "(\<forall>n. env_calloc E n) \<Longrightarrow> \<forall>t \<in> set (type_nodes ts). unat (type_id t) < 65536 \<Longrightarrow>
   fst (cfg_obj_del_from_type E (fst (cfg_obj_create_from_type E ts s)) s') = static_objs (env_types E) ts"
proof (induction ts arbitrary: s s' rule: type_nodes.induct)
  case (2 i nm fl subs ops ix bs)
  obtain s1 where a: "cfg_obj_alloc_node E s = (True, s1)" using alloc_ok "2.prems"(1) by blast
  obtain ch s2 where c: "cfg_obj_create_from_type E subs s1 = (ch, s2)"
    by (cases "cfg_obj_create_from_type E subs s1")
  obtain bros s3 where d: "cfg_obj_create_from_type E bs s2 = (bros, s3)"
    by (cases "cfg_obj_create_from_type E bs s2")
  have ih: "fst (cfg_obj_del_from_type E ch u) = static_objs (env_types E) subs"
    "fst (cfg_obj_del_from_type E bros u) = static_objs (env_types E) bs" for u
    using "2.IH"(1) [of s1 u] "2.IH"(2) [of s2 u] "2.prems" c d by auto
  have i: "unat i < 65536" using "2.prems" by simp
  have "fst (cfg_obj_create_from_type E (CfgType i nm fl subs ops ix # bs) s) = CfgObj (mk_oid i 1) [] ch # bros"
    using a c d by (simp add: shift_mk_oid [OF i])
  then show ?case
    using ih by (auto simp: obj_type_shift [OF i] split: prod.splits simp del: cfg_obj_create_from_type.simps)
      (metis fst_conv)+
qed simp

lemma load_static:
  assumes "\<forall>n. env_calloc E n" "db_ok (env_types E)"
    "\<not> cfg_type_is_dynamic_type (env_types E) (type_id (db_root (env_types E)))"
  shows "\<exists>s'. cfg_obj_load_from_type E s =
    (RootLive (CfgObj (mk_oid (type_id (db_root (env_types E))) 1) []
       (static_objs (env_types E) (type_subtype (db_root (env_types E))))), s')"
proof -
  let ?t = "db_root (env_types E)"
  obtain i nm fl subs ops ix where t: "?t = CfgType i nm fl subs ops ix" by (cases ?t)
  have b: "\<forall>u \<in> set (type_nodes [?t]). unat (type_id u) < 65536"
    using db_ok_id_bounds(2) [OF assms(2)] by (force simp: c_defs simp del: type_nodes.simps)
  obtain s1 where a: "cfg_obj_alloc_node E s = (True, s1)" using alloc_ok assms(1) by blast
  obtain node s2 where c: "cfg_obj_create_from_type E [?t] s = ([node], s2)"
    using a by (cases "cfg_obj_create_from_type E subs s1") (simp add: t)
  have "fst (cfg_obj_del_from_type E [node] s2) = static_objs (env_types E) [?t]"
    using create_del_static [OF assms(1) b, of s s2] c by simp
  then have "fst (cfg_obj_del_from_type E [node] s2) = [CfgObj (mk_oid i 1) [] (static_objs (env_types E) subs)]"
    using assms(3) t by simp
  then obtain s3 where "cfg_obj_del_from_type E [node] s2 = ([CfgObj (mk_oid i 1) [] (static_objs (env_types E) subs)], s3)"
    by (metis prod.collapse)
  then show ?thesis
    using c t by (simp add: cfg_obj_load_from_type_def cfg_type_get_root_def del: cfg_obj_create_from_type.simps cfg_obj_del_from_type.simps)
qed

lemma load_live:
  assumes "cfg_obj_load_from_type E s = (root, s1)" "shm_live s = 0"
  shows "live_ok (s1\<lparr>cfg_obj_root := root\<rparr>)" "lock_log s1 = lock_log s"
proof -
  obtain os s2 where c: "cfg_obj_create_from_type E [cfg_type_get_root (env_types E)] s = (os, s2)"
    by (cases "cfg_obj_create_from_type E [cfg_type_get_root (env_types E)] s")
  note pc = pool_stepD [OF pool_step_create [OF c]]
  have "length os \<le> 1"
    using c by (cases "cfg_type_get_root (env_types E)") (auto split: bool.splits prod.splits)
  then consider "os = []" | node where "os = [node]" by (cases os) auto
  then have "live_ok (s1\<lparr>cfg_obj_root := root\<rparr>) \<and> lock_log s1 = lock_log s"
  proof cases
    case 1
    with assms c pc show ?thesis by (auto simp: cfg_obj_load_from_type_def live_ok_def simp del: cfg_obj_create_from_type.simps)
  next
    case 2
    obtain os' s3 where d: "cfg_obj_del_from_type E [node] s2 = (os', s3)"
      by (cases "cfg_obj_del_from_type E [node] s2")
    note pd = pool_stepD [OF pool_step_del [OF d]]
    have "length os' \<le> 1" using d by (cases node) (auto split: if_splits prod.splits)
    then show ?thesis
      using assms c pc pd 2 d
      by (cases os') (auto simp: cfg_obj_load_from_type_def live_ok_def
          simp del: cfg_obj_create_from_type.simps cfg_obj_del_from_type.simps)
  qed
  then show "live_ok (s1\<lparr>cfg_obj_root := root\<rparr>)" "lock_log s1 = lock_log s" by auto
qed

section \<open>A concrete instance\<close>

text \<open>The time zone types with a pool that never fails and association lists as attribute
  arrays; the state after loading them.\<close>

definition tz_env :: cfg_env where
  "tz_env = \<lparr>env_types = tz_db, env_calloc = (\<lambda>_. True),
     env_xml_set = (\<lambda>a n v. AList.update n v a), env_xml_get = map_of\<rparr>"

definition empty_state :: cfg_state where
  "empty_state = \<lparr>cfg_obj_root = RootNull, shm_calls = 0, shm_live = 0, lock_log = [], handler_log = []\<rparr>"

definition tz_state :: cfg_state where
  "tz_state = (case cfg_obj_load_from_type tz_env empty_state of
     (root, s) \<Rightarrow> s\<lparr>cfg_obj_root := root\<rparr>)"

definition run_to :: "cfg_state cres \<Rightarrow> cfg_state" where
  "run_to m = (case m of Ret s \<Rightarrow> s | Fault _ \<Rightarrow> empty_state)"

lemma run_to_eq: "(case m of Ret _ \<Rightarrow> True | Fault _ \<Rightarrow> False) \<Longrightarrow> m = Ret (run_to m)"
  by (cases m) (simp_all add: run_to_def)

lemma run_to_pair:
  "(case m of Ret (k, _) \<Rightarrow> k = c | Fault _ \<Rightarrow> False) \<Longrightarrow> m = Ret (c, run_to (cbind m (\<lambda>(_, s'). Ret s')))"
  by (cases m) (auto simp: run_to_def)

lemma tz_xml_laws: "xml_laws tz_env"
  by (simp add: xml_laws_def tz_env_def update_conv')

lemma tz_env_db: "db_ok (env_types tz_env)"
  by (simp add: tz_env_def tz_db_ok)

section \<open>Properties\<close>

text \<open>C2: From the tree \<open>cfg_obj_load_from_type\<close> builds in an empty pool, after any sequence
  of calls of the object interface and whichever allocations fail: every live block of the
  pool belongs to exactly one object of the tree (nothing leaks, nothing is freed twice),
  and the pool lock was never taken while held and is free again.\<close>

theorem api_run_no_leak_locks_balanced:
  assumes "cfg_obj_load_from_type E s0 = (root, s1)" and "shm_live s0 = 0" and "lock_log s0 = []"
    and "api_run E (s1\<lparr>cfg_obj_root := root\<rparr>) s"
  shows "live_ok s \<and> bracketed (lock_log s)"
  using api.run_rel [OF assms(4)] load_live [OF assms(1,2)] assms(3) by (auto simp: api_ok_def)

theorem api_run_no_leak_locks_balanced_witness:
  "live_ok (run_to (api_exec tz_env (ApiDelete ''root.timezone.entry'') tz_state)) \<and>
   bracketed (lock_log (run_to (api_exec tz_env (ApiDelete ''root.timezone.entry'') tz_state)))"
proof -
  let ?c = "ApiDelete ''root.timezone.entry''"
  obtain root s1 where l: "cfg_obj_load_from_type tz_env empty_state = (root, s1)"
    by (cases "cfg_obj_load_from_type tz_env empty_state")
  then have st: "tz_state = s1\<lparr>cfg_obj_root := root\<rparr>" by (simp add: tz_state_def)
  have "case api_exec tz_env ?c tz_state of Ret _ \<Rightarrow> True | Fault _ \<Rightarrow> False" by code_simp
  then have "api_exec tz_env ?c tz_state = Ret (run_to (api_exec tz_env ?c tz_state))"
    by (rule run_to_eq)
  then have "api_run tz_env tz_state (run_to (api_exec tz_env ?c tz_state))"
    by (rule run_step [OF run_refl])
  then show ?thesis
    using api_run_no_leak_locks_balanced [OF l, of "run_to (api_exec tz_env ?c tz_state)"]
    by (simp add: empty_state_def st)
qed



text \<open>C3: After a successful \<open>cfg_obj_set_object_attr\<close>, reading the attribute gives the value
  (cut to the reader's buffer, its length as return value); every other attribute of every
  object and the resolution of every path are as before.\<close>

theorem set_then_get:
  assumes "xml_laws E" and "cfg_obj_set_object_attr E (Some path) (Some a) (Some v) s = Ret (0, s')"
    and "0 < n"
  shows "\<exists>p s''. cfg_obj_get_obj E s path = Ret (Some p) \<and>
    cfg_obj_get_object_attr E (Some path) (Some a) n s' =
      Ret ((int (length (take (nat (n - 1)) v)), Some (take (nat (n - 1)) v)), s'') \<and>
    (\<forall>q b. (q, b) \<noteq> (p, a) \<longrightarrow> attr_at s' q b = attr_at s q b) \<and>
    (\<forall>q. cfg_obj_get_obj E s' q = cfg_obj_get_obj E s q)"
proof -
  from set_attr_cases [OF assms(2)] obtain r p obj where r: "cfg_obj_root s = RootLive r" "obj_at r p = Some obj"
      and g: "cfg_obj_get_obj E s path = Ret (Some p)"
      and s': "s' = cfg_obj_unlock (upd_obj p (\<lambda>y. set_private (env_xml_set E (obj_private y) a v) y) (cfg_obj_lock s))"
    by blast
  let ?f = "\<lambda>y. set_private (env_xml_set E (obj_private y) a v) y"
  have paths: "\<forall>q. cfg_obj_get_obj E s' q = cfg_obj_get_obj E s q"
    unfolding s' get_obj_locked by (subst get_obj_upd) simp_all
  have at: "attr_at s' q b = (if q = p then map_of (env_xml_set E (obj_private obj) a v) b else attr_at s q b)" for q b
    using attr_at_upd [of "cfg_obj_lock s" r p obj "\<lambda>y. env_xml_set E (obj_private y) a v" q b] r
    by (simp add: s')
  have old: "attr_at s p b = map_of (obj_private obj) b" for b using r by (simp add: attr_at_def)
  have r': "\<exists>r'. cfg_obj_root s' = RootLive r'" using r by (simp add: s' upd_obj_root)
  have "cfg_obj_get_obj E s' path = Ret (Some p)" using paths g by simp
  with r' get_attr_eq [OF assms(1) _ _ assms(3)] at [of p a] assms(1)
  have "\<exists>s''. cfg_obj_get_object_attr E (Some path) (Some a) n s' =
      Ret ((int (length (take (nat (n - 1)) v)), Some (take (nat (n - 1)) v)), s'')"
    by (fastforce simp: xml_laws_def)
  moreover have "\<forall>q b. (q, b) \<noteq> (p, a) \<longrightarrow> attr_at s' q b = attr_at s q b"
    using at old assms(1) by (auto simp: xml_laws_def)
  ultimately show ?thesis using g paths by blast
qed

theorem set_then_get_witness:
  "\<exists>p s''. cfg_obj_get_obj tz_env tz_state ''root.TIMEZONE'' = Ret (Some p) \<and>
    cfg_obj_get_object_attr tz_env (Some ''root.TIMEZONE'') (Some ''TZ'') 4
      (run_to (api_exec tz_env (ApiSet (Some ''root.TIMEZONE'') (Some ''TZ'') (Some ''GMT+8'')) tz_state)) =
      Ret ((3, Some ''GMT''), s'')"
proof -
  let ?c = "ApiSet (Some ''root.TIMEZONE'') (Some ''TZ'') (Some ''GMT+8'')"
  have "(case cfg_obj_set_object_attr tz_env (Some ''root.TIMEZONE'') (Some ''TZ'') (Some ''GMT+8'') tz_state of
      Ret (k, _) \<Rightarrow> k = 0 | Fault _ \<Rightarrow> False)" by code_simp
  then have "cfg_obj_set_object_attr tz_env (Some ''root.TIMEZONE'') (Some ''TZ'') (Some ''GMT+8'') tz_state =
      Ret (0, run_to (api_exec tz_env ?c tz_state))"
    unfolding api_exec.simps by (rule run_to_pair)
  from set_then_get [OF tz_xml_laws this, of 4] show ?thesis by (simp add: numeral_eq_Suc) blast
qed





text \<open>Deleting the root succeeds and leaves \<open>cfg_obj_root\<close> pointing at the released
  tree: the next lookup of any object below the root reads freed memory.\<close>

theorem delete_root_dangles:
  assumes "cfg_obj_delete_object E path s = Ret (ret, s')" and "0 < ret"
    and "cfg_obj_get_obj E s path = Ret (Some [])"
    and "cfg_path_to_oid_array (env_types E) q = Ret (Some ids)" and "1 < length ids"
  shows "cfg_obj_get_obj E s' q = Fault UseAfterFree"
  using delete_object_cases [OF assms(1,2)] assms(3-) by (auto simp: cfg_obj_get_obj_def)

theorem delete_root_dangles_witness:
  "cfg_obj_get_obj tz_env (run_to (api_exec tz_env (ApiDelete ''root'') tz_state)) ''root.timezone'' = Fault UseAfterFree"
proof -
  have "(case cfg_obj_delete_object tz_env ''root'' tz_state of Ret (k, _) \<Rightarrow> k = 6553601 | Fault _ \<Rightarrow> False)"
    by code_simp
  then have d: "cfg_obj_delete_object tz_env ''root'' tz_state =
      Ret (6553601, run_to (api_exec tz_env (ApiDelete ''root'') tz_state))"
    unfolding api_exec.simps by (rule run_to_pair)
  have "cfg_obj_get_obj tz_env tz_state ''root'' = Ret (Some [])" by code_simp
  moreover have "cfg_path_to_oid_array (env_types tz_env) ''root.timezone'' = Ret (Some [6553601, 6619137])" by code_simp
  ultimately show ?thesis using delete_root_dangles [OF d] by simp
qed

text \<open>The automatic instance number of \<open>cfg_obj_auto_oid\<close> is of the wanted type, is not
  0 and is not carried by any child, unless a child of the type carries 65535.\<close>

theorem auto_number_fresh:
  assumes "\<forall>c \<in> set (obj_child obj). obj_id c AND CFG_OBJ_MASK \<noteq> CFG_OBJ_MASK"
  shows "cfg_obj_type (cfg_obj_auto_oid obj oid) = cfg_obj_type oid \<and>
    cfg_obj_id (cfg_obj_auto_oid obj oid) \<noteq> 0 \<and> cfg_obj_get_child obj (cfg_obj_auto_oid obj oid) = None"
proof -
  have r: "max_oid (oid AND CFG_TYPE_MASK) (oid AND CFG_TYPE_MASK) (obj_child obj) AND CFG_OBJ_MASK \<noteq> CFG_OBJ_MASK"
    by (rule auto_oid_room) (use assms in auto)
  have "cfg_obj_type (cfg_obj_auto_oid obj oid) = cfg_obj_type oid"
    using auto_oid_spec(1) [OF r] by (simp add: word_unat_eq_iff unat_obj_type)
  moreover have "cfg_obj_get_child obj (cfg_obj_auto_oid obj oid) = None"
    using auto_oid_spec(2) [OF r] by (simp add: cfg_obj_get_child_def find_None_iff image_iff) metis
  ultimately show ?thesis using auto_oid_spec(3) [OF r] by simp
qed

theorem auto_number_fresh_witness:
  "cfg_obj_type (cfg_obj_auto_oid (CfgObj 6553601 [] [CfgObj 6619139 [] []]) 6619136) = cfg_obj_type 6619136"
  using auto_number_fresh [of "CfgObj 6553601 [] [CfgObj 6619139 [] []]" 6619136]
  by (simp add: CFG_OBJ_MASK_def)

text \<open>When a child carries 65535 the search for an unused number does not go back to the
  first child, and can return a number that is in use: with the children 2, 1 and 65535 of
  a type it returns 2.\<close>

theorem first_unused_number_reused:
  "cfg_obj_auto_oid (CfgObj 0x640001 [] [CfgObj 0x650002 [] [], CfgObj 0x650001 [] [], CfgObj 0x65ffff [] []]) 0x650000
     = 0x650002"
  by (simp add: cfg_obj_auto_oid_def cfg_obj_first_unused_oid_def CFG_TYPE_MASK_def CFG_OBJ_MASK_def)

text \<open>C9: When no allocation fails and the root type is not created on demand,
  \<open>cfg_obj_load_from_type\<close> builds exactly one instance of every type that is not at or
  below a type created on demand, with no attributes.\<close>

theorem load_from_type_static:
  assumes "\<forall>n. env_calloc E n" and "db_ok (env_types E)"
    and "\<not> cfg_type_is_dynamic_type (env_types E) (type_id (db_root (env_types E)))"
  shows "fst (cfg_obj_load_from_type E s) =
    RootLive (CfgObj (mk_oid (type_id (db_root (env_types E))) 1) []
       (static_objs (env_types E) (type_subtype (db_root (env_types E)))))"
  using load_static [OF assms, of s] by auto

theorem load_from_type_static_witness:
  "fst (cfg_obj_load_from_type tz_env empty_state) =
    RootLive (CfgObj (mk_oid 100 1) [] (static_objs tz_db [tz_timezone]))"
proof -
  have "\<not> cfg_type_is_dynamic_type (env_types tz_env) (type_id (db_root (env_types tz_env)))" by code_simp
  from load_from_type_static [OF _ tz_env_db this, of empty_state] show ?thesis
    by (simp add: tz_env_def tz_db_def tz_numbered_def)
qed

text \<open>After a successful \<open>cfg_obj_copy_private\<close> the destination has exactly the
  attributes of the source, if the attribute names of the source are different, and the
  other objects are unchanged; after \<open>cfg_obj_copy_private_without_del\<close> it has them in
  addition to its own.\<close>

theorem copy_private_agrees:
  assumes "xml_laws E" and "cfg_obj_get_obj E s dst = Ret (Some d)" and "cfg_obj_get_obj E s src = Ret (Some c)"
    and "cfg_obj_root s = RootLive r" and "obj_at r c = Some obj" and "distinct (map fst (obj_private obj))"
  shows "(cfg_obj_copy_private E dst src s = Ret (0, s') \<longrightarrow>
      (\<forall>q n. attr_at s' q n = (if q = d then attr_at s c n else attr_at s q n))) \<and>
    (cfg_obj_copy_private_without_del E dst src s = Ret (0, s') \<longrightarrow>
      (\<forall>q n. attr_at s' q n = (if q = d then (case attr_at s c n of Some v \<Rightarrow> Some v | None \<Rightarrow> attr_at s d n)
                               else attr_at s q n)))"
proof -
  obtain dobj where d: "obj_at r d = Some dobj" using get_obj_live [OF assms(4,2)] by blast
  have so: "deref s c = Ret obj" using assms(4,5) by (simp add: deref_def)
  have sc: "attr_at s c n = map_of (obj_private obj) n" for n using assms(4,5) by (simp add: attr_at_def)
  have sd: "attr_at s d n = map_of (obj_private dobj) n" for n using assms(4) d by (simp add: attr_at_def)
  note cp = copy_attrs_map_of [OF assms(1)] map_of_rev_distinct [OF assms(6)]
  have "\<forall>q n. attr_at s' q n = (if q = d then attr_at s c n else attr_at s q n)"
    if a: "cfg_obj_copy_private E dst src s = Ret (0, s')"
  proof -
    define t where "t = (cfg_obj_lock s)\<lparr>shm_calls := Suc (shm_calls s), shm_live := shm_live s\<rparr>"
    have t: "cfg_obj_root t = cfg_obj_root s"
        "s' = cfg_obj_unlock (upd_obj d (set_private (copy_attrs E [] (obj_private obj))) t)"
      using a assms(2,3) so
      by (auto simp: t_def cfg_obj_copy_private_def Let_def shm_calloc_def split: if_splits prod.splits bool.splits)
    have "attr_at t = attr_at s" using t(1) by (auto simp: attr_at_def fun_eq_iff)
    with attr_at_upd [of t r d dobj "\<lambda>_. copy_attrs E [] (obj_private obj)"] t assms(4) d sc cp
    show ?thesis by simp
  qed
  moreover have "\<forall>q n. attr_at s' q n = (if q = d then (case attr_at s c n of Some v \<Rightarrow> Some v | None \<Rightarrow> attr_at s d n)
                               else attr_at s q n)"
    if a: "cfg_obj_copy_private_without_del E dst src s = Ret (0, s')"
  proof -
    from a assms(2,3) so have "s' = cfg_obj_unlock
        (upd_obj d (\<lambda>y. set_private (copy_attrs E (obj_private y) (obj_private obj)) y) (cfg_obj_lock s))"
      by (auto simp: cfg_obj_copy_private_without_del_def Let_def)
    with attr_at_upd [of "cfg_obj_lock s" r d dobj "\<lambda>y. copy_attrs E (obj_private y) (obj_private obj)"]
      assms(4) d sc sd cp
    show ?thesis by (simp add: map_add_def split: option.splits)
  qed
  ultimately show ?thesis by blast
qed

definition copy_start :: cfg_state where
  "copy_start = run_to (api_exec tz_env (ApiSet (Some ''root.timezone'') (Some ''TZ'') (Some ''GMT'')) tz_state)"

theorem copy_private_agrees_witness:
  "attr_at (run_to (api_exec tz_env (ApiCopy ''root.timezone.entry'' ''root.timezone'') copy_start))
     [6619137, 6684673] ''TZ'' = Some ''GMT''"
proof -
  let ?c = "ApiCopy ''root.timezone.entry'' ''root.timezone''"
  let ?r = "CfgObj 6553601 [] [CfgObj 6619137 [(''TZ'', ''GMT'')]
      [CfgObj 6684673 [] [CfgObj 6750209 [] [], CfgObj 6815745 [] []]]]"
  have "(case cfg_obj_copy_private tz_env ''root.timezone.entry'' ''root.timezone'' copy_start of
      Ret (k, _) \<Rightarrow> k = 0 | Fault _ \<Rightarrow> False)" by code_simp
  then have c: "cfg_obj_copy_private tz_env ''root.timezone.entry'' ''root.timezone'' copy_start =
      Ret (0, run_to (api_exec tz_env ?c copy_start))"
    unfolding api_exec.simps by (rule run_to_pair)
  have d: "cfg_obj_get_obj tz_env copy_start ''root.timezone.entry'' = Ret (Some [6619137, 6684673])" by code_simp
  have s: "cfg_obj_get_obj tz_env copy_start ''root.timezone'' = Ret (Some [6619137])" by code_simp
  have r: "cfg_obj_root copy_start = RootLive ?r" by code_simp
  let ?o = "CfgObj 6619137 [(''TZ'', ''GMT'')] [CfgObj 6684673 [] [CfgObj 6750209 [] [], CfgObj 6815745 [] []]]"
  have o: "obj_at ?r [6619137] = Some ?o" by code_simp
  have "distinct (map fst (obj_private ?o))" by simp
  from copy_private_agrees [OF tz_xml_laws d s r o this] c
  have "attr_at (run_to (api_exec tz_env ?c copy_start)) [6619137, 6684673] ''TZ'' = attr_at copy_start [6619137] ''TZ''"
    by presburger
  also have "\<dots> = Some ''GMT''" by code_simp
  finally show ?thesis .
qed

end
