(* ===== verification/CfgTyped.thy ===== *)
theory CfgTyped
  imports CfgObjSpec
begin

text \<open>
  Every object of the tree has a type: the object numbers of a tree always lead to a node of the
  type tree. \<open>cfg_obj_save_tree\<close> stops at the first brother without a type, so this is what makes
  a saved file complete.
\<close>

definition ids_typed :: "cfg_env \<Rightarrow> u32 set \<Rightarrow> bool" where
  "ids_typed E I \<longleftrightarrow> (\<forall>i \<in> I. cfg_type_from_oid E i \<noteq> None)"

definition typed :: "cfg_env \<Rightarrow> cfg_state \<Rightarrow> bool" where
  "typed E s \<longleftrightarrow> (case cfg_obj_root s of RootLive r \<Rightarrow> ids_typed E (set (all_ids [r])) | _ \<Rightarrow> True)"

lemma ids_typed_mono: "ids_typed E J \<Longrightarrow> I \<subseteq> J \<Longrightarrow> ids_typed E I"
  by (auto simp: ids_typed_def)

lemma typed_cong: "cfg_obj_root s' = cfg_obj_root s \<Longrightarrow> typed E s' = typed E s"
  by (simp add: typed_def)

lemma typed_locked [simp]: "typed E (cfg_obj_lock s) = typed E s" "typed E (cfg_obj_unlock s) = typed E s"
  by (simp_all add: typed_def)

section \<open>New objects\<close>

lemma create_typed:
  "db_ok (env_types E) \<Longrightarrow> \<forall>t \<in> set (type_nodes ts). t \<in> set (type_nodes [db_root (env_types E)]) \<Longrightarrow>
   cfg_obj_create_from_type E ts s = (os, s') \<Longrightarrow> ids_typed E (set (all_ids os))"
proof (induction ts arbitrary: s os s' rule: type_nodes.induct)
  case (2 i nm fl subs ops ix bs)
  let ?t = "CfgType i nm fl subs ops ix"
  have n: "?t \<in> set (type_nodes [db_root (env_types E)])" using "2.prems"(2) by simp
  have i: "unat i < 65536" using db_ok_id_bounds(2) [OF "2.prems"(1) n] by (simp add: c_defs)
  have t: "cfg_type_from_oid E (mk_oid i 1) = Some ?t"
    using find_by_id_node [OF "2.prems"(1) n] by (simp add: cfg_type_from_oid_def obj_type_shift [OF i])
  obtain b s1 where a: "cfg_obj_alloc_node E s = (b, s1)" by force
  obtain ch s2 where c: "cfg_obj_create_from_type E subs s1 = (ch, s2)" by force
  obtain bros s3 where d: "cfg_obj_create_from_type E bs s2 = (bros, s3)" by force
  have ih: "ids_typed E (set (all_ids ch))" "ids_typed E (set (all_ids bros))"
    using "2.IH"(1) [OF "2.prems"(1) _ c] "2.IH"(2) [OF "2.prems"(1) _ d] "2.prems"(2) by auto
  show ?case
  proof (cases b)
    case True
    with "2.prems"(3) a c d have "os = CfgObj (mk_oid i 1) [] ch # bros" by (simp add: shift_mk_oid [OF i])
    with ih t show ?thesis by (auto simp: ids_typed_def)
  next
    case False
    with "2.prems"(3) a show ?thesis by (simp add: ids_typed_def)
  qed
qed (simp add: ids_typed_def)

lemma del_all_ids: "cfg_obj_del_from_type E os s = (os', s') \<Longrightarrow> set (all_ids os') \<subseteq> set (all_ids os)"
proof (induction E os s arbitrary: os' s' rule: cfg_obj_del_from_type.induct)
  case (2 E i p ch bs s)
  obtain ch' s1 where c: "cfg_obj_del_from_type E ch s = (ch', s1)" by force
  obtain bs' s2 where d: "cfg_obj_del_from_type E bs s1 = (bs', s2)" by force
  have "set (all_ids ch') \<subseteq> set (all_ids ch)" "set (all_ids bs') \<subseteq> set (all_ids bs)"
    using "2.IH"(1) [OF c] "2.IH"(2) [OF _ d] c by auto
  with "2.prems" c d show ?case by (auto split: if_splits)
qed simp

lemma all_ids_upd_bound:
  assumes "\<And>y. set (all_ids [f y]) \<subseteq> set (all_ids [y]) \<union> X"
  shows "set (all_ids [obj_upd p f r]) \<subseteq> set (all_ids [r]) \<union> X"
proof (induction p arbitrary: r)
  case Nil
  then show ?case using assms by simp
next
  case (Cons i p)
  note IH = Cons.IH
  have "set (all_ids (upd_first i (obj_upd p f) cs)) \<subseteq> set (all_ids cs) \<union> X" for cs
  proof (induction cs)
    case (Cons c cs)
    have "set (all_ids [obj_upd p f c]) \<subseteq> set (all_ids [c]) \<union> X" by (rule IH)
    with Cons show ?case by (auto simp: all_ids_Cons)
  qed simp
  then show ?case by (auto simp: all_ids_Cons)
qed

lemma all_ids_rem: "set (all_ids (rem_first i cs)) \<subseteq> set (all_ids cs)"
  by (induction cs) (auto simp: all_ids_Cons)

definition typed_rel :: "cfg_env \<Rightarrow> cfg_state \<Rightarrow> cfg_state \<Rightarrow> bool" where
  "typed_rel E s s' \<longleftrightarrow>
     (db_ok (env_types E) \<longrightarrow> (room s' \<longrightarrow> room s) \<and> (typed E s \<longrightarrow> room s' \<longrightarrow> typed E s'))"

lemma typed_rel_root: "cfg_obj_root s' = cfg_obj_root s \<Longrightarrow> typed_rel E s s'"
  using typed_cong [of s' s E] room_root [of s' s] by (simp add: typed_rel_def)

lemma create_sub_typed:
  assumes "cfg_obj_create_sub_obj E p oid s = Ret (ret, s')"
  shows "typed_rel E s s'"
  using create_sub_cases [OF assms]
proof (elim disjE exE conjE)
  assume "pool_step s 0 s'"
  then show ?thesis by (intro typed_rel_root) (rule pool_stepD)
next
  fix r obj t nid ch ch0 s1 s2 s3
  assume r: "cfg_obj_root s = RootLive r" "obj_at r p = Some obj" and t: "cfg_type_from_oid E oid = Some t"
    and nid: "nid = (if cfg_obj_id oid \<noteq> 0 then oid else cfg_obj_auto_oid obj oid)"
    and c: "cfg_obj_create_from_type E (type_subtype t) s1 = (ch0, s2)" "cfg_obj_del_from_type E ch0 s2 = (ch, s3)"
    and st: "pool_step s (2 * int (obj_count [CfgObj nid [] ch])) s3"
    and s': "s' = upd_obj p (link_child (CfgObj nid [] ch)) s3"
  let ?f = "link_child (CfgObj nid [] ch)"
  have r': "cfg_obj_root s' = RootLive (obj_upd p ?f r)"
    using pool_stepD(1) [OF st] r by (simp add: s' upd_obj_root)
  have "set (all_ids [r]) \<subseteq> set (all_ids [obj_upd p ?f r])"
    by (rule all_ids_upd_mono) (auto simp: all_ids_Cons)
  then have rm: "room s' \<Longrightarrow> room s" using r r' by (auto simp: room_def simp del: all_ids.simps)
  have "typed E s'" if db: "db_ok (env_types E)" and ty: "typed E s" and rs: "room s"
  proof -
    have "\<forall>i \<in> obj_id ` set (obj_child obj). i AND CFG_OBJ_MASK \<noteq> CFG_OBJ_MASK"
      using rs r all_ids_at [OF r(2)] all_ids_top [of "obj_child obj"]
      by (auto simp: room_def simp del: all_ids.simps)
    from auto_oid_spec(1) [OF auto_oid_room [OF this]] have "unat nid div 65536 = unat oid div 65536" using nid by simp
    then have "cfg_obj_type nid = cfg_obj_type oid" by (simp add: word_unat_eq_iff unat_obj_type)
    then have n: "cfg_type_from_oid E nid \<noteq> None" using t by (simp add: cfg_type_from_oid_def)
    have tn: "t \<in> set (type_nodes [db_root (env_types E)])"
      using find_by_id_Some(1) [OF db] t by (simp add: cfg_type_from_oid_def del: type_nodes.simps)
    have "ids_typed E (set (all_ids ch0))" by (rule create_typed [OF db _ c(1)]) (use nodes_sub [OF tn] in blast)
    then have "ids_typed E (set (all_ids [CfgObj nid [] ch]))"
      using del_all_ids [OF c(2)] n by (auto simp: ids_typed_def)
    moreover have "set (all_ids [obj_upd p ?f r]) \<subseteq> set (all_ids [r]) \<union> set (all_ids [CfgObj nid [] ch])"
      by (rule all_ids_upd_bound) (auto simp: all_ids_Cons)
    moreover have "ids_typed E (set (all_ids [r]))" using ty r by (simp add: typed_def)
    ultimately show ?thesis using r' by (auto simp: typed_def ids_typed_def simp del: all_ids.simps)
  qed
  with rm show ?thesis by (simp add: typed_rel_def)
qed

interpretation ty: create_rel E "typed_rel E" for E
proof unfold_locales
  fix p oid s ret t
  assume a: "cfg_obj_create_sub_obj E p oid (cfg_obj_lock s) = Ret (ret, t)"
  then show "typed_rel E s (cfg_obj_unlock t)" using create_sub_typed [OF a] by (simp add: typed_rel_def)
qed (auto simp: typed_rel_def)

section \<open>The other calls\<close>

definition typed_keep :: "cfg_env \<Rightarrow> cfg_state \<Rightarrow> cfg_state \<Rightarrow> bool" where
  "typed_keep E s s' \<longleftrightarrow> (typed E s \<longrightarrow> typed E s')"

lemma typed_keep_upd:
  assumes "cfg_obj_root t = cfg_obj_root s" "\<And>y. set (all_ids [f y]) \<subseteq> set (all_ids [y])"
  shows "typed_keep E s (cfg_obj_unlock (upd_obj p f t))"
proof (cases "cfg_obj_root s")
  case (RootLive r)
  have "set (all_ids [obj_upd p f r]) \<subseteq> set (all_ids [r])" using all_ids_upd_bound [of f "{}" p r] assms(2) by simp
  then show ?thesis
    using RootLive assms(1) ids_typed_mono by (simp add: typed_keep_def typed_def upd_obj_def del: all_ids.simps)
qed (use assms(1) in \<open>simp_all add: typed_keep_def typed_def upd_obj_def\<close>)

lemma all_ids_private: "set (all_ids [set_private a y]) \<subseteq> set (all_ids [y])"
  by (simp add: all_ids_Cons)

interpretation tk: change_rel E "typed_keep E" for E
proof unfold_locales
  fix p s ret t
  assume a: "cfg_obj_del_object p (cfg_obj_lock s) = Ret (ret, t)"
  from a obtain obj where d: "deref s p = Ret obj" by (auto simp: cfg_obj_del_object_def)
  let ?u = "cfg_obj_unlink_object p (cfg_obj_lock s)"
  have rel: "cfg_obj_root (cfg_obj_release_object [obj] ?u) = cfg_obj_root ?u"
    by (rule pool_stepD(1) [OF pool_step_release])
  show "typed_keep E s (cfg_obj_unlock t)"
  proof (cases "p = []")
    case True
    with a d have "cfg_obj_root t = RootDangling" by (auto simp: cfg_obj_del_object_def Let_def)
    then show ?thesis by (simp add: typed_keep_def typed_def)
  next
    case False
    with a d have t: "cfg_obj_root t = cfg_obj_root ?u"
      using rel by (simp add: cfg_obj_del_object_def Let_def del: cfg_obj_release_object.simps)
    have "typed_keep E s (cfg_obj_unlock (upd_obj (butlast p) (unlink_child (last p)) (cfg_obj_lock s)))"
      using all_ids_rem by (intro typed_keep_upd) (auto simp: all_ids_Cons)
    with False t show ?thesis by (simp add: typed_keep_def typed_def cfg_obj_unlink_object_def)
  qed
next
  fix s t p obj a
  assume "pool_step (cfg_obj_lock s) 0 t"
  then have "cfg_obj_root t = cfg_obj_root s" using pool_stepD(1) by fastforce
  then show "typed_keep E s (cfg_obj_unlock (upd_obj p (set_private a) t))"
    by (rule typed_keep_upd) (rule all_ids_private)
next
  fix s t
  assume "pool_step (cfg_obj_lock s) 0 t"
  then have "cfg_obj_root (cfg_obj_unlock t) = cfg_obj_root s" using pool_stepD(1) by fastforce
  then show "typed_keep E s (cfg_obj_unlock t)" by (simp add: typed_keep_def typed_def)
next
  fix s p f
  show "typed_keep E s (cfg_obj_unlock (upd_obj p (\<lambda>y. set_private (f y) y) (cfg_obj_lock s)))"
    by (rule typed_keep_upd) (simp, rule all_ids_private)
qed (auto simp: typed_keep_def typed_def)

section \<open>Properties\<close>

text \<open>C24: The tree stays typed: the tree built from the types has only objects whose number leads to
  a type, and no call of the interface, whatever its arguments, adds one without a type, as
  long as no object carries the last instance number.\<close>

theorem objects_stay_typed:
  assumes "db_ok (env_types E)"
  shows "(cfg_obj_load_from_type E s0 = (root, s1) \<longrightarrow> typed E (s1\<lparr>cfg_obj_root := root\<rparr>)) \<and>
    (typed E s \<longrightarrow> api_exec E c s = Ret s' \<longrightarrow> room s' \<longrightarrow> typed E s')"
proof (intro conjI impI)
  assume l: "cfg_obj_load_from_type E s0 = (root, s1)"
  let ?r = "cfg_type_get_root (env_types E)"
  obtain os s2 where c: "cfg_obj_create_from_type E [?r] s0 = (os, s2)" by force
  have os: "ids_typed E (set (all_ids os))"
    by (rule create_typed [OF assms _ c]) (simp add: cfg_type_get_root_def)
  show "typed E (s1\<lparr>cfg_obj_root := root\<rparr>)"
  proof (cases os)
    case Nil
    with l c have "root = RootNull" by (simp add: cfg_obj_load_from_type_def del: cfg_obj_create_from_type.simps)
    then show ?thesis by (simp add: typed_def)
  next
    case (Cons node rest)
    obtain os' s3 where d: "cfg_obj_del_from_type E [node] s2 = (os', s3)" by force
    have "set (all_ids os') \<subseteq> set (all_ids os)" using del_all_ids [OF d] Cons by (auto simp: all_ids_Cons)
    then have "ids_typed E (set (all_ids os'))" using os by (rule ids_typed_mono [rotated])
    with l c Cons d show ?thesis
      by (cases os') (auto simp: cfg_obj_load_from_type_def typed_def ids_typed_def all_ids_Cons
          simp del: cfg_obj_create_from_type.simps cfg_obj_del_from_type.simps)
  qed
next
  assume a: "typed E s" "api_exec E c s = Ret s'" "room s'"
  show "typed E s'"
  proof (cases c)
    case (ApiCreate p)
    with a(2) obtain ret where "cfg_obj_create_object E p s = Ret (ret, s')" by auto
    from ty.create_rel [OF this] show ?thesis using assms a by (simp add: typed_rel_def)
  qed (use a tk.query_rel tk.delete_rel tk.get_rel tk.set_rel tk.copy_rel tk.copy_keep_rel tk.commit_rel
        in \<open>auto simp: typed_keep_def\<close>)
qed

theorem objects_stay_typed_witness:
  "typed tz_env (run_to (api_exec tz_env (ApiCreate ''root.timezone.entry'') tz_state))"
proof -
  let ?c = "ApiCreate ''root.timezone.entry''"
  have "case api_exec tz_env ?c tz_state of Ret _ \<Rightarrow> True | Fault _ \<Rightarrow> False" by code_simp
  then have "api_exec tz_env ?c tz_state = Ret (run_to (api_exec tz_env ?c tz_state))" by (rule run_to_eq)
  moreover have "room (run_to (api_exec tz_env ?c tz_state))" "typed tz_env tz_state" by code_simp+
  ultimately show ?thesis using objects_stay_typed [OF tz_env_db] by blast
qed

end
