(* ===== verification/AttrStore.thy ===== *)
theory AttrStore
  imports CfgObjSpec
begin

text \<open>
  What the services rely on of the configuration: attributes of named nodes that are read and
  written. The contract is the locale \<open>attr_store\<close>; the object tree of \<open>cfg_obj.c\<close> meets it, and
  so does a plain function.
\<close>

record 's store_ops =
  so_get :: "'s \<Rightarrow> string \<Rightarrow> string \<Rightarrow> string option"
  so_set :: "string \<Rightarrow> string \<Rightarrow> string \<Rightarrow> 's \<Rightarrow> 's"
  so_delete :: "string \<Rightarrow> 's \<Rightarrow> 's"

text \<open>\<open>cfg_get_object_attr\<close> with a buffer of \<open>k\<close> bytes: the return value is negative when there is
  no such attribute, and else the length of what was copied.\<close>

definition get_attr :: "'s store_ops \<Rightarrow> 's \<Rightarrow> string \<Rightarrow> string \<Rightarrow> nat \<Rightarrow> string option" where
  "get_attr R s node attr k = map_option (take (k - 1)) (so_get R s node attr)"

text \<open>What a zeroed buffer holds afterwards.\<close>

definition buf_attr :: "'s store_ops \<Rightarrow> 's \<Rightarrow> string \<Rightarrow> string \<Rightarrow> nat \<Rightarrow> string" where
  "buf_attr R s node attr k = (case get_attr R s node attr k of None \<Rightarrow> [] | Some v \<Rightarrow> v)"

section \<open>The contract\<close>

text \<open>\<open>same n m\<close>: the two names lead to the same object; \<open>has s n\<close>: there is an object of that name.\<close>

locale attr_store =
  fixes R :: "'s store_ops" and same :: "string \<Rightarrow> string \<Rightarrow> bool" and has :: "'s \<Rightarrow> string \<Rightarrow> bool"
  assumes get_set_same: "has s n \<Longrightarrow> a \<noteq> [] \<Longrightarrow> so_get R (so_set R n a v s) n a = Some v"
    and get_set_other: "\<not> same n m \<or> a \<noteq> b \<Longrightarrow> so_get R (so_set R n a v s) m b = so_get R s m b"
    and has_set: "has (so_set R n a v s) m \<longleftrightarrow> has s m"
    and get_has: "so_get R s n a = Some v \<Longrightarrow> has s n"
begin

lemma get_attr_other: "\<not> same n m \<or> a \<noteq> b \<Longrightarrow> get_attr R (so_set R n a v s) m b k = get_attr R s m b k"
  by (simp add: get_attr_def get_set_other)

lemma buf_attr_other: "\<not> same n m \<or> a \<noteq> b \<Longrightarrow> buf_attr R (so_set R n a v s) m b k = buf_attr R s m b k"
  by (simp add: buf_attr_def get_attr_other)

lemma buf_attr_same:
  "has s n \<Longrightarrow> a \<noteq> [] \<Longrightarrow> length v < k \<Longrightarrow> buf_attr R (so_set R n a v s) n a k = v"
  by (simp add: buf_attr_def get_attr_def get_set_same)

end

section \<open>A plain store\<close>

type_synonym plain = "string \<Rightarrow> (string \<rightharpoonup> string) option"

definition plain_ops :: "plain store_ops" where
  "plain_ops = \<lparr>so_get = (\<lambda>s n a. Option.bind (s n) (\<lambda>m. m a)),
     so_set = (\<lambda>n a v s. case s n of None \<Rightarrow> s | Some m \<Rightarrow> if a = [] then s else s(n \<mapsto> m(a \<mapsto> v))),
     so_delete = (\<lambda>n s. s(n := None))\<rparr>"

definition plain_has :: "plain \<Rightarrow> string \<Rightarrow> bool" where
  "plain_has s n \<longleftrightarrow> s n \<noteq> None"

interpretation ps: attr_store plain_ops "(=)" plain_has
  by unfold_locales (auto simp: plain_ops_def plain_has_def split: option.splits Option.bind_splits)

section \<open>The object tree\<close>

definition tree_ops :: "cfg_env \<Rightarrow> cfg_state store_ops" where
  "tree_ops E = \<lparr>so_get = (\<lambda>s n a. case cfg_obj_get_obj E s n of Ret (Some p) \<Rightarrow> attr_at s p a | _ \<Rightarrow> None),
     so_set = (\<lambda>n a v s. case cfg_obj_set_object_attr E (Some n) (Some a) (Some v) s of Ret (_, s') \<Rightarrow> s' | Fault _ \<Rightarrow> s),
     so_delete = (\<lambda>n s. case cfg_obj_delete_object E n s of Ret (_, s') \<Rightarrow> s' | Fault _ \<Rightarrow> s)\<rparr>"

text \<open>Two paths name the same object when they lead to the same place below the root.\<close>

definition same_object :: "cfg_env \<Rightarrow> string \<Rightarrow> string \<Rightarrow> bool" where
  "same_object E n m \<longleftrightarrow>
     (case (cfg_path_to_oid_array (env_types E) n, cfg_path_to_oid_array (env_types E) m) of
        (Ret (Some ids), Ret (Some ids')) \<Rightarrow> tl ids = tl ids'
      | _ \<Rightarrow> False)"

definition has_object :: "cfg_env \<Rightarrow> cfg_state \<Rightarrow> string \<Rightarrow> bool" where
  "has_object E s n \<longleftrightarrow>
     (case (cfg_obj_root s, cfg_obj_get_obj E s n) of (RootLive _, Ret (Some _)) \<Rightarrow> True | _ \<Rightarrow> False)"

lemma has_object_iff: "has_object E s n \<longleftrightarrow> (\<exists>r p. cfg_obj_root s = RootLive r \<and> cfg_obj_get_obj E s n = Ret (Some p))"
  by (auto simp: has_object_def split: root_ptr.splits cres.splits option.splits)

lemma get_obj_place:
  assumes "cfg_obj_root s = RootLive r" "cfg_obj_get_obj E s n = Ret (Some p)"
  shows "\<exists>ids. cfg_path_to_oid_array (env_types E) n = Ret (Some ids) \<and> p = tl ids"
proof -
  have "length ids = 1 \<Longrightarrow> tl ids = []" for ids :: "u32 list" by (cases ids) auto
  then show ?thesis
    using assms(2) unfolding get_obj_live_eq [OF assms(1)]
    by (auto simp del: cbind_eq_Ret elim!: cbind_RetE split: option.splits if_splits)
qed

lemma tree_get_cong:
  "cfg_obj_get_obj E s' = cfg_obj_get_obj E s \<Longrightarrow> attr_at s' = attr_at s \<Longrightarrow> so_get (tree_ops E) s' = so_get (tree_ops E) s"
  by (auto simp: tree_ops_def fun_eq_iff split: cres.splits option.splits)

lemma tree_set:
  assumes "xml_laws E"
  shows "has_object E s n \<Longrightarrow> a \<noteq> [] \<Longrightarrow> so_get (tree_ops E) (so_set (tree_ops E) n a v s) n a = Some v"
    and "\<not> same_object E n m \<or> a \<noteq> b \<Longrightarrow>
      so_get (tree_ops E) (so_set (tree_ops E) n a v s) m b = so_get (tree_ops E) s m b"
    and "has_object E (so_set (tree_ops E) n a v s) m \<longleftrightarrow> has_object E s m"
proof -
  let ?s = "so_set (tree_ops E) n a v s"
  let ?P = "(has_object E s n \<longrightarrow> a \<noteq> [] \<longrightarrow> so_get (tree_ops E) ?s n a = Some v) \<and>
    (\<not> same_object E n m \<or> a \<noteq> b \<longrightarrow> so_get (tree_ops E) ?s m b = so_get (tree_ops E) s m b) \<and>
    (has_object E ?s m \<longleftrightarrow> has_object E s m)"
  have ?P
  proof (cases "a \<noteq> [] \<and> has_object E s n")
    case False
    have "cfg_obj_root ?s = cfg_obj_root s"
    proof (cases "cfg_obj_set_object_attr E (Some n) (Some a) (Some v) s")
      case (Ret x)
      then show ?thesis
        using False
        by (auto simp: tree_ops_def has_object_iff cfg_obj_set_object_attr_def cfg_obj_set_obj_attr_def Let_def
            simp del: cbind_eq_Ret elim!: cbind_RetE dest!: deref_RetD split: option.splits if_splits prod.splits)
    qed (simp add: tree_ops_def)
    then have "cfg_obj_get_obj E ?s = cfg_obj_get_obj E s" "attr_at ?s = attr_at s" "\<And>x. has_object E ?s x = has_object E s x"
      using get_obj_root [of ?s s E] by (auto simp: fun_eq_iff attr_at_def has_object_iff)
    with False show ?thesis using tree_get_cong [of E ?s s] by auto
  next
    case True
    then obtain r p where r: "cfg_obj_root s = RootLive r" and g: "cfg_obj_get_obj E s n = Ret (Some p)"
      by (auto simp: has_object_iff)
    obtain obj where obj: "obj_at r p = Some obj" using get_obj_live [OF r g] by blast
    let ?f = "\<lambda>y. set_private (env_xml_set E (obj_private y) a v) y"
    have s': "?s = cfg_obj_unlock (upd_obj p ?f (cfg_obj_lock s))"
      using True g r obj
      by (simp add: tree_ops_def cfg_obj_set_object_attr_def cfg_obj_set_obj_attr_def Let_def deref_def)
    have paths: "cfg_obj_get_obj E ?s q = cfg_obj_get_obj E s q" for q
      unfolding s' get_obj_locked by (subst get_obj_upd) simp_all
    have at: "attr_at ?s q c = (if q = p \<and> c = a then Some v else attr_at s q c)" for q c
      using attr_at_upd [of "cfg_obj_lock s" r p obj "\<lambda>y. env_xml_set E (obj_private y) a v" q c] r obj assms
      by (auto simp: s' xml_laws_def attr_at_def)
    have root: "\<exists>r'. cfg_obj_root ?s = RootLive r'" using r by (simp add: s' upd_obj_root)
    have "so_get (tree_ops E) ?s m b = so_get (tree_ops E) s m b" if o: "\<not> same_object E n m \<or> a \<noteq> b"
    proof -
      have "attr_at ?s q b = attr_at s q b" if q: "cfg_obj_get_obj E s m = Ret (Some q)" for q
      proof -
        obtain ids ids' where "cfg_path_to_oid_array (env_types E) n = Ret (Some ids)" "p = tl ids"
          "cfg_path_to_oid_array (env_types E) m = Ret (Some ids')" "q = tl ids'"
          using get_obj_place [OF r g] get_obj_place [OF r q] by blast
        then have "q \<noteq> p \<or> a \<noteq> b" using o by (auto simp: same_object_def)
        then show ?thesis using at by auto
      qed
      moreover have "so_get (tree_ops E) u m b = (case cfg_obj_get_obj E u m of Ret (Some p) \<Rightarrow> attr_at u p b | _ \<Rightarrow> None)" for u
        by (simp add: tree_ops_def)
      ultimately show ?thesis using paths [of m] by (cases "cfg_obj_get_obj E s m") (simp_all split: option.splits)
    qed
    moreover have "so_get (tree_ops E) u n a = (case cfg_obj_get_obj E u n of Ret (Some p) \<Rightarrow> attr_at u p a | _ \<Rightarrow> None)" for u
      by (simp add: tree_ops_def)
    then have "so_get (tree_ops E) ?s n a = Some v" using paths [of n] g at by simp
    moreover have "has_object E ?s m \<longleftrightarrow> has_object E s m"
      using paths r root by (auto simp: has_object_iff)
    ultimately show ?thesis by blast
  qed
  then show "has_object E s n \<Longrightarrow> a \<noteq> [] \<Longrightarrow> so_get (tree_ops E) ?s n a = Some v"
    and "\<not> same_object E n m \<or> a \<noteq> b \<Longrightarrow> so_get (tree_ops E) ?s m b = so_get (tree_ops E) s m b"
    and "has_object E ?s m \<longleftrightarrow> has_object E s m" by blast+
qed

text \<open>The tree keeps the contract whatever the types are and however attributes are stored.\<close>

lemma tree_attr_store:
  assumes "xml_laws E"
  shows "attr_store (tree_ops E) (same_object E) (has_object E)"
proof unfold_locales
  fix s n a v
  assume "so_get (tree_ops E) s n a = Some v"
  then show "has_object E s n"
    by (auto simp: tree_ops_def has_object_iff attr_at_def split: cres.splits option.splits root_ptr.splits)
qed (rule tree_set [OF assms]; assumption)+

text \<open>With association lists as attribute arrays and a pool that never fails.\<close>

definition alist_env :: "type_db \<Rightarrow> cfg_env" where
  "alist_env T = tz_env\<lparr>env_types := T\<rparr>"

lemma alist_xml_laws: "xml_laws (alist_env T)"
  using tz_xml_laws by (simp add: xml_laws_def alist_env_def)

interpretation ts: attr_store "tree_ops (alist_env T)" "same_object (alist_env T)" "has_object (alist_env T)" for T
  by (rule tree_attr_store [OF alist_xml_laws])

end
