(* ===== verification/Button.thy ===== *)
theory Button
  imports AttrStore
begin

text \<open>
  The buttons and the LEDs (\<open>service/central_ctrl/check_button.c\<close>). What the service does to the
  outside (shell commands, files, commits) is a log of actions; the attributes are a store with
  the operations of \<open>AttrStore\<close>.
\<close>

section \<open>Actions and attributes\<close>

datatype action =
    System string
  | Append2file string string
  | DoValPut string string
  | Sync
  | Commit string
  | Write2file string string
  | SendEvent string

record 's ctl =
  ct_store :: 's
  ct_log :: "action list"

definition act :: "action \<Rightarrow> ('s, 'm) ctl_scheme \<Rightarrow> ('s, 'm) ctl_scheme" where
  "act a s = s\<lparr>ct_log := ct_log s @ [a]\<rparr>"

definition put_attr :: "'s store_ops \<Rightarrow> string \<Rightarrow> string \<Rightarrow> string \<Rightarrow> ('s, 'm) ctl_scheme \<Rightarrow> ('s, 'm) ctl_scheme" where
  "put_attr R node attr v s = s\<lparr>ct_store := so_set R node attr v (ct_store s)\<rparr>"

text \<open>Reading into a buffer of \<open>k\<close> bytes that holds \<open>buf\<close>: the value returned, which is negative
  when there is nothing to read, and the buffer afterwards.\<close>

definition fetch :: "'s store_ops \<Rightarrow> ('s, 'm) ctl_scheme \<Rightarrow> string \<Rightarrow> string \<Rightarrow> nat \<Rightarrow> string \<Rightarrow> int \<times> string" where
  "fetch R s node attr k buf =
     (case get_attr R (ct_store s) node attr k of None \<Rightarrow> (-1, buf) | Some v \<Rightarrow> (int (length v), v))"

definition numbered :: "string \<Rightarrow> nat \<Rightarrow> string" where
  "numbered node i = node @ ''.'' @ nat_str i"

definition svc_central_ctrl_execute_cmd :: "string \<Rightarrow> ('s, 'm) ctl_scheme \<Rightarrow> ('s, 'm) ctl_scheme" where
  "svc_central_ctrl_execute_cmd cmd = act (System cmd)"

section \<open>The LEDs\<close>

definition BUTTON_RECOVER :: int where "BUTTON_RECOVER = 1"
definition BUTTON_OFF :: int where "BUTTON_OFF = 0"

definition WEBCURSET_ENTRY_NODE :: string where "WEBCURSET_ENTRY_NODE = ''root.webcurset.entry''"
definition TIMER_LEDTIMER_ENTRY_NODE :: string where "TIMER_LEDTIMER_ENTRY_NODE = ''root.timer.ledentry''"
definition SYS_ENTRY_NODE :: string where "SYS_ENTRY_NODE = ''root.sys.entry''"
definition SYSTEM_ENTRY_NODE :: string where "SYSTEM_ENTRY_NODE = ''root.system.entry''"

definition getSipStatus :: "'s store_ops \<Rightarrow> ('s, 'm) ctl_scheme \<Rightarrow> int" where
  "getSipStatus R s =
     (case fetch R s ''root.voipbasic.common'' ''prevSipStatus'' 32 [] of
        (r, tmp) \<Rightarrow> if r < 0 then -1 else atoi tmp)"

text \<open>One telephone line. The two buffers are cleared once, before the first line, so a value that
  cannot be read leaves the one of the line before.\<close>

definition sip_line ::
  "'s store_ops \<Rightarrow> nat \<Rightarrow> string \<times> string \<times> ('s, 'm) ctl_scheme \<Rightarrow> string \<times> string \<times> ('s, 'm) ctl_scheme" where
  "sip_line R i = (\<lambda>(reg, traffic, s).
     let node = numbered ''root.voipsysparam.entry'' i;
         traffic = snd (fetch R s node ''SC_ACCT_INFO_MEDIA_STATUS'' 32 traffic)
     in if prefix_of ''Media-Begin'' traffic
        then (reg, traffic, act (Append2file ''/proc/fxs/sipRegLed'' (nat_str (i - 1) @ '' 2'')) s)
        else let reg = snd (fetch R s node ''SC_ACCT_INFO_REG_STATUS'' 32 reg)
             in (reg, traffic,
                 if prefix_of ''Registered'' reg
                 then act (Append2file ''/proc/fxs/sipRegLed'' (nat_str (i - 1) @ '' 1'')) s else s))"

definition h248_line ::
  "'s store_ops \<Rightarrow> nat \<Rightarrow> string \<times> string \<times> ('s, 'm) ctl_scheme \<Rightarrow> string \<times> string \<times> ('s, 'm) ctl_scheme" where
  "h248_line R i = (\<lambda>(reg, traffic, s).
     let traffic = snd (fetch R s (numbered ''root.infovoiph248.entry'' i) ''lineInfoStatus'' 32 traffic)
     in if prefix_of ''Connect'' traffic
        then (reg, traffic, act (Append2file ''/proc/fxs/sipRegLed'' (nat_str (i - 1) @ '' 2'')) s)
        else let reg = snd (fetch R s (numbered ''root.voiph248.entry'' i) ''UserServiceState'' 32 reg)
             in (reg, traffic,
                 if strcmp reg ''1'' = 0
                 then act (Append2file ''/proc/fxs/sipRegLed'' (nat_str (i - 1) @ '' 1'')) s else s))"

definition voip_led_recover :: "'s store_ops \<Rightarrow> ('s, 'm) ctl_scheme \<Rightarrow> ('s, 'm) ctl_scheme" where
  "voip_led_recover R s0 =
     (let (reg, traffic, s) =
            (if getSipStatus R s0 = 0 then sip_line R 2 (sip_line R 1 ([], [], s0)) else ([], [], s0));
          (reg, traffic, s) =
            (if getSipStatus R s = 1 then h248_line R 1 (h248_line R 2 (reg, traffic, s)) else (reg, traffic, s))
      in s)"

definition button_op :: "'s store_ops \<Rightarrow> int \<Rightarrow> ('s, 'm) ctl_scheme \<Rightarrow> ('s, 'm) ctl_scheme" where
  "button_op R op s =
     (if op = BUTTON_RECOVER
      then put_attr R TIMER_LEDTIMER_ENTRY_NODE ''CurrStatus'' ''1''
             (voip_led_recover R (svc_central_ctrl_execute_cmd ''sys led recover'' s))
      else put_attr R TIMER_LEDTIMER_ENTRY_NODE ''CurrStatus'' ''0''
             (svc_central_ctrl_execute_cmd ''sys led off'' s))"

section \<open>The LED switch\<close>

definition is_skip_check :: "'s store_ops \<Rightarrow> ('s, 'm) ctl_scheme \<Rightarrow> bool" where
  "is_skip_check R s \<longleftrightarrow> strcmp (snd (fetch R s SYS_ENTRY_NODE ''ledStatus'' 16 [])) ''off'' = 0"

text \<open>What opening and reading a file of the kernel gives.\<close>

datatype reading = NoFile | NoBytes | Bytes string

text \<open>\<open>atoi\<close> of a buffer of \<open>k\<close> bytes that was filled with \<open>b\<close> and is zero behind it.\<close>

definition atoi_buf :: "nat \<Rightarrow> string \<Rightarrow> int cres" where
  "atoi_buf k b =
     (let b = take k b; t = dropWhile is_space b;
          u = (case t of c # cs \<Rightarrow> if c = CHR ''-'' \<or> c = CHR ''+'' then cs else t | [] \<Rightarrow> t)
      in if length b = k \<and> dropWhile is_digit u = [] then Fault ReadPastEnd else Ret (atoi b))"

text \<open>The static variables of the function.\<close>

record led_switch =
  sw_skip :: bool
  sw_pre_led_op :: int

definition led_switch_init :: led_switch where
  "led_switch_init = \<lparr>sw_skip = False, sw_pre_led_op = BUTTON_RECOVER\<rparr>"

definition check_led_switch_button ::
  "'s store_ops \<Rightarrow> reading \<Rightarrow> led_switch \<times> ('s, 'm) ctl_scheme \<Rightarrow> (led_switch \<times> ('s, 'm) ctl_scheme) cres" where
  "check_led_switch_button R rd = (\<lambda>(w, s).
     case rd of
       Bytes b \<Rightarrow> cbind (atoi_buf 8 b) (\<lambda>button_state.
         let press = (\<lambda>op. Ret (w\<lparr>sw_pre_led_op := op\<rparr>, button_op R op s)) in
         if button_state = 1 then
           (if \<not> sw_skip w \<and> is_skip_check R s then Ret (w\<lparr>sw_skip := True\<rparr>, s)
            else if sw_pre_led_op w = BUTTON_RECOVER then press BUTTON_OFF
            else press BUTTON_RECOVER)
         else if button_state = 2 then press BUTTON_OFF
         else if button_state = 3 then press BUTTON_RECOVER
         else Ret (w, s))
     | _ \<Rightarrow> Ret (w, s))"

section \<open>The reset button\<close>

definition BOOT2DEFSET :: int where "BOOT2DEFSET = 2"
definition LONGRESET_BOOT2DEFSET :: int where "LONGRESET_BOOT2DEFSET = 5"
definition PHASE1_SEC :: int where "PHASE1_SEC = 2"
definition PHASE2_SEC :: int where "PHASE2_SEC = 20"

definition reset_button_action :: "'s store_ops \<Rightarrow> int \<Rightarrow> ('s, 'm) ctl_scheme \<Rightarrow> ('s, 'm) ctl_scheme" where
  "reset_button_action R op s =
     act (Commit SYSTEM_ENTRY_NODE) (put_attr R SYSTEM_ENTRY_NODE ''reboot_type'' (int_str op) s)"

definition get_isbootset_value :: "'s store_ops \<Rightarrow> ('s, 'm) ctl_scheme \<Rightarrow> int" where
  "get_isbootset_value R s =
     (let b = snd (fetch R s ''root.globalstate'' ''isbootset'' 4 []) in if b \<noteq> [] then atoi b else 0)"

text \<open>The loop reads the seconds the button is held, once a second. It takes the readings in turn;
  \<open>None\<close> means that it still waits after the last of them. The result is \<open>(h_sec, sec)\<close>.\<close>

fun reset_loop :: "reading list \<Rightarrow> int \<Rightarrow> int \<Rightarrow> (int \<times> int) option" where
  "reset_loop [] h_sec sec = None"
| "reset_loop (Bytes b # rs) h_sec sec =
     (let sec = h_sec; h_sec = atoi (take 4 b)
      in if h_sec \<le> 0 then Some (h_sec, sec)
         else if h_sec \<le> PHASE2_SEC then reset_loop rs h_sec sec
         else Some (h_sec, sec))"
| "reset_loop (_ # rs) h_sec sec = Some (h_sec, sec)"

definition reset_action :: "'s store_ops \<Rightarrow> int \<Rightarrow> ('s, 'm) ctl_scheme \<Rightarrow> ('s, 'm) ctl_scheme" where
  "reset_action R sec s =
     (if PHASE2_SEC \<le> sec
      then reset_button_action R LONGRESET_BOOT2DEFSET (act Sync (act (DoValPut ''/tmp/restore_source'' ''1'') s))
      else if PHASE1_SEC \<le> sec
      then reset_button_action R BOOT2DEFSET (act Sync (act (DoValPut ''/tmp/restore_source'' ''2'') s))
      else s)"

definition check_reset_button ::
  "'s store_ops \<Rightarrow> reading list \<Rightarrow> ('s, 'm) ctl_scheme \<Rightarrow> ('s, 'm) ctl_scheme option" where
  "check_reset_button R rds s =
     (if get_isbootset_value R s \<noteq> 0 then Some s
      else Option.bind (reset_loop rds 0 0) (\<lambda>(h_sec, sec).
        let sec = (if 0 < h_sec then h_sec else sec) in Some (reset_action R sec s)))"

end
