(* ===== verification/CScan.thy ===== *)
theory CScan
  imports CPrelude
begin

text \<open>
  What the programs use of formatted input: \<open>sscanf\<close> with \<open>%d\<close> and \<open>%s\<close>, \<open>fgets\<close> over a whole
  file, and \<open>snprintf\<close> with a width. An array that was never written is \<open>None\<close>.
\<close>

text \<open>\<open>sscanf\<close> with \<open>%d\<close>: blanks, a sign and at least one digit; the value and the rest.\<close>

definition scan_int :: "string \<Rightarrow> (int \<times> string) option" where
  "scan_int s =
     (let t = dropWhile is_space s;
          neg = (t \<noteq> [] \<and> hd t = CHR ''-'');
          u = (if t \<noteq> [] \<and> (hd t = CHR ''-'' \<or> hd t = CHR ''+'') then tl t else t);
          n = int (atoi_digits 0 u)
      in if u = [] \<or> \<not> is_digit (hd u) then None
         else Some (clamp_int (if neg then - n else n), dropWhile is_digit u))"

text \<open>\<open>%s\<close>: blanks and a word; the word and the rest.\<close>

definition scan_word :: "string \<Rightarrow> (string \<times> string) option" where
  "scan_word s =
     (let t = dropWhile is_space s; w = takeWhile (\<lambda>c. \<not> is_space c) t
      in if w = [] then None else Some (w, dropWhile (\<lambda>c. \<not> is_space c) t))"

text \<open>\<open>sscanf(s, "%s %s ...", ...)\<close> into arrays of the given sizes: what cannot be read keeps its
  contents. The first component counts the words read.\<close>

fun scan_words :: "nat list \<Rightarrow> string \<Rightarrow> string option list \<Rightarrow> (nat \<times> string option list) cres" where
  "scan_words (k # ks) s (old # olds) =
     (case scan_word s of
        None \<Rightarrow> Ret (0, old # olds)
      | Some (w, r) \<Rightarrow>
          if k \<le> length w then Fault BufferOverflow
          else cbind (scan_words ks r olds) (\<lambda>(n, rest). Ret (Suc n, Some w # rest)))"
| "scan_words ks s olds = Ret (0, olds)"

declare scan_words.simps [simp del]

definition known :: "string option \<Rightarrow> string cres" where
  "known v = (case v of None \<Rightarrow> Fault Indeterminate | Some s \<Rightarrow> Ret s)"

text \<open>The successive results of \<open>fgets\<close> with a buffer of \<open>n + 2\<close> bytes.\<close>

definition fgets_len :: "nat \<Rightarrow> string \<Rightarrow> nat" where
  "fgets_len n s = min (Suc n) (min (length s) (Suc (length (takeWhile (\<lambda>c. c \<noteq> CHR 0x0A) s))))"

function fgets_all :: "nat \<Rightarrow> string \<Rightarrow> string list" where
  "fgets_all n s = (if s = [] then [] else take (fgets_len n s) s # fgets_all n (drop (fgets_len n s) s))"
  by pat_completeness auto
termination
proof (relation "measure (\<lambda>(n, s). length s)", goal_cases)
  case (2 n s)
  then have "0 < fgets_len n s" by (simp add: fgets_len_def)
  with 2 show ?case by simp
qed simp

declare fgets_all.simps [simp del]

text \<open>The lines \<open>getline\<close> returns.\<close>

definition getline_all :: "string \<Rightarrow> string list" where
  "getline_all s = fgets_all (length s) s"

text \<open>\<open>%0kd\<close> of a number that is not negative.\<close>

definition pad0 :: "nat \<Rightarrow> int \<Rightarrow> string" where
  "pad0 k i = (let t = int_str i in replicate (k - length t) CHR ''0'' @ t)"

text \<open>\<open>%02X\<close> of a byte.\<close>

definition hex_digit :: "nat \<Rightarrow> char" where
  "hex_digit n = ''0123456789ABCDEF'' ! (n mod 16)"

definition hex2 :: "nat \<Rightarrow> string" where
  "hex2 n = [hex_digit (n div 16), hex_digit n]"

end
