(* ===== verification/Timer.thy ===== *)
theory Timer
  imports Button CScan "HOL-Library.Signed_Division"
begin

unbundle bit_operations_syntax

text \<open>
  The timers (\<open>service/central_ctrl/dbus_timer.c\<close>): putting the gateway to sleep, the WIFI timers
  and the LED timer. A thread looks at a list of timers once a second; the configuration service
  has the list built anew whenever a timer changes.
\<close>

section \<open>Data\<close>

definition CTC_MAX_SLEEPTIMER_NUM :: nat where "CTC_MAX_SLEEPTIMER_NUM = 14"
definition CTC_MAX_WIFITIMER1_NUM :: nat where "CTC_MAX_WIFITIMER1_NUM = 14"
definition WLAN_2_4_G_NUM :: nat where "WLAN_2_4_G_NUM = 8"
definition WLAN_5_G_NUM :: nat where "WLAN_5_G_NUM = WLAN_2_4_G_NUM"
definition WLAN_BITMASK :: int where "WLAN_BITMASK = 65535"
definition LAN_NUM :: nat where "LAN_NUM = 4"

definition TIMER_ENTRY_NODE :: "nat \<Rightarrow> string" where "TIMER_ENTRY_NODE = numbered ''root.timer.entry''"
definition TIMER_COMMON_NODE :: string where "TIMER_COMMON_NODE = ''root.timer.common''"
definition TIMER_WIFITIMER_ENTRY_NODE :: string where "TIMER_WIFITIMER_ENTRY_NODE = ''root.timer.wifitimerentry''"
definition WLAN_ENTRY_N_NODE :: "nat \<Rightarrow> string" where "WLAN_ENTRY_N_NODE = numbered ''root.wlan.entry''"
definition WLAN11AC_ENTRY_N_NODE :: "nat \<Rightarrow> string" where "WLAN11AC_ENTRY_N_NODE = numbered ''root.wlan11ac.entry''"
definition INFO_WLAN_NODE :: string where "INFO_WLAN_NODE = ''root.info.wlan''"
definition INFO_WLAN11AC_NODE :: string where "INFO_WLAN11AC_NODE = ''root.info.wlan11ac''"
definition WLAN_NODE :: string where "WLAN_NODE = ''root.wlan''"
definition WLAN11AC_NODE :: string where "WLAN11AC_NODE = ''root.wlan11ac''"
definition TIMEZONE_ENTRY_NODE :: string where "TIMEZONE_ENTRY_NODE = ''root.timezone.entry''"
definition USBMOUNT_COMMON :: string where "USBMOUNT_COMMON = ''root.UsbMount.Common''"

datatype timer_type = CTC_SLEEPTIMER_TYPE | CTC_WIFITIMER1_TYPE | CTC_LEDTIMER_TYPE | CTC_WIFITIMER_TYPE

record timer_entry_node =
  te_type :: timer_type
  te_week_day :: string
  te_start_time :: string
  te_end_time :: string
  te_status :: string
  te_enable :: string
  te_SSIDIndex :: string

text \<open>A zeroed node of the given type.\<close>

definition new_entry :: "timer_type \<Rightarrow> timer_entry_node" where
  "new_entry ty = \<lparr>te_type = ty, te_week_day = [], te_start_time = [], te_end_time = [], te_status = [],
     te_enable = [], te_SSIDIndex = []\<rparr>"

text \<open>The globals of the file; \<open>tm_mallocs\<close> counts the calls of \<open>malloc\<close>.\<close>

record 's timer = "'s ctl" +
  timer_data :: "timer_entry_node list"
  check_done :: int
  need_done :: bool
  tm_mallocs :: nat

text \<open>What the system answers: whether the \<open>n\<close>th call of \<open>malloc\<close> succeeds, and what \<open>system\<close> returns
  for a command when \<open>n\<close> actions were done before it.\<close>

record sys_env =
  sy_malloc :: "nat \<Rightarrow> bool"
  sy_system :: "nat \<Rightarrow> string \<Rightarrow> int"

section \<open>Numbers and times\<close>

definition CaculateWeekDay :: "int \<Rightarrow> int \<Rightarrow> int \<Rightarrow> int" where
  "CaculateWeekDay year mon day =
     (let (mon, year) = (if mon = 1 \<or> mon = 2 then (mon + 12, year - 1) else (mon, year));
          iWeek = (day + 2 * mon + 3 * (mon + 1) sdiv 5 + year + year sdiv 4 - year sdiv 100 + year sdiv 400) smod 7
      in iWeek + 1)"

definition GET_BIT :: "int \<Rightarrow> nat \<Rightarrow> int" where "GET_BIT x y = drop_bit y x AND 1"
definition SET_BIT :: "int \<Rightarrow> nat \<Rightarrow> int" where "SET_BIT x y = x OR push_bit y 1"
definition CLR_BIT :: "int \<Rightarrow> nat \<Rightarrow> int" where "CLR_BIT x y = x AND NOT (push_bit y 1)"

text \<open>\<open>sscanf(s, "%d:%d", &h, &m)\<close>: what cannot be read keeps its value.\<close>

definition scan_time :: "string \<Rightarrow> int \<times> int \<Rightarrow> int \<times> int" where
  "scan_time s = (\<lambda>(h, m).
     case scan_int s of
       None \<Rightarrow> (h, m)
     | Some (h', rest) \<Rightarrow>
         if rest \<noteq> [] \<and> hd rest = CHR '':'' then
           (case scan_int (tl rest) of None \<Rightarrow> (h', m) | Some (m', _) \<Rightarrow> (h', m'))
         else (h', m))"

section \<open>WIFI\<close>

definition cfg_evt_write_romfile_to_flash :: "'s store_ops \<Rightarrow> ('s, 'm) ctl_scheme \<Rightarrow> ('s, 'm) ctl_scheme" where
  "cfg_evt_write_romfile_to_flash R s =
     (if strcmp (snd (fetch R s SYS_ENTRY_NODE ''ctcDbusFlag'' 4 [])) ''5'' \<noteq> 0
      then act (SendEvent ''EVT_CFG_TCAPI_SAVE'') (act (Write2file ''/tmp/tcapi_save_status'' ''1'')
             (put_attr R ''root.globalstate.common'' ''saveStatus'' ''1'' s))
      else s)"

text \<open>The node of an SSID, the node that says whether its radio exists, and its interface.\<close>

definition wifi_type :: "nat \<Rightarrow> nat" where "wifi_type i = i div WLAN_2_4_G_NUM"

definition ssid_node :: "nat \<Rightarrow> string" where
  "ssid_node i = (if wifi_type i = 0 then WLAN_ENTRY_N_NODE (i + 1) else WLAN11AC_ENTRY_N_NODE (i - WLAN_2_4_G_NUM + 1))"

definition info_node :: "nat \<Rightarrow> string" where
  "info_node i = (if wifi_type i = 0 then INFO_WLAN_NODE else INFO_WLAN11AC_NODE)"

definition itf :: "nat \<Rightarrow> string" where
  "itf i = (if wifi_type i = 0 then ''ra'' @ nat_str i else ''rai'' @ nat_str (i - WLAN_2_4_G_NUM))"

definition itf_down :: "nat \<Rightarrow> action" where
  "itf_down i = System (''/sbin/ifconfig '' @ itf i @ '' down'')"

text \<open>The variables of the loop over the SSIDs.\<close>

record wifi_run =
  wifienablemask :: int
  ssid_cnt :: nat
  ssidac_cnt :: nat
  need_save :: nat

definition wifi_turn ::
  "'s store_ops \<Rightarrow> string \<Rightarrow> int \<Rightarrow> int \<Rightarrow> nat \<Rightarrow> wifi_run \<times> ('s, 'm) ctl_scheme \<Rightarrow> wifi_run \<times> ('s, 'm) ctl_scheme" where
  "wifi_turn R enable ssidmask optflag ssidindex = (\<lambda>(w, s).
     if push_bit ssidindex 1 AND ssidmask = 0 then (w, s)
     else if \<not> strcasecmp_eq (snd (fetch R s (info_node ssidindex) ''isExist'' 8 [])) ''on'' then (w, s)
     else
       let (ret, EnableSSID) = fetch R s (ssid_node ssidindex) ''EnableSSID'' 8 []
       in if ret \<le> 0 then (w, s)
          else if strcasecmp_eq enable ''True'' \<and> GET_BIT (wifienablemask w) ssidindex = 0 then
            let w = w\<lparr>wifienablemask := SET_BIT (wifienablemask w) ssidindex\<rparr>
            in if strcmp EnableSSID ''0'' = 0 \<and> optflag = 1 then (w, s)
               else
                 ((if wifi_type ssidindex = 0 then w\<lparr>ssid_cnt := ssid_cnt w + 1\<rparr> else w\<lparr>ssidac_cnt := ssidac_cnt w + 1\<rparr>)
                    \<lparr>need_save := need_save w + 1\<rparr>,
                  put_attr R (ssid_node ssidindex) ''EnableSSID'' ''1'' s)
          else if strcasecmp_eq enable ''False'' \<and> GET_BIT (wifienablemask w) ssidindex = 1 then
            (w\<lparr>wifienablemask := CLR_BIT (wifienablemask w) ssidindex\<rparr>,
             act (itf_down ssidindex) s)
          else (w, s))"

definition stored_mask :: "'s store_ops \<Rightarrow> ('s, 'm) ctl_scheme \<Rightarrow> int" where
  "stored_mask R s =
     (let (ret, WifiEnableMask) = fetch R s TIMER_COMMON_NODE ''WifiEnableMask'' 8 []
      in atoi (if ret \<le> 0 then ''65535'' else WifiEnableMask))"

text \<open>\<open>enable\<close> is \<open>None\<close> for a null pointer. The mask is printed into a buffer of 8 bytes.\<close>

definition doWifiTimerEvent ::
  "'s store_ops \<Rightarrow> string option \<Rightarrow> int \<Rightarrow> int \<Rightarrow> ('s, 'm) ctl_scheme \<Rightarrow> int \<times> ('s, 'm) ctl_scheme" where
  "doWifiTimerEvent R enable ssidmask optflag s =
     (case enable of
        None \<Rightarrow> (-1, s)
      | Some enable \<Rightarrow>
          if ssidmask < 0 \<or> WLAN_BITMASK < ssidmask then (-1, s)
          else
            let (w, s) = fold (wifi_turn R enable ssidmask optflag) [0 ..< WLAN_2_4_G_NUM + WLAN_5_G_NUM]
                  (\<lparr>wifienablemask = stored_mask R s, ssid_cnt = 0, ssidac_cnt = 0, need_save = 0\<rparr>, s);
                s = put_attr R TIMER_COMMON_NODE ''WifiEnableMask'' (take 7 (int_str (wifienablemask w))) s;
                s = (if 0 < ssid_cnt w then act (Commit WLAN_NODE) s else s);
                s = (if 0 < ssidac_cnt w then act (Commit WLAN11AC_NODE) s else s);
                s = (if 0 < need_save w then cfg_evt_write_romfile_to_flash R s else s)
            in (0, s))"

definition init_wifi_enable_mask :: "'s store_ops \<Rightarrow> ('s, 'm) ctl_scheme \<Rightarrow> ('s, 'm) ctl_scheme" where
  "init_wifi_enable_mask R s =
     (let mask = fold (\<lambda>i m. if strcmp (snd (fetch R s (ssid_node i) ''EnableSSID'' 4 [])) ''1'' = 0 then SET_BIT m i else m)
            [0 ..< WLAN_2_4_G_NUM + WLAN_5_G_NUM] 0
      in put_attr R TIMER_COMMON_NODE ''WifiEnableMask'' (take 7 (int_str mask)) s)"

section \<open>Sleeping\<close>

definition HGWSleep :: "'s store_ops \<Rightarrow> ('s, 'm) ctl_scheme \<Rightarrow> string" where
  "HGWSleep R s = snd (fetch R s TIMER_COMMON_NODE ''HGWSleep'' 4 [])"

definition run_all :: "string list \<Rightarrow> ('s, 'm) ctl_scheme \<Rightarrow> ('s, 'm) ctl_scheme" where
  "run_all cmds s = fold (\<lambda>c. act (System c)) cmds s"

definition lan_cmds :: "string \<Rightarrow> string list" where
  "lan_cmds op = map (\<lambda>i. ''ifconfig eth0.'' @ nat_str (i + 1) @ '' '' @ op) [0 ..< LAN_NUM]"

definition usb_status :: "'s store_ops \<Rightarrow> ('s, 'm) ctl_scheme \<Rightarrow> string \<Rightarrow> bool" where
  "usb_status R s v \<longleftrightarrow>
     (let (ret, strValue) = fetch R s USBMOUNT_COMMON ''SleepStatus'' 32 [] in 0 < ret \<and> strcmp strValue v = 0)"

definition usb_number :: "'s store_ops \<Rightarrow> ('s, 'm) ctl_scheme \<Rightarrow> int" where
  "usb_number R s = atoi (snd (fetch R s USBMOUNT_COMMON ''number'' 32 []))"

definition mount_entry :: "sys_env \<Rightarrow> 's store_ops \<Rightarrow> nat \<Rightarrow> ('s, 'm) ctl_scheme \<Rightarrow> ('s, 'm) ctl_scheme" where
  "mount_entry Y R i s =
     (let nodeName = numbered ''root.UsbMount.Entry'' (i + 1);
          dev_path = snd (fetch R s nodeName ''devpath'' 32 []);
          file_path = snd (fetch R s nodeName ''filepath'' 32 []);
          cmd = ''/bin/mount -o iocharset=utf8 -t vfat '' @ dev_path @ '' '' @ file_path
      in if 0 < length file_path then
           let res = sy_system Y (length (ct_log s)) cmd; s = act (System cmd) s
           in if res \<noteq> 0 then act (System (''/userfs/bin/ntfs-3g '' @ dev_path @ '' '' @ file_path)) s else s
         else s)"

definition umount_entry :: "'s store_ops \<Rightarrow> nat \<Rightarrow> ('s, 'm) ctl_scheme \<Rightarrow> ('s, 'm) ctl_scheme" where
  "umount_entry R i s =
     act (System (''/bin/umount -d '' @ snd (fetch R s (numbered ''root.UsbMount.Entry'' (i + 1)) ''devpath'' 32 []))) s"

definition led_up :: "'s store_ops \<Rightarrow> ('s, 'm) ctl_scheme \<Rightarrow> ('s, 'm) ctl_scheme" where
  "led_up R s =
     (let ledStatus = snd (fetch R s TIMER_LEDTIMER_ENTRY_NODE ''Status'' 8 [])
      in if strcasecmp_eq ledStatus ''ON'' then button_op R BUTTON_RECOVER s
         else if strcasecmp_eq ledStatus ''OFF'' then button_op R BUTTON_OFF s
         else s)"

definition storage_up :: "sys_env \<Rightarrow> 's store_ops \<Rightarrow> ('s, 'm) ctl_scheme \<Rightarrow> ('s, 'm) ctl_scheme" where
  "storage_up Y R s =
     (if usb_status R s ''1''
      then put_attr R USBMOUNT_COMMON ''SleepStatus'' ''0'' (fold (mount_entry Y R) [0 ..< nat (usb_number R s)] s)
      else s)"

definition storage_down :: "'s store_ops \<Rightarrow> ('s, 'm) ctl_scheme \<Rightarrow> ('s, 'm) ctl_scheme" where
  "storage_down R s =
     (if usb_status R s ''0''
      then put_attr R USBMOUNT_COMMON ''SleepStatus'' ''1'' (fold (umount_entry R) [0 ..< nat (usb_number R s)] s)
      else s)"

definition wake_up :: "sys_env \<Rightarrow> 's store_ops \<Rightarrow> ('s, 'm) ctl_scheme \<Rightarrow> ('s, 'm) ctl_scheme" where
  "wake_up Y R s =
     put_attr R TIMER_COMMON_NODE ''HGWSleep'' ''1'' (storage_up Y R (led_up R (run_all (lan_cmds ''up'')
       (snd (doWifiTimerEvent R (Some ''True'') WLAN_BITMASK 1 s)))))"

definition go_asleep :: "'s store_ops \<Rightarrow> ('s, 'm) ctl_scheme \<Rightarrow> ('s, 'm) ctl_scheme" where
  "go_asleep R s =
     put_attr R TIMER_COMMON_NODE ''HGWSleep'' ''0'' (storage_down R (run_all (lan_cmds ''down'')
       (snd (doWifiTimerEvent R (Some ''False'') WLAN_BITMASK 0 (button_op R BUTTON_OFF s)))))"

definition doSleepTimerEvent ::
  "sys_env \<Rightarrow> 's store_ops \<Rightarrow> string \<Rightarrow> ('s, 'm) ctl_scheme \<Rightarrow> int \<times> ('s, 'm) ctl_scheme" where
  "doSleepTimerEvent Y R enable s =
     (if strcasecmp_eq enable ''False'' \<and> strcmp (HGWSleep R s) ''0'' = 0 then (0, wake_up Y R s)
      else if strcasecmp_eq enable ''True'' \<and> strcmp (HGWSleep R s) ''1'' = 0 then (0, go_asleep R s)
      else (-1, s))"

section \<open>The thread\<close>

text \<open>The variables of \<open>start_dbus_timer\<close> that outlive a turn of its loop.\<close>

record timer_vars =
  tv_SyncResult :: string
  tv_old :: "int \<times> int \<times> int"
  tv_week :: int
  tv_led_action :: int

text \<open>The local time: year, month, day, hour and minute.\<close>

type_synonym clock = "int \<times> int \<times> int \<times> int \<times> int"

definition at_time :: "string \<Rightarrow> int \<times> int \<Rightarrow> int \<times> int \<Rightarrow> bool" where
  "at_time t start hm \<longleftrightarrow> scan_time t start = hm"

definition sleep_entry ::
  "sys_env \<Rightarrow> 's store_ops \<Rightarrow> string \<Rightarrow> int \<times> int \<Rightarrow> timer_entry_node \<Rightarrow> ('s, 'm) timer_scheme \<Rightarrow> ('s, 'm) timer_scheme" where
  "sleep_entry Y R week_val hm e s =
     (if atoi (te_week_day e) = 0 then snd (doSleepTimerEvent Y R (te_enable e) s)
      else if strstr (te_week_day e) week_val \<noteq> None \<and> at_time (te_start_time e) (0, 0) hm
      then snd (doSleepTimerEvent Y R (te_enable e) s)
      else s)"

text \<open>The minute of \<open>start_time\<close> is still in the variables when \<open>end_time\<close> is read.\<close>

definition led_entry ::
  "'s store_ops \<Rightarrow> int \<times> int \<Rightarrow> timer_entry_node \<Rightarrow> int \<times> ('s, 'm) timer_scheme \<Rightarrow> int \<times> ('s, 'm) timer_scheme" where
  "led_entry R hm e = (\<lambda>(led_action, s).
     let t = scan_time (te_start_time e) (0, 0);
         led_action = (if t = hm then BUTTON_RECOVER else led_action);
         t = scan_time (te_end_time e) t;
         led_action = (if t = hm then BUTTON_OFF else led_action);
         ledStatus = snd (fetch R s TIMER_LEDTIMER_ENTRY_NODE ''CurrStatus'' 8 [])
     in (led_action, if led_action \<noteq> atoi ledStatus then button_op R led_action s else s))"

definition wifi1_entry ::
  "'s store_ops \<Rightarrow> string \<Rightarrow> int \<times> int \<Rightarrow> timer_entry_node \<Rightarrow> ('s, 'm) timer_scheme \<Rightarrow> ('s, 'm) timer_scheme" where
  "wifi1_entry R week_val hm e s =
     (if strstr (te_week_day e) week_val \<noteq> None \<and> at_time (te_start_time e) (0, 0) hm
      then snd (doWifiTimerEvent R (Some (te_enable e)) (atoi (te_SSIDIndex e)) 0 s)
      else s)"

definition wifi_entry ::
  "'s store_ops \<Rightarrow> int \<times> int \<Rightarrow> timer_entry_node \<Rightarrow> ('s, 'm) timer_scheme \<Rightarrow> ('s, 'm) timer_scheme" where
  "wifi_entry R hm e s =
     (let event = (\<lambda>v. snd \<circ> doWifiTimerEvent R (Some v) (atoi (te_SSIDIndex e)) 0)
      in if strcasecmp_eq (te_enable e) ''TRUE'' then
           let s = s\<lparr>need_done := True\<rparr>;
               s = (if at_time (te_start_time e) (0, 0) hm then event ''True'' s else s)
           in if at_time (te_end_time e) (0, 0) hm then event ''False'' s else s
         else if need_done s then event ''True'' (s\<lparr>need_done := False\<rparr>)
         else s)"

definition timer_entry_turn ::
  "sys_env \<Rightarrow> 's store_ops \<Rightarrow> string \<Rightarrow> int \<times> int \<Rightarrow> timer_entry_node \<Rightarrow>
   int \<times> ('s, 'm) timer_scheme \<Rightarrow> int \<times> ('s, 'm) timer_scheme" where
  "timer_entry_turn Y R week_val hm e = (\<lambda>(led_action, s).
     let s = (if te_type e = CTC_SLEEPTIMER_TYPE then sleep_entry Y R week_val hm e s else s)
     in if strcmp (HGWSleep R s) ''0'' = 0 then (led_action, s)
        else case te_type e of
            CTC_LEDTIMER_TYPE \<Rightarrow> led_entry R hm e (led_action, s)
          | CTC_WIFITIMER1_TYPE \<Rightarrow> (led_action, wifi1_entry R week_val hm e s)
          | CTC_WIFITIMER_TYPE \<Rightarrow> (led_action, wifi_entry R hm e s)
          | CTC_SLEEPTIMER_TYPE \<Rightarrow> (led_action, s))"

text \<open>One turn of the loop, up to its \<open>sleep(1)\<close>. The list is read once: nothing that the turn does
  changes it.\<close>

definition start_dbus_timer_turn ::
  "sys_env \<Rightarrow> 's store_ops \<Rightarrow> clock \<Rightarrow> timer_vars \<times> ('s, 'm) timer_scheme \<Rightarrow> timer_vars \<times> ('s, 'm) timer_scheme" where
  "start_dbus_timer_turn Y R = (\<lambda>(year, mon, day, hour, minute) (v, s).
     let v = v\<lparr>tv_SyncResult := snd (fetch R s TIMEZONE_ENTRY_NODE ''SyncResult'' 8 (tv_SyncResult v))\<rparr>
     in if atoi (tv_SyncResult v) = 0 then (v, s)
        else
          let v = (if tv_week v < 0 \<or> tv_old v \<noteq> (year, mon, day)
                   then v\<lparr>tv_old := (year, mon, day), tv_week := CaculateWeekDay year mon day\<rparr> else v)
          in if tv_week v < 0 then (v, s)
             else
               let (led_action, s) =
                     fold (timer_entry_turn Y R (take 1 (int_str (tv_week v))) (hour, minute)) (timer_data s) (tv_led_action v, s)
               in (v\<lparr>tv_led_action := led_action\<rparr>, s))"

definition timer_vars_init :: timer_vars where
  "timer_vars_init = \<lparr>tv_SyncResult = [], tv_old = (0, 0, 0), tv_week = -1, tv_led_action = 0\<rparr>"

section \<open>The list of timers\<close>

definition ctc_dbus_timer_data_free :: "('s, 'm) timer_scheme \<Rightarrow> ('s, 'm) timer_scheme" where
  "ctc_dbus_timer_data_free s = s\<lparr>timer_data := []\<rparr>"

text \<open>A node is allocated and hung behind the last one.\<close>

definition add_entry :: "sys_env \<Rightarrow> timer_entry_node \<Rightarrow> ('s, 'm) timer_scheme \<Rightarrow> ('s, 'm) timer_scheme" where
  "add_entry Y e s =
     (let ok = sy_malloc Y (tm_mallocs s); s = s\<lparr>tm_mallocs := tm_mallocs s + 1\<rparr>
      in if ok then s\<lparr>timer_data := timer_data s @ [e]\<rparr> else s)"

definition update_sleep ::
  "sys_env \<Rightarrow> 's store_ops \<Rightarrow> bool \<Rightarrow> nat \<Rightarrow> ('s, 'm) timer_scheme \<Rightarrow> ('s, 'm) timer_scheme" where
  "update_sleep Y R flag i s =
     (let nodeName = TIMER_ENTRY_NODE (i + 1);
          (r, dayVal) = fetch R s nodeName ''Day'' 16 []
      in if r < 0 then s
         else if \<not> flag \<and> strcmp dayVal ''0'' = 0 then s\<lparr>ct_store := so_delete R nodeName (ct_store s)\<rparr>
         else
           let (r, enableVal) = fetch R s nodeName ''Enable'' 8 [];
               e = (new_entry CTC_SLEEPTIMER_TYPE)\<lparr>te_week_day := take 15 dayVal, te_enable := take 7 enableVal\<rparr>
           in if r < 0 then s
              else if strcmp dayVal ''0'' = 0 \<and> enableVal \<noteq> [] then add_entry Y e s
              else
                let (r, activeVal) = fetch R s nodeName ''Active'' 4 []
                in if r < 0 \<or> strcmp activeVal ''1'' \<noteq> 0 then s
                   else
                     let (r, tmpTimeVal) = fetch R s nodeName ''Time'' 16 []
                     in if r < 0 \<or> strstr tmpTimeVal '':'' = None then s
                        else add_entry Y (e\<lparr>te_start_time := take 15 tmpTimeVal\<rparr>) s)"

definition update_wifi1 ::
  "sys_env \<Rightarrow> 's store_ops \<Rightarrow> nat \<Rightarrow> ('s, 'm) timer_scheme \<Rightarrow> ('s, 'm) timer_scheme" where
  "update_wifi1 Y R i s =
     (let nodeName = TIMER_ENTRY_NODE (i + 1);
          (ra, activeVal) = fetch R s nodeName ''Active'' 4 [];
          (rd, dayVal) = fetch R s nodeName ''WeekDay'' 16 [];
          (rt, tmpTimeVal) = fetch R s nodeName ''Time'' 16 [];
          (re, enableVal) = fetch R s nodeName ''Enable'' 8 [];
          (rs, SSIDIndex) = fetch R s nodeName ''SSIDMask'' 16 []
      in if ra < 0 \<or> strcmp activeVal ''1'' \<noteq> 0 \<or> rd < 0 \<or> rt < 0 \<or> strstr tmpTimeVal '':'' = None \<or> re < 0 \<or> rs < 0 then s
         else add_entry Y ((new_entry CTC_WIFITIMER1_TYPE)\<lparr>te_week_day := take 15 dayVal, te_start_time := take 15 tmpTimeVal,
                te_enable := take 7 enableVal, te_SSIDIndex := take 15 SSIDIndex\<rparr>) s)"

definition update_led ::
  "sys_env \<Rightarrow> 's store_ops \<Rightarrow> bool \<Rightarrow> int \<Rightarrow> ('s, 'm) timer_scheme \<Rightarrow> ('s, 'm) timer_scheme" where
  "update_led Y R flag webCommit s =
     (let statusVal = snd (fetch R s TIMER_LEDTIMER_ENTRY_NODE ''Status'' 8 [])
      in if strcasecmp_eq statusVal ''ON'' then
           let (re, enableVal) = fetch R s TIMER_LEDTIMER_ENTRY_NODE ''Enable'' 8 [];
               (rd, dayVal) = fetch R s TIMER_LEDTIMER_ENTRY_NODE ''ControlCycle'' 16 [];
               (rs, startTimeVal) = fetch R s TIMER_LEDTIMER_ENTRY_NODE ''StartTime'' 16 [];
               (rn, endTimeVal) = fetch R s TIMER_LEDTIMER_ENTRY_NODE ''EndTime'' 16 [];
               s = (if 0 < re \<and> 0 < rd \<and> strcasecmp_eq enableVal ''TRUE'' \<and> strcmp dayVal ''DAY'' = 0 \<and>
                       0 < rs \<and> strstr startTimeVal '':'' \<noteq> None \<and> 0 < rn \<and> strstr endTimeVal '':'' \<noteq> None
                    then add_entry Y ((new_entry CTC_LEDTIMER_TYPE)\<lparr>te_status := take 7 statusVal, te_week_day := take 15 dayVal,
                           te_start_time := take 15 startTimeVal, te_end_time := take 15 endTimeVal,
                           te_enable := take 7 enableVal\<rparr>) (s\<lparr>check_done := 0\<rparr>)
                    else s)
           in if webCommit = 1 then button_op R BUTTON_RECOVER s else s
         else if strcasecmp_eq statusVal ''OFF'' then
           (if \<not> flag \<or> webCommit = 1 then button_op R BUTTON_OFF s else s)
         else s)"

definition update_wifi :: "sys_env \<Rightarrow> 's store_ops \<Rightarrow> ('s, 'm) timer_scheme \<Rightarrow> ('s, 'm) timer_scheme" where
  "update_wifi Y R s =
     (let (re, enableVal) = fetch R s TIMER_WIFITIMER_ENTRY_NODE ''Enable'' 8 [];
          (rm, SSIDIndex) = fetch R s TIMER_WIFITIMER_ENTRY_NODE ''SSIDMask'' 16 [];
          (rs, startTimeVal) = fetch R s TIMER_WIFITIMER_ENTRY_NODE ''StartTime'' 16 [];
          (rn, endTimeVal) = fetch R s TIMER_WIFITIMER_ENTRY_NODE ''EndTime'' 16 [];
          e = (new_entry CTC_WIFITIMER_TYPE)\<lparr>te_enable := take 7 enableVal, te_SSIDIndex := take 15 SSIDIndex\<rparr>
      in if 0 < re \<and> 0 < rm then
           if strcasecmp_eq enableVal ''TRUE'' \<and> SSIDIndex \<noteq> [] then
             (if 0 < rs \<and> strstr startTimeVal '':'' \<noteq> None \<and> 0 < rn \<and> strstr endTimeVal '':'' \<noteq> None
              then add_entry Y (e\<lparr>te_start_time := take 15 startTimeVal, te_end_time := take 15 endTimeVal\<rparr>) s
              else s)
           else if strcasecmp_eq enableVal ''FALSE'' \<and> SSIDIndex \<noteq> [] then add_entry Y e s
           else s
         else s)"

text \<open>\<open>flag\<close> is false at boot and true for an update. The path of the event is not used in this build.\<close>

definition cfg_type_timer_data_update ::
  "sys_env \<Rightarrow> 's store_ops \<Rightarrow> bool \<Rightarrow> ('s, 'm) timer_scheme \<Rightarrow> ('s, 'm) timer_scheme" where
  "cfg_type_timer_data_update Y R flag s =
     (let s = ctc_dbus_timer_data_free s;
          s = fold (update_sleep Y R flag) [0 ..< CTC_MAX_SLEEPTIMER_NUM] s;
          (r, webLedSwitch) = fetch R s WEBCURSET_ENTRY_NODE ''webLedSwitch'' 16 [];
          (webCommit, s) = (if 0 < r then (atoi webLedSwitch, put_attr R WEBCURSET_ENTRY_NODE ''webLedSwitch'' ''0'' s) else (0, s));
          s = update_led Y R flag webCommit s;
          s = fold (update_wifi1 Y R) [CTC_MAX_SLEEPTIMER_NUM ..< CTC_MAX_SLEEPTIMER_NUM + CTC_MAX_WIFITIMER1_NUM] s
      in update_wifi Y R s)"

definition cfg_type_timer_data_boot ::
  "sys_env \<Rightarrow> 's store_ops \<Rightarrow> ('s, 'm) timer_scheme \<Rightarrow> ('s, 'm) timer_scheme" where
  "cfg_type_timer_data_boot Y R s =
     cfg_type_timer_data_update Y R False
       (put_attr R USBMOUNT_COMMON ''SleepStatus'' ''0'' (init_wifi_enable_mask R
         (put_attr R TIMER_COMMON_NODE ''HGWSleep'' ''1'' (s\<lparr>need_done := False\<rparr>))))"

end
