(* ===== verification/WifiEvents.thy ===== *)
theory WifiEvents
  imports Timer
begin

unbundle bit_operations_syntax

text \<open>
  What \<open>doWifiTimerEvent\<close> does, proved once for every store of attributes that keeps the contract
  \<open>attr_store\<close>.
\<close>

section \<open>Bits\<close>

lemma GET_BIT_bit: "GET_BIT x y = (if bit x y then 1 else 0)"
  by (simp add: GET_BIT_def and_one_eq bit_iff_odd_drop_bit odd_iff_mod_2_eq_one)

lemma bit_SET_BIT: "bit (SET_BIT x y) i \<longleftrightarrow> i = y \<or> bit x i"
  by (auto simp: SET_BIT_def bit_simps)

lemma bit_CLR_BIT: "bit (CLR_BIT x y) i \<longleftrightarrow> i \<noteq> y \<and> bit x i"
  by (auto simp: CLR_BIT_def bit_simps)

lemma mask_and_zero: "2 ^ i AND (m::int) = 0 \<longleftrightarrow> \<not> bit m i"
proof
  assume "2 ^ i AND m = 0"
  then have "\<not> bit (2 ^ i AND m) i" by simp
  then show "\<not> bit m i" by (simp add: bit_simps)
qed (auto intro!: bit_eqI simp: bit_simps)

definition mask_ok :: "int \<Rightarrow> bool" where
  "mask_ok m \<longleftrightarrow> 0 \<le> m \<and> m \<le> WLAN_BITMASK"

lemma mask_ok_take: "mask_ok m \<longleftrightarrow> take_bit 16 m = m"
  by (auto simp: mask_ok_def WLAN_BITMASK_def take_bit_int_eq_self_iff)

lemma mask_ok_SET: "mask_ok m \<Longrightarrow> i < 16 \<Longrightarrow> mask_ok (SET_BIT m i)"
  by (simp add: mask_ok_take SET_BIT_def take_bit_push_bit take_bit_of_1)

lemma mask_ok_CLR: "mask_ok m \<Longrightarrow> mask_ok (CLR_BIT m i)"
  using AND_upper1 [of m "NOT (push_bit i 1)"] by (auto simp: mask_ok_def CLR_BIT_def)

lemma mask_text: "mask_ok m \<Longrightarrow> length (int_str m) \<le> 5 \<and> int_str m \<noteq> [] \<and> atoi (int_str m) = m"
  using nat_str_length_le [of "nat m" 5] atoi_nat_str [of "nat m"]
  by (auto simp: mask_ok_def WLAN_BITMASK_def int_str_def nat_less_iff)

section \<open>Attributes and actions\<close>

lemma fetch_act [simp]: "fetch R (act a s) n b k buf = fetch R s n b k buf"
  by (simp add: act_def fetch_def)

lemma put_attr_simps [simp]:
  "ct_log (put_attr R n a v s) = ct_log s" "ct_store (act x s) = ct_store s" "ct_log (act x s) = ct_log s @ [x]"
  by (simp_all add: put_attr_def act_def)

context attr_store
begin

lemma fetch_put_other: "\<not> same n m \<or> a \<noteq> b \<Longrightarrow> fetch R (put_attr R n a v s) m b k buf = fetch R s m b k buf"
  by (simp add: fetch_def put_attr_def get_attr_other)

lemma fetch_put_same:
  "has (ct_store s) n \<Longrightarrow> a \<noteq> [] \<Longrightarrow> length v < k \<Longrightarrow> fetch R (put_attr R n a v s) n a k buf = (int (length v), v)"
  by (simp add: fetch_def put_attr_def get_attr_def get_set_same)

lemma fetch_puts_other:
  "\<forall>x \<in> set xs. \<not> same (f x) m \<or> a \<noteq> b \<Longrightarrow> fetch R (fold (\<lambda>x. put_attr R (f x) a v) xs s) m b k buf = fetch R s m b k buf"
  by (induction xs arbitrary: s) (simp_all add: fetch_put_other)

lemma has_put: "has (ct_store (put_attr R n a v s)) m \<longleftrightarrow> has (ct_store s) m"
  by (simp add: put_attr_def has_set)

lemma has_puts: "has (ct_store (fold (\<lambda>x. put_attr R (f x) a v) xs s)) m \<longleftrightarrow> has (ct_store s) m"
  by (induction xs arbitrary: s) (simp_all add: put_attr_def has_set)

lemma fetch_puts_same:
  assumes "x \<in> set xs" "has (ct_store s) (f x)" "a \<noteq> []" "length v < k" "\<forall>y \<in> set xs. y \<noteq> x \<longrightarrow> \<not> same (f y) (f x)"
  shows "fetch R (fold (\<lambda>x. put_attr R (f x) a v) xs s) (f x) a k buf = (int (length v), v)"
  using assms(1,5)
proof (induction xs rule: rev_induct)
  case (snoc y xs)
  then show ?case using assms(2-4) has_puts [of f a v xs s "f x"]
    by (cases "x = y") (auto simp: fetch_put_same fetch_put_other)
qed simp

end

section \<open>Switching WIFI\<close>

definition enable_of :: "'s store_ops \<Rightarrow> ('s, 'm) ctl_scheme \<Rightarrow> nat \<Rightarrow> string" where
  "enable_of R s i = snd (fetch R s (ssid_node i) ''EnableSSID'' 8 [])"

text \<open>An SSID that can be switched: its radio exists and it has a setting.\<close>

definition ssid_ready :: "'s store_ops \<Rightarrow> ('s, 'm) ctl_scheme \<Rightarrow> nat \<Rightarrow> bool" where
  "ssid_ready R s i \<longleftrightarrow> strcasecmp_eq (snd (fetch R s (info_node i) ''isExist'' 8 [])) ''on'' \<and>
     0 < fst (fetch R s (ssid_node i) ''EnableSSID'' 8 [])"

text \<open>The SSIDs of a mask that are not in the wanted state.\<close>

definition wifi_todo :: "'s store_ops \<Rightarrow> bool \<Rightarrow> int \<Rightarrow> int \<Rightarrow> ('s, 'm) ctl_scheme \<Rightarrow> nat list \<Rightarrow> nat list" where
  "wifi_todo R up m em s = filter (\<lambda>i. bit m i \<and> ssid_ready R s i \<and> bit em i \<noteq> up)"

lemma todo_Nil [simp]: "wifi_todo R up m em s [] = []"
  by (simp add: wifi_todo_def)

lemma strcasecmp_True_False:
  "strcasecmp_eq ''True'' ''True''" "\<not> strcasecmp_eq ''True'' ''False''"
  "strcasecmp_eq ''False'' ''False''" "\<not> strcasecmp_eq ''False'' ''True''"
  by code_simp+

lemma down_turn:
  assumes "strcasecmp_eq e ''False''"
  shows "wifi_turn R e m opt i (w, s) =
    (if bit m i \<and> ssid_ready R s i \<and> bit (wifienablemask w) i
     then (w\<lparr>wifienablemask := CLR_BIT (wifienablemask w) i\<rparr>, act (itf_down i) s)
     else (w, s))"
proof -
  have "\<not> strcasecmp_eq e ''True''" using assms strcasecmp_True_False by (auto simp: strcasecmp_eq_def)
  then show ?thesis using assms
    by (auto simp: wifi_turn_def ssid_ready_def GET_BIT_bit mask_and_zero split: prod.splits)
qed

lemma up_turn:
  assumes "strcasecmp_eq e ''True''"
  shows "wifi_turn R e m opt i (w, s) =
    (if bit m i \<and> ssid_ready R s i \<and> \<not> bit (wifienablemask w) i
     then let w = w\<lparr>wifienablemask := SET_BIT (wifienablemask w) i\<rparr> in
       if enable_of R s i = ''0'' \<and> opt = 1 then (w, s)
       else ((if wifi_type i = 0 then w\<lparr>ssid_cnt := ssid_cnt w + 1\<rparr> else w\<lparr>ssidac_cnt := ssidac_cnt w + 1\<rparr>)
               \<lparr>need_save := need_save w + 1\<rparr>, put_attr R (ssid_node i) ''EnableSSID'' ''1'' s)
     else (w, s))"
proof -
  have "\<not> strcasecmp_eq e ''False''" using assms strcasecmp_True_False by (auto simp: strcasecmp_eq_def)
  then show ?thesis using assms
    by (auto simp: wifi_turn_def ssid_ready_def enable_of_def GET_BIT_bit mask_and_zero Let_def split: prod.splits)
qed

lemma down_loop:
  assumes "strcasecmp_eq e ''False''" "distinct is"
  shows "fold (wifi_turn R e m opt) is (w, s) =
    (w\<lparr>wifienablemask := fold (\<lambda>i x. CLR_BIT x i) (wifi_todo R False m (wifienablemask w) s is) (wifienablemask w)\<rparr>,
     fold (\<lambda>i. act (itf_down i)) (wifi_todo R False m (wifienablemask w) s is) s)"
  using assms(2)
proof (induction "is" arbitrary: w s)
  case (Cons i js)
  have r: "ssid_ready R (act a s) j = ssid_ready R s j" for a j by (simp add: ssid_ready_def)
  have f: "wifi_todo R False m (CLR_BIT x i) (act a s) js = wifi_todo R False m x s js" for x a
    using Cons.prems by (auto simp: wifi_todo_def r bit_CLR_BIT intro!: filter_cong)
  show ?case
    using Cons.prems by (auto simp: down_turn [OF assms(1)] Cons.IH f) (simp_all add: wifi_todo_def)
qed simp

definition wifi_switched :: "'s store_ops \<Rightarrow> int \<Rightarrow> ('s, 'm) ctl_scheme \<Rightarrow> nat list \<Rightarrow> nat list" where
  "wifi_switched R opt s = filter (\<lambda>i. \<not> (enable_of R s i = ''0'' \<and> opt = 1))"

definition separate :: "(string \<Rightarrow> string \<Rightarrow> bool) \<Rightarrow> nat list \<Rightarrow> bool" where
  "separate same is \<longleftrightarrow> distinct is \<and> (\<forall>i \<in> set is. \<forall>j \<in> set is. i \<noteq> j \<longrightarrow> \<not> same (ssid_node i) (ssid_node j))"

definition switch_on :: "'s store_ops \<Rightarrow> nat list \<Rightarrow> ('s, 'm) ctl_scheme \<Rightarrow> ('s, 'm) ctl_scheme" where
  "switch_on R is = fold (\<lambda>i. put_attr R (ssid_node i) ''EnableSSID'' ''1'') is"

context attr_store
begin

lemma up_loop:
  assumes "strcasecmp_eq e ''True''"
  shows "separate same is \<Longrightarrow> fold (wifi_turn R e m opt) is (w, s) =
    (let todo = wifi_todo R True m (wifienablemask w) s is; sw = wifi_switched R opt s todo in
    (w\<lparr>wifienablemask := fold (\<lambda>i x. SET_BIT x i) todo (wifienablemask w),
       ssid_cnt := ssid_cnt w + length (filter (\<lambda>i. wifi_type i = 0) sw),
       ssidac_cnt := ssidac_cnt w + length (filter (\<lambda>i. wifi_type i \<noteq> 0) sw),
       need_save := need_save w + length sw\<rparr>,
     switch_on R sw s))"
proof (induction "is" arbitrary: w s)
  case Nil
  show ?case by (simp add: wifi_switched_def switch_on_def)
next
  case (Cons i js)
  let ?s = "put_attr R (ssid_node i) ''EnableSSID'' ''1'' s"
  have d: "separate same js" "i \<notin> set js" "\<And>j. j \<in> set js \<Longrightarrow> \<not> same (ssid_node i) (ssid_node j)"
    using Cons.prems by (auto simp: separate_def)
  have o: "j \<in> set js \<Longrightarrow> ssid_ready R ?s j = ssid_ready R s j" "j \<in> set js \<Longrightarrow> enable_of R ?s j = enable_of R s j" for j
    by (simp_all add: ssid_ready_def enable_of_def fetch_put_other d(3))
  have f: "wifi_todo R True m (SET_BIT x i) s js = wifi_todo R True m x s js"
    "wifi_todo R True m (SET_BIT x i) ?s js = wifi_todo R True m x s js" for x
    using d(2) by (auto simp: wifi_todo_def o bit_SET_BIT intro!: filter_cong)
  have g: "wifi_switched R opt ?s (wifi_todo R True m x s js) = wifi_switched R opt s (wifi_todo R True m x s js)" for x
    by (auto simp: wifi_switched_def wifi_todo_def o intro!: filter_cong)
  have c: "wifi_todo R True m x s (i # js) = (if bit m i \<and> ssid_ready R s i \<and> \<not> bit x i then [i] else []) @ wifi_todo R True m x s js" for x
    by (simp add: wifi_todo_def)
  have c': "wifi_switched R opt s (i # xs) = (if enable_of R s i = ''0'' \<and> opt = 1 then [] else [i]) @ wifi_switched R opt s xs" for xs
    by (simp add: wifi_switched_def)
  note turn = up_turn [OF assms, of R m opt i w s]
  show ?case
  proof (cases "bit m i \<and> ssid_ready R s i \<and> \<not> bit (wifienablemask w) i")
    case False
    have "wifi_turn R e m opt i (w, s) = (w, s)" "wifi_todo R True m (wifienablemask w) s (i # js) = wifi_todo R True m (wifienablemask w) s js"
      by (simp_all only: turn c if_not_P [OF False] append.simps)
    then show ?thesis by (simp only: fold_simps o_apply Cons.IH [OF d(1)])
  next
    case True
    show ?thesis
    proof (cases "enable_of R s i = ''0'' \<and> opt = 1")
      case skip: True
      have "wifi_turn R e m opt i (w, s) = (w\<lparr>wifienablemask := SET_BIT (wifienablemask w) i\<rparr>, s)"
        "wifi_switched R opt s (i # xs) = wifi_switched R opt s xs" for xs
        by (simp_all only: turn Let_def c' if_P [OF True] if_P [OF skip] append.simps)
      then show ?thesis using True by (simp add: Cons.IH [OF d(1)] f c Let_def)
    next
      case sw: False
      have "wifi_turn R e m opt i (w, s) =
          ((if wifi_type i = 0 then w\<lparr>wifienablemask := SET_BIT (wifienablemask w) i, ssid_cnt := ssid_cnt w + 1\<rparr>
            else w\<lparr>wifienablemask := SET_BIT (wifienablemask w) i, ssidac_cnt := ssidac_cnt w + 1\<rparr>)
             \<lparr>need_save := need_save w + 1\<rparr>, ?s)"
        "wifi_switched R opt s (i # xs) = i # wifi_switched R opt s xs" for xs
        by (simp_all only: turn Let_def c' if_P [OF True] if_not_P [OF sw] append.simps) simp
      then show ?thesis using True
        by (cases "wifi_type i = 0") (simp_all add: Cons.IH [OF d(1)] f g c Let_def switch_on_def)
    qed
  qed
qed

end

abbreviation all_ssids :: "nat list" where
  "all_ssids \<equiv> [0 ..< WLAN_2_4_G_NUM + WLAN_5_G_NUM]"

lemma all_ssids_less: "i \<in> set all_ssids \<Longrightarrow> i < 16"
  by (simp add: WLAN_2_4_G_NUM_def WLAN_5_G_NUM_def)

lemma todo_subset: "set (wifi_todo R up m em s is) \<subseteq> set is"
  by (auto simp: wifi_todo_def)

lemma bit_fold_CLR: "bit (fold (\<lambda>i x. CLR_BIT x i) is x) j \<longleftrightarrow> bit x j \<and> j \<notin> set is"
  by (induction "is" arbitrary: x) (auto simp: bit_CLR_BIT)

lemma bit_fold_SET: "bit (fold (\<lambda>i x. SET_BIT x i) is x) j \<longleftrightarrow> bit x j \<or> j \<in> set is"
  by (induction "is" arbitrary: x) (auto simp: bit_SET_BIT)

lemma mask_ok_fold_CLR: "mask_ok x \<Longrightarrow> mask_ok (fold (\<lambda>i x. CLR_BIT x i) is x)"
  by (induction "is" arbitrary: x) (auto simp: mask_ok_CLR)

lemma mask_ok_fold_SET: "mask_ok x \<Longrightarrow> \<forall>i \<in> set is. i < 16 \<Longrightarrow> mask_ok (fold (\<lambda>i x. SET_BIT x i) is x)"
  by (induction "is" arbitrary: x) (auto simp: mask_ok_SET)

lemma fold_act: "ct_log (fold (\<lambda>i. act (f i)) is s) = ct_log s @ map f is"
  "ct_store (fold (\<lambda>i. act (f i)) is s) = ct_store s" "fetch R (fold (\<lambda>i. act (f i)) is s) n a k b = fetch R s n a k b"
  by (induction "is" arbitrary: s) simp_all

lemma fetch_cong: "ct_store s = ct_store s' \<Longrightarrow> fetch R s n a k b = fetch R s' n a k b"
  by (simp add: fetch_def)

text \<open>The actions that follow the loop.\<close>

definition save_actions :: "'s store_ops \<Rightarrow> ('s, 'm) ctl_scheme \<Rightarrow> action list" where
  "save_actions R s =
     (if snd (fetch R s SYS_ENTRY_NODE ''ctcDbusFlag'' 4 []) = ''5'' then []
      else [Write2file ''/tmp/tcapi_save_status'' ''1'', SendEvent ''EVT_CFG_TCAPI_SAVE''])"

definition commit_actions :: "nat list \<Rightarrow> action list" where
  "commit_actions sw = (if \<exists>i \<in> set sw. wifi_type i = 0 then [Commit WLAN_NODE] else []) @
     (if \<exists>i \<in> set sw. wifi_type i \<noteq> 0 then [Commit WLAN11AC_NODE] else [])"

context attr_store
begin

lemma stored_mask_put:
  "has (ct_store s) TIMER_COMMON_NODE \<Longrightarrow> mask_ok x \<Longrightarrow>
   stored_mask R (put_attr R TIMER_COMMON_NODE ''WifiEnableMask'' (take 7 (int_str x)) s) = x"
  using mask_text [of x] by (simp add: stored_mask_def fetch_put_same)

lemma stored_mask_other: "a \<noteq> ''WifiEnableMask'' \<Longrightarrow> stored_mask R (put_attr R n a v s) = stored_mask R s"
  by (simp add: stored_mask_def fetch_put_other)

lemma ready_other:
  "a \<noteq> ''isExist'' \<Longrightarrow> a \<noteq> ''EnableSSID'' \<Longrightarrow> ssid_ready R (put_attr R n a v s) i = ssid_ready R s i"
  "a \<noteq> ''EnableSSID'' \<Longrightarrow> enable_of R (put_attr R n a v s) i = enable_of R s i"
  by (simp_all add: ssid_ready_def enable_of_def fetch_put_other)

lemma down_event:
  fixes s :: "('s, 'm) ctl_scheme" and opt :: int
  assumes e: "strcasecmp_eq e ''False''" and m: "mask_ok m" "mask_ok (stored_mask R s)" and h: "has (ct_store s) TIMER_COMMON_NODE"
  defines "todo \<equiv> wifi_todo R False m (stored_mask R s) s all_ssids" and "s' \<equiv> snd (doWifiTimerEvent R (Some e) m opt s)"
  shows "ct_log s' = ct_log s @ map itf_down todo"
    and "bit (stored_mask R s') i \<longleftrightarrow> bit (stored_mask R s) i \<and> i \<notin> set todo" and "mask_ok (stored_mask R s')"
    and "has (ct_store s') n \<longleftrightarrow> has (ct_store s) n" and "ssid_ready R s' i = ssid_ready R s i" and "enable_of R s' i = enable_of R s i"
proof -
  let ?t = "fold (\<lambda>i. act (itf_down i)) todo s" and ?x = "fold (\<lambda>i x. CLR_BIT x i) todo (stored_mask R s)"
  have s': "s' = put_attr R TIMER_COMMON_NODE ''WifiEnableMask'' (take 7 (int_str ?x)) ?t"
    using m(1) by (simp add: s'_def doWifiTimerEvent_def down_loop [OF e] todo_def mask_ok_def Let_def)
  have x: "mask_ok ?x" using m(2) by (rule mask_ok_fold_CLR)
  have st: "stored_mask R s' = ?x" unfolding s' by (rule stored_mask_put [OF _ x]) (simp add: fold_act h)
  show "ct_log s' = ct_log s @ map itf_down todo" by (simp add: s' fold_act)
  show "bit (stored_mask R s') i \<longleftrightarrow> bit (stored_mask R s) i \<and> i \<notin> set todo" by (simp add: st bit_fold_CLR)
  show "mask_ok (stored_mask R s')" by (simp add: st x)
  show "has (ct_store s') n \<longleftrightarrow> has (ct_store s) n" by (simp add: s' put_attr_def has_set fold_act)
  show "ssid_ready R s' i = ssid_ready R s i" by (simp add: s' ready_other) (simp add: ssid_ready_def fold_act)
  show "enable_of R s' i = enable_of R s i" by (simp add: s' ready_other) (simp add: enable_of_def fold_act)
qed

lemma save_event:
  "ct_log (cfg_evt_write_romfile_to_flash R s) = ct_log s @ save_actions R s"
  "a \<noteq> ''saveStatus'' \<Longrightarrow> fetch R (cfg_evt_write_romfile_to_flash R s) n a k b = fetch R s n a k b"
  by (auto simp: cfg_evt_write_romfile_to_flash_def save_actions_def fetch_put_other)

lemma switch_on_other: "a \<noteq> ''EnableSSID'' \<Longrightarrow> fetch R (switch_on R is s) n a k b = fetch R s n a k b"
  by (simp add: switch_on_def fetch_puts_other)

lemma fetch_has: "0 < fst (fetch R s n a k b) \<Longrightarrow> has (ct_store s) n"
  using get_has by (auto simp: fetch_def get_attr_def split: option.splits)

lemma switch_on_enable:
  assumes "separate same all_ssids" "set is \<subseteq> set all_ssids" "i \<in> set all_ssids" "\<forall>i \<in> set is. ssid_ready R s i"
  shows "fetch R (switch_on R is s) (ssid_node i) ''EnableSSID'' 8 [] =
     (if i \<in> set is then (1, ''1'') else fetch R s (ssid_node i) ''EnableSSID'' 8 [])"
proof (cases "i \<in> set is")
  case True
  then have "has (ct_store s) (ssid_node i)" using assms(4) by (auto simp: ssid_ready_def intro: fetch_has)
  then show ?thesis
    using True assms(1-3) fetch_puts_same [of i "is" s ssid_node "''EnableSSID''" "''1''" 8 "[]"]
    by (auto simp: switch_on_def separate_def subset_iff)
next
  case False
  then have "\<forall>x \<in> set is. \<not> same (ssid_node x) (ssid_node i)"
    using assms(1-3) by (metis separate_def subsetD)
  then show ?thesis using False by (simp add: switch_on_def fetch_puts_other)
qed

lemma up_event:
  fixes s :: "('s, 'm) ctl_scheme" and opt :: int
  assumes e: "strcasecmp_eq e ''True''" and m: "mask_ok m" "mask_ok (stored_mask R s)"
    and h: "has (ct_store s) TIMER_COMMON_NODE" and d: "separate same all_ssids"
  defines "todo \<equiv> wifi_todo R True m (stored_mask R s) s all_ssids" and "s' \<equiv> snd (doWifiTimerEvent R (Some e) m opt s)"
  defines "sw \<equiv> wifi_switched R opt s todo"
  shows "ct_log s' = ct_log s @ commit_actions sw @ (if sw = [] then [] else save_actions R s)"
    and "bit (stored_mask R s') i \<longleftrightarrow> bit (stored_mask R s) i \<or> i \<in> set todo" and "mask_ok (stored_mask R s')"
    and "has (ct_store s') n \<longleftrightarrow> has (ct_store s) n"
    and "i \<in> set all_ssids \<Longrightarrow> ssid_ready R s' i = ssid_ready R s i"
    and "i \<in> set all_ssids \<Longrightarrow> enable_of R s' i = (if i \<in> set sw then ''1'' else enable_of R s i)"
proof -
  let ?x = "fold (\<lambda>i x. SET_BIT x i) todo (stored_mask R s)"
  let ?t = "put_attr R TIMER_COMMON_NODE ''WifiEnableMask'' (take 7 (int_str ?x)) (switch_on R sw s)"
  let ?u = "fold act (commit_actions sw) ?t"
  have s': "s' = (if sw = [] then ?u else cfg_evt_write_romfile_to_flash R ?u)"
    using m(1) by (auto simp: s'_def doWifiTimerEvent_def up_loop [OF e d] mask_ok_def Let_def
        commit_actions_def filter_empty_conv simp flip: todo_def sw_def)
  have sub: "set todo \<subseteq> set all_ssids" "set sw \<subseteq> set todo" "\<forall>i \<in> set sw. ssid_ready R s i"
    using todo_subset by (auto simp: todo_def sw_def wifi_switched_def wifi_todo_def)
  have x: "mask_ok ?x" using m(2) sub(1) all_ssids_less by (intro mask_ok_fold_SET) auto
  have f: "fetch R s' n a k b = fetch R ?t n a k b" if "a \<noteq> ''saveStatus''" for n a k b
    using that by (simp add: s' save_event fold_act [where f = id, simplified])
  have "has (ct_store (switch_on R sw s)) TIMER_COMMON_NODE" by (simp add: switch_on_def has_puts h)
  then have st: "stored_mask R s' = ?x" using stored_mask_put [OF _ x] f by (simp add: stored_mask_def)
  have lg: "ct_log (switch_on R is s) = ct_log s" for "is" by (induction "is" arbitrary: s) (simp_all add: switch_on_def)
  show "ct_log s' = ct_log s @ commit_actions sw @ (if sw = [] then [] else save_actions R s)"
    by (simp add: s' save_event fold_act [where f = id, simplified] lg save_actions_def fetch_put_other switch_on_other)
  show "bit (stored_mask R s') i \<longleftrightarrow> bit (stored_mask R s) i \<or> i \<in> set todo" by (simp add: st bit_fold_SET)
  show "mask_ok (stored_mask R s')" by (simp add: st x)
  show "has (ct_store s') n \<longleftrightarrow> has (ct_store s) n"
    by (simp add: s' cfg_evt_write_romfile_to_flash_def has_put switch_on_def has_puts fold_act [where f = id, simplified])
  assume i: "i \<in> set all_ssids"
  have en: "fetch R s' (ssid_node i) ''EnableSSID'' 8 [] =
      (if i \<in> set sw then (1, ''1'') else fetch R s (ssid_node i) ''EnableSSID'' 8 [])"
    using switch_on_enable [OF d _ i sub(3)] sub by (simp add: f fetch_put_other)
  show "ssid_ready R s' i = ssid_ready R s i"
    using en sub(3) by (auto simp: ssid_ready_def f fetch_put_other switch_on_other)
  show "enable_of R s' i = (if i \<in> set sw then ''1'' else enable_of R s i)"
    using en by (simp add: enable_of_def)
qed

lemma event_again:
  fixes s :: "('s, 'm) ctl_scheme" and opt :: int
  assumes "strcasecmp_eq e ''True'' \<or> strcasecmp_eq e ''False''" "mask_ok m" "mask_ok (stored_mask R s)"
    "has (ct_store s) TIMER_COMMON_NODE" "separate same all_ssids"
  defines "s' \<equiv> snd (doWifiTimerEvent R (Some e) m opt s)"
  shows "ct_log (snd (doWifiTimerEvent R (Some e) m opt' s')) = ct_log s'"
  using assms(1)
proof
  assume e: "strcasecmp_eq e ''True''"
  note up = up_event [OF e assms(2-5), where opt = opt, folded s'_def]
  have "wifi_todo R True m (stored_mask R s') s' all_ssids = []"
    using up(2,5) by (auto simp: wifi_todo_def filter_empty_conv)
  then show ?thesis using up_event(1) [OF e assms(2) up(3) _ assms(5)] up(4) assms(4)
    by (simp add: wifi_switched_def commit_actions_def)
next
  assume e: "strcasecmp_eq e ''False''"
  note dn = down_event [OF e assms(2-4), where opt = opt, folded s'_def]
  have "wifi_todo R False m (stored_mask R s') s' all_ssids = []"
    using dn(2,5) by (auto simp: wifi_todo_def filter_empty_conv)
  then show ?thesis using down_event(1) [OF e assms(2) dn(3)] dn(4) assms(4) by simp
qed

end

end
