(* ===== verification/Weekday.thy ===== *)
theory Weekday
  imports Timer
begin

text \<open>
  The day of the week that \<open>CaculateWeekDay\<close> computes is the right one: counted day by day from
  1 January 1970, a Thursday, through the Gregorian calendar.
\<close>

definition leap :: "int \<Rightarrow> bool" where
  "leap y \<longleftrightarrow> 4 dvd y \<and> \<not> 100 dvd y \<or> 400 dvd y"

definition days_in :: "int \<Rightarrow> int \<Rightarrow> int" where
  "days_in y m = (if m = 2 then (if leap y then 29 else 28) else if m \<in> {4, 6, 9, 11} then 30 else 31)"

lemma days_in_ge: "28 \<le> days_in y m" and days_in_dec: "days_in y 12 = 31"
  by (simp_all add: days_in_def)

fun next_day :: "int \<times> int \<times> int \<Rightarrow> int \<times> int \<times> int" where
  "next_day (y, m, d) =
     (if d < days_in y m then (y, m, d + 1) else if m < 12 then (y, m + 1, 1) else (y + 1, 1, 1))"

definition date_of :: "nat \<Rightarrow> int \<times> int \<times> int" where
  "date_of n = (next_day ^^ n) (1970, 1, 1)"

fun valid_date :: "int \<times> int \<times> int \<Rightarrow> bool" where
  "valid_date (y, m, d) \<longleftrightarrow> 1 \<le> y \<and> 1 \<le> m \<and> m \<le> 12 \<and> 1 \<le> d \<and> d \<le> days_in y m"

definition week_sum :: "int \<Rightarrow> int \<Rightarrow> int \<Rightarrow> int" where
  "week_sum y m d =
     (let (m, y) = (if m = 1 \<or> m = 2 then (m + 12, y - 1) else (m, y))
      in d + 2 * m + 3 * (m + 1) div 5 + y + y div 4 - y div 100 + y div 400)"

lemma sdiv_nonneg: "0 \<le> (a::int) \<Longrightarrow> 0 < b \<Longrightarrow> a sdiv b = a div b"
  by (simp add: signed_divide_int_def sgn_if)

lemma smod_nonneg: "0 \<le> (a::int) \<Longrightarrow> 0 < b \<Longrightarrow> a smod b = a mod b"
  by (cases "a = 0") (simp_all add: signed_modulo_int_def sgn_if)

lemma week_sum_nonneg: "1 \<le> y \<Longrightarrow> 1 \<le> m \<Longrightarrow> 1 \<le> d \<Longrightarrow> 0 \<le> week_sum y m d"
  using zdiv_mono2 [of y 4 100] zdiv_mono2 [of "y - 1" 4 100]
  by (auto simp: week_sum_def Let_def pos_imp_zdiv_nonneg_iff intro!: add_nonneg_nonneg)

lemma CaculateWeekDay_eq:
  assumes "1 \<le> y" "1 \<le> m" "1 \<le> d"
  shows "CaculateWeekDay y m d = week_sum y m d mod 7 + 1"
  using assms week_sum_nonneg [OF assms]
  by (simp add: CaculateWeekDay_def week_sum_def Let_def sdiv_nonneg smod_nonneg)

lemma div_pred: "0 < k \<Longrightarrow> (y::int) div k = (y - 1) div k + (if k dvd y then 1 else 0)"
proof -
  assume k: "0 < k"
  have y: "k * (y div k) + y mod k = y" by simp
  show ?thesis
  proof (cases "y mod k = 0")
    case True
    then show ?thesis using int_div_pos_eq [of "y - 1" k "y div k - 1" "k - 1"] y k
      by (auto simp: dvd_eq_mod_eq_0 algebra_simps)
  next
    case False
    then have "0 < y mod k" using pos_mod_sign [OF k, of y] by linarith
    then show ?thesis using int_div_pos_eq [of "y - 1" k "y div k" "y mod k - 1"] y k False pos_mod_bound [OF k, of y]
      by (auto simp: dvd_eq_mod_eq_0 algebra_simps)
  qed
qed

text \<open>The only step where the formula changes its year: from February to March.\<close>

lemma week_sum_march: "week_sum y 3 1 = week_sum y 2 (days_in y 2) + 1 - 56"
proof -
  have l: "100 dvd y \<Longrightarrow> 4 dvd y" "400 dvd y \<Longrightarrow> 100 dvd y"
    using dvd_trans [of 4 100 y] dvd_trans [of 100 400 y] by simp_all
  define a b c where "a = (y - 1) div 4" "b = (y - 1) div 100" "c = (y - 1) div 400"
  have "y div 4 = a + (if 4 dvd y then 1 else 0)" "y div 100 = b + (if 100 dvd y then 1 else 0)"
    "y div 400 = c + (if 400 dvd y then 1 else 0)"
    unfolding a_b_c_def by (rule div_pred; simp)+
  then show ?thesis using l
    by (simp add: week_sum_def days_in_def leap_def flip: a_b_c_def)
qed

lemma week_sum_day: "week_sum y m (d + e) = week_sum y m d + e"
  by (simp add: week_sum_def Let_def split: prod.splits)

lemma week_sum_month:
  assumes "1 \<le> m" "m < 12" "m \<noteq> 2"
  shows "week_sum y (m + 1) 1 = week_sum y m (days_in y m) + 1 - 28"
proof -
  have "m = 1 \<or> m = 3 \<or> m = 4 \<or> m = 5 \<or> m = 6 \<or> m = 7 \<or> m = 8 \<or> m = 9 \<or> m = 10 \<or> m = 11"
    using assms by presburger
  then show ?thesis by (elim disjE) (simp_all add: week_sum_def days_in_def)
qed

lemma week_sum_next:
  assumes "valid_date (y, m, d)" "next_day (y, m, d) = (y', m', d')"
  shows "week_sum y' m' d' mod 7 = (week_sum y m d + 1) mod 7"
proof -
  have s: "(x - 27) mod 7 = (x + 1) mod 7" "(x - 55) mod 7 = (x + 1) mod 7" for x :: int
    by (simp_all add: mod_eq_dvd_iff)
  consider "d < days_in y m" | "d = days_in y m" "m < 12" "m \<noteq> 2" | "d = days_in y m" "m = 2" | "d = 31" "m = 12"
    using assms(1) by (cases "d < days_in y m"; cases "m = 2"; cases "m = 12") (simp_all add: days_in_dec)
  then show ?thesis
  proof cases
    case 1
    then show ?thesis using assms(2) by (auto simp: week_sum_day)
  next
    case 2
    then show ?thesis using assms week_sum_month [of m y] s by auto
  next
    case 3
    then show ?thesis using assms(2) week_sum_march [of y] s by auto
  next
    case 4
    moreover have "week_sum (y + 1) 1 1 = week_sum y 12 31 - 27" by (simp add: week_sum_def)
    ultimately show ?thesis using assms(2) s by (auto simp: days_in_def)
  qed
qed

lemma valid_date_next: "valid_date t \<Longrightarrow> valid_date (next_day t)"
  using days_in_ge by (cases t) (auto intro: order.trans [OF _ days_in_ge])

lemma date_of_Suc: "date_of (Suc n) = next_day (date_of n)"
  by (simp add: date_of_def)

lemma valid_date_of: "valid_date (date_of n)"
proof (induction n)
  case 0
  show ?case by (simp add: date_of_def days_in_def)
qed (simp only: date_of_Suc valid_date_next)

text \<open>C30: The formula for the day of the week is right for every day from 1 January 1970 on: \<open>n\<close> days
  after that Thursday it gives the day that comes \<open>n\<close> days later in the week, 1 for Monday to 7 for
  Sunday, over every month, leap year and century.\<close>

theorem weekday_correct:
  "(case date_of n of (y, m, d) \<Rightarrow> CaculateWeekDay y m d) = (int n + 3) mod 7 + 1"
proof (induction n)
  case 0
  show ?case by (simp add: date_of_def CaculateWeekDay_eq week_sum_def)
next
  case (Suc n)
  obtain y m d where d: "date_of n = (y, m, d)" by (cases "date_of n")
  obtain y' m' d' where d': "next_day (y, m, d) = (y', m', d')" by (cases "next_day (y, m, d)")
  have v: "valid_date (y, m, d)" "valid_date (y', m', d')" using valid_date_of d d' date_of_Suc by metis+
  from v have w: "CaculateWeekDay y m d = week_sum y m d mod 7 + 1" "CaculateWeekDay y' m' d' = week_sum y' m' d' mod 7 + 1"
    by (auto intro: CaculateWeekDay_eq)
  have "week_sum y m d mod 7 = (int n + 3) mod 7" using Suc d w(1) by simp
  then have "(week_sum y m d + 1) mod 7 = (int n + 3 + 1) mod 7" by (rule mod_add_cong) simp
  then have "CaculateWeekDay y' m' d' = (int n + 4) mod 7 + 1" using w(2) week_sum_next [OF v(1) d'] by (simp del: next_day.simps add: add.commute)
  moreover have "date_of (Suc n) = (y', m', d')" using d d' date_of_Suc by metis
  moreover have "int (Suc n) + 3 = int n + 4" by simp
  ultimately show ?case by (simp only: prod.case)
qed

end
