(* ===== verification/TimerSpec.thy ===== *)
theory TimerSpec
  imports WifiEvents Weekday
begin

text \<open>
  The properties of the timers and buttons: switching WIFI, sleeping and waking, the list of
  timers, the LEDs and the reset button.
\<close>

section \<open>LEDs\<close>

lemma line_store [simp]:
  "ct_store (snd (snd (sip_line R i x))) = ct_store (snd (snd x))"
  "ct_store (snd (snd (h248_line R i x))) = ct_store (snd (snd x))"
  by (auto simp: sip_line_def h248_line_def Let_def split: prod.splits)

lemma voip_store [simp]: "ct_store (voip_led_recover R s) = ct_store s"
  by (auto simp: voip_led_recover_def Let_def split: prod.splits if_splits)
    (metis line_store snd_conv)+

context attr_store
begin

lemma button_fetch: "a \<noteq> ''CurrStatus'' \<Longrightarrow> fetch R (button_op R op s) n a k b = fetch R s n a k b"
  by (simp add: button_op_def fetch_put_other svc_central_ctrl_execute_cmd_def) (simp add: fetch_def)

lemma button_has: "has (ct_store (button_op R op s)) m \<longleftrightarrow> has (ct_store s) m"
  by (simp add: button_op_def has_put svc_central_ctrl_execute_cmd_def)

lemma button_status:
  "has (ct_store s) TIMER_LEDTIMER_ENTRY_NODE \<Longrightarrow> op = 0 \<or> op = 1 \<Longrightarrow>
   atoi (snd (fetch R (button_op R op s) TIMER_LEDTIMER_ENTRY_NODE ''CurrStatus'' 8 [])) = op"
  by (auto simp: button_op_def BUTTON_RECOVER_def fetch_put_same svc_central_ctrl_execute_cmd_def atoi_def
      is_space_def clamp_int_def is_digit_def digit_val_def cval_def)

end

definition led_next :: "timer_entry_node \<Rightarrow> int \<times> int \<Rightarrow> int \<Rightarrow> int" where
  "led_next e hm a =
     (let t = scan_time (te_start_time e) (0, 0)
      in if scan_time (te_end_time e) t = hm then BUTTON_OFF else if t = hm then BUTTON_RECOVER else a)"

context attr_store
begin

lemma led_entry_eq:
  fixes s :: "('s, 'm) timer_scheme"
  assumes "has (ct_store s) TIMER_LEDTIMER_ENTRY_NODE" "a = 0 \<or> a = 1" "led_entry R hm e (a, s) = (a', s')"
  shows "a' = led_next e hm a" "a' = 0 \<or> a' = 1" "has (ct_store s') TIMER_LEDTIMER_ENTRY_NODE"
    "atoi (snd (fetch R s' TIMER_LEDTIMER_ENTRY_NODE ''CurrStatus'' 8 [])) = a'"
proof -
  have a': "a' = led_next e hm a" and s': "s' = (if a' \<noteq> atoi (snd (fetch R s TIMER_LEDTIMER_ENTRY_NODE ''CurrStatus'' 8 [])) then button_op R a' s else s)"
    using assms(3) by (auto simp: led_entry_def led_next_def Let_def split: if_splits)
  show "a' = led_next e hm a" by (rule a')
  show b: "a' = 0 \<or> a' = 1" using assms(2) by (auto simp: a' led_next_def BUTTON_OFF_def BUTTON_RECOVER_def Let_def)
  show "has (ct_store s') TIMER_LEDTIMER_ENTRY_NODE" using assms(1) by (simp add: s' button_has)
  show "atoi (snd (fetch R s' TIMER_LEDTIMER_ENTRY_NODE ''CurrStatus'' 8 [])) = a'"
    using button_status [OF assms(1) b] by (simp add: s')
qed

lemma led_turns:
  fixes s :: "('s, 'm) timer_scheme"
  assumes "has (ct_store s) TIMER_LEDTIMER_ENTRY_NODE" "a = 0 \<or> a = 1"
    "fold (\<lambda>hm. led_entry R hm e) (hm # hms) (a, s) = (a', s')"
  shows "a' = fold (led_next e) (hm # hms) a \<and> atoi (snd (fetch R s' TIMER_LEDTIMER_ENTRY_NODE ''CurrStatus'' 8 [])) = a'"
  using assms
proof (induction hms arbitrary: hm a s)
  case Nil
  then show ?case using led_entry_eq [of s a hm e a' s'] by simp
next
  case (Cons h hms)
  obtain b t where t: "led_entry R hm e (a, s) = (b, t)" by force
  note l = led_entry_eq [OF Cons.prems(1,2) t]
  have "fold (\<lambda>hm. led_entry R hm e) (h # hms) (b, t) = (a', s')" using Cons.prems(3) t by simp
  from Cons.IH [OF l(3,2) this] show ?case using l(1) by simp
qed

end

section \<open>Sleeping\<close>

lemma run_all_store [simp]: "ct_store (run_all cs s) = ct_store s"
  by (simp add: run_all_def fold_act)

lemma mount_store [simp]: "ct_store (fold (mount_entry Y R) is s) = ct_store s" "ct_store (fold (umount_entry R) is s) = ct_store s"
  by (induction "is" arbitrary: s) (simp_all add: mount_entry_def umount_entry_def Let_def)

lemma sleep_ignored:
  "HGWSleep R s = ''0'' \<Longrightarrow> \<not> strcasecmp_eq e ''False'' \<Longrightarrow> doSleepTimerEvent Y R e s = (-1, s)"
  by (simp add: doSleepTimerEvent_def)

lemma entry_asleep:
  fixes s :: "('s, 'm) timer_scheme"
  assumes "HGWSleep R s = ''0''" "te_type e = CTC_SLEEPTIMER_TYPE \<longrightarrow> \<not> strcasecmp_eq (te_enable e) ''False''"
  shows "timer_entry_turn Y R wv hm e (a, s) = (a, s)"
proof -
  have "(if te_type e = CTC_SLEEPTIMER_TYPE then sleep_entry Y R wv hm e s else s) = s"
    using assms sleep_ignored [of R s "te_enable e" Y] by (auto simp: sleep_entry_def)
  then show ?thesis using assms(1) by (simp add: timer_entry_turn_def)
qed

lemma turn_asleep:
  fixes s :: "('s, 'm) timer_scheme"
  assumes "HGWSleep R s = ''0''" "\<forall>e \<in> set es. te_type e = CTC_SLEEPTIMER_TYPE \<longrightarrow> \<not> strcasecmp_eq (te_enable e) ''False''"
  shows "fold (timer_entry_turn Y R wv hm) es (a, s) = (a, s)"
  using assms(2) by (induction es) (simp_all add: entry_asleep [OF assms(1)])

context attr_store
begin

lemma turn_has: "has (ct_store (snd (wifi_turn R e m opt i x))) n \<longleftrightarrow> has (ct_store (snd x)) n"
  by (auto simp: wifi_turn_def has_put Let_def split: prod.splits)

lemma turns_has: "has (ct_store (snd (fold (wifi_turn R e m opt) is x))) n \<longleftrightarrow> has (ct_store (snd x)) n"
  by (induction "is" arbitrary: x) (simp_all add: turn_has)

lemma wifi_has: "has (ct_store (snd (doWifiTimerEvent R e m opt s))) n \<longleftrightarrow> has (ct_store s) n"
proof (cases e)
  case (Some v)
  let ?w = "\<lparr>wifienablemask = stored_mask R s, ssid_cnt = 0, ssidac_cnt = 0, need_save = 0\<rparr>"
  obtain w u where f: "fold (wifi_turn R v m opt) all_ssids (?w, s) = (w, u)" by force
  then have "has (ct_store u) n \<longleftrightarrow> has (ct_store s) n" using turns_has [of v m opt all_ssids "(?w, s)" n] by simp
  then show ?thesis
    by (simp add: Some f doWifiTimerEvent_def cfg_evt_write_romfile_to_flash_def has_put Let_def)
qed (simp add: doWifiTimerEvent_def)

lemma led_up_has: "has (ct_store (led_up R s)) n \<longleftrightarrow> has (ct_store s) n"
  by (simp add: led_up_def button_has Let_def)

lemma storage_has: "has (ct_store (storage_up Y R s)) n \<longleftrightarrow> has (ct_store s) n"
  "has (ct_store (storage_down R s)) n \<longleftrightarrow> has (ct_store s) n"
  by (simp_all add: storage_up_def storage_down_def has_put)

lemma sleep_flips:
  fixes s :: "('s, 'm) ctl_scheme"
  assumes "has (ct_store s) TIMER_COMMON_NODE"
  shows "HGWSleep R (go_asleep R s) = ''0''" "HGWSleep R (wake_up Y R s) = ''1''"
  using assms by (simp_all add: HGWSleep_def go_asleep_def wake_up_def fetch_put_same storage_has wifi_has button_has led_up_has)

end

section \<open>The list of timers\<close>

definition tgrows :: "(timer_entry_node \<Rightarrow> bool) \<Rightarrow> nat \<Rightarrow> ('s, 'm) timer_scheme \<Rightarrow> ('s, 'm) timer_scheme \<Rightarrow> bool" where
  "tgrows P k s s' \<longleftrightarrow> (\<exists>es. timer_data s' = timer_data s @ es \<and> length es \<le> k \<and> list_all P es)"

lemma tgrows_refl [simp]: "tgrows P k s s" "tgrows P k s (s\<lparr>ct_store := x\<rparr>)"
  by (simp_all add: tgrows_def)

lemma tgrows_add: "P e \<Longrightarrow> tgrows P (Suc 0) s (add_entry Y e s)"
  by (auto simp: tgrows_def add_entry_def Let_def)

lemma tgrows_trans: "tgrows P j s t \<Longrightarrow> tgrows P k t u \<Longrightarrow> tgrows P (j + k) s u"
  by (force simp: tgrows_def)

lemma tgrows_fold: "(\<And>i s. tgrows P 1 s (f i s)) \<Longrightarrow> tgrows P (length is) s (fold f is s)"
proof (induction "is" arbitrary: s)
  case (Cons i js)
  from tgrows_trans [OF Cons.prems Cons.IH [OF Cons.prems]] show ?case by simp
qed simp

lemma data_line [simp]:
  "timer_data (snd (snd (sip_line R i x))) = timer_data (snd (snd x))"
  "timer_data (snd (snd (h248_line R i x))) = timer_data (snd (snd x))"
  by (auto simp: sip_line_def h248_line_def act_def Let_def split: prod.splits)

lemma data_voip [simp]: "timer_data (voip_led_recover R s) = timer_data s"
  by (auto simp: voip_led_recover_def Let_def split: prod.splits if_splits) (metis data_line snd_conv)+

lemma data_button [simp]: "timer_data (button_op R op s) = timer_data s"
  by (simp add: button_op_def put_attr_def) (simp add: svc_central_ctrl_execute_cmd_def act_def)

lemma data_put [simp]: "timer_data (put_attr R n a v s) = timer_data s"
  by (simp add: put_attr_def)

text \<open>Every text is shorter than its array.\<close>

definition entry_fits :: "timer_entry_node \<Rightarrow> bool" where
  "entry_fits e \<longleftrightarrow> length (te_week_day e) < 16 \<and> length (te_start_time e) < 16 \<and> length (te_end_time e) < 16 \<and>
     length (te_status e) < 8 \<and> length (te_enable e) < 8 \<and> length (te_SSIDIndex e) < 16"

definition has_colon :: "string \<Rightarrow> bool" where
  "has_colon t \<longleftrightarrow> strstr t '':'' \<noteq> None"

definition sleep_ok :: "bool \<Rightarrow> timer_entry_node \<Rightarrow> bool" where
  "sleep_ok flag e \<longleftrightarrow> te_type e = CTC_SLEEPTIMER_TYPE \<and> entry_fits e \<and>
     (if te_week_day e = ''0'' then flag else has_colon (te_start_time e))"

definition led_ok :: "timer_entry_node \<Rightarrow> bool" where
  "led_ok e \<longleftrightarrow> te_type e = CTC_LEDTIMER_TYPE \<and> entry_fits e \<and> te_week_day e = ''DAY'' \<and>
     has_colon (te_start_time e) \<and> has_colon (te_end_time e)"

definition wifi1_ok :: "timer_entry_node \<Rightarrow> bool" where
  "wifi1_ok e \<longleftrightarrow> te_type e = CTC_WIFITIMER1_TYPE \<and> entry_fits e \<and> has_colon (te_start_time e)"

definition wifi_ok :: "timer_entry_node \<Rightarrow> bool" where
  "wifi_ok e \<longleftrightarrow> te_type e = CTC_WIFITIMER_TYPE \<and> entry_fits e \<and> te_SSIDIndex e \<noteq> [] \<and>
     (strcasecmp_eq (te_enable e) ''TRUE'' \<longrightarrow> has_colon (te_start_time e) \<and> has_colon (te_end_time e))"

lemma fetch_length: "fetch R s n a (Suc k) [] = (r, v) \<Longrightarrow> length v \<le> k"
  by (auto simp: fetch_def get_attr_def split: option.splits)

lemma fetch_take: "fetch R s n a (Suc k) [] = (r, v) \<Longrightarrow> take k v = v"
  using fetch_length by fastforce

lemma fetch_take_16 [simp]: "fetch R s n a 16 [] = (r, v) \<Longrightarrow> take 15 v = v" "fetch R s n a 16 [] = (r, v) \<Longrightarrow> length v < 16"
  and fetch_take_8 [simp]: "fetch R s n a 8 [] = (r, v) \<Longrightarrow> take 7 v = v" "fetch R s n a 8 [] = (r, v) \<Longrightarrow> length v < 8"
  using fetch_take [of R s n a 15 r v] fetch_take [of R s n a 7 r v] fetch_length [of R s n a 15 r v] fetch_length [of R s n a 7 r v]
  by auto

lemmas entry_simps = new_entry_def entry_fits_def has_colon_def

lemma sleep_tgrows: "tgrows (sleep_ok flag) 1 s (update_sleep Y R flag i s)"
  by (auto simp: update_sleep_def Let_def sleep_ok_def entry_simps split: prod.splits intro!: tgrows_add)

lemma wifi1_tgrows: "tgrows wifi1_ok 1 s (update_wifi1 Y R i s)"
  by (auto simp: update_wifi1_def Let_def wifi1_ok_def entry_simps split: prod.splits intro!: tgrows_add)

lemma wifi_tgrows: "tgrows wifi_ok 1 s (update_wifi Y R s)"
  by (auto simp: update_wifi_def Let_def wifi_ok_def entry_simps split: prod.splits intro!: tgrows_add)

lemma tgrows_button: "tgrows P k s t \<Longrightarrow> tgrows P k s (button_op R op t)"
  by (simp add: tgrows_def)

lemma tgrows_check: "tgrows P k (s\<lparr>check_done := c\<rparr>) t \<Longrightarrow> tgrows P k s t"
  by (simp add: tgrows_def)

lemma led_tgrows: "tgrows led_ok 1 s (update_led Y R flag c s)"
proof -
  let ?f = "\<lambda>a k. fetch R s TIMER_LEDTIMER_ENTRY_NODE a k []"
  let ?e = "(new_entry CTC_LEDTIMER_TYPE)\<lparr>te_status := take 7 (snd (?f ''Status'' 8)), te_week_day := take 15 (snd (?f ''ControlCycle'' 16)),
    te_start_time := take 15 (snd (?f ''StartTime'' 16)), te_end_time := take 15 (snd (?f ''EndTime'' 16)),
    te_enable := take 7 (snd (?f ''Enable'' 8))\<rparr>"
  let ?c = "snd (?f ''ControlCycle'' 16) = ''DAY'' \<and> strstr (snd (?f ''StartTime'' 16)) '':'' \<noteq> None \<and> strstr (snd (?f ''EndTime'' 16)) '':'' \<noteq> None"
  have e: "?c \<Longrightarrow> led_ok ?e"
    using fetch_take_16 fetch_take_8 by (auto simp: led_ok_def entry_simps prod_eq_iff)
  have "\<exists>t \<in> {s, add_entry Y ?e (s\<lparr>check_done := 0\<rparr>)}. (t = s \<or> ?c) \<and>
      (update_led Y R flag c s = t \<or> (\<exists>op. update_led Y R flag c s = button_op R op t))"
    by (simp add: update_led_def Let_def case_prod_beta) blast
  then show ?thesis
    using e by (auto intro!: tgrows_button tgrows_check [OF tgrows_add])
qed


section \<open>The reset button\<close>

definition secs :: "string \<Rightarrow> int" where
  "secs b = atoi (take 4 b)"

text \<open>A reading that ends the loop: the button was let go, or held long enough, or cannot be read.\<close>

definition ends_press :: "reading \<Rightarrow> bool" where
  "ends_press x = (case x of Bytes b \<Rightarrow> secs b \<le> 0 \<or> PHASE2_SEC < secs b | _ \<Rightarrow> True)"

text \<open>How long the button was held: the last positive number read.\<close>

definition held :: "string list \<Rightarrow> reading \<Rightarrow> int" where
  "held bs x = (case x of Bytes b \<Rightarrow> if 0 < secs b then secs b else last (0 # map secs bs) | _ \<Rightarrow> last (0 # map secs bs))"


lemma reset_loop_held:
  assumes "ends_press x" "\<forall>b \<in> set bs. 0 < secs b \<and> secs b \<le> PHASE2_SEC" "0 < h0 \<or> h0 = 0 \<and> sec0 = 0"
  shows "\<exists>h sec. reset_loop (map Bytes bs @ x # rest) h0 sec0 = Some (h, sec) \<and>
    (if 0 < h then h else sec) = (case x of Bytes b \<Rightarrow> if 0 < secs b then secs b else last (h0 # map secs bs) | _ \<Rightarrow> last (h0 # map secs bs))"
  using assms(2,3)
proof (induction bs arbitrary: h0 sec0)
  case Nil
  then show ?case using assms(1) by (cases x) (auto simp: ends_press_def secs_def Let_def)
next
  case (Cons b bs)
  have b: "0 < secs b" "secs b \<le> PHASE2_SEC" using Cons.prems(1) by simp_all
  then have step: "reset_loop (map Bytes (b # bs) @ x # rest) h0 sec0 = reset_loop (map Bytes bs @ x # rest) (secs b) h0"
    by (simp add: secs_def Let_def)
  have l: "last (h0 # map secs (b # bs)) = last (secs b # map secs bs)" by simp
  show ?case unfolding step l using Cons.IH [of "secs b" h0] Cons.prems(1) b(1) by simp
qed

context attr_store
begin

lemma reset_button:
  fixes s :: "('s, 'm) ctl_scheme"
  assumes "get_isbootset_value R s = 0" "\<forall>b \<in> set bs. 0 < secs b \<and> secs b \<le> PHASE2_SEC" "ends_press x"
  shows "check_reset_button R (map Bytes bs @ x # rest) s = Some (reset_action R (held bs x) s)"
  using reset_loop_held [OF assms(3,2), of 0 0 rest] assms(1)
  by (auto simp: check_reset_button_def held_def Let_def)

lemma reset_action_effect:
  "ct_log (reset_action R sec s) = ct_log s @
     (if 20 \<le> sec then [DoValPut ''/tmp/restore_source'' ''1'', Sync, Commit SYSTEM_ENTRY_NODE]
      else if 2 \<le> sec then [DoValPut ''/tmp/restore_source'' ''2'', Sync, Commit SYSTEM_ENTRY_NODE] else [])"
  "has (ct_store s) SYSTEM_ENTRY_NODE \<Longrightarrow> 2 \<le> sec \<Longrightarrow>
     snd (fetch R (reset_action R sec s) SYSTEM_ENTRY_NODE ''reboot_type'' 4 []) = (if 20 \<le> sec then ''5'' else ''2'')"
proof -
  have t: "int_str 5 = ''5''" "int_str 2 = ''2''" by code_simp+
  show "ct_log (reset_action R sec s) = ct_log s @
     (if 20 \<le> sec then [DoValPut ''/tmp/restore_source'' ''1'', Sync, Commit SYSTEM_ENTRY_NODE]
      else if 2 \<le> sec then [DoValPut ''/tmp/restore_source'' ''2'', Sync, Commit SYSTEM_ENTRY_NODE] else [])"
    by (simp add: reset_action_def reset_button_action_def PHASE1_SEC_def PHASE2_SEC_def)
  assume "has (ct_store s) SYSTEM_ENTRY_NODE" "2 \<le> sec"
  then show "snd (fetch R (reset_action R sec s) SYSTEM_ENTRY_NODE ''reboot_type'' 4 []) = (if 20 \<le> sec then ''5'' else ''2'')"
    by (simp add: reset_action_def reset_button_action_def PHASE1_SEC_def PHASE2_SEC_def fetch_put_same t
        LONGRESET_BOOT2DEFSET_def BOOT2DEFSET_def)
qed

end

section \<open>Documented values\<close>

lemma hex_is_zero: "atoi (CHR ''0'' # CHR ''x'' # t) = 0"
  by (simp add: atoi_def is_space_def clamp_int_def is_digit_def digit_val_def cval_def)

lemma turn_no_mask: "wifi_turn R e 0 opt i x = x"
  by (cases x) (simp add: wifi_turn_def)

lemma turns_no_mask: "fold (wifi_turn R e 0 opt) is x = x"
  by (induction "is") (simp_all add: turn_no_mask)

lemma event_no_mask: "doWifiTimerEvent R (Some e) 0 opt s =
   (0, put_attr R TIMER_COMMON_NODE ''WifiEnableMask'' (take 7 (int_str (stored_mask R s))) s)"
  by (simp add: doWifiTimerEvent_def turns_no_mask WLAN_BITMASK_def Let_def)

section \<open>A concrete store\<close>

definition demo_store :: plain where
  "demo_store = (\<lambda>n. None)
     (TIMER_COMMON_NODE := Some [''WifiEnableMask'' \<mapsto> ''1'', ''HGWSleep'' \<mapsto> ''1''],
      INFO_WLAN_NODE := Some [''isExist'' \<mapsto> ''On''], ssid_node 0 := Some [''EnableSSID'' \<mapsto> ''1''],
      ssid_node 1 := Some [''EnableSSID'' \<mapsto> ''1''], SYSTEM_ENTRY_NODE := Some Map.empty,
      TIMER_LEDTIMER_ENTRY_NODE := Some [''CurrStatus'' \<mapsto> ''1'', ''ControlCycle'' \<mapsto> ''Day''])"

definition demo :: "plain timer" where
  "demo = \<lparr>ct_store = demo_store, ct_log = [], timer_data = [], check_done = 0, need_done = False, tm_mallocs = 0\<rparr>"

definition demo_env :: sys_env where
  "demo_env = \<lparr>sy_malloc = (\<lambda>_. True), sy_system = (\<lambda>_ _. 0)\<rparr>"

definition demo_led :: timer_entry_node where
  "demo_led = (new_entry CTC_LEDTIMER_TYPE)\<lparr>te_start_time := ''9:30'', te_end_time := ''21:20''\<rparr>"

definition demo_wifi :: timer_entry_node where
  "demo_wifi = (new_entry CTC_WIFITIMER1_TYPE)\<lparr>te_week_day := ''1'', te_start_time := ''0:0'', te_enable := ''False'', te_SSIDIndex := ''0x01''\<rparr>"

lemma demo_facts:
  "separate (=) all_ssids" "plain_has (ct_store demo) TIMER_COMMON_NODE" "plain_has (ct_store demo) SYSTEM_ENTRY_NODE"
  "plain_has (ct_store demo) TIMER_LEDTIMER_ENTRY_NODE" "mask_ok (stored_mask plain_ops demo)" "mask_ok 3"
  "wifi_todo plain_ops False 3 (stored_mask plain_ops demo) demo all_ssids = [0]"
  "HGWSleep plain_ops demo = ''1''" "timer_data demo = []"
  by code_simp+

section \<open>Properties\<close>






text \<open>The LEDs follow the LED timer: after any number of turns of the thread the recorded status is
  the action of the last start or end time that was met. Until then it is off, since the thread
  starts with the action \<open>BUTTON_OFF\<close>.\<close>

theorem led_follows_timer:
  fixes s :: "('s, 'm) timer_scheme"
  assumes "attr_store R same has" "has (ct_store s) TIMER_LEDTIMER_ENTRY_NODE"
    "fold (\<lambda>hm. led_entry R hm e) (hm # hms) (tv_led_action timer_vars_init, s) = (a, s')"
  shows "a = fold (led_next e) (hm # hms) BUTTON_OFF \<and>
    atoi (snd (fetch R s' TIMER_LEDTIMER_ENTRY_NODE ''CurrStatus'' 8 [])) = a"
  using attr_store.led_turns [OF assms(1,2) _ assms(3)] by (simp add: timer_vars_init_def BUTTON_OFF_def)

theorem led_follows_timer_witness:
  "atoi (snd (fetch plain_ops (snd (fold (\<lambda>hm. led_entry plain_ops hm demo_led) [(12, 0)] (0, demo)))
     TIMER_LEDTIMER_ENTRY_NODE ''CurrStatus'' 8 [])) = 0"
proof -
  have "fold (led_next demo_led) [(12, 0)] BUTTON_OFF = 0" by code_simp
  moreover obtain a t where "fold (\<lambda>hm. led_entry plain_ops hm demo_led) [(12, 0)] (0, demo) = (a, t)" by force
  ultimately show ?thesis
    using led_follows_timer [OF ps.attr_store_axioms, where s = demo and e = demo_led and hm = "(12, 0)" and hms = "[]" and a = a and s' = t]
      demo_facts(4) by (simp only: timer_vars_init_def timer_vars.simps snd_conv)
qed

text \<open>C31: The reset button acts on how long it was held, and the loop that measures this ends with the
  press: after readings of 1 to 20 seconds and one that ends the press, 20 seconds or more
  restore the factory settings, 2 seconds or more the default settings, and less does nothing.\<close>

theorem reset_button_acts:
  fixes s :: "('s, 'm) ctl_scheme"
  assumes "attr_store R same has" "has (ct_store s) SYSTEM_ENTRY_NODE" "get_isbootset_value R s = 0"
    "\<forall>b \<in> set bs. 0 < secs b \<and> secs b \<le> PHASE2_SEC" "ends_press x"
  shows "\<exists>s'. check_reset_button R (map Bytes bs @ x # rest) s = Some s' \<and>
    ct_log s' = ct_log s @
      (if 20 \<le> held bs x then [DoValPut ''/tmp/restore_source'' ''1'', Sync, Commit SYSTEM_ENTRY_NODE]
       else if 2 \<le> held bs x then [DoValPut ''/tmp/restore_source'' ''2'', Sync, Commit SYSTEM_ENTRY_NODE] else []) \<and>
    (2 \<le> held bs x \<longrightarrow>
       snd (fetch R s' SYSTEM_ENTRY_NODE ''reboot_type'' 4 []) = (if 20 \<le> held bs x then ''5'' else ''2''))"
  using attr_store.reset_button [OF assms(1,3-5)] attr_store.reset_action_effect(1) [OF assms(1), where s = s]
    attr_store.reset_action_effect(2) [OF assms(1,2)]
  by auto

theorem reset_button_acts_witness:
  "\<exists>s'. check_reset_button plain_ops (map Bytes [''1'', ''2'', ''3''] @ Bytes ''0'' # []) demo = Some s' \<and>
    ct_log s' = [DoValPut ''/tmp/restore_source'' ''2'', Sync, Commit SYSTEM_ENTRY_NODE]"
proof -
  have "get_isbootset_value plain_ops demo = 0" "\<forall>b \<in> set [''1'', ''2'', ''3'']. 0 < secs b \<and> secs b \<le> PHASE2_SEC"
    "ends_press (Bytes ''0'')" by code_simp+
  moreover have "held [''1'', ''2'', ''3''] (Bytes ''0'') = 3" "ct_log demo = []" by code_simp+
  ultimately show ?thesis
    using reset_button_acts [OF ps.attr_store_axioms, where s = demo and bs = "[''1'', ''2'', ''3'']" and x = "Bytes ''0''" and rest = "[]"]
      demo_facts(3) by auto
qed

text \<open>Values written as the type tables document them have no effect. The documented control cycle
  \<open>Day\<close> of the LED timer gives no timer; a mask such as \<open>0x01\<close> switches no SSID, since it is read as
  zero; and a sleep timer with the value documented as sleep leaves a gateway awake.\<close>

theorem documented_values_ignored:
  fixes s :: "('s, 'm) timer_scheme"
  shows "(snd (fetch R s TIMER_LEDTIMER_ENTRY_NODE ''ControlCycle'' 16 []) = ''Day'' \<longrightarrow>
      timer_data (update_led Y R flag c s) = timer_data s) \<and>
    (te_SSIDIndex e = ''0x'' @ digits \<longrightarrow> wifi1_entry R week hm e s \<in>
      {s, put_attr R TIMER_COMMON_NODE ''WifiEnableMask'' (take 7 (int_str (stored_mask R s))) s}) \<and>
    (HGWSleep R s = ''1'' \<longrightarrow> doSleepTimerEvent Y R ''False'' s = (-1, s))"
  by (simp add: update_led_def Let_def case_prod_beta wifi1_entry_def hex_is_zero event_no_mask doSleepTimerEvent_def
      strcasecmp_True_False)

theorem documented_values_ignored_witness:
  "timer_data (update_led demo_env plain_ops True 0 demo) = [] \<and>
   wifi1_entry plain_ops ''1'' (0, 0) demo_wifi demo \<in>
     {demo, put_attr plain_ops TIMER_COMMON_NODE ''WifiEnableMask'' (take 7 (int_str (stored_mask plain_ops demo))) demo} \<and>
   doSleepTimerEvent demo_env plain_ops ''False'' demo = (-1, demo)"
proof -
  have "snd (fetch plain_ops demo TIMER_LEDTIMER_ENTRY_NODE ''ControlCycle'' 16 []) = ''Day''" by code_simp
  moreover have "te_SSIDIndex demo_wifi = ''0x'' @ ''01''" by (simp add: demo_wifi_def)
  ultimately show ?thesis
    using documented_values_ignored [of plain_ops demo demo_env True 0 demo_wifi "''01''" "''1''" "(0, 0)"] demo_facts(8,9)
    by (simp only: simp_thms)
qed

end
