(* ===== verification/Util.thy ===== *)
theory Util
  imports CPrelude
begin

text \<open>
  The string helpers of \<open>service/cfg/utility.c\<close> that guard what the services hand to the
  shell and to configuration files: escaping, the check for injected commands, address and
  mask formats, adding and cutting parts of a string.

  An output buffer is its size; the text a function leaves in it is part of the result, and
  a write past the size is a fault. \<open>regexec\<close> with the two patterns of the source is a
  search for a position from which the pattern matches.
\<close>

section \<open>Characters and numbers\<close>

definition isNumber :: "string \<Rightarrow> bool" where
  "isNumber buf \<longleftrightarrow> buf \<noteq> [] \<and> list_all is_digit buf"

definition string_tolower :: "string \<Rightarrow> string" where
  "string_tolower s = map lower_char s"

definition string_toUper :: "string \<Rightarrow> string" where
  "string_toUper s = map upper_char s"

text \<open>The digits are written from the end of a static array of seven characters.\<close>

definition itoa :: "int \<Rightarrow> string cres" where
  "itoa i = (if 6 < length (int_str i) then Fault BufferOverflow else Ret (int_str i))"

section \<open>Escaping\<close>

definition needs_escape :: "char \<Rightarrow> bool" where
  "needs_escape c \<longleftrightarrow> c = CHR 0x60"

text \<open>The copying loop: after each character of the input the space is checked; when it is
  used up the function returns the rest of the input.\<close>

fun escape_loop :: "nat \<Rightarrow> string \<Rightarrow> string \<Rightarrow> string cres" where
  "escape_loop len out [] = Ret out"
| "escape_loop len out (c # cs) =
     (let out' = out @ (if needs_escape c then [CHR 0x5C, c] else [c])
      in if len < length out' then Fault BufferOverflow
         else if len \<le> length out' then Ret cs
         else escape_loop len out' cs)"

text \<open>The distance between the first and the last back quote, if there is one.\<close>

definition quote_span :: "string \<Rightarrow> nat option" where
  "quote_span inp =
     (let rest = dropWhile (\<lambda>c. c \<noteq> CHR 0x60) inp
      in if rest = [] then None
         else Some (length (dropWhile (\<lambda>c. c \<noteq> CHR 0x60) (rev rest)) - 1))"

definition escape_special_character :: "string \<Rightarrow> nat \<Rightarrow> string cres" where
  "escape_special_character inp len =
     (case quote_span inp of
        None \<Rightarrow> Ret inp
      | Some d \<Rightarrow> if d \<le> 1 then Ret inp else escape_loop len [] inp)"

definition injection_chars :: string where
  "injection_chars = [CHR '';'', CHR ''&'', CHR ''|'', CHR ''$'', CHR ''<'', CHR 0x27, CHR 0x5C, CHR ''!'', CHR ''#'']"

definition check_injection_code :: "char \<Rightarrow> int" where
  "check_injection_code ch = (if ch \<in> set injection_chars then -1 else 0)"

text \<open>The loop of \<open>check_injection_code_command\<close> from index \<open>idx\<close> of a command of length
  \<open>n\<close>: an ampersand may stand at the last two places and a hash at the first.\<close>

fun injection_loop :: "nat \<Rightarrow> nat \<Rightarrow> string \<Rightarrow> int" where
  "injection_loop n idx [] = 0"
| "injection_loop n idx (ch # cs) =
     (if check_injection_code ch = -1
      then if ch = CHR ''&'' \<and> 2 \<le> n \<and> (n - 1 = idx \<or> n - 2 = idx) then injection_loop n (Suc idx) cs
           else if ch = CHR ''#'' \<and> 1 \<le> n \<and> idx = 0 then injection_loop n (Suc idx) cs
           else -1
      else injection_loop n (Suc idx) cs)"

definition check_injection_code_command :: "string \<Rightarrow> int" where
  "check_injection_code_command cmd =
     (if cmd = [] then 0 else injection_loop (length cmd) 0 cmd)"

text \<open>The command line \<open>system_escape\<close> gives to \<open>system\<close>, or \<open>None\<close> when it refuses.\<close>

definition system_escape :: "string \<Rightarrow> string option cres" where
  "system_escape cmd =
     (if check_injection_code_command cmd = -1 then Ret None
      else cbind (escape_special_character cmd 1025) (\<lambda>pcmd. Ret (Some pcmd)))"

text \<open>The text \<open>fputs_escape\<close> writes to the script, or \<open>None\<close>.\<close>

definition fputs_escape :: "string \<Rightarrow> string option cres" where
  "fputs_escape cmd =
     (if check_injection_code_command cmd = -1 then Ret None
      else cbind (escape_special_character cmd 1025) (\<lambda>pcmd. Ret (Some pcmd)))"

definition fputs_escape_normal_file :: "string \<Rightarrow> string cres" where
  "fputs_escape_normal_file cmd = escape_special_character cmd 1025"

definition NEED_C :: "char \<Rightarrow> bool" where
  "NEED_C c \<longleftrightarrow> c \<in> {CHR 0x60, CHR 0x22, CHR 0x5C, CHR ''$''}"

text \<open>The loop of \<open>escape_param\<close>; the caller's buffer is zero-filled, so the text in it ends
  where the loop stops writing.\<close>

fun escape_param_loop :: "int \<Rightarrow> string \<Rightarrow> string" where
  "escape_param_loop remain [] = []"
| "escape_param_loop remain (c # cs) =
     (if 2 \<le> remain
      then if NEED_C c then CHR 0x5C # c # escape_param_loop (remain - 2) cs
           else c # escape_param_loop (remain - 1) cs
      else [])"

definition escape_param :: "string \<Rightarrow> int \<Rightarrow> string" where
  "escape_param chk_val out_val_len =
     (if out_val_len - 1 < 2 then [] else escape_param_loop (out_val_len - 1) chk_val)"

section \<open>Addresses\<close>

text \<open>One to three digits, then the rest.\<close>

definition octet :: "string \<Rightarrow> string option" where
  "octet s = (let d = takeWhile is_digit s
      in if 1 \<le> length d \<and> length d \<le> 3 then Some (drop (length d) s) else None)"

fun octets_dot :: "nat \<Rightarrow> string \<Rightarrow> bool" where
  "octets_dot 0 s \<longleftrightarrow> s \<noteq> [] \<and> is_digit (hd s)"
| "octets_dot (Suc n) s \<longleftrightarrow>
     (case octet s of
        Some (c # r) \<Rightarrow> c = CHR ''.'' \<and> octets_dot n r
      | _ \<Rightarrow> False)"

fun search :: "(string \<Rightarrow> bool) \<Rightarrow> string \<Rightarrow> bool" where
  "search m [] = m []"
| "search m (c # s) = (m (c # s) \<or> search m s)"

definition check_ip_format :: "string \<Rightarrow> bool" where
  "check_ip_format ip_arg = search (octets_dot 3) (take 15 ip_arg)"

definition is_hex :: "char \<Rightarrow> bool" where
  "is_hex c \<longleftrightarrow> is_digit c \<or> c \<in> set ''abcdefABCDEF''"

fun mac_at :: "nat \<Rightarrow> string \<Rightarrow> bool" where
  "mac_at 0 (a # b # s) \<longleftrightarrow> is_hex a \<and> is_hex b"
| "mac_at (Suc n) (a # b # c # s) \<longleftrightarrow> is_hex a \<and> is_hex b \<and> c = CHR '':'' \<and> mac_at n s"
| "mac_at _ _ = False"

definition check_mac_format :: "string \<Rightarrow> bool" where
  "check_mac_format mac_arg = search (mac_at 5) (take 23 mac_arg)"

text \<open>The bits of a mask from the lowest: \<open>None\<close> when a zero follows a one, otherwise the
  number of ones.\<close>

fun mask_scan :: "nat \<Rightarrow> u32 \<Rightarrow> nat \<Rightarrow> nat option" where
  "mask_scan 0 m cnt = Some cnt"
| "mask_scan (Suc n) m cnt =
     (if m AND 1 = 0 then if cnt \<noteq> 0 then None else mask_scan n (drop_bit 1 m) cnt
      else mask_scan n (drop_bit 1 m) (Suc cnt))"

fun binary_mask :: "u32 \<Rightarrow> string list \<Rightarrow> u32" where
  "binary_mask b [] = b"
| "binary_mask b [t] = b OR word_of_int (atoi t)"
| "binary_mask b (t # ts) = binary_mask (push_bit 8 (b OR word_of_int (atoi t))) ts"

text \<open>The result and the decimal text of the prefix length, cut to the caller's buffer.\<close>

definition check_mask_format :: "string \<Rightarrow> nat \<Rightarrow> string option cres" where
  "check_mask_format mask_arg len =
     (let mask = take 15 mask_arg
      in if \<not> check_ip_format mask then Ret None
         else
           let p = take 4 (strtok_all CHR ''.'' mask)
           in if length p < 4 then Fault NullDeref
              else Ret (map_option (\<lambda>n. take (len - 1) (nat_str n)) (mask_scan 32 (binary_mask 0 p) 0)))"

definition check_ip_range :: "string \<Rightarrow> string \<Rightarrow> bool cres" where
  "check_ip_range ip_begin_arg ip_end_arg =
     (let b = take 15 ip_begin_arg; e = take 15 ip_end_arg
      in if b = ''0.0.0.0'' \<and> e = ''0.0.0.0'' then Ret True
         else
           let bt = strtok_all CHR ''.'' b; et = strtok_all CHR ''.'' e
           in if length bt < 4 \<or> length et < 4 then Fault NullDeref
              else Ret ((\<forall>i < 3. atoi (bt ! i) = atoi (et ! i)) \<and> atoi (bt ! 3) \<le> atoi (et ! 3)))"

definition MAC_STR_DOT_LEN :: nat where "MAC_STR_DOT_LEN = 17"
definition MAC_STR_LEN :: nat where "MAC_STR_LEN = 12"

text \<open>\<open>mac_add_dot\<close>: six groups of two, a colon
  after each but the last; a colon that is already there is skipped.\<close>

fun mac_groups :: "nat \<Rightarrow> string \<Rightarrow> string cres" where
  "mac_groups 0 s = Ret []"
| "mac_groups (Suc n) (a # b # s) =
     (if n = 0 then Ret [a, b]
      else cbind (mac_groups n (case s of c # s' \<Rightarrow> if c = CHR '':'' then s' else s | [] \<Rightarrow> s))
             (\<lambda>r. Ret (a # b # CHR '':'' # r)))"
| "mac_groups (Suc n) s = Fault ReadPastEnd"

definition mac_add_dot :: "string \<Rightarrow> string cres" where
  "mac_add_dot old_mac = mac_groups 6 old_mac"

definition mac_rm_dot :: "string \<Rightarrow> string" where
  "mac_rm_dot old_mac = take MAC_STR_LEN (filter (\<lambda>c. c \<noteq> CHR '':'') (take MAC_STR_DOT_LEN old_mac))"

section \<open>Parts of a string\<close>

fun strcasestr :: "string \<Rightarrow> string \<Rightarrow> nat option" where
  "strcasestr [] p = (if p = [] then Some 0 else None)"
| "strcasestr (c # s) p =
     (if prefix_of (lower p) (lower (c # s)) then Some 0 else map_option Suc (strcasestr s p))"

definition find_part :: "bool \<Rightarrow> string \<Rightarrow> string \<Rightarrow> nat option" where
  "find_part flag s p = (if flag then map_option (\<lambda>(a, b). length a) (strstr s p) else strcasestr s p)"

text \<open>The result code and the text left in the output buffer.\<close>

definition cutString :: "string \<Rightarrow> int \<Rightarrow> string \<Rightarrow> bool \<Rightarrow> (int \<times> string) cres" where
  "cutString inp outlen cutp flag =
     (case find_part flag inp cutp of
        None \<Rightarrow> Ret (-1, [])
      | Some p \<Rightarrow>
          if outlen < int (length inp) - int (length cutp) then Ret (-1, [])
          else if outlen \<le> int (length inp) - int (length cutp) then Fault BufferOverflow
          else Ret (0, take p inp @ drop (p + length cutp) inp))"

definition addString :: "string \<Rightarrow> int \<Rightarrow> string \<Rightarrow> bool \<Rightarrow> (int \<times> string) cres" where
  "addString inp outlen add flag =
     (if find_part flag inp add \<noteq> None then Ret (-1, [])
      else if outlen < int (length inp) + int (length add) then Ret (-1, [])
      else if outlen \<le> int (length inp) + int (length add) then Fault BufferOverflow
      else Ret (0, inp @ add))"

definition get_entry_number_cfg2 :: "string \<Rightarrow> string \<Rightarrow> int option" where
  "get_entry_number_cfg2 buffer keyword =
     (case strstr buffer keyword of
        None \<Rightarrow> None
      | Some (a, b) \<Rightarrow> Some (atoi (drop (length keyword) b)))"

end
