(* ===== verification/CfgSave.thy ===== *)
theory CfgSave
  imports CfgObj Util
begin

text \<open>
  Writing objects to files (\<open>service/cfg/cfg_obj.c\<close>, lines 662 to 755 and 1129 to 1228,
  \<open>cfg_save_object\<close> of \<open>cfg_cli.c\<close>): the escaping of attribute values, the XML text of the
  tree and the attribute files. A function that prints to a stream returns the text.
\<close>

section \<open>Attribute values\<close>

definition xml_escape :: "char \<Rightarrow> string" where
  "xml_escape c =
     (if c = CHR ''&'' then ''&amp;''
      else if c = CHR ''<'' then ''&lt;''
      else if c = CHR ''>'' then ''&gt;''
      else if c = CHR 0x22 then ''&quot;''
      else [c])"

text \<open>The loop of \<open>checkvalue\<close> on a zero-filled buffer of \<open>n\<close> bytes that holds \<open>buf\<close>.\<close>

fun checkvalue_loop :: "nat \<Rightarrow> string \<Rightarrow> string \<Rightarrow> string" where
  "checkvalue_loop n buf [] = buf"
| "checkvalue_loop n buf (c # cs) =
     (if length buf < n - 1 then checkvalue_loop n (take (n - 1) (buf @ xml_escape c)) cs
      else checkvalue_loop n buf cs)"

text \<open>After the loop a NUL is written one place behind the terminating NUL.\<close>

definition checkvalue :: "string \<Rightarrow> nat \<Rightarrow> string cres" where
  "checkvalue attrvalue n =
     (let buf = checkvalue_loop n [] attrvalue
      in if n \<le> length buf + 1 then Fault BufferOverflow else Ret buf)"

definition xmlFormatFunc :: "string \<Rightarrow> nat \<Rightarrow> string cres" where
  "xmlFormatFunc attrvalue n = checkvalue attrvalue n"

section \<open>The tree as XML\<close>

definition is_flag :: "u32 \<Rightarrow> cfg_node_type \<Rightarrow> bool" where
  "is_flag f t \<longleftrightarrow> type_flag t AND f \<noteq> 0"

text \<open>The name of the element of an object.\<close>

definition save_tag :: "cfg_node_type \<Rightarrow> u32 \<Rightarrow> string" where
  "save_tag t i =
     (if is_flag CFG_TYPE_FLAG_MULTIPLE t then type_name t @ int_str (sint (cfg_obj_id i - 1))
      else if type_name t = ''root'' then ''ROMFILE''
      else type_name t)"

fun save_attrs :: "attrs \<Rightarrow> string cres" where
  "save_attrs [] = Ret []"
| "save_attrs ((n, v) # as) =
     cbind (xmlFormatFunc v 1024) (\<lambda>e.
     cbind (save_attrs as) (\<lambda>r.
       Ret (CHR '' '' # n @ CHR ''='' # CHR 0x22 # e @ CHR 0x22 # r)))"

definition NL :: string where "NL = [CHR '' '', CHR 0x0A]"

text \<open>\<open>cfg_obj_save_tree\<close> on an object and the brothers that follow it.\<close>

fun cfg_obj_save_tree :: "cfg_env \<Rightarrow> cfg_node_obj list \<Rightarrow> string cres" where
  "cfg_obj_save_tree E [] = Ret []"
| "cfg_obj_save_tree E (CfgObj i p ch # bs) =
     (case cfg_type_from_oid E i of
        None \<Rightarrow> Ret []
      | Some type \<Rightarrow>
          if is_flag CFG_TYPE_FLAG_MEMORY type then cfg_obj_save_tree E bs
          else
            cbind (save_attrs p) (\<lambda>as.
            cbind (if ch \<noteq> []
                   then cbind (cfg_obj_save_tree E ch) (\<lambda>sub.
                          Ret (CHR ''>'' # NL @ sub @ ''</'' @ save_tag type i @ CHR ''>'' # NL))
                   else Ret (''/>'' @ NL)) (\<lambda>body.
            cbind (cfg_obj_save_tree E bs) (\<lambda>rest.
              Ret (CHR ''<'' # save_tag type i @ as @ (if p \<noteq> [] then '' '' else []) @ body @ rest)))))"

text \<open>\<open>cfg_save_object\<close>, with the text it writes, under the pool lock. The root is the tree
  of the shared pool; \<open>opened\<close> says whether \<open>fopen\<close> gave a stream.\<close>

definition cfg_save_object :: "cfg_env \<Rightarrow> bool \<Rightarrow> cfg_state \<Rightarrow> ((int \<times> string) \<times> cfg_state) cres" where
  "cfg_save_object E opened s =
     (if \<not> opened then Ret ((-1, []), s)
      else
        let s1 = cfg_obj_lock s
        in cbind (case cfg_obj_root s1 of
                    RootNull \<Rightarrow> Ret []
                  | RootDangling \<Rightarrow> Fault UseAfterFree
                  | RootLive root \<Rightarrow> cfg_obj_save_tree E [root]) (\<lambda>text.
             Ret ((0, text), cfg_obj_unlock s1)))"

section \<open>Attribute files\<close>

datatype attr_format = NO_QMARKS | QMARKS | NO_ATTRIBUTE | OTHER_FORMAT

definition ATTR_LINE :: nat where "ATTR_LINE = 2177"
definition CMD_BUF :: nat where "CMD_BUF = 2049"

text \<open>One line, cut to the line buffer; \<open>prev\<close> is what the buffer held.\<close>

definition attr_line :: "attr_format \<Rightarrow> string \<Rightarrow> string \<times> string \<Rightarrow> string cres" where
  "attr_line type prev a =
     (case type of
        NO_QMARKS \<Rightarrow> Ret (take (ATTR_LINE - 1) (fst a @ CHR ''='' # snd a @ [CHR 0x0A]))
      | QMARKS \<Rightarrow>
          cbind (escape_special_character (snd a) CMD_BUF) (\<lambda>e.
            Ret (take (ATTR_LINE - 1) (fst a @ CHR ''='' # CHR 0x22 # e @ [CHR 0x22, CHR 0x0A])))
      | NO_ATTRIBUTE \<Rightarrow> Ret (take (ATTR_LINE - 1) (snd a @ [CHR 0x0A]))
      | OTHER_FORMAT \<Rightarrow> Ret prev)"

text \<open>The loop over the attributes; \<open>clear\<close> says whether the buffer is cleared each time (in
  \<open>cfg_save_attrs_to_file_fp\<close> it is).\<close>

fun attr_lines :: "bool \<Rightarrow> attr_format \<Rightarrow> string \<Rightarrow> attrs \<Rightarrow> string cres" where
  "attr_lines clear type buf [] = Ret []"
| "attr_lines clear type buf (a # as) =
     cbind (attr_line type (if clear then [] else buf) a) (\<lambda>l.
     cbind (attr_lines clear type l as) (\<lambda>r. Ret (l @ r)))"

definition save_attrs_of ::
  "bool \<Rightarrow> cfg_env \<Rightarrow> string \<Rightarrow> attr_format \<Rightarrow> cfg_state \<Rightarrow> ((int \<times> string) \<times> cfg_state) cres" where
  "save_attrs_of clear E path type s =
     (let s1 = cfg_obj_lock s
      in cbind (cfg_obj_get_obj E s1 path) (\<lambda>p.
           case p of
             None \<Rightarrow> Ret ((-1, []), cfg_obj_unlock s1)
           | Some node \<Rightarrow>
               cbind (deref s1 node) (\<lambda>obj.
               cbind (attr_lines clear type [] (obj_private obj)) (\<lambda>text.
                 Ret ((0, text), cfg_obj_unlock s1)))))"

definition cfg_save_attrs_to_file ::
  "cfg_env \<Rightarrow> string \<Rightarrow> bool \<Rightarrow> attr_format \<Rightarrow> cfg_state \<Rightarrow> ((int \<times> string) \<times> cfg_state) cres" where
  "cfg_save_attrs_to_file E path opened type s =
     (if \<not> opened then Ret ((-1, []), s) else save_attrs_of False E path type s)"

definition cfg_save_attrs_to_file_fp ::
  "cfg_env \<Rightarrow> string \<Rightarrow> bool \<Rightarrow> attr_format \<Rightarrow> cfg_state \<Rightarrow> ((int \<times> string) \<times> cfg_state) cres" where
  "cfg_save_attrs_to_file_fp E path opened type s =
     (if \<not> opened then Ret ((-1, []), s) else save_attrs_of True E path type s)"

section \<open>Escaping loses nothing\<close>

definition xml_text :: "string \<Rightarrow> string" where
  "xml_text v = concat (map xml_escape v)"

lemma xml_text_simps [simp]: "xml_text [] = []" "xml_text (c # cs) = xml_escape c @ xml_text cs"
  by (simp_all add: xml_text_def)

lemma checkvalue_loop_text:
  "length buf \<le> n - 1 \<Longrightarrow> checkvalue_loop n buf v = take (n - 1) (buf @ xml_text v)"
proof (induction v arbitrary: buf)
  case (Cons c v)
  show ?case
  proof (cases "length buf < n - 1")
    case True
    let ?b = "take (n - 1) (buf @ xml_escape c)"
    have "checkvalue_loop n ?b v = take (n - 1) (?b @ xml_text v)" by (rule Cons.IH) simp
    also have "\<dots> = take (n - 1) (buf @ xml_text (c # v))" by (simp add: min_def)
    finally show ?thesis using True by simp
  next
    case False
    with Cons.prems have "length buf = n - 1" by simp
    with Cons show ?thesis by simp
  qed
qed simp

lemma checkvalue_eq:
  "checkvalue v n = (if length (xml_text v) + 1 < n then Ret (xml_text v) else Fault BufferOverflow)"
  by (auto simp: checkvalue_def checkvalue_loop_text Let_def)

text \<open>A reader that replaces the entities.\<close>

function xml_unescape :: "string \<Rightarrow> string" where
  "xml_unescape s =
     (case s of
        [] \<Rightarrow> []
      | c # r \<Rightarrow>
          if prefix_of ''&amp;'' s then CHR ''&'' # xml_unescape (drop 5 s)
          else if prefix_of ''&lt;'' s then CHR ''<'' # xml_unescape (drop 4 s)
          else if prefix_of ''&gt;'' s then CHR ''>'' # xml_unescape (drop 4 s)
          else if prefix_of ''&quot;'' s then CHR 0x22 # xml_unescape (drop 6 s)
          else c # xml_unescape r)"
  by pat_completeness auto
termination by (relation "measure length") auto

declare xml_unescape.simps [simp del]

lemma xml_unescape_text: "xml_unescape (xml_text v) = v"
proof (induction v)
  case Nil
  then show ?case by (simp add: xml_unescape.simps)
next
  case (Cons c v)
  then show ?case by (subst xml_unescape.simps) (auto simp: xml_escape_def)
qed

lemma xml_text_clean: "CHR ''<'' \<notin> set (xml_text v) \<and> CHR ''>'' \<notin> set (xml_text v) \<and> CHR 0x22 \<notin> set (xml_text v)"
  by (induction v) (auto simp: xml_escape_def)

section \<open>Volatile objects\<close>

text \<open>The tree with the attributes and the children of volatile objects removed.\<close>

fun blank_memory :: "cfg_env \<Rightarrow> cfg_node_obj list \<Rightarrow> cfg_node_obj list" where
  "blank_memory E [] = []"
| "blank_memory E (CfgObj i p ch # bs) =
     (case cfg_type_from_oid E i of
        Some t \<Rightarrow>
          if is_flag CFG_TYPE_FLAG_MEMORY t then CfgObj i [] [] # blank_memory E bs
          else CfgObj i p (blank_memory E ch) # blank_memory E bs
      | None \<Rightarrow> CfgObj i p (blank_memory E ch) # blank_memory E bs)"

lemma blank_memory_Nil: "blank_memory E os = [] \<longleftrightarrow> os = []"
  by (cases "(E, os)" rule: blank_memory.cases) (auto split: option.splits)

lemma save_blank_memory: "cfg_obj_save_tree E (blank_memory E os) = cfg_obj_save_tree E os"
proof (induction E os rule: blank_memory.induct)
  case (2 E i p ch bs)
  then show ?case by (auto simp: blank_memory_Nil split: option.splits)
qed simp

end
