(* ===== verification/CfgCli.thy ===== *)
theory CfgCli
  imports CfgSave
begin

text \<open>
  The client interface of the configuration service (\<open>service/cfg/cfg_cli.c\<close>) and the
  default operations of \<open>cfg_type.c\<close>: dispatch to the operations of the type, the lock file
  of a commit, loading the saved XML file, and the translation of the node names of web
  pages to object paths.

  The handlers a type table names are code of the services; they are the argument \<open>hooks\<close>.
  An XML file is the tree the XML parser builds of it.
\<close>

section \<open>The default operations of a type\<close>

definition cfg_type_default_func_create :: "cfg_env \<Rightarrow> string \<Rightarrow> cfg_state \<Rightarrow> (int \<times> cfg_state) cres" where
  "cfg_type_default_func_create E path s = cfg_obj_create_object E path s"

definition cfg_type_default_func_delete :: "cfg_env \<Rightarrow> string \<Rightarrow> cfg_state \<Rightarrow> (int \<times> cfg_state) cres" where
  "cfg_type_default_func_delete E path s = cfg_obj_delete_object E path s"

definition cfg_type_default_func_set ::
  "cfg_env \<Rightarrow> string \<Rightarrow> string \<Rightarrow> string \<Rightarrow> cfg_state \<Rightarrow> (int \<times> cfg_state) cres" where
  "cfg_type_default_func_set E path attr val s = cfg_obj_set_object_attr E (Some path) (Some attr) (Some val) s"

definition cfg_type_default_func_get ::
  "cfg_env \<Rightarrow> string \<Rightarrow> string \<Rightarrow> int \<Rightarrow> cfg_state \<Rightarrow> ((int \<times> string option) \<times> cfg_state) cres" where
  "cfg_type_default_func_get E path attr sz s = cfg_obj_get_object_attr E (Some path) (Some attr) sz s"

definition cfg_type_default_func_commit :: "string \<Rightarrow> cfg_state \<Rightarrow> (int \<times> cfg_state) cres" where
  "cfg_type_default_func_commit path s = Ret (0, s)"

definition cfg_type_default_func_query ::
  "cfg_env \<Rightarrow> string \<Rightarrow> string option \<Rightarrow> bool \<Rightarrow> cfg_state \<Rightarrow> ((int \<times> u32 list) \<times> cfg_state) cres" where
  "cfg_type_default_func_query E path subtype want_id s = cfg_obj_query_object E path subtype want_id s"

section \<open>Dispatch to the operations of a type\<close>

record hooks =
  hook_create :: "string \<Rightarrow> string \<Rightarrow> cfg_state \<Rightarrow> (int \<times> cfg_state) cres"
  hook_delete :: "string \<Rightarrow> string \<Rightarrow> cfg_state \<Rightarrow> (int \<times> cfg_state) cres"
  hook_set :: "string \<Rightarrow> string \<Rightarrow> string \<Rightarrow> string \<Rightarrow> cfg_state \<Rightarrow> (int \<times> cfg_state) cres"
  hook_get :: "string \<Rightarrow> string \<Rightarrow> string \<Rightarrow> int \<Rightarrow> cfg_state \<Rightarrow> ((int \<times> string option) \<times> cfg_state) cres"
  hook_commit :: "string \<Rightarrow> string \<Rightarrow> cfg_state \<Rightarrow> (int \<times> cfg_state) cres"
  hook_query :: "string \<Rightarrow> string \<Rightarrow> string option \<Rightarrow> bool \<Rightarrow> cfg_state \<Rightarrow> ((int \<times> u32 list) \<times> cfg_state) cres"

text \<open>The operation of the type a path leads to, if it has one.\<close>

definition type_op :: "cfg_env \<Rightarrow> (cfg_node_ops \<Rightarrow> fptr option) \<Rightarrow> string \<Rightarrow> fptr option cres" where
  "type_op E sel path =
     cbind (cfg_type_query (env_types E) path) (\<lambda>type.
       Ret (case type of
              None \<Rightarrow> None
            | Some t \<Rightarrow> (case type_ops t of None \<Rightarrow> None | Some ops \<Rightarrow> sel ops)))"

definition cfg_create_object :: "hooks \<Rightarrow> cfg_env \<Rightarrow> string \<Rightarrow> cfg_state \<Rightarrow> (int \<times> cfg_state) cres" where
  "cfg_create_object H E path s =
     cbind (type_op E op_create path) (\<lambda>f.
       case f of
         None \<Rightarrow> Ret (-1, s)
       | Some DefaultFunc \<Rightarrow> cfg_type_default_func_create E path s
       | Some (Handler h) \<Rightarrow> hook_create H h path s)"

definition cfg_check_create_object :: "cfg_env \<Rightarrow> string \<Rightarrow> cfg_state \<Rightarrow> (int \<times> cfg_state) cres" where
  "cfg_check_create_object E path s =
     cbind (cfg_obj_query_object E path None False s) (\<lambda>((q, _), s1).
       if 0 < q then Ret (0, s1)
       else cbind (cfg_type_query (env_types E) path) (\<lambda>type.
         case type of
           None \<Rightarrow> Ret (-1, s1)
         | Some t \<Rightarrow>
             if cfg_type_is_dynamic_type (env_types E) (type_id t)
             then cbind (cfg_obj_create_object E path s1) (\<lambda>(r, s2).
                    Ret (if r \<le> 0 then -1 else 0, s2))
             else Ret (-1, s1)))"

definition cfg_delete_object :: "hooks \<Rightarrow> cfg_env \<Rightarrow> string \<Rightarrow> cfg_state \<Rightarrow> (int \<times> cfg_state) cres" where
  "cfg_delete_object H E path s =
     cbind (type_op E op_delete path) (\<lambda>f.
       case f of
         None \<Rightarrow> Ret (-1, s)
       | Some DefaultFunc \<Rightarrow> cfg_type_default_func_delete E path s
       | Some (Handler h) \<Rightarrow> hook_delete H h path s)"

definition cfg_query_object ::
  "hooks \<Rightarrow> cfg_env \<Rightarrow> string \<Rightarrow> string option \<Rightarrow> bool \<Rightarrow> cfg_state \<Rightarrow> ((int \<times> u32 list) \<times> cfg_state) cres" where
  "cfg_query_object H E path subtype want_id s =
     cbind (type_op E op_query path) (\<lambda>f.
       case f of
         None \<Rightarrow> Ret ((-1, []), s)
       | Some DefaultFunc \<Rightarrow> cfg_type_default_func_query E path subtype want_id s
       | Some (Handler h) \<Rightarrow> hook_query H h path subtype want_id s)"

definition cfg_get_object_attr ::
  "hooks \<Rightarrow> cfg_env \<Rightarrow> string \<Rightarrow> string \<Rightarrow> int \<Rightarrow> cfg_state \<Rightarrow> ((int \<times> string option) \<times> cfg_state) cres" where
  "cfg_get_object_attr H E path attr sz s =
     cbind (type_op E op_get path) (\<lambda>f.
       case f of
         None \<Rightarrow> Ret ((-1, None), s)
       | Some DefaultFunc \<Rightarrow> cfg_type_default_func_get E path attr sz s
       | Some (Handler h) \<Rightarrow> hook_get H h path attr sz s)"

definition cfg_set_object_attr ::
  "hooks \<Rightarrow> cfg_env \<Rightarrow> string \<Rightarrow> string \<Rightarrow> string \<Rightarrow> cfg_state \<Rightarrow> (int \<times> cfg_state) cres" where
  "cfg_set_object_attr H E path attr val s =
     cbind (type_op E op_set path) (\<lambda>f.
       case f of
         None \<Rightarrow> Ret (-1, s)
       | Some DefaultFunc \<Rightarrow> cfg_type_default_func_set E path attr val s
       | Some (Handler h) \<Rightarrow> hook_set H h path attr val s)"

section \<open>Commit\<close>

text \<open>The name of the lock file: the text in front of the second dot of the path, in a
  buffer of 128 bytes. \<open>None\<close> when the path has no dot.\<close>

definition cfg_commit_lock :: "string \<Rightarrow> string option cres" where
  "cfg_commit_lock path =
     (let node = take 127 path;
          first = takeWhile (\<lambda>c. c \<noteq> CHR ''.'') node;
          after = drop (Suc (length first)) node;
          second = takeWhile (\<lambda>c. c \<noteq> CHR ''.'') after;
          dots = length (filter (\<lambda>c. c = CHR ''.'') node)
      in if 127 \<le> length path \<and> dots < 2 then Fault ReadPastEnd
         else if dots = 0 then Ret None
         else let f = ''/tmp/'' @ first @ CHR ''.'' # second @ ''.lock''
              in if 128 \<le> length f then Fault BufferOverflow else Ret (Some f))"

text \<open>\<open>opened\<close> says whether the lock file can be opened.\<close>

definition cfg_commit_object ::
  "hooks \<Rightarrow> cfg_env \<Rightarrow> (string \<Rightarrow> bool) \<Rightarrow> string \<Rightarrow> cfg_state \<Rightarrow> (int \<times> cfg_state) cres" where
  "cfg_commit_object H E opened path s =
     cbind (type_op E op_commit path) (\<lambda>f.
       case f of
         None \<Rightarrow> Ret (-1, s)
       | Some h \<Rightarrow>
           cbind (cfg_commit_lock path) (\<lambda>l.
             case l of
               None \<Rightarrow> Ret (-1, s)
             | Some lock \<Rightarrow>
                 if \<not> opened lock then Ret (-1, s)
                 else (case h of
                         DefaultFunc \<Rightarrow> cfg_type_default_func_commit path s
                       | Handler n \<Rightarrow> hook_commit H n path s)))"

section \<open>Loading a saved file\<close>

datatype mxml = MxNode (mx_name: string) (mx_attrs: attrs) (mx_child: "mxml list")

text \<open>The number behind \<open>entry\<close> or \<open>pvc\<close> counts from 0, instance numbers count from 1.\<close>

definition numbered_tag :: "string \<Rightarrow> string \<Rightarrow> string cres" where
  "numbered_tag base t =
     (if prefix_of base t \<and> length base < length t \<and> is_digit (t ! length base)
      then let num = atoi (drop (length base) t)
           in if num = 2 ^ 31 - 1 then Fault IntOverflow
              else Ret (base @ CHR ''.'' # int_str (num + 1))
      else Ret t)"

definition tag_component :: "string \<Rightarrow> string cres" where
  "tag_component s =
     cbind (numbered_tag ''entry'' (cfg_str_to_lower s)) (\<lambda>t. numbered_tag ''pvc'' t)"

text \<open>\<open>cfg_xml_node_to_path\<close> on the element names from the node up to the document root. The
  names are copied into rows of 32 bytes that are not cleared first; the last row gets the
  name of the root type.\<close>

definition cfg_xml_node_to_path :: "type_db \<Rightarrow> string list \<Rightarrow> string cres" where
  "cfg_xml_node_to_path db names =
     (let rows = take CFG_MAX_NODE_LEVEL names;
          tmp = butlast rows @ [take (CFG_MAX_TYPE_NAME - 1) (type_name (cfg_type_get_root db))]
      in if \<exists>n \<in> set (butlast rows). CFG_MAX_TYPE_NAME - 1 \<le> length n then Fault ReadPastEnd
         else cbind (cmap tag_component tmp) (\<lambda>cs. Ret (join_dots (rev cs))))"

fun load_attrs :: "cfg_env \<Rightarrow> string \<Rightarrow> attrs \<Rightarrow> cfg_state \<Rightarrow> cfg_state cres" where
  "load_attrs E path [] s = Ret s"
| "load_attrs E path ((n, v) # as) s =
     cbind (cfg_obj_set_object_attr E (Some path) (Some n) (Some v) s) (\<lambda>(_, s1).
       load_attrs E path as s1)"

text \<open>Whether the object of a path is there, after creating it when its type is created on
  demand; \<open>None\<close> when the path has no type.\<close>

definition load_exist :: "cfg_env \<Rightarrow> string \<Rightarrow> cfg_state \<Rightarrow> (bool option \<times> cfg_state) cres" where
  "load_exist E path s =
     cbind (cfg_obj_query_object E path None False s) (\<lambda>((ex, _), s1).
       if 0 < ex then Ret (Some True, s1)
       else cbind (cfg_type_query (env_types E) path) (\<lambda>type.
         case type of
           None \<Rightarrow> Ret (None, s1)
         | Some t \<Rightarrow>
             if cfg_type_is_dynamic_type (env_types E) (type_id t)
             then cbind (cfg_obj_create_object E path s1) (\<lambda>(r, s2). Ret (Some (0 < r), s2))
             else Ret (Some False, s1)))"

text \<open>\<open>cfg_load_from_xml\<close> on a node and the nodes that follow it; \<open>ups\<close> are the names of its
  ancestors.\<close>

fun cfg_load_from_xml :: "cfg_env \<Rightarrow> string list \<Rightarrow> mxml list \<Rightarrow> cfg_state \<Rightarrow> cfg_state cres" where
  "cfg_load_from_xml E ups [] s = Ret s"
| "cfg_load_from_xml E ups (MxNode nm as ch # bs) s =
     cbind (cfg_xml_node_to_path (env_types E) (nm # ups)) (\<lambda>path.
     cbind (load_exist E path s) (\<lambda>(exist, s1).
       case exist of
         None \<Rightarrow> cfg_load_from_xml E ups bs s1
       | Some False \<Rightarrow> cfg_load_from_xml E ups bs s1
       | Some True \<Rightarrow>
           cbind (load_attrs E path as s1) (\<lambda>s2.
           cbind (cfg_load_from_xml E (nm # ups) ch s2) (\<lambda>s3.
             cfg_load_from_xml E ups bs s3))))"

section \<open>Node names of web pages\<close>

fun web_index :: "cfg_env \<Rightarrow> string list \<Rightarrow> cfg_state \<Rightarrow> (string option \<times> cfg_state) cres" where
  "web_index E [] s = Ret (None, s)"
| "web_index E (ix # ixs) s =
     cbind (cfg_obj_get_object_attr E (Some ''root.webcurset.entry'') (Some ix) 32 s) (\<lambda>((r, v), s1).
       if 0 < r then Ret (v, s1) else web_index E ixs s1)"

text \<open>A character is signed: \<open>name[5] > 0\<close> fails for codes from 128 on.\<close>

definition numbered_name :: "string \<Rightarrow> string \<Rightarrow> bool" where
  "numbered_name base name \<longleftrightarrow>
     prefix_of base name \<and> length base < length name \<and> cval (name ! length base) < 128"

definition name_number :: "string \<Rightarrow> int" where
  "name_number name =
     (if numbered_name ''entry'' name then atoi (drop 5 name)
      else if numbered_name ''pvc'' name then atoi (drop 3 name)
      else if numbered_name ''rai'' name then atoi (drop 3 name)
      else if numbered_name ''ra'' name then atoi (drop 2 name)
      else -1)"

definition cfg_parse_entry_pvc_number ::
  "cfg_env \<Rightarrow> string \<Rightarrow> string \<Rightarrow> cfg_state \<Rightarrow> (int \<times> cfg_state) cres" where
  "cfg_parse_entry_pvc_number E path name s =
     cbind (cfg_type_query (env_types E) path) (\<lambda>type.
       case type of
         None \<Rightarrow> Ret (0, s)
       | Some t \<Rightarrow>
           if type_flag t AND CFG_TYPE_FLAG_MULTIPLE = 0 then Ret (1, s)
           else if 0 \<le> name_number name
           then if name_number name = 2 ^ 31 - 1 then Fault IntOverflow
                else Ret (name_number name + 1, s)
           else (case type_index t of
                   None \<Rightarrow> Ret (0, s)
                 | Some ixs \<Rightarrow>
                     cbind (web_index E ixs s) (\<lambda>(v, s1).
                       case v of
                         None \<Rightarrow> Ret (0, s1)
                       | Some val \<Rightarrow> if atoi val = 2 ^ 31 - 1 then Fault IntOverflow
                                     else Ret (atoi val + 1, s1))))"

text \<open>The parts of a name between underscores: the first keeps the underscores in front of
  it. Four parts mean that there may be more.\<close>

definition cfg_parse_split_name :: "string \<Rightarrow> string list" where
  "cfg_parse_split_name name =
     (let lead = takeWhile (\<lambda>c. c = CHR ''_'') name;
          toks = strtok_all CHR ''_'' name
      in case toks of
           [] \<Rightarrow> [name]
         | t # ts \<Rightarrow> (lead @ t) # take 3 ts)"

text \<open>Printing into the caller's buffer of \<open>sz\<close> bytes.\<close>

definition fits :: "nat \<Rightarrow> string \<Rightarrow> string cres" where
  "fits sz t = (if sz \<le> length t then Fault BufferOverflow else Ret t)"

definition numbered_path ::
  "cfg_env \<Rightarrow> nat \<Rightarrow> string \<Rightarrow> string \<Rightarrow> cfg_state \<Rightarrow> (string \<times> cfg_state) cres" where
  "numbered_path E sz path name s =
     cbind (fits sz path) (\<lambda>p.
     cbind (cfg_parse_entry_pvc_number E p name s) (\<lambda>(num, s1).
     cbind (fits sz (p @ CHR ''.'' # int_str num)) (\<lambda>q. Ret (q, s1))))"

text \<open>The digit behind a dot of an interface name counts from 0.\<close>

definition nas_name :: "string \<Rightarrow> string" where
  "nas_name b =
     (let pre = takeWhile (\<lambda>c. c \<noteq> CHR ''.'') b; rest = dropWhile (\<lambda>c. c \<noteq> CHR ''.'') b
      in case rest of
           d # c # r \<Rightarrow> if c = CHR 0x0A \<or> c = CHR 0x0D then b else pre @ d # char_of (cval c + 1) # r
         | _ \<Rightarrow> b)"

definition cfg_parse_node_name ::
  "cfg_env \<Rightarrow> string \<Rightarrow> nat \<Rightarrow> cfg_state \<Rightarrow> ((int \<times> string) \<times> cfg_state) cres" where
  "cfg_parse_node_name E name sz s =
     (if sz < length name then Ret ((-1, []), s)
      else if length name = sz then Fault BufferOverflow
      else
        let buf = cfg_parse_split_name (cfg_str_to_lower name);
            level = length buf;
            base = type_name (cfg_type_get_root (env_types E)) @ CHR ''.'' # buf ! 0
        in if 3 < level then Ret ((-1, []), s)
           else if \<exists>b \<in> set buf. CFG_MAX_TYPE_NAME - 1 \<le> length b then Fault ReadPastEnd
           else
             cbind (if level = 1 then cbind (fits sz base) (\<lambda>p. Ret (p, s))
                    else
                      let b1 = buf ! 1
                      in if prefix_of ''entry'' b1 then numbered_path E sz (base @ ''.entry'') b1 s
                         else if prefix_of ''pvc'' b1 then numbered_path E sz (base @ ''.pvc'') b1 s
                         else if prefix_of ''info'' (buf ! 0)
                         then if prefix_of ''nas'' b1
                              then cbind (fits sz (base @ CHR ''.'' # nas_name b1)) (\<lambda>p. Ret (p, s))
                              else if prefix_of ''rai'' b1 then numbered_path E sz (base @ ''.rai'') b1 s
                              else if prefix_of ''ra'' b1 then numbered_path E sz (base @ ''.ra'') b1 s
                              else cbind (fits sz (base @ CHR ''.'' # b1)) (\<lambda>p. Ret (p, s))
                         else cbind (fits sz (base @ CHR ''.'' # b1)) (\<lambda>p. Ret (p, s))) (\<lambda>(p, s1).
             cbind (if level = 3
                    then if prefix_of ''entry'' (buf ! 2)
                         then numbered_path E sz (p @ ''.entry'') (buf ! 2) s1
                         else cbind (fits sz (p @ CHR ''.'' # buf ! 2)) (\<lambda>q. Ret (q, s1))
                    else Ret (p, s1)) (\<lambda>(q, s2).
               Ret ((0, q), s2))))"

end
