(* ===== verification/UtilSpec.thy ===== *)
theory UtilSpec
  imports Util
begin

text \<open>
  What the helpers of \<open>Util\<close> guarantee: what can reach the shell through \<open>system_escape\<close>,
  that escaping can be undone and fits its buffer, which netmasks are accepted, and the
  round trip of MAC addresses.
\<close>

section \<open>Escaping\<close>

definition escape_text :: "(char \<Rightarrow> bool) \<Rightarrow> string \<Rightarrow> string" where
  "escape_text P s = concat (map (\<lambda>c. if P c then [CHR 0x5C, c] else [c]) s)"

lemma escape_text_simps [simp]:
  "escape_text P [] = []"
  "escape_text P (c # cs) = (if P c then [CHR 0x5C, c] else [c]) @ escape_text P cs"
  by (simp_all add: escape_text_def)

lemma length_escape_text: "length s \<le> length (escape_text P s)"
  by (induction s) auto

lemma escape_loop_text:
  "length (out @ escape_text needs_escape s) < len \<Longrightarrow>
   escape_loop len out s = Ret (out @ escape_text needs_escape s)"
proof (induction s arbitrary: out)
  case (Cons c s)
  let ?out' = "out @ (if needs_escape c then [CHR 0x5C, c] else [c])"
  have "length (?out' @ escape_text needs_escape s) < len" using Cons.prems by auto
  then have "escape_loop len ?out' s = Ret (?out' @ escape_text needs_escape s)" "length ?out' < len"
    using Cons.IH by auto
  then show ?case by (auto simp: Let_def)
qed simp

lemma escape_special_fits:
  assumes "length (escape_text needs_escape s) < len"
  shows "escape_special_character s len = Ret s \<or>
    escape_special_character s len = Ret (escape_text needs_escape s)"
  using escape_loop_text [of "[]" s len] assms
  by (auto simp: escape_special_character_def split: option.splits)

lemma escape_filter:
  "CHR 0x5C \<notin> set s \<Longrightarrow> filter (\<lambda>c. c \<noteq> CHR 0x5C) (escape_text needs_escape s) = s"
  by (induction s) (auto simp: needs_escape_def)

text \<open>Every back quote has a backslash in front of it.\<close>

fun quotes_escaped :: "string \<Rightarrow> bool" where
  "quotes_escaped [] = True"
| "quotes_escaped (c # s) =
     (if c = CHR 0x5C then (case s of [] \<Rightarrow> True | d # s' \<Rightarrow> quotes_escaped s')
      else c \<noteq> CHR 0x60 \<and> quotes_escaped s)"

lemma quotes_escaped_text: "CHR 0x5C \<notin> set s \<Longrightarrow> quotes_escaped (escape_text needs_escape s)"
  by (induction s) (auto simp: needs_escape_def)

lemma injection_loop_ok:
  "injection_loop n idx cs = 0 \<or> injection_loop n idx cs = -1"
  by (induction n idx cs rule: injection_loop.induct) auto

lemma injection_loop_chars:
  "injection_loop n idx cs \<noteq> -1 \<Longrightarrow> i < length cs \<Longrightarrow> cs ! i \<in> set injection_chars \<Longrightarrow>
   (cs ! i = CHR ''&'' \<and> 2 \<le> n \<and> (n - 1 = idx + i \<or> n - 2 = idx + i)) \<or> (cs ! i = CHR ''#'' \<and> idx + i = 0)"
proof (induction n idx cs arbitrary: i rule: injection_loop.induct)
  case (2 n idx ch cs)
  show ?case
  proof (cases i)
    case 0
    with "2.prems" show ?thesis by (auto simp: check_injection_code_def split: if_splits)
  next
    case (Suc j)
    have "injection_loop n (Suc idx) cs \<noteq> -1" using "2.prems"(1) by (auto split: if_splits)
    then have "(cs ! j = CHR ''&'' \<and> 2 \<le> n \<and> (n - 1 = Suc idx + j \<or> n - 2 = Suc idx + j)) \<or>
        (cs ! j = CHR ''#'' \<and> Suc idx + j = 0)"
      using "2.IH" "2.prems" Suc by (auto split: if_splits)
    with Suc show ?thesis by simp
  qed
qed simp

lemma injection_backslash: "check_injection_code_command cmd \<noteq> -1 \<Longrightarrow> CHR 0x5C \<notin> set cmd"
proof
  assume ok: "check_injection_code_command cmd \<noteq> -1" and "CHR 0x5C \<in> set cmd"
  then obtain i where i: "i < length cmd" "cmd ! i = CHR 0x5C" by (auto simp: in_set_conv_nth)
  with ok have l: "injection_loop (length cmd) 0 cmd \<noteq> -1"
    by (auto simp: check_injection_code_command_def split: if_splits)
  have "cmd ! i \<in> set injection_chars" using i by (simp add: injection_chars_def)
  from injection_loop_chars [OF l i(1) this] i show False by auto
qed

section \<open>Masks\<close>

lemma mask_scan_ones:
  "0 < cnt \<Longrightarrow> n \<le> 32 \<Longrightarrow> mask_scan n m cnt = (if \<forall>i < n. bit m i then Some (cnt + n) else None)"
proof (induction n arbitrary: m cnt)
  case (Suc n)
  have b0: "m AND 1 = 0 \<longleftrightarrow> \<not> bit m 0" by (simp add: and_one_eq bit_0 odd_iff_mod_2_eq_one even_iff_mod_2_eq_zero)
  have sh: "(\<forall>i < Suc n. bit m i) \<longleftrightarrow> bit m 0 \<and> (\<forall>i < n. bit (drop_bit 1 m) i)"
    by (auto simp: bit_drop_bit_eq All_less_Suc2)
  show ?case using Suc b0 sh by auto
qed simp

lemma mask_scan_zero:
  "n \<le> 32 \<Longrightarrow> mask_scan n m 0 = Some k \<longleftrightarrow> k \<le> n \<and> (\<forall>i < n. bit m i \<longleftrightarrow> n - k \<le> i)"
proof (induction n arbitrary: m)
  case (Suc n)
  have b0: "m AND 1 = 0 \<longleftrightarrow> \<not> bit m 0" by (simp add: and_one_eq bit_0 odd_iff_mod_2_eq_one even_iff_mod_2_eq_zero)
  have sh: "(\<forall>i < Suc n. bit m i \<longleftrightarrow> Suc n - k \<le> i) \<longleftrightarrow>
      (bit m 0 \<longleftrightarrow> Suc n \<le> k) \<and> (\<forall>i < n. bit (drop_bit 1 m) i \<longleftrightarrow> Suc n - k \<le> Suc i)"
    by (auto simp: bit_drop_bit_eq All_less_Suc2)
  show ?case
  proof (cases "bit m 0")
    case True
    then have "mask_scan (Suc n) m 0 = (if \<forall>i < n. bit (drop_bit 1 m) i then Some (Suc n) else None)"
      using mask_scan_ones [of 1 n "drop_bit 1 m"] Suc.prems b0 by simp
    then show ?thesis using sh True by auto
  next
    case False
    then have "mask_scan (Suc n) m 0 = mask_scan n (drop_bit 1 m) 0" using b0 by simp
    moreover have "(k \<le> Suc n \<and> (\<forall>i < Suc n. bit m i \<longleftrightarrow> Suc n - k \<le> i)) \<longleftrightarrow>
        (k \<le> n \<and> (\<forall>i < n. bit (drop_bit 1 m) i \<longleftrightarrow> n - k \<le> i))"
      unfolding sh using False by (auto simp: Suc_diff_le)
    ultimately show ?thesis using Suc by simp
  qed
qed simp

section \<open>Dotted decimals\<close>

lemma strtok_first:
  assumes "s \<noteq> []" "d \<notin> set s"
  shows "strtok_all d (s @ d # rest) = s # strtok_all d rest"
proof -
  obtain c s' where s: "s = c # s'" using assms(1) by (cases s) auto
  have dw: "dropWhile (\<lambda>c. c = d) (s @ d # rest) = s @ d # rest" using assms(2) s by auto
  have tw: "takeWhile (\<lambda>c. c \<noteq> d) (s @ d # rest) = s" "dropWhile (\<lambda>c. c \<noteq> d) (s @ d # rest) = d # rest"
    using assms(2) by (intro takeWhile_append_stop dropWhile_append_stop; auto)+
  have "strtok_all d (d # rest) = strtok_all d rest"
    by (subst (1 2) strtok_all.simps) simp
  then show ?thesis
    by (subst strtok_all.simps) (simp add: dw tw)
qed

lemma strtok_last:
  assumes "s \<noteq> []" "d \<notin> set s"
  shows "strtok_all d s = [s]"
proof -
  obtain c s' where s: "s = c # s'" using assms(1) by (cases s) auto
  have dw: "dropWhile (\<lambda>c. c = d) s = s" using assms(2) s by auto
  have tw: "takeWhile (\<lambda>c. c \<noteq> d) s = s" "dropWhile (\<lambda>c. c \<noteq> d) s = []"
    using assms(2) by (auto simp: takeWhile_eq_all_conv dropWhile_eq_Nil_conv)
  have "strtok_all d [] = []" by (subst strtok_all.simps) simp
  then show ?thesis
    by (subst strtok_all.simps) (simp only: dw tw Let_def assms(1) if_False)
qed

definition dotted :: "nat \<Rightarrow> nat \<Rightarrow> nat \<Rightarrow> nat \<Rightarrow> string" where
  "dotted a b c d = nat_str a @ CHR ''.'' # nat_str b @ CHR ''.'' # nat_str c @ CHR ''.'' # nat_str d"

lemma dot_not_digit: "\<not> is_digit CHR ''.''"
  by (simp add: is_digit_def cval_def)

lemma no_dot [simp]: "CHR ''.'' \<notin> set (nat_str n)"
  by (rule nat_str_no_char [OF dot_not_digit])

lemma octet_len: "n < 256 \<Longrightarrow> length (nat_str n) \<le> 3"
  by (rule nat_str_length_le) simp_all

lemma octet_dot:
  assumes "n < 256"
  shows "octet (nat_str n @ CHR ''.'' # r) = Some (CHR ''.'' # r)"
proof -
  have "takeWhile is_digit (nat_str n @ CHR ''.'' # r) = nat_str n"
    using nat_str_digits [of n] dot_not_digit by (rule takeWhile_append_stop)
  then show ?thesis
    using octet_len [OF assms] by (simp add: octet_def Let_def Suc_le_eq)
qed

lemma dotted_format:
  assumes "a < 256" "b < 256" "c < 256" "d < 256"
  shows "check_ip_format (dotted a b c d)" "take 15 (dotted a b c d) = dotted a b c d"
    "strtok_all CHR ''.'' (dotted a b c d) = [nat_str a, nat_str b, nat_str c, nat_str d]"
proof -
  show t: "take 15 (dotted a b c d) = dotted a b c d"
    using octet_len [OF assms(1)] octet_len [OF assms(2)] octet_len [OF assms(3)] octet_len [OF assms(4)]
    by (simp add: dotted_def)
  have "octets_dot 3 (dotted a b c d)"
    using nat_str_digits [of d]
    by (simp add: numeral_3_eq_3 dotted_def octet_dot assms)
  then have "search (octets_dot 3) (dotted a b c d)"
    by (cases "dotted a b c d") simp_all
  with t show "check_ip_format (dotted a b c d)" by (simp add: check_ip_format_def)
  show "strtok_all CHR ''.'' (dotted a b c d) = [nat_str a, nat_str b, nat_str c, nat_str d]"
    by (simp add: dotted_def strtok_first strtok_last)
qed

definition mask_word :: "nat \<Rightarrow> nat \<Rightarrow> nat \<Rightarrow> nat \<Rightarrow> u32" where
  "mask_word a b c d =
     push_bit 24 (of_nat a) OR push_bit 16 (of_nat b) OR push_bit 8 (of_nat c) OR of_nat d"

lemma binary_mask_dotted:
  assumes "a < 256" "b < 256" "c < 256" "d < 256"
  shows "binary_mask 0 [nat_str a, nat_str b, nat_str c, nat_str d] = mask_word a b c d"
proof -
  have w: "word_of_int (atoi (nat_str n)) = (of_nat n :: u32)" if "n < 256" for n
    using that by (simp add: atoi_nat_str)
  show ?thesis
    unfolding mask_word_def
    by (simp add: w assms del: push_bit_of_nat) (rule bit_word_eqI, auto simp: bit_simps)
qed

section \<open>Groups of a MAC address\<close>

lemma mac_groups_roundtrip:
  "length m = 2 * n \<Longrightarrow> 0 < n \<Longrightarrow> CHR '':'' \<notin> set m \<Longrightarrow>
   \<exists>d. mac_groups n m = Ret d \<and> length d = 3 * n - 1 \<and> filter (\<lambda>c. c \<noteq> CHR '':'') d = m \<and>
     mac_groups n d = Ret d"
proof (induction n arbitrary: m)
  case (Suc n)
  then obtain a b s where m: "m = a # b # s" by (cases m; cases "tl m") auto
  show ?case
  proof (cases "n = 0")
    case True
    then show ?thesis using Suc.prems m by auto
  next
    case False
    with Suc m obtain d where d: "mac_groups n s = Ret d" "length d = 3 * n - 1"
        "filter (\<lambda>c. c \<noteq> CHR '':'') d = s" "mac_groups n d = Ret d" by auto
    obtain c s' where s: "s = c # s'" "c \<noteq> CHR '':''" using Suc.prems m False by (cases s) auto
    have "mac_groups (Suc n) m = Ret (a # b # CHR '':'' # d)"
      using False m s d(1) by simp
    moreover have "mac_groups (Suc n) (a # b # CHR '':'' # d) = Ret (a # b # CHR '':'' # d)"
      using False d(4) by simp
    ultimately show ?thesis using d False m Suc.prems by auto
  qed
qed simp

section \<open>Properties\<close>



text \<open>When the buffer runs out, \<open>escape_special_character\<close> returns the rest of its input
  instead of an error: the tail of the command is what its callers go on with.\<close>

theorem escape_overflow_returns_tail:
  "escape_special_character [CHR 0x60, CHR ''a'', CHR 0x60, CHR ''r'', CHR ''m''] 5 = Ret ''rm''"
  by code_simp

fun unescape :: "string \<Rightarrow> string" where
  "unescape [] = []"
| "unescape (c # s) = (if c = CHR 0x5C then (case s of [] \<Rightarrow> [] | d # s' \<Rightarrow> d # unescape s') else c # unescape s)"

lemma unescape_text: "unescape (escape_text NEED_C s) = s"
  by (induction s) (auto simp: NEED_C_def)

lemma escape_param_loop_prefix:
  "0 \<le> r \<Longrightarrow> \<exists>k. escape_param_loop r s = escape_text NEED_C (take k s) \<and>
     int (length (escape_param_loop r s)) \<le> r \<and>
     (int (length (escape_text NEED_C s)) < r \<longrightarrow> length s \<le> k)"
proof (induction r s rule: escape_param_loop.induct)
  case (2 r c cs)
  show ?case
  proof (cases "2 \<le> r")
    case False
    then show ?thesis using "2.prems" by (intro exI [of _ 0]) (auto split: if_splits)
  next
    case True
    let ?d = "if NEED_C c then 2 else 1 :: int"
    have "\<exists>k. escape_param_loop (r - ?d) cs = escape_text NEED_C (take k cs) \<and>
        int (length (escape_param_loop (r - ?d) cs)) \<le> r - ?d \<and>
        (int (length (escape_text NEED_C cs)) < r - ?d \<longrightarrow> length cs \<le> k)"
      using "2.IH" True by (cases "NEED_C c") simp_all
    then obtain k where "escape_param_loop (r - ?d) cs = escape_text NEED_C (take k cs)"
        "int (length (escape_param_loop (r - ?d) cs)) \<le> r - ?d"
        "int (length (escape_text NEED_C cs)) < r - ?d \<longrightarrow> length cs \<le> k" by blast
    then show ?thesis using True by (intro exI [of _ "Suc k"]) auto
  qed
qed auto

text \<open>\<open>escape_param\<close> never writes more than its buffer holds with the terminating NUL,
  and what it writes is the escaped form of a prefix of the value, of all of it when the
  escaped form leaves two bytes free; undoing the escapes gives the prefix back.\<close>

theorem escape_param_bounded:
  assumes "1 \<le> n"
  shows "\<exists>k. escape_param s n = escape_text NEED_C (take k s) \<and> unescape (escape_param s n) = take k s \<and>
    int (length (escape_param s n)) < n \<and>
    (int (length (escape_text NEED_C s)) + 2 \<le> n \<longrightarrow> 3 \<le> n \<longrightarrow> take k s = s)"
proof (cases "n - 1 < 2")
  case True
  then show ?thesis using assms by (intro exI [of _ 0]) (auto simp: escape_param_def)
next
  case False
  then obtain k where "escape_param_loop (n - 1) s = escape_text NEED_C (take k s)"
      "int (length (escape_param_loop (n - 1) s)) \<le> n - 1"
      "int (length (escape_text NEED_C s)) < n - 1 \<longrightarrow> length s \<le> k"
    using escape_param_loop_prefix [of "n - 1" s] by (meson not_le order_trans zero_le_numeral linorder_not_less)
  with False show ?thesis by (intro exI [of _ k]) (auto simp: escape_param_def unescape_text)
qed

theorem escape_param_bounded_witness:
  "\<exists>k. escape_param ''a$b'' 6 = escape_text NEED_C (take k ''a$b'') \<and> unescape (escape_param ''a$b'' 6) = take k ''a$b'' \<and>
    int (length (escape_param ''a$b'' 6)) < 6 \<and> take k ''a$b'' = ''a$b''"
  using escape_param_bounded [of 6 "''a$b''"] by (auto simp: NEED_C_def)

text \<open>\<open>check_mask_format\<close> accepts the dotted form of four bytes exactly when the one bits
  of the 32-bit mask are the leading ones, and then writes their number.\<close>

theorem check_mask_exact:
  assumes "a < 256" and "b < 256" and "c < 256" and "d < 256" and "3 \<le> len"
  shows "check_mask_format (dotted a b c d) len = Ret (Some t) \<longleftrightarrow>
    (\<exists>k \<le> 32. t = nat_str k \<and> (\<forall>i < 32. bit (mask_word a b c d) i \<longleftrightarrow> 32 - k \<le> i))"
proof -
  have len: "take (len - 1) (nat_str k) = nat_str k" if "k \<le> 32" for k
    using nat_str_length_le [of k 2] that assms(5) by simp
  have "check_mask_format (dotted a b c d) len =
      Ret (map_option (\<lambda>n. take (len - 1) (nat_str n)) (mask_scan 32 (mask_word a b c d) 0))"
    by (simp add: check_mask_format_def dotted_format assms binary_mask_dotted del: binary_mask.simps)
  then have "check_mask_format (dotted a b c d) len = Ret (Some t) \<longleftrightarrow>
      (\<exists>k. mask_scan 32 (mask_word a b c d) 0 = Some k \<and> t = take (len - 1) (nat_str k))"
    by auto
  then show ?thesis using len by (auto simp: mask_scan_zero)
qed

theorem check_mask_exact_witness:
  "check_mask_format (dotted 255 255 240 0) 4 = Ret (Some (nat_str 20))"
proof -
  have "\<forall>i < 32. bit (mask_word 255 255 240 0) i \<longleftrightarrow> 32 - 20 \<le> i"
    by code_simp
  then have "\<exists>k \<le> 32. nat_str 20 = nat_str k \<and> (\<forall>i < 32. bit (mask_word 255 255 240 0) i \<longleftrightarrow> 32 - k \<le> i)"
    by (intro exI [of _ 20]) simp
  then show ?thesis using check_mask_exact [of 255 255 240 0 4 "nat_str 20"] by simp
qed

text \<open>Inserting the colons in a MAC address of twelve characters and removing them again
  gives the address back, and inserting them twice changes nothing.\<close>

theorem mac_dots_roundtrip:
  assumes "length m = 12" and "CHR '':'' \<notin> set m"
  shows "\<exists>d. mac_add_dot m = Ret d \<and> length d = 17 \<and> mac_rm_dot d = m \<and> mac_add_dot d = Ret d"
proof -
  from mac_groups_roundtrip [of m 6] assms obtain d where d: "mac_groups 6 m = Ret d" "length d = 17"
    "filter (\<lambda>c. c \<noteq> CHR '':'') d = m" "mac_groups 6 d = Ret d" by auto
  with assms(1) show ?thesis
    by (auto simp: mac_add_dot_def mac_rm_dot_def MAC_STR_LEN_def MAC_STR_DOT_LEN_def)
qed

theorem mac_dots_roundtrip_witness:
  "\<exists>d. mac_add_dot ''00aabbccddee'' = Ret d \<and> length d = 17 \<and> mac_rm_dot d = ''00aabbccddee'' \<and> mac_add_dot d = Ret d"
  by (rule mac_dots_roundtrip) simp_all

text \<open>\<open>addString\<close> accepts an output buffer of exactly the length of the result and then
  writes the terminating NUL behind it; with one more byte it is correct.\<close>

theorem addString_off_by_one:
  assumes "find_part flag s add = None"
  shows "addString s (int (length s + length add)) add flag = Fault BufferOverflow \<and>
    addString s (int (length s + length add) + 1) add flag = Ret (0, s @ add)"
  using assms by (simp add: addString_def)

theorem addString_off_by_one_witness:
  "addString ''ab'' (int (length ''ab'' + length ''cd'')) ''cd'' True = Fault BufferOverflow \<and>
   addString ''ab'' (int (length ''ab'' + length ''cd'') + 1) ''cd'' True = Ret (0, ''ab'' @ ''cd'')"
  by (rule addString_off_by_one) (simp add: find_part_def)

end
