(* ===== verification/TypesA.thy ===== *)
theory TypesA
  imports CfgTypes
begin

text \<open>
  Type tables of \<open>service/cfg/type\<close> for the build profile
  \<open>UNION_EN7528_LE_7592_7613_MAP_R2_demo\<close>: the types from \<open>EPON\<close> to \<open>Route6\<close>. The
  operations, the \<open>subtype\<close> arrays and the index arrays keep the names of the source.
\<close>

section \<open>EPON\<close>

definition cfg_type_epon_onu_ops :: cfg_node_ops where
  "cfg_type_epon_onu_ops = no_ops \<lparr>
     op_get := Some (Handler ''cfg_type_epon_onu_func_get''),
     op_set := Some (Handler ''cfg_type_epon_onu_func_set''), op_query := Some DefaultFunc,
     op_commit := Some DefaultFunc\<rparr>"

definition cfg_type_epon_onu :: "cfg_node_type" where
  "cfg_type_epon_onu =
     CfgType 0 ''ONU'' (CFG_TYPE_FLAG_UPDATE OR 1) []
       (Some cfg_type_epon_onu_ops) None"

definition cfg_type_epon_pon_ops :: cfg_node_ops where
  "cfg_type_epon_pon_ops = no_ops \<lparr>
     op_get := Some (Handler ''cfg_type_epon_pon_func_get''),
     op_set := Some (Handler ''cfg_type_epon_pon_func_set''), op_query := Some DefaultFunc,
     op_commit := Some DefaultFunc\<rparr>"

definition cfg_type_epon_pon :: "cfg_node_type" where
  "cfg_type_epon_pon =
     CfgType 0 ''PON'' (CFG_TYPE_FLAG_UPDATE OR 1) []
       (Some cfg_type_epon_pon_ops) None"

definition cfg_type_epon_powersaving_ops :: cfg_node_ops where
  "cfg_type_epon_powersaving_ops = no_ops \<lparr>
     op_get := Some (Handler ''cfg_type_epon_powersaving_func_get''),
     op_set := Some (Handler ''cfg_type_epon_powersaving_func_set''),
     op_query := Some DefaultFunc, op_commit := Some DefaultFunc\<rparr>"

definition cfg_type_epon_powersaving :: "cfg_node_type" where
  "cfg_type_epon_powersaving =
     CfgType 0 ''PowerSaving'' (CFG_TYPE_FLAG_UPDATE OR 1) []
       (Some cfg_type_epon_powersaving_ops) None"

definition cfg_type_epon_loidauth_ops :: cfg_node_ops where
  "cfg_type_epon_loidauth_ops = no_ops \<lparr>
     op_get := Some (Handler ''cfg_type_epon_loidauth_func_get''),
     op_set := Some (Handler ''cfg_type_epon_loidauth_func_set''),
     op_query := Some DefaultFunc,
     op_commit := Some (Handler ''cfg_type_epon_loidauth_func_commit'')\<rparr>"

definition cfg_type_epon_loidauth :: "cfg_node_type" where
  "cfg_type_epon_loidauth =
     CfgType 0 ''LOIDAuth'' (CFG_TYPE_FLAG_UPDATE OR 1) []
       (Some cfg_type_epon_loidauth_ops) None"

definition cfg_type_epon_softimage_ops :: cfg_node_ops where
  "cfg_type_epon_softimage_ops = no_ops \<lparr>
     op_get := Some (Handler ''cfg_type_epon_softimage_func_get''),
     op_set := Some (Handler ''cfg_type_epon_softimage_func_set''),
     op_query := Some DefaultFunc, op_commit := Some DefaultFunc\<rparr>"

definition cfg_type_epon_softimage :: "cfg_node_type" where
  "cfg_type_epon_softimage =
     CfgType 0 ''SoftImage'' (CFG_TYPE_FLAG_UPDATE OR 1) []
       (Some cfg_type_epon_softimage_ops) None"

definition cfg_type_epon_servicesla_ops :: cfg_node_ops where
  "cfg_type_epon_servicesla_ops = no_ops \<lparr>
     op_get := Some (Handler ''cfg_type_epon_servicesla_func_get''),
     op_set := Some (Handler ''cfg_type_epon_servicesla_func_set''),
     op_query := Some DefaultFunc, op_commit := Some DefaultFunc\<rparr>"

definition cfg_type_epon_servicesla :: "cfg_node_type" where
  "cfg_type_epon_servicesla =
     CfgType 0 ''ServiceSLA'' (CFG_TYPE_FLAG_UPDATE OR 1) []
       (Some cfg_type_epon_servicesla_ops) None"

definition cfg_type_epon_ops :: cfg_node_ops where
  "cfg_type_epon_ops = no_ops \<lparr>
     op_set := Some DefaultFunc, op_get := Some DefaultFunc, op_query := Some DefaultFunc,
     op_commit := Some DefaultFunc\<rparr>"

definition cfg_type_epon_child :: "cfg_node_type list" where
  "cfg_type_epon_child =
    [
      cfg_type_epon_onu, cfg_type_epon_pon, cfg_type_epon_powersaving,
      cfg_type_epon_loidauth, cfg_type_epon_softimage, cfg_type_epon_servicesla]"

definition cfg_type_epon :: "cfg_node_type" where
  "cfg_type_epon =
     CfgType 0 ''EPON'' (CFG_TYPE_FLAG_UPDATE OR 1) cfg_type_epon_child
       (Some cfg_type_epon_ops) None"

section \<open>Oam\<close>

definition cfg_type_oam_entry_ops :: cfg_node_ops where
  "cfg_type_oam_entry_ops = no_ops \<lparr>
     op_get := Some (Handler ''cfg_type_oam_entry_func_get''),
     op_set := Some (Handler ''cfg_type_oam_entry_func_set''),
     op_query := Some DefaultFunc, op_commit := Some DefaultFunc\<rparr>"

definition cfg_type_oam_entry :: "cfg_node_type" where
  "cfg_type_oam_entry =
     CfgType 0 ''Entry'' 1 []
       (Some cfg_type_oam_entry_ops) None"

definition cfg_type_oam_ctc_ops :: cfg_node_ops where
  "cfg_type_oam_ctc_ops = no_ops \<lparr>
     op_get := Some (Handler ''cfg_type_oam_ctc_func_get''),
     op_set := Some (Handler ''cfg_type_oam_ctc_func_set''), op_query := Some DefaultFunc,
     op_commit := Some DefaultFunc\<rparr>"

definition cfg_type_oam_ctc :: "cfg_node_type" where
  "cfg_type_oam_ctc =
     CfgType 0 ''CTC'' 1 []
       (Some cfg_type_oam_ctc_ops) None"

definition cfg_type_oam_cuc_ops :: cfg_node_ops where
  "cfg_type_oam_cuc_ops = no_ops \<lparr>
     op_get := Some (Handler ''cfg_type_oam_cuc_func_get''),
     op_set := Some (Handler ''cfg_type_oam_cuc_func_set''), op_query := Some DefaultFunc,
     op_commit := Some DefaultFunc\<rparr>"

definition cfg_type_oam_cuc :: "cfg_node_type" where
  "cfg_type_oam_cuc =
     CfgType 0 ''CUC'' 1 []
       (Some cfg_type_oam_cuc_ops) None"

definition cfg_type_oam_ops :: cfg_node_ops where
  "cfg_type_oam_ops = no_ops \<lparr>
     op_set := Some DefaultFunc, op_get := Some DefaultFunc, op_query := Some DefaultFunc,
     op_commit := Some DefaultFunc\<rparr>"

definition cfg_type_oam_child :: "cfg_node_type list" where
  "cfg_type_oam_child =
    [
      cfg_type_oam_entry, cfg_type_oam_ctc, cfg_type_oam_cuc]"

definition cfg_type_oam :: "cfg_node_type" where
  "cfg_type_oam =
     CfgType 0 ''Oam'' 1 cfg_type_oam_child
       (Some cfg_type_oam_ops) None"

section \<open>GPON\<close>

definition cfg_type_gpon_common_ops :: cfg_node_ops where
  "cfg_type_gpon_common_ops = no_ops \<lparr>
     op_get := Some (Handler ''cfg_type_gpon_common_func_get''),
     op_set := Some (Handler ''cfg_type_gpon_common_func_set''),
     op_query := Some DefaultFunc, op_commit := Some DefaultFunc\<rparr>"

definition cfg_type_gpon_common :: "cfg_node_type" where
  "cfg_type_gpon_common =
     CfgType 0 ''Common'' (CFG_TYPE_FLAG_UPDATE OR 1) []
       (Some cfg_type_gpon_common_ops) None"

definition cfg_type_gpon_onu_ops :: cfg_node_ops where
  "cfg_type_gpon_onu_ops = no_ops \<lparr>
     op_get := Some (Handler ''cfg_type_gpon_onu_func_get''),
     op_set := Some (Handler ''cfg_type_gpon_onu_func_set''), op_query := Some DefaultFunc,
     op_commit := Some (Handler ''cfg_type_gpon_onu_func_commit'')\<rparr>"

definition cfg_type_gpon_onu :: "cfg_node_type" where
  "cfg_type_gpon_onu =
     CfgType 0 ''ONU'' (CFG_TYPE_FLAG_UPDATE OR 1) []
       (Some cfg_type_gpon_onu_ops) None"

definition cfg_type_gpon_olt_ops :: cfg_node_ops where
  "cfg_type_gpon_olt_ops = no_ops \<lparr>
     op_get := Some (Handler ''cfg_type_gpon_olt_func_get''),
     op_set := Some (Handler ''cfg_type_gpon_olt_func_set''), op_query := Some DefaultFunc,
     op_commit := Some DefaultFunc\<rparr>"

definition cfg_type_gpon_olt :: "cfg_node_type" where
  "cfg_type_gpon_olt =
     CfgType 0 ''OLT'' (CFG_TYPE_FLAG_UPDATE OR 1) []
       (Some cfg_type_gpon_olt_ops) None"

definition cfg_type_gpon_ani_ops :: cfg_node_ops where
  "cfg_type_gpon_ani_ops = no_ops \<lparr>
     op_get := Some (Handler ''cfg_type_gpon_ani_func_get''),
     op_set := Some (Handler ''cfg_type_gpon_ani_func_set''), op_query := Some DefaultFunc,
     op_commit := Some DefaultFunc\<rparr>"

definition cfg_type_gpon_ani :: "cfg_node_type" where
  "cfg_type_gpon_ani =
     CfgType 0 ''ANI'' (CFG_TYPE_FLAG_UPDATE OR 1) []
       (Some cfg_type_gpon_ani_ops) None"

definition cfg_type_gpon_tcont_ops :: cfg_node_ops where
  "cfg_type_gpon_tcont_ops = no_ops \<lparr>
     op_get := Some (Handler ''cfg_type_gpon_tcont_func_get''), op_set := Some DefaultFunc,
     op_query := Some DefaultFunc, op_commit := Some DefaultFunc\<rparr>"

definition cfg_type_gpon_tcont :: "cfg_node_type" where
  "cfg_type_gpon_tcont =
     CfgType 0 ''TCONT'' (CFG_TYPE_FLAG_UPDATE OR 1) []
       (Some cfg_type_gpon_tcont_ops) None"

definition cfg_type_gpon_gemport_ops :: cfg_node_ops where
  "cfg_type_gpon_gemport_ops = no_ops \<lparr>
     op_get := Some (Handler ''cfg_type_gpon_gemport_func_get''),
     op_set := Some (Handler ''cfg_type_gpon_gemport_func_set''),
     op_query := Some DefaultFunc, op_commit := Some DefaultFunc\<rparr>"

definition cfg_type_gpon_gemport :: "cfg_node_type" where
  "cfg_type_gpon_gemport =
     CfgType 0 ''GEMPort'' (CFG_TYPE_FLAG_UPDATE OR 1) []
       (Some cfg_type_gpon_gemport_ops) None"

definition cfg_type_gpon_trtcm_ops :: cfg_node_ops where
  "cfg_type_gpon_trtcm_ops = no_ops \<lparr>
     op_get := Some (Handler ''cfg_type_gpon_trtcm_func_get''), op_set := Some DefaultFunc,
     op_query := Some DefaultFunc, op_commit := Some DefaultFunc\<rparr>"

definition cfg_type_gpon_trtcm :: "cfg_node_type" where
  "cfg_type_gpon_trtcm =
     CfgType 0 ''Trtcm'' (CFG_TYPE_FLAG_UPDATE OR 1) []
       (Some cfg_type_gpon_trtcm_ops) None"

definition cfg_type_gpon_softimage0_ops :: cfg_node_ops where
  "cfg_type_gpon_softimage0_ops = no_ops \<lparr>
     op_get := Some (Handler ''cfg_type_gpon_softimage0_func_get''),
     op_set := Some (Handler ''cfg_type_gpon_softimage0_func_set''),
     op_query := Some DefaultFunc, op_commit := Some DefaultFunc\<rparr>"

definition cfg_type_gpon_softimage0 :: "cfg_node_type" where
  "cfg_type_gpon_softimage0 =
     CfgType 0 ''SoftImage0'' (CFG_TYPE_FLAG_UPDATE OR 1) []
       (Some cfg_type_gpon_softimage0_ops) None"

definition cfg_type_gpon_softimage1_ops :: cfg_node_ops where
  "cfg_type_gpon_softimage1_ops = no_ops \<lparr>
     op_get := Some (Handler ''cfg_type_gpon_softimage1_func_get''),
     op_set := Some (Handler ''cfg_type_gpon_softimage1_func_set''),
     op_query := Some DefaultFunc, op_commit := Some DefaultFunc\<rparr>"

definition cfg_type_gpon_softimage1 :: "cfg_node_type" where
  "cfg_type_gpon_softimage1 =
     CfgType 0 ''SoftImage1'' (CFG_TYPE_FLAG_UPDATE OR 1) []
       (Some cfg_type_gpon_softimage1_ops) None"

definition cfg_type_gpon_capability_ops :: cfg_node_ops where
  "cfg_type_gpon_capability_ops = no_ops \<lparr>
     op_get := Some (Handler ''cfg_type_gpon_capability_func_get''),
     op_set := Some (Handler ''cfg_type_gpon_capability_func_set''),
     op_query := Some DefaultFunc, op_commit := Some DefaultFunc\<rparr>"

definition cfg_type_gpon_capability :: "cfg_node_type" where
  "cfg_type_gpon_capability =
     CfgType 0 ''Capability'' (CFG_TYPE_FLAG_UPDATE OR 1) []
       (Some cfg_type_gpon_capability_ops) None"

definition cfg_type_gpon_loidauth_ops :: cfg_node_ops where
  "cfg_type_gpon_loidauth_ops = no_ops \<lparr>
     op_get := Some (Handler ''cfg_type_gpon_loidauth_func_get''),
     op_set := Some (Handler ''cfg_type_gpon_loidauth_func_set''),
     op_query := Some DefaultFunc,
     op_commit := Some (Handler ''cfg_type_gpon_loidauth_func_commit'')\<rparr>"

definition cfg_type_gpon_loidauth :: "cfg_node_type" where
  "cfg_type_gpon_loidauth =
     CfgType 0 ''LOIDAuth'' (CFG_TYPE_FLAG_UPDATE OR 1) []
       (Some cfg_type_gpon_loidauth_ops) None"

definition cfg_type_gpon_ops :: cfg_node_ops where
  "cfg_type_gpon_ops = no_ops \<lparr>
     op_set := Some DefaultFunc, op_get := Some DefaultFunc, op_query := Some DefaultFunc,
     op_commit := Some DefaultFunc\<rparr>"

definition cfg_type_gpon_child :: "cfg_node_type list" where
  "cfg_type_gpon_child =
    [
      cfg_type_gpon_common, cfg_type_gpon_onu, cfg_type_gpon_olt, cfg_type_gpon_ani,
      cfg_type_gpon_tcont, cfg_type_gpon_gemport, cfg_type_gpon_trtcm,
      cfg_type_gpon_softimage0, cfg_type_gpon_softimage1, cfg_type_gpon_capability,
      cfg_type_gpon_loidauth]"

definition cfg_type_gpon :: "cfg_node_type" where
  "cfg_type_gpon =
     CfgType 0 ''GPON'' (CFG_TYPE_FLAG_UPDATE OR 1) cfg_type_gpon_child
       (Some cfg_type_gpon_ops) None"

section \<open>PM\<close>

definition cfg_type_pm_entry_ops :: cfg_node_ops where
  "cfg_type_pm_entry_ops = no_ops \<lparr>
     op_get := Some (Handler ''cfg_type_pm_entry_func_get''), op_set := Some DefaultFunc,
     op_query := Some DefaultFunc, op_commit := Some DefaultFunc\<rparr>"

definition cfg_type_pm_entry :: "cfg_node_type" where
  "cfg_type_pm_entry =
     CfgType 0 ''Entry'' (CFG_TYPE_FLAG_UPDATE OR 1) []
       (Some cfg_type_pm_entry_ops) None"

definition cfg_type_pm_epon_ops :: cfg_node_ops where
  "cfg_type_pm_epon_ops = no_ops \<lparr>
     op_get := Some (Handler ''cfg_type_pm_epon_func_get''), op_set := Some DefaultFunc,
     op_query := Some DefaultFunc, op_commit := Some DefaultFunc\<rparr>"

definition cfg_type_pm_epon :: "cfg_node_type" where
  "cfg_type_pm_epon =
     CfgType 0 ''EPON'' (CFG_TYPE_FLAG_UPDATE OR 1) []
       (Some cfg_type_pm_epon_ops) None"

definition cfg_type_pm_ops :: cfg_node_ops where
  "cfg_type_pm_ops = no_ops \<lparr>
     op_set := Some DefaultFunc, op_get := Some DefaultFunc, op_query := Some DefaultFunc,
     op_commit := Some DefaultFunc\<rparr>"

definition cfg_type_pm_child :: "cfg_node_type list" where
  "cfg_type_pm_child =
    [
      cfg_type_pm_entry, cfg_type_pm_epon]"

definition cfg_type_pm :: "cfg_node_type" where
  "cfg_type_pm =
     CfgType 0 ''PM'' (CFG_TYPE_FLAG_UPDATE OR 1) cfg_type_pm_child
       (Some cfg_type_pm_ops) None"

section \<open>OMCI\<close>

definition cfg_type_omci_entry_ops :: cfg_node_ops where
  "cfg_type_omci_entry_ops = no_ops \<lparr>
     op_get := Some (Handler ''cfg_type_omci_entry_func_get''),
     op_set := Some (Handler ''cfg_type_omci_entry_func_set''),
     op_query := Some DefaultFunc, op_commit := Some DefaultFunc\<rparr>"

definition cfg_type_omci_entry :: "cfg_node_type" where
  "cfg_type_omci_entry =
     CfgType 0 ''Entry'' (CFG_TYPE_FLAG_UPDATE OR 1) []
       (Some cfg_type_omci_entry_ops) None"

definition cfg_type_omci_ops :: cfg_node_ops where
  "cfg_type_omci_ops = no_ops \<lparr>
     op_set := Some DefaultFunc, op_get := Some DefaultFunc, op_query := Some DefaultFunc,
     op_commit := Some DefaultFunc\<rparr>"

definition cfg_type_omci_child :: "cfg_node_type list" where
  "cfg_type_omci_child =
    [
      cfg_type_omci_entry]"

definition cfg_type_omci :: "cfg_node_type" where
  "cfg_type_omci =
     CfgType 0 ''OMCI'' (CFG_TYPE_FLAG_UPDATE OR 1) cfg_type_omci_child
       (Some cfg_type_omci_ops) None"

section \<open>XPON\<close>

definition cfg_type_xpon_common_ops :: cfg_node_ops where
  "cfg_type_xpon_common_ops = no_ops \<lparr>
     op_get := Some (Handler ''cfg_type_xpon_common_func_get''),
     op_set := Some (Handler ''cfg_type_xpon_common_func_set''),
     op_query := Some DefaultFunc, op_commit := Some DefaultFunc\<rparr>"

definition cfg_type_xpon_common :: "cfg_node_type" where
  "cfg_type_xpon_common =
     CfgType 0 ''Common'' (CFG_TYPE_FLAG_UPDATE OR 1) []
       (Some cfg_type_xpon_common_ops) None"

definition cfg_type_xpon_linkcfg_ops :: cfg_node_ops where
  "cfg_type_xpon_linkcfg_ops = no_ops \<lparr>
     op_get := Some (Handler ''cfg_type_xpon_linkcfg_func_get''),
     op_set := Some (Handler ''cfg_type_xpon_linkcfg_func_set''),
     op_query := Some DefaultFunc, op_commit := Some DefaultFunc\<rparr>"

definition cfg_type_xpon_linkcfg :: "cfg_node_type" where
  "cfg_type_xpon_linkcfg =
     CfgType 0 ''LinkCfg'' (CFG_TYPE_FLAG_UPDATE OR 1) []
       (Some cfg_type_xpon_linkcfg_ops) None"

definition cfg_type_xpon_tr069_ops :: cfg_node_ops where
  "cfg_type_xpon_tr069_ops = no_ops \<lparr>
     op_get := Some DefaultFunc, op_set := Some DefaultFunc, op_query := Some DefaultFunc,
     op_commit := Some DefaultFunc\<rparr>"

definition cfg_type_xpon_tr069 :: "cfg_node_type" where
  "cfg_type_xpon_tr069 =
     CfgType 0 ''TR069'' (CFG_TYPE_FLAG_UPDATE OR 1) []
       (Some cfg_type_xpon_tr069_ops) None"

definition cfg_type_xpon_voice_ops :: cfg_node_ops where
  "cfg_type_xpon_voice_ops = no_ops \<lparr>
     op_get := Some DefaultFunc, op_set := Some DefaultFunc, op_query := Some DefaultFunc,
     op_commit := Some DefaultFunc\<rparr>"

definition cfg_type_xpon_voice :: "cfg_node_type" where
  "cfg_type_xpon_voice =
     CfgType 0 ''VOICE'' (CFG_TYPE_FLAG_UPDATE OR 1) []
       (Some cfg_type_xpon_voice_ops) None"

definition cfg_type_xpon_iphost1_ops :: cfg_node_ops where
  "cfg_type_xpon_iphost1_ops = no_ops \<lparr>
     op_get := Some DefaultFunc, op_set := Some DefaultFunc, op_query := Some DefaultFunc,
     op_commit := Some DefaultFunc\<rparr>"

definition cfg_type_xpon_iphost1 :: "cfg_node_type" where
  "cfg_type_xpon_iphost1 =
     CfgType 0 ''IPHost1'' (CFG_TYPE_FLAG_UPDATE OR 1) []
       (Some cfg_type_xpon_iphost1_ops) None"

definition cfg_type_xpon_iphost2_ops :: cfg_node_ops where
  "cfg_type_xpon_iphost2_ops = no_ops \<lparr>
     op_get := Some DefaultFunc, op_set := Some DefaultFunc, op_query := Some DefaultFunc,
     op_commit := Some DefaultFunc\<rparr>"

definition cfg_type_xpon_iphost2 :: "cfg_node_type" where
  "cfg_type_xpon_iphost2 =
     CfgType 0 ''IPHost2'' (CFG_TYPE_FLAG_UPDATE OR 1) []
       (Some cfg_type_xpon_iphost2_ops) None"

definition cfg_type_xpon_ops :: cfg_node_ops where
  "cfg_type_xpon_ops = no_ops \<lparr>
     op_set := Some DefaultFunc, op_get := Some DefaultFunc, op_query := Some DefaultFunc,
     op_commit := Some DefaultFunc\<rparr>"

definition cfg_type_xpon_child :: "cfg_node_type list" where
  "cfg_type_xpon_child =
    [
      cfg_type_xpon_common, cfg_type_xpon_linkcfg, cfg_type_xpon_tr069,
      cfg_type_xpon_voice, cfg_type_xpon_iphost1, cfg_type_xpon_iphost2]"

definition cfg_type_xpon :: "cfg_node_type" where
  "cfg_type_xpon =
     CfgType 0 ''XPON'' (CFG_TYPE_FLAG_UPDATE OR 1) cfg_type_xpon_child
       (Some cfg_type_xpon_ops) None"

section \<open>SysInfo\<close>

definition cfg_type_sysinfo_entry_ops :: cfg_node_ops where
  "cfg_type_sysinfo_entry_ops = no_ops \<lparr>
     op_get := Some (Handler ''cfg_type_sysinfo_entry_func_get''),
     op_set := Some DefaultFunc, op_query := Some DefaultFunc,
     op_commit := Some (Handler ''cfg_type_sysinfo_func_commit'')\<rparr>"

definition cfg_type_sysinfo_entry :: "cfg_node_type" where
  "cfg_type_sysinfo_entry =
     CfgType 0 ''Entry'' 1 []
       (Some cfg_type_sysinfo_entry_ops) None"

definition cfg_type_sysinfo_ops :: cfg_node_ops where
  "cfg_type_sysinfo_ops = no_ops \<lparr>
     op_set := Some DefaultFunc, op_get := Some DefaultFunc, op_query := Some DefaultFunc,
     op_commit := Some (Handler ''cfg_type_sysinfo_func_commit'')\<rparr>"

definition cfg_type_sysinfo_child :: "cfg_node_type list" where
  "cfg_type_sysinfo_child =
    [
      cfg_type_sysinfo_entry]"

definition cfg_type_sysinfo :: "cfg_node_type" where
  "cfg_type_sysinfo =
     CfgType 0 ''SysInfo'' 1 cfg_type_sysinfo_child
       (Some cfg_type_sysinfo_ops) None"

section \<open>Sys\<close>

definition cfg_type_sys_entry_ops :: cfg_node_ops where
  "cfg_type_sys_entry_ops = no_ops \<lparr>
     op_get := Some DefaultFunc, op_set := Some DefaultFunc, op_query := Some DefaultFunc,
     op_commit := Some (Handler ''cfg_type_sys_entry_func_commit'')\<rparr>"

definition cfg_type_sys_entry :: "cfg_node_type" where
  "cfg_type_sys_entry =
     CfgType 0 ''Entry'' 1 []
       (Some cfg_type_sys_entry_ops) None"

definition cfg_type_sys_dbus_ops :: cfg_node_ops where
  "cfg_type_sys_dbus_ops = no_ops \<lparr>
     op_get := Some DefaultFunc, op_set := Some DefaultFunc, op_query := Some DefaultFunc,
     op_commit := Some DefaultFunc\<rparr>"

definition cfg_type_sys_dbus :: "cfg_node_type" where
  "cfg_type_sys_dbus =
     CfgType 0 ''dbus'' 1 []
       (Some cfg_type_sys_dbus_ops) None"

definition cfg_type_sys_ops :: cfg_node_ops where
  "cfg_type_sys_ops = no_ops \<lparr>
     op_set := Some DefaultFunc, op_get := Some DefaultFunc, op_query := Some DefaultFunc,
     op_commit := Some (Handler ''cfg_type_sys_entry_func_commit'')\<rparr>"

definition cfg_type_sys_child :: "cfg_node_type list" where
  "cfg_type_sys_child =
    [
      cfg_type_sys_entry, cfg_type_sys_dbus]"

definition cfg_type_sys :: "cfg_node_type" where
  "cfg_type_sys =
     CfgType 0 ''Sys'' 1 cfg_type_sys_child
       (Some cfg_type_sys_ops) None"

section \<open>Lan\<close>

definition cfg_type_lan_entry_ops :: cfg_node_ops where
  "cfg_type_lan_entry_ops = no_ops \<lparr>
     op_get := Some DefaultFunc, op_set := Some DefaultFunc, op_create := Some DefaultFunc,
     op_delete := Some DefaultFunc, op_query := Some DefaultFunc,
     op_commit := Some (Handler ''cfg_type_lan_func_commit'')\<rparr>"

definition cfg_type_lan_index :: "string list" where
  "cfg_type_lan_index = [''lan_id'']"

definition cfg_type_lan_entry :: "cfg_node_type" where
  "cfg_type_lan_entry =
     CfgType 0 ''Entry'' (CFG_TYPE_FLAG_MULTIPLE OR 1) []
       (Some cfg_type_lan_entry_ops) (Some cfg_type_lan_index)"

definition cfg_type_lan_dhcp_ops :: cfg_node_ops where
  "cfg_type_lan_dhcp_ops = no_ops \<lparr>
     op_get := Some DefaultFunc, op_set := Some DefaultFunc, op_query := Some DefaultFunc,
     op_commit := Some (Handler ''cfg_type_lan_func_commit'')\<rparr>"

definition cfg_type_lan_dhcp :: "cfg_node_type" where
  "cfg_type_lan_dhcp =
     CfgType 0 ''Dhcp'' 1 []
       (Some cfg_type_lan_dhcp_ops) None"

definition cfg_type_lan_igmpsnoop_ops :: cfg_node_ops where
  "cfg_type_lan_igmpsnoop_ops = no_ops \<lparr>
     op_get := Some DefaultFunc, op_set := Some DefaultFunc, op_query := Some DefaultFunc,
     op_commit := Some (Handler ''cfg_type_lan_func_commit'')\<rparr>"

definition cfg_type_lan_igmpsnoop :: "cfg_node_type" where
  "cfg_type_lan_igmpsnoop =
     CfgType 0 ''IgmpSnoop'' 1 []
       (Some cfg_type_lan_igmpsnoop_ops) None"

definition cfg_type_lan_bridgemaclimit_ops :: cfg_node_ops where
  "cfg_type_lan_bridgemaclimit_ops = no_ops \<lparr>
     op_get := Some DefaultFunc, op_set := Some DefaultFunc, op_query := Some DefaultFunc,
     op_commit := Some (Handler ''cfg_type_lan_func_commit'')\<rparr>"

definition cfg_type_lan_bridgemaclimit :: "cfg_node_type" where
  "cfg_type_lan_bridgemaclimit =
     CfgType 0 ''BridgeMacLimit'' 1 []
       (Some cfg_type_lan_bridgemaclimit_ops) None"

definition cfg_type_lan_bsr_ops :: cfg_node_ops where
  "cfg_type_lan_bsr_ops = no_ops \<lparr>
     op_set := Some DefaultFunc, op_get := Some DefaultFunc, op_query := Some DefaultFunc,
     op_commit := Some DefaultFunc\<rparr>"

definition cfg_type_lan_bsr :: "cfg_node_type" where
  "cfg_type_lan_bsr =
     CfgType 0 ''BSR'' (CFG_TYPE_FLAG_MULTIPLE OR 1) []
       (Some cfg_type_lan_bsr_ops) None"

definition cfg_type_lan_ops :: cfg_node_ops where
  "cfg_type_lan_ops = no_ops \<lparr>
     op_set := Some DefaultFunc, op_get := Some DefaultFunc, op_query := Some DefaultFunc,
     op_commit := Some (Handler ''cfg_type_lan_func_commit'')\<rparr>"

definition cfg_type_lan_child :: "cfg_node_type list" where
  "cfg_type_lan_child =
    [
      cfg_type_lan_entry, cfg_type_lan_dhcp, cfg_type_lan_igmpsnoop,
      cfg_type_lan_bridgemaclimit, cfg_type_lan_bsr]"

definition cfg_type_lan :: "cfg_node_type" where
  "cfg_type_lan =
     CfgType 0 ''Lan'' 1 cfg_type_lan_child
       (Some cfg_type_lan_ops) None"

section \<open>Wan\<close>

definition cfg_type_wan_pvc_entry_ops :: cfg_node_ops where
  "cfg_type_wan_pvc_entry_ops = no_ops \<lparr>
     op_get := Some DefaultFunc, op_set := Some DefaultFunc, op_create := Some DefaultFunc,
     op_delete := Some (Handler ''cfg_type_wan_pvc_entry_func_delete''),
     op_commit := Some (Handler ''cfg_type_wan_pvc_entry_func_commit''),
     op_query := Some DefaultFunc\<rparr>"

definition cfg_type_wan_index :: "string list" where
  "cfg_type_wan_index = [''wan_pvc'']"

definition cfg_type_wan_pvc_entry :: "cfg_node_type" where
  "cfg_type_wan_pvc_entry =
     CfgType 0 ''Entry'' (CFG_TYPE_FLAG_MULTIPLE OR 8) []
       (Some cfg_type_wan_pvc_entry_ops) (Some cfg_type_wan_index)"

definition cfg_type_wan_pvc_ops :: cfg_node_ops where
  "cfg_type_wan_pvc_ops = no_ops \<lparr>
     op_get := Some DefaultFunc, op_set := Some DefaultFunc, op_create := Some DefaultFunc,
     op_delete := Some (Handler ''cfg_type_wan_pvc_func_delete''),
     op_commit := Some (Handler ''cfg_type_wan_pvc_func_commit''),
     op_query := Some DefaultFunc\<rparr>"

definition cfg_type_wan_pvc_child :: "cfg_node_type list" where
  "cfg_type_wan_pvc_child =
    [
      cfg_type_wan_pvc_entry]"

definition cfg_type_wan_pvc :: "cfg_node_type" where
  "cfg_type_wan_pvc =
     CfgType 0 ''PVC'' (CFG_TYPE_FLAG_MULTIPLE OR 8) cfg_type_wan_pvc_child
       (Some cfg_type_wan_pvc_ops) (Some cfg_type_wan_index)"

definition cfg_type_wan_common_ops :: cfg_node_ops where
  "cfg_type_wan_common_ops = no_ops \<lparr>
     op_get := Some DefaultFunc, op_set := Some DefaultFunc, op_query := Some DefaultFunc,
     op_commit := Some DefaultFunc\<rparr>"

definition cfg_type_wan_common :: "cfg_node_type" where
  "cfg_type_wan_common =
     CfgType 0 ''Common'' 1 []
       (Some cfg_type_wan_common_ops) None"

definition cfg_type_wan_ops :: cfg_node_ops where
  "cfg_type_wan_ops = no_ops \<lparr>
     op_set := Some DefaultFunc, op_get := Some DefaultFunc, op_query := Some DefaultFunc,
     op_commit := Some DefaultFunc\<rparr>"

definition cfg_type_wan_child :: "cfg_node_type list" where
  "cfg_type_wan_child =
    [
      cfg_type_wan_pvc, cfg_type_wan_common]"

definition cfg_type_wan :: "cfg_node_type" where
  "cfg_type_wan =
     CfgType 0 ''Wan'' 1 cfg_type_wan_child
       (Some cfg_type_wan_ops) None"

section \<open>WanInfo\<close>

definition cfg_type_waninfo_entry_ops :: cfg_node_ops where
  "cfg_type_waninfo_entry_ops = no_ops \<lparr>
     op_get := Some (Handler ''cfg_type_waninfo_entry_func_get''),
     op_set := Some DefaultFunc, op_create := Some DefaultFunc,
     op_delete := Some DefaultFunc, op_query := Some DefaultFunc,
     op_commit := Some DefaultFunc\<rparr>"

definition cfg_type_waninfo_index :: "string list" where
  "cfg_type_waninfo_index = [''waninfo_index'']"

definition cfg_type_waninfo_entry :: "cfg_node_type" where
  "cfg_type_waninfo_entry =
     CfgType 0 ''Entry'' (CFG_TYPE_FLAG_MEMORY OR CFG_TYPE_FLAG_MULTIPLE OR 64) []
       (Some cfg_type_waninfo_entry_ops) (Some cfg_type_waninfo_index)"

definition cfg_type_waninfo_common_ops :: cfg_node_ops where
  "cfg_type_waninfo_common_ops = no_ops \<lparr>
     op_get := Some (Handler ''cfg_type_waninfo_common_func_get''),
     op_set := Some DefaultFunc, op_commit := Some DefaultFunc\<rparr>"

definition cfg_type_waninfo_common :: "cfg_node_type" where
  "cfg_type_waninfo_common =
     CfgType 0 ''Common'' (CFG_TYPE_FLAG_MEMORY OR 1) []
       (Some cfg_type_waninfo_common_ops) None"

definition cfg_type_waninfo_message_ops :: cfg_node_ops where
  "cfg_type_waninfo_message_ops = no_ops \<lparr>
     op_get := Some (Handler ''cfg_type_waninfo_message_func_get''),
     op_set := Some DefaultFunc, op_query := Some DefaultFunc, op_commit := Some DefaultFunc\<rparr>"

definition cfg_type_waninfo_message :: "cfg_node_type" where
  "cfg_type_waninfo_message =
     CfgType 0 ''Message'' (CFG_TYPE_FLAG_MEMORY OR 1) []
       (Some cfg_type_waninfo_message_ops) None"

definition cfg_type_waninfo_wanif_ops :: cfg_node_ops where
  "cfg_type_waninfo_wanif_ops = no_ops \<lparr>
     op_get := Some (Handler ''cfg_type_waninfo_wanif_func_get''),
     op_set := Some (Handler ''cfg_type_waninfo_wanif_func_set''),
     op_delete := Some DefaultFunc, op_query := Some DefaultFunc,
     op_commit := Some (Handler ''cfg_type_waninfo_wanif_func_commit'')\<rparr>"

definition cfg_type_waninfo_wanif :: "cfg_node_type" where
  "cfg_type_waninfo_wanif =
     CfgType 0 ''wanIF'' (CFG_TYPE_FLAG_MEMORY OR 1) []
       (Some cfg_type_waninfo_wanif_ops) None"

definition cfg_type_waninfo_wanpvc_ops :: cfg_node_ops where
  "cfg_type_waninfo_wanpvc_ops = no_ops \<lparr>
     op_get := Some (Handler ''cfg_type_waninfo_wanpvc_func_get''),
     op_set := Some DefaultFunc, op_query := Some DefaultFunc,
     op_commit := Some (Handler ''cfg_type_waninfo_wanpvc_func_commit'')\<rparr>"

definition cfg_type_waninfo_wanpvc :: "cfg_node_type" where
  "cfg_type_waninfo_wanpvc =
     CfgType 0 ''wanPVC'' (CFG_TYPE_FLAG_MEMORY OR 1) []
       (Some cfg_type_waninfo_wanpvc_ops) None"

definition cfg_type_waninfo_mannualdns_ops :: cfg_node_ops where
  "cfg_type_waninfo_mannualdns_ops = no_ops \<lparr>
     op_get := Some (Handler ''cfg_type_waninfo_mannualdns_func_get''),
     op_set := Some DefaultFunc, op_query := Some DefaultFunc, op_commit := Some DefaultFunc\<rparr>"

definition cfg_type_waninfo_mannualdns :: "cfg_node_type" where
  "cfg_type_waninfo_mannualdns =
     CfgType 0 ''mannualdns'' (CFG_TYPE_FLAG_MEMORY OR 1) []
       (Some cfg_type_waninfo_mannualdns_ops) None"

definition cfg_type_waninfo_internet_ops :: cfg_node_ops where
  "cfg_type_waninfo_internet_ops = no_ops \<lparr>
     op_get := Some (Handler ''cfg_type_waninfo_internet_func_get''),
     op_set := Some DefaultFunc, op_query := Some DefaultFunc, op_commit := Some DefaultFunc\<rparr>"

definition cfg_type_waninfo_internet :: "cfg_node_type" where
  "cfg_type_waninfo_internet =
     CfgType 0 ''INTERNET'' (CFG_TYPE_FLAG_MEMORY OR 1) []
       (Some cfg_type_waninfo_internet_ops) None"

definition cfg_type_waninfo_ops :: cfg_node_ops where
  "cfg_type_waninfo_ops = no_ops \<lparr>
     op_query := Some DefaultFunc\<rparr>"

definition cfg_type_waninfo_child :: "cfg_node_type list" where
  "cfg_type_waninfo_child =
    [
      cfg_type_waninfo_entry, cfg_type_waninfo_common, cfg_type_waninfo_message,
      cfg_type_waninfo_wanif, cfg_type_waninfo_wanpvc, cfg_type_waninfo_mannualdns,
      cfg_type_waninfo_internet]"

definition cfg_type_waninfo :: "cfg_node_type" where
  "cfg_type_waninfo =
     CfgType 0 ''WanInfo'' (CFG_TYPE_FLAG_MEMORY OR 1) cfg_type_waninfo_child
       (Some cfg_type_waninfo_ops) None"

section \<open>Radvd\<close>

definition cfg_type_radvd_entry_ops :: cfg_node_ops where
  "cfg_type_radvd_entry_ops = no_ops \<lparr>
     op_get := Some DefaultFunc, op_set := Some DefaultFunc, op_query := Some DefaultFunc,
     op_commit := Some (Handler ''cfg_type_radvd_func_commit'')\<rparr>"

definition cfg_type_radvd_entry :: "cfg_node_type" where
  "cfg_type_radvd_entry =
     CfgType 0 ''Entry'' 1 []
       (Some cfg_type_radvd_entry_ops) None"

definition cfg_type_radvd_ops :: cfg_node_ops where
  "cfg_type_radvd_ops = no_ops \<lparr>
     op_set := Some DefaultFunc, op_get := Some DefaultFunc, op_query := Some DefaultFunc,
     op_commit := Some (Handler ''cfg_type_radvd_func_commit'')\<rparr>"

definition cfg_type_radvd_child :: "cfg_node_type list" where
  "cfg_type_radvd_child =
    [
      cfg_type_radvd_entry]"

definition cfg_type_radvd :: "cfg_node_type" where
  "cfg_type_radvd =
     CfgType 0 ''Radvd'' 1 cfg_type_radvd_child
       (Some cfg_type_radvd_ops) None"

section \<open>Dhcp6s\<close>

definition cfg_type_dhcp6s_entry_ops :: cfg_node_ops where
  "cfg_type_dhcp6s_entry_ops = no_ops \<lparr>
     op_get := Some DefaultFunc, op_set := Some DefaultFunc, op_query := Some DefaultFunc,
     op_commit := Some (Handler ''cfg_type_dhcp6s_func_commit'')\<rparr>"

definition cfg_type_dhcp6s_entry :: "cfg_node_type" where
  "cfg_type_dhcp6s_entry =
     CfgType 0 ''Entry'' 1 []
       (Some cfg_type_dhcp6s_entry_ops) None"

definition cfg_type_dhcp6s_option16_ops :: cfg_node_ops where
  "cfg_type_dhcp6s_option16_ops = no_ops \<lparr>
     op_get := Some DefaultFunc, op_set := Some DefaultFunc, op_query := Some DefaultFunc,
     op_commit := Some (Handler ''cfg_type_dhcp6s_func_commit'')\<rparr>"

definition cfg_type_dhcp6s_option16 :: "cfg_node_type" where
  "cfg_type_dhcp6s_option16 =
     CfgType 0 ''Option16'' 1 []
       (Some cfg_type_dhcp6s_option16_ops) None"

definition cfg_type_dhcp6s_option17_ops :: cfg_node_ops where
  "cfg_type_dhcp6s_option17_ops = no_ops \<lparr>
     op_get := Some DefaultFunc, op_set := Some DefaultFunc, op_query := Some DefaultFunc,
     op_commit := Some (Handler ''cfg_type_dhcp6s_func_commit'')\<rparr>"

definition cfg_type_dhcp6s_option17 :: "cfg_node_type" where
  "cfg_type_dhcp6s_option17 =
     CfgType 0 ''Option17'' 1 []
       (Some cfg_type_dhcp6s_option17_ops) None"

definition cfg_type_dhcp6s_dnsrelay_ops :: cfg_node_ops where
  "cfg_type_dhcp6s_dnsrelay_ops = no_ops \<lparr>
     op_get := Some DefaultFunc, op_set := Some DefaultFunc, op_create := Some DefaultFunc,
     op_delete := Some DefaultFunc, op_query := Some DefaultFunc,
     op_commit := Some (Handler ''cfg_type_dhcp6s_func_commit'')\<rparr>"

definition cfg_type_dhcp6s_dnsrelay :: "cfg_node_type" where
  "cfg_type_dhcp6s_dnsrelay =
     CfgType 0 ''Dnsrelay'' 1 []
       (Some cfg_type_dhcp6s_dnsrelay_ops) None"

definition cfg_type_dhcp6s_ops :: cfg_node_ops where
  "cfg_type_dhcp6s_ops = no_ops \<lparr>
     op_set := Some DefaultFunc, op_get := Some DefaultFunc, op_query := Some DefaultFunc,
     op_commit := Some (Handler ''cfg_type_dhcp6s_func_commit'')\<rparr>"

definition cfg_type_dhcp6s_child :: "cfg_node_type list" where
  "cfg_type_dhcp6s_child =
    [
      cfg_type_dhcp6s_entry, cfg_type_dhcp6s_option16, cfg_type_dhcp6s_option17,
      cfg_type_dhcp6s_dnsrelay]"

definition cfg_type_dhcp6s :: "cfg_node_type" where
  "cfg_type_dhcp6s =
     CfgType 0 ''Dhcp6s'' 1 cfg_type_dhcp6s_child
       (Some cfg_type_dhcp6s_ops) None"

section \<open>Dhcpd\<close>

definition cfg_type_dhcpd_entry_ops :: cfg_node_ops where
  "cfg_type_dhcpd_entry_ops = no_ops \<lparr>
     op_get := Some (Handler ''cfg_type_dhcpd_entry_func_get''),
     op_set := Some DefaultFunc, op_create := Some DefaultFunc,
     op_delete := Some DefaultFunc, op_query := Some DefaultFunc,
     op_commit := Some (Handler ''cfg_type_dhcpd_func_commit'')\<rparr>"

definition cfg_type_dhcpd_index :: "string list" where
  "cfg_type_dhcpd_index = [''dhcpd_id'']"

definition cfg_type_dhcpd_entry :: "cfg_node_type" where
  "cfg_type_dhcpd_entry =
     CfgType 0 ''Entry'' (CFG_TYPE_FLAG_UPDATE OR CFG_TYPE_FLAG_MULTIPLE OR 8) []
       (Some cfg_type_dhcpd_entry_ops) (Some cfg_type_dhcpd_index)"

definition cfg_type_dhcpd_common_ops :: cfg_node_ops where
  "cfg_type_dhcpd_common_ops = no_ops \<lparr>
     op_get := Some (Handler ''cfg_type_dhcpd_common_func_get''),
     op_set := Some DefaultFunc, op_query := Some DefaultFunc,
     op_commit := Some (Handler ''cfg_type_dhcpd_func_commit'')\<rparr>"

definition cfg_type_dhcpd_common :: "cfg_node_type" where
  "cfg_type_dhcpd_common =
     CfgType 0 ''Common'' (CFG_TYPE_FLAG_UPDATE OR 1) []
       (Some cfg_type_dhcpd_common_ops) None"

definition cfg_type_dhcpd_option60_ops :: cfg_node_ops where
  "cfg_type_dhcpd_option60_ops = no_ops \<lparr>
     op_get := Some (Handler ''cfg_type_dhcpd_option60_func_get''),
     op_set := Some DefaultFunc, op_query := Some DefaultFunc,
     op_commit := Some (Handler ''cfg_type_dhcpd_func_commit'')\<rparr>"

definition cfg_type_dhcpd_option60 :: "cfg_node_type" where
  "cfg_type_dhcpd_option60 =
     CfgType 0 ''Option60'' (CFG_TYPE_FLAG_UPDATE OR 1) []
       (Some cfg_type_dhcpd_option60_ops) None"

definition cfg_type_dhcpd_option240_ops :: cfg_node_ops where
  "cfg_type_dhcpd_option240_ops = no_ops \<lparr>
     op_get := Some (Handler ''cfg_type_dhcpd_option240_func_get''),
     op_set := Some DefaultFunc, op_query := Some DefaultFunc,
     op_commit := Some (Handler ''cfg_type_dhcpd_func_commit'')\<rparr>"

definition cfg_type_dhcpd_option240 :: "cfg_node_type" where
  "cfg_type_dhcpd_option240 =
     CfgType 0 ''Option240'' (CFG_TYPE_FLAG_UPDATE OR 1) []
       (Some cfg_type_dhcpd_option240_ops) None"

definition cfg_type_dhcpd_option125_ops :: cfg_node_ops where
  "cfg_type_dhcpd_option125_ops = no_ops \<lparr>
     op_get := Some (Handler ''cfg_type_dhcpd_option125_func_get''),
     op_set := Some DefaultFunc, op_query := Some DefaultFunc,
     op_commit := Some (Handler ''cfg_type_dhcpd_func_commit'')\<rparr>"

definition cfg_type_dhcpd_option125 :: "cfg_node_type" where
  "cfg_type_dhcpd_option125 =
     CfgType 0 ''Option125'' (CFG_TYPE_FLAG_UPDATE OR 1) []
       (Some cfg_type_dhcpd_option125_ops) None"

definition cfg_type_dhcpd_ops :: cfg_node_ops where
  "cfg_type_dhcpd_ops = no_ops \<lparr>
     op_set := Some DefaultFunc, op_get := Some DefaultFunc, op_query := Some DefaultFunc,
     op_commit := Some (Handler ''cfg_type_dhcpd_func_commit'')\<rparr>"

definition cfg_type_dhcpd_child :: "cfg_node_type list" where
  "cfg_type_dhcpd_child =
    [
      cfg_type_dhcpd_entry, cfg_type_dhcpd_common, cfg_type_dhcpd_option60,
      cfg_type_dhcpd_option240, cfg_type_dhcpd_option125]"

definition cfg_type_dhcpd :: "cfg_node_type" where
  "cfg_type_dhcpd =
     CfgType 0 ''Dhcpd'' (CFG_TYPE_FLAG_UPDATE OR 1) cfg_type_dhcpd_child
       (Some cfg_type_dhcpd_ops) None"

section \<open>DhcpRelay\<close>

definition cfg_type_dhcprelay_entry_ops :: cfg_node_ops where
  "cfg_type_dhcprelay_entry_ops = no_ops \<lparr>
     op_get := Some DefaultFunc, op_set := Some DefaultFunc, op_query := Some DefaultFunc,
     op_commit := Some (Handler ''cfg_type_dhcprelay_func_commit'')\<rparr>"

definition cfg_type_dhcprelay_entry :: "cfg_node_type" where
  "cfg_type_dhcprelay_entry =
     CfgType 0 ''Entry'' 1 []
       (Some cfg_type_dhcprelay_entry_ops) None"

definition cfg_type_dhcprelay_ops :: cfg_node_ops where
  "cfg_type_dhcprelay_ops = no_ops \<lparr>
     op_set := Some DefaultFunc, op_get := Some DefaultFunc, op_query := Some DefaultFunc,
     op_commit := Some (Handler ''cfg_type_dhcprelay_func_commit'')\<rparr>"

definition cfg_type_dhcprelay_child :: "cfg_node_type list" where
  "cfg_type_dhcprelay_child =
    [
      cfg_type_dhcprelay_entry]"

definition cfg_type_dhcprelay :: "cfg_node_type" where
  "cfg_type_dhcprelay =
     CfgType 0 ''DhcpRelay'' 1 cfg_type_dhcprelay_child
       (Some cfg_type_dhcprelay_ops) None"

section \<open>DhcpLease\<close>

definition cfg_type_dhcplease_entry_ops :: cfg_node_ops where
  "cfg_type_dhcplease_entry_ops = no_ops \<lparr>
     op_get := Some (Handler ''cfg_type_dhcplease_entry_func_get''),
     op_set := Some DefaultFunc, op_create := Some DefaultFunc,
     op_delete := Some DefaultFunc, op_query := Some DefaultFunc,
     op_commit := Some DefaultFunc\<rparr>"

definition cfg_type_dhcplease_index :: "string list" where
  "cfg_type_dhcplease_index = []"

definition cfg_type_dhcplease_entry :: "cfg_node_type" where
  "cfg_type_dhcplease_entry =
     CfgType 0 ''Entry'' (CFG_TYPE_FLAG_MEMORY OR CFG_TYPE_FLAG_UPDATE OR CFG_TYPE_FLAG_MULTIPLE OR 254) []
       (Some cfg_type_dhcplease_entry_ops) (Some cfg_type_dhcplease_index)"

definition cfg_type_dhcplease_ops :: cfg_node_ops where
  "cfg_type_dhcplease_ops = no_ops \<lparr>
     op_set := Some DefaultFunc,
     op_get := Some (Handler ''cfg_type_dhcplease_entry_func_get''),
     op_query := Some DefaultFunc, op_commit := Some DefaultFunc\<rparr>"

definition cfg_type_dhcplease_child :: "cfg_node_type list" where
  "cfg_type_dhcplease_child =
    [
      cfg_type_dhcplease_entry]"

definition cfg_type_dhcplease :: "cfg_node_type" where
  "cfg_type_dhcplease =
     CfgType 0 ''DhcpLease'' (CFG_TYPE_FLAG_MEMORY OR CFG_TYPE_FLAG_UPDATE OR 1) cfg_type_dhcplease_child
       (Some cfg_type_dhcplease_ops) None"

section \<open>LanHost\<close>

definition cfg_type_lanhost_entry_ops :: cfg_node_ops where
  "cfg_type_lanhost_entry_ops = no_ops \<lparr>
     op_get := Some (Handler ''cfg_type_lanhost_entry_func_get''),
     op_set := Some DefaultFunc, op_create := Some DefaultFunc,
     op_delete := Some DefaultFunc, op_query := Some DefaultFunc,
     op_commit := Some DefaultFunc\<rparr>"

definition cfg_type_lanhost_index :: "string list" where
  "cfg_type_lanhost_index = []"

definition cfg_type_lanhost_entry :: "cfg_node_type" where
  "cfg_type_lanhost_entry =
     CfgType 0 ''Entry'' (CFG_TYPE_FLAG_MEMORY OR CFG_TYPE_FLAG_UPDATE OR CFG_TYPE_FLAG_MULTIPLE OR 254) []
       (Some cfg_type_lanhost_entry_ops) (Some cfg_type_lanhost_index)"

definition cfg_type_lanhost_ops :: cfg_node_ops where
  "cfg_type_lanhost_ops = no_ops \<lparr>
     op_set := Some DefaultFunc,
     op_get := Some (Handler ''cfg_type_lanhost_entry_func_get''),
     op_query := Some DefaultFunc, op_commit := Some DefaultFunc\<rparr>"

definition cfg_type_lanhost_child :: "cfg_node_type list" where
  "cfg_type_lanhost_child =
    [
      cfg_type_lanhost_entry]"

definition cfg_type_lanhost :: "cfg_node_type" where
  "cfg_type_lanhost =
     CfgType 0 ''LanHost'' (CFG_TYPE_FLAG_MEMORY OR CFG_TYPE_FLAG_UPDATE OR 1) cfg_type_lanhost_child
       (Some cfg_type_lanhost_ops) None"

section \<open>LANHost2\<close>

definition cfg_type_lanhost2_entry_ops :: cfg_node_ops where
  "cfg_type_lanhost2_entry_ops = no_ops \<lparr>
     op_get := Some DefaultFunc, op_set := Some DefaultFunc, op_create := Some DefaultFunc,
     op_delete := Some DefaultFunc, op_query := Some DefaultFunc,
     op_commit := Some (Handler ''cfg_type_lanhost2_commit'')\<rparr>"

definition cfg_type_lanhost2_index :: "string list" where
  "cfg_type_lanhost2_index = []"

definition cfg_type_lanhost2_entry :: "(string \<Rightarrow> u32) \<Rightarrow> cfg_node_type" where
  "cfg_type_lanhost2_entry mx =
     CfgType 0 ''Entry'' (CFG_TYPE_FLAG_MULTIPLE OR mx ''MAX_LANHOST2_ENTRY_NUM'') []
       (Some cfg_type_lanhost2_entry_ops) (Some cfg_type_lanhost2_index)"

definition cfg_type_lanhost2_common_ops :: cfg_node_ops where
  "cfg_type_lanhost2_common_ops = no_ops \<lparr>
     op_get := Some DefaultFunc, op_set := Some DefaultFunc, op_create := Some DefaultFunc,
     op_delete := Some DefaultFunc, op_query := Some DefaultFunc,
     op_commit := Some (Handler ''cfg_type_lanhost_common2_commit'')\<rparr>"

definition cfg_type_lanhost2_common :: "cfg_node_type" where
  "cfg_type_lanhost2_common =
     CfgType 0 ''Common'' 1 []
       (Some cfg_type_lanhost2_common_ops) None"

definition cfg_type_lanhost2_ops :: cfg_node_ops where
  "cfg_type_lanhost2_ops = no_ops \<lparr>
     op_set := Some DefaultFunc, op_get := Some DefaultFunc, op_query := Some DefaultFunc,
     op_commit := Some (Handler ''cfg_type_lanhost2_commit'')\<rparr>"

definition cfg_type_lanhost2_child :: "(string \<Rightarrow> u32) \<Rightarrow> cfg_node_type list" where
  "cfg_type_lanhost2_child mx =
    [
      cfg_type_lanhost2_entry mx, cfg_type_lanhost2_common]"

definition cfg_type_lanhost2 :: "(string \<Rightarrow> u32) \<Rightarrow> cfg_node_type" where
  "cfg_type_lanhost2 mx =
     CfgType 0 ''LANHost2'' 1 (cfg_type_lanhost2_child mx)
       (Some cfg_type_lanhost2_ops) None"

section \<open>LANHost2Black\<close>

definition cfg_type_lanhost2black_entry_ops :: cfg_node_ops where
  "cfg_type_lanhost2black_entry_ops = no_ops \<lparr>
     op_get := Some DefaultFunc, op_set := Some DefaultFunc, op_create := Some DefaultFunc,
     op_delete := Some DefaultFunc, op_query := Some DefaultFunc,
     op_commit := Some DefaultFunc\<rparr>"

definition cfg_type_lanhost2black_entry :: "(string \<Rightarrow> u32) \<Rightarrow> cfg_node_type" where
  "cfg_type_lanhost2black_entry mx =
     CfgType 0 ''Entry'' (CFG_TYPE_FLAG_MEMORY OR CFG_TYPE_FLAG_MULTIPLE OR mx ''MAX_LANHOST2_ENTRY_NUM'') []
       (Some cfg_type_lanhost2black_entry_ops) None"

definition cfg_type_lanhost2black_common_ops :: cfg_node_ops where
  "cfg_type_lanhost2black_common_ops = no_ops \<lparr>
     op_get := Some DefaultFunc, op_set := Some DefaultFunc, op_query := Some DefaultFunc,
     op_commit := Some DefaultFunc\<rparr>"

definition cfg_type_lanhost2black_common :: "cfg_node_type" where
  "cfg_type_lanhost2black_common =
     CfgType 0 ''Common'' (CFG_TYPE_FLAG_MEMORY OR 1) []
       (Some cfg_type_lanhost2black_common_ops) None"

definition cfg_type_lanhost2black_ops :: cfg_node_ops where
  "cfg_type_lanhost2black_ops = no_ops \<lparr>
     op_set := Some DefaultFunc, op_get := Some DefaultFunc, op_query := Some DefaultFunc,
     op_commit := Some DefaultFunc\<rparr>"

definition cfg_type_lanhost2black_child :: "(string \<Rightarrow> u32) \<Rightarrow> cfg_node_type list" where
  "cfg_type_lanhost2black_child mx =
    [
      cfg_type_lanhost2black_entry mx, cfg_type_lanhost2black_common]"

definition cfg_type_lanhost2black :: "(string \<Rightarrow> u32) \<Rightarrow> cfg_node_type" where
  "cfg_type_lanhost2black mx =
     CfgType 0 ''LANHost2Black'' (CFG_TYPE_FLAG_MEMORY OR 1) (cfg_type_lanhost2black_child mx)
       (Some cfg_type_lanhost2black_ops) None"

section \<open>WLan\<close>

definition cfg_type_wlan_entry_ops :: cfg_node_ops where
  "cfg_type_wlan_entry_ops = no_ops \<lparr>
     op_get := Some DefaultFunc, op_set := Some (Handler ''cfg_type_wlan_entry_func_set''),
     op_create := Some DefaultFunc, op_delete := Some DefaultFunc,
     op_query := Some DefaultFunc, op_commit := Some (Handler ''cfg_type_wlan_func_commit'')\<rparr>"

definition cfg_type_wlan_index :: "string list" where
  "cfg_type_wlan_index = [''wlan_id'']"

definition cfg_type_wlan_entry :: "cfg_node_type" where
  "cfg_type_wlan_entry =
     CfgType 0 ''Entry'' (CFG_TYPE_FLAG_MULTIPLE OR 4) []
       (Some cfg_type_wlan_entry_ops) (Some cfg_type_wlan_index)"

definition cfg_type_wlan_wds_ops :: cfg_node_ops where
  "cfg_type_wlan_wds_ops = no_ops \<lparr>
     op_get := Some DefaultFunc, op_set := Some DefaultFunc, op_query := Some DefaultFunc,
     op_commit := Some (Handler ''cfg_type_wlan_func_commit'')\<rparr>"

definition cfg_type_wlan_wds :: "cfg_node_type" where
  "cfg_type_wlan_wds =
     CfgType 0 ''WDS'' 1 []
       (Some cfg_type_wlan_wds_ops) None"

definition cfg_type_wlan_common_ops :: cfg_node_ops where
  "cfg_type_wlan_common_ops = no_ops \<lparr>
     op_get := Some DefaultFunc, op_set := Some DefaultFunc, op_query := Some DefaultFunc,
     op_commit := Some (Handler ''cfg_type_wlan_func_commit'')\<rparr>"

definition cfg_type_wlan_common :: "cfg_node_type" where
  "cfg_type_wlan_common =
     CfgType 0 ''Common'' 1 []
       (Some cfg_type_wlan_common_ops) None"

definition cfg_type_wlan_ratepriority_ops :: cfg_node_ops where
  "cfg_type_wlan_ratepriority_ops = no_ops \<lparr>
     op_get := Some DefaultFunc, op_set := Some DefaultFunc, op_query := Some DefaultFunc,
     op_commit := Some (Handler ''cfg_type_wlan_func_ratepriority_commit'')\<rparr>"

definition cfg_type_wlan_ratepriority :: "cfg_node_type" where
  "cfg_type_wlan_ratepriority =
     CfgType 0 ''RatePriority'' 1 []
       (Some cfg_type_wlan_ratepriority_ops) None"

definition cfg_type_wlan_monitorSTA_ops :: cfg_node_ops where
  "cfg_type_wlan_monitorSTA_ops = no_ops \<lparr>
     op_get := Some DefaultFunc, op_set := Some DefaultFunc, op_query := Some DefaultFunc,
     op_commit := Some (Handler ''cfg_type_wlan_func_monitorSTA_commit'')\<rparr>"

definition cfg_type_wlan_monitorSTA :: "cfg_node_type" where
  "cfg_type_wlan_monitorSTA =
     CfgType 0 ''MonitorSTA'' 1 []
       (Some cfg_type_wlan_monitorSTA_ops) None"

definition cfg_type_wlan_roaming_ops :: cfg_node_ops where
  "cfg_type_wlan_roaming_ops = no_ops \<lparr>
     op_get := Some DefaultFunc, op_set := Some DefaultFunc, op_query := Some DefaultFunc,
     op_commit := Some (Handler ''cfg_type_wlanroam_func_commit'')\<rparr>"

definition cfg_type_wlan_roaming :: "cfg_node_type" where
  "cfg_type_wlan_roaming =
     CfgType 0 ''Roam'' 1 []
       (Some cfg_type_wlan_roaming_ops) None"

definition cfg_type_wlan_ops :: cfg_node_ops where
  "cfg_type_wlan_ops = no_ops \<lparr>
     op_set := Some DefaultFunc, op_get := Some DefaultFunc, op_query := Some DefaultFunc,
     op_commit := Some (Handler ''cfg_type_wlan_func_commit'')\<rparr>"

definition cfg_type_wlan_child :: "cfg_node_type list" where
  "cfg_type_wlan_child =
    [
      cfg_type_wlan_entry, cfg_type_wlan_wds, cfg_type_wlan_common,
      cfg_type_wlan_ratepriority, cfg_type_wlan_monitorSTA, cfg_type_wlan_roaming]"

definition cfg_type_wlan :: "cfg_node_type" where
  "cfg_type_wlan =
     CfgType 0 ''WLan'' 1 cfg_type_wlan_child
       (Some cfg_type_wlan_ops) None"

section \<open>WLan11ac\<close>

definition cfg_type_wlan11ac_entry_ops :: cfg_node_ops where
  "cfg_type_wlan11ac_entry_ops = no_ops \<lparr>
     op_get := Some DefaultFunc,
     op_set := Some (Handler ''cfg_type_wlan11ac_entry_func_set''),
     op_create := Some DefaultFunc, op_delete := Some DefaultFunc,
     op_query := Some DefaultFunc,
     op_commit := Some (Handler ''cfg_type_wlan11ac_func_commit'')\<rparr>"

definition cfg_type_wlan11ac_index :: "string list" where
  "cfg_type_wlan11ac_index = [''wlan_ac_id'']"

definition cfg_type_wlan11ac_entry :: "cfg_node_type" where
  "cfg_type_wlan11ac_entry =
     CfgType 0 ''Entry'' (CFG_TYPE_FLAG_MULTIPLE OR 4) []
       (Some cfg_type_wlan11ac_entry_ops) (Some cfg_type_wlan11ac_index)"

definition cfg_type_wlan11ac_wds_ops :: cfg_node_ops where
  "cfg_type_wlan11ac_wds_ops = no_ops \<lparr>
     op_get := Some DefaultFunc, op_set := Some DefaultFunc, op_create := Some DefaultFunc,
     op_delete := Some DefaultFunc, op_query := Some DefaultFunc,
     op_commit := Some (Handler ''cfg_type_wlan11ac_func_commit'')\<rparr>"

definition cfg_type_wlan11ac_wds :: "cfg_node_type" where
  "cfg_type_wlan11ac_wds =
     CfgType 0 ''WDS'' 1 []
       (Some cfg_type_wlan11ac_wds_ops) None"

definition cfg_type_wlan11ac_common_ops :: cfg_node_ops where
  "cfg_type_wlan11ac_common_ops = no_ops \<lparr>
     op_get := Some DefaultFunc, op_set := Some DefaultFunc, op_query := Some DefaultFunc,
     op_commit := Some (Handler ''cfg_type_wlan11ac_func_commit'')\<rparr>"

definition cfg_type_wlan11ac_common :: "cfg_node_type" where
  "cfg_type_wlan11ac_common =
     CfgType 0 ''Common'' 1 []
       (Some cfg_type_wlan11ac_common_ops) None"

definition cfg_type_wlan11ac_ratepriority_ops :: cfg_node_ops where
  "cfg_type_wlan11ac_ratepriority_ops = no_ops \<lparr>
     op_get := Some DefaultFunc, op_set := Some DefaultFunc, op_query := Some DefaultFunc,
     op_commit := Some (Handler ''cfg_type_wlan11ac_func_ratepriority_commit'')\<rparr>"

definition cfg_type_wlan11ac_ratepriority :: "cfg_node_type" where
  "cfg_type_wlan11ac_ratepriority =
     CfgType 0 ''RatePriority'' 1 []
       (Some cfg_type_wlan11ac_ratepriority_ops) None"

definition cfg_type_wlan11ac_roaming_ops :: cfg_node_ops where
  "cfg_type_wlan11ac_roaming_ops = no_ops \<lparr>
     op_get := Some DefaultFunc, op_set := Some DefaultFunc, op_query := Some DefaultFunc,
     op_commit := Some (Handler ''cfg_type_wlan11acroam_func_commit'')\<rparr>"

definition cfg_type_wlan11ac_roaming :: "cfg_node_type" where
  "cfg_type_wlan11ac_roaming =
     CfgType 0 ''Roam'' 1 []
       (Some cfg_type_wlan11ac_roaming_ops) None"

definition cfg_type_wlan11ac_ops :: cfg_node_ops where
  "cfg_type_wlan11ac_ops = no_ops \<lparr>
     op_set := Some DefaultFunc, op_get := Some DefaultFunc, op_query := Some DefaultFunc,
     op_commit := Some (Handler ''cfg_type_wlan11ac_func_commit'')\<rparr>"

definition cfg_type_wlan11ac_child :: "cfg_node_type list" where
  "cfg_type_wlan11ac_child =
    [
      cfg_type_wlan11ac_entry, cfg_type_wlan11ac_wds, cfg_type_wlan11ac_common,
      cfg_type_wlan11ac_ratepriority, cfg_type_wlan11ac_roaming]"

definition cfg_type_wlan11ac :: "cfg_node_type" where
  "cfg_type_wlan11ac =
     CfgType 0 ''WLan11ac'' 1 cfg_type_wlan11ac_child
       (Some cfg_type_wlan11ac_ops) None"

section \<open>Firewall\<close>

definition cfg_type_firewall_entry_ops :: cfg_node_ops where
  "cfg_type_firewall_entry_ops = no_ops \<lparr>
     op_get := Some DefaultFunc, op_set := Some DefaultFunc, op_query := Some DefaultFunc,
     op_commit := Some (Handler ''cfg_type_firewall_entry_commit'')\<rparr>"

definition cfg_type_firewall_entry :: "cfg_node_type" where
  "cfg_type_firewall_entry =
     CfgType 0 ''Entry'' 1 []
       (Some cfg_type_firewall_entry_ops) None"

definition cfg_type_firewall_ops :: cfg_node_ops where
  "cfg_type_firewall_ops = no_ops \<lparr>
     op_set := Some DefaultFunc, op_get := Some DefaultFunc, op_query := Some DefaultFunc,
     op_commit := Some (Handler ''cfg_type_firewall_entry_commit'')\<rparr>"

definition cfg_type_firewall_child :: "cfg_node_type list" where
  "cfg_type_firewall_child =
    [
      cfg_type_firewall_entry]"

definition cfg_type_firewall :: "cfg_node_type" where
  "cfg_type_firewall =
     CfgType 0 ''Firewall'' 1 cfg_type_firewall_child
       (Some cfg_type_firewall_ops) None"

section \<open>IPSEC\<close>

definition cfg_type_ipsec_entry_ops :: cfg_node_ops where
  "cfg_type_ipsec_entry_ops = no_ops \<lparr>
     op_get := Some DefaultFunc, op_set := Some DefaultFunc, op_create := Some DefaultFunc,
     op_delete := Some DefaultFunc, op_query := Some DefaultFunc,
     op_commit := Some (Handler ''cfg_type_ipsec_func_commit'')\<rparr>"

definition cfg_type_ipsec_index :: "string list" where
  "cfg_type_ipsec_index = [''ipsec_id'']"

definition cfg_type_ipsec_entry :: "cfg_node_type" where
  "cfg_type_ipsec_entry =
     CfgType 0 ''Entry'' (CFG_TYPE_FLAG_MULTIPLE OR 8) []
       (Some cfg_type_ipsec_entry_ops) (Some cfg_type_ipsec_index)"

definition cfg_type_ipsec_ops :: cfg_node_ops where
  "cfg_type_ipsec_ops = no_ops \<lparr>
     op_get := Some (Handler ''cfg_type_ipsec_func_get''), op_set := Some DefaultFunc,
     op_query := Some DefaultFunc, op_commit := Some DefaultFunc\<rparr>"

definition cfg_type_ipsec_child :: "cfg_node_type list" where
  "cfg_type_ipsec_child =
    [
      cfg_type_ipsec_entry]"

definition cfg_type_ipsec :: "cfg_node_type" where
  "cfg_type_ipsec =
     CfgType 0 ''IPSEC'' (CFG_TYPE_FLAG_UPDATE OR 1) cfg_type_ipsec_child
       (Some cfg_type_ipsec_ops) None"

section \<open>Route\<close>

definition cfg_type_route_entry_ops :: cfg_node_ops where
  "cfg_type_route_entry_ops = no_ops \<lparr>
     op_get := Some DefaultFunc, op_set := Some DefaultFunc, op_create := Some DefaultFunc,
     op_delete := Some (Handler ''cfg_type_route_entry_func_delete''),
     op_query := Some DefaultFunc,
     op_commit := Some (Handler ''cfg_type_route_func_commit'')\<rparr>"

definition cfg_type_route_index :: "string list" where
  "cfg_type_route_index = [''route_id'']"

definition cfg_type_route_entry :: "cfg_node_type" where
  "cfg_type_route_entry =
     CfgType 0 ''Entry'' (CFG_TYPE_FLAG_UPDATE OR CFG_TYPE_FLAG_MULTIPLE OR 64) []
       (Some cfg_type_route_entry_ops) (Some cfg_type_route_index)"

definition cfg_type_route_ops :: cfg_node_ops where
  "cfg_type_route_ops = no_ops \<lparr>
     op_set := Some DefaultFunc, op_get := Some (Handler ''cfg_type_route_func_get''),
     op_query := Some DefaultFunc,
     op_commit := Some (Handler ''cfg_type_route_func_commit'')\<rparr>"

definition cfg_type_route_child :: "cfg_node_type list" where
  "cfg_type_route_child =
    [
      cfg_type_route_entry]"

definition cfg_type_route :: "cfg_node_type" where
  "cfg_type_route =
     CfgType 0 ''Route'' (CFG_TYPE_FLAG_UPDATE OR 1) cfg_type_route_child
       (Some cfg_type_route_ops) None"

section \<open>Route6\<close>

definition cfg_type_route6_entry_ops :: cfg_node_ops where
  "cfg_type_route6_entry_ops = no_ops \<lparr>
     op_get := Some DefaultFunc, op_set := Some DefaultFunc, op_create := Some DefaultFunc,
     op_delete := Some (Handler ''cfg_type_route6_entry_func_delete''),
     op_query := Some DefaultFunc,
     op_commit := Some (Handler ''cfg_type_route6_entry_func_commit'')\<rparr>"

definition cfg_type_route6_index :: "string list" where
  "cfg_type_route6_index = [''route6_id'']"

definition cfg_type_route6_entry :: "cfg_node_type" where
  "cfg_type_route6_entry =
     CfgType 0 ''Entry'' (CFG_TYPE_FLAG_UPDATE OR CFG_TYPE_FLAG_MULTIPLE OR 16) []
       (Some cfg_type_route6_entry_ops) (Some cfg_type_route6_index)"

definition cfg_type_route6_ops :: cfg_node_ops where
  "cfg_type_route6_ops = no_ops \<lparr>
     op_set := Some DefaultFunc, op_get := Some (Handler ''cfg_type_route6_func_get''),
     op_query := Some DefaultFunc,
     op_commit := Some (Handler ''cfg_type_route6_entry_func_commit'')\<rparr>"

definition cfg_type_route6_child :: "cfg_node_type list" where
  "cfg_type_route6_child =
    [
      cfg_type_route6_entry]"

definition cfg_type_route6 :: "cfg_node_type" where
  "cfg_type_route6 =
     CfgType 0 ''Route6'' (CFG_TYPE_FLAG_UPDATE OR 1) cfg_type_route6_child
       (Some cfg_type_route6_ops) None"

end
