(* ===== verification/CfgFileSpec.thy ===== *)
theory CfgFileSpec
  imports CfgCli CfgObjSpec UtilSpec TypesA
begin

text \<open>
  What saving, loading, committing and the node names of web pages guarantee: the element
  names of a saved file lead back to the objects they were written for, attribute values
  survive the escaping, volatile objects leave no trace in the file, and loading a file is
  a run of the object interface.
\<close>

section \<open>Saved names\<close>

lemma lower_nat_str: "lower (nat_str n) = nat_str n"
  by (rule map_idI) (use nat_str_digits in auto)

definition looks_numbered :: "string \<Rightarrow> string \<Rightarrow> bool" where
  "looks_numbered base t \<longleftrightarrow> prefix_of base t \<and> length base < length t \<and> is_digit (t ! length base)"

text \<open>A type whose saved elements are read back under their type: a type with several
  instances must be called \<open>entry\<close> or \<open>pvc\<close>, another must not look like a numbered one.\<close>

definition tag_safe :: "cfg_node_type \<Rightarrow> bool" where
  "tag_safe t \<longleftrightarrow>
     (let n = lower (type_name t)
      in if is_flag CFG_TYPE_FLAG_MULTIPLE t then n = ''entry'' \<or> n = ''pvc''
         else \<not> looks_numbered ''entry'' n \<and> \<not> looks_numbered ''pvc'' n \<and> type_name t \<noteq> ''root'')"

definition saved_comp :: "cfg_node_type \<times> nat \<Rightarrow> path_comp" where
  "saved_comp x = (lower (type_name (fst x)), if is_flag CFG_TYPE_FLAG_MULTIPLE (fst x) then Some (snd x) else None)"

definition saved_tag :: "cfg_node_type \<times> nat \<Rightarrow> string" where
  "saved_tag x = save_tag (fst x) (mk_oid (type_id (fst x)) (of_nat (snd x)))"

lemma tag_number:
  assumes "unat tid < 65536" "0 < i" "i < 65536"
  shows "int_str (sint (cfg_obj_id (mk_oid tid (of_nat i)) - 1)) = nat_str (i - 1)"
proof -
  have u: "unat (of_nat i :: u32) = i" using assms(3) by (intro unat_small) simp
  have "unat (cfg_obj_id (mk_oid tid (of_nat i))) = i"
    using assms u by (simp add: unat_obj_id unat_mk_oid)
  then have "cfg_obj_id (mk_oid tid (of_nat i)) = of_nat i" using u by (simp add: word_unat_eq_iff)
  moreover have "(of_nat i :: u32) - 1 = of_nat (i - 1)" using assms(2) by (simp add: of_nat_diff)
  moreover have "sint (of_nat (i - 1) :: u32) = int (i - 1)"
    using assms(3) by (simp add: signed_of_nat signed_take_bit_int_eq_self)
  ultimately show ?thesis by (simp add: int_str_def)
qed

lemma numbered_tag_hit:
  assumes "k + 1 < 2 ^ 31"
  shows "numbered_tag base (base @ nat_str k) = Ret (base @ CHR ''.'' # nat_str (k + 1))"
proof -
  have "is_digit ((base @ nat_str k) ! length base)"
    using nat_str_digits [of k] by (simp add: nth_append hd_conv_nth [symmetric])
  moreover have "atoi (nat_str k) = int k" using assms by (intro atoi_nat_str) simp
  ultimately show ?thesis using assms by (simp add: numbered_tag_def int_str_def nat_add_distrib)
qed

lemma numbered_tag_miss: "\<not> looks_numbered base t \<Longrightarrow> numbered_tag base t = Ret t"
  by (auto simp: numbered_tag_def looks_numbered_def)

lemma tag_component_saved:
  assumes "tag_safe t" "unat (type_id t) < 65536" "0 < i" "i < 65536"
  shows "tag_component (saved_tag (t, i)) = Ret (join_dots (comp_tokens (saved_comp (t, i))))"
proof (cases "is_flag CFG_TYPE_FLAG_MULTIPLE t")
  case True
  then have n: "lower (type_name t) = ''entry'' \<or> lower (type_name t) = ''pvc''"
    using assms(1) by (simp add: tag_safe_def Let_def)
  have tag: "lower (saved_tag (t, i)) = lower (type_name t) @ nat_str (i - 1)"
    using True tag_number [OF assms(2-4)] by (simp add: saved_tag_def save_tag_def lower_nat_str)
  have i: "i - 1 + 1 < 2 ^ 31" "i - 1 + 1 = i" using assms by auto
  have miss: "numbered_tag ''pvc'' (''entry'' @ x) = Ret (''entry'' @ x)"
    "numbered_tag ''entry'' (''pvc'' @ x) = Ret (''pvc'' @ x)" for x
    by (auto intro!: numbered_tag_miss simp: looks_numbered_def)
  from n show ?thesis
  proof
    assume e: "lower (type_name t) = ''entry''"
    have "numbered_tag ''entry'' (''entry'' @ nat_str (i - 1)) = Ret (''entry'' @ CHR ''.'' # nat_str i)"
      using numbered_tag_hit [OF i(1), of "''entry''"] i(2) by simp
    then show ?thesis
      using True e tag miss(1) by (simp add: tag_component_def cfg_str_to_lower_def saved_comp_def)
  next
    assume p: "lower (type_name t) = ''pvc''"
    have "numbered_tag ''pvc'' (''pvc'' @ nat_str (i - 1)) = Ret (''pvc'' @ CHR ''.'' # nat_str i)"
      using numbered_tag_hit [OF i(1), of "''pvc''"] i(2) by simp
    then show ?thesis
      using True p tag miss(2) by (simp add: tag_component_def cfg_str_to_lower_def saved_comp_def)
  qed
next
  case False
  then show ?thesis
    using assms(1) numbered_tag_miss
    by (auto simp: tag_safe_def Let_def saved_tag_def save_tag_def tag_component_def cfg_str_to_lower_def saved_comp_def)
qed

lemma join_dots_concat:
  "\<forall>c \<in> set cs. f c \<noteq> [] \<Longrightarrow> join_dots (map (\<lambda>c. join_dots (f c)) cs) = join_dots (concat (map f cs))"
proof (induction cs)
  case (Cons c cs)
  show ?case
  proof (cases cs)
    case (Cons d ds)
    with Cons.prems have "concat (map f cs) \<noteq> []" by simp
    then have "join_dots (f c @ concat (map f cs)) = join_dots (f c) @ CHR ''.'' # join_dots (concat (map f cs))"
      using Cons.prems by (intro join_dots_append) auto
    with Cons.IH Cons.prems Cons show ?thesis by simp
  qed simp
qed simp

lemma node_to_path_saved:
  assumes "\<forall>x \<in> set xs. tag_safe (fst x) \<and> unat (type_id (fst x)) < 65536 \<and> 0 < snd x \<and> snd x < 65536
      \<and> length (saved_tag x) < 31"
    and "length xs < CFG_MAX_NODE_LEVEL" and "lower (type_name (db_root db)) = ''root''" 
  shows "cfg_xml_node_to_path db (rev (map saved_tag xs) @ [''ROMFILE'']) =
    Ret (path_text ((''root'', None) # map saved_comp xs))"
proof -
  have rows: "take CFG_MAX_NODE_LEVEL (rev (map saved_tag xs) @ [''ROMFILE'']) = rev (map saved_tag xs) @ [''ROMFILE'']"
    using assms(2) by simp
  have len: "length (type_name (db_root db)) = 4"
    using arg_cong [OF assms(3), of length] by simp
  have root: "take (CFG_MAX_TYPE_NAME - 1) (type_name (cfg_type_get_root db)) = type_name (db_root db)"
    using len by (simp add: c_defs cfg_type_get_root_def)
  have rc: "tag_component (type_name (db_root db)) = Ret ''root''"
    using assms(3) by (simp add: tag_component_def cfg_str_to_lower_def numbered_tag_def)
  let ?g = "\<lambda>c. join_dots (comp_tokens c)"
  have cm: "cmap tag_component (map saved_tag ys) = Ret (map (\<lambda>x. ?g (saved_comp x)) ys)"
    if "set ys \<subseteq> set xs" for ys
    using that assms(1) tag_component_saved
    by (induction ys) (auto simp: case_prod_beta)
  have c: "cmap tag_component (rev (map saved_tag xs)) = Ret (map (\<lambda>x. ?g (saved_comp x)) (rev xs))"
    unfolding rev_map by (rule cm) simp
  have app: "cmap f (as @ bs) = cbind (cmap f as) (\<lambda>x. cbind (cmap f bs) (\<lambda>y. Ret (x @ y)))" for f :: "string \<Rightarrow> string cres" and as bs
    by (induction as) auto
  have "cmap tag_component (rev (map saved_tag xs) @ [type_name (db_root db)]) =
      Ret (rev (map ?g ((''root'', None) # map saved_comp xs)))"
    by (simp add: app c rc) (simp add: rev_map)
  moreover have "\<not> (\<exists>n \<in> set (rev (map saved_tag xs)). CFG_MAX_TYPE_NAME - 1 \<le> length n)"
    using assms(1) by (auto simp: c_defs)
  ultimately show ?thesis
    using join_dots_concat [of "(''root'', None) # map saved_comp xs" comp_tokens]
    unfolding cfg_xml_node_to_path_def Let_def rows butlast_snoc root path_text_def
    by (simp only: if_False cbind.simps rev_rev_ident) simp
qed

lemma name_ok_lower: "name_ok n \<Longrightarrow> name_ok (lower n)"
  by (auto simp: name_ok_def hd_map dest: sym [of "CHR ''.''"])

lemma types_okD:
  "types_ok ts \<Longrightarrow> t \<in> set ts \<Longrightarrow> name_ok (type_name t) \<and> types_ok (type_subtype t)"
  by (induction ts rule: types_ok.induct) auto

lemma find_lower:
  "types_ok ts \<Longrightarrow> t \<in> set ts \<Longrightarrow> find (\<lambda>u. name_match (type_name u) (lower (type_name t))) ts = Some t"
proof (induction ts rule: types_ok.induct)
  case (2 i nm fl subs ops ix bs)
  have n: "name_ok (type_name t)" using types_okD [OF "2.prems"] by simp
  have "lower nm \<noteq> lower (type_name t)" if "t \<in> set bs"
    using that "2.prems"(1) by auto
  with n "2" show ?case by (auto simp: name_match_ok name_ok_lower)
qed simp

text \<open>The types on the way down from a node to an object, with the instance numbers; types
  that have only one instance have number 1.\<close>

fun obj_chain :: "cfg_node_type list \<Rightarrow> (cfg_node_type \<times> nat) list \<Rightarrow> bool" where
  "obj_chain ts [] = True"
| "obj_chain ts ((t, i) # xs) =
     (t \<in> set ts \<and> 0 < i \<and> i < 65536 \<and> (is_flag CFG_TYPE_FLAG_MULTIPLE t \<or> i = 1) \<and>
      tag_safe t \<and> length (saved_tag (t, i)) < CFG_MAX_TYPE_NAME - 1 \<and> obj_chain (type_subtype t) xs)"

definition chain_oid :: "cfg_node_type \<times> nat \<Rightarrow> u32" where
  "chain_oid x = mk_oid (type_id (fst x)) (of_nat (snd x))"

lemma resolve_chain:
  "types_ok ts \<Longrightarrow> obj_chain ts xs \<Longrightarrow> resolve ts (map saved_comp xs) = Some (map chain_oid xs)"
proof (induction ts xs rule: obj_chain.induct)
  case (2 ts t i xs)
  then have "resolve (type_subtype t) (map saved_comp xs) = Some (map chain_oid xs)"
    using types_okD by auto
  moreover have "find (\<lambda>u. name_match (type_name u) (lower (type_name t))) ts = Some t"
    using "2.prems" by (intro find_lower) auto
  moreover have "fst (saved_comp (t, i)) = lower (type_name t)"
    "mk_oid (type_id t) (comp_inst (saved_comp (t, i))) = chain_oid (t, i)"
    using "2.prems"(2) by (auto simp: saved_comp_def chain_oid_def comp_inst_def)
  ultimately show ?case by simp
qed simp

lemma chain_facts:
  "types_ok ts \<Longrightarrow> obj_chain ts xs \<Longrightarrow> x \<in> set xs \<Longrightarrow>
   comp_ok (saved_comp x) \<and> fst x \<in> set (type_nodes ts) \<and> tag_safe (fst x) \<and> 0 < snd x \<and> snd x < 65536 \<and>
   length (saved_tag x) < 31"
proof (induction ts xs rule: obj_chain.induct)
  case (2 ts t i xs)
  then have ok: "name_ok (lower (type_name t))" "types_ok (type_subtype t)" "t \<in> set (type_nodes ts)"
    using types_okD [of ts t] name_ok_lower nodes_top by auto
  from "2.prems"(3) consider "x = (t, i)" | "x \<in> set xs" by auto
  then show ?case
  proof cases
    case 1
    with ok "2.prems"(2) show ?thesis by (auto simp: saved_comp_def c_defs)
  next
    case 2
    with "2.IH" "2.prems"(2) ok show ?thesis using nodes_sub [OF ok(3)] by auto
  qed
qed simp

text \<open>The path of such an object.\<close>

definition chain_path :: "(cfg_node_type \<times> nat) list \<Rightarrow> string" where
  "chain_path xs = path_text ((''root'', None) # map saved_comp xs)"

lemma saved_tags_back:
  assumes "db_ok db" "types_ok [db_root db]" "lower (type_name (db_root db)) = ''root''"
    and "obj_chain (type_subtype (db_root db)) xs" "length xs < CFG_MAX_NODE_LEVEL"
  shows "cfg_xml_node_to_path db (rev (map saved_tag xs) @ [''ROMFILE'']) = Ret (chain_path xs)"
    and "cfg_path_to_oid_array db (chain_path xs) = Ret (Some (map chain_oid ((db_root db, 1) # xs)))"
proof -
  let ?r = "db_root db" and ?cs = "(''root'', None) # map saved_comp xs"
  have sub: "types_ok (type_subtype ?r)" "name_ok (type_name ?r)" using types_okD [OF assms(2)] by auto
  have nodes: "t \<in> set (type_nodes [?r])" if "t \<in> set (type_nodes (type_subtype ?r))" for t
    using that nodes_sub [OF nodes_top, of ?r "[?r]"] by simp
  have f: "comp_ok (saved_comp x) \<and> tag_safe (fst x) \<and> unat (type_id (fst x)) < 65536 \<and> 0 < snd x \<and>
      snd x < 65536 \<and> length (saved_tag x) < 31" if "x \<in> set xs" for x
    using chain_facts [OF sub(1) assms(4) that] db_ok_id_bounds(2) [OF assms(1) nodes, of "fst x"]
    by (auto simp: c_defs)
  show "cfg_xml_node_to_path db (rev (map saved_tag xs) @ [''ROMFILE'']) = Ret (chain_path xs)"
    unfolding chain_path_def using f by (intro node_to_path_saved assms(3,5)) blast
  have "cfg_path_to_oid_array db (path_text ?cs) = Ret (resolve [?r] ?cs)"
    using f assms(5) name_ok_lower [OF sub(2)] assms(3)
    by (intro oid_array_resolve [OF assms(1)]) auto
  moreover have "resolve [?r] ?cs = Some (map chain_oid ((?r, 1) # xs))"
    using resolve_chain [OF sub(1) assms(4)] find_lower [OF assms(2), of ?r] assms(3)
    by (simp add: chain_oid_def comp_inst_def split: if_splits)
  ultimately show "cfg_path_to_oid_array db (chain_path xs) = Ret (Some (map chain_oid ((?r, 1) # xs)))"
    by (simp add: chain_path_def)
qed

section \<open>Loading\<close>

lemma run_trans: "api_run E s t \<Longrightarrow> api_run E t u \<Longrightarrow> api_run E s u"
  by (rotate_tac 1, induction rule: api_run.induct) (auto intro: run_step)

lemma run_call: "api_exec E c s = Ret t \<Longrightarrow> api_run E s t"
  by (rule run_step [OF run_refl])

lemma load_attrs_run: "load_attrs E path as s = Ret t \<Longrightarrow> api_run E s t"
proof (induction as arbitrary: s)
  case (Cons a as)
  obtain n v where a: "a = (n, v)" by (cases a)
  from Cons.prems a obtain r s1 where s1: "cfg_obj_set_object_attr E (Some path) (Some n) (Some v) s = Ret (r, s1)"
      "load_attrs E path as s1 = Ret t"
    by (auto elim: cbind_RetE)
  have "api_run E s s1" by (rule run_call [of _ "ApiSet (Some path) (Some n) (Some v)"]) (simp add: s1)
  with Cons.IH [OF s1(2)] show ?case by (rule run_trans [rotated])
qed (simp add: run_refl)

lemma load_exist_run: "load_exist E path s = Ret (r, t) \<Longrightarrow> api_run E s t"
proof -
  assume l: "load_exist E path s = Ret (r, t)"
  then obtain q s1 where q: "cfg_obj_query_object E path None False s = Ret (q, s1)"
    by (auto simp: load_exist_def elim: cbind_RetE)
  have r1: "api_run E s s1" by (rule run_call [of _ "ApiQuery path None False"]) (simp add: q)
  show ?thesis
  proof (cases "t = s1")
    case False
    with l q obtain r' where "cfg_obj_create_object E path s1 = Ret (r', t)"
      by (cases q) (auto simp: load_exist_def split: if_splits option.splits elim!: cbind_RetE)
    then have "api_run E s1 t" by (intro run_call [of _ "ApiCreate path"]) simp
    with r1 show ?thesis by (rule run_trans)
  qed (use r1 in simp)
qed

lemma load_run: "cfg_load_from_xml E ups ns s = Ret t \<Longrightarrow> api_run E s t"
proof (induction E ups ns s arbitrary: t rule: cfg_load_from_xml.induct)
  case (2 E ups nm as ch bs s)
  from "2.prems" obtain path ex s1 where p: "cfg_xml_node_to_path (env_types E) (nm # ups) = Ret path"
      and e: "load_exist E path s = Ret (ex, s1)"
    by (auto elim!: cbind_RetE)
  have r1: "api_run E s s1" by (rule load_exist_run [OF e])
  show ?case
  proof (cases "ex = Some True")
    case True
    with "2.prems" p e obtain s2 s3 where st: "load_attrs E path as s1 = Ret s2"
        "cfg_load_from_xml E (nm # ups) ch s2 = Ret s3" "cfg_load_from_xml E ups bs s3 = Ret t"
      by (auto elim!: cbind_RetE)
    have "api_run E s2 s3" "api_run E s3 t" using "2.IH" p e True st by auto
    with r1 load_attrs_run [OF st(1)] show ?thesis using run_trans by meson
  next
    case False
    then have "ex = None \<or> ex = Some False" by (cases ex) auto
    with "2.prems" p e have n: "cfg_load_from_xml E ups bs s1 = Ret t" by auto
    have "api_run E s1 t" using \<open>ex = None \<or> ex = Some False\<close>
    proof
      assume "ex = None"
      with "2.IH"(1) p e n show ?thesis by simp
    next
      assume "ex = Some False"
      with "2.IH"(4) [of path "(ex, s1)" ex s1 False] p e n show ?thesis by simp
    qed
    with r1 show ?thesis by (rule run_trans)
  qed
qed (simp add: run_refl)

section \<open>Web names\<close>

lemma split_two:
  assumes "a \<noteq> []" "CHR ''_'' \<notin> set a" "b \<noteq> []" "CHR ''_'' \<notin> set b"
  shows "cfg_parse_split_name (a @ CHR ''_'' # b) = [a, b]"
proof -
  have "takeWhile (\<lambda>c. c = CHR ''_'') (a @ CHR ''_'' # b) = []" using assms(1,2) by (cases a) auto
  then show ?thesis
    by (simp add: cfg_parse_split_name_def strtok_first [OF assms(1,2)] strtok_last [OF assms(3,4)])
qed

lemma commit_lock_two:
  assumes "CHR ''.'' \<notin> set a" "CHR ''.'' \<notin> set b" "length a + length b < 112"
    and "rest = [] \<or> hd rest = CHR ''.''"
    and "length (a @ CHR ''.'' # b @ rest) < 127 \<or> rest \<noteq> []"
  shows "cfg_commit_lock (a @ CHR ''.'' # b @ rest) = Ret (Some (''/tmp/'' @ a @ CHR ''.'' # b @ ''.lock''))"
proof -
  let ?p = "a @ CHR ''.'' # b @ rest" and ?k = "127 - (length a + 1 + length b)"
  have node: "take 127 ?p = a @ CHR ''.'' # b @ take ?k rest" using assms(3) by (simp add: take_Cons')
  have k: "0 < ?k" using assms(3) by simp
  have f: "takeWhile (\<lambda>c. c \<noteq> CHR ''.'') (a @ CHR ''.'' # b @ take ?k rest) = a"
    using assms(1) by (intro takeWhile_append_stop) auto
  have t: "take ?k rest = [] \<or> hd (take ?k rest) = CHR ''.''" using assms(4) k by (cases rest) auto
  have s: "takeWhile (\<lambda>c. c \<noteq> CHR ''.'') (b @ take ?k rest) = b"
    using assms(2) t by (cases "take ?k rest") (auto simp: takeWhile_eq_all_conv intro: takeWhile_append_stop)
  have no: "filter (\<lambda>c. c = CHR ''.'') a = []" "filter (\<lambda>c. c = CHR ''.'') b = []"
    using assms(1,2) by (auto simp: filter_empty_conv)
  have dots: "127 \<le> length ?p \<Longrightarrow> 0 < length (filter (\<lambda>c. c = CHR ''.'') (take ?k rest))"
    using assms(4,5) k by (cases rest) (auto simp: take_Cons')
  show ?thesis
    unfolding cfg_commit_lock_def Let_def node f using s no dots assms(3) by auto
qed

section \<open>The route types, numbered\<close>

definition rt_entry :: cfg_node_type where
  "rt_entry = CfgType 102 ''Entry'' 0x540 [] (Some cfg_type_route_entry_ops) (Some cfg_type_route_index)"

definition rt_route :: cfg_node_type where
  "rt_route = CfgType 101 ''Route'' 0x401 [rt_entry] (Some cfg_type_route_ops) None"

definition rt_db :: type_db where
  "rt_db = \<lparr>db_root = CfgType 100 ''root'' 1 [rt_route] (Some cfg_type_root_ops) None,
     db_cache = [CfgType 100 ''root'' 1 [rt_route] (Some cfg_type_root_ops) None, rt_route, rt_entry]\<rparr>"

lemmas rt_defs = rt_entry_def rt_route_def

lemma rt_db_root: "db_root rt_db = CfgType 100 ''root'' 1 [rt_route] (Some cfg_type_root_ops) None"
  by (simp add: rt_db_def)

lemma rt_init: "cfg_type_init (cfg_type_root [cfg_type_route]) = Ret rt_db"
  by (simp add: cfg_type_init_def cfg_type_root_def cfg_type_route_def cfg_type_route_child_def cfg_type_route_entry_def
      c_defs Let_def CFG_TYPE_FLAG_UPDATE_def CFG_TYPE_FLAG_MULTIPLE_def rt_db_def rt_defs)

lemma rt_db_ok: "db_ok rt_db"
  by (rule init_spec(1) [OF rt_init])

lemma rt_types_ok: "types_ok [db_root rt_db]"
  by (simp add: rt_db_def rt_defs name_ok_def c_defs is_digit19_def cval_def lower_char_def)

lemma rt_tags: "saved_tag (rt_route, 1) = ''Route''" "saved_tag (rt_entry, 7) = ''Entry6''"
  "saved_tag (rt_route, Suc 0) = ''Route''"
  by code_simp+

section \<open>Properties\<close>

text \<open>For every object whose type and ancestors are saved under readable names (at
  most seven levels below the root, instance numbers from 1 to 65535), the element names
  \<open>cfg_obj_save_tree\<close> writes for it and its ancestors are translated by
  \<open>cfg_xml_node_to_path\<close> to a path that \<open>cfg_path_to_oid_array\<close> resolves to exactly the
  object numbers of the object and its ancestors.\<close>

theorem saved_tags_lead_back:
  assumes "db_ok db" and "types_ok [db_root db]" and "lower (type_name (db_root db)) = ''root''"
    and "obj_chain (type_subtype (db_root db)) xs" and "length xs < CFG_MAX_NODE_LEVEL"
  shows "\<exists>p. cfg_xml_node_to_path db (rev (map saved_tag xs) @ [''ROMFILE'']) = Ret p \<and>
    cfg_path_to_oid_array db p = Ret (Some (map chain_oid ((db_root db, 1) # xs)))"
  using saved_tags_back [OF assms] by simp

theorem saved_tags_lead_back_witness:
  "\<exists>p. cfg_xml_node_to_path rt_db [''Entry6'', ''Route'', ''ROMFILE''] = Ret p \<and>
    cfg_path_to_oid_array rt_db p = Ret (Some [0x640001, 0x650001, 0x660007])"
proof -
  let ?xs = "[(rt_route, 1), (rt_entry, 7)]"
  have "tag_safe rt_route" "tag_safe rt_entry" by code_simp+
  then have "obj_chain (type_subtype (db_root rt_db)) ?xs"
    using rt_tags unfolding rt_db_root by (simp add: rt_defs is_flag_def CFG_TYPE_FLAG_MULTIPLE_def c_defs)
  moreover have "lower (type_name (db_root rt_db)) = ''root''" by code_simp
  moreover have "map chain_oid ((db_root rt_db, 1) # ?xs) = [0x640001, 0x650001, 0x660007]" by code_simp
  moreover have "length ?xs < CFG_MAX_NODE_LEVEL" by (simp add: c_defs)
  ultimately show ?thesis
    using saved_tags_lead_back [OF rt_db_ok rt_types_ok, of ?xs] rt_tags by simp
qed

text \<open>\<open>xmlFormatFunc\<close> writes the exact escaped text of an attribute value as long as
  that text is shorter than 1023 characters; replacing the entities gives the value back,
  and the text has no quote or angle bracket. With 1023 characters or more the closing
  write lands one byte behind the buffer.\<close>

theorem attribute_values_survive:
  "xmlFormatFunc v 1024 =
     (if length (xml_text v) < 1023 then Ret (xml_text v) else Fault BufferOverflow) \<and>
   xml_unescape (xml_text v) = v \<and>
   CHR ''<'' \<notin> set (xml_text v) \<and> CHR ''>'' \<notin> set (xml_text v) \<and> CHR 0x22 \<notin> set (xml_text v)"
  using xml_unescape_text [of v] xml_text_clean [of v] by (simp add: xmlFormatFunc_def checkvalue_eq)

text \<open>The text of a saved tree does not depend on objects of volatile types: removing
  their attributes and everything below them leaves the file as it is, whatever the tree.\<close>

theorem save_ignores_volatile:
  "cfg_obj_save_tree E (blank_memory E os) = cfg_obj_save_tree E os"
  by (rule save_blank_memory)


definition tz_doc :: "mxml list" where
  "tz_doc = [MxNode ''ROMFILE'' [] [MxNode ''Timezone'' [] [MxNode ''Entry'' [(''TZ'', ''GMT+8'')] []], MxNode ''Unknown'' [] []]]"


text \<open>The lock file of a commit is named after the first two components of the path:
  commits of objects of the same service exclude each other, whatever follows.\<close>

theorem commit_lock_per_service:
  assumes "CHR ''.'' \<notin> set a" and "CHR ''.'' \<notin> set b" and "length a + length b < 112"
    and "rest = [] \<or> hd rest = CHR ''.''"
    and "length (a @ CHR ''.'' # b @ rest) < 127 \<or> rest \<noteq> []"
  shows "cfg_commit_lock (a @ CHR ''.'' # b @ rest) = Ret (Some (''/tmp/'' @ a @ CHR ''.'' # b @ ''.lock''))"
  by (rule commit_lock_two [OF assms])

theorem commit_lock_per_service_witness:
  "cfg_commit_lock ''root.wan.pvc.1.entry.2'' = Ret (Some ''/tmp/root.wan.lock'')"
  using commit_lock_per_service [of "''root''" "''wan''" "''.pvc.1.entry.2''"] by simp

text \<open>The name of the lock file keeps the case of the path although paths do not: the
  same object is committed under two different locks.\<close>

theorem commit_lock_case:
  "cfg_type_query tz_db ''root.Timezone.Entry'' = cfg_type_query tz_db ''root.timezone.entry'' \<and>
   cfg_commit_lock ''root.Timezone.Entry'' \<noteq> cfg_commit_lock ''root.timezone.entry''"
  by code_simp

lemma length_nat_str_16: "k < 65536 \<Longrightarrow> length (nat_str k) \<le> 5"
  by (rule nat_str_length_le) simp_all

lemma lower_char_underscore: "lower_char c = CHR ''_'' \<longleftrightarrow> c = CHR ''_''"
proof -
  have "cval c + 32 < 256" if "65 \<le> cval c" "cval c \<le> 90" using that by simp
  then show ?thesis
    by (auto simp: lower_char_def cval_def char_of_eq_iff take_bit_eq_mod)
qed

lemma web_entry:
  assumes "type_name (db_root (env_types E)) = ''root''"
    and "name_ok a" and "CHR ''_'' \<notin> set a" and "length a < CFG_MAX_TYPE_NAME - 1"
    and "cfg_type_query (env_types E) (''root.'' @ lower a @ ''.entry'') = Ret (Some t)"
    and "is_flag CFG_TYPE_FLAG_MULTIPLE t" and "k < 65535" and "length a + 17 < sz"
  shows "cfg_parse_node_name E (a @ ''_Entry'' @ nat_str k) sz s =
    Ret ((0, ''root.'' @ lower a @ ''.entry.'' @ nat_str (k + 1)), s)"
proof -
  let ?e = "''entry'' @ nat_str k" and ?name = "a @ ''_Entry'' @ nat_str k"
  have lk: "length (nat_str k) \<le> 5" "length (nat_str (k + 1)) \<le> 5"
    using assms(7) by (auto intro: length_nat_str_16)
  have low: "cfg_str_to_lower ?name = lower a @ CHR ''_'' # ?e"
    by (simp add: cfg_str_to_lower_def lower_nat_str lower_char_def cval_def char_of_eq_iff take_bit_eq_mod)
  have "CHR ''_'' \<notin> set ?e" using nat_str_digits [of k] by (auto simp: is_digit_def cval_def)
  moreover have "lower a \<noteq> []" "CHR ''_'' \<notin> set (lower a)" using assms(2,3)
    by (auto simp: name_ok_def lower_char_underscore dest: sym [of "CHR ''_''"])
  ultimately have split: "cfg_parse_split_name (cfg_str_to_lower ?name) = [lower a, ?e]"
    unfolding low by (intro split_two) auto
  have "is_digit (hd (nat_str k))" using nat_str_digits [of k] by simp
  then have "numbered_name ''entry'' ?e"
    by (simp add: numbered_name_def nth_append hd_conv_nth [symmetric] is_digit_def)
  then have "name_number ?e = int k" using assms(7) by (simp add: name_number_def atoi_nat_str)
  then have num: "cfg_parse_entry_pvc_number E (''root.'' @ lower a @ ''.entry'') ?e s = Ret (int k + 1, s)"
    using assms(5-7) by (simp add: cfg_parse_entry_pvc_number_def is_flag_def)
  have "numbered_path E sz (''root.'' @ lower a @ ''.entry'') ?e s = Ret (''root.'' @ lower a @ ''.entry.'' @ nat_str (k + 1), s)"
    using num lk assms(8) by (simp add: numbered_path_def fits_def int_str_def nat_add_distrib)
  moreover have "\<not> (\<exists>b \<in> set [lower a, ?e]. CFG_MAX_TYPE_NAME - 1 \<le> length b)"
    using assms(4) lk by (simp add: c_defs)
  moreover have "\<not> sz < length ?name" "length ?name \<noteq> sz" using assms(8) lk by auto
  ultimately show ?thesis
    unfolding cfg_parse_node_name_def split Let_def by (simp add: cfg_type_get_root_def assms(1))
qed

text \<open>For a type with numbered entries, \<open>cfg_parse_node_name\<close> translates the node name
  \<open>Name_EntryN\<close> of a web page to the path that \<open>cfg_xml_node_to_path\<close> gives the element
  \<open>EntryN\<close> below \<open>Name\<close> of a configuration file, without changing the state.\<close>

theorem web_name_matches_file_name:
  assumes "type_name (db_root (env_types E)) = ''root''"
    and "name_ok a" and "CHR ''_'' \<notin> set a" and "length a < CFG_MAX_TYPE_NAME - 1"
    and "\<not> looks_numbered ''entry'' (lower a)" and "\<not> looks_numbered ''pvc'' (lower a)"
    and "cfg_type_query (env_types E) (''root.'' @ lower a @ ''.entry'') = Ret (Some t)"
    and "is_flag CFG_TYPE_FLAG_MULTIPLE t"
    and "k < 65535" and "length a + 17 < sz"
  shows "\<exists>p. cfg_parse_node_name E (a @ ''_Entry'' @ nat_str k) sz s = Ret ((0, p), s) \<and>
    cfg_xml_node_to_path (env_types E) [''Entry'' @ nat_str k, a, ''ROMFILE''] = Ret p"
proof -
  let ?p = "''root.'' @ lower a @ ''.entry.'' @ nat_str (k + 1)"
  have "cfg_parse_node_name E (a @ ''_Entry'' @ nat_str k) sz s = Ret ((0, ?p), s)"
    by (rule web_entry [OF assms(1-4,7-10)])
  moreover have "cfg_xml_node_to_path (env_types E) [''Entry'' @ nat_str k, a, ''ROMFILE''] = Ret ?p"
  proof -
    have e: "cfg_str_to_lower (''Entry'' @ nat_str k) = ''entry'' @ nat_str k"
      by (simp add: cfg_str_to_lower_def lower_nat_str lower_char_def cval_def char_of_eq_iff take_bit_eq_mod)
    have "tag_component (''Entry'' @ nat_str k) = Ret (''entry.'' @ nat_str (k + 1))"
      unfolding tag_component_def e using numbered_tag_hit [of k "''entry''"] assms(9)
      by (simp add: numbered_tag_def)
    moreover have "tag_component a = Ret (lower a)"
      using assms(5,6) by (simp add: tag_component_def cfg_str_to_lower_def numbered_tag_miss)
    moreover have "tag_component ''root'' = Ret ''root''" by code_simp
    moreover have "length (nat_str k) \<le> 5" using assms(9) by (simp add: length_nat_str_16)
    ultimately show ?thesis
      using assms(1,4) by (simp add: cfg_xml_node_to_path_def cfg_type_get_root_def c_defs)
  qed
  ultimately show ?thesis by blast
qed

theorem web_name_matches_file_name_witness:
  "\<exists>p. cfg_parse_node_name (tz_env\<lparr>env_types := rt_db\<rparr>) ''Route_Entry6'' 64 tz_state = Ret ((0, p), tz_state) \<and>
    cfg_xml_node_to_path rt_db [''Entry6'', ''Route'', ''ROMFILE''] = Ret p"
proof -
  let ?E = "tz_env\<lparr>env_types := rt_db\<rparr>"
  have q: "cfg_type_query rt_db (''root.'' @ lower ''Route'' @ ''.entry'') = Ret (Some rt_entry)"
    "is_flag CFG_TYPE_FLAG_MULTIPLE rt_entry"
    "name_ok ''Route''" "\<not> looks_numbered ''entry'' (lower ''Route'')" "\<not> looks_numbered ''pvc'' (lower ''Route'')"
    "type_name (db_root rt_db) = ''root''" by code_simp+
  have six: "nat_str 6 = ''6''" by code_simp
  show ?thesis
    using web_name_matches_file_name [of ?E "''Route''" rt_entry 6 64 tz_state] q
    by (simp add: six c_defs)
qed

end
