(* ===== verification/TypesB.thy ===== *)
theory TypesB
  imports CfgTypes
begin

text \<open>
  Type tables of \<open>service/cfg/type\<close> for the build profile
  \<open>UNION_EN7528_LE_7592_7613_MAP_R2_demo\<close>: the types from \<open>Nat\<close> to \<open>QoS\<close>. The
  operations, the \<open>subtype\<close> arrays and the index arrays keep the names of the source.
\<close>

section \<open>Nat\<close>

definition cfg_type_nat_pvc_ops :: cfg_node_ops where
  "cfg_type_nat_pvc_ops = no_ops \<lparr>
     op_get := Some DefaultFunc, op_set := Some DefaultFunc, op_create := Some DefaultFunc,
     op_delete := Some DefaultFunc, op_query := Some DefaultFunc,
     op_commit := Some DefaultFunc\<rparr>"

definition cfg_type_nat_index :: "string list" where
  "cfg_type_nat_index = [''nat_pvc'']"

definition cfg_type_nat_pvc :: "cfg_node_type" where
  "cfg_type_nat_pvc =
     CfgType 0 ''PVC'' (CFG_TYPE_FLAG_MULTIPLE OR 1) []
       (Some cfg_type_nat_pvc_ops) (Some cfg_type_nat_index)"

definition cfg_type_nat_ops :: cfg_node_ops where
  "cfg_type_nat_ops = no_ops \<lparr>
     op_set := Some DefaultFunc, op_get := Some DefaultFunc, op_query := Some DefaultFunc,
     op_commit := Some DefaultFunc\<rparr>"

definition cfg_type_nat_child :: "cfg_node_type list" where
  "cfg_type_nat_child =
    [
      cfg_type_nat_pvc]"

definition cfg_type_nat :: "cfg_node_type" where
  "cfg_type_nat =
     CfgType 0 ''Nat'' 1 cfg_type_nat_child
       (Some cfg_type_nat_ops) None"

section \<open>Dmz\<close>

definition cfg_type_dmz_entry_ops :: cfg_node_ops where
  "cfg_type_dmz_entry_ops = no_ops \<lparr>
     op_get := Some DefaultFunc, op_set := Some DefaultFunc, op_create := Some DefaultFunc,
     op_delete := Some DefaultFunc, op_query := Some DefaultFunc,
     op_commit := Some (Handler ''cfg_type_dmz_entry_func_commit'')\<rparr>"

definition cfg_type_dmz_index :: "string list" where
  "cfg_type_dmz_index = [''nat_pvc'']"

definition cfg_type_dmz_entry :: "cfg_node_type" where
  "cfg_type_dmz_entry =
     CfgType 0 ''Entry'' (CFG_TYPE_FLAG_MULTIPLE OR 64) []
       (Some cfg_type_dmz_entry_ops) (Some cfg_type_dmz_index)"

definition cfg_type_dmz_ops :: cfg_node_ops where
  "cfg_type_dmz_ops = no_ops \<lparr>
     op_set := Some DefaultFunc, op_get := Some DefaultFunc, op_query := Some DefaultFunc,
     op_commit := Some (Handler ''cfg_type_dmz_entry_func_commit'')\<rparr>"

definition cfg_type_dmz_child :: "cfg_node_type list" where
  "cfg_type_dmz_child =
    [
      cfg_type_dmz_entry]"

definition cfg_type_dmz :: "cfg_node_type" where
  "cfg_type_dmz =
     CfgType 0 ''Dmz'' 1 cfg_type_dmz_child
       (Some cfg_type_dmz_ops) None"

section \<open>VirServer\<close>

definition cfg_type_virserver_entry_ops :: cfg_node_ops where
  "cfg_type_virserver_entry_ops = no_ops \<lparr>
     op_get := Some DefaultFunc, op_set := Some DefaultFunc, op_create := Some DefaultFunc,
     op_delete := Some (Handler ''cfg_type_virServer_entry_func_delete''),
     op_query := Some DefaultFunc,
     op_commit := Some (Handler ''cfg_type_virServer_entry_func_commit'')\<rparr>"

definition cfg_type_virserver_entry_index :: "string list" where
  "cfg_type_virserver_entry_index = [''virServ_id'']"

definition cfg_type_virserver_entry :: "cfg_node_type" where
  "cfg_type_virserver_entry =
     CfgType 0 ''Entry'' (CFG_TYPE_FLAG_MULTIPLE OR 10) []
       (Some cfg_type_virserver_entry_ops) (Some cfg_type_virserver_entry_index)"

definition cfg_type_virserver_ops :: cfg_node_ops where
  "cfg_type_virserver_ops = no_ops \<lparr>
     op_set := Some DefaultFunc, op_get := Some DefaultFunc, op_query := Some DefaultFunc,
     op_commit := Some (Handler ''cfg_type_virServer_func_commit'')\<rparr>"

definition cfg_type_virserver_child :: "cfg_node_type list" where
  "cfg_type_virserver_child =
    [
      cfg_type_virserver_entry]"

definition cfg_type_virserver :: "cfg_node_type" where
  "cfg_type_virserver =
     CfgType 0 ''VirServer'' 1 cfg_type_virserver_child
       (Some cfg_type_virserver_ops) None"

section \<open>ALGSwitch\<close>

definition cfg_type_algswitch_entry_ops :: cfg_node_ops where
  "cfg_type_algswitch_entry_ops = no_ops \<lparr>
     op_get := Some DefaultFunc, op_set := Some DefaultFunc, op_query := Some DefaultFunc,
     op_commit := Some (Handler ''cfg_type_algswitch_entry_func_commit'')\<rparr>"

definition cfg_type_algswitch_entry :: "cfg_node_type" where
  "cfg_type_algswitch_entry =
     CfgType 0 ''Entry'' 1 []
       (Some cfg_type_algswitch_entry_ops) None"

definition cfg_type_algswitch_ops :: cfg_node_ops where
  "cfg_type_algswitch_ops = no_ops \<lparr>
     op_set := Some DefaultFunc, op_get := Some DefaultFunc, op_query := Some DefaultFunc,
     op_commit := Some (Handler ''cfg_type_algswitch_entry_func_commit'')\<rparr>"

definition cfg_type_algswitch_child :: "cfg_node_type list" where
  "cfg_type_algswitch_child =
    [
      cfg_type_algswitch_entry]"

definition cfg_type_algswitch :: "cfg_node_type" where
  "cfg_type_algswitch =
     CfgType 0 ''ALGSwitch'' 1 cfg_type_algswitch_child
       (Some cfg_type_algswitch_ops) None"

section \<open>Ddns\<close>

definition cfg_type_ddns_entry_ops :: cfg_node_ops where
  "cfg_type_ddns_entry_ops = no_ops \<lparr>
     op_get := Some (Handler ''cfg_type_ddns_func_get''), op_set := Some DefaultFunc,
     op_create := Some DefaultFunc, op_delete := Some DefaultFunc,
     op_query := Some DefaultFunc,
     op_commit := Some (Handler ''cfg_type_ddns_entry_func_commit'')\<rparr>"

definition cfg_type_ddns_index :: "string list" where
  "cfg_type_ddns_index = [''ddns_id'']"

definition cfg_type_ddns_entry :: "cfg_node_type" where
  "cfg_type_ddns_entry =
     CfgType 0 ''Entry'' (CFG_TYPE_FLAG_MULTIPLE OR 64) []
       (Some cfg_type_ddns_entry_ops) (Some cfg_type_ddns_index)"

definition cfg_type_ddns_common_ops :: cfg_node_ops where
  "cfg_type_ddns_common_ops = no_ops \<lparr>
     op_get := Some DefaultFunc, op_set := Some DefaultFunc, op_query := Some DefaultFunc,
     op_commit := Some (Handler ''cfg_type_ddns_entry_func_commit'')\<rparr>"

definition cfg_type_ddns_common :: "cfg_node_type" where
  "cfg_type_ddns_common =
     CfgType 0 ''Common'' 1 []
       (Some cfg_type_ddns_common_ops) None"

definition cfg_type_ddns_ops :: cfg_node_ops where
  "cfg_type_ddns_ops = no_ops \<lparr>
     op_set := Some DefaultFunc, op_get := Some (Handler ''cfg_type_ddns_func_get''),
     op_query := Some DefaultFunc,
     op_commit := Some (Handler ''cfg_type_ddns_entry_func_commit'')\<rparr>"

definition cfg_type_ddns_child :: "cfg_node_type list" where
  "cfg_type_ddns_child =
    [
      cfg_type_ddns_entry, cfg_type_ddns_common]"

definition cfg_type_ddns :: "cfg_node_type" where
  "cfg_type_ddns =
     CfgType 0 ''Ddns'' 1 cfg_type_ddns_child
       (Some cfg_type_ddns_ops) None"

section \<open>Snmpd\<close>

definition cfg_type_snmpd_entry_ops :: cfg_node_ops where
  "cfg_type_snmpd_entry_ops = no_ops \<lparr>
     op_get := Some DefaultFunc, op_set := Some DefaultFunc, op_query := Some DefaultFunc,
     op_commit := Some (Handler ''cfg_type_snmp_func_commit'')\<rparr>"

definition cfg_type_snmpd_entry :: "cfg_node_type" where
  "cfg_type_snmpd_entry =
     CfgType 0 ''Entry'' 1 []
       (Some cfg_type_snmpd_entry_ops) None"

definition cfg_type_snmpd_ops :: cfg_node_ops where
  "cfg_type_snmpd_ops = no_ops \<lparr>
     op_set := Some DefaultFunc, op_get := Some DefaultFunc, op_query := Some DefaultFunc,
     op_commit := Some (Handler ''cfg_type_snmp_func_commit'')\<rparr>"

definition cfg_type_snmpd_child :: "cfg_node_type list" where
  "cfg_type_snmpd_child =
    [
      cfg_type_snmpd_entry]"

definition cfg_type_snmpd :: "cfg_node_type" where
  "cfg_type_snmpd =
     CfgType 0 ''Snmpd'' 1 cfg_type_snmpd_child
       (Some cfg_type_snmpd_ops) None"

section \<open>Upnpd\<close>

definition cfg_type_upnpd_entry_ops :: cfg_node_ops where
  "cfg_type_upnpd_entry_ops = no_ops \<lparr>
     op_get := Some DefaultFunc, op_set := Some DefaultFunc, op_query := Some DefaultFunc,
     op_commit := Some (Handler ''cfg_type_upnpd_func_commit'')\<rparr>"

definition cfg_type_upnpd_entry :: "cfg_node_type" where
  "cfg_type_upnpd_entry =
     CfgType 0 ''Entry'' 1 []
       (Some cfg_type_upnpd_entry_ops) None"

definition cfg_type_upnpd_ops :: cfg_node_ops where
  "cfg_type_upnpd_ops = no_ops \<lparr>
     op_set := Some DefaultFunc, op_get := Some DefaultFunc, op_query := Some DefaultFunc,
     op_commit := Some (Handler ''cfg_type_upnpd_func_commit'')\<rparr>"

definition cfg_type_upnpd_child :: "cfg_node_type list" where
  "cfg_type_upnpd_child =
    [
      cfg_type_upnpd_entry]"

definition cfg_type_upnpd :: "cfg_node_type" where
  "cfg_type_upnpd =
     CfgType 0 ''Upnpd'' 1 cfg_type_upnpd_child
       (Some cfg_type_upnpd_ops) None"

section \<open>Mac\<close>

definition cfg_type_mac_entry_ops :: cfg_node_ops where
  "cfg_type_mac_entry_ops = no_ops \<lparr>
     op_get := Some DefaultFunc, op_set := Some DefaultFunc, op_query := Some DefaultFunc,
     op_commit := Some DefaultFunc\<rparr>"

definition cfg_type_mac_entry :: "cfg_node_type" where
  "cfg_type_mac_entry =
     CfgType 0 ''Entry'' 1 []
       (Some cfg_type_mac_entry_ops) None"

definition cfg_type_mac_ops :: cfg_node_ops where
  "cfg_type_mac_ops = no_ops \<lparr>
     op_set := Some DefaultFunc, op_get := Some DefaultFunc, op_query := Some DefaultFunc,
     op_commit := Some DefaultFunc\<rparr>"

definition cfg_type_mac_child :: "cfg_node_type list" where
  "cfg_type_mac_child =
    [
      cfg_type_mac_entry]"

definition cfg_type_mac :: "cfg_node_type" where
  "cfg_type_mac =
     CfgType 0 ''Mac'' 1 cfg_type_mac_child
       (Some cfg_type_mac_ops) None"

section \<open>wifiMacTab\<close>

definition cfg_type_wifimactab_common_ops :: cfg_node_ops where
  "cfg_type_wifimactab_common_ops = no_ops \<lparr>
     op_set := Some DefaultFunc, op_get := Some DefaultFunc, op_query := Some DefaultFunc,
     op_commit := Some DefaultFunc\<rparr>"

definition cfg_type_wifimactab_common :: "cfg_node_type" where
  "cfg_type_wifimactab_common =
     CfgType 0 ''Common'' (CFG_TYPE_FLAG_MEMORY OR CFG_TYPE_FLAG_UPDATE OR 1) []
       (Some cfg_type_wifimactab_common_ops) None"

definition cfg_type_wifimactab_pvc_entry_ops :: cfg_node_ops where
  "cfg_type_wifimactab_pvc_entry_ops = no_ops \<lparr>
     op_set := Some DefaultFunc, op_get := Some DefaultFunc, op_create := Some DefaultFunc,
     op_delete := Some DefaultFunc, op_query := Some DefaultFunc,
     op_commit := Some DefaultFunc\<rparr>"

definition cfg_type_wifimactab_pvc_entry :: "cfg_node_type" where
  "cfg_type_wifimactab_pvc_entry =
     CfgType 0 ''Entry'' (CFG_TYPE_FLAG_MEMORY OR CFG_TYPE_FLAG_UPDATE OR CFG_TYPE_FLAG_MULTIPLE OR 10) []
       (Some cfg_type_wifimactab_pvc_entry_ops) None"

definition cfg_type_wifimactab_pvc_ops :: cfg_node_ops where
  "cfg_type_wifimactab_pvc_ops = no_ops \<lparr>
     op_set := Some DefaultFunc, op_get := Some DefaultFunc, op_create := Some DefaultFunc,
     op_delete := Some DefaultFunc, op_query := Some DefaultFunc,
     op_commit := Some DefaultFunc\<rparr>"

definition cfg_type_wifimactab_pvc_child :: "cfg_node_type list" where
  "cfg_type_wifimactab_pvc_child =
    [
      cfg_type_wifimactab_pvc_entry]"

definition cfg_type_wifimactab_pvc :: "cfg_node_type" where
  "cfg_type_wifimactab_pvc =
     CfgType 0 ''PVC'' (CFG_TYPE_FLAG_MEMORY OR CFG_TYPE_FLAG_UPDATE OR CFG_TYPE_FLAG_MULTIPLE OR 8) cfg_type_wifimactab_pvc_child
       (Some cfg_type_wifimactab_pvc_ops) None"

definition cfg_type_wifimactab_ops :: cfg_node_ops where
  "cfg_type_wifimactab_ops = no_ops \<lparr>
     op_set := Some DefaultFunc, op_get := Some DefaultFunc, op_query := Some DefaultFunc,
     op_commit := Some DefaultFunc\<rparr>"

definition cfg_type_wifimactab_child :: "cfg_node_type list" where
  "cfg_type_wifimactab_child =
    [
      cfg_type_wifimactab_common, cfg_type_wifimactab_pvc]"

definition cfg_type_wifimactab :: "cfg_node_type" where
  "cfg_type_wifimactab =
     CfgType 0 ''wifiMacTab'' (CFG_TYPE_FLAG_MEMORY OR CFG_TYPE_FLAG_UPDATE OR 1) cfg_type_wifimactab_child
       (Some cfg_type_wifimactab_ops) None"

section \<open>Cwmp\<close>

definition cfg_type_cwmp_entry_ops :: cfg_node_ops where
  "cfg_type_cwmp_entry_ops = no_ops \<lparr>
     op_get := Some DefaultFunc, op_set := Some DefaultFunc, op_query := Some DefaultFunc,
     op_commit := Some (Handler ''cfg_type_cwmp_func_commit'')\<rparr>"

definition cfg_type_cwmp_entry :: "cfg_node_type" where
  "cfg_type_cwmp_entry =
     CfgType 0 ''Entry'' 1 []
       (Some cfg_type_cwmp_entry_ops) None"

definition cfg_type_cwmp_tr143udpecho_ops :: cfg_node_ops where
  "cfg_type_cwmp_tr143udpecho_ops = no_ops \<lparr>
     op_get := Some DefaultFunc, op_set := Some DefaultFunc, op_query := Some DefaultFunc,
     op_commit := Some (Handler ''cfg_type_cwmp_func_commit'')\<rparr>"

definition cfg_type_cwmp_tr143udpecho :: "cfg_node_type" where
  "cfg_type_cwmp_tr143udpecho =
     CfgType 0 ''tr143UDPEcho'' 1 []
       (Some cfg_type_cwmp_tr143udpecho_ops) None"

definition cfg_type_cwmp_ops :: cfg_node_ops where
  "cfg_type_cwmp_ops = no_ops \<lparr>
     op_set := Some DefaultFunc, op_get := Some DefaultFunc, op_query := Some DefaultFunc,
     op_commit := Some (Handler ''cfg_type_cwmp_func_commit'')\<rparr>"

definition cfg_type_cwmp_child :: "cfg_node_type list" where
  "cfg_type_cwmp_child =
    [
      cfg_type_cwmp_entry, cfg_type_cwmp_tr143udpecho]"

definition cfg_type_cwmp :: "cfg_node_type" where
  "cfg_type_cwmp =
     CfgType 0 ''Cwmp'' 1 cfg_type_cwmp_child
       (Some cfg_type_cwmp_ops) None"

section \<open>TR069Attr\<close>

definition cfg_type_tr069attr_entry_ops :: cfg_node_ops where
  "cfg_type_tr069attr_entry_ops = no_ops \<lparr>
     op_get := Some DefaultFunc, op_set := Some DefaultFunc, op_query := Some DefaultFunc,
     op_commit := Some DefaultFunc\<rparr>"

definition cfg_type_tr069attr_entry :: "cfg_node_type" where
  "cfg_type_tr069attr_entry =
     CfgType 0 ''Entry'' 1 []
       (Some cfg_type_tr069attr_entry_ops) None"

definition cfg_type_tr069attr_speattr_ops :: cfg_node_ops where
  "cfg_type_tr069attr_speattr_ops = no_ops \<lparr>
     op_get := Some DefaultFunc, op_set := Some DefaultFunc, op_query := Some DefaultFunc,
     op_commit := Some DefaultFunc\<rparr>"

definition cfg_type_tr069attr_speattr :: "cfg_node_type" where
  "cfg_type_tr069attr_speattr =
     CfgType 0 ''SpeAttr'' 1 []
       (Some cfg_type_tr069attr_speattr_ops) None"

definition cfg_type_tr069attr_ops :: cfg_node_ops where
  "cfg_type_tr069attr_ops = no_ops \<lparr>
     op_set := Some DefaultFunc, op_get := Some DefaultFunc, op_query := Some DefaultFunc,
     op_commit := Some DefaultFunc\<rparr>"

definition cfg_type_tr069attr_child :: "cfg_node_type list" where
  "cfg_type_tr069attr_child =
    [
      cfg_type_tr069attr_entry, cfg_type_tr069attr_speattr]"

definition cfg_type_tr069attr :: "cfg_node_type" where
  "cfg_type_tr069attr =
     CfgType 0 ''TR069Attr'' 1 cfg_type_tr069attr_child
       (Some cfg_type_tr069attr_ops) None"

section \<open>IPInterface\<close>

definition cfg_type_ipinterface_entry_ops :: cfg_node_ops where
  "cfg_type_ipinterface_entry_ops = no_ops \<lparr>
     op_get := Some DefaultFunc, op_set := Some DefaultFunc, op_query := Some DefaultFunc,
     op_commit := Some DefaultFunc\<rparr>"

definition cfg_type_ipinterface_entry :: "cfg_node_type" where
  "cfg_type_ipinterface_entry =
     CfgType 0 ''Entry'' 1 []
       (Some cfg_type_ipinterface_entry_ops) None"

definition cfg_type_ipinterface_ops :: cfg_node_ops where
  "cfg_type_ipinterface_ops = no_ops \<lparr>
     op_set := Some DefaultFunc, op_get := Some DefaultFunc, op_query := Some DefaultFunc,
     op_commit := Some DefaultFunc\<rparr>"

definition cfg_type_ipinterface_child :: "cfg_node_type list" where
  "cfg_type_ipinterface_child =
    [
      cfg_type_ipinterface_entry]"

definition cfg_type_ipinterface :: "cfg_node_type" where
  "cfg_type_ipinterface =
     CfgType 0 ''IPInterface'' 1 cfg_type_ipinterface_child
       (Some cfg_type_ipinterface_ops) None"

section \<open>CwmpRoute\<close>

definition cfg_type_cwmproute_entry_ops :: cfg_node_ops where
  "cfg_type_cwmproute_entry_ops = no_ops \<lparr>
     op_get := Some DefaultFunc, op_set := Some DefaultFunc, op_query := Some DefaultFunc,
     op_commit := Some DefaultFunc\<rparr>"

definition cfg_type_cwmproute_entry :: "cfg_node_type" where
  "cfg_type_cwmproute_entry =
     CfgType 0 ''Entry'' (CFG_TYPE_FLAG_MEMORY OR 1) []
       (Some cfg_type_cwmproute_entry_ops) None"

definition cfg_type_cwmproute_ops :: cfg_node_ops where
  "cfg_type_cwmproute_ops = no_ops \<lparr>
     op_set := Some DefaultFunc, op_get := Some DefaultFunc, op_query := Some DefaultFunc,
     op_commit := Some DefaultFunc\<rparr>"

definition cfg_type_cwmproute_child :: "cfg_node_type list" where
  "cfg_type_cwmproute_child =
    [
      cfg_type_cwmproute_entry]"

definition cfg_type_cwmproute :: "cfg_node_type" where
  "cfg_type_cwmproute =
     CfgType 0 ''CwmpRoute'' (CFG_TYPE_FLAG_MEMORY OR 1) cfg_type_cwmproute_child
       (Some cfg_type_cwmproute_ops) None"

section \<open>SwitchPara\<close>

definition cfg_type_switchpara_entry_ops :: cfg_node_ops where
  "cfg_type_switchpara_entry_ops = no_ops \<lparr>
     op_get := Some DefaultFunc, op_set := Some DefaultFunc, op_create := Some DefaultFunc,
     op_delete := Some DefaultFunc, op_query := Some DefaultFunc,
     op_commit := Some (Handler ''cfg_type_switchpara_func_commit'')\<rparr>"

definition cfg_type_switchpara_index :: "string list" where
  "cfg_type_switchpara_index = [''switchpara_id'']"

definition cfg_type_switchpara_entry :: "cfg_node_type" where
  "cfg_type_switchpara_entry =
     CfgType 0 ''Entry'' (CFG_TYPE_FLAG_MULTIPLE OR 4) []
       (Some cfg_type_switchpara_entry_ops) (Some cfg_type_switchpara_index)"

definition cfg_type_switchpara_common_ops :: cfg_node_ops where
  "cfg_type_switchpara_common_ops = no_ops \<lparr>
     op_get := Some DefaultFunc, op_set := Some DefaultFunc, op_query := Some DefaultFunc,
     op_commit := Some (Handler ''cfg_type_switchpara_func_commit'')\<rparr>"

definition cfg_type_switchpara_common :: "cfg_node_type" where
  "cfg_type_switchpara_common =
     CfgType 0 ''Common'' 1 []
       (Some cfg_type_switchpara_common_ops) None"

definition cfg_type_switchpara_ops :: cfg_node_ops where
  "cfg_type_switchpara_ops = no_ops \<lparr>
     op_set := Some DefaultFunc, op_get := Some DefaultFunc, op_query := Some DefaultFunc,
     op_commit := Some (Handler ''cfg_type_switchpara_func_commit'')\<rparr>"

definition cfg_type_switchpara_child :: "cfg_node_type list" where
  "cfg_type_switchpara_child =
    [
      cfg_type_switchpara_entry, cfg_type_switchpara_common]"

definition cfg_type_switchpara :: "cfg_node_type" where
  "cfg_type_switchpara =
     CfgType 0 ''SwitchPara'' 1 cfg_type_switchpara_child
       (Some cfg_type_switchpara_ops) None"

section \<open>Portal\<close>

definition cfg_type_portal_entry_ops :: cfg_node_ops where
  "cfg_type_portal_entry_ops = no_ops \<lparr>
     op_get := Some DefaultFunc, op_set := Some DefaultFunc, op_query := Some DefaultFunc,
     op_commit := Some (Handler ''cfg_type_portal_func_commit'')\<rparr>"

definition cfg_type_portal_entry :: "cfg_node_type" where
  "cfg_type_portal_entry =
     CfgType 0 ''Entry'' 1 []
       (Some cfg_type_portal_entry_ops) None"

definition cfg_type_portal_ops :: cfg_node_ops where
  "cfg_type_portal_ops = no_ops \<lparr>
     op_set := Some DefaultFunc, op_get := Some DefaultFunc, op_query := Some DefaultFunc,
     op_commit := Some (Handler ''cfg_type_portal_func_commit'')\<rparr>"

definition cfg_type_portal_child :: "cfg_node_type list" where
  "cfg_type_portal_child =
    [
      cfg_type_portal_entry]"

definition cfg_type_portal :: "cfg_node_type" where
  "cfg_type_portal =
     CfgType 0 ''Portal'' 1 cfg_type_portal_child
       (Some cfg_type_portal_ops) None"

section \<open>Account\<close>

definition cfg_type_account_entry_ops :: cfg_node_ops where
  "cfg_type_account_entry_ops = no_ops \<lparr>
     op_get := Some DefaultFunc, op_set := Some DefaultFunc, op_create := Some DefaultFunc,
     op_delete := Some DefaultFunc, op_query := Some DefaultFunc,
     op_commit := Some (Handler ''cfg_type_account_func_commit'')\<rparr>"

definition cfg_type_account_index :: "string list" where
  "cfg_type_account_index = [''account_id'']"

definition cfg_type_account_entry :: "cfg_node_type" where
  "cfg_type_account_entry =
     CfgType 0 ''Entry'' (CFG_TYPE_FLAG_MULTIPLE OR 3) []
       (Some cfg_type_account_entry_ops) (Some cfg_type_account_index)"

definition cfg_type_account_telnetentry_ops :: cfg_node_ops where
  "cfg_type_account_telnetentry_ops = no_ops \<lparr>
     op_get := Some DefaultFunc, op_set := Some DefaultFunc, op_query := Some DefaultFunc,
     op_commit := Some (Handler ''cfg_type_account_func_commit'')\<rparr>"

definition cfg_type_account_telnetentry :: "cfg_node_type" where
  "cfg_type_account_telnetentry =
     CfgType 0 ''TelnetEntry'' 1 []
       (Some cfg_type_account_telnetentry_ops) None"

definition cfg_type_account_telnetentry1_ops :: cfg_node_ops where
  "cfg_type_account_telnetentry1_ops = no_ops \<lparr>
     op_get := Some DefaultFunc, op_set := Some DefaultFunc, op_query := Some DefaultFunc,
     op_commit := Some (Handler ''cfg_type_account_func_commit'')\<rparr>"

definition cfg_type_account_telnetentry1 :: "cfg_node_type" where
  "cfg_type_account_telnetentry1 =
     CfgType 0 ''TelnetEntry1'' 1 []
       (Some cfg_type_account_telnetentry1_ops) None"

definition cfg_type_account_ftpcommon_ops :: cfg_node_ops where
  "cfg_type_account_ftpcommon_ops = no_ops \<lparr>
     op_get := Some DefaultFunc, op_set := Some DefaultFunc, op_create := Some DefaultFunc,
     op_delete := Some DefaultFunc, op_query := Some DefaultFunc,
     op_commit := Some (Handler ''cfg_type_account_func_commit'')\<rparr>"

definition cfg_type_account_ftpcommon :: "cfg_node_type" where
  "cfg_type_account_ftpcommon =
     CfgType 0 ''FtpCommon'' 1 []
       (Some cfg_type_account_ftpcommon_ops) None"

definition cfg_type_account_ftpentry0_ops :: cfg_node_ops where
  "cfg_type_account_ftpentry0_ops = no_ops \<lparr>
     op_get := Some DefaultFunc, op_set := Some DefaultFunc, op_create := Some DefaultFunc,
     op_delete := Some DefaultFunc, op_query := Some DefaultFunc,
     op_commit := Some (Handler ''cfg_type_account_func_commit'')\<rparr>"

definition cfg_type_account_ftpentry0 :: "cfg_node_type" where
  "cfg_type_account_ftpentry0 =
     CfgType 0 ''FtpEntry0'' 1 []
       (Some cfg_type_account_ftpentry0_ops) None"

definition cfg_type_account_ftpentry1_ops :: cfg_node_ops where
  "cfg_type_account_ftpentry1_ops = no_ops \<lparr>
     op_get := Some DefaultFunc, op_set := Some DefaultFunc, op_create := Some DefaultFunc,
     op_delete := Some DefaultFunc, op_query := Some DefaultFunc,
     op_commit := Some (Handler ''cfg_type_account_func_commit'')\<rparr>"

definition cfg_type_account_ftpentry1 :: "cfg_node_type" where
  "cfg_type_account_ftpentry1 =
     CfgType 0 ''FtpEntry1'' 1 []
       (Some cfg_type_account_ftpentry1_ops) None"

definition cfg_type_account_ftpentry2_ops :: cfg_node_ops where
  "cfg_type_account_ftpentry2_ops = no_ops \<lparr>
     op_get := Some DefaultFunc, op_set := Some DefaultFunc, op_create := Some DefaultFunc,
     op_delete := Some DefaultFunc, op_query := Some DefaultFunc,
     op_commit := Some (Handler ''cfg_type_account_func_commit'')\<rparr>"

definition cfg_type_account_ftpentry2 :: "cfg_node_type" where
  "cfg_type_account_ftpentry2 =
     CfgType 0 ''FtpEntry2'' 1 []
       (Some cfg_type_account_ftpentry2_ops) None"

definition cfg_type_account_ftpentry3_ops :: cfg_node_ops where
  "cfg_type_account_ftpentry3_ops = no_ops \<lparr>
     op_get := Some DefaultFunc, op_set := Some DefaultFunc, op_create := Some DefaultFunc,
     op_delete := Some DefaultFunc, op_query := Some DefaultFunc,
     op_commit := Some (Handler ''cfg_type_account_func_commit'')\<rparr>"

definition cfg_type_account_ftpentry3 :: "cfg_node_type" where
  "cfg_type_account_ftpentry3 =
     CfgType 0 ''FtpEntry3'' 1 []
       (Some cfg_type_account_ftpentry3_ops) None"

definition cfg_type_account_ftpentry4_ops :: cfg_node_ops where
  "cfg_type_account_ftpentry4_ops = no_ops \<lparr>
     op_get := Some DefaultFunc, op_set := Some DefaultFunc, op_create := Some DefaultFunc,
     op_delete := Some DefaultFunc, op_query := Some DefaultFunc,
     op_commit := Some (Handler ''cfg_type_account_func_commit'')\<rparr>"

definition cfg_type_account_ftpentry4 :: "cfg_node_type" where
  "cfg_type_account_ftpentry4 =
     CfgType 0 ''FtpEntry4'' 1 []
       (Some cfg_type_account_ftpentry4_ops) None"

definition cfg_type_account_ftpentry5_ops :: cfg_node_ops where
  "cfg_type_account_ftpentry5_ops = no_ops \<lparr>
     op_get := Some DefaultFunc, op_set := Some DefaultFunc, op_create := Some DefaultFunc,
     op_delete := Some DefaultFunc, op_query := Some DefaultFunc,
     op_commit := Some (Handler ''cfg_type_account_func_commit'')\<rparr>"

definition cfg_type_account_ftpentry5 :: "cfg_node_type" where
  "cfg_type_account_ftpentry5 =
     CfgType 0 ''FtpEntry5'' 1 []
       (Some cfg_type_account_ftpentry5_ops) None"

definition cfg_type_account_consoleentry_ops :: cfg_node_ops where
  "cfg_type_account_consoleentry_ops = no_ops \<lparr>
     op_get := Some DefaultFunc, op_set := Some DefaultFunc, op_create := Some DefaultFunc,
     op_delete := Some DefaultFunc, op_query := Some DefaultFunc,
     op_commit := Some (Handler ''cfg_type_account_func_commit'')\<rparr>"

definition cfg_type_account_consoleentry :: "cfg_node_type" where
  "cfg_type_account_consoleentry =
     CfgType 0 ''ConsoleEntry'' 1 []
       (Some cfg_type_account_consoleentry_ops) None"

definition cfg_type_account_tr64entry_ops :: cfg_node_ops where
  "cfg_type_account_tr64entry_ops = no_ops \<lparr>
     op_get := Some DefaultFunc, op_set := Some DefaultFunc, op_query := Some DefaultFunc,
     op_commit := Some (Handler ''cfg_type_account_func_commit'')\<rparr>"

definition cfg_type_account_tr64entry :: "cfg_node_type" where
  "cfg_type_account_tr64entry =
     CfgType 0 ''TR64Entry'' 1 []
       (Some cfg_type_account_tr64entry_ops) None"

definition cfg_type_account_logout_ops :: cfg_node_ops where
  "cfg_type_account_logout_ops = no_ops \<lparr>
     op_get := Some DefaultFunc, op_set := Some DefaultFunc, op_query := Some DefaultFunc,
     op_commit := Some (Handler ''cfg_type_account_logout_func_commit'')\<rparr>"

definition cfg_type_account_logout :: "cfg_node_type" where
  "cfg_type_account_logout =
     CfgType 0 ''LogOut'' 1 []
       (Some cfg_type_account_logout_ops) None"

definition cfg_type_account_ops :: cfg_node_ops where
  "cfg_type_account_ops = no_ops \<lparr>
     op_set := Some DefaultFunc, op_get := Some DefaultFunc, op_query := Some DefaultFunc,
     op_commit := Some (Handler ''cfg_type_account_func_commit'')\<rparr>"

definition cfg_type_account_child :: "cfg_node_type list" where
  "cfg_type_account_child =
    [
      cfg_type_account_entry, cfg_type_account_telnetentry, cfg_type_account_telnetentry1,
      cfg_type_account_ftpcommon, cfg_type_account_ftpentry0, cfg_type_account_ftpentry1,
      cfg_type_account_ftpentry2, cfg_type_account_ftpentry3, cfg_type_account_ftpentry4,
      cfg_type_account_ftpentry5, cfg_type_account_consoleentry,
      cfg_type_account_tr64entry, cfg_type_account_logout]"

definition cfg_type_account :: "cfg_node_type" where
  "cfg_type_account =
     CfgType 0 ''Account'' 1 cfg_type_account_child
       (Some cfg_type_account_ops) None"

section \<open>System\<close>

definition cfg_type_system_entry_ops :: cfg_node_ops where
  "cfg_type_system_entry_ops = no_ops \<lparr>
     op_get := Some (Handler ''cfg_type_system_func_get''), op_set := Some DefaultFunc,
     op_query := Some DefaultFunc,
     op_commit := Some (Handler ''cfg_type_system_func_commit'')\<rparr>"

definition cfg_type_system_entry :: "cfg_node_type" where
  "cfg_type_system_entry =
     CfgType 0 ''Entry'' 1 []
       (Some cfg_type_system_entry_ops) None"

definition cfg_type_system_ops :: cfg_node_ops where
  "cfg_type_system_ops = no_ops \<lparr>
     op_set := Some DefaultFunc, op_get := Some (Handler ''cfg_type_system_func_get''),
     op_query := Some DefaultFunc,
     op_commit := Some (Handler ''cfg_type_system_func_commit'')\<rparr>"

definition cfg_type_system_child :: "cfg_node_type list" where
  "cfg_type_system_child =
    [
      cfg_type_system_entry]"

definition cfg_type_system :: "cfg_node_type" where
  "cfg_type_system =
     CfgType 0 ''System'' 1 cfg_type_system_child
       (Some cfg_type_system_ops) None"

section \<open>WebCurSet\<close>

definition cfg_type_webcurset_entry_ops :: cfg_node_ops where
  "cfg_type_webcurset_entry_ops = no_ops \<lparr>
     op_get := Some DefaultFunc, op_set := Some DefaultFunc, op_query := Some DefaultFunc,
     op_commit := Some DefaultFunc\<rparr>"

definition cfg_type_webcurset_entry :: "cfg_node_type" where
  "cfg_type_webcurset_entry =
     CfgType 0 ''Entry'' (CFG_TYPE_FLAG_MEMORY OR 1) []
       (Some cfg_type_webcurset_entry_ops) None"

definition cfg_type_webcurset_ops :: cfg_node_ops where
  "cfg_type_webcurset_ops = no_ops \<lparr>
     op_set := Some DefaultFunc, op_get := Some DefaultFunc,
     op_memory_type_read := Some (Handler ''cfg_type_webcurset_func_get''),
     op_query := Some DefaultFunc, op_commit := Some DefaultFunc\<rparr>"

definition cfg_type_webcurset_child :: "cfg_node_type list" where
  "cfg_type_webcurset_child =
    [
      cfg_type_webcurset_entry]"

definition cfg_type_webcurset :: "cfg_node_type" where
  "cfg_type_webcurset =
     CfgType 0 ''WebCurSet'' (CFG_TYPE_FLAG_MEMORY OR 1) cfg_type_webcurset_child
       (Some cfg_type_webcurset_ops) None"

section \<open>WebCustom\<close>

definition cfg_type_webcustom_entry_ops :: cfg_node_ops where
  "cfg_type_webcustom_entry_ops = no_ops \<lparr>
     op_get := Some (Handler ''cfg_type_webcustom_entry_func_get''),
     op_set := Some DefaultFunc, op_query := Some DefaultFunc\<rparr>"

definition cfg_type_webcustom_entry :: "cfg_node_type" where
  "cfg_type_webcustom_entry =
     CfgType 0 ''Entry'' (CFG_TYPE_FLAG_MEMORY OR 1) []
       (Some cfg_type_webcustom_entry_ops) None"

definition cfg_type_webcustom_ops :: cfg_node_ops where
  "cfg_type_webcustom_ops = no_ops \<lparr>
     op_get := Some DefaultFunc, op_set := Some DefaultFunc, op_query := Some DefaultFunc\<rparr>"

definition cfg_type_webcustom_child :: "cfg_node_type list" where
  "cfg_type_webcustom_child =
    [
      cfg_type_webcustom_entry]"

definition cfg_type_webcustom :: "cfg_node_type" where
  "cfg_type_webcustom =
     CfgType 0 ''WebCustom'' (CFG_TYPE_FLAG_MEMORY OR 1) cfg_type_webcustom_child
       (Some cfg_type_webcustom_ops) None"

section \<open>dynDisp\<close>

definition cfg_type_dyndisp_entry_ops :: cfg_node_ops where
  "cfg_type_dyndisp_entry_ops = no_ops \<lparr>
     op_get := Some (Handler ''cfg_type_dyndisp_entry_func_get''),
     op_set := Some DefaultFunc, op_query := Some DefaultFunc, op_commit := Some DefaultFunc\<rparr>"

definition cfg_type_dyndisp_entry :: "cfg_node_type" where
  "cfg_type_dyndisp_entry =
     CfgType 0 ''Entry'' (CFG_TYPE_FLAG_MEMORY OR 1) []
       (Some cfg_type_dyndisp_entry_ops) None"

definition cfg_type_dyndisp_ops :: cfg_node_ops where
  "cfg_type_dyndisp_ops = no_ops \<lparr>
     op_query := Some DefaultFunc\<rparr>"

definition cfg_type_dyndisp_child :: "cfg_node_type list" where
  "cfg_type_dyndisp_child =
    [
      cfg_type_dyndisp_entry]"

definition cfg_type_dyndisp :: "cfg_node_type" where
  "cfg_type_dyndisp =
     CfgType 0 ''dynDisp'' (CFG_TYPE_FLAG_MEMORY OR 1) cfg_type_dyndisp_child
       (Some cfg_type_dyndisp_ops) None"

section \<open>dynCwmpAttr\<close>

definition cfg_type_dyncwmpattr_entry_ops :: cfg_node_ops where
  "cfg_type_dyncwmpattr_entry_ops = no_ops \<lparr>
     op_get := Some (Handler ''cfg_type_dyncwmpattr_entry_func_get''),
     op_set := Some DefaultFunc, op_query := Some DefaultFunc, op_commit := Some DefaultFunc\<rparr>"

definition cfg_type_dyncwmpattr_entry :: "cfg_node_type" where
  "cfg_type_dyncwmpattr_entry =
     CfgType 0 ''Entry'' (CFG_TYPE_FLAG_MEMORY OR CFG_TYPE_FLAG_UPDATE OR 1) []
       (Some cfg_type_dyncwmpattr_entry_ops) None"

definition cfg_type_dyncwmpattr_ops :: cfg_node_ops where
  "cfg_type_dyncwmpattr_ops = no_ops \<lparr>
     op_set := Some DefaultFunc,
     op_get := Some (Handler ''cfg_type_dyncwmpattr_entry_func_get''),
     op_query := Some DefaultFunc, op_commit := Some DefaultFunc\<rparr>"

definition cfg_type_dyncwmpattr_child :: "cfg_node_type list" where
  "cfg_type_dyncwmpattr_child =
    [
      cfg_type_dyncwmpattr_entry]"

definition cfg_type_dyncwmpattr :: "cfg_node_type" where
  "cfg_type_dyncwmpattr =
     CfgType 0 ''dynCwmpAttr'' (CFG_TYPE_FLAG_MEMORY OR CFG_TYPE_FLAG_UPDATE OR 1) cfg_type_dyncwmpattr_child
       (Some cfg_type_dyncwmpattr_ops) None"

section \<open>Diagnostic\<close>

definition cfg_type_diagnostic_pvc_ops :: cfg_node_ops where
  "cfg_type_diagnostic_pvc_ops = no_ops \<lparr>
     op_get := Some (Handler ''cfg_type_diagnostic_pvc_func_get''),
     op_set := Some DefaultFunc, op_create := Some DefaultFunc,
     op_delete := Some DefaultFunc, op_query := Some DefaultFunc,
     op_commit := Some (Handler ''cfg_type_diagnostic_func_commit'')\<rparr>"

definition cfg_type_diagnostic_index :: "string list" where
  "cfg_type_diagnostic_index = [''diag_pvc'']"

definition cfg_type_diagnostic_pvc :: "cfg_node_type" where
  "cfg_type_diagnostic_pvc =
     CfgType 0 ''PVC'' (CFG_TYPE_FLAG_MEMORY OR CFG_TYPE_FLAG_UPDATE OR CFG_TYPE_FLAG_MULTIPLE OR 1) []
       (Some cfg_type_diagnostic_pvc_ops) (Some cfg_type_diagnostic_index)"

definition cfg_type_diagnostic_ops :: cfg_node_ops where
  "cfg_type_diagnostic_ops = no_ops \<lparr>
     op_set := Some DefaultFunc, op_get := Some DefaultFunc, op_query := Some DefaultFunc,
     op_commit := Some (Handler ''cfg_type_diagnostic_func_commit'')\<rparr>"

definition cfg_type_diagnostic_child :: "cfg_node_type list" where
  "cfg_type_diagnostic_child =
    [
      cfg_type_diagnostic_pvc]"

definition cfg_type_diagnostic :: "cfg_node_type" where
  "cfg_type_diagnostic =
     CfgType 0 ''Diagnostic'' (CFG_TYPE_FLAG_MEMORY OR CFG_TYPE_FLAG_UPDATE OR 1) cfg_type_diagnostic_child
       (Some cfg_type_diagnostic_ops) None"

section \<open>DeviceInfo\<close>

definition cfg_type_deviceinfo_devparastatic_ops :: cfg_node_ops where
  "cfg_type_deviceinfo_devparastatic_ops = no_ops \<lparr>
     op_get := Some (Handler ''cfg_type_deviceinfo_deviceParaStatic_func_get''),
     op_set := Some DefaultFunc, op_query := Some DefaultFunc, op_commit := Some DefaultFunc\<rparr>"

definition cfg_type_deviceinfo_index :: "string list" where
  "cfg_type_deviceinfo_index = [''dev_pvc'']"

definition cfg_type_deviceinfo_devparastatic :: "cfg_node_type" where
  "cfg_type_deviceinfo_devparastatic =
     CfgType 0 ''devParaStatic'' (CFG_TYPE_FLAG_MEMORY OR 1) []
       (Some cfg_type_deviceinfo_devparastatic_ops) (Some cfg_type_deviceinfo_index)"

definition cfg_type_deviceinfo_devparadynamic_ops :: cfg_node_ops where
  "cfg_type_deviceinfo_devparadynamic_ops = no_ops \<lparr>
     op_get := Some (Handler ''cfg_type_deviceinfo_deviceParaDynamic_func_get''),
     op_set := Some DefaultFunc, op_query := Some DefaultFunc, op_commit := Some DefaultFunc\<rparr>"

definition cfg_type_deviceinfo_devparadynamic :: "cfg_node_type" where
  "cfg_type_deviceinfo_devparadynamic =
     CfgType 0 ''devParaDynamic'' (CFG_TYPE_FLAG_MEMORY OR 1) []
       (Some cfg_type_deviceinfo_devparadynamic_ops) (Some cfg_type_deviceinfo_index)"

definition cfg_type_deviceinfo_pvc_ops :: cfg_node_ops where
  "cfg_type_deviceinfo_pvc_ops = no_ops \<lparr>
     op_get := Some (Handler ''cfg_type_deviceinfo_pvc_func_get''),
     op_set := Some DefaultFunc, op_create := Some DefaultFunc,
     op_delete := Some DefaultFunc, op_query := Some DefaultFunc,
     op_commit := Some (Handler ''cfg_type_deviceinfo_pvc_func_commit'')\<rparr>"

definition cfg_type_deviceinfo_pvc :: "cfg_node_type" where
  "cfg_type_deviceinfo_pvc =
     CfgType 0 ''PVC'' (CFG_TYPE_FLAG_MEMORY OR CFG_TYPE_FLAG_MULTIPLE OR CFG_TYPE_FLAG_MULTIPLE OR 1) []
       (Some cfg_type_deviceinfo_pvc_ops) (Some cfg_type_deviceinfo_index)"

definition cfg_type_deviceinfo_ops :: cfg_node_ops where
  "cfg_type_deviceinfo_ops = no_ops \<lparr>
     op_get := Some (Handler ''cfg_type_deviceinfo_func_get''), op_set := Some DefaultFunc,
     op_query := Some DefaultFunc, op_commit := Some DefaultFunc\<rparr>"

definition cfg_type_deviceinfo_child :: "cfg_node_type list" where
  "cfg_type_deviceinfo_child =
    [
      cfg_type_deviceinfo_devparastatic, cfg_type_deviceinfo_devparadynamic,
      cfg_type_deviceinfo_pvc]"

definition cfg_type_deviceinfo :: "cfg_node_type" where
  "cfg_type_deviceinfo =
     CfgType 0 ''DeviceInfo'' (CFG_TYPE_FLAG_UPDATE OR CFG_TYPE_FLAG_MEMORY OR 1) cfg_type_deviceinfo_child
       (Some cfg_type_deviceinfo_ops) None"

section \<open>Info\<close>

definition cfg_type_info_ether_ops :: cfg_node_ops where
  "cfg_type_info_ether_ops = no_ops \<lparr>
     op_get := Some (Handler ''cfg_type_info_func_get''), op_set := Some DefaultFunc\<rparr>"

definition cfg_type_info_ether :: "cfg_node_type" where
  "cfg_type_info_ether =
     CfgType 0 ''Ether'' (CFG_TYPE_FLAG_MEMORY OR CFG_TYPE_FLAG_UPDATE OR 1) []
       (Some cfg_type_info_ether_ops) None"

definition cfg_type_info_usb_ops :: cfg_node_ops where
  "cfg_type_info_usb_ops = no_ops \<lparr>
     op_get := Some (Handler ''cfg_type_info_func_get''), op_set := Some DefaultFunc\<rparr>"

definition cfg_type_info_usb :: "cfg_node_type" where
  "cfg_type_info_usb =
     CfgType 0 ''Usb'' (CFG_TYPE_FLAG_MEMORY OR CFG_TYPE_FLAG_UPDATE OR 1) []
       (Some cfg_type_info_usb_ops) None"

definition cfg_type_info_xpon_ops :: cfg_node_ops where
  "cfg_type_info_xpon_ops = no_ops \<lparr>
     op_get := Some (Handler ''cfg_type_info_func_get''), op_set := Some DefaultFunc\<rparr>"

definition cfg_type_info_xpon :: "cfg_node_type" where
  "cfg_type_info_xpon =
     CfgType 0 ''Xpon'' (CFG_TYPE_FLAG_MEMORY OR CFG_TYPE_FLAG_UPDATE OR 1) []
       (Some cfg_type_info_xpon_ops) None"

definition cfg_type_info_ponPhy_ops :: cfg_node_ops where
  "cfg_type_info_ponPhy_ops = no_ops \<lparr>
     op_get := Some (Handler ''cfg_type_info_func_get''), op_set := Some DefaultFunc\<rparr>"

definition cfg_type_info_ponPhy :: "cfg_node_type" where
  "cfg_type_info_ponPhy =
     CfgType 0 ''PonPhy'' (CFG_TYPE_FLAG_MEMORY OR CFG_TYPE_FLAG_UPDATE OR 1) []
       (Some cfg_type_info_ponPhy_ops) None"

definition cfg_type_info_ponWanStats_ops :: cfg_node_ops where
  "cfg_type_info_ponWanStats_ops = no_ops \<lparr>
     op_get := Some (Handler ''cfg_type_info_ponWanStats_get''), op_set := Some DefaultFunc\<rparr>"

definition cfg_type_info_ponWanStats :: "cfg_node_type" where
  "cfg_type_info_ponWanStats =
     CfgType 0 ''PonWanStats'' (CFG_TYPE_FLAG_MEMORY OR CFG_TYPE_FLAG_UPDATE OR 1) []
       (Some cfg_type_info_ponWanStats_ops) None"

definition cfg_type_info_oam_ops :: cfg_node_ops where
  "cfg_type_info_oam_ops = no_ops \<lparr>
     op_get := Some (Handler ''cfg_type_info_func_get''), op_set := Some DefaultFunc\<rparr>"

definition cfg_type_info_oam :: "cfg_node_type" where
  "cfg_type_info_oam =
     CfgType 0 ''Oam'' (CFG_TYPE_FLAG_MEMORY OR CFG_TYPE_FLAG_UPDATE OR 1) []
       (Some cfg_type_info_oam_ops) None"

definition cfg_type_info_simWebAuth_ops :: cfg_node_ops where
  "cfg_type_info_simWebAuth_ops = no_ops \<lparr>
     op_get := Some (Handler ''cfg_type_info_func_get''), op_set := Some DefaultFunc\<rparr>"

definition cfg_type_info_simWebAuth :: "cfg_node_type" where
  "cfg_type_info_simWebAuth =
     CfgType 0 ''SIMWebAuth'' (CFG_TYPE_FLAG_MEMORY OR CFG_TYPE_FLAG_UPDATE OR 1) []
       (Some cfg_type_info_simWebAuth_ops) None"

definition cfg_type_info_wlan_ops :: cfg_node_ops where
  "cfg_type_info_wlan_ops = no_ops \<lparr>
     op_get := Some (Handler ''cfg_type_info_wlan_get''), op_set := Some DefaultFunc\<rparr>"

definition cfg_type_info_wlan :: "cfg_node_type" where
  "cfg_type_info_wlan =
     CfgType 0 ''WLan'' (CFG_TYPE_FLAG_MEMORY OR CFG_TYPE_FLAG_UPDATE OR 1) []
       (Some cfg_type_info_wlan_ops) None"

definition cfg_type_info_wlan11ac_ops :: cfg_node_ops where
  "cfg_type_info_wlan11ac_ops = no_ops \<lparr>
     op_get := Some (Handler ''cfg_type_info_wlan11ac_get''), op_set := Some DefaultFunc\<rparr>"

definition cfg_type_info_wlan11ac :: "cfg_node_type" where
  "cfg_type_info_wlan11ac =
     CfgType 0 ''WLan11ac'' (CFG_TYPE_FLAG_MEMORY OR CFG_TYPE_FLAG_UPDATE OR 1) []
       (Some cfg_type_info_wlan11ac_ops) None"

definition cfg_type_info_devDefInf_ops :: cfg_node_ops where
  "cfg_type_info_devDefInf_ops = no_ops \<lparr>
     op_get := Some (Handler ''cfg_type_info_func_get''), op_set := Some DefaultFunc\<rparr>"

definition cfg_type_info_devDefInf :: "cfg_node_type" where
  "cfg_type_info_devDefInf =
     CfgType 0 ''devDefInf'' (CFG_TYPE_FLAG_MEMORY OR CFG_TYPE_FLAG_UPDATE OR 1) []
       (Some cfg_type_info_devDefInf_ops) None"

definition cfg_type_info_sysDevice_ops :: cfg_node_ops where
  "cfg_type_info_sysDevice_ops = no_ops \<lparr>
     op_get := Some (Handler ''cfg_type_info_func_get''), op_set := Some DefaultFunc\<rparr>"

definition cfg_type_info_sysDevice :: "cfg_node_type" where
  "cfg_type_info_sysDevice =
     CfgType 0 ''SysDevice'' (CFG_TYPE_FLAG_MEMORY OR CFG_TYPE_FLAG_UPDATE OR 1) []
       (Some cfg_type_info_sysDevice_ops) None"

definition cfg_type_info_nas0_ops :: cfg_node_ops where
  "cfg_type_info_nas0_ops = no_ops \<lparr>
     op_get := Some (Handler ''cfg_type_info_nas_get''), op_set := Some DefaultFunc,
     op_create := Some DefaultFunc, op_delete := Some DefaultFunc\<rparr>"

definition cfg_type_info_nas0 :: "cfg_node_type" where
  "cfg_type_info_nas0 =
     CfgType 0 ''nas0'' (CFG_TYPE_FLAG_MEMORY OR CFG_TYPE_FLAG_UPDATE OR CFG_TYPE_FLAG_MULTIPLE OR 8) []
       (Some cfg_type_info_nas0_ops) None"

definition cfg_type_info_nas1_ops :: cfg_node_ops where
  "cfg_type_info_nas1_ops = no_ops \<lparr>
     op_get := Some (Handler ''cfg_type_info_nas_get''), op_set := Some DefaultFunc,
     op_create := Some DefaultFunc, op_delete := Some DefaultFunc\<rparr>"

definition cfg_type_info_nas1 :: "cfg_node_type" where
  "cfg_type_info_nas1 =
     CfgType 0 ''nas1'' (CFG_TYPE_FLAG_MEMORY OR CFG_TYPE_FLAG_UPDATE OR CFG_TYPE_FLAG_MULTIPLE OR 8) []
       (Some cfg_type_info_nas1_ops) None"

definition cfg_type_info_nas2_ops :: cfg_node_ops where
  "cfg_type_info_nas2_ops = no_ops \<lparr>
     op_get := Some (Handler ''cfg_type_info_nas_get''), op_set := Some DefaultFunc,
     op_create := Some DefaultFunc, op_delete := Some DefaultFunc\<rparr>"

definition cfg_type_info_nas2 :: "cfg_node_type" where
  "cfg_type_info_nas2 =
     CfgType 0 ''nas2'' (CFG_TYPE_FLAG_MEMORY OR CFG_TYPE_FLAG_UPDATE OR CFG_TYPE_FLAG_MULTIPLE OR 8) []
       (Some cfg_type_info_nas2_ops) None"

definition cfg_type_info_nas3_ops :: cfg_node_ops where
  "cfg_type_info_nas3_ops = no_ops \<lparr>
     op_get := Some (Handler ''cfg_type_info_nas_get''), op_set := Some DefaultFunc,
     op_create := Some DefaultFunc, op_delete := Some DefaultFunc\<rparr>"

definition cfg_type_info_nas3 :: "cfg_node_type" where
  "cfg_type_info_nas3 =
     CfgType 0 ''nas3'' (CFG_TYPE_FLAG_MEMORY OR CFG_TYPE_FLAG_UPDATE OR CFG_TYPE_FLAG_MULTIPLE OR 8) []
       (Some cfg_type_info_nas3_ops) None"

definition cfg_type_info_nas4_ops :: cfg_node_ops where
  "cfg_type_info_nas4_ops = no_ops \<lparr>
     op_get := Some (Handler ''cfg_type_info_nas_get''), op_set := Some DefaultFunc,
     op_create := Some DefaultFunc, op_delete := Some DefaultFunc\<rparr>"

definition cfg_type_info_nas4 :: "cfg_node_type" where
  "cfg_type_info_nas4 =
     CfgType 0 ''nas4'' (CFG_TYPE_FLAG_MEMORY OR CFG_TYPE_FLAG_UPDATE OR CFG_TYPE_FLAG_MULTIPLE OR 8) []
       (Some cfg_type_info_nas4_ops) None"

definition cfg_type_info_nas5_ops :: cfg_node_ops where
  "cfg_type_info_nas5_ops = no_ops \<lparr>
     op_get := Some (Handler ''cfg_type_info_nas_get''), op_set := Some DefaultFunc,
     op_create := Some DefaultFunc, op_delete := Some DefaultFunc\<rparr>"

definition cfg_type_info_nas5 :: "cfg_node_type" where
  "cfg_type_info_nas5 =
     CfgType 0 ''nas5'' (CFG_TYPE_FLAG_MEMORY OR CFG_TYPE_FLAG_UPDATE OR CFG_TYPE_FLAG_MULTIPLE OR 8) []
       (Some cfg_type_info_nas5_ops) None"

definition cfg_type_info_nas6_ops :: cfg_node_ops where
  "cfg_type_info_nas6_ops = no_ops \<lparr>
     op_get := Some (Handler ''cfg_type_info_nas_get''), op_set := Some DefaultFunc,
     op_create := Some DefaultFunc, op_delete := Some DefaultFunc\<rparr>"

definition cfg_type_info_nas6 :: "cfg_node_type" where
  "cfg_type_info_nas6 =
     CfgType 0 ''nas6'' (CFG_TYPE_FLAG_MEMORY OR CFG_TYPE_FLAG_UPDATE OR CFG_TYPE_FLAG_MULTIPLE OR 8) []
       (Some cfg_type_info_nas6_ops) None"

definition cfg_type_info_nas7_ops :: cfg_node_ops where
  "cfg_type_info_nas7_ops = no_ops \<lparr>
     op_get := Some (Handler ''cfg_type_info_nas_get''), op_set := Some DefaultFunc,
     op_create := Some DefaultFunc, op_delete := Some DefaultFunc\<rparr>"

definition cfg_type_info_nas7 :: "cfg_node_type" where
  "cfg_type_info_nas7 =
     CfgType 0 ''nas7'' (CFG_TYPE_FLAG_MEMORY OR CFG_TYPE_FLAG_UPDATE OR CFG_TYPE_FLAG_MULTIPLE OR 8) []
       (Some cfg_type_info_nas7_ops) None"

definition cfg_type_info_nas8_ops :: cfg_node_ops where
  "cfg_type_info_nas8_ops = no_ops \<lparr>
     op_get := Some (Handler ''cfg_type_info_nas_get''), op_set := Some DefaultFunc,
     op_create := Some DefaultFunc, op_delete := Some DefaultFunc\<rparr>"

definition cfg_type_info_nas8 :: "cfg_node_type" where
  "cfg_type_info_nas8 =
     CfgType 0 ''nas8'' (CFG_TYPE_FLAG_MEMORY OR CFG_TYPE_FLAG_UPDATE OR CFG_TYPE_FLAG_MULTIPLE OR 8) []
       (Some cfg_type_info_nas8_ops) None"

definition cfg_type_info_nas9_ops :: cfg_node_ops where
  "cfg_type_info_nas9_ops = no_ops \<lparr>
     op_get := Some (Handler ''cfg_type_info_nas_get''), op_set := Some DefaultFunc,
     op_create := Some DefaultFunc, op_delete := Some DefaultFunc\<rparr>"

definition cfg_type_info_nas9 :: "cfg_node_type" where
  "cfg_type_info_nas9 =
     CfgType 0 ''nas9'' (CFG_TYPE_FLAG_MEMORY OR CFG_TYPE_FLAG_UPDATE OR CFG_TYPE_FLAG_MULTIPLE OR 8) []
       (Some cfg_type_info_nas9_ops) None"

definition cfg_type_info_nas10_ops :: cfg_node_ops where
  "cfg_type_info_nas10_ops = no_ops \<lparr>
     op_get := Some (Handler ''cfg_type_info_nas_get''), op_set := Some DefaultFunc,
     op_create := Some DefaultFunc, op_delete := Some DefaultFunc\<rparr>"

definition cfg_type_info_nas10 :: "cfg_node_type" where
  "cfg_type_info_nas10 =
     CfgType 0 ''nas10'' (CFG_TYPE_FLAG_MEMORY OR CFG_TYPE_FLAG_UPDATE OR CFG_TYPE_FLAG_MULTIPLE OR 8) []
       (Some cfg_type_info_nas10_ops) None"

definition cfg_type_info_eth_ops :: cfg_node_ops where
  "cfg_type_info_eth_ops = no_ops \<lparr>
     op_get := Some (Handler ''cfg_type_info_func_get''), op_set := Some DefaultFunc,
     op_create := Some DefaultFunc, op_delete := Some DefaultFunc\<rparr>"

definition cfg_type_info_eth :: "cfg_node_type" where
  "cfg_type_info_eth =
     CfgType 0 ''eth0'' (CFG_TYPE_FLAG_MEMORY OR CFG_TYPE_FLAG_UPDATE OR CFG_TYPE_FLAG_MULTIPLE OR 5) []
       (Some cfg_type_info_eth_ops) None"

definition cfg_type_info_ra_ops :: cfg_node_ops where
  "cfg_type_info_ra_ops = no_ops \<lparr>
     op_get := Some (Handler ''cfg_type_info_ra_get''), op_set := Some DefaultFunc,
     op_create := Some DefaultFunc, op_delete := Some DefaultFunc\<rparr>"

definition cfg_type_info_ra :: "cfg_node_type" where
  "cfg_type_info_ra =
     CfgType 0 ''ra'' (CFG_TYPE_FLAG_MEMORY OR CFG_TYPE_FLAG_UPDATE OR CFG_TYPE_FLAG_MULTIPLE OR 4) []
       (Some cfg_type_info_ra_ops) None"

definition cfg_type_info_rai_ops :: cfg_node_ops where
  "cfg_type_info_rai_ops = no_ops \<lparr>
     op_get := Some (Handler ''cfg_type_info_rai_get''), op_set := Some DefaultFunc,
     op_create := Some DefaultFunc, op_delete := Some DefaultFunc\<rparr>"

definition cfg_type_info_rai :: "cfg_node_type" where
  "cfg_type_info_rai =
     CfgType 0 ''rai'' (CFG_TYPE_FLAG_MEMORY OR CFG_TYPE_FLAG_UPDATE OR CFG_TYPE_FLAG_MULTIPLE OR 4) []
       (Some cfg_type_info_rai_ops) None"

definition cfg_type_info_RomfileCheck_ops :: cfg_node_ops where
  "cfg_type_info_RomfileCheck_ops = no_ops \<lparr>
     op_get := Some (Handler ''cfg_type_info_func_get''), op_set := Some DefaultFunc\<rparr>"

definition cfg_type_info_RomfileCheck :: "cfg_node_type" where
  "cfg_type_info_RomfileCheck =
     CfgType 0 ''RomfileCheck'' (CFG_TYPE_FLAG_MEMORY OR CFG_TYPE_FLAG_UPDATE OR 1) []
       (Some cfg_type_info_RomfileCheck_ops) None"

definition cfg_type_info_romfilechk_ops :: cfg_node_ops where
  "cfg_type_info_romfilechk_ops = no_ops \<lparr>
     op_get := Some (Handler ''cfg_type_info_romfilechk_get''), op_set := Some DefaultFunc,
     op_create := Some DefaultFunc, op_delete := Some DefaultFunc\<rparr>"

definition cfg_type_info_romfilechk :: "cfg_node_type" where
  "cfg_type_info_romfilechk =
     CfgType 0 ''RomfileCheck'' (CFG_TYPE_FLAG_MEMORY OR CFG_TYPE_FLAG_UPDATE OR 1) []
       (Some cfg_type_info_romfilechk_ops) None"

definition cfg_type_info_br0_ops :: cfg_node_ops where
  "cfg_type_info_br0_ops = no_ops \<lparr>
     op_get := Some (Handler ''cfg_type_info_func_get''), op_set := Some DefaultFunc,
     op_create := Some DefaultFunc, op_delete := Some DefaultFunc\<rparr>"

definition cfg_type_info_br0 :: "cfg_node_type" where
  "cfg_type_info_br0 =
     CfgType 0 ''br0'' (CFG_TYPE_FLAG_MEMORY OR CFG_TYPE_FLAG_UPDATE OR CFG_TYPE_FLAG_MULTIPLE OR 1) []
       (Some cfg_type_info_br0_ops) None"

definition cfg_type_info_ops :: cfg_node_ops where
  "cfg_type_info_ops = no_ops \<lparr>
     op_get := Some (Handler ''cfg_type_info_func_get''), op_set := Some DefaultFunc\<rparr>"

definition cfg_type_info_child :: "cfg_node_type list" where
  "cfg_type_info_child =
    [
      cfg_type_info_ether, cfg_type_info_usb, cfg_type_info_xpon, cfg_type_info_ponPhy,
      cfg_type_info_ponWanStats, cfg_type_info_oam, cfg_type_info_simWebAuth,
      cfg_type_info_wlan, cfg_type_info_wlan11ac, cfg_type_info_devDefInf,
      cfg_type_info_sysDevice, cfg_type_info_nas0, cfg_type_info_nas1, cfg_type_info_nas2,
      cfg_type_info_nas3, cfg_type_info_nas4, cfg_type_info_nas5, cfg_type_info_nas6,
      cfg_type_info_nas7, cfg_type_info_nas8, cfg_type_info_nas9, cfg_type_info_nas10,
      cfg_type_info_eth, cfg_type_info_ra, cfg_type_info_rai, cfg_type_info_RomfileCheck,
      cfg_type_info_romfilechk, cfg_type_info_br0]"

definition cfg_type_info :: "cfg_node_type" where
  "cfg_type_info =
     CfgType 0 ''Info'' (CFG_TYPE_FLAG_MEMORY OR CFG_TYPE_FLAG_UPDATE OR 1) cfg_type_info_child
       (Some cfg_type_info_ops) None"

section \<open>QoS\<close>

definition cfg_type_qos_entry_ops :: cfg_node_ops where
  "cfg_type_qos_entry_ops = no_ops \<lparr>
     op_get := Some (Handler ''cfg_type_qos_entry_func_get''), op_set := Some DefaultFunc,
     op_create := Some DefaultFunc, op_delete := Some DefaultFunc,
     op_query := Some DefaultFunc, op_commit := Some (Handler ''cfg_type_qos_func_commit'')\<rparr>"

definition cfg_type_qos_index :: "string list" where
  "cfg_type_qos_index = [''qos_id'']"

definition cfg_type_qos_entry :: "cfg_node_type" where
  "cfg_type_qos_entry =
     CfgType 0 ''Entry'' (CFG_TYPE_FLAG_UPDATE OR CFG_TYPE_FLAG_MULTIPLE OR 30) []
       (Some cfg_type_qos_entry_ops) (Some cfg_type_qos_index)"

definition cfg_type_qos_common_ops :: cfg_node_ops where
  "cfg_type_qos_common_ops = no_ops \<lparr>
     op_get := Some (Handler ''cfg_type_qos_common_func_get''), op_set := Some DefaultFunc,
     op_query := Some DefaultFunc, op_commit := Some (Handler ''cfg_type_qos_func_commit'')\<rparr>"

definition cfg_type_qos_common :: "cfg_node_type" where
  "cfg_type_qos_common =
     CfgType 0 ''Common'' (CFG_TYPE_FLAG_UPDATE OR 1) []
       (Some cfg_type_qos_common_ops) None"

definition cfg_type_qos_ops :: cfg_node_ops where
  "cfg_type_qos_ops = no_ops \<lparr>
     op_set := Some DefaultFunc, op_get := Some DefaultFunc, op_query := Some DefaultFunc,
     op_commit := Some (Handler ''cfg_type_qos_func_commit'')\<rparr>"

definition cfg_type_qos_child :: "cfg_node_type list" where
  "cfg_type_qos_child =
    [
      cfg_type_qos_entry, cfg_type_qos_common]"

definition cfg_type_qos :: "cfg_node_type" where
  "cfg_type_qos =
     CfgType 0 ''QoS'' (CFG_TYPE_FLAG_UPDATE OR 1) cfg_type_qos_child
       (Some cfg_type_qos_ops) None"

end
