(* ===== verification/TypesC.thy ===== *)
theory TypesC
  imports CfgTypes
begin

text \<open>
  Type tables of \<open>service/cfg/type\<close> for the build profile
  \<open>UNION_EN7528_LE_7592_7613_MAP_R2_demo\<close>: the types from \<open>VlanBind\<close> to \<open>VoIPCodecs\<close>. The
  operations, the \<open>subtype\<close> arrays and the index arrays keep the names of the source.
\<close>

section \<open>VlanBind\<close>

definition cfg_type_vlanbind_entry_ops :: cfg_node_ops where
  "cfg_type_vlanbind_entry_ops = no_ops \<lparr>
     op_get := Some DefaultFunc, op_set := Some DefaultFunc, op_create := Some DefaultFunc,
     op_delete := Some DefaultFunc, op_query := Some DefaultFunc,
     op_commit := Some (Handler ''cfg_type_vlanbind_entry_func_commit'')\<rparr>"

definition cfg_type_vlanbind_index :: "string list" where
  "cfg_type_vlanbind_index = [''VlanBind_id'']"

definition cfg_type_vlanbind_entry :: "(string \<Rightarrow> u32) \<Rightarrow> cfg_node_type" where
  "cfg_type_vlanbind_entry mx =
     CfgType 0 ''Entry'' (CFG_TYPE_FLAG_MULTIPLE OR mx ''MAX_LAN_PORT_NUM'') []
       (Some cfg_type_vlanbind_entry_ops) (Some cfg_type_vlanbind_index)"

definition cfg_type_vlanbind_ops :: cfg_node_ops where
  "cfg_type_vlanbind_ops = no_ops \<lparr>
     op_set := Some DefaultFunc, op_get := Some DefaultFunc, op_query := Some DefaultFunc,
     op_commit := Some (Handler ''cfg_type_vlanbind_entry_func_commit'')\<rparr>"

definition cfg_type_vlanbind_child :: "(string \<Rightarrow> u32) \<Rightarrow> cfg_node_type list" where
  "cfg_type_vlanbind_child mx =
    [
      cfg_type_vlanbind_entry mx]"

definition cfg_type_vlanbind :: "(string \<Rightarrow> u32) \<Rightarrow> cfg_node_type" where
  "cfg_type_vlanbind mx =
     CfgType 0 ''VlanBind'' 1 (cfg_type_vlanbind_child mx)
       (Some cfg_type_vlanbind_ops) None"

section \<open>ACL\<close>

definition cfg_type_acl_entry_ops :: cfg_node_ops where
  "cfg_type_acl_entry_ops = no_ops \<lparr>
     op_get := Some (Handler ''cfg_type_acl_func_get''), op_set := Some DefaultFunc,
     op_create := Some DefaultFunc,
     op_delete := Some (Handler ''cfg_type_acl_entry_func_delete''),
     op_query := Some DefaultFunc, op_commit := Some (Handler ''cfg_type_acl_commit'')\<rparr>"

definition cfg_type_acl_index :: "string list" where
  "cfg_type_acl_index = [''acl_id'']"

definition cfg_type_acl_entry :: "cfg_node_type" where
  "cfg_type_acl_entry =
     CfgType 0 ''Entry'' (CFG_TYPE_FLAG_UPDATE OR CFG_TYPE_FLAG_MULTIPLE OR 16) []
       (Some cfg_type_acl_entry_ops) (Some cfg_type_acl_index)"

definition cfg_type_acl_common_ops :: cfg_node_ops where
  "cfg_type_acl_common_ops = no_ops \<lparr>
     op_get := Some (Handler ''cfg_type_acl_func_get''), op_set := Some DefaultFunc,
     op_query := Some DefaultFunc, op_commit := Some (Handler ''cfg_type_acl_commit'')\<rparr>"

definition cfg_type_acl_common :: "cfg_node_type" where
  "cfg_type_acl_common =
     CfgType 0 ''Common'' (CFG_TYPE_FLAG_UPDATE OR 1) []
       (Some cfg_type_acl_common_ops) None"

definition cfg_type_acl_ops :: cfg_node_ops where
  "cfg_type_acl_ops = no_ops \<lparr>
     op_set := Some DefaultFunc, op_get := Some (Handler ''cfg_type_acl_func_get''),
     op_query := Some DefaultFunc, op_commit := Some (Handler ''cfg_type_acl_commit'')\<rparr>"

definition cfg_type_acl_child :: "cfg_node_type list" where
  "cfg_type_acl_child =
    [
      cfg_type_acl_entry, cfg_type_acl_common]"

definition cfg_type_acl :: "cfg_node_type" where
  "cfg_type_acl =
     CfgType 0 ''ACL'' (CFG_TYPE_FLAG_UPDATE OR 1) cfg_type_acl_child
       (Some cfg_type_acl_ops) None"

section \<open>IpMacFilter\<close>

definition cfg_type_ipmacfilter_entry_ops :: cfg_node_ops where
  "cfg_type_ipmacfilter_entry_ops = no_ops \<lparr>
     op_get := Some (Handler ''cfg_type_ipmacfilter_entry_func_get''),
     op_set := Some DefaultFunc, op_create := Some DefaultFunc,
     op_delete := Some (Handler ''cfg_type_ipmacfilter_entry_func_delete''),
     op_query := Some DefaultFunc,
     op_commit := Some (Handler ''cfg_type_ipmacfilter_entry_commit'')\<rparr>"

definition cfg_type_ipmacfilter_index :: "string list" where
  "cfg_type_ipmacfilter_index = [''ipfilter_id'']"

definition cfg_type_ipmacfilter_entry :: "cfg_node_type" where
  "cfg_type_ipmacfilter_entry =
     CfgType 0 ''Entry'' (CFG_TYPE_FLAG_UPDATE OR CFG_TYPE_FLAG_MULTIPLE OR 240) []
       (Some cfg_type_ipmacfilter_entry_ops) (Some cfg_type_ipmacfilter_index)"

definition cfg_type_ipmacfilter_common_ops :: cfg_node_ops where
  "cfg_type_ipmacfilter_common_ops = no_ops \<lparr>
     op_get := Some (Handler ''cfg_type_ipmacfilter_common_func_get''),
     op_set := Some DefaultFunc, op_query := Some DefaultFunc,
     op_commit := Some (Handler ''cfg_type_ipmacfilter_entry_commit'')\<rparr>"

definition cfg_type_ipmacfilter_common :: "cfg_node_type" where
  "cfg_type_ipmacfilter_common =
     CfgType 0 ''Common'' (CFG_TYPE_FLAG_UPDATE OR 1) []
       (Some cfg_type_ipmacfilter_common_ops) None"

definition cfg_type_ipmacfilter_EtherTypeFilter_ops :: cfg_node_ops where
  "cfg_type_ipmacfilter_EtherTypeFilter_ops = no_ops \<lparr>
     op_get := Some DefaultFunc, op_set := Some DefaultFunc, op_query := Some DefaultFunc,
     op_commit := Some (Handler ''cfg_type_ipmacfilter_EtherTypeFilter_commit'')\<rparr>"

definition cfg_type_ipmacfilter_EtherTypeFilter :: "cfg_node_type" where
  "cfg_type_ipmacfilter_EtherTypeFilter =
     CfgType 0 ''EtherTypeFilter'' 1 []
       (Some cfg_type_ipmacfilter_EtherTypeFilter_ops) None"

definition cfg_type_ipmacfilter_ops :: cfg_node_ops where
  "cfg_type_ipmacfilter_ops = no_ops \<lparr>
     op_set := Some DefaultFunc,
     op_get := Some (Handler ''cfg_type_ipmacfilter_entry_func_get''),
     op_query := Some DefaultFunc,
     op_commit := Some (Handler ''cfg_type_ipmacfilter_entry_commit'')\<rparr>"

definition cfg_type_ipmacfilter_child :: "cfg_node_type list" where
  "cfg_type_ipmacfilter_child =
    [
      cfg_type_ipmacfilter_entry, cfg_type_ipmacfilter_common,
      cfg_type_ipmacfilter_EtherTypeFilter]"

definition cfg_type_ipmacfilter :: "cfg_node_type" where
  "cfg_type_ipmacfilter =
     CfgType 0 ''IpMacFilter'' (CFG_TYPE_FLAG_UPDATE OR 1) cfg_type_ipmacfilter_child
       (Some cfg_type_ipmacfilter_ops) None"

section \<open>AppFilter\<close>

definition cfg_type_appfilter_entry_ops :: cfg_node_ops where
  "cfg_type_appfilter_entry_ops = no_ops \<lparr>
     op_get := Some DefaultFunc, op_set := Some DefaultFunc, op_query := Some DefaultFunc,
     op_commit := Some (Handler ''cfg_type_appfilter_entry_commit'')\<rparr>"

definition cfg_type_appfilter_entry :: "cfg_node_type" where
  "cfg_type_appfilter_entry =
     CfgType 0 ''Entry'' (CFG_TYPE_FLAG_MEMORY OR 1) []
       (Some cfg_type_appfilter_entry_ops) None"

definition cfg_type_appfilter_ops :: cfg_node_ops where
  "cfg_type_appfilter_ops = no_ops \<lparr>
     op_set := Some DefaultFunc, op_get := Some DefaultFunc, op_query := Some DefaultFunc,
     op_commit := Some (Handler ''cfg_type_appfilter_entry_commit'')\<rparr>"

definition cfg_type_appfilter_child :: "cfg_node_type list" where
  "cfg_type_appfilter_child =
    [
      cfg_type_appfilter_entry]"

definition cfg_type_appfilter :: "cfg_node_type" where
  "cfg_type_appfilter =
     CfgType 0 ''AppFilter'' (CFG_TYPE_FLAG_MEMORY OR 1) cfg_type_appfilter_child
       (Some cfg_type_appfilter_ops) None"

section \<open>UrlFilter\<close>

definition cfg_type_urlfilter_entry_ops :: cfg_node_ops where
  "cfg_type_urlfilter_entry_ops = no_ops \<lparr>
     op_get := Some (Handler ''cfg_type_urlfilter_entry_func_get''),
     op_set := Some DefaultFunc, op_create := Some DefaultFunc,
     op_delete := Some DefaultFunc, op_query := Some DefaultFunc,
     op_commit := Some (Handler ''cfg_type_urlfilter_entry_commit'')\<rparr>"

definition cfg_type_urlfilter_index :: "string list" where
  "cfg_type_urlfilter_index = [''url_filter_id'']"

definition cfg_type_urlfilter_entry :: "cfg_node_type" where
  "cfg_type_urlfilter_entry =
     CfgType 0 ''Entry'' (CFG_TYPE_FLAG_UPDATE OR CFG_TYPE_FLAG_MULTIPLE OR 100) []
       (Some cfg_type_urlfilter_entry_ops) (Some cfg_type_urlfilter_index)"

definition cfg_type_urlfilter_common_ops :: cfg_node_ops where
  "cfg_type_urlfilter_common_ops = no_ops \<lparr>
     op_get := Some (Handler ''cfg_type_urlfilter_common_func_get''),
     op_set := Some DefaultFunc, op_query := Some DefaultFunc,
     op_commit := Some (Handler ''cfg_type_urlfilter_entry_commit'')\<rparr>"

definition cfg_type_urlfilter_common :: "cfg_node_type" where
  "cfg_type_urlfilter_common =
     CfgType 0 ''Common'' (CFG_TYPE_FLAG_UPDATE OR 1) []
       (Some cfg_type_urlfilter_common_ops) None"

definition cfg_type_urlfilter_ops :: cfg_node_ops where
  "cfg_type_urlfilter_ops = no_ops \<lparr>
     op_set := Some DefaultFunc,
     op_get := Some (Handler ''cfg_type_urlfilter_entry_func_get''),
     op_query := Some DefaultFunc,
     op_commit := Some (Handler ''cfg_type_urlfilter_entry_commit'')\<rparr>"

definition cfg_type_urlfilter_child :: "cfg_node_type list" where
  "cfg_type_urlfilter_child =
    [
      cfg_type_urlfilter_entry, cfg_type_urlfilter_common]"

definition cfg_type_urlfilter :: "cfg_node_type" where
  "cfg_type_urlfilter =
     CfgType 0 ''UrlFilter'' (CFG_TYPE_FLAG_UPDATE OR 1) cfg_type_urlfilter_child
       (Some cfg_type_urlfilter_ops) None"

section \<open>AutoPVC\<close>

definition cfg_type_autopvc_entry_ops :: cfg_node_ops where
  "cfg_type_autopvc_entry_ops = no_ops \<lparr>
     op_get := Some DefaultFunc, op_set := Some DefaultFunc, op_create := Some DefaultFunc,
     op_delete := Some DefaultFunc, op_query := Some DefaultFunc,
     op_commit := Some DefaultFunc\<rparr>"

definition cfg_type_autopvc_index :: "string list" where
  "cfg_type_autopvc_index = [''autopvc_id'']"

definition cfg_type_autopvc_entry :: "cfg_node_type" where
  "cfg_type_autopvc_entry =
     CfgType 0 ''Entry'' (CFG_TYPE_FLAG_MULTIPLE OR 16) []
       (Some cfg_type_autopvc_entry_ops) (Some cfg_type_autopvc_index)"

definition cfg_type_autopvc_common_ops :: cfg_node_ops where
  "cfg_type_autopvc_common_ops = no_ops \<lparr>
     op_get := Some DefaultFunc, op_set := Some DefaultFunc, op_query := Some DefaultFunc,
     op_commit := Some DefaultFunc\<rparr>"

definition cfg_type_autopvc_common :: "cfg_node_type" where
  "cfg_type_autopvc_common =
     CfgType 0 ''Common'' 1 []
       (Some cfg_type_autopvc_common_ops) None"

definition cfg_type_autopvc_ops :: cfg_node_ops where
  "cfg_type_autopvc_ops = no_ops \<lparr>
     op_set := Some DefaultFunc, op_get := Some DefaultFunc, op_query := Some DefaultFunc,
     op_commit := Some DefaultFunc\<rparr>"

definition cfg_type_autopvc_child :: "cfg_node_type list" where
  "cfg_type_autopvc_child =
    [
      cfg_type_autopvc_entry, cfg_type_autopvc_common]"

definition cfg_type_autopvc :: "cfg_node_type" where
  "cfg_type_autopvc =
     CfgType 0 ''AutoPVC'' 1 cfg_type_autopvc_child
       (Some cfg_type_autopvc_ops) None"

section \<open>SslCA\<close>

definition cfg_type_sslca_entry_ops :: cfg_node_ops where
  "cfg_type_sslca_entry_ops = no_ops \<lparr>
     op_get := Some DefaultFunc, op_set := Some DefaultFunc, op_create := Some DefaultFunc,
     op_delete := Some DefaultFunc, op_query := Some DefaultFunc,
     op_commit := Some (Handler ''cfg_type_sslca_func_commit'')\<rparr>"

definition cfg_type_sslca_index :: "string list" where
  "cfg_type_sslca_index = [''sslca_id'']"

definition cfg_type_sslca_entry :: "cfg_node_type" where
  "cfg_type_sslca_entry =
     CfgType 0 ''Entry'' (CFG_TYPE_FLAG_MULTIPLE OR 4) []
       (Some cfg_type_sslca_entry_ops) (Some cfg_type_sslca_index)"

definition cfg_type_sslca_common_ops :: cfg_node_ops where
  "cfg_type_sslca_common_ops = no_ops \<lparr>
     op_get := Some DefaultFunc, op_set := Some DefaultFunc, op_query := Some DefaultFunc,
     op_commit := Some (Handler ''cfg_type_sslca_func_commit'')\<rparr>"

definition cfg_type_sslca_common :: "cfg_node_type" where
  "cfg_type_sslca_common =
     CfgType 0 ''Common'' 1 []
       (Some cfg_type_sslca_common_ops) None"

definition cfg_type_sslca_flag_ops :: cfg_node_ops where
  "cfg_type_sslca_flag_ops = no_ops \<lparr>
     op_get := Some DefaultFunc, op_set := Some DefaultFunc, op_query := Some DefaultFunc,
     op_commit := Some (Handler ''cfg_type_sslca_func_commit'')\<rparr>"

definition cfg_type_sslca_flag :: "cfg_node_type" where
  "cfg_type_sslca_flag =
     CfgType 0 ''Flag'' 1 []
       (Some cfg_type_sslca_flag_ops) None"

definition cfg_type_sslca_ops :: cfg_node_ops where
  "cfg_type_sslca_ops = no_ops \<lparr>
     op_set := Some DefaultFunc, op_get := Some DefaultFunc, op_query := Some DefaultFunc,
     op_commit := Some (Handler ''cfg_type_sslca_func_commit'')\<rparr>"

definition cfg_type_sslca_child :: "cfg_node_type list" where
  "cfg_type_sslca_child =
    [
      cfg_type_sslca_entry, cfg_type_sslca_common, cfg_type_sslca_flag]"

definition cfg_type_sslca :: "cfg_node_type" where
  "cfg_type_sslca =
     CfgType 0 ''SslCA'' 1 cfg_type_sslca_child
       (Some cfg_type_sslca_ops) None"

section \<open>DMS\<close>

definition cfg_type_dms_entry_ops :: cfg_node_ops where
  "cfg_type_dms_entry_ops = no_ops \<lparr>
     op_get := Some DefaultFunc, op_set := Some DefaultFunc, op_query := Some DefaultFunc,
     op_commit := Some (Handler ''cfg_type_dms_func_commit'')\<rparr>"

definition cfg_type_dms_entry :: "cfg_node_type" where
  "cfg_type_dms_entry =
     CfgType 0 ''Entry'' 1 []
       (Some cfg_type_dms_entry_ops) None"

definition cfg_type_dms_basic_ops :: cfg_node_ops where
  "cfg_type_dms_basic_ops = no_ops \<lparr>
     op_get := Some DefaultFunc, op_set := Some DefaultFunc, op_query := Some DefaultFunc,
     op_commit := Some (Handler ''cfg_type_dms_func_commit'')\<rparr>"

definition cfg_type_dms_basic :: "cfg_node_type" where
  "cfg_type_dms_basic =
     CfgType 0 ''Basic'' 1 []
       (Some cfg_type_dms_basic_ops) None"

definition cfg_type_dms_device_ops :: cfg_node_ops where
  "cfg_type_dms_device_ops = no_ops \<lparr>
     op_get := Some DefaultFunc, op_set := Some DefaultFunc, op_query := Some DefaultFunc,
     op_commit := Some (Handler ''cfg_type_dms_func_commit'')\<rparr>"

definition cfg_type_dms_device :: "cfg_node_type" where
  "cfg_type_dms_device =
     CfgType 0 ''Device'' 1 []
       (Some cfg_type_dms_device_ops) None"

definition cfg_type_dms_ops :: cfg_node_ops where
  "cfg_type_dms_ops = no_ops \<lparr>
     op_set := Some DefaultFunc, op_get := Some DefaultFunc, op_query := Some DefaultFunc,
     op_commit := Some (Handler ''cfg_type_dms_func_commit'')\<rparr>"

definition cfg_type_dms_child :: "cfg_node_type list" where
  "cfg_type_dms_child =
    [
      cfg_type_dms_entry, cfg_type_dms_basic, cfg_type_dms_device]"

definition cfg_type_dms :: "cfg_node_type" where
  "cfg_type_dms =
     CfgType 0 ''DMS'' 1 cfg_type_dms_child
       (Some cfg_type_dms_ops) None"

section \<open>IGMPproxy\<close>

definition cfg_type_igmpproxy_entry_ops :: cfg_node_ops where
  "cfg_type_igmpproxy_entry_ops = no_ops \<lparr>
     op_get := Some DefaultFunc, op_set := Some DefaultFunc, op_query := Some DefaultFunc,
     op_commit := Some (Handler ''cfg_type_igmpproxy_entry_func_commit'')\<rparr>"

definition cfg_type_igmpproxy_entry :: "cfg_node_type" where
  "cfg_type_igmpproxy_entry =
     CfgType 0 ''Entry'' 1 []
       (Some cfg_type_igmpproxy_entry_ops) None"

definition cfg_type_igmpproxy_ops :: cfg_node_ops where
  "cfg_type_igmpproxy_ops = no_ops \<lparr>
     op_set := Some DefaultFunc, op_get := Some DefaultFunc, op_query := Some DefaultFunc,
     op_commit := Some (Handler ''cfg_type_igmpproxy_entry_func_commit'')\<rparr>"

definition cfg_type_igmpproxy_child :: "cfg_node_type list" where
  "cfg_type_igmpproxy_child =
    [
      cfg_type_igmpproxy_entry]"

definition cfg_type_igmpproxy :: "cfg_node_type" where
  "cfg_type_igmpproxy =
     CfgType 0 ''IGMPproxy'' 1 cfg_type_igmpproxy_child
       (Some cfg_type_igmpproxy_ops) None"

section \<open>MLDproxy\<close>

definition cfg_type_mldproxy_entry_ops :: cfg_node_ops where
  "cfg_type_mldproxy_entry_ops = no_ops \<lparr>
     op_get := Some DefaultFunc, op_set := Some DefaultFunc, op_query := Some DefaultFunc,
     op_commit := Some (Handler ''cfg_type_mldproxy_entry_func_commit'')\<rparr>"

definition cfg_type_mldproxy_entry :: "cfg_node_type" where
  "cfg_type_mldproxy_entry =
     CfgType 0 ''Entry'' 1 []
       (Some cfg_type_mldproxy_entry_ops) None"

definition cfg_type_mldproxy_ops :: cfg_node_ops where
  "cfg_type_mldproxy_ops = no_ops \<lparr>
     op_set := Some DefaultFunc, op_get := Some DefaultFunc, op_query := Some DefaultFunc,
     op_commit := Some (Handler ''cfg_type_mldproxy_entry_func_commit'')\<rparr>"

definition cfg_type_mldproxy_child :: "cfg_node_type list" where
  "cfg_type_mldproxy_child =
    [
      cfg_type_mldproxy_entry]"

definition cfg_type_mldproxy :: "cfg_node_type" where
  "cfg_type_mldproxy =
     CfgType 0 ''MLDproxy'' 1 cfg_type_mldproxy_child
       (Some cfg_type_mldproxy_ops) None"

section \<open>SysLog\<close>

definition cfg_type_syslog_entry_ops :: cfg_node_ops where
  "cfg_type_syslog_entry_ops = no_ops \<lparr>
     op_get := Some DefaultFunc, op_set := Some DefaultFunc, op_query := Some DefaultFunc,
     op_commit := Some (Handler ''cfg_type_syslog_func_commit'')\<rparr>"

definition cfg_type_syslog_entry :: "cfg_node_type" where
  "cfg_type_syslog_entry =
     CfgType 0 ''Entry'' 1 []
       (Some cfg_type_syslog_entry_ops) None"

definition cfg_type_syslog_ops :: cfg_node_ops where
  "cfg_type_syslog_ops = no_ops \<lparr>
     op_set := Some DefaultFunc, op_get := Some DefaultFunc, op_query := Some DefaultFunc,
     op_commit := Some (Handler ''cfg_type_syslog_func_commit'')\<rparr>"

definition cfg_type_syslog_child :: "cfg_node_type list" where
  "cfg_type_syslog_child =
    [
      cfg_type_syslog_entry]"

definition cfg_type_syslog :: "cfg_node_type" where
  "cfg_type_syslog =
     CfgType 0 ''SysLog'' 1 cfg_type_syslog_child
       (Some cfg_type_syslog_ops) None"

section \<open>Accesslimit\<close>

definition cfg_type_accesslimit_entry_ops :: cfg_node_ops where
  "cfg_type_accesslimit_entry_ops = no_ops \<lparr>
     op_get := Some DefaultFunc, op_set := Some DefaultFunc, op_create := Some DefaultFunc,
     op_delete := Some DefaultFunc, op_query := Some DefaultFunc,
     op_commit := Some (Handler ''cfg_type_accesslimit_func_commit'')\<rparr>"

definition cfg_type_accesslimit_index :: "string list" where
  "cfg_type_accesslimit_index = [''accesslimit_id'']"

definition cfg_type_accesslimit_entry :: "cfg_node_type" where
  "cfg_type_accesslimit_entry =
     CfgType 0 ''Entry'' (CFG_TYPE_FLAG_MULTIPLE OR 4) []
       (Some cfg_type_accesslimit_entry_ops) (Some cfg_type_accesslimit_index)"

definition cfg_type_accesslimit_common_ops :: cfg_node_ops where
  "cfg_type_accesslimit_common_ops = no_ops \<lparr>
     op_get := Some DefaultFunc, op_set := Some DefaultFunc, op_query := Some DefaultFunc,
     op_commit := Some (Handler ''cfg_type_accesslimit_func_commit'')\<rparr>"

definition cfg_type_accesslimit_common :: "cfg_node_type" where
  "cfg_type_accesslimit_common =
     CfgType 0 ''Common'' 1 []
       (Some cfg_type_accesslimit_common_ops) None"

definition cfg_type_accesslimit_ops :: cfg_node_ops where
  "cfg_type_accesslimit_ops = no_ops \<lparr>
     op_set := Some DefaultFunc, op_get := Some DefaultFunc, op_query := Some DefaultFunc,
     op_commit := Some (Handler ''cfg_type_accesslimit_func_commit'')\<rparr>"

definition cfg_type_accesslimit_child :: "cfg_node_type list" where
  "cfg_type_accesslimit_child =
    [
      cfg_type_accesslimit_entry, cfg_type_accesslimit_common]"

definition cfg_type_accesslimit :: "cfg_node_type" where
  "cfg_type_accesslimit =
     CfgType 0 ''Accesslimit'' 1 cfg_type_accesslimit_child
       (Some cfg_type_accesslimit_ops) None"

section \<open>CtDiagnostic\<close>

definition cfg_type_ctdiagnostic_entry_ops :: cfg_node_ops where
  "cfg_type_ctdiagnostic_entry_ops = no_ops \<lparr>
     op_get := Some DefaultFunc, op_set := Some DefaultFunc, op_create := Some DefaultFunc,
     op_delete := Some DefaultFunc, op_query := Some DefaultFunc,
     op_commit := Some (Handler ''cfg_type_ctdiagnostic_func_commit'')\<rparr>"

definition cfg_type_ctdiagnostic_index :: "string list" where
  "cfg_type_ctdiagnostic_index = [''ippdiag_id'']"

definition cfg_type_ctdiagnostic_entry :: "cfg_node_type" where
  "cfg_type_ctdiagnostic_entry =
     CfgType 0 ''Entry'' (CFG_TYPE_FLAG_MULTIPLE OR 3) []
       (Some cfg_type_ctdiagnostic_entry_ops) (Some cfg_type_ctdiagnostic_index)"

definition cfg_type_ctdiagnostic_common_ops :: cfg_node_ops where
  "cfg_type_ctdiagnostic_common_ops = no_ops \<lparr>
     op_get := Some DefaultFunc, op_set := Some DefaultFunc, op_query := Some DefaultFunc,
     op_commit := Some (Handler ''cfg_type_ctdiagnostic_func_commit'')\<rparr>"

definition cfg_type_ctdiagnostic_common :: "cfg_node_type" where
  "cfg_type_ctdiagnostic_common =
     CfgType 0 ''Common'' 1 []
       (Some cfg_type_ctdiagnostic_common_ops) None"

definition cfg_type_ctdiagnostic_ops :: cfg_node_ops where
  "cfg_type_ctdiagnostic_ops = no_ops \<lparr>
     op_set := Some DefaultFunc, op_get := Some DefaultFunc, op_query := Some DefaultFunc,
     op_commit := Some (Handler ''cfg_type_ctdiagnostic_func_commit'')\<rparr>"

definition cfg_type_ctdiagnostic_child :: "cfg_node_type list" where
  "cfg_type_ctdiagnostic_child =
    [
      cfg_type_ctdiagnostic_entry, cfg_type_ctdiagnostic_common]"

definition cfg_type_ctdiagnostic :: "cfg_node_type" where
  "cfg_type_ctdiagnostic =
     CfgType 0 ''CtDiagnostic'' 1 cfg_type_ctdiagnostic_child
       (Some cfg_type_ctdiagnostic_ops) None"

section \<open>DeviceAlarm\<close>

definition cfg_type_devicealarm_entry_ops :: cfg_node_ops where
  "cfg_type_devicealarm_entry_ops = no_ops \<lparr>
     op_get := Some DefaultFunc, op_set := Some DefaultFunc, op_create := Some DefaultFunc,
     op_delete := Some DefaultFunc, op_query := Some DefaultFunc,
     op_commit := Some (Handler ''cfg_type_devalarm_func_commit'')\<rparr>"

definition cfg_type_devicealarm_index :: "string list" where
  "cfg_type_devicealarm_index = [''alarm_id'']"

definition cfg_type_devicealarm_entry :: "cfg_node_type" where
  "cfg_type_devicealarm_entry =
     CfgType 0 ''Entry'' (CFG_TYPE_FLAG_MULTIPLE OR 10) []
       (Some cfg_type_devicealarm_entry_ops) (Some cfg_type_devicealarm_index)"

definition cfg_type_devicealarm_common_ops :: cfg_node_ops where
  "cfg_type_devicealarm_common_ops = no_ops \<lparr>
     op_get := Some DefaultFunc, op_set := Some DefaultFunc, op_query := Some DefaultFunc,
     op_commit := Some (Handler ''cfg_type_devalarm_func_commit'')\<rparr>"

definition cfg_type_devicealarm_common :: "cfg_node_type" where
  "cfg_type_devicealarm_common =
     CfgType 0 ''Common'' 1 []
       (Some cfg_type_devicealarm_common_ops) None"

definition cfg_type_devicealarm_ops :: cfg_node_ops where
  "cfg_type_devicealarm_ops = no_ops \<lparr>
     op_set := Some DefaultFunc, op_get := Some DefaultFunc, op_query := Some DefaultFunc,
     op_commit := Some (Handler ''cfg_type_devalarm_func_commit'')\<rparr>"

definition cfg_type_devicealarm_child :: "cfg_node_type list" where
  "cfg_type_devicealarm_child =
    [
      cfg_type_devicealarm_entry, cfg_type_devicealarm_common]"

definition cfg_type_devicealarm :: "cfg_node_type" where
  "cfg_type_devicealarm =
     CfgType 0 ''DeviceAlarm'' 1 cfg_type_devicealarm_child
       (Some cfg_type_devicealarm_ops) None"

section \<open>DeviceMonitor\<close>

definition cfg_type_devicemonitor_entry_ops :: cfg_node_ops where
  "cfg_type_devicemonitor_entry_ops = no_ops \<lparr>
     op_get := Some DefaultFunc, op_set := Some DefaultFunc, op_create := Some DefaultFunc,
     op_delete := Some DefaultFunc, op_query := Some DefaultFunc,
     op_commit := Some (Handler ''cfg_type_devmonitor_func_commit'')\<rparr>"

definition cfg_type_devicemonitor_index :: "string list" where
  "cfg_type_devicemonitor_index = [''monitor_id'']"

definition cfg_type_devicemonitor_entry :: "cfg_node_type" where
  "cfg_type_devicemonitor_entry =
     CfgType 0 ''Entry'' (CFG_TYPE_FLAG_MULTIPLE OR 10) []
       (Some cfg_type_devicemonitor_entry_ops) (Some cfg_type_devicemonitor_index)"

definition cfg_type_devicemonitor_common_ops :: cfg_node_ops where
  "cfg_type_devicemonitor_common_ops = no_ops \<lparr>
     op_get := Some DefaultFunc, op_set := Some DefaultFunc, op_query := Some DefaultFunc,
     op_commit := Some (Handler ''cfg_type_devmonitor_func_commit'')\<rparr>"

definition cfg_type_devicemonitor_common :: "cfg_node_type" where
  "cfg_type_devicemonitor_common =
     CfgType 0 ''Common'' 1 []
       (Some cfg_type_devicemonitor_common_ops) None"

definition cfg_type_devicemonitor_ops :: cfg_node_ops where
  "cfg_type_devicemonitor_ops = no_ops \<lparr>
     op_set := Some DefaultFunc, op_get := Some DefaultFunc, op_query := Some DefaultFunc,
     op_commit := Some (Handler ''cfg_type_devmonitor_func_commit'')\<rparr>"

definition cfg_type_devicemonitor_child :: "cfg_node_type list" where
  "cfg_type_devicemonitor_child =
    [
      cfg_type_devicemonitor_entry, cfg_type_devicemonitor_common]"

definition cfg_type_devicemonitor :: "cfg_node_type" where
  "cfg_type_devicemonitor =
     CfgType 0 ''DeviceMonitor'' 1 cfg_type_devicemonitor_child
       (Some cfg_type_devicemonitor_ops) None"

section \<open>appFTP\<close>

definition cfg_type_appftp_entry_ops :: cfg_node_ops where
  "cfg_type_appftp_entry_ops = no_ops \<lparr>
     op_get := Some DefaultFunc, op_set := Some DefaultFunc, op_create := Some DefaultFunc,
     op_delete := Some DefaultFunc, op_query := Some DefaultFunc,
     op_commit := Some (Handler ''cfg_type_appftp_func_commit'')\<rparr>"

definition cfg_type_appftp_index :: "string list" where
  "cfg_type_appftp_index = []"

definition cfg_type_appftp_entry :: "cfg_node_type" where
  "cfg_type_appftp_entry =
     CfgType 0 ''Entry'' (CFG_TYPE_FLAG_MULTIPLE OR 10) []
       (Some cfg_type_appftp_entry_ops) (Some cfg_type_appftp_index)"

definition cfg_type_appftp_downloading_ops :: cfg_node_ops where
  "cfg_type_appftp_downloading_ops = no_ops \<lparr>
     op_get := Some DefaultFunc, op_set := Some DefaultFunc, op_query := Some DefaultFunc,
     op_commit := Some (Handler ''cfg_type_appftp_func_commit'')\<rparr>"

definition cfg_type_appftp_downloading :: "cfg_node_type" where
  "cfg_type_appftp_downloading =
     CfgType 0 ''Downloading'' 1 []
       (Some cfg_type_appftp_downloading_ops) None"

definition cfg_type_appftp_ops :: cfg_node_ops where
  "cfg_type_appftp_ops = no_ops \<lparr>
     op_set := Some DefaultFunc, op_get := Some DefaultFunc, op_query := Some DefaultFunc,
     op_commit := Some (Handler ''cfg_type_appftp_func_commit'')\<rparr>"

definition cfg_type_appftp_child :: "cfg_node_type list" where
  "cfg_type_appftp_child =
    [
      cfg_type_appftp_entry, cfg_type_appftp_downloading]"

definition cfg_type_appftp :: "cfg_node_type" where
  "cfg_type_appftp =
     CfgType 0 ''appFTP'' 1 cfg_type_appftp_child
       (Some cfg_type_appftp_ops) None"

section \<open>usbRestore\<close>

definition cfg_type_usbrestore_entry_ops :: cfg_node_ops where
  "cfg_type_usbrestore_entry_ops = no_ops \<lparr>
     op_get := Some DefaultFunc, op_set := Some DefaultFunc, op_query := Some DefaultFunc,
     op_commit := Some (Handler ''cfg_type_usbrestore_func_commit'')\<rparr>"

definition cfg_type_usbrestore_entry :: "cfg_node_type" where
  "cfg_type_usbrestore_entry =
     CfgType 0 ''Entry'' 1 []
       (Some cfg_type_usbrestore_entry_ops) None"

definition cfg_type_usbrestore_ops :: cfg_node_ops where
  "cfg_type_usbrestore_ops = no_ops \<lparr>
     op_set := Some DefaultFunc, op_get := Some DefaultFunc, op_query := Some DefaultFunc,
     op_commit := Some (Handler ''cfg_type_usbrestore_func_commit'')\<rparr>"

definition cfg_type_usbrestore_child :: "cfg_node_type list" where
  "cfg_type_usbrestore_child =
    [
      cfg_type_usbrestore_entry]"

definition cfg_type_usbrestore :: "cfg_node_type" where
  "cfg_type_usbrestore =
     CfgType 0 ''usbRestore'' 1 cfg_type_usbrestore_child
       (Some cfg_type_usbrestore_ops) None"

section \<open>mobile\<close>

definition cfg_type_mobile_entry_ops :: cfg_node_ops where
  "cfg_type_mobile_entry_ops = no_ops \<lparr>
     op_get := Some DefaultFunc, op_set := Some DefaultFunc, op_query := Some DefaultFunc,
     op_commit := Some (Handler ''cfg_type_mobile_entry_func_commit'')\<rparr>"

definition cfg_type_mobile_entry :: "cfg_node_type" where
  "cfg_type_mobile_entry =
     CfgType 0 ''Entry'' 1 []
       (Some cfg_type_mobile_entry_ops) None"

definition cfg_type_mobile_dnsredirect_ops :: cfg_node_ops where
  "cfg_type_mobile_dnsredirect_ops = no_ops \<lparr>
     op_get := Some DefaultFunc, op_set := Some DefaultFunc, op_query := Some DefaultFunc,
     op_commit := Some DefaultFunc\<rparr>"

definition cfg_type_mobile_dnsredirect :: "cfg_node_type" where
  "cfg_type_mobile_dnsredirect =
     CfgType 0 ''DnsRedirect'' 1 []
       (Some cfg_type_mobile_dnsredirect_ops) None"

definition cfg_type_mobile_sleep_ops :: cfg_node_ops where
  "cfg_type_mobile_sleep_ops = no_ops \<lparr>
     op_get := Some DefaultFunc, op_set := Some DefaultFunc, op_query := Some DefaultFunc,
     op_commit := Some DefaultFunc\<rparr>"

definition cfg_type_mobile_sleep :: "cfg_node_type" where
  "cfg_type_mobile_sleep =
     CfgType 0 ''Sleep'' 1 []
       (Some cfg_type_mobile_sleep_ops) None"

definition cfg_type_mobile_wifiex_ops :: cfg_node_ops where
  "cfg_type_mobile_wifiex_ops = no_ops \<lparr>
     op_get := Some DefaultFunc, op_set := Some DefaultFunc, op_query := Some DefaultFunc,
     op_commit := Some (Handler ''cfg_type_mobile_wifiex_func_commit'')\<rparr>"

definition cfg_type_mobile_wifiex :: "cfg_node_type" where
  "cfg_type_mobile_wifiex =
     CfgType 0 ''WifiEx'' 1 []
       (Some cfg_type_mobile_wifiex_ops) None"

definition cfg_type_mobile_osright_ops :: cfg_node_ops where
  "cfg_type_mobile_osright_ops = no_ops \<lparr>
     op_get := Some DefaultFunc, op_set := Some DefaultFunc, op_query := Some DefaultFunc,
     op_commit := Some DefaultFunc\<rparr>"

definition cfg_type_mobile_osright :: "cfg_node_type" where
  "cfg_type_mobile_osright =
     CfgType 0 ''OSRight'' 1 []
       (Some cfg_type_mobile_osright_ops) None"

definition cfg_type_mobile_pluginmonitor_ops :: cfg_node_ops where
  "cfg_type_mobile_pluginmonitor_ops = no_ops \<lparr>
     op_get := Some DefaultFunc, op_set := Some DefaultFunc, op_query := Some DefaultFunc,
     op_commit := Some DefaultFunc\<rparr>"

definition cfg_type_mobile_pluginmonitor :: "cfg_node_type" where
  "cfg_type_mobile_pluginmonitor =
     CfgType 0 ''PluginMonitor'' 1 []
       (Some cfg_type_mobile_pluginmonitor_ops) None"

definition cfg_type_mobile_ops :: cfg_node_ops where
  "cfg_type_mobile_ops = no_ops \<lparr>
     op_set := Some DefaultFunc, op_get := Some DefaultFunc, op_query := Some DefaultFunc,
     op_commit := Some DefaultFunc\<rparr>"

definition cfg_type_mobile_child :: "cfg_node_type list" where
  "cfg_type_mobile_child =
    [
      cfg_type_mobile_entry, cfg_type_mobile_dnsredirect, cfg_type_mobile_sleep,
      cfg_type_mobile_wifiex, cfg_type_mobile_osright, cfg_type_mobile_pluginmonitor]"

definition cfg_type_mobile :: "cfg_node_type" where
  "cfg_type_mobile =
     CfgType 0 ''mobile'' 1 cfg_type_mobile_child
       (Some cfg_type_mobile_ops) None"

section \<open>UsbMount\<close>

definition cfg_type_usbmount_entry_ops :: cfg_node_ops where
  "cfg_type_usbmount_entry_ops = no_ops \<lparr>
     op_get := Some (Handler ''cfg_type_usbmount_func_get''), op_set := Some DefaultFunc,
     op_create := Some DefaultFunc, op_delete := Some DefaultFunc,
     op_query := Some DefaultFunc, op_commit := Some DefaultFunc\<rparr>"

definition cfg_type_usbmount_index :: "string list" where
  "cfg_type_usbmount_index = []"

definition cfg_type_usbmount_entry :: "cfg_node_type" where
  "cfg_type_usbmount_entry =
     CfgType 0 ''Entry'' (CFG_TYPE_FLAG_MEMORY OR CFG_TYPE_FLAG_MULTIPLE OR 3) []
       (Some cfg_type_usbmount_entry_ops) (Some cfg_type_usbmount_index)"

definition cfg_type_usbmount_common_ops :: cfg_node_ops where
  "cfg_type_usbmount_common_ops = no_ops \<lparr>
     op_get := Some (Handler ''cfg_type_usbmount_func_get''), op_set := Some DefaultFunc,
     op_query := Some DefaultFunc, op_commit := Some DefaultFunc\<rparr>"

definition cfg_type_usbmount_common :: "cfg_node_type" where
  "cfg_type_usbmount_common =
     CfgType 0 ''Common'' (CFG_TYPE_FLAG_MEMORY OR 1) []
       (Some cfg_type_usbmount_common_ops) None"

definition cfg_type_usbmount_ops :: cfg_node_ops where
  "cfg_type_usbmount_ops = no_ops \<lparr>
     op_set := Some DefaultFunc, op_get := Some (Handler ''cfg_type_usbmount_func_get''),
     op_query := Some DefaultFunc, op_commit := Some DefaultFunc\<rparr>"

definition cfg_type_usbmount_child :: "cfg_node_type list" where
  "cfg_type_usbmount_child =
    [
      cfg_type_usbmount_entry, cfg_type_usbmount_common]"

definition cfg_type_usbmount :: "cfg_node_type" where
  "cfg_type_usbmount =
     CfgType 0 ''UsbMount'' (CFG_TYPE_FLAG_MEMORY OR 1) cfg_type_usbmount_child
       (Some cfg_type_usbmount_ops) None"

section \<open>LogicID\<close>

definition cfg_type_logicid_entry_ops :: cfg_node_ops where
  "cfg_type_logicid_entry_ops = no_ops \<lparr>
     op_get := Some DefaultFunc, op_set := Some DefaultFunc, op_query := Some DefaultFunc,
     op_commit := Some (Handler ''cfg_type_logicid_func_commit'')\<rparr>"

definition cfg_type_logicid_entry :: "cfg_node_type" where
  "cfg_type_logicid_entry =
     CfgType 0 ''Entry'' 1 []
       (Some cfg_type_logicid_entry_ops) None"

definition cfg_type_logicid_ops :: cfg_node_ops where
  "cfg_type_logicid_ops = no_ops \<lparr>
     op_set := Some DefaultFunc, op_get := Some DefaultFunc, op_query := Some DefaultFunc,
     op_commit := Some (Handler ''cfg_type_logicid_func_commit'')\<rparr>"

definition cfg_type_logicid_child :: "cfg_node_type list" where
  "cfg_type_logicid_child =
    [
      cfg_type_logicid_entry]"

definition cfg_type_logicid :: "cfg_node_type" where
  "cfg_type_logicid =
     CfgType 0 ''LogicID'' 1 cfg_type_logicid_child
       (Some cfg_type_logicid_ops) None"

section \<open>DnsSpeedLimit\<close>

definition cfg_type_dnsspeedlimit_entry_ops :: cfg_node_ops where
  "cfg_type_dnsspeedlimit_entry_ops = no_ops \<lparr>
     op_get := Some DefaultFunc, op_set := Some DefaultFunc, op_create := Some DefaultFunc,
     op_delete := Some DefaultFunc, op_query := Some DefaultFunc,
     op_commit := Some (Handler ''cfg_type_dnsspeedlimit_func_commit'')\<rparr>"

definition cfg_type_dnsspeedlimit_index :: "string list" where
  "cfg_type_dnsspeedlimit_index = []"

definition cfg_type_dnsspeedlimit_entry :: "cfg_node_type" where
  "cfg_type_dnsspeedlimit_entry =
     CfgType 0 ''Entry'' (CFG_TYPE_FLAG_MULTIPLE OR 16) []
       (Some cfg_type_dnsspeedlimit_entry_ops) (Some cfg_type_dnsspeedlimit_index)"

definition cfg_type_dnsspeedlimit_common_ops :: cfg_node_ops where
  "cfg_type_dnsspeedlimit_common_ops = no_ops \<lparr>
     op_get := Some DefaultFunc, op_set := Some DefaultFunc, op_query := Some DefaultFunc,
     op_commit := Some (Handler ''cfg_type_dnsspeedlimit_func_commit'')\<rparr>"

definition cfg_type_dnsspeedlimit_common :: "cfg_node_type" where
  "cfg_type_dnsspeedlimit_common =
     CfgType 0 ''Common'' 1 []
       (Some cfg_type_dnsspeedlimit_common_ops) None"

definition cfg_type_dnsspeedlimit_ops :: cfg_node_ops where
  "cfg_type_dnsspeedlimit_ops = no_ops \<lparr>
     op_set := Some DefaultFunc, op_get := Some DefaultFunc, op_query := Some DefaultFunc,
     op_commit := Some (Handler ''cfg_type_dnsspeedlimit_func_commit'')\<rparr>"

definition cfg_type_dnsspeedlimit_child :: "cfg_node_type list" where
  "cfg_type_dnsspeedlimit_child =
    [
      cfg_type_dnsspeedlimit_entry, cfg_type_dnsspeedlimit_common]"

definition cfg_type_dnsspeedlimit :: "cfg_node_type" where
  "cfg_type_dnsspeedlimit =
     CfgType 0 ''DnsSpeedLimit'' 1 cfg_type_dnsspeedlimit_child
       (Some cfg_type_dnsspeedlimit_ops) None"

section \<open>AttachWanDNSTunnel\<close>

definition cfg_type_attachwandnstunnel_entry_ops :: cfg_node_ops where
  "cfg_type_attachwandnstunnel_entry_ops = no_ops \<lparr>
     op_get := Some DefaultFunc, op_set := Some DefaultFunc, op_create := Some DefaultFunc,
     op_delete := Some DefaultFunc, op_query := Some DefaultFunc,
     op_commit := Some (Handler ''cfg_type_attachwandnstunnel_func_commit'')\<rparr>"

definition cfg_type_attachwandnstunnel_index :: "string list" where
  "cfg_type_attachwandnstunnel_index = []"

definition cfg_type_attachwandnstunnel_entry :: "cfg_node_type" where
  "cfg_type_attachwandnstunnel_entry =
     CfgType 0 ''Entry'' (CFG_TYPE_FLAG_MULTIPLE OR 16) []
       (Some cfg_type_attachwandnstunnel_entry_ops) (Some cfg_type_attachwandnstunnel_index)"

definition cfg_type_attachwandnstunnel_pvc_ops :: cfg_node_ops where
  "cfg_type_attachwandnstunnel_pvc_ops = no_ops \<lparr>
     op_get := Some DefaultFunc, op_set := Some DefaultFunc, op_create := Some DefaultFunc,
     op_delete := Some DefaultFunc, op_query := Some DefaultFunc,
     op_commit := Some (Handler ''cfg_type_attachwandnstunnel_func_commit'')\<rparr>"

definition cfg_type_attachwandnstunnel_pvc_child :: "cfg_node_type list" where
  "cfg_type_attachwandnstunnel_pvc_child =
    [
      cfg_type_attachwandnstunnel_entry]"

definition cfg_type_attachwandnstunnel_pvc :: "cfg_node_type" where
  "cfg_type_attachwandnstunnel_pvc =
     CfgType 0 ''PVC'' (CFG_TYPE_FLAG_MULTIPLE OR 8) cfg_type_attachwandnstunnel_pvc_child
       (Some cfg_type_attachwandnstunnel_pvc_ops) (Some cfg_type_attachwandnstunnel_index)"

definition cfg_type_attachwandnstunnel_common_ops :: cfg_node_ops where
  "cfg_type_attachwandnstunnel_common_ops = no_ops \<lparr>
     op_get := Some DefaultFunc, op_set := Some DefaultFunc, op_query := Some DefaultFunc,
     op_commit := Some (Handler ''cfg_type_attachwandnstunnel_func_commit'')\<rparr>"

definition cfg_type_attachwandnstunnel_common :: "cfg_node_type" where
  "cfg_type_attachwandnstunnel_common =
     CfgType 0 ''Common'' 1 []
       (Some cfg_type_attachwandnstunnel_common_ops) None"

definition cfg_type_attachwandnstunnel_ops :: cfg_node_ops where
  "cfg_type_attachwandnstunnel_ops = no_ops \<lparr>
     op_set := Some DefaultFunc, op_get := Some DefaultFunc, op_query := Some DefaultFunc,
     op_commit := Some (Handler ''cfg_type_attachwandnstunnel_func_commit'')\<rparr>"

definition cfg_type_attachwandnstunnel_child :: "cfg_node_type list" where
  "cfg_type_attachwandnstunnel_child =
    [
      cfg_type_attachwandnstunnel_pvc, cfg_type_attachwandnstunnel_common]"

definition cfg_type_attachwandnstunnel :: "cfg_node_type" where
  "cfg_type_attachwandnstunnel =
     CfgType 0 ''AttachWanDNSTunnel'' 1 cfg_type_attachwandnstunnel_child
       (Some cfg_type_attachwandnstunnel_ops) None"

section \<open>Plugin\<close>

definition cfg_type_plugin_entry_ops :: cfg_node_ops where
  "cfg_type_plugin_entry_ops = no_ops \<lparr>
     op_get := Some (Handler ''cfg_type_plugin_entry_func_get''),
     op_set := Some DefaultFunc, op_create := Some DefaultFunc,
     op_delete := Some DefaultFunc, op_query := Some DefaultFunc,
     op_commit := Some DefaultFunc\<rparr>"

definition cfg_type_plugin_index :: "string list" where
  "cfg_type_plugin_index = []"

definition cfg_type_plugin_entry :: "cfg_node_type" where
  "cfg_type_plugin_entry =
     CfgType 0 ''Entry'' (CFG_TYPE_FLAG_MEMORY OR CFG_TYPE_FLAG_UPDATE OR CFG_TYPE_FLAG_MULTIPLE OR 100) []
       (Some cfg_type_plugin_entry_ops) (Some cfg_type_plugin_index)"

definition cfg_type_plugin_common_ops :: cfg_node_ops where
  "cfg_type_plugin_common_ops = no_ops \<lparr>
     op_get := Some (Handler ''cfg_type_plugin_common_func_get''),
     op_set := Some DefaultFunc, op_query := Some DefaultFunc,
     op_commit := Some (Handler ''cfg_type_plugin_common_func_commit'')\<rparr>"

definition cfg_type_plugin_common :: "cfg_node_type" where
  "cfg_type_plugin_common =
     CfgType 0 ''Common'' (CFG_TYPE_FLAG_MEMORY OR CFG_TYPE_FLAG_UPDATE OR 1) []
       (Some cfg_type_plugin_common_ops) None"

definition cfg_type_plugin_ops :: cfg_node_ops where
  "cfg_type_plugin_ops = no_ops \<lparr>
     op_set := Some DefaultFunc, op_get := Some DefaultFunc, op_query := Some DefaultFunc,
     op_commit := Some DefaultFunc\<rparr>"

definition cfg_type_plugin_child :: "cfg_node_type list" where
  "cfg_type_plugin_child =
    [
      cfg_type_plugin_entry, cfg_type_plugin_common]"

definition cfg_type_plugin :: "cfg_node_type" where
  "cfg_type_plugin =
     CfgType 0 ''Plugin'' (CFG_TYPE_FLAG_MEMORY OR CFG_TYPE_FLAG_UPDATE OR 1) cfg_type_plugin_child
       (Some cfg_type_plugin_ops) None"

section \<open>Globalstate\<close>

definition cfg_type_presysstate_ops :: cfg_node_ops where
  "cfg_type_presysstate_ops = no_ops \<lparr>
     op_get := Some DefaultFunc, op_set := Some DefaultFunc, op_query := Some DefaultFunc,
     op_commit := Some DefaultFunc\<rparr>"

definition cfg_type_presysstate :: "cfg_node_type" where
  "cfg_type_presysstate =
     CfgType 0 ''presysstate'' 1 []
       (Some cfg_type_presysstate_ops) None"

definition cfg_type_recheck_ping_diagnostic_ops :: cfg_node_ops where
  "cfg_type_recheck_ping_diagnostic_ops = no_ops \<lparr>
     op_set := Some DefaultFunc, op_get := Some DefaultFunc, op_query := Some DefaultFunc,
     op_commit := Some DefaultFunc\<rparr>"

definition cfg_type_recheck_ping_diagnostic :: "cfg_node_type" where
  "cfg_type_recheck_ping_diagnostic =
     CfgType 0 ''pingdiagnostic'' 1 []
       (Some cfg_type_recheck_ping_diagnostic_ops) None"

definition cfg_type_pppoe_emu_timer_ops :: cfg_node_ops where
  "cfg_type_pppoe_emu_timer_ops = no_ops \<lparr>
     op_set := Some DefaultFunc, op_get := Some DefaultFunc, op_query := Some DefaultFunc,
     op_commit := Some DefaultFunc\<rparr>"

definition cfg_type_pppoe_emu_timer :: "cfg_node_type" where
  "cfg_type_pppoe_emu_timer =
     CfgType 0 ''pppoeemutimer'' 1 []
       (Some cfg_type_pppoe_emu_timer_ops) None"

definition cfg_type_transferservices_ops :: cfg_node_ops where
  "cfg_type_transferservices_ops = no_ops \<lparr>
     op_set := Some DefaultFunc, op_get := Some DefaultFunc, op_query := Some DefaultFunc,
     op_commit := Some DefaultFunc\<rparr>"

definition cfg_type_transferservices :: "cfg_node_type" where
  "cfg_type_transferservices =
     CfgType 0 ''transferservices'' 1 []
       (Some cfg_type_transferservices_ops) None"

definition cfg_type_globalstate_common_ops :: cfg_node_ops where
  "cfg_type_globalstate_common_ops = no_ops \<lparr>
     op_set := Some DefaultFunc, op_get := Some DefaultFunc, op_query := Some DefaultFunc,
     op_commit := Some DefaultFunc\<rparr>"

definition cfg_type_globalstate_common :: "cfg_node_type" where
  "cfg_type_globalstate_common =
     CfgType 0 ''common'' 1 []
       (Some cfg_type_globalstate_common_ops) None"

definition cfg_type_globalstate_ops :: cfg_node_ops where
  "cfg_type_globalstate_ops = no_ops \<lparr>
     op_set := Some DefaultFunc, op_get := Some DefaultFunc, op_query := Some DefaultFunc,
     op_commit := Some DefaultFunc\<rparr>"

definition cfg_type_globalstate_child :: "cfg_node_type list" where
  "cfg_type_globalstate_child =
    [
      cfg_type_presysstate, cfg_type_recheck_ping_diagnostic, cfg_type_pppoe_emu_timer,
      cfg_type_transferservices, cfg_type_globalstate_common]"

definition cfg_type_globalstate :: "cfg_node_type" where
  "cfg_type_globalstate =
     CfgType 0 ''Globalstate'' (CFG_TYPE_FLAG_MEMORY OR 1) cfg_type_globalstate_child
       (Some cfg_type_globalstate_ops) None"

section \<open>VoIPSysParam\<close>

definition cfg_type_voipsysparam_common_ops :: cfg_node_ops where
  "cfg_type_voipsysparam_common_ops = no_ops \<lparr>
     op_get := Some DefaultFunc, op_set := Some DefaultFunc, op_query := Some DefaultFunc,
     op_commit := Some (Handler ''cfg_type_voipnormal_commit'')\<rparr>"

definition cfg_type_voipsysparam_common :: "cfg_node_type" where
  "cfg_type_voipsysparam_common =
     CfgType 0 ''Common'' (CFG_TYPE_FLAG_UPDATE OR CFG_TYPE_FLAG_MEMORY) []
       (Some cfg_type_voipsysparam_common_ops) None"

definition cfg_type_voipsysparam_entry_ops :: cfg_node_ops where
  "cfg_type_voipsysparam_entry_ops = no_ops \<lparr>
     op_get := Some DefaultFunc, op_set := Some DefaultFunc, op_create := Some DefaultFunc,
     op_delete := Some DefaultFunc, op_query := Some DefaultFunc,
     op_commit := Some (Handler ''cfg_type_voipnormal_commit'')\<rparr>"

definition cfg_type_voipsysparam_entry :: "cfg_node_type" where
  "cfg_type_voipsysparam_entry =
     CfgType 0 ''Entry'' (CFG_TYPE_FLAG_MULTIPLE OR CFG_TYPE_FLAG_UPDATE OR 2 OR CFG_TYPE_FLAG_MEMORY) []
       (Some cfg_type_voipsysparam_entry_ops) None"

definition cfg_type_voipsysparam_ops :: cfg_node_ops where
  "cfg_type_voipsysparam_ops = no_ops \<lparr>
     op_get := Some DefaultFunc, op_set := Some DefaultFunc, op_query := Some DefaultFunc,
     op_commit := Some (Handler ''cfg_type_voipnormal_commit'')\<rparr>"

definition cfg_type_voipsysparam_child :: "cfg_node_type list" where
  "cfg_type_voipsysparam_child =
    [
      cfg_type_voipsysparam_common, cfg_type_voipsysparam_entry]"

definition cfg_type_voipsysparam :: "cfg_node_type" where
  "cfg_type_voipsysparam =
     CfgType 0 ''VoIPSysParam'' 1 cfg_type_voipsysparam_child
       (Some cfg_type_voipsysparam_ops) None"

section \<open>VoIPBasic\<close>

definition cfg_type_voipbasic_common_ops :: cfg_node_ops where
  "cfg_type_voipbasic_common_ops = no_ops \<lparr>
     op_get := Some DefaultFunc, op_set := Some DefaultFunc, op_query := Some DefaultFunc,
     op_commit := Some (Handler ''cfg_type_voipnormal_commit'')\<rparr>"

definition cfg_type_voipbasic_common :: "cfg_node_type" where
  "cfg_type_voipbasic_common =
     CfgType 0 ''Common'' 1 []
       (Some cfg_type_voipbasic_common_ops) None"

definition cfg_type_voipbasic_entry_ops :: cfg_node_ops where
  "cfg_type_voipbasic_entry_ops = no_ops \<lparr>
     op_get := Some DefaultFunc, op_set := Some DefaultFunc, op_create := Some DefaultFunc,
     op_delete := Some DefaultFunc, op_query := Some DefaultFunc,
     op_commit := Some (Handler ''cfg_type_voipnormal_commit'')\<rparr>"

definition cfg_type_voipbasic_entry :: "cfg_node_type" where
  "cfg_type_voipbasic_entry =
     CfgType 0 ''Entry'' (CFG_TYPE_FLAG_MULTIPLE OR 2) []
       (Some cfg_type_voipbasic_entry_ops) None"

definition cfg_type_voipbasic_ops :: cfg_node_ops where
  "cfg_type_voipbasic_ops = no_ops \<lparr>
     op_get := Some DefaultFunc, op_set := Some DefaultFunc, op_query := Some DefaultFunc,
     op_commit := Some (Handler ''cfg_type_voipnormal_commit'')\<rparr>"

definition cfg_type_voipbasic_child :: "cfg_node_type list" where
  "cfg_type_voipbasic_child =
    [
      cfg_type_voipbasic_common, cfg_type_voipbasic_entry]"

definition cfg_type_voipbasic :: "cfg_node_type" where
  "cfg_type_voipbasic =
     CfgType 0 ''VoIPBasic'' 1 cfg_type_voipbasic_child
       (Some cfg_type_voipbasic_ops) None"

section \<open>VoIPAdvanced\<close>

definition cfg_type_voipadvanced_common_ops :: cfg_node_ops where
  "cfg_type_voipadvanced_common_ops = no_ops \<lparr>
     op_get := Some DefaultFunc, op_set := Some DefaultFunc, op_query := Some DefaultFunc,
     op_commit := Some (Handler ''cfg_type_voipnormal_commit'')\<rparr>"

definition cfg_type_voipadvanced_common :: "cfg_node_type" where
  "cfg_type_voipadvanced_common =
     CfgType 0 ''Common'' 1 []
       (Some cfg_type_voipadvanced_common_ops) None"

definition cfg_type_voipadvanced_entry_ops :: cfg_node_ops where
  "cfg_type_voipadvanced_entry_ops = no_ops \<lparr>
     op_get := Some DefaultFunc, op_set := Some DefaultFunc, op_create := Some DefaultFunc,
     op_delete := Some DefaultFunc, op_query := Some DefaultFunc,
     op_commit := Some (Handler ''cfg_type_voipnormal_commit'')\<rparr>"

definition cfg_type_voipadvanced_entry :: "cfg_node_type" where
  "cfg_type_voipadvanced_entry =
     CfgType 0 ''Entry'' (CFG_TYPE_FLAG_MULTIPLE OR 2) []
       (Some cfg_type_voipadvanced_entry_ops) None"

definition cfg_type_voipadvanced_ops :: cfg_node_ops where
  "cfg_type_voipadvanced_ops = no_ops \<lparr>
     op_get := Some DefaultFunc, op_set := Some DefaultFunc, op_query := Some DefaultFunc,
     op_commit := Some (Handler ''cfg_type_voipnormal_commit'')\<rparr>"

definition cfg_type_voipadvanced_child :: "cfg_node_type list" where
  "cfg_type_voipadvanced_child =
    [
      cfg_type_voipadvanced_common, cfg_type_voipadvanced_entry]"

definition cfg_type_voipadvanced :: "cfg_node_type" where
  "cfg_type_voipadvanced =
     CfgType 0 ''VoIPAdvanced'' 1 cfg_type_voipadvanced_child
       (Some cfg_type_voipadvanced_ops) None"

section \<open>VoIPDigitMap\<close>

definition cfg_type_voipdigitmap_entry_ops :: cfg_node_ops where
  "cfg_type_voipdigitmap_entry_ops = no_ops \<lparr>
     op_get := Some DefaultFunc, op_set := Some DefaultFunc, op_create := Some DefaultFunc,
     op_delete := Some DefaultFunc, op_query := Some DefaultFunc,
     op_commit := Some (Handler ''cfg_type_voipnormal_commit'')\<rparr>"

definition cfg_type_voipdigitmap_entry :: "cfg_node_type" where
  "cfg_type_voipdigitmap_entry =
     CfgType 0 ''Entry'' 1 []
       (Some cfg_type_voipdigitmap_entry_ops) None"

definition cfg_type_voipdigitmap_ops :: cfg_node_ops where
  "cfg_type_voipdigitmap_ops = no_ops \<lparr>
     op_get := Some DefaultFunc, op_set := Some DefaultFunc, op_query := Some DefaultFunc,
     op_commit := Some (Handler ''cfg_type_voipnormal_commit'')\<rparr>"

definition cfg_type_voipdigitmap_child :: "cfg_node_type list" where
  "cfg_type_voipdigitmap_child =
    [
      cfg_type_voipdigitmap_entry]"

definition cfg_type_voipdigitmap :: "cfg_node_type" where
  "cfg_type_voipdigitmap =
     CfgType 0 ''VoIPDigitMap'' 1 cfg_type_voipdigitmap_child
       (Some cfg_type_voipdigitmap_ops) None"

section \<open>VoIPTest\<close>

definition cfg_type_voiptest_entry_ops :: cfg_node_ops where
  "cfg_type_voiptest_entry_ops = no_ops \<lparr>
     op_get := Some DefaultFunc, op_set := Some DefaultFunc, op_create := Some DefaultFunc,
     op_delete := Some DefaultFunc, op_query := Some DefaultFunc,
     op_commit := Some (Handler ''cfg_type_voiptest_commit'')\<rparr>"

definition cfg_type_voiptest_entry :: "cfg_node_type" where
  "cfg_type_voiptest_entry =
     CfgType 0 ''Entry'' (CFG_TYPE_FLAG_MULTIPLE OR 2) []
       (Some cfg_type_voiptest_entry_ops) None"

definition cfg_type_voiptest_ops :: cfg_node_ops where
  "cfg_type_voiptest_ops = no_ops \<lparr>
     op_get := Some DefaultFunc, op_set := Some DefaultFunc, op_query := Some DefaultFunc,
     op_commit := Some (Handler ''cfg_type_voiptest_commit'')\<rparr>"

definition cfg_type_voiptest_child :: "cfg_node_type list" where
  "cfg_type_voiptest_child =
    [
      cfg_type_voiptest_entry]"

definition cfg_type_voiptest :: "cfg_node_type" where
  "cfg_type_voiptest =
     CfgType 0 ''VoIPTest'' 1 cfg_type_voiptest_child
       (Some cfg_type_voiptest_ops) None"

section \<open>VoIPSimulateTest\<close>

definition cfg_type_voipsimulatetest_entry_ops :: cfg_node_ops where
  "cfg_type_voipsimulatetest_entry_ops = no_ops \<lparr>
     op_get := Some DefaultFunc, op_set := Some DefaultFunc, op_create := Some DefaultFunc,
     op_delete := Some DefaultFunc, op_query := Some DefaultFunc,
     op_commit := Some DefaultFunc\<rparr>"

definition cfg_type_voipsimulatetest_entry :: "cfg_node_type" where
  "cfg_type_voipsimulatetest_entry =
     CfgType 0 ''Entry'' (CFG_TYPE_FLAG_MULTIPLE OR 2) []
       (Some cfg_type_voipsimulatetest_entry_ops) None"

definition cfg_type_voipsimulatetest_ops :: cfg_node_ops where
  "cfg_type_voipsimulatetest_ops = no_ops \<lparr>
     op_get := Some DefaultFunc, op_set := Some DefaultFunc, op_query := Some DefaultFunc,
     op_commit := Some DefaultFunc\<rparr>"

definition cfg_type_voipsimulatetest_child :: "cfg_node_type list" where
  "cfg_type_voipsimulatetest_child =
    [
      cfg_type_voipsimulatetest_entry]"

definition cfg_type_voipsimulatetest :: "cfg_node_type" where
  "cfg_type_voipsimulatetest =
     CfgType 0 ''VoIPSimulateTest'' 1 cfg_type_voipsimulatetest_child
       (Some cfg_type_voipsimulatetest_ops) None"

section \<open>VoIPDiagnostic\<close>

definition cfg_type_voipdiag_entry_ops :: cfg_node_ops where
  "cfg_type_voipdiag_entry_ops = no_ops \<lparr>
     op_get := Some DefaultFunc, op_set := Some DefaultFunc, op_create := Some DefaultFunc,
     op_delete := Some DefaultFunc, op_query := Some DefaultFunc,
     op_commit := Some (Handler ''cfg_type_voipdiag_commit'')\<rparr>"

definition cfg_type_voipdiag_entry :: "cfg_node_type" where
  "cfg_type_voipdiag_entry =
     CfgType 0 ''Entry'' 1 []
       (Some cfg_type_voipdiag_entry_ops) None"

definition cfg_type_voipdiag_ops :: cfg_node_ops where
  "cfg_type_voipdiag_ops = no_ops \<lparr>
     op_get := Some DefaultFunc, op_set := Some DefaultFunc, op_query := Some DefaultFunc,
     op_commit := Some (Handler ''cfg_type_voipdiag_commit'')\<rparr>"

definition cfg_type_voipdiag_child :: "cfg_node_type list" where
  "cfg_type_voipdiag_child =
    [
      cfg_type_voipdiag_entry]"

definition cfg_type_voipdiag :: "cfg_node_type" where
  "cfg_type_voipdiag =
     CfgType 0 ''VoIPDiagnostic'' 1 cfg_type_voipdiag_child
       (Some cfg_type_voipdiag_ops) None"

section \<open>VoIPCallCtrl\<close>

definition cfg_type_voipcallctrl_entry_ops :: cfg_node_ops where
  "cfg_type_voipcallctrl_entry_ops = no_ops \<lparr>
     op_get := Some DefaultFunc, op_set := Some DefaultFunc, op_create := Some DefaultFunc,
     op_delete := Some DefaultFunc, op_query := Some DefaultFunc,
     op_commit := Some (Handler ''cfg_type_voipnormal_commit'')\<rparr>"

definition cfg_type_voipcallctrl_entry :: "cfg_node_type" where
  "cfg_type_voipcallctrl_entry =
     CfgType 0 ''Entry'' (CFG_TYPE_FLAG_MULTIPLE OR 2) []
       (Some cfg_type_voipcallctrl_entry_ops) None"

definition cfg_type_voipcallctrl_ops :: cfg_node_ops where
  "cfg_type_voipcallctrl_ops = no_ops \<lparr>
     op_get := Some DefaultFunc, op_set := Some DefaultFunc, op_query := Some DefaultFunc,
     op_commit := Some (Handler ''cfg_type_voipnormal_commit'')\<rparr>"

definition cfg_type_voipcallctrl_child :: "cfg_node_type list" where
  "cfg_type_voipcallctrl_child =
    [
      cfg_type_voipcallctrl_entry]"

definition cfg_type_voipcallctrl :: "cfg_node_type" where
  "cfg_type_voipcallctrl =
     CfgType 0 ''VoIPCallCtrl'' 1 cfg_type_voipcallctrl_child
       (Some cfg_type_voipcallctrl_ops) None"

section \<open>VoIPMedia\<close>

definition cfg_type_voipmedia_common_ops :: cfg_node_ops where
  "cfg_type_voipmedia_common_ops = no_ops \<lparr>
     op_get := Some DefaultFunc, op_set := Some DefaultFunc, op_query := Some DefaultFunc,
     op_commit := Some (Handler ''cfg_type_voipnormal_commit'')\<rparr>"

definition cfg_type_voipmedia_common :: "cfg_node_type" where
  "cfg_type_voipmedia_common =
     CfgType 0 ''Common'' 1 []
       (Some cfg_type_voipmedia_common_ops) None"

definition cfg_type_voipmedia_entry_ops :: cfg_node_ops where
  "cfg_type_voipmedia_entry_ops = no_ops \<lparr>
     op_get := Some DefaultFunc, op_set := Some DefaultFunc, op_create := Some DefaultFunc,
     op_delete := Some DefaultFunc, op_query := Some DefaultFunc,
     op_commit := Some (Handler ''cfg_type_voipnormal_commit'')\<rparr>"

definition cfg_type_voipmedia_entry :: "cfg_node_type" where
  "cfg_type_voipmedia_entry =
     CfgType 0 ''Entry'' (CFG_TYPE_FLAG_MULTIPLE OR 2) []
       (Some cfg_type_voipmedia_entry_ops) None"

definition cfg_type_voipmedia_ops :: cfg_node_ops where
  "cfg_type_voipmedia_ops = no_ops \<lparr>
     op_get := Some DefaultFunc, op_set := Some DefaultFunc, op_query := Some DefaultFunc,
     op_commit := Some (Handler ''cfg_type_voipnormal_commit'')\<rparr>"

definition cfg_type_voipmedia_child :: "cfg_node_type list" where
  "cfg_type_voipmedia_child =
    [
      cfg_type_voipmedia_common, cfg_type_voipmedia_entry]"

definition cfg_type_voipmedia :: "cfg_node_type" where
  "cfg_type_voipmedia =
     CfgType 0 ''VoIPMedia'' 1 cfg_type_voipmedia_child
       (Some cfg_type_voipmedia_ops) None"

section \<open>VoIPCodecs\<close>

definition cfg_type_voipcodecs_pvc_entry_ops :: cfg_node_ops where
  "cfg_type_voipcodecs_pvc_entry_ops = no_ops \<lparr>
     op_get := Some DefaultFunc, op_set := Some DefaultFunc, op_create := Some DefaultFunc,
     op_delete := Some DefaultFunc,
     op_commit := Some (Handler ''cfg_type_voipnormal_commit''),
     op_query := Some DefaultFunc\<rparr>"

definition cfg_type_voipcodecs_index :: "string list" where
  "cfg_type_voipcodecs_index = [''voipcodecs_pvc'']"

definition cfg_type_voipcodecs_pvc_entry :: "cfg_node_type" where
  "cfg_type_voipcodecs_pvc_entry =
     CfgType 0 ''Entry'' (CFG_TYPE_FLAG_MULTIPLE OR 10) []
       (Some cfg_type_voipcodecs_pvc_entry_ops) (Some cfg_type_voipcodecs_index)"

definition cfg_type_voipcodecs_pvc_ops :: cfg_node_ops where
  "cfg_type_voipcodecs_pvc_ops = no_ops \<lparr>
     op_get := Some DefaultFunc, op_set := Some DefaultFunc, op_create := Some DefaultFunc,
     op_delete := Some DefaultFunc,
     op_commit := Some (Handler ''cfg_type_voipnormal_commit''),
     op_query := Some DefaultFunc\<rparr>"

definition cfg_type_voipcodecs_pvc_child :: "cfg_node_type list" where
  "cfg_type_voipcodecs_pvc_child =
    [
      cfg_type_voipcodecs_pvc_entry]"

definition cfg_type_voipcodecs_pvc :: "cfg_node_type" where
  "cfg_type_voipcodecs_pvc =
     CfgType 0 ''PVC'' (CFG_TYPE_FLAG_MULTIPLE OR 2) cfg_type_voipcodecs_pvc_child
       (Some cfg_type_voipcodecs_pvc_ops) (Some cfg_type_voipcodecs_index)"

definition cfg_type_voipcodecs_ops :: cfg_node_ops where
  "cfg_type_voipcodecs_ops = no_ops \<lparr>
     op_set := Some DefaultFunc, op_get := Some DefaultFunc, op_query := Some DefaultFunc,
     op_commit := Some (Handler ''cfg_type_voipnormal_commit'')\<rparr>"

definition cfg_type_voipcodecs_child :: "cfg_node_type list" where
  "cfg_type_voipcodecs_child =
    [
      cfg_type_voipcodecs_pvc]"

definition cfg_type_voipcodecs :: "cfg_node_type" where
  "cfg_type_voipcodecs =
     CfgType 0 ''VoIPCodecs'' 1 cfg_type_voipcodecs_child
       (Some cfg_type_voipcodecs_ops) None"

end
