(* ===== verification/TypesD.thy ===== *)
theory TypesD
  imports CfgTypes
begin

text \<open>
  Type tables of \<open>service/cfg/type\<close> for the build profile
  \<open>UNION_EN7528_LE_7592_7613_MAP_R2_demo\<close>: the types from \<open>VoIPH248\<close> to \<open>InterfaceRate\<close>. The
  operations, the \<open>subtype\<close> arrays and the index arrays keep the names of the source.
\<close>

section \<open>VoIPH248\<close>

definition cfg_type_voiph248_common_ops :: cfg_node_ops where
  "cfg_type_voiph248_common_ops = no_ops \<lparr>
     op_get := Some DefaultFunc, op_set := Some DefaultFunc, op_query := Some DefaultFunc,
     op_commit := Some (Handler ''cfg_type_voipnormal_commit'')\<rparr>"

definition cfg_type_voiph248_common :: "cfg_node_type" where
  "cfg_type_voiph248_common =
     CfgType 0 ''Common'' 1 []
       (Some cfg_type_voiph248_common_ops) None"

definition cfg_type_voiph248_entry_ops :: cfg_node_ops where
  "cfg_type_voiph248_entry_ops = no_ops \<lparr>
     op_get := Some DefaultFunc, op_set := Some DefaultFunc, op_create := Some DefaultFunc,
     op_delete := Some DefaultFunc, op_query := Some DefaultFunc,
     op_commit := Some (Handler ''cfg_type_voipnormal_commit'')\<rparr>"

definition cfg_type_voiph248_entry :: "cfg_node_type" where
  "cfg_type_voiph248_entry =
     CfgType 0 ''Entry'' (CFG_TYPE_FLAG_MULTIPLE OR 2) []
       (Some cfg_type_voiph248_entry_ops) None"

definition cfg_type_voiph248_ops :: cfg_node_ops where
  "cfg_type_voiph248_ops = no_ops \<lparr>
     op_get := Some DefaultFunc, op_set := Some DefaultFunc, op_query := Some DefaultFunc,
     op_commit := Some (Handler ''cfg_type_voipnormal_commit'')\<rparr>"

definition cfg_type_voiph248_child :: "cfg_node_type list" where
  "cfg_type_voiph248_child =
    [
      cfg_type_voiph248_common, cfg_type_voiph248_entry]"

definition cfg_type_voiph248 :: "cfg_node_type" where
  "cfg_type_voiph248 =
     CfgType 0 ''VoIPH248'' 1 cfg_type_voiph248_child
       (Some cfg_type_voiph248_ops) None"

section \<open>InfoVoIP\<close>

definition cfg_type_infovoip_common_ops :: cfg_node_ops where
  "cfg_type_infovoip_common_ops = no_ops \<lparr>
     op_get := Some (Handler ''cfg_type_infovoip_common_get''), op_set := Some DefaultFunc,
     op_query := Some DefaultFunc, op_commit := Some DefaultFunc\<rparr>"

definition cfg_type_infovoip_common :: "cfg_node_type" where
  "cfg_type_infovoip_common =
     CfgType 0 ''Common'' (CFG_TYPE_FLAG_MEMORY OR CFG_TYPE_FLAG_UPDATE) []
       (Some cfg_type_infovoip_common_ops) None"

definition cfg_type_infovoip_entry_ops :: cfg_node_ops where
  "cfg_type_infovoip_entry_ops = no_ops \<lparr>
     op_get := Some (Handler ''cfg_type_infovoip_entry_get''), op_set := Some DefaultFunc,
     op_create := Some DefaultFunc, op_delete := Some DefaultFunc,
     op_query := Some DefaultFunc, op_commit := Some DefaultFunc\<rparr>"

definition cfg_type_infovoip_entry :: "cfg_node_type" where
  "cfg_type_infovoip_entry =
     CfgType 0 ''Entry'' (CFG_TYPE_FLAG_MEMORY OR CFG_TYPE_FLAG_UPDATE OR CFG_TYPE_FLAG_MULTIPLE OR 2) []
       (Some cfg_type_infovoip_entry_ops) None"

definition cfg_type_infovoip_ops :: cfg_node_ops where
  "cfg_type_infovoip_ops = no_ops \<lparr>
     op_get := Some DefaultFunc, op_set := Some DefaultFunc, op_query := Some DefaultFunc,
     op_commit := Some DefaultFunc\<rparr>"

definition cfg_type_infovoip_child :: "cfg_node_type list" where
  "cfg_type_infovoip_child =
    [
      cfg_type_infovoip_common, cfg_type_infovoip_entry]"

definition cfg_type_infovoip :: "cfg_node_type" where
  "cfg_type_infovoip =
     CfgType 0 ''InfoVoIP'' (CFG_TYPE_FLAG_MEMORY OR CFG_TYPE_FLAG_UPDATE OR 1) cfg_type_infovoip_child
       (Some cfg_type_infovoip_ops) None"

section \<open>InfoVoIPH248\<close>

definition cfg_type_infovoiph248_common_ops :: cfg_node_ops where
  "cfg_type_infovoiph248_common_ops = no_ops \<lparr>
     op_get := Some DefaultFunc, op_set := Some DefaultFunc, op_query := Some DefaultFunc,
     op_commit := Some DefaultFunc\<rparr>"

definition cfg_type_infovoiph248_common :: "cfg_node_type" where
  "cfg_type_infovoiph248_common =
     CfgType 0 ''Common'' (CFG_TYPE_FLAG_MEMORY OR CFG_TYPE_FLAG_UPDATE) []
       (Some cfg_type_infovoiph248_common_ops) None"

definition cfg_type_infovoiph248_entry_ops :: cfg_node_ops where
  "cfg_type_infovoiph248_entry_ops = no_ops \<lparr>
     op_get := Some (Handler ''cfg_type_infovoiph248_entry_get''),
     op_set := Some DefaultFunc, op_create := Some DefaultFunc,
     op_delete := Some DefaultFunc, op_query := Some DefaultFunc,
     op_commit := Some DefaultFunc\<rparr>"

definition cfg_type_infovoiph248_entry :: "cfg_node_type" where
  "cfg_type_infovoiph248_entry =
     CfgType 0 ''Entry'' (CFG_TYPE_FLAG_MEMORY OR CFG_TYPE_FLAG_UPDATE OR CFG_TYPE_FLAG_MULTIPLE OR 2) []
       (Some cfg_type_infovoiph248_entry_ops) None"

definition cfg_type_infovoiph248_ops :: cfg_node_ops where
  "cfg_type_infovoiph248_ops = no_ops \<lparr>
     op_get := Some DefaultFunc, op_set := Some DefaultFunc, op_query := Some DefaultFunc,
     op_commit := Some DefaultFunc\<rparr>"

definition cfg_type_infovoiph248_child :: "cfg_node_type list" where
  "cfg_type_infovoiph248_child =
    [
      cfg_type_infovoiph248_common, cfg_type_infovoiph248_entry]"

definition cfg_type_infovoiph248 :: "cfg_node_type" where
  "cfg_type_infovoiph248 =
     CfgType 0 ''InfoVoIPH248'' (CFG_TYPE_FLAG_MEMORY OR CFG_TYPE_FLAG_UPDATE OR 1) cfg_type_infovoiph248_child
       (Some cfg_type_infovoiph248_ops) None"

section \<open>InfoVoIPPoorQL\<close>

definition cfg_type_infovoippoorql_pvc_entry_ops :: cfg_node_ops where
  "cfg_type_infovoippoorql_pvc_entry_ops = no_ops \<lparr>
     op_get := Some DefaultFunc, op_set := Some DefaultFunc, op_create := Some DefaultFunc,
     op_delete := Some DefaultFunc, op_query := Some DefaultFunc,
     op_commit := Some (Handler ''cfg_type_voipnormal_commit'')\<rparr>"

definition cfg_type_infovoippoorql_index :: "string list" where
  "cfg_type_infovoippoorql_index = [''infovoippoorql_pvc'']"

definition cfg_type_infovoippoorql_pvc_entry :: "cfg_node_type" where
  "cfg_type_infovoippoorql_pvc_entry =
     CfgType 0 ''Entry'' (CFG_TYPE_FLAG_MULTIPLE OR 10) []
       (Some cfg_type_infovoippoorql_pvc_entry_ops) (Some cfg_type_infovoippoorql_index)"

definition cfg_type_infovoippoorql_pvc_ops :: cfg_node_ops where
  "cfg_type_infovoippoorql_pvc_ops = no_ops \<lparr>
     op_get := Some DefaultFunc, op_set := Some DefaultFunc, op_create := Some DefaultFunc,
     op_delete := Some DefaultFunc, op_query := Some DefaultFunc,
     op_commit := Some (Handler ''cfg_type_voipnormal_commit'')\<rparr>"

definition cfg_type_infovoippoorql_pvc_child :: "cfg_node_type list" where
  "cfg_type_infovoippoorql_pvc_child =
    [
      cfg_type_infovoippoorql_pvc_entry]"

definition cfg_type_infovoippoorql_pvc :: "cfg_node_type" where
  "cfg_type_infovoippoorql_pvc =
     CfgType 0 ''PVC'' (CFG_TYPE_FLAG_MULTIPLE OR 2) cfg_type_infovoippoorql_pvc_child
       (Some cfg_type_infovoippoorql_pvc_ops) (Some cfg_type_infovoippoorql_index)"

definition cfg_type_infovoippoorql_ops :: cfg_node_ops where
  "cfg_type_infovoippoorql_ops = no_ops \<lparr>
     op_get := Some DefaultFunc, op_set := Some DefaultFunc, op_query := Some DefaultFunc,
     op_commit := Some (Handler ''cfg_type_voipnormal_commit'')\<rparr>"

definition cfg_type_infovoippoorql_child :: "cfg_node_type list" where
  "cfg_type_infovoippoorql_child =
    [
      cfg_type_infovoippoorql_pvc]"

definition cfg_type_infovoippoorql :: "cfg_node_type" where
  "cfg_type_infovoippoorql =
     CfgType 0 ''InfoVoIPPoorQL'' 1 cfg_type_infovoippoorql_child
       (Some cfg_type_infovoippoorql_ops) None"

section \<open>VoIPSpeed\<close>

definition cfg_type_voipspeed_common_ops :: cfg_node_ops where
  "cfg_type_voipspeed_common_ops = no_ops \<lparr>
     op_get := Some DefaultFunc, op_set := Some DefaultFunc, op_query := Some DefaultFunc,
     op_commit := Some (Handler ''cfg_type_voipnormal_commit'')\<rparr>"

definition cfg_type_voipspeed_common :: "cfg_node_type" where
  "cfg_type_voipspeed_common =
     CfgType 0 ''Common'' 1 []
       (Some cfg_type_voipspeed_common_ops) None"

definition cfg_type_voipspeed_entry_ops :: cfg_node_ops where
  "cfg_type_voipspeed_entry_ops = no_ops \<lparr>
     op_get := Some DefaultFunc, op_set := Some DefaultFunc, op_query := Some DefaultFunc,
     op_commit := Some (Handler ''cfg_type_voipnormal_commit'')\<rparr>"

definition cfg_type_voipspeed_entry :: "cfg_node_type" where
  "cfg_type_voipspeed_entry =
     CfgType 0 ''Entry'' (CFG_TYPE_FLAG_MULTIPLE OR 2 OR 10) []
       (Some cfg_type_voipspeed_entry_ops) None"

definition cfg_type_voipspeed_ops :: cfg_node_ops where
  "cfg_type_voipspeed_ops = no_ops \<lparr>
     op_get := Some DefaultFunc, op_set := Some DefaultFunc, op_query := Some DefaultFunc,
     op_commit := Some (Handler ''cfg_type_voipnormal_commit'')\<rparr>"

definition cfg_type_voipspeed_child :: "cfg_node_type list" where
  "cfg_type_voipspeed_child =
    [
      cfg_type_voipspeed_common, cfg_type_voipspeed_entry]"

definition cfg_type_voipspeed :: "cfg_node_type" where
  "cfg_type_voipspeed =
     CfgType 0 ''VoIPSpeed'' 1 cfg_type_voipspeed_child
       (Some cfg_type_voipspeed_ops) None"

section \<open>Samba\<close>

definition cfg_type_samba_entry_ops :: cfg_node_ops where
  "cfg_type_samba_entry_ops = no_ops \<lparr>
     op_get := Some DefaultFunc, op_set := Some DefaultFunc, op_create := Some DefaultFunc,
     op_delete := Some DefaultFunc, op_query := Some DefaultFunc,
     op_commit := Some (Handler ''cfg_type_samba_func_commit'')\<rparr>"

definition cfg_type_samba_index :: "string list" where
  "cfg_type_samba_index = [''samba_id'']"

definition cfg_type_samba_entry :: "cfg_node_type" where
  "cfg_type_samba_entry =
     CfgType 0 ''Entry'' (CFG_TYPE_FLAG_MULTIPLE OR 6) []
       (Some cfg_type_samba_entry_ops) (Some cfg_type_samba_index)"

definition cfg_type_samba_common_ops :: cfg_node_ops where
  "cfg_type_samba_common_ops = no_ops \<lparr>
     op_get := Some DefaultFunc, op_set := Some DefaultFunc, op_query := Some DefaultFunc,
     op_commit := Some (Handler ''cfg_type_samba_func_commit'')\<rparr>"

definition cfg_type_samba_common :: "cfg_node_type" where
  "cfg_type_samba_common =
     CfgType 0 ''Common'' 1 []
       (Some cfg_type_samba_common_ops) None"

definition cfg_type_samba_ops :: cfg_node_ops where
  "cfg_type_samba_ops = no_ops \<lparr>
     op_set := Some DefaultFunc, op_get := Some DefaultFunc, op_query := Some DefaultFunc,
     op_commit := Some (Handler ''cfg_type_samba_func_commit'')\<rparr>"

definition cfg_type_samba_child :: "cfg_node_type list" where
  "cfg_type_samba_child =
    [
      cfg_type_samba_entry, cfg_type_samba_common]"

definition cfg_type_samba :: "cfg_node_type" where
  "cfg_type_samba =
     CfgType 0 ''Samba'' 1 cfg_type_samba_child
       (Some cfg_type_samba_ops) None"

section \<open>SSH\<close>

definition cfg_type_ssh_entry_ops :: cfg_node_ops where
  "cfg_type_ssh_entry_ops = no_ops \<lparr>
     op_get := Some DefaultFunc, op_set := Some DefaultFunc, op_create := Some DefaultFunc,
     op_delete := Some DefaultFunc, op_query := Some DefaultFunc,
     op_commit := Some (Handler ''cfg_type_ssh_func_commit'')\<rparr>"

definition cfg_type_ssh_entry :: "cfg_node_type" where
  "cfg_type_ssh_entry =
     CfgType 0 ''Entry'' 1 []
       (Some cfg_type_ssh_entry_ops) None"

definition cfg_type_ssh_ops :: cfg_node_ops where
  "cfg_type_ssh_ops = no_ops \<lparr>
     op_set := Some DefaultFunc, op_get := Some DefaultFunc, op_query := Some DefaultFunc,
     op_commit := Some (Handler ''cfg_type_ssh_func_commit'')\<rparr>"

definition cfg_type_ssh_child :: "cfg_node_type list" where
  "cfg_type_ssh_child =
    [
      cfg_type_ssh_entry]"

definition cfg_type_ssh :: "cfg_node_type" where
  "cfg_type_ssh =
     CfgType 0 ''SSH'' 1 cfg_type_ssh_child
       (Some cfg_type_ssh_ops) None"

section \<open>Dproxy\<close>

definition cfg_type_dproxy_entry_ops :: cfg_node_ops where
  "cfg_type_dproxy_entry_ops = no_ops \<lparr>
     op_get := Some DefaultFunc, op_set := Some DefaultFunc, op_create := Some DefaultFunc,
     op_delete := Some DefaultFunc, op_query := Some DefaultFunc,
     op_commit := Some (Handler ''cfg_type_dproxy_func_commit'')\<rparr>"

definition cfg_type_dproxy_entry :: "cfg_node_type" where
  "cfg_type_dproxy_entry =
     CfgType 0 ''Entry'' 1 []
       (Some cfg_type_dproxy_entry_ops) None"

definition cfg_type_dproxy_ops :: cfg_node_ops where
  "cfg_type_dproxy_ops = no_ops \<lparr>
     op_set := Some DefaultFunc, op_get := Some DefaultFunc, op_query := Some DefaultFunc,
     op_commit := Some (Handler ''cfg_type_dproxy_func_commit'')\<rparr>"

definition cfg_type_dproxy_child :: "cfg_node_type list" where
  "cfg_type_dproxy_child =
    [
      cfg_type_dproxy_entry]"

definition cfg_type_dproxy :: "cfg_node_type" where
  "cfg_type_dproxy =
     CfgType 0 ''Dproxy'' 1 cfg_type_dproxy_child
       (Some cfg_type_dproxy_ops) None"

section \<open>VPN\<close>

definition cfg_type_vpnlist_entry_ops :: cfg_node_ops where
  "cfg_type_vpnlist_entry_ops = no_ops \<lparr>
     op_get := Some DefaultFunc, op_set := Some DefaultFunc, op_create := Some DefaultFunc,
     op_delete := Some DefaultFunc, op_query := Some DefaultFunc,
     op_commit := Some (Handler ''cfg_type_vpnlist_func_commit'')\<rparr>"

definition cfg_type_vpnlist_entry :: "cfg_node_type" where
  "cfg_type_vpnlist_entry =
     CfgType 0 ''Entry'' (CFG_TYPE_FLAG_MULTIPLE OR 16) []
       (Some cfg_type_vpnlist_entry_ops) None"

definition cfg_type_vpnlist_common_ops :: cfg_node_ops where
  "cfg_type_vpnlist_common_ops = no_ops \<lparr>
     op_get := Some DefaultFunc, op_set := Some DefaultFunc, op_query := Some DefaultFunc,
     op_commit := Some (Handler ''cfg_type_vpnlist_func_commit'')\<rparr>"

definition cfg_type_vpnlist_common :: "cfg_node_type" where
  "cfg_type_vpnlist_common =
     CfgType 0 ''Common'' (CFG_TYPE_FLAG_MULTIPLE OR 1) []
       (Some cfg_type_vpnlist_common_ops) None"

definition cfg_type_vpnlist_del_domain_entry_ops :: cfg_node_ops where
  "cfg_type_vpnlist_del_domain_entry_ops = no_ops \<lparr>
     op_get := Some DefaultFunc, op_set := Some DefaultFunc, op_query := Some DefaultFunc,
     op_commit := Some (Handler ''cfg_type_vpnlist_func_commit'')\<rparr>"

definition cfg_type_vpnlist_del_domain_entry :: "cfg_node_type" where
  "cfg_type_vpnlist_del_domain_entry =
     CfgType 0 ''DelDomainEntry'' (CFG_TYPE_FLAG_MULTIPLE OR 16) []
       (Some cfg_type_vpnlist_del_domain_entry_ops) None"

definition cfg_type_vpnlist_ops :: cfg_node_ops where
  "cfg_type_vpnlist_ops = no_ops \<lparr>
     op_set := Some DefaultFunc, op_get := Some DefaultFunc, op_query := Some DefaultFunc,
     op_commit := Some (Handler ''cfg_type_vpnlist_func_commit'')\<rparr>"

definition cfg_type_vpnlist_child :: "cfg_node_type list" where
  "cfg_type_vpnlist_child =
    [
      cfg_type_vpnlist_entry, cfg_type_vpnlist_common, cfg_type_vpnlist_del_domain_entry]"

definition cfg_type_vpnlist :: "cfg_node_type" where
  "cfg_type_vpnlist =
     CfgType 0 ''VPN'' 1 cfg_type_vpnlist_child
       (Some cfg_type_vpnlist_ops) None"

section \<open>Parental\<close>

definition cfg_type_parental_entry_ops :: cfg_node_ops where
  "cfg_type_parental_entry_ops = no_ops \<lparr>
     op_get := Some DefaultFunc, op_set := Some (Handler ''cfg_type_parental_func_set''),
     op_create := Some DefaultFunc, op_delete := Some DefaultFunc,
     op_query := Some DefaultFunc,
     op_commit := Some (Handler ''cfg_type_parental_func_commit'')\<rparr>"

definition cfg_type_parental_index :: "string list" where
  "cfg_type_parental_index = [''parental_id'']"

definition cfg_type_parental_entry :: "cfg_node_type" where
  "cfg_type_parental_entry =
     CfgType 0 ''Entry'' (CFG_TYPE_FLAG_MULTIPLE OR 8) []
       (Some cfg_type_parental_entry_ops) (Some cfg_type_parental_index)"

definition cfg_type_parental_common_ops :: cfg_node_ops where
  "cfg_type_parental_common_ops = no_ops \<lparr>
     op_get := Some DefaultFunc, op_set := Some DefaultFunc, op_query := Some DefaultFunc,
     op_commit := Some (Handler ''cfg_type_parental_func_commit'')\<rparr>"

definition cfg_type_parental_common :: "cfg_node_type" where
  "cfg_type_parental_common =
     CfgType 0 ''Common'' 1 []
       (Some cfg_type_parental_common_ops) None"

definition cfg_type_parental_ops :: cfg_node_ops where
  "cfg_type_parental_ops = no_ops \<lparr>
     op_set := Some DefaultFunc, op_get := Some DefaultFunc, op_query := Some DefaultFunc,
     op_commit := Some (Handler ''cfg_type_parental_func_commit'')\<rparr>"

definition cfg_type_parental_child :: "cfg_node_type list" where
  "cfg_type_parental_child =
    [
      cfg_type_parental_entry, cfg_type_parental_common]"

definition cfg_type_parental :: "cfg_node_type" where
  "cfg_type_parental =
     CfgType 0 ''Parental'' 1 cfg_type_parental_child
       (Some cfg_type_parental_ops) None"

section \<open>ParentalMac\<close>

definition cfg_type_parental_mac_entry_ops :: cfg_node_ops where
  "cfg_type_parental_mac_entry_ops = no_ops \<lparr>
     op_get := Some DefaultFunc, op_set := Some DefaultFunc, op_create := Some DefaultFunc,
     op_delete := Some DefaultFunc, op_query := Some DefaultFunc,
     op_commit := Some (Handler ''cfg_type_parental_mac_func_commit'')\<rparr>"

definition cfg_type_parental_mac_entry :: "cfg_node_type" where
  "cfg_type_parental_mac_entry =
     CfgType 0 ''Entry'' (CFG_TYPE_FLAG_MULTIPLE OR 32) []
       (Some cfg_type_parental_mac_entry_ops) None"

definition cfg_type_parental_mac_common_ops :: cfg_node_ops where
  "cfg_type_parental_mac_common_ops = no_ops \<lparr>
     op_get := Some DefaultFunc, op_set := Some DefaultFunc, op_query := Some DefaultFunc,
     op_commit := Some (Handler ''cfg_type_parental_mac_func_commit'')\<rparr>"

definition cfg_type_parental_mac_common :: "cfg_node_type" where
  "cfg_type_parental_mac_common =
     CfgType 0 ''Common'' 1 []
       (Some cfg_type_parental_mac_common_ops) None"

definition cfg_type_parental_mac_ops :: cfg_node_ops where
  "cfg_type_parental_mac_ops = no_ops \<lparr>
     op_set := Some DefaultFunc, op_get := Some DefaultFunc, op_query := Some DefaultFunc,
     op_commit := Some (Handler ''cfg_type_parental_mac_func_commit'')\<rparr>"

definition cfg_type_parental_mac_child :: "cfg_node_type list" where
  "cfg_type_parental_mac_child =
    [
      cfg_type_parental_mac_entry, cfg_type_parental_mac_common]"

definition cfg_type_parental_mac :: "cfg_node_type" where
  "cfg_type_parental_mac =
     CfgType 0 ''ParentalMac'' 1 cfg_type_parental_mac_child
       (Some cfg_type_parental_mac_ops) None"

section \<open>PMInform\<close>

definition cfg_type_pminform_entry_ops :: cfg_node_ops where
  "cfg_type_pminform_entry_ops = no_ops \<lparr>
     op_get := Some DefaultFunc, op_set := Some DefaultFunc, op_create := Some DefaultFunc,
     op_delete := Some DefaultFunc, op_query := Some DefaultFunc,
     op_commit := Some DefaultFunc\<rparr>"

definition cfg_type_pminform_entry :: "cfg_node_type" where
  "cfg_type_pminform_entry =
     CfgType 0 ''Entry'' 1 []
       (Some cfg_type_pminform_entry_ops) None"

definition cfg_type_pminform_ops :: cfg_node_ops where
  "cfg_type_pminform_ops = no_ops \<lparr>
     op_set := Some DefaultFunc, op_get := Some DefaultFunc, op_query := Some DefaultFunc,
     op_commit := Some DefaultFunc\<rparr>"

definition cfg_type_pminform_child :: "cfg_node_type list" where
  "cfg_type_pminform_child =
    [
      cfg_type_pminform_entry]"

definition cfg_type_pminform :: "cfg_node_type" where
  "cfg_type_pminform =
     CfgType 0 ''PMInform'' 1 cfg_type_pminform_child
       (Some cfg_type_pminform_ops) None"

section \<open>String\<close>

definition cfg_type_string_common_ops :: cfg_node_ops where
  "cfg_type_string_common_ops = no_ops \<lparr>
     op_get := Some DefaultFunc, op_set := Some DefaultFunc, op_query := Some DefaultFunc,
     op_commit := Some DefaultFunc\<rparr>"

definition cfg_type_string_common :: "cfg_node_type" where
  "cfg_type_string_common =
     CfgType 0 ''Common'' (CFG_TYPE_FLAG_MEMORY OR 1) []
       (Some cfg_type_string_common_ops) None"

definition cfg_type_string_entry_ops :: cfg_node_ops where
  "cfg_type_string_entry_ops = no_ops \<lparr>
     op_get := Some (Handler ''cfg_type_string_entry_func_get''),
     op_set := Some DefaultFunc, op_create := Some DefaultFunc,
     op_delete := Some DefaultFunc, op_query := Some DefaultFunc,
     op_commit := Some DefaultFunc\<rparr>"

definition cfg_type_string_entry :: "cfg_node_type" where
  "cfg_type_string_entry =
     CfgType 0 ''Entry'' (CFG_TYPE_FLAG_MEMORY OR CFG_TYPE_FLAG_UPDATE OR 1) []
       (Some cfg_type_string_entry_ops) None"

definition cfg_type_string_ops :: cfg_node_ops where
  "cfg_type_string_ops = no_ops \<lparr>
     op_set := Some DefaultFunc, op_get := Some DefaultFunc, op_query := Some DefaultFunc,
     op_commit := Some DefaultFunc\<rparr>"

definition cfg_type_string_child :: "cfg_node_type list" where
  "cfg_type_string_child =
    [
      cfg_type_string_common, cfg_type_string_entry]"

definition cfg_type_string :: "cfg_node_type" where
  "cfg_type_string =
     CfgType 0 ''String'' (CFG_TYPE_FLAG_MEMORY OR 1) cfg_type_string_child
       (Some cfg_type_string_ops) None"

section \<open>LanguageSwitch\<close>

definition cfg_type_languageswitch_entry_ops :: cfg_node_ops where
  "cfg_type_languageswitch_entry_ops = no_ops \<lparr>
     op_get := Some DefaultFunc, op_set := Some DefaultFunc, op_query := Some DefaultFunc,
     op_commit := Some (Handler ''cfg_type_languageswitch_func_commit'')\<rparr>"

definition cfg_type_languageswitch_entry :: "cfg_node_type" where
  "cfg_type_languageswitch_entry =
     CfgType 0 ''Entry'' 1 []
       (Some cfg_type_languageswitch_entry_ops) None"

definition cfg_type_languageswitch_ops :: cfg_node_ops where
  "cfg_type_languageswitch_ops = no_ops \<lparr>
     op_set := Some DefaultFunc, op_get := Some DefaultFunc, op_query := Some DefaultFunc,
     op_commit := Some (Handler ''cfg_type_languageswitch_func_commit'')\<rparr>"

definition cfg_type_languageswitch_child :: "cfg_node_type list" where
  "cfg_type_languageswitch_child =
    [
      cfg_type_languageswitch_entry]"

definition cfg_type_languageswitch :: "cfg_node_type" where
  "cfg_type_languageswitch =
     CfgType 0 ''LanguageSwitch'' 1 cfg_type_languageswitch_child
       (Some cfg_type_languageswitch_ops) None"

section \<open>Timer\<close>

definition cfg_type_timer_entry_ops :: cfg_node_ops where
  "cfg_type_timer_entry_ops = no_ops \<lparr>
     op_get := Some DefaultFunc, op_set := Some DefaultFunc, op_create := Some DefaultFunc,
     op_delete := Some DefaultFunc, op_query := Some DefaultFunc,
     op_commit := Some (Handler ''cfg_type_timer_func_commit'')\<rparr>"

definition cfg_type_timer_entry :: "cfg_node_type" where
  "cfg_type_timer_entry =
     CfgType 0 ''Entry'' (CFG_TYPE_FLAG_MULTIPLE OR 28) []
       (Some cfg_type_timer_entry_ops) None"

definition cfg_type_timer_ledentry_ops :: cfg_node_ops where
  "cfg_type_timer_ledentry_ops = no_ops \<lparr>
     op_get := Some DefaultFunc, op_set := Some DefaultFunc, op_query := Some DefaultFunc,
     op_commit := Some (Handler ''cfg_type_timer_func_commit'')\<rparr>"

definition cfg_type_timer_ledentry :: "cfg_node_type" where
  "cfg_type_timer_ledentry =
     CfgType 0 ''LEDEntry'' 1 []
       (Some cfg_type_timer_ledentry_ops) None"

definition cfg_type_timer_wifitimerentry_ops :: cfg_node_ops where
  "cfg_type_timer_wifitimerentry_ops = no_ops \<lparr>
     op_get := Some DefaultFunc, op_set := Some DefaultFunc, op_query := Some DefaultFunc,
     op_commit := Some (Handler ''cfg_type_timer_func_commit'')\<rparr>"

definition cfg_type_timer_wifitimerentry :: "cfg_node_type" where
  "cfg_type_timer_wifitimerentry =
     CfgType 0 ''WIFITimerEntry'' 1 []
       (Some cfg_type_timer_wifitimerentry_ops) None"

definition cfg_type_timer_common_ops :: cfg_node_ops where
  "cfg_type_timer_common_ops = no_ops \<lparr>
     op_get := Some DefaultFunc, op_set := Some DefaultFunc, op_query := Some DefaultFunc,
     op_commit := Some (Handler ''cfg_type_timer_func_commit'')\<rparr>"

definition cfg_type_timer_common :: "cfg_node_type" where
  "cfg_type_timer_common =
     CfgType 0 ''Common'' 1 []
       (Some cfg_type_timer_common_ops) None"

definition cfg_type_timer_ops :: cfg_node_ops where
  "cfg_type_timer_ops = no_ops \<lparr>
     op_set := Some DefaultFunc, op_get := Some DefaultFunc, op_query := Some DefaultFunc,
     op_commit := Some (Handler ''cfg_type_timer_func_commit'')\<rparr>"

definition cfg_type_timer_child :: "cfg_node_type list" where
  "cfg_type_timer_child =
    [
      cfg_type_timer_entry, cfg_type_timer_ledentry, cfg_type_timer_wifitimerentry,
      cfg_type_timer_common]"

definition cfg_type_timer :: "cfg_node_type" where
  "cfg_type_timer =
     CfgType 0 ''Timer'' 1 cfg_type_timer_child
       (Some cfg_type_timer_ops) None"

section \<open>WLanMapping\<close>

definition cfg_type_wlanmapping_entry_ops :: cfg_node_ops where
  "cfg_type_wlanmapping_entry_ops = no_ops \<lparr>
     op_get := Some DefaultFunc, op_set := Some DefaultFunc, op_create := Some DefaultFunc,
     op_delete := Some DefaultFunc, op_query := Some DefaultFunc,
     op_commit := Some (Handler ''cfg_type_wlanmapping_func_commit'')\<rparr>"

definition cfg_type_wlanmapping_entry :: "cfg_node_type" where
  "cfg_type_wlanmapping_entry =
     CfgType 0 ''Entry'' (CFG_TYPE_FLAG_MULTIPLE OR 16) []
       (Some cfg_type_wlanmapping_entry_ops) None"

definition cfg_type_wlanmapping_common_ops :: cfg_node_ops where
  "cfg_type_wlanmapping_common_ops = no_ops \<lparr>
     op_get := Some DefaultFunc, op_set := Some DefaultFunc, op_query := Some DefaultFunc,
     op_commit := Some DefaultFunc\<rparr>"

definition cfg_type_wlanmapping_common :: "cfg_node_type" where
  "cfg_type_wlanmapping_common =
     CfgType 0 ''Common'' 1 []
       (Some cfg_type_wlanmapping_common_ops) None"

definition cfg_type_wlanmapping_ops :: cfg_node_ops where
  "cfg_type_wlanmapping_ops = no_ops \<lparr>
     op_set := Some DefaultFunc, op_get := Some DefaultFunc, op_query := Some DefaultFunc,
     op_commit := Some (Handler ''cfg_type_wlanmapping_func_commit'')\<rparr>"

definition cfg_type_wlanmapping_child :: "cfg_node_type list" where
  "cfg_type_wlanmapping_child =
    [
      cfg_type_wlanmapping_entry, cfg_type_wlanmapping_common]"

definition cfg_type_wlanmapping :: "cfg_node_type" where
  "cfg_type_wlanmapping =
     CfgType 0 ''WLanMapping'' 1 cfg_type_wlanmapping_child
       (Some cfg_type_wlanmapping_ops) None"

section \<open>DnsServer\<close>

definition cfg_type_ctc_dnsserver_v4server_ops :: cfg_node_ops where
  "cfg_type_ctc_dnsserver_v4server_ops = no_ops \<lparr>
     op_get := Some DefaultFunc, op_set := Some DefaultFunc, op_query := Some DefaultFunc,
     op_commit := Some (Handler ''cfg_type_ctc_dnsserver_func_commit'')\<rparr>"

definition cfg_type_ctc_dnsserver_v4server :: "cfg_node_type" where
  "cfg_type_ctc_dnsserver_v4server =
     CfgType 0 ''ServerV4'' 1 []
       (Some cfg_type_ctc_dnsserver_v4server_ops) None"

definition cfg_type_ctc_dnsserver_v6server_ops :: cfg_node_ops where
  "cfg_type_ctc_dnsserver_v6server_ops = no_ops \<lparr>
     op_get := Some DefaultFunc, op_set := Some DefaultFunc, op_query := Some DefaultFunc,
     op_commit := Some (Handler ''cfg_type_ctc_dnsserver_func_commit'')\<rparr>"

definition cfg_type_ctc_dnsserver_v6server :: "cfg_node_type" where
  "cfg_type_ctc_dnsserver_v6server =
     CfgType 0 ''ServerV6'' 1 []
       (Some cfg_type_ctc_dnsserver_v6server_ops) None"

definition cfg_type_ctc_dnsserver_ops :: cfg_node_ops where
  "cfg_type_ctc_dnsserver_ops = no_ops \<lparr>
     op_set := Some DefaultFunc, op_get := Some DefaultFunc, op_query := Some DefaultFunc,
     op_commit := Some (Handler ''cfg_type_ctc_dnsserver_func_commit'')\<rparr>"

definition cfg_type_ctc_dnsserver_child :: "cfg_node_type list" where
  "cfg_type_ctc_dnsserver_child =
    [
      cfg_type_ctc_dnsserver_v4server, cfg_type_ctc_dnsserver_v6server]"

definition cfg_type_ctc_dnsserver :: "cfg_node_type" where
  "cfg_type_ctc_dnsserver =
     CfgType 0 ''DnsServer'' 1 cfg_type_ctc_dnsserver_child
       (Some cfg_type_ctc_dnsserver_ops) None"

section \<open>IncomingFilter\<close>

definition cfg_type_incomingfilter_entry_ops :: cfg_node_ops where
  "cfg_type_incomingfilter_entry_ops = no_ops \<lparr>
     op_get := Some DefaultFunc, op_set := Some DefaultFunc, op_create := Some DefaultFunc,
     op_delete := Some DefaultFunc, op_query := Some DefaultFunc,
     op_commit := Some (Handler ''cfg_type_incomingfilter_commit'')\<rparr>"

definition cfg_type_incomingfilter_entry :: "cfg_node_type" where
  "cfg_type_incomingfilter_entry =
     CfgType 0 ''Entry'' (CFG_TYPE_FLAG_MULTIPLE OR 16) []
       (Some cfg_type_incomingfilter_entry_ops) None"

definition cfg_type_incomingfilter_ops :: cfg_node_ops where
  "cfg_type_incomingfilter_ops = no_ops \<lparr>
     op_set := Some DefaultFunc, op_get := Some DefaultFunc, op_query := Some DefaultFunc,
     op_commit := Some (Handler ''cfg_type_incomingfilter_commit'')\<rparr>"

definition cfg_type_incomingfilter_child :: "cfg_node_type list" where
  "cfg_type_incomingfilter_child =
    [
      cfg_type_incomingfilter_entry]"

definition cfg_type_incomingfilter :: "cfg_node_type" where
  "cfg_type_incomingfilter =
     CfgType 0 ''IncomingFilter'' 1 cfg_type_incomingfilter_child
       (Some cfg_type_incomingfilter_ops) None"

section \<open>DnsFilter\<close>

definition cfg_type_dnsfilter_common_ops :: cfg_node_ops where
  "cfg_type_dnsfilter_common_ops = no_ops \<lparr>
     op_get := Some DefaultFunc, op_set := Some DefaultFunc, op_query := Some DefaultFunc,
     op_commit := Some (Handler ''cfg_type_dnsfilter_func_commit'')\<rparr>"

definition cfg_type_dnsfilter_common :: "cfg_node_type" where
  "cfg_type_dnsfilter_common =
     CfgType 0 ''Common'' 1 []
       (Some cfg_type_dnsfilter_common_ops) None"

definition cfg_type_dnsfilter_entry_ops :: cfg_node_ops where
  "cfg_type_dnsfilter_entry_ops = no_ops \<lparr>
     op_get := Some DefaultFunc, op_set := Some DefaultFunc, op_create := Some DefaultFunc,
     op_delete := Some DefaultFunc, op_query := Some DefaultFunc,
     op_commit := Some (Handler ''cfg_type_dnsfilter_func_commit'')\<rparr>"

definition cfg_type_dnsfilter_entry :: "cfg_node_type" where
  "cfg_type_dnsfilter_entry =
     CfgType 0 ''Entry'' (CFG_TYPE_FLAG_MULTIPLE OR 100) []
       (Some cfg_type_dnsfilter_entry_ops) None"

definition cfg_type_dnsfilter_ops :: cfg_node_ops where
  "cfg_type_dnsfilter_ops = no_ops \<lparr>
     op_set := Some DefaultFunc, op_get := Some DefaultFunc, op_query := Some DefaultFunc,
     op_commit := Some (Handler ''cfg_type_dnsfilter_func_commit'')\<rparr>"

definition cfg_type_dnsfilter_child :: "cfg_node_type list" where
  "cfg_type_dnsfilter_child =
    [
      cfg_type_dnsfilter_common, cfg_type_dnsfilter_entry]"

definition cfg_type_dnsfilter :: "cfg_node_type" where
  "cfg_type_dnsfilter =
     CfgType 0 ''DnsFilter'' 1 cfg_type_dnsfilter_child
       (Some cfg_type_dnsfilter_ops) None"

section \<open>CollectInfo\<close>

definition cfg_type_wlancollectinfo_entry_ops :: cfg_node_ops where
  "cfg_type_wlancollectinfo_entry_ops = no_ops \<lparr>
     op_get := Some DefaultFunc, op_set := Some DefaultFunc, op_query := Some DefaultFunc,
     op_commit := Some (Handler ''cfg_type_wlancollectinfo_commit'')\<rparr>"

definition cfg_type_collectinfo_wlan :: "cfg_node_type" where
  "cfg_type_collectinfo_wlan =
     CfgType 0 ''Wlan'' 1 []
       (Some cfg_type_wlancollectinfo_entry_ops) None"

definition cfg_type_wlancollectinfo_ops :: cfg_node_ops where
  "cfg_type_wlancollectinfo_ops = no_ops \<lparr>
     op_set := Some DefaultFunc, op_get := Some DefaultFunc, op_query := Some DefaultFunc,
     op_commit := Some DefaultFunc\<rparr>"

definition cfg_type_wlancollectinfo_child :: "cfg_node_type list" where
  "cfg_type_wlancollectinfo_child =
    [
      cfg_type_collectinfo_wlan]"

definition cfg_type_wlancollectinfo :: "cfg_node_type" where
  "cfg_type_wlancollectinfo =
     CfgType 0 ''CollectInfo'' 1 cfg_type_wlancollectinfo_child
       (Some cfg_type_wlancollectinfo_ops) None"

section \<open>SpeedTest\<close>

definition cfg_type_speedtest_entry_ops :: cfg_node_ops where
  "cfg_type_speedtest_entry_ops = no_ops \<lparr>
     op_get := Some DefaultFunc, op_set := Some DefaultFunc, op_create := Some DefaultFunc,
     op_delete := Some DefaultFunc, op_query := Some DefaultFunc,
     op_commit := Some (Handler ''cfg_type_speedtest_func_commit'')\<rparr>"

definition cfg_type_speedtest_entry :: "cfg_node_type" where
  "cfg_type_speedtest_entry =
     CfgType 0 ''Entry'' (CFG_TYPE_FLAG_MULTIPLE OR 17) []
       (Some cfg_type_speedtest_entry_ops) None"

definition cfg_type_speedtest_common_ops :: cfg_node_ops where
  "cfg_type_speedtest_common_ops = no_ops \<lparr>
     op_get := Some DefaultFunc, op_set := Some DefaultFunc, op_query := Some DefaultFunc,
     op_commit := Some (Handler ''cfg_type_speedtest_func_commit'')\<rparr>"

definition cfg_type_speedtest_common :: "cfg_node_type" where
  "cfg_type_speedtest_common =
     CfgType 0 ''Common'' 1 []
       (Some cfg_type_speedtest_common_ops) None"

definition cfg_type_speedtest_ops :: cfg_node_ops where
  "cfg_type_speedtest_ops = no_ops \<lparr>
     op_set := Some DefaultFunc, op_get := Some DefaultFunc, op_query := Some DefaultFunc,
     op_commit := Some (Handler ''cfg_type_speedtest_func_commit'')\<rparr>"

definition cfg_type_speedtest_child :: "cfg_node_type list" where
  "cfg_type_speedtest_child =
    [
      cfg_type_speedtest_entry, cfg_type_speedtest_common]"

definition cfg_type_speedtest :: "cfg_node_type" where
  "cfg_type_speedtest =
     CfgType 0 ''SpeedTest'' 1 cfg_type_speedtest_child
       (Some cfg_type_speedtest_ops) None"

section \<open>VPNDomain\<close>

definition cfg_type_vpndomain_entry_ops :: cfg_node_ops where
  "cfg_type_vpndomain_entry_ops = no_ops \<lparr>
     op_get := Some DefaultFunc, op_set := Some DefaultFunc, op_create := Some DefaultFunc,
     op_delete := Some DefaultFunc, op_query := Some DefaultFunc,
     op_commit := Some (Handler ''cfg_type_vpndomain_func_commit'')\<rparr>"

definition cfg_type_vpndomain_entry :: "cfg_node_type" where
  "cfg_type_vpndomain_entry =
     CfgType 0 ''Entry'' (CFG_TYPE_FLAG_MULTIPLE OR 16) []
       (Some cfg_type_vpndomain_entry_ops) None"

definition cfg_type_vpndomain_ops :: cfg_node_ops where
  "cfg_type_vpndomain_ops = no_ops \<lparr>
     op_set := Some DefaultFunc, op_get := Some DefaultFunc, op_query := Some DefaultFunc,
     op_commit := Some (Handler ''cfg_type_vpndomain_func_commit'')\<rparr>"

definition cfg_type_vpndomain_child :: "cfg_node_type list" where
  "cfg_type_vpndomain_child =
    [
      cfg_type_vpndomain_entry]"

definition cfg_type_vpndomain :: "cfg_node_type" where
  "cfg_type_vpndomain =
     CfgType 0 ''VPNDomain'' 1 cfg_type_vpndomain_child
       (Some cfg_type_vpndomain_ops) None"

section \<open>VPNDomainCache\<close>

definition cfg_type_vpndomaincache_entry_ops :: cfg_node_ops where
  "cfg_type_vpndomaincache_entry_ops = no_ops \<lparr>
     op_get := Some DefaultFunc, op_set := Some DefaultFunc, op_create := Some DefaultFunc,
     op_delete := Some DefaultFunc, op_query := Some DefaultFunc\<rparr>"

definition cfg_type_vpndomaincache_entry :: "cfg_node_type" where
  "cfg_type_vpndomaincache_entry =
     CfgType 0 ''Entry'' (CFG_TYPE_FLAG_MEMORY OR CFG_TYPE_FLAG_MULTIPLE OR 16) []
       (Some cfg_type_vpndomaincache_entry_ops) None"

definition cfg_type_vpndomaincache_ops :: cfg_node_ops where
  "cfg_type_vpndomaincache_ops = no_ops \<lparr>
     op_set := Some DefaultFunc, op_get := Some DefaultFunc, op_query := Some DefaultFunc\<rparr>"

definition cfg_type_vpndomaincache_child :: "cfg_node_type list" where
  "cfg_type_vpndomaincache_child =
    [
      cfg_type_vpndomaincache_entry]"

definition cfg_type_vpndomaincache :: "cfg_node_type" where
  "cfg_type_vpndomaincache =
     CfgType 0 ''VPNDomainCache'' 1 cfg_type_vpndomaincache_child
       (Some cfg_type_vpndomaincache_ops) None"

section \<open>VPNMAC\<close>

definition cfg_type_vpnmac_entry_ops :: cfg_node_ops where
  "cfg_type_vpnmac_entry_ops = no_ops \<lparr>
     op_get := Some DefaultFunc, op_set := Some DefaultFunc, op_create := Some DefaultFunc,
     op_delete := Some DefaultFunc, op_query := Some DefaultFunc,
     op_commit := Some (Handler ''cfg_type_vpnmac_func_commit'')\<rparr>"

definition cfg_type_vpnmac_entry :: "cfg_node_type" where
  "cfg_type_vpnmac_entry =
     CfgType 0 ''Entry'' (CFG_TYPE_FLAG_MULTIPLE OR 4) []
       (Some cfg_type_vpnmac_entry_ops) None"

definition cfg_type_vpnmac_ops :: cfg_node_ops where
  "cfg_type_vpnmac_ops = no_ops \<lparr>
     op_set := Some DefaultFunc, op_get := Some DefaultFunc, op_query := Some DefaultFunc,
     op_commit := Some (Handler ''cfg_type_vpnmac_func_commit'')\<rparr>"

definition cfg_type_vpnmac_child :: "cfg_node_type list" where
  "cfg_type_vpnmac_child =
    [
      cfg_type_vpnmac_entry]"

definition cfg_type_vpnmac :: "cfg_node_type" where
  "cfg_type_vpnmac =
     CfgType 0 ''VPNMAC'' 1 cfg_type_vpnmac_child
       (Some cfg_type_vpnmac_ops) None"

section \<open>VPNIPS\<close>

definition cfg_type_vpnips_entry_ops :: cfg_node_ops where
  "cfg_type_vpnips_entry_ops = no_ops \<lparr>
     op_get := Some DefaultFunc, op_set := Some DefaultFunc, op_create := Some DefaultFunc,
     op_delete := Some DefaultFunc, op_query := Some DefaultFunc,
     op_commit := Some (Handler ''cfg_type_vpnips_func_commit'')\<rparr>"

definition cfg_type_vpnips_entry :: "cfg_node_type" where
  "cfg_type_vpnips_entry =
     CfgType 0 ''Entry'' (CFG_TYPE_FLAG_MULTIPLE OR 16) []
       (Some cfg_type_vpnips_entry_ops) None"

definition cfg_type_vpnips_ops :: cfg_node_ops where
  "cfg_type_vpnips_ops = no_ops \<lparr>
     op_set := Some DefaultFunc, op_get := Some DefaultFunc, op_query := Some DefaultFunc,
     op_commit := Some (Handler ''cfg_type_vpnips_func_commit'')\<rparr>"

definition cfg_type_vpnips_child :: "cfg_node_type list" where
  "cfg_type_vpnips_child =
    [
      cfg_type_vpnips_entry]"

definition cfg_type_vpnips :: "cfg_node_type" where
  "cfg_type_vpnips =
     CfgType 0 ''VPNIPS'' 1 cfg_type_vpnips_child
       (Some cfg_type_vpnips_ops) None"

section \<open>Process\<close>

definition cfg_type_process_entry_ops :: cfg_node_ops where
  "cfg_type_process_entry_ops = no_ops \<lparr>
     op_get := Some DefaultFunc, op_set := Some DefaultFunc, op_create := Some DefaultFunc,
     op_delete := Some DefaultFunc, op_query := Some DefaultFunc,
     op_commit := Some (Handler ''cfg_type_process_func_commit'')\<rparr>"

definition cfg_type_process_index :: "string list" where
  "cfg_type_process_index = []"

definition cfg_type_process_entry :: "cfg_node_type" where
  "cfg_type_process_entry =
     CfgType 0 ''Entry'' (CFG_TYPE_FLAG_MULTIPLE OR 10) []
       (Some cfg_type_process_entry_ops) (Some cfg_type_process_index)"

definition cfg_type_process_ops :: cfg_node_ops where
  "cfg_type_process_ops = no_ops \<lparr>
     op_set := Some DefaultFunc, op_get := Some DefaultFunc, op_query := Some DefaultFunc,
     op_commit := Some (Handler ''cfg_type_process_func_commit'')\<rparr>"

definition cfg_type_process_child :: "cfg_node_type list" where
  "cfg_type_process_child =
    [
      cfg_type_process_entry]"

definition cfg_type_process :: "cfg_node_type" where
  "cfg_type_process =
     CfgType 0 ''Process'' 1 cfg_type_process_child
       (Some cfg_type_process_ops) None"

section \<open>ProcessRes\<close>

definition cfg_type_processres_entry_ops :: cfg_node_ops where
  "cfg_type_processres_entry_ops = no_ops \<lparr>
     op_get := Some DefaultFunc, op_set := Some DefaultFunc, op_create := Some DefaultFunc,
     op_delete := Some DefaultFunc, op_query := Some DefaultFunc,
     op_commit := Some (Handler ''cfg_type_processres_func_commit'')\<rparr>"

definition cfg_type_processres_index :: "string list" where
  "cfg_type_processres_index = []"

definition cfg_type_processres_entry :: "cfg_node_type" where
  "cfg_type_processres_entry =
     CfgType 0 ''Entry'' (CFG_TYPE_FLAG_MULTIPLE OR 10) []
       (Some cfg_type_processres_entry_ops) (Some cfg_type_processres_index)"

definition cfg_type_processres_ops :: cfg_node_ops where
  "cfg_type_processres_ops = no_ops \<lparr>
     op_set := Some DefaultFunc, op_get := Some DefaultFunc, op_query := Some DefaultFunc,
     op_commit := Some (Handler ''cfg_type_processres_func_commit'')\<rparr>"

definition cfg_type_processres_child :: "cfg_node_type list" where
  "cfg_type_processres_child =
    [
      cfg_type_processres_entry]"

definition cfg_type_processres :: "cfg_node_type" where
  "cfg_type_processres =
     CfgType 0 ''ProcessRes'' 1 cfg_type_processres_child
       (Some cfg_type_processres_ops) None"

section \<open>QoSAttr\<close>

definition cfg_type_qos_weightattr_ops :: cfg_node_ops where
  "cfg_type_qos_weightattr_ops = no_ops \<lparr>
     op_get := Some DefaultFunc, op_set := Some DefaultFunc, op_query := Some DefaultFunc,
     op_commit := Some DefaultFunc\<rparr>"

definition cfg_type_qos_weightentry :: "cfg_node_type" where
  "cfg_type_qos_weightentry =
     CfgType 0 ''WeightEntry'' 1 []
       (Some cfg_type_qos_weightattr_ops) None"

definition cfg_type_qos_carentry_ops :: cfg_node_ops where
  "cfg_type_qos_carentry_ops = no_ops \<lparr>
     op_get := Some DefaultFunc, op_set := Some DefaultFunc, op_query := Some DefaultFunc,
     op_commit := Some DefaultFunc\<rparr>"

definition cfg_type_qos_carentry :: "cfg_node_type" where
  "cfg_type_qos_carentry =
     CfgType 0 ''CarEntry'' 1 []
       (Some cfg_type_qos_carentry_ops) None"

definition cfg_type_qosattr_ops :: cfg_node_ops where
  "cfg_type_qosattr_ops = no_ops \<lparr>
     op_set := Some DefaultFunc, op_get := Some DefaultFunc, op_query := Some DefaultFunc,
     op_commit := Some DefaultFunc\<rparr>"

definition cfg_type_qosattr_child :: "cfg_node_type list" where
  "cfg_type_qosattr_child =
    [
      cfg_type_qos_weightentry, cfg_type_qos_carentry]"

definition cfg_type_qosattr :: "cfg_node_type" where
  "cfg_type_qosattr =
     CfgType 0 ''QoSAttr'' 1 cfg_type_qosattr_child
       (Some cfg_type_qosattr_ops) None"

section \<open>portTriggering\<close>

definition cfg_type_portTriggering_entry_ops :: cfg_node_ops where
  "cfg_type_portTriggering_entry_ops = no_ops \<lparr>
     op_get := Some DefaultFunc, op_set := Some DefaultFunc, op_create := Some DefaultFunc,
     op_delete := Some DefaultFunc, op_query := Some DefaultFunc,
     op_commit := Some (Handler ''cfg_type_portTriggering_func_commit'')\<rparr>"

definition cfg_type_portTriggering_index :: "string list" where
  "cfg_type_portTriggering_index = [''portTriggering_id'']"

definition cfg_type_portTriggering_entry :: "cfg_node_type" where
  "cfg_type_portTriggering_entry =
     CfgType 0 ''Entry'' (CFG_TYPE_FLAG_MULTIPLE OR CFG_TYPE_FLAG_UPDATE OR 8) []
       (Some cfg_type_portTriggering_entry_ops) (Some cfg_type_portTriggering_index)"

definition cfg_type_portTriggering_setting_ops :: cfg_node_ops where
  "cfg_type_portTriggering_setting_ops = no_ops \<lparr>
     op_get := Some (Handler ''cfg_type_portTriggering_setting_func_get''),
     op_set := Some DefaultFunc, op_query := Some DefaultFunc,
     op_commit := Some (Handler ''cfg_type_portTriggering_func_commit'')\<rparr>"

definition cfg_type_portTriggering_setting :: "cfg_node_type" where
  "cfg_type_portTriggering_setting =
     CfgType 0 ''setting'' 1 []
       (Some cfg_type_portTriggering_setting_ops) None"

definition cfg_type_portTriggering_ops :: cfg_node_ops where
  "cfg_type_portTriggering_ops = no_ops \<lparr>
     op_set := Some DefaultFunc, op_get := Some DefaultFunc, op_query := Some DefaultFunc,
     op_commit := Some (Handler ''cfg_type_portTriggering_func_commit'')\<rparr>"

definition cfg_type_portTriggering_child :: "cfg_node_type list" where
  "cfg_type_portTriggering_child =
    [
      cfg_type_portTriggering_entry, cfg_type_portTriggering_setting]"

definition cfg_type_portTriggering :: "cfg_node_type" where
  "cfg_type_portTriggering =
     CfgType 0 ''portTriggering'' (CFG_TYPE_FLAG_UPDATE OR 1) cfg_type_portTriggering_child
       (Some cfg_type_portTriggering_ops) None"

section \<open>GUITemp\<close>

definition cfg_type_GUITemp_entry_ops :: cfg_node_ops where
  "cfg_type_GUITemp_entry_ops = no_ops \<lparr>
     op_get := Some DefaultFunc, op_set := Some DefaultFunc, op_create := Some DefaultFunc,
     op_delete := Some DefaultFunc, op_query := Some DefaultFunc,
     op_commit := Some DefaultFunc\<rparr>"

definition cfg_type_GUITemp_index :: "string list" where
  "cfg_type_GUITemp_index = [''GUITemp_id'']"

definition cfg_type_GUITemp_entry :: "cfg_node_type" where
  "cfg_type_GUITemp_entry =
     CfgType 0 ''Entry'' (CFG_TYPE_FLAG_MULTIPLE OR CFG_TYPE_FLAG_MEMORY OR 8) []
       (Some cfg_type_GUITemp_entry_ops) (Some cfg_type_GUITemp_index)"

definition cfg_type_GUITemp_ops :: cfg_node_ops where
  "cfg_type_GUITemp_ops = no_ops \<lparr>
     op_set := Some DefaultFunc, op_get := Some DefaultFunc, op_query := Some DefaultFunc,
     op_commit := Some DefaultFunc\<rparr>"

definition cfg_type_GUITemp_child :: "cfg_node_type list" where
  "cfg_type_GUITemp_child =
    [
      cfg_type_GUITemp_entry]"

definition cfg_type_GUITemp :: "cfg_node_type" where
  "cfg_type_GUITemp =
     CfgType 0 ''GUITemp'' 1 cfg_type_GUITemp_child
       (Some cfg_type_GUITemp_ops) None"

section \<open>Autoexec\<close>

definition cfg_type_autoexec_entry_ops :: cfg_node_ops where
  "cfg_type_autoexec_entry_ops = no_ops \<lparr>
     op_get := Some DefaultFunc, op_set := Some DefaultFunc, op_query := Some DefaultFunc,
     op_commit := Some (Handler ''cfg_type_autoexec_func_commit'')\<rparr>"

definition cfg_type_autoexec_entry :: "cfg_node_type" where
  "cfg_type_autoexec_entry =
     CfgType 0 ''Entry'' 1 []
       (Some cfg_type_autoexec_entry_ops) None"

definition cfg_type_autoexec_ops :: cfg_node_ops where
  "cfg_type_autoexec_ops = no_ops \<lparr>
     op_set := Some DefaultFunc, op_get := Some DefaultFunc, op_query := Some DefaultFunc,
     op_commit := Some (Handler ''cfg_type_autoexec_func_commit'')\<rparr>"

definition cfg_type_autoexec_child :: "cfg_node_type list" where
  "cfg_type_autoexec_child =
    [
      cfg_type_autoexec_entry]"

definition cfg_type_autoexec :: "cfg_node_type" where
  "cfg_type_autoexec =
     CfgType 0 ''Autoexec'' 1 cfg_type_autoexec_child
       (Some cfg_type_autoexec_ops) None"

section \<open>Mesh\<close>

definition cfg_type_mesh_dat_ops :: cfg_node_ops where
  "cfg_type_mesh_dat_ops = no_ops \<lparr>
     op_set := Some DefaultFunc, op_get := Some DefaultFunc, op_query := Some DefaultFunc,
     op_commit := Some (Handler ''cfg_type_mesh_dat_commit'')\<rparr>"

definition cfg_type_mesh_dat :: "cfg_node_type" where
  "cfg_type_mesh_dat =
     CfgType 0 ''dat'' 1 []
       (Some cfg_type_mesh_dat_ops) None"

definition cfg_type_mesh_common_ops :: cfg_node_ops where
  "cfg_type_mesh_common_ops = no_ops \<lparr>
     op_set := Some (Handler ''cfg_type_mesh_common_func_set''),
     op_get := Some (Handler ''cfg_type_mesh_common_func_get''),
     op_query := Some DefaultFunc,
     op_commit := Some (Handler ''cfg_type_mesh_common_commit'')\<rparr>"

definition cfg_type_mesh_common :: "cfg_node_type" where
  "cfg_type_mesh_common =
     CfgType 0 ''common'' 1 []
       (Some cfg_type_mesh_common_ops) None"

definition cfg_type_mesh_action_ops :: cfg_node_ops where
  "cfg_type_mesh_action_ops = no_ops \<lparr>
     op_set := Some DefaultFunc, op_get := Some DefaultFunc, op_query := Some DefaultFunc,
     op_commit := Some (Handler ''cfg_type_mesh_action_commit'')\<rparr>"

definition cfg_type_mesh_action :: "cfg_node_type" where
  "cfg_type_mesh_action =
     CfgType 0 ''action'' 1 []
       (Some cfg_type_mesh_action_ops) None"

definition cfg_type_mesh_actionpara_ops :: cfg_node_ops where
  "cfg_type_mesh_actionpara_ops = no_ops \<lparr>
     op_set := Some DefaultFunc, op_get := Some DefaultFunc, op_query := Some DefaultFunc,
     op_commit := Some DefaultFunc\<rparr>"

definition cfg_type_mesh_actionpara :: "cfg_node_type" where
  "cfg_type_mesh_actionpara =
     CfgType 0 ''actionpara'' 1 []
       (Some cfg_type_mesh_actionpara_ops) None"

definition cfg_type_mesh_map_cfg_ops :: cfg_node_ops where
  "cfg_type_mesh_map_cfg_ops = no_ops \<lparr>
     op_set := Some DefaultFunc, op_get := Some DefaultFunc, op_query := Some DefaultFunc,
     op_commit := Some (Handler ''cfg_type_mesh_mapcfg_commit'')\<rparr>"

definition cfg_type_mesh_map_cfg :: "cfg_node_type" where
  "cfg_type_mesh_map_cfg =
     CfgType 0 ''mapcfg'' 1 []
       (Some cfg_type_mesh_map_cfg_ops) None"

definition cfg_type_mesh_mapd_cfg_ops :: cfg_node_ops where
  "cfg_type_mesh_mapd_cfg_ops = no_ops \<lparr>
     op_set := Some (Handler ''cfg_type_mesh_mapd_cfg_func_set''),
     op_get := Some DefaultFunc, op_query := Some DefaultFunc,
     op_commit := Some (Handler ''cfg_type_mesh_mapdcfg_commit'')\<rparr>"

definition cfg_type_mesh_mapd_cfg :: "cfg_node_type" where
  "cfg_type_mesh_mapd_cfg =
     CfgType 0 ''mapdcfg'' 1 []
       (Some cfg_type_mesh_mapd_cfg_ops) None"

definition cfg_type_mesh_steer_cfg_ops :: cfg_node_ops where
  "cfg_type_mesh_steer_cfg_ops = no_ops \<lparr>
     op_set := Some DefaultFunc, op_get := Some DefaultFunc, op_query := Some DefaultFunc,
     op_commit := Some (Handler ''cfg_type_mesh_steercfg_commit'')\<rparr>"

definition cfg_type_mesh_steer_cfg :: "cfg_node_type" where
  "cfg_type_mesh_steer_cfg =
     CfgType 0 ''steercfg'' 1 []
       (Some cfg_type_mesh_steer_cfg_ops) None"

definition cfg_type_mesh_radio2g_bss_cfg_ops :: cfg_node_ops where
  "cfg_type_mesh_radio2g_bss_cfg_ops = no_ops \<lparr>
     op_set := Some (Handler ''cfg_type_mesh_radio_bss_func_set''),
     op_get := Some DefaultFunc, op_query := Some DefaultFunc,
     op_commit := Some (Handler ''cfg_type_mesh_radio_bss_cfg_func_commit''),
     op_create := Some DefaultFunc, op_delete := Some DefaultFunc\<rparr>"

definition cfg_type_mesh_radio2g_index :: "string list" where
  "cfg_type_mesh_radio2g_index = [''mesh_radio2gbssinfo'']"

definition cfg_type_mesh_radio2g_bss_cfg :: "cfg_node_type" where
  "cfg_type_mesh_radio2g_bss_cfg =
     CfgType 0 ''entry'' (CFG_TYPE_FLAG_MULTIPLE OR 16) []
       (Some cfg_type_mesh_radio2g_bss_cfg_ops) (Some cfg_type_mesh_radio2g_index)"

definition cfg_type_mesh_radio2g_ops :: cfg_node_ops where
  "cfg_type_mesh_radio2g_ops = no_ops \<lparr>
     op_set := Some DefaultFunc, op_get := Some DefaultFunc, op_query := Some DefaultFunc,
     op_commit := Some DefaultFunc\<rparr>"

definition cfg_type_mesh_radio2g_child :: "cfg_node_type list" where
  "cfg_type_mesh_radio2g_child =
    [
      cfg_type_mesh_radio2g_bss_cfg]"

definition cfg_type_mesh_radio2g :: "cfg_node_type" where
  "cfg_type_mesh_radio2g =
     CfgType 0 ''radio2gbssinfo'' 1 cfg_type_mesh_radio2g_child
       (Some cfg_type_mesh_radio2g_ops) None"

definition cfg_type_mesh_radio5gl_bss_cfg_ops :: cfg_node_ops where
  "cfg_type_mesh_radio5gl_bss_cfg_ops = no_ops \<lparr>
     op_set := Some (Handler ''cfg_type_mesh_radio_bss_func_set''),
     op_get := Some DefaultFunc, op_query := Some DefaultFunc,
     op_commit := Some (Handler ''cfg_type_mesh_radio_bss_cfg_func_commit''),
     op_create := Some DefaultFunc, op_delete := Some DefaultFunc\<rparr>"

definition cfg_type_mesh_radio5gl_index :: "string list" where
  "cfg_type_mesh_radio5gl_index = [''mesh_radio5glbssinfo'']"

definition cfg_type_mesh_radio5gl_bss_cfg :: "cfg_node_type" where
  "cfg_type_mesh_radio5gl_bss_cfg =
     CfgType 0 ''entry'' (CFG_TYPE_FLAG_MULTIPLE OR 16) []
       (Some cfg_type_mesh_radio5gl_bss_cfg_ops) (Some cfg_type_mesh_radio5gl_index)"

definition cfg_type_mesh_radio5gl_ops :: cfg_node_ops where
  "cfg_type_mesh_radio5gl_ops = no_ops \<lparr>
     op_set := Some DefaultFunc, op_get := Some DefaultFunc, op_commit := Some DefaultFunc,
     op_query := Some DefaultFunc\<rparr>"

definition cfg_type_mesh_radio5gl_child :: "cfg_node_type list" where
  "cfg_type_mesh_radio5gl_child =
    [
      cfg_type_mesh_radio5gl_bss_cfg]"

definition cfg_type_mesh_radio5gl :: "cfg_node_type" where
  "cfg_type_mesh_radio5gl =
     CfgType 0 ''radio5glbssinfo'' 1 cfg_type_mesh_radio5gl_child
       (Some cfg_type_mesh_radio5gl_ops) None"

definition cfg_type_mesh_radio5gh_bss_cfg_ops :: cfg_node_ops where
  "cfg_type_mesh_radio5gh_bss_cfg_ops = no_ops \<lparr>
     op_set := Some (Handler ''cfg_type_mesh_radio_bss_func_set''),
     op_get := Some DefaultFunc, op_query := Some DefaultFunc,
     op_commit := Some (Handler ''cfg_type_mesh_radio_bss_cfg_func_commit''),
     op_create := Some DefaultFunc, op_delete := Some DefaultFunc\<rparr>"

definition cfg_type_mesh_radio5gh_index :: "string list" where
  "cfg_type_mesh_radio5gh_index = [''mesh_radio5ghbssinfo'']"

definition cfg_type_mesh_radio5gh_bss_cfg :: "cfg_node_type" where
  "cfg_type_mesh_radio5gh_bss_cfg =
     CfgType 0 ''entry'' (CFG_TYPE_FLAG_MULTIPLE OR 16) []
       (Some cfg_type_mesh_radio5gh_bss_cfg_ops) (Some cfg_type_mesh_radio5gh_index)"

definition cfg_type_mesh_radio5gh_ops :: cfg_node_ops where
  "cfg_type_mesh_radio5gh_ops = no_ops \<lparr>
     op_set := Some DefaultFunc, op_get := Some DefaultFunc, op_query := Some DefaultFunc,
     op_commit := Some DefaultFunc\<rparr>"

definition cfg_type_mesh_radio5gh_child :: "cfg_node_type list" where
  "cfg_type_mesh_radio5gh_child =
    [
      cfg_type_mesh_radio5gh_bss_cfg]"

definition cfg_type_mesh_radio5gh :: "cfg_node_type" where
  "cfg_type_mesh_radio5gh =
     CfgType 0 ''radio5ghbssinfo'' 1 cfg_type_mesh_radio5gh_child
       (Some cfg_type_mesh_radio5gh_ops) None"

definition cfg_type_mesh_DefSetting_ops :: cfg_node_ops where
  "cfg_type_mesh_DefSetting_ops = no_ops \<lparr>
     op_set := Some DefaultFunc, op_get := Some DefaultFunc, op_query := Some DefaultFunc,
     op_commit := Some DefaultFunc\<rparr>"

definition cfg_type_mesh_DefSetting :: "cfg_node_type" where
  "cfg_type_mesh_DefSetting =
     CfgType 0 ''defsetting'' 1 []
       (Some cfg_type_mesh_DefSetting_ops) None"

definition cfg_type_mesh_apcli_cfg_ops :: cfg_node_ops where
  "cfg_type_mesh_apcli_cfg_ops = no_ops \<lparr>
     op_set := Some DefaultFunc, op_get := Some DefaultFunc, op_query := Some DefaultFunc,
     op_commit := Some DefaultFunc, op_create := Some DefaultFunc,
     op_delete := Some DefaultFunc\<rparr>"

definition cfg_type_mesh_apcli_index :: "string list" where
  "cfg_type_mesh_apcli_index = [''mesh_apclibh'']"

definition cfg_type_mesh_apcli_cfg :: "cfg_node_type" where
  "cfg_type_mesh_apcli_cfg =
     CfgType 0 ''entry'' (CFG_TYPE_FLAG_MULTIPLE OR 6) []
       (Some cfg_type_mesh_apcli_cfg_ops) (Some cfg_type_mesh_apcli_index)"

definition cfg_type_mesh_apcli_ops :: cfg_node_ops where
  "cfg_type_mesh_apcli_ops = no_ops \<lparr>
     op_set := Some DefaultFunc, op_get := Some DefaultFunc, op_query := Some DefaultFunc,
     op_commit := Some DefaultFunc\<rparr>"

definition cfg_type_mesh_apcli_child :: "cfg_node_type list" where
  "cfg_type_mesh_apcli_child =
    [
      cfg_type_mesh_apcli_cfg]"

definition cfg_type_mesh_apcli :: "cfg_node_type" where
  "cfg_type_mesh_apcli =
     CfgType 0 ''apclibh'' 1 cfg_type_mesh_apcli_child
       (Some cfg_type_mesh_apcli_ops) None"

definition cfg_type_mesh_ops :: cfg_node_ops where
  "cfg_type_mesh_ops = no_ops \<lparr>
     op_set := Some DefaultFunc, op_get := Some DefaultFunc, op_query := Some DefaultFunc,
     op_commit := Some DefaultFunc\<rparr>"

definition cfg_type_mesh_child :: "cfg_node_type list" where
  "cfg_type_mesh_child =
    [
      cfg_type_mesh_dat, cfg_type_mesh_common, cfg_type_mesh_action,
      cfg_type_mesh_actionpara, cfg_type_mesh_map_cfg, cfg_type_mesh_mapd_cfg,
      cfg_type_mesh_steer_cfg, cfg_type_mesh_radio2g, cfg_type_mesh_radio5gl,
      cfg_type_mesh_radio5gh, cfg_type_mesh_DefSetting, cfg_type_mesh_apcli]"

definition cfg_type_mesh :: "cfg_node_type" where
  "cfg_type_mesh =
     CfgType 0 ''Mesh'' 1 cfg_type_mesh_child
       (Some cfg_type_mesh_ops) None"

section \<open>InterfaceRate\<close>

definition cfg_type_interfacerate_entry_ops :: cfg_node_ops where
  "cfg_type_interfacerate_entry_ops = no_ops \<lparr>
     op_get := Some (Handler ''cfg_type_interface_rate_entry_get''),
     op_set := Some DefaultFunc, op_create := Some DefaultFunc,
     op_delete := Some DefaultFunc, op_query := Some DefaultFunc,
     op_commit := Some DefaultFunc\<rparr>"

definition cfg_type_interface_rate_index :: "string list" where
  "cfg_type_interface_rate_index = [''interfacerate_id'']"

definition cfg_type_interfacerate_entry :: "cfg_node_type" where
  "cfg_type_interfacerate_entry =
     CfgType 0 ''Entry'' (CFG_TYPE_FLAG_MEMORY OR CFG_TYPE_FLAG_MULTIPLE OR 64) []
       (Some cfg_type_interfacerate_entry_ops) (Some cfg_type_interface_rate_index)"

definition cfg_type_interfacerate_ops :: cfg_node_ops where
  "cfg_type_interfacerate_ops = no_ops \<lparr>
     op_set := Some DefaultFunc, op_get := Some DefaultFunc, op_query := Some DefaultFunc,
     op_commit := Some DefaultFunc\<rparr>"

definition cfg_type_interfacerate_child :: "cfg_node_type list" where
  "cfg_type_interfacerate_child =
    [
      cfg_type_interfacerate_entry]"

definition cfg_type_interfacerate :: "cfg_node_type" where
  "cfg_type_interfacerate =
     CfgType 0 ''InterfaceRate'' 1 cfg_type_interfacerate_child
       (Some cfg_type_interfacerate_ops) None"

end
