(* ===== verification/ProductTypes.thy ===== *)
theory ProductTypes
  imports TypesA TypesB TypesC TypesD CfgPathSpec
begin

text \<open>
  The whole type tree of the build profile in the repository. The two table sizes that come
  from headers outside the repository are the argument \<open>mx\<close>.
\<close>

definition cfg_type_root_child :: "(string \<Rightarrow> u32) \<Rightarrow> cfg_node_type list" where
  "cfg_type_root_child mx =
    [
      cfg_type_epon, cfg_type_oam, cfg_type_gpon, cfg_type_pm, cfg_type_omci,
      cfg_type_xpon, cfg_type_sysinfo, cfg_type_sys, cfg_type_lan, cfg_type_wan,
      cfg_type_waninfo, cfg_type_radvd, cfg_type_dhcp6s, cfg_type_dhcpd,
      cfg_type_dhcprelay, cfg_type_dhcplease, cfg_type_lanhost, cfg_type_lanhost2 mx,
      cfg_type_lanhost2black mx, cfg_type_wlan, cfg_type_wlan11ac, cfg_type_firewall,
      cfg_type_ipsec, cfg_type_route, cfg_type_route6, cfg_type_nat, cfg_type_dmz,
      cfg_type_virserver, cfg_type_algswitch, cfg_type_ddns, cfg_type_snmpd,
      cfg_type_upnpd, cfg_type_timezone, cfg_type_mac, cfg_type_wifimactab, cfg_type_cwmp,
      cfg_type_tr069attr, cfg_type_ipinterface, cfg_type_cwmproute, cfg_type_switchpara,
      cfg_type_portal, cfg_type_account, cfg_type_system, cfg_type_webcurset,
      cfg_type_webcustom, cfg_type_dyndisp, cfg_type_dyncwmpattr, cfg_type_diagnostic,
      cfg_type_deviceinfo, cfg_type_info, cfg_type_qos, cfg_type_vlanbind mx, cfg_type_acl,
      cfg_type_ipmacfilter, cfg_type_appfilter, cfg_type_urlfilter, cfg_type_autopvc,
      cfg_type_sslca, cfg_type_dms, cfg_type_igmpproxy, cfg_type_mldproxy, cfg_type_syslog,
      cfg_type_accesslimit, cfg_type_ctdiagnostic, cfg_type_devicealarm,
      cfg_type_devicemonitor, cfg_type_appftp, cfg_type_usbrestore, cfg_type_mobile,
      cfg_type_usbmount, cfg_type_logicid, cfg_type_dnsspeedlimit,
      cfg_type_attachwandnstunnel, cfg_type_plugin, cfg_type_globalstate,
      cfg_type_voipsysparam, cfg_type_voipbasic, cfg_type_voipadvanced,
      cfg_type_voipdigitmap, cfg_type_voiptest, cfg_type_voipsimulatetest,
      cfg_type_voipdiag, cfg_type_voipcallctrl, cfg_type_voipmedia, cfg_type_voipcodecs,
      cfg_type_voiph248, cfg_type_infovoip, cfg_type_infovoiph248, cfg_type_infovoippoorql,
      cfg_type_voipspeed, cfg_type_samba, cfg_type_ssh, cfg_type_dproxy, cfg_type_vpnlist,
      cfg_type_parental, cfg_type_parental_mac, cfg_type_pminform, cfg_type_string,
      cfg_type_languageswitch, cfg_type_timer, cfg_type_wlanmapping,
      cfg_type_ctc_dnsserver, cfg_type_incomingfilter, cfg_type_dnsfilter,
      cfg_type_wlancollectinfo, cfg_type_speedtest, cfg_type_vpndomain,
      cfg_type_vpndomaincache, cfg_type_vpnmac, cfg_type_vpnips, cfg_type_process,
      cfg_type_processres, cfg_type_qosattr, cfg_type_portTriggering, cfg_type_GUITemp,
      cfg_type_autoexec, cfg_type_mesh, cfg_type_interfacerate
    ]"

definition product_root :: "(string \<Rightarrow> u32) \<Rightarrow> cfg_node_type" where
  "product_root mx = cfg_type_root (cfg_type_root_child mx)"

section \<open>Types a path can reach\<close>

text \<open>The tree in which, of brothers with the same name up to case, only the first is left.\<close>

fun dedup_types :: "string list \<Rightarrow> cfg_node_type list \<Rightarrow> cfg_node_type list" where
  "dedup_types seen [] = []"
| "dedup_types seen (CfgType i nm fl subs ops ix # bs) =
     (if lower nm \<in> set seen then dedup_types seen bs
      else CfgType i nm fl (dedup_types [] subs) ops ix # dedup_types (lower nm # seen) bs)"

lemma dedup_seen: "t \<in> set (dedup_types seen ts) \<Longrightarrow> lower (type_name t) \<notin> set seen"
  by (induction seen ts rule: dedup_types.induct) (auto split: if_splits)

lemma dedup_types_ok:
  "\<forall>t \<in> set (type_nodes ts). name_ok (type_name t) \<Longrightarrow> types_ok (dedup_types seen ts)"
proof (induction seen ts rule: dedup_types.induct)
  case (2 seen i nm fl subs ops ix bs)
  have "lower nm \<notin> set (map (\<lambda>t. lower (type_name t)) (dedup_types (lower nm # seen) bs))"
    using dedup_seen by fastforce
  with "2" show ?case by simp
qed simp

text \<open>Counting the types and checking their names without building the list of all nodes.\<close>

fun type_count :: "cfg_node_type list \<Rightarrow> nat" where
  "type_count [] = 0"
| "type_count (CfgType i nm fl subs ops ix # bs) = Suc (type_count subs + type_count bs)"

fun all_names_ok :: "cfg_node_type list \<Rightarrow> bool" where
  "all_names_ok [] = True"
| "all_names_ok (CfgType i nm fl subs ops ix # bs) =
     (name_ok nm \<and> all_names_ok subs \<and> all_names_ok bs)"

lemma type_count_nodes: "length (type_nodes ts) = type_count ts"
  by (induction ts rule: type_nodes.induct) auto

lemma all_names_ok_nodes: "all_names_ok ts \<Longrightarrow> t \<in> set (type_nodes ts) \<Longrightarrow> name_ok (type_name t)"
  by (induction ts rule: type_nodes.induct) auto

lemma product_count: "type_count [product_root mx] = 409"
  by code_simp

lemma product_depth: "type_depth [product_root mx] = 4"
  by code_simp

lemma product_names: "all_names_ok [product_root mx]"
  by code_simp

lemma product_dedup_count: "type_count (dedup_types [] [product_root mx]) = 408"
  by code_simp

text \<open>C21: On the type tree of the shipped profile the numbering succeeds: its 409 types fit
  the cache and are at most four levels deep, and every number is found again by
  \<open>cfg_type_find_by_id\<close>. All names are well formed, and exactly one type shares its name
  with an earlier brother: without it the tree meets the conditions under which types and
  paths correspond.\<close>

theorem product_tree_numbered:
  "\<exists>db. cfg_type_init (product_root mx) = Ret db \<and> length (db_cache db) = 409 \<and> db_ok db \<and>
     (\<forall>t \<in> set (type_nodes [db_root db]). cfg_type_find_by_id db (type_id t) = Some t) \<and>
     type_depth [db_root db] = 4 \<and>
     types_ok (dedup_types [] [product_root mx]) \<and>
     length (type_nodes (dedup_types [] [product_root mx])) = 408"
proof -
  obtain db where db: "cfg_type_init (product_root mx) = Ret db"
    using init_total [of "product_root mx"] product_count [of mx]
    by (auto simp: c_defs type_count_nodes simp del: type_nodes.simps type_count.simps)
  have "types_ok (dedup_types [] [product_root mx])"
    using all_names_ok_nodes [OF product_names] by (intro dedup_types_ok) blast
  then show ?thesis
    using db init_spec [OF db] init_depth [OF db] find_by_id_node [OF init_spec(1) [OF db]]
      product_count product_depth product_dedup_count
    by (auto simp: type_count_nodes simp del: type_count.simps type_nodes.simps type_depth.simps dedup_types.simps types_ok.simps)
qed

theorem product_tree_numbered_witness:
  "\<exists>db. cfg_type_init (product_root (\<lambda>_. 14)) = Ret db \<and> length (db_cache db) = 409"
  using product_tree_numbered [of "\<lambda>_. 14"] by blast

text \<open>The type that shares its name is \<open>cfg_type_info_romfilechk\<close>: no name makes
  \<open>cfg_type_query_child\<close> return it from \<open>Info\<close>, because \<open>cfg_type_info_RomfileCheck\<close> comes
  first under the same name.\<close>

theorem romfilechk_unreachable:
  "cfg_type_info_romfilechk \<in> set (type_subtype cfg_type_info) \<and>
   cfg_type_query_child db (Some cfg_type_info) (Some name) \<noteq> Some cfg_type_info_romfilechk"
proof (rule conjI)
  have s: "type_subtype cfg_type_info = cfg_type_info_child" by (simp add: cfg_type_info_def)
  show "cfg_type_info_romfilechk \<in> set (type_subtype cfg_type_info)"
    unfolding s cfg_type_info_child_def by (simp only: list.set insert_iff simp_thms)
  have ne: "cfg_type_info_RomfileCheck \<noteq> cfg_type_info_romfilechk" by code_simp
  have nm: "type_name cfg_type_info_RomfileCheck = type_name cfg_type_info_romfilechk" by code_simp
  have at: "cfg_type_info_child ! 25 = cfg_type_info_RomfileCheck" "length cfg_type_info_child = 28"
    by (simp_all add: cfg_type_info_child_def)
  have before: "list_all (\<lambda>t. type_name t \<noteq> type_name cfg_type_info_romfilechk) (take 25 cfg_type_info_child)"
    by code_simp
  show "cfg_type_query_child db (Some cfg_type_info) (Some name) \<noteq> Some cfg_type_info_romfilechk"
  proof
    assume "cfg_type_query_child db (Some cfg_type_info) (Some name) = Some cfg_type_info_romfilechk"
    then obtain i where i: "i < 28" "cfg_type_info_child ! i = cfg_type_info_romfilechk"
        "name_match (type_name cfg_type_info_romfilechk) name"
        "\<forall>j < i. \<not> name_match (type_name (cfg_type_info_child ! j)) name"
      by (auto simp: query_child_find s find_Some_iff at(2))
    have "\<not> i < 25" using before i(2) at(2) by (auto simp: list_all_length)
    moreover have "i \<noteq> 25" using i(2) at(1) ne by auto
    ultimately have "\<not> name_match (type_name (cfg_type_info_child ! 25)) name" using i(4) by auto
    with at(1) nm i(3) show False by simp
  qed
qed

end
