(* ===== verification/ProductFile.thy ===== *)
theory ProductFile
  imports CfgFileSpec ProductTypes
begin

text \<open>
  Which types of the shipped profile are saved under names that the loader reads back.
\<close>

section \<open>Saved names of the shipped types\<close>

text \<open>The types that are saved and whose elements are not read back under their type.\<close>

fun unsafe_saved :: "string \<Rightarrow> cfg_node_type list \<Rightarrow> string list" where
  "unsafe_saved pre [] = []"
| "unsafe_saved pre (CfgType i nm fl subs ops ix # bs) =
     (if is_flag CFG_TYPE_FLAG_MEMORY (CfgType i nm fl subs ops ix) then []
      else (if tag_safe (CfgType i nm fl subs ops ix) then [] else [pre @ nm]) @ unsafe_saved (pre @ nm @ ''.'') subs) @
     unsafe_saved pre bs"

text \<open>The three types whose tables have a size from a header outside the repository.\<close>

definition sized_types :: "string list" where
  "sized_types = [''LANHost2'', ''LANHost2Black'', ''VlanBind'']"

lemma unsafe_saved_Cons: "unsafe_saved pre (t # ts) = unsafe_saved pre [t] @ unsafe_saved pre ts"
  by (cases t) simp

lemma unsafe_saved_filter:
  "\<forall>t \<in> set (filter P ts). unsafe_saved pre [t] = [] \<Longrightarrow>
   unsafe_saved pre ts = unsafe_saved pre (filter (\<lambda>t. \<not> P t) ts)"
proof (induction ts)
  case (Cons t ts)
  then show ?case
    using unsafe_saved_Cons [of pre t ts] unsafe_saved_Cons [of pre t "filter (\<lambda>t. \<not> P t) ts"]
    by (simp del: unsafe_saved.simps(2))
qed simp

lemma multiple_or: "(CFG_TYPE_FLAG_MULTIPLE OR x) AND CFG_TYPE_FLAG_MULTIPLE \<noteq> 0"
    "(y OR CFG_TYPE_FLAG_MULTIPLE OR x) AND CFG_TYPE_FLAG_MULTIPLE \<noteq> 0" for x y :: u32
proof -
  have "bit ((CFG_TYPE_FLAG_MULTIPLE OR x) AND CFG_TYPE_FLAG_MULTIPLE) 8"
    "bit ((y OR CFG_TYPE_FLAG_MULTIPLE OR x) AND CFG_TYPE_FLAG_MULTIPLE) 8"
    by (simp_all add: bit_simps CFG_TYPE_FLAG_MULTIPLE_def)
  then show "(CFG_TYPE_FLAG_MULTIPLE OR x) AND CFG_TYPE_FLAG_MULTIPLE \<noteq> 0"
    "(y OR CFG_TYPE_FLAG_MULTIPLE OR x) AND CFG_TYPE_FLAG_MULTIPLE \<noteq> 0" by auto
qed

lemma entry_safe: "type_flag t AND CFG_TYPE_FLAG_MULTIPLE \<noteq> 0 \<Longrightarrow> type_name t = ''Entry'' \<Longrightarrow> tag_safe t"
  by (simp add: tag_safe_def is_flag_def lower_char_def cval_def char_of_eq_iff take_bit_eq_mod)

lemma product_unsized:
  "unsafe_saved [] (filter (\<lambda>t. \<not> type_name t \<in> set sized_types) (cfg_type_root_child mx)) =
     [''Lan.BSR'', ''VPN.Common'', ''VPN.DelDomainEntry'']"
  by code_simp

lemma product_sized:
  "filter (\<lambda>t. type_name t \<in> set sized_types) (cfg_type_root_child mx) =
     [cfg_type_lanhost2 mx, cfg_type_lanhost2black mx, cfg_type_vlanbind mx]"
  by code_simp

lemma sized_safe: "t \<in> {cfg_type_lanhost2 mx, cfg_type_lanhost2black mx, cfg_type_vlanbind mx} \<Longrightarrow> unsafe_saved [] [t] = []"
proof -
  have e: "tag_safe (cfg_type_lanhost2_entry mx)" "tag_safe (cfg_type_lanhost2black_entry mx)" "tag_safe (cfg_type_vlanbind_entry mx)"
    unfolding cfg_type_lanhost2_entry_def cfg_type_lanhost2black_entry_def cfg_type_vlanbind_entry_def
    by (rule entry_safe; simp only: cfg_node_type.sel multiple_or not_False_eq_True)+
  have c: "tag_safe (cfg_type_lanhost2 mx)" "tag_safe (cfg_type_lanhost2black mx)" "tag_safe (cfg_type_vlanbind mx)"
    "tag_safe cfg_type_lanhost2_common" "tag_safe cfg_type_lanhost2black_common"
    by code_simp+
  show "t \<in> {cfg_type_lanhost2 mx, cfg_type_lanhost2black mx, cfg_type_vlanbind mx} \<Longrightarrow> unsafe_saved [] [t] = []"
    using e c by (auto simp: cfg_type_lanhost2_def cfg_type_lanhost2_child_def cfg_type_lanhost2_entry_def cfg_type_lanhost2_common_def
       cfg_type_lanhost2black_def cfg_type_lanhost2black_child_def cfg_type_lanhost2black_entry_def cfg_type_lanhost2black_common_def
       cfg_type_vlanbind_def cfg_type_vlanbind_child_def cfg_type_vlanbind_entry_def)
qed

lemma product_unsafe: "unsafe_saved [] (cfg_type_root_child mx) = [''Lan.BSR'', ''VPN.Common'', ''VPN.DelDomainEntry'']"
proof -
  have "\<forall>t \<in> set (filter (\<lambda>t. type_name t \<in> set sized_types) (cfg_type_root_child mx)). unsafe_saved [] [t] = []"
    unfolding product_sized using sized_safe [of _ mx] by simp
  from unsafe_saved_filter [OF this] product_unsized show ?thesis by simp
qed


lemma walk_names_unnumbered: "walk_names (unnumbered ts) ns = None \<longleftrightarrow> walk_names ts ns = None"
proof (induction ns arbitrary: ts)
  case (Cons n ns)
  have f: "find (\<lambda>t. name_match (type_name t) n) (unnumbered us) =
      map_option (\<lambda>t. hd (unnumbered [t])) (find (\<lambda>t. name_match (type_name t) n) us)" for us
    by (induction us rule: unnumbered.induct) auto
  have s: "type_subtype (hd (unnumbered [t])) = unnumbered (type_subtype t)" for t by (cases t) simp
  show ?case using Cons.IH by (auto simp: f s split: option.splits)
qed simp

lemma query_names:
  "\<forall>n \<in> set ns. name_ok n \<Longrightarrow> ns \<noteq> [] \<Longrightarrow> length ns < CFG_MAX_NODE_LEVEL \<Longrightarrow>
   cfg_type_query db (join_dots ns) = Ret (walk_names [db_root db] ns)"
  using query_tokens [of ns db] walk_tokens_names [of ns db None True] by simp

lemma product_bsr_walk: "walk_names (unnumbered [product_root mx]) [''root'', ''lan'', ''bsr0''] = None"
  by code_simp

section \<open>Properties\<close>

text \<open>In the shipped tree every saved type is read back under its type except three:
  \<open>BSR\<close> of \<open>Lan\<close> and \<open>Common\<close> and \<open>DelDomainEntry\<close> of \<open>VPN\<close> have several instances but are
  not called \<open>Entry\<close> or \<open>PVC\<close>. The first instance of \<open>BSR\<close> is saved as \<open>BSR0\<close>, the loader
  makes the path \<open>root.lan.bsr0\<close> of it, and that path has no type: its attributes are lost.\<close>

theorem product_saved_names:
  assumes "cfg_type_init (product_root mx) = Ret db"
  shows "unsafe_saved [] (type_subtype (product_root mx)) = [''Lan.BSR'', ''VPN.Common'', ''VPN.DelDomainEntry''] \<and>
    saved_tag (cfg_type_lan_bsr, 1) = ''BSR0'' \<and>
    cfg_xml_node_to_path db [''BSR0'', ''Lan'', ''ROMFILE''] = Ret ''root.lan.bsr0'' \<and>
    cfg_type_query db ''root.lan.bsr0'' = Ret None"
proof (intro conjI)
  have u: "unnumbered [db_root db] = unnumbered [product_root mx]" by (rule init_spec(2) [OF assms])
  have nm: "type_name (hd (unnumbered [t])) = type_name t" for t by (cases t) simp
  have root: "type_name (db_root db) = ''root''"
    using nm [of "db_root db"] nm [of "product_root mx"] unfolding u
    by (simp add: product_root_def cfg_type_root_def)
  show "unsafe_saved [] (type_subtype (product_root mx)) = [''Lan.BSR'', ''VPN.Common'', ''VPN.DelDomainEntry'']"
    using product_unsafe [of mx] by (simp only: product_root_def cfg_type_root_def cfg_node_type.sel)
  show "saved_tag (cfg_type_lan_bsr, 1) = ''BSR0''" by code_simp
  have "map tag_component [''BSR0'', ''Lan'', ''root''] = [Ret ''bsr0'', Ret ''lan'', Ret ''root'']" by code_simp
  then show "cfg_xml_node_to_path db [''BSR0'', ''Lan'', ''ROMFILE''] = Ret ''root.lan.bsr0''"
    using root by (simp add: cfg_xml_node_to_path_def cfg_type_get_root_def c_defs)
  have "walk_names [db_root db] [''root'', ''lan'', ''bsr0''] = None"
    using product_bsr_walk [of mx] walk_names_unnumbered [of "[db_root db]"] unfolding u by blast
  moreover have "\<forall>n \<in> set [''root'', ''lan'', ''bsr0'']. name_ok n" "join_dots [''root'', ''lan'', ''bsr0''] = ''root.lan.bsr0''"
    by code_simp+
  ultimately show "cfg_type_query db ''root.lan.bsr0'' = Ret None"
    using query_names [of "[''root'', ''lan'', ''bsr0'']" db] by (simp add: c_defs)
qed

theorem product_saved_names_witness:
  "\<exists>db. cfg_type_init (product_root (\<lambda>_. 14)) = Ret db \<and> cfg_type_query db ''root.lan.bsr0'' = Ret None"
proof -
  obtain db where "cfg_type_init (product_root (\<lambda>_. 14)) = Ret db"
    using init_total [of "product_root (\<lambda>_. 14)"] product_count [of "\<lambda>_. 14"]
    by (auto simp: c_defs type_count_nodes simp del: type_nodes.simps type_count.simps)
  with product_saved_names [OF this] show ?thesis by blast
qed

end
