(* ===== verification/Queue.thy ===== *)
theory Queue
  imports CPrelude
begin

text \<open>
  The doubly linked queue of \<open>service/cfg/queue_api.c\<close> in a heap: the nodes and the queues
  are maps from addresses, 0 is the null pointer, and what \<open>malloc\<close> returned is an argument
  of the operations that allocate. Reading or writing through a null or freed pointer is a
  fault. The operations implement a first-in-first-out list and lose no node.
\<close>

section \<open>Data\<close>

type_synonym addr = nat

record QueueNode =
  nd_data :: addr
  nd_next :: addr
  nd_prev :: addr

record Queue =
  q_head :: addr
  q_tail :: addr
  q_length :: u32

text \<open>The heap: nodes, queues, and the data blocks \<open>QueueFree\<close> has given back.\<close>

record qheap =
  hp_nodes :: "addr \<Rightarrow> QueueNode option"
  hp_queues :: "addr \<Rightarrow> Queue option"
  hp_freed :: "addr list"

definition at_node :: "qheap \<Rightarrow> addr \<Rightarrow> QueueNode cres" where
  "at_node h p =
     (if p = 0 then Fault NullDeref
      else case hp_nodes h p of None \<Rightarrow> Fault UseAfterFree | Some n \<Rightarrow> Ret n)"

definition at_queue :: "qheap \<Rightarrow> addr \<Rightarrow> Queue cres" where
  "at_queue h p = (case hp_queues h p of None \<Rightarrow> Fault UseAfterFree | Some q \<Rightarrow> Ret q)"

definition put_node :: "addr \<Rightarrow> QueueNode \<Rightarrow> qheap \<Rightarrow> qheap" where
  "put_node p n h = h\<lparr>hp_nodes := (hp_nodes h)(p \<mapsto> n)\<rparr>"

definition put_queue :: "addr \<Rightarrow> Queue \<Rightarrow> qheap \<Rightarrow> qheap" where
  "put_queue p q h = h\<lparr>hp_queues := (hp_queues h)(p \<mapsto> q)\<rparr>"

definition free_node :: "addr \<Rightarrow> qheap \<Rightarrow> qheap" where
  "free_node p h = h\<lparr>hp_nodes := (hp_nodes h)(p := None)\<rparr>"

section \<open>Operations\<close>

definition QueueInit :: "addr \<Rightarrow> qheap \<Rightarrow> addr \<times> qheap" where
  "QueueInit p h =
     (if p = 0 then (0, h)
      else (p, put_queue p \<lparr>q_head = 0, q_tail = 0, q_length = 0\<rparr> h))"

definition QueuePushTail :: "addr \<Rightarrow> addr \<Rightarrow> addr \<Rightarrow> qheap \<Rightarrow> (int \<times> qheap) cres" where
  "QueuePushTail queue data p h =
     (if queue = 0 then Ret (-1, h)
      else if p = 0 then Ret (-1, h)
      else
        cbind (at_queue h queue) (\<lambda>q.
        if q_tail q = 0 \<and> q_head q = 0
        then Ret (0, put_queue queue (q\<lparr>q_tail := p, q_head := p, q_length := q_length q + 1\<rparr>)
                       (put_node p \<lparr>nd_data = data, nd_next = 0, nd_prev = 0\<rparr> h))
        else
          let h1 = put_node p \<lparr>nd_data = data, nd_next = 0, nd_prev = 0\<rparr> h
          in cbind (at_node h1 (q_tail q)) (\<lambda>t.
               let h2 = put_node (q_tail q) (t\<lparr>nd_next := p\<rparr>) h1
               in cbind (at_node h2 p) (\<lambda>n.
                    Ret (0, put_queue queue (q\<lparr>q_tail := p, q_length := q_length q + 1\<rparr>)
                              (put_node p (n\<lparr>nd_prev := q_tail q, nd_next := 0\<rparr>) h2))))))"

definition QueuePopHead :: "addr \<Rightarrow> qheap \<Rightarrow> (addr \<times> qheap) cres" where
  "QueuePopHead queue h =
     (if queue = 0 then Ret (0, h)
      else
        cbind (at_queue h queue) (\<lambda>q.
        if q_head q = 0 then Ret (0, h)
        else
          cbind (at_node h (q_head q)) (\<lambda>node.
          let hd' = nd_next node; len = q_length q - 1
          in if hd' \<noteq> 0
             then cbind (at_node h hd') (\<lambda>n.
                    let h1 = put_node hd' (n\<lparr>nd_prev := 0\<rparr>) (put_queue queue (q\<lparr>q_head := hd', q_length := len\<rparr>) h)
                    in cbind (at_node h1 (q_head q)) (\<lambda>nd. Ret (nd_data nd, free_node (q_head q) h1)))
             else Ret (nd_data node,
                       free_node (q_head q) (put_queue queue (q\<lparr>q_head := 0, q_tail := 0, q_length := len\<rparr>) h)))))"

text \<open>The loop of \<open>QueueFree\<close>; \<open>fuel\<close> bounds its turns.\<close>

fun free_loop :: "nat \<Rightarrow> addr \<Rightarrow> bool \<Rightarrow> qheap \<Rightarrow> qheap cres" where
  "free_loop 0 queue isFreeData h = Fault NoReturn"
| "free_loop (Suc fuel) queue isFreeData h =
     cbind (QueuePopHead queue h) (\<lambda>(data, h1).
       if data = 0 then Ret h1
       else free_loop fuel queue isFreeData
              (if isFreeData then h1\<lparr>hp_freed := data # hp_freed h1\<rparr> else h1))"

definition QueueFree :: "nat \<Rightarrow> addr \<Rightarrow> bool \<Rightarrow> qheap \<Rightarrow> qheap cres" where
  "QueueFree fuel queue isFreeData h =
     (if queue = 0 then Ret h
      else cbind (free_loop fuel queue isFreeData h) (\<lambda>h1.
             Ret (h1\<lparr>hp_queues := (hp_queues h1)(queue := None)\<rparr>)))"

section \<open>The list a queue holds\<close>

text \<open>The addresses \<open>as\<close> form a doubly linked chain from \<open>p\<close> whose first node points back to
  \<open>prev\<close> and whose last one ends it.\<close>

fun chain :: "(addr \<Rightarrow> QueueNode option) \<Rightarrow> addr \<Rightarrow> addr \<Rightarrow> addr list \<Rightarrow> addr list \<Rightarrow> bool" where
  "chain N prev p [] xs = (p = 0 \<and> xs = [])"
| "chain N prev p (a # as) xs =
     (p = a \<and> a \<noteq> 0 \<and>
      (case N a of
         None \<Rightarrow> False
       | Some n \<Rightarrow> nd_prev n = prev \<and> xs \<noteq> [] \<and> nd_data n = hd xs \<and> chain N a (nd_next n) as (tl xs)))"

text \<open>Queue \<open>queue\<close> holds the data \<open>xs\<close>, in the nodes \<open>as\<close>.\<close>

definition queue_at :: "qheap \<Rightarrow> addr \<Rightarrow> addr list \<Rightarrow> addr list \<Rightarrow> bool" where
  "queue_at h queue as xs \<longleftrightarrow>
     queue \<noteq> 0 \<and> distinct as \<and>
     (case hp_queues h queue of
        None \<Rightarrow> False
      | Some q \<Rightarrow> chain (hp_nodes h) 0 (q_head q) as xs \<and>
                  q_tail q = (if as = [] then 0 else last as) \<and>
                  q_length q = of_nat (length as))"

lemma queue_at_freed [simp]: "queue_at (h\<lparr>hp_freed := f\<rparr>) queue as xs = queue_at h queue as xs"
  by (cases "hp_queues h queue") (simp_all add: queue_at_def)

lemma chain_length: "chain N prev p as xs \<Longrightarrow> length as = length xs"
proof (induction as arbitrary: prev p xs)
  case (Cons a as)
  then show ?case by (cases xs) (auto split: option.splits)
qed simp

lemma chain_upd: "x \<notin> set as \<Longrightarrow> chain (N(x := v)) prev p as xs = chain N prev p as xs"
proof (induction as arbitrary: prev p xs)
  case (Cons a as)
  then show ?case by (simp split: option.splits)
qed simp

lemma chain_nodes: "chain N prev p as xs \<Longrightarrow> a \<in> set as \<Longrightarrow> a \<noteq> 0 \<and> N a \<noteq> None"
proof (induction as arbitrary: prev p xs)
  case (Cons b as)
  then show ?case by (auto split: option.splits)
qed simp

lemma chain_head: "chain N prev p as xs \<Longrightarrow> p = (if as = [] then 0 else hd as)"
  by (cases as) auto

lemma chain_snoc:
  assumes "chain N prev p (as @ [l]) xs" "distinct (as @ [l])" "n \<notin> set (as @ [l])" "n \<noteq> 0" "N l = Some t"
  shows "chain (N(n := Some \<lparr>nd_data = d, nd_next = 0, nd_prev = l\<rparr>, l := Some (t\<lparr>nd_next := n\<rparr>))) prev p (as @ [l, n]) (xs @ [d])"
  using assms
proof (induction as arbitrary: prev p xs)
  case Nil
  then show ?case by (auto simp: neq_Nil_conv)
next
  case (Cons a as)
  obtain m where m: "N a = Some m" using Cons.prems(1) by (auto split: option.splits)
  obtain x xs' where xs: "xs = x # xs'" using Cons.prems(1) m by (cases xs) auto
  have "chain (N(n := Some \<lparr>nd_data = d, nd_next = 0, nd_prev = l\<rparr>, l := Some (t\<lparr>nd_next := n\<rparr>))) a (nd_next m) (as @ [l, n]) (xs' @ [d])"
    by (rule Cons.IH) (use Cons.prems m xs in auto)
  moreover have "(N(n := Some \<lparr>nd_data = d, nd_next = 0, nd_prev = l\<rparr>, l := Some (t\<lparr>nd_next := n\<rparr>))) a = Some m"
    using Cons.prems m by auto
  ultimately show ?case using Cons.prems(1) m xs by (simp del: fun_upd_apply)
qed

lemma queue_at_nodes: "queue_at h q as xs \<Longrightarrow> b \<in> set as \<Longrightarrow> hp_nodes h b \<noteq> None"
  using chain_nodes by (fastforce simp: queue_at_def split: option.splits)

lemma queue_at_length: "queue_at h q as xs \<Longrightarrow> length as = length xs"
  using chain_length by (auto simp: queue_at_def split: option.splits)

section \<open>The operations on the list\<close>

lemma push_spec:
  assumes "queue_at h queue as xs" "p \<noteq> 0" "p \<notin> set as"
  shows "\<exists>h'. QueuePushTail queue d p h = Ret (0, h') \<and> queue_at h' queue (as @ [p]) (xs @ [d]) \<and>
    (\<forall>b. b \<notin> set as \<and> b \<noteq> p \<longrightarrow> hp_nodes h' b = hp_nodes h b) \<and> hp_freed h' = hp_freed h \<and>
    (\<forall>k. k \<noteq> queue \<longrightarrow> hp_queues h' k = hp_queues h k)"
proof -
  obtain q where q: "hp_queues h queue = Some q" "queue \<noteq> 0" "distinct as"
      "chain (hp_nodes h) 0 (q_head q) as xs" "q_tail q = (if as = [] then 0 else last as)"
      "q_length q = of_nat (length as)"
    using assms(1) by (auto simp: queue_at_def split: option.splits)
  have aq: "at_queue h queue = Ret q" using q by (simp add: at_queue_def)
  show ?thesis
  proof (cases as rule: rev_cases)
    case Nil
    with q have "q_head q = 0" "q_tail q = 0" "xs = []" by auto
    with q aq assms(2) Nil show ?thesis
      by (simp add: QueuePushTail_def queue_at_def put_queue_def put_node_def)
  next
    case (snoc bs l)
    have l: "l \<noteq> 0" "hp_nodes h l \<noteq> None" using chain_nodes [OF q(4), of l] snoc by auto
    then obtain t where t: "hp_nodes h l = Some t" by auto
    have tl: "q_tail q = l" "p \<noteq> l" using q(5) snoc assms(3) by auto
    have ch: "chain ((hp_nodes h)(p := Some \<lparr>nd_data = d, nd_next = 0, nd_prev = l\<rparr>, l := Some (t\<lparr>nd_next := p\<rparr>)))
        0 (q_head q) (bs @ [l, p]) (xs @ [d])"
      by (rule chain_snoc) (use q assms snoc t in auto)
    have sw: "(hp_nodes h)(p := Some v, l := Some (t\<lparr>nd_next := p\<rparr>), p := Some w) =
        (hp_nodes h)(p := Some w, l := Some (t\<lparr>nd_next := p\<rparr>))" for v w
      using tl(2) by auto
    show ?thesis
      using q aq assms(2,3) l t tl ch snoc sw
      by (simp add: QueuePushTail_def at_node_def Let_def queue_at_def put_queue_def put_node_def
          del: fun_upd_apply) simp
  qed
qed

lemma pop_empty: "queue_at h queue [] xs \<Longrightarrow> QueuePopHead queue h = Ret (0, h)"
  by (auto simp: queue_at_def QueuePopHead_def at_queue_def split: option.splits)

lemma pop_spec:
  assumes "queue_at h queue (a # as) xs"
  shows "\<exists>h'. QueuePopHead queue h = Ret (hd xs, h') \<and> queue_at h' queue as (tl xs) \<and>
    hp_nodes h' a = None \<and> (\<forall>b. b \<notin> set (a # as) \<longrightarrow> hp_nodes h' b = hp_nodes h b) \<and>
    hp_freed h' = hp_freed h \<and> (\<forall>k. k \<noteq> queue \<longrightarrow> hp_queues h' k = hp_queues h k)"
proof -
  obtain q n where q: "hp_queues h queue = Some q" "queue \<noteq> 0" "distinct (a # as)"
      "q_tail q = last (a # as)" "q_length q = of_nat (length (a # as))" "q_head q = a" "a \<noteq> 0"
      and n: "hp_nodes h a = Some n" "nd_data n = hd xs" "chain (hp_nodes h) a (nd_next n) as (tl xs)"
    using assms by (auto simp: queue_at_def split: option.splits if_splits)
  have aq: "at_queue h queue = Ret q" "at_node h a = Ret n" using q n by (auto simp: at_queue_def at_node_def)
  show ?thesis
  proof (cases as)
    case Nil
    with n have "nd_next n = 0" "tl xs = []" by auto
    with q n aq Nil show ?thesis
      by (simp add: QueuePopHead_def Let_def queue_at_def put_queue_def free_node_def)
  next
    case (Cons b bs)
    with n(3) obtain m where m: "nd_next n = b" "b \<noteq> 0" "hp_nodes h b = Some m" "nd_data m = hd (tl xs)" "tl xs \<noteq> []"
        "chain (hp_nodes h) b (nd_next m) bs (tl (tl xs))"
      by (auto split: option.splits)
    have ab: "a \<noteq> b" "a \<notin> set bs" "b \<notin> set bs" using q(3) Cons by auto
    let ?N = "(hp_nodes h)(b \<mapsto> m\<lparr>nd_prev := 0\<rparr>, a := None)"
    have "chain ?N b (nd_next m) bs (tl (tl xs))"
      using m(6) by (simp only: chain_upd ab not_False_eq_True)
    moreover have "?N b = Some (m\<lparr>nd_prev := 0\<rparr>)" using ab by simp
    ultimately have ch: "chain ?N 0 b (b # bs) (tl xs)" using m(2,4,5) by (simp del: fun_upd_apply)
    have an: "at_node h b = Ret m" using m by (simp add: at_node_def)
    let ?h = "put_node b (m\<lparr>nd_prev := 0\<rparr>) (put_queue queue (q\<lparr>q_head := b, q_length := q_length q - 1\<rparr>) h)"
    have "at_node ?h a = Ret n" using q n ab by (simp add: at_node_def put_node_def put_queue_def)
    then have "QueuePopHead queue h = Ret (hd xs, free_node a ?h)"
      using q n m aq an by (simp add: QueuePopHead_def Let_def)
    moreover have "hp_nodes (free_node a ?h) = ?N" by (simp add: free_node_def put_node_def put_queue_def)
    moreover have "queue_at (free_node a ?h) queue as (tl xs)"
      using ch q Cons calculation(2) by (simp add: queue_at_def del: chain.simps) (simp add: free_node_def put_node_def put_queue_def)
    ultimately show ?thesis using Cons by (simp add: free_node_def put_node_def put_queue_def)
  qed
qed

lemma free_loop_spec:
  assumes "queue_at h queue as xs" "0 \<notin> set xs" "length as < fuel"
  shows "\<exists>h'. free_loop fuel queue b h = Ret h' \<and> (\<forall>p \<in> set as. hp_nodes h' p = None) \<and>
    (\<forall>p. p \<notin> set as \<longrightarrow> hp_nodes h' p = hp_nodes h p) \<and>
    hp_freed h' = (if b then rev xs else []) @ hp_freed h"
  using assms
proof (induction as arbitrary: h xs fuel)
  case Nil
  then have "xs = []" by (auto simp: queue_at_def split: option.splits)
  moreover obtain f where "fuel = Suc f" using Nil.prems(3) by (cases fuel) auto
  ultimately show ?case using pop_empty [OF Nil.prems(1)] by simp
next
  case (Cons a as)
  obtain f where f: "fuel = Suc f" using Cons.prems(3) by (cases fuel) auto
  obtain x xs' where xs: "xs = x # xs'" using Cons.prems(1)
    by (cases xs) (auto simp: queue_at_def split: option.splits)
  from pop_spec [OF Cons.prems(1)] xs obtain h1 where h1: "QueuePopHead queue h = Ret (x, h1)"
      "queue_at h1 queue as xs'" "hp_nodes h1 a = None"
      "\<forall>b. b \<notin> set (a # as) \<longrightarrow> hp_nodes h1 b = hp_nodes h b" "hp_freed h1 = hp_freed h"
    by auto
  have a: "a \<notin> set as" using Cons.prems(1) by (simp add: queue_at_def)
  let ?h = "if b then h1\<lparr>hp_freed := x # hp_freed h1\<rparr> else h1"
  have "queue_at ?h queue as xs'" using h1(2) by simp
  from Cons.IH [OF this, of f] Cons.prems f xs obtain h' where
    "free_loop f queue b ?h = Ret h'" "\<forall>p \<in> set as. hp_nodes h' p = None"
    "\<forall>p. p \<notin> set as \<longrightarrow> hp_nodes h' p = hp_nodes ?h p"
    "hp_freed h' = (if b then rev xs' else []) @ hp_freed ?h" by auto
  with h1 f xs Cons.prems(2) a show ?case by auto
qed

section \<open>The interface\<close>

text \<open>A sequence of calls, with the address \<open>malloc\<close> returns to each push; the result lists
  what the pops return. \<open>lrun\<close> is the same on a list, where a pop of the empty list gives
  \<open>nil\<close>.\<close>

datatype ('k, 'd) qop = Push 'k 'd | Pop

fun qrun :: "('k \<Rightarrow> 'd \<Rightarrow> 's \<Rightarrow> (int \<times> 's) cres) \<Rightarrow> ('s \<Rightarrow> ('d \<times> 's) cres) \<Rightarrow>
    ('k, 'd) qop list \<Rightarrow> 's \<Rightarrow> ('d list \<times> 's) cres" where
  "qrun push pop [] s = Ret ([], s)"
| "qrun push pop (Push k d # ops) s = cbind (push k d s) (\<lambda>(_, s1). qrun push pop ops s1)"
| "qrun push pop (Pop # ops) s =
     cbind (pop s) (\<lambda>(x, s1). cbind (qrun push pop ops s1) (\<lambda>(xs, s2). Ret (x # xs, s2)))"

fun lrun :: "'d \<Rightarrow> ('k, 'd) qop list \<Rightarrow> 'd list \<Rightarrow> 'd list \<times> 'd list" where
  "lrun nil [] xs = ([], xs)"
| "lrun nil (Push k d # ops) xs = lrun nil ops (xs @ [d])"
| "lrun nil (Pop # ops) xs =
     (case xs of
        [] \<Rightarrow> let (o', ys) = lrun nil ops [] in (nil # o', ys)
      | x # xs' \<Rightarrow> let (o', ys) = lrun nil ops xs' in (x # o', ys))"

fun push_keys :: "('k, 'd) qop list \<Rightarrow> 'k list" where
  "push_keys [] = []"
| "push_keys (Push k d # ops) = k # push_keys ops"
| "push_keys (Pop # ops) = push_keys ops"

text \<open>What a client of a queue relies on: \<open>rep s xs\<close> says that in state \<open>s\<close> the queue holds
  \<open>xs\<close>, \<open>free s k\<close> that \<open>k\<close> can be used for a new node.\<close>

locale fifo =
  fixes rep :: "'s \<Rightarrow> 'd list \<Rightarrow> bool"
    and free :: "'s \<Rightarrow> 'k \<Rightarrow> bool"
    and push :: "'k \<Rightarrow> 'd \<Rightarrow> 's \<Rightarrow> (int \<times> 's) cres"
    and pop :: "'s \<Rightarrow> ('d \<times> 's) cres"
    and nil :: 'd
  assumes push_ok: "rep s xs \<Longrightarrow> free s k \<Longrightarrow>
      \<exists>s'. push k d s = Ret (0, s') \<and> rep s' (xs @ [d]) \<and> (\<forall>k'. k' \<noteq> k \<longrightarrow> free s k' \<longrightarrow> free s' k')"
    and pop_ok: "rep s (x # xs) \<Longrightarrow>
      \<exists>s'. pop s = Ret (x, s') \<and> rep s' xs \<and> (\<forall>k'. free s k' \<longrightarrow> free s' k')"
    and pop_nil: "rep s [] \<Longrightarrow> pop s = Ret (nil, s)"
begin

lemma qrun_refines:
  assumes "rep s xs" "distinct (push_keys ops)" "\<forall>k \<in> set (push_keys ops). free s k"
  shows "\<exists>s'. qrun push pop ops s = Ret (fst (lrun nil ops xs), s') \<and> rep s' (snd (lrun nil ops xs))"
  using assms
proof (induction ops arbitrary: s xs)
  case (Cons op ops)
  show ?case
  proof (cases op)
    case (Push k d)
    from push_ok [OF Cons.prems(1), of k d] Push Cons.prems obtain s1 where
      s1: "push k d s = Ret (0, s1)" "rep s1 (xs @ [d])" "\<forall>k'. k' \<noteq> k \<longrightarrow> free s k' \<longrightarrow> free s1 k'" by auto
    have "\<forall>k \<in> set (push_keys ops). free s1 k" using s1(3) Cons.prems(2,3) Push by auto
    from Cons.IH [OF s1(2) _ this] Cons.prems(2) s1(1) Push show ?thesis by simp
  next
    case Pop
    show ?thesis
    proof (cases xs)
      case Nil
      with pop_nil Cons.prems(1) have p: "pop s = Ret (nil, s)" by simp
      from Cons.IH [of s "[]"] Cons.prems Pop Nil obtain s' where
        "qrun push pop ops s = Ret (fst (lrun nil ops []), s')" "rep s' (snd (lrun nil ops []))" by auto
      with p Pop Nil show ?thesis by (simp add: case_prod_beta)
    next
      case (Cons x ys)
      from pop_ok [of s x ys] Cons.prems(1) Cons obtain s1 where
        s1: "pop s = Ret (x, s1)" "rep s1 ys" "\<forall>k'. free s k' \<longrightarrow> free s1 k'" by auto
      have "\<forall>k \<in> set (push_keys ops). free s1 k" using s1(3) Cons.prems(3) Pop by auto
      from Cons.IH [OF s1(2) _ this] Cons.prems(2) Pop obtain s' where
        "qrun push pop ops s1 = Ret (fst (lrun nil ops ys), s')" "rep s' (snd (lrun nil ops ys))" by auto
      with s1(1) Pop Cons show ?thesis by (simp add: case_prod_beta)
    qed
  qed
qed simp

end

text \<open>The queue of the code, at address \<open>q\<close>. \<open>owns\<close> adds that no node outside the queue is
  lost or made: \<open>rest\<close> are the nodes of the heap that belong to others.\<close>

definition owns :: "addr \<Rightarrow> addr set \<Rightarrow> qheap \<Rightarrow> addr list \<Rightarrow> bool" where
  "owns q rest h xs \<longleftrightarrow>
     (\<exists>as. queue_at h q as xs \<and> set as \<inter> rest = {} \<and> (\<forall>p. hp_nodes h p = None \<longleftrightarrow> p \<notin> set as \<and> p \<notin> rest))"

definition free_at :: "qheap \<Rightarrow> addr \<Rightarrow> bool" where
  "free_at h p \<longleftrightarrow> p \<noteq> 0 \<and> hp_nodes h p = None"

interpretation lq: fifo "owns q rest" free_at "\<lambda>p d. QueuePushTail q d p" "QueuePopHead q" 0 for q rest
proof unfold_locales
  fix h xs p d
  assume o: "owns q rest h xs" and f: "free_at h p"
  then obtain as where as: "queue_at h q as xs" "set as \<inter> rest = {}" "(\<forall>p. hp_nodes h p = None \<longleftrightarrow> p \<notin> set as \<and> p \<notin> rest)"
    by (auto simp: owns_def)
  have p: "p \<noteq> 0" "p \<notin> set as" "p \<notin> rest" using f as(3) by (auto simp: free_at_def)
  from push_spec [OF as(1) p(1,2), of d] obtain h' where h': "QueuePushTail q d p h = Ret (0, h')"
      "queue_at h' q (as @ [p]) (xs @ [d])" "\<forall>b. b \<notin> set as \<and> b \<noteq> p \<longrightarrow> hp_nodes h' b = hp_nodes h b" by auto
  have "\<forall>b \<in> set (as @ [p]). hp_nodes h' b \<noteq> None" using queue_at_nodes [OF h'(2)] by blast
  then have n: "hp_nodes h' b = None \<longleftrightarrow> b \<notin> set (as @ [p]) \<and> b \<notin> rest" for b
    using h'(3) as(3) by (cases "b \<in> set (as @ [p])") auto
  have "owns q rest h' (xs @ [d])"
    unfolding owns_def using h'(2) n as(2) p(3) by (intro exI [of _ "as @ [p]"]) auto
  moreover have "\<forall>k'. k' \<noteq> p \<longrightarrow> free_at h k' \<longrightarrow> free_at h' k'"
    using h'(3) as(3) by (auto simp: free_at_def)
  ultimately show "\<exists>s'. QueuePushTail q d p h = Ret (0, s') \<and> owns q rest s' (xs @ [d]) \<and>
      (\<forall>k'. k' \<noteq> p \<longrightarrow> free_at h k' \<longrightarrow> free_at s' k')" using h'(1) by blast
next
  fix h x xs
  assume "owns q rest h (x # xs)"
  then obtain as' where as': "queue_at h q as' (x # xs)" "set as' \<inter> rest = {}"
      "\<forall>p. hp_nodes h p = None \<longleftrightarrow> p \<notin> set as' \<and> p \<notin> rest"
    by (auto simp: owns_def)
  then obtain a as where "as' = a # as" using queue_at_length [OF as'(1)] by (cases as') auto
  note as = as' [unfolded this]
  from pop_spec [OF as(1)] obtain h' where h': "QueuePopHead q h = Ret (x, h')" "queue_at h' q as xs"
      "hp_nodes h' a = None" "\<forall>b. b \<notin> set (a # as) \<longrightarrow> hp_nodes h' b = hp_nodes h b" by auto
  have l: "\<forall>b \<in> set as. hp_nodes h' b \<noteq> None" using queue_at_nodes [OF h'(2)] by blast
  have "hp_nodes h' b = None \<longleftrightarrow> b \<notin> set as \<and> b \<notin> rest" for b
    using l h'(3,4) as(2,3) by (cases "b \<in> set (a # as)") auto
  then have "owns q rest h' xs" unfolding owns_def using h'(2) as(2) by auto
  moreover have "\<forall>k'. free_at h k' \<longrightarrow> free_at h' k'"
    using h'(3,4) as(3) by (auto simp: free_at_def)
  ultimately show "\<exists>s'. QueuePopHead q h = Ret (x, s') \<and> owns q rest s' xs \<and> (\<forall>k'. free_at h k' \<longrightarrow> free_at s' k')"
    using h'(1) by blast
next
  fix h
  assume "owns q rest h []"
  then obtain as where "queue_at h q as []" by (auto simp: owns_def)
  moreover have "as = []" using queue_at_length [OF calculation] by simp
  ultimately show "QueuePopHead q h = Ret (0, h)" using pop_empty by blast
qed

section \<open>Properties\<close>

text \<open>C15: Over any sequence of pushes and pops, with any fresh addresses from \<open>malloc\<close>, the
  linked queue of \<open>queue_api.c\<close> behaves as a list: no call faults, the pops return the data
  in the order of the pushes (null when the queue is empty), and the live nodes are exactly
  those of the queue and those that were there before: none leaks, none is freed twice.\<close>

theorem queue_refines_list:
  assumes "owns q rest h xs" and "distinct (push_keys ops)"
    and "\<forall>p \<in> set (push_keys ops). p \<noteq> 0 \<and> hp_nodes h p = None"
  shows "\<exists>h'. qrun (\<lambda>p d. QueuePushTail q d p) (QueuePopHead q) ops h = Ret (fst (lrun 0 ops xs), h') \<and>
    owns q rest h' (snd (lrun 0 ops xs))"
  using lq.qrun_refines [OF assms(1,2)] assms(3) by (auto simp: free_at_def)

definition fresh_queue :: qheap where
  "fresh_queue = snd (QueueInit 1 \<lparr>hp_nodes = (\<lambda>_. None), hp_queues = (\<lambda>_. None), hp_freed = []\<rparr>)"

lemma fresh_queue_owns: "owns 1 {} fresh_queue []"
  by (simp add: owns_def queue_at_def fresh_queue_def QueueInit_def put_queue_def)

theorem queue_refines_list_witness:
  "\<exists>h'. qrun (\<lambda>p d. QueuePushTail 1 d p) (QueuePopHead 1) [Push 10 7, Push 11 8, Pop, Pop, Pop] fresh_queue =
     Ret ([7, 8, 0], h') \<and> owns 1 {} h' []"
  using queue_refines_list [OF fresh_queue_owns, of "[Push 10 7, Push 11 8, Pop, Pop, Pop]"]
  by (simp add: fresh_queue_def QueueInit_def put_queue_def)


definition full_queue :: qheap where
  "full_queue = (case QueuePushTail 1 7 10 fresh_queue of Ret (_, h) \<Rightarrow> h | Fault _ \<Rightarrow> fresh_queue)"


text \<open>An element that is the null pointer ends \<open>QueueFree\<close> early: the queue is given back,
  the nodes behind the element are not.\<close>

theorem queue_free_null_leaks:
  "\<exists>h h'. qrun (\<lambda>p d. QueuePushTail 1 d p) (QueuePopHead 1) [Push 10 0, Push 11 8] fresh_queue = Ret ([], h) \<and>
     QueueFree 5 1 True h = Ret h' \<and> hp_queues h' 1 = None \<and> hp_nodes h' 11 \<noteq> None"
  by (simp add: fresh_queue_def QueueInit_def QueuePushTail_def QueuePopHead_def QueueFree_def at_queue_def at_node_def
      put_queue_def put_node_def free_node_def eval_nat_numeral)

end
