(* ===== verification/SvcParse.thy ===== *)
theory SvcParse
  imports CPrelude
begin

text \<open>
  The reader of the configuration of the service host (\<open>svchost/svchost_parse.c\<close>): lines
  \<open>library : entry : parameter\<close>, the parameter optional, blank lines and lines that begin
  with \<open>#\<close> skipped.

  A pointer into the buffer is the rest of the buffer from there, which ends with the NUL
  the reader appends. The NULs written into a line lie before the next line, so the fields
  of a line are the pieces the NULs cut it into. \<open>mem k\<close> says whether the \<open>k\<close>-th allocation
  succeeds; the number of allocated services is part of the result.
\<close>

section \<open>Lines\<close>

abbreviation NUL :: char where "NUL \<equiv> CHR 0x00"
abbreviation NEWLINE :: char where "NEWLINE \<equiv> CHR 0x0A"
abbreviation BLANK :: char where "BLANK \<equiv> CHR '' ''"

definition c_text :: "string \<Rightarrow> string" where
  "c_text s = takeWhile (\<lambda>c. c \<noteq> NUL) s"

text \<open>\<open>strchr\<close>: the index of the first occurrence.\<close>

definition strchr :: "char \<Rightarrow> string \<Rightarrow> nat option" where
  "strchr c s = (let k = length (takeWhile (\<lambda>x. x \<noteq> c) (c_text s))
     in if k < length (c_text s) then Some k else None)"

definition svchost_parse_check_line :: "string \<Rightarrow> nat \<Rightarrow> int" where
  "svchost_parse_check_line buf len =
     (case strchr CHR '':'' buf of
        None \<Rightarrow> -1
      | Some k \<Rightarrow> if len < k \<or> k = 0 then -1 else 0)"

definition svchost_parse_get_line :: "string \<Rightarrow> nat \<times> nat" where
  "svchost_parse_get_line buf =
     (let s = length (takeWhile (\<lambda>c. c = BLANK) buf);
          e = s + length (takeWhile (\<lambda>c. c \<noteq> NUL \<and> c \<noteq> NEWLINE) (drop s buf))
      in (if s < length buf \<and> buf ! s = CHR ''#'' then e else s, e))"

fun svchost_parse_check_conf :: "string \<Rightarrow> int" where
  "svchost_parse_check_conf [] = 0"
| "svchost_parse_check_conf (c # cs) =
     (let (start, end) = svchost_parse_get_line (c # cs)
      in if start \<noteq> end \<and> svchost_parse_check_line (c # cs) end < 0 then -1
         else svchost_parse_check_conf (drop end cs))"

definition svchost_parse_check_blank :: "string option \<Rightarrow> bool" where
  "svchost_parse_check_blank str =
     (case str of None \<Rightarrow> False | Some s \<Rightarrow> dropWhile (\<lambda>c. c = BLANK) s = [])"

definition svchost_parse_skip_blank :: "string option \<Rightarrow> string option" where
  "svchost_parse_skip_blank str = map_option (dropWhile (\<lambda>c. c = BLANK)) str"

section \<open>Services\<close>

record svc_conf =
  sc_path :: string
  sc_entry :: string
  sc_param :: "string option"

text \<open>\<open>svchost_parse_alloc_svc\<close> on the text of a line; the second component is the number of
  allocations made.\<close>

definition svchost_parse_alloc_svc :: "(nat \<Rightarrow> bool) \<Rightarrow> nat \<Rightarrow> string \<Rightarrow> nat \<Rightarrow> svc_conf option \<times> nat" where
  "svchost_parse_alloc_svc mem n buf end =
     (let line = take end buf
      in case strchr CHR '':'' line of
           None \<Rightarrow> (None, n)
         | Some k \<Rightarrow>
             let path = take k line; rest = drop (Suc k) line;
                 entry = (case strchr CHR '':'' rest of None \<Rightarrow> rest | Some j \<Rightarrow> take j rest);
                 param = (case strchr CHR '':'' rest of None \<Rightarrow> None | Some j \<Rightarrow> Some (drop (Suc j) rest))
             in if svchost_parse_check_blank (Some path) \<or> svchost_parse_check_blank (Some entry)
                   \<or> svchost_parse_check_blank param
                then (None, n)
                else if \<not> mem n then (None, Suc n)
                else (Some \<lparr>sc_path = the (svchost_parse_skip_blank (Some path)),
                            sc_entry = the (svchost_parse_skip_blank (Some entry)),
                            sc_param = svchost_parse_skip_blank param\<rparr>, Suc n))"

text \<open>The loop of \<open>svchost_parse_conf\<close>: \<open>svcs\<close> is the list from \<open>head\<close> to \<open>tail\<close>. The result is
  the list, or \<open>None\<close> after an error, and how many services are still allocated:
  \<open>svchost_parse_free_svc\<close> gives back the whole list.\<close>

definition svchost_parse_free_svc :: "svc_conf list \<Rightarrow> nat \<Rightarrow> nat" where
  "svchost_parse_free_svc svcs live = live - length svcs"

fun svchost_parse_conf ::
  "(nat \<Rightarrow> bool) \<Rightarrow> nat \<Rightarrow> string \<Rightarrow> svc_conf list \<Rightarrow> nat \<Rightarrow> svc_conf list option \<times> nat" where
  "svchost_parse_conf mem n [] svcs live = (Some svcs, live)"
| "svchost_parse_conf mem n (c # cs) svcs live =
     (let (start, end) = svchost_parse_get_line (c # cs)
      in if start \<noteq> end
         then (case svchost_parse_alloc_svc mem n (c # cs) end of
                 (None, _) \<Rightarrow> (None, svchost_parse_free_svc svcs live)
               | (Some cur, n') \<Rightarrow> svchost_parse_conf mem n' (drop end cs) (svcs @ [cur]) (Suc live))
         else svchost_parse_conf mem n (drop end cs) svcs live)"

text \<open>\<open>svchost_parse_read_conf\<close>: the content of the file, or \<open>None\<close> when it cannot be read; the
  buffer holds it with a NUL behind it.\<close>

definition svchost_parse_read_conf :: "bool \<Rightarrow> string option \<Rightarrow> string option" where
  "svchost_parse_read_conf got file =
     (case file of
        None \<Rightarrow> None
      | Some f \<Rightarrow> if f = [] \<or> \<not> got then None else Some (f @ [NUL]))"

text \<open>\<open>svchost_parse\<close>: the services, or \<open>None\<close>, and the number of services allocated. An empty
  list is the null pointer.\<close>

definition svchost_parse :: "bool \<Rightarrow> (nat \<Rightarrow> bool) \<Rightarrow> string option \<Rightarrow> svc_conf list option \<times> nat" where
  "svchost_parse got mem file =
     (case svchost_parse_read_conf got file of
        None \<Rightarrow> (None, 0)
      | Some buf \<Rightarrow>
          if svchost_parse_check_conf buf < 0 then (None, 0)
          else (case svchost_parse_conf mem 0 buf [] 0 of
                  (None, live) \<Rightarrow> (None, live)
                | (Some svcs, live) \<Rightarrow> if svcs = [] then (None, live) else (Some svcs, live)))"

section \<open>Reading back a written configuration\<close>

definition svc_ok :: "svc_conf \<Rightarrow> bool" where
  "svc_ok s \<longleftrightarrow>
     (\<forall>f \<in> {sc_path s, sc_entry s} \<union> set_option (sc_param s).
        f \<noteq> [] \<and> hd f \<noteq> BLANK \<and> NUL \<notin> set f \<and> NEWLINE \<notin> set f) \<and>
     CHR '':'' \<notin> set (sc_path s) \<and> CHR '':'' \<notin> set (sc_entry s) \<and> hd (sc_path s) \<noteq> CHR ''#''"

definition svc_line :: "svc_conf \<Rightarrow> string" where
  "svc_line s = sc_path s @ CHR '':'' # sc_entry s @
     (case sc_param s of None \<Rightarrow> [] | Some p \<Rightarrow> CHR '':'' # p)"

definition conf_text :: "svc_conf list \<Rightarrow> string" where
  "conf_text svcs = concat (map (\<lambda>s. svc_line s @ [NEWLINE]) svcs)"

lemma svc_line_chars: "svc_ok s \<Longrightarrow> \<forall>c \<in> set (svc_line s). c \<noteq> NUL \<and> c \<noteq> NEWLINE"
  by (cases "sc_param s") (auto simp: svc_ok_def svc_line_def)

lemma svc_line_hd: "svc_ok s \<Longrightarrow> svc_line s \<noteq> [] \<and> hd (svc_line s) \<noteq> BLANK \<and> hd (svc_line s) \<noteq> CHR ''#''"
  by (cases "sc_path s") (auto simp: svc_ok_def svc_line_def)

lemma get_line_text:
  assumes "\<forall>c \<in> set l. c \<noteq> NUL \<and> c \<noteq> NEWLINE" "l \<noteq> []" "hd l \<noteq> BLANK" "hd l \<noteq> CHR ''#''"
    and "e = NUL \<or> e = NEWLINE"
  shows "svchost_parse_get_line (l @ e # r) = (0, length l)"
proof -
  obtain c l' where l: "l = c # l'" using assms(2) by (cases l) auto
  have "takeWhile (\<lambda>c. c \<noteq> NUL \<and> c \<noteq> NEWLINE) (l @ e # r) = l"
    using assms(1,5) by (intro takeWhile_append_stop) auto
  then show ?thesis using assms(3,4) l by (simp add: svchost_parse_get_line_def Let_def)
qed

lemma strchr_at:
  assumes "c \<notin> set a" "NUL \<notin> set a" "c \<noteq> NUL"
  shows "strchr c (a @ c # b) = Some (length a)"
proof -
  have t: "c_text (a @ c # b) = a @ c # c_text b"
    using assms by (induction a) (auto simp: c_text_def)
  have "takeWhile (\<lambda>x. x \<noteq> c) (a @ c # c_text b) = a"
    using assms(1) by (intro takeWhile_append_stop) auto
  then show ?thesis by (simp add: strchr_def t)
qed

lemma strchr_none: "c \<notin> set a \<Longrightarrow> strchr c a = None"
proof -
  assume "c \<notin> set a"
  then have "c \<notin> set (c_text a)" using set_takeWhileD unfolding c_text_def by fast
  then have "takeWhile (\<lambda>x. x \<noteq> c) (c_text a) = c_text a" by (auto simp: takeWhile_eq_all_conv)
  then show ?thesis unfolding strchr_def Let_def by (metis less_irrefl)
qed

lemma field_blank:
  "f \<noteq> [] \<Longrightarrow> hd f \<noteq> BLANK \<Longrightarrow> svchost_parse_check_blank (Some f) = False"
  "f \<noteq> [] \<Longrightarrow> hd f \<noteq> BLANK \<Longrightarrow> svchost_parse_skip_blank (Some f) = Some f"
  by (cases f; simp add: svchost_parse_check_blank_def svchost_parse_skip_blank_def)+

lemma alloc_svc_line:
  assumes "svc_ok s" "mem n"
  shows "svchost_parse_alloc_svc mem n (svc_line s @ r) (length (svc_line s)) = (Some s, Suc n)"
proof -
  have f: "svchost_parse_check_blank (Some (sc_path s)) = False" "svchost_parse_check_blank (Some (sc_entry s)) = False"
      "svchost_parse_skip_blank (Some (sc_path s)) = Some (sc_path s)"
      "svchost_parse_skip_blank (Some (sc_entry s)) = Some (sc_entry s)"
    using assms(1) by (auto simp: svc_ok_def field_blank)
  have k: "strchr CHR '':'' (svc_line s) = Some (length (sc_path s))"
    unfolding svc_line_def using assms(1) by (intro strchr_at) (auto simp: svc_ok_def)
  show ?thesis
  proof (cases "sc_param s")
    case None
    have "strchr CHR '':'' (sc_entry s) = None" using assms(1) by (intro strchr_none) (auto simp: svc_ok_def)
    moreover have "svchost_parse_check_blank None = False" "svchost_parse_skip_blank None = None"
      by (simp_all add: svchost_parse_check_blank_def svchost_parse_skip_blank_def)
    ultimately show ?thesis using None k f assms(2)
      by (cases s) (simp add: svchost_parse_alloc_svc_def Let_def svc_line_def)
  next
    case (Some p)
    have p: "svchost_parse_check_blank (Some p) = False" "svchost_parse_skip_blank (Some p) = Some p"
      using assms(1) Some by (auto simp: svc_ok_def field_blank)
    have "strchr CHR '':'' (sc_entry s @ CHR '':'' # p) = Some (length (sc_entry s))"
      using assms(1) by (intro strchr_at) (auto simp: svc_ok_def)
    with Some k f p assms(2) show ?thesis
      by (cases s) (simp add: svchost_parse_alloc_svc_def Let_def svc_line_def)
  qed
qed

lemma check_line_ok:
  assumes "svc_ok s"
  shows "svchost_parse_check_line (svc_line s @ r) (length (svc_line s)) = 0"
proof -
  have "strchr CHR '':'' (svc_line s @ r) = Some (length (sc_path s))"
    unfolding svc_line_def append_assoc append_Cons using assms by (intro strchr_at) (auto simp: svc_ok_def)
  moreover have "sc_path s \<noteq> []" using assms by (auto simp: svc_ok_def)
  ultimately show ?thesis by (simp add: svchost_parse_check_line_def svc_line_def)
qed

text \<open>One line of the loops.\<close>

lemma step_line:
  assumes "svc_ok s"
  shows "svchost_parse_check_conf (svc_line s @ NEWLINE # r) = svchost_parse_check_conf r"
    and "mem n \<Longrightarrow> svchost_parse_conf mem n (svc_line s @ NEWLINE # r) svcs live =
      svchost_parse_conf mem (Suc n) r (svcs @ [s]) (Suc live)"
proof -
  obtain c l where l: "svc_line s = c # l" using svc_line_hd [OF assms] by (cases "svc_line s") auto
  have g: "svchost_parse_get_line (c # l @ NEWLINE # r) = (0, Suc (length l))"
    using get_line_text [OF svc_line_chars [OF assms], of NEWLINE r] svc_line_hd [OF assms] l by simp
  have ck: "svchost_parse_check_line (c # l @ NEWLINE # r) (Suc (length l)) = 0"
    using check_line_ok [OF assms, of "NEWLINE # r"] l by simp
  show "svchost_parse_check_conf (svc_line s @ NEWLINE # r) = svchost_parse_check_conf r"
    by (simp add: l g ck)
  assume "mem n"
  then have "svchost_parse_alloc_svc mem n (c # l @ NEWLINE # r) (Suc (length l)) = (Some s, Suc n)"
    using alloc_svc_line [OF assms, of mem n "NEWLINE # r"] l by simp
  then show "svchost_parse_conf mem n (svc_line s @ NEWLINE # r) svcs live =
      svchost_parse_conf mem (Suc n) r (svcs @ [s]) (Suc live)"
    by (simp add: l g)
qed

lemma end_line:
  "svchost_parse_check_conf [NUL] = 0" "svchost_parse_conf mem n [NUL] svcs live = (Some svcs, live)"
  by (simp_all add: svchost_parse_get_line_def)

lemma check_conf_text: "\<forall>s \<in> set svcs. svc_ok s \<Longrightarrow> svchost_parse_check_conf (conf_text svcs @ [NUL]) = 0"
proof (induction svcs)
  case Nil
  then show ?case using end_line(1) by (simp add: conf_text_def)
next
  case (Cons s svcs)
  then show ?case using step_line(1) [of s "conf_text svcs @ [NUL]"] by (simp add: conf_text_def)
qed

lemma parse_conf_text:
  "\<forall>s \<in> set svcs. svc_ok s \<Longrightarrow> \<forall>k. n \<le> k \<longrightarrow> mem k \<Longrightarrow>
   svchost_parse_conf mem n (conf_text svcs @ [NUL]) acc live = (Some (acc @ svcs), live + length svcs)"
proof (induction svcs arbitrary: n acc live)
  case Nil
  then show ?case using end_line(2) by (simp add: conf_text_def)
next
  case (Cons s svcs)
  then show ?case using step_line(2) [of s mem n "conf_text svcs @ [NUL]" acc live] by (simp add: conf_text_def)
qed

lemma parse_conf_live:
  "svchost_parse_conf mem n buf svcs (length svcs) = (r, live) \<Longrightarrow>
   live = (case r of None \<Rightarrow> 0 | Some xs \<Rightarrow> length xs)"
proof (induction mem n buf svcs "length svcs" arbitrary: r live rule: svchost_parse_conf.induct)
  case (2 mem n c cs svcs)
  then show ?case
    by (auto simp: svchost_parse_free_svc_def Let_def split: prod.splits if_splits option.splits)
qed simp

section \<open>Properties\<close>

text \<open>C16: A configuration written one service per line (library, entry and optional
  parameter separated by colons, no field beginning with a blank, no line beginning with
  \<open>#\<close>) is read back as exactly those services, in order.\<close>

theorem parse_conf_roundtrip:
  assumes "\<forall>s \<in> set svcs. svc_ok s" and "svcs \<noteq> []" and "\<forall>k. mem k"
  shows "svchost_parse True mem (Some (conf_text svcs)) = (Some svcs, length svcs)"
proof -
  have "conf_text svcs \<noteq> []" using assms(2) by (cases svcs) (auto simp: conf_text_def)
  then show ?thesis
    using check_conf_text [OF assms(1)] parse_conf_text [OF assms(1), of 0 mem "[]" 0] assms(2,3)
    by (simp add: svchost_parse_def svchost_parse_read_conf_def)
qed

theorem parse_conf_roundtrip_witness:
  "svchost_parse True (\<lambda>_. True)
     (Some (conf_text [\<lparr>sc_path = ''libcfg.so'', sc_entry = ''init'', sc_param = None\<rparr>,
                       \<lparr>sc_path = ''libwan.so'', sc_entry = ''init'', sc_param = Some ''a:b''\<rparr>])) =
   (Some [\<lparr>sc_path = ''libcfg.so'', sc_entry = ''init'', sc_param = None\<rparr>,
          \<lparr>sc_path = ''libwan.so'', sc_entry = ''init'', sc_param = Some ''a:b''\<rparr>], 2)"
  using parse_conf_roundtrip [of "[\<lparr>sc_path = ''libcfg.so'', sc_entry = ''init'', sc_param = None\<rparr>,
      \<lparr>sc_path = ''libwan.so'', sc_entry = ''init'', sc_param = Some ''a:b''\<rparr>]" "\<lambda>_. True"]
  by (simp add: svc_ok_def)

text \<open>Whatever the file contains and whichever allocation fails, \<open>svchost_parse\<close> returns
  either a list whose services are all allocated, or nothing and then no service is left
  allocated.\<close>

theorem parse_no_leak:
  "svchost_parse got mem file = (r, live) \<Longrightarrow> live = (case r of None \<Rightarrow> 0 | Some xs \<Rightarrow> length xs)"
proof -
  assume p: "svchost_parse got mem file = (r, live)"
  show ?thesis
  proof (cases "svchost_parse_read_conf got file")
    case None
    with p show ?thesis by (auto simp: svchost_parse_def)
  next
    case (Some buf)
    obtain q l where q: "svchost_parse_conf mem 0 buf [] 0 = (q, l)" by (cases "svchost_parse_conf mem 0 buf [] 0")
    then have "l = (case q of None \<Rightarrow> 0 | Some xs \<Rightarrow> length xs)"
      using parse_conf_live [of mem 0 buf "[]"] by simp
    with p Some q show ?thesis
      by (auto simp: svchost_parse_def split: if_splits option.splits)
  qed
qed

theorem parse_no_leak_witness:
  "snd (svchost_parse True (\<lambda>k. k < 1) (Some (''a:b'' @ [NEWLINE] @ ''c:d''))) = 0 \<and>
   fst (svchost_parse True (\<lambda>k. k < 1) (Some (''a:b'' @ [NEWLINE] @ ''c:d''))) = None"
proof -
  have "fst (svchost_parse True (\<lambda>k. k < 1) (Some (''a:b'' @ [NEWLINE] @ ''c:d''))) = None" by code_simp
  moreover from this parse_no_leak [OF prod.collapse [symmetric], of True "\<lambda>k. k < 1" "Some (''a:b'' @ [NEWLINE] @ ''c:d'')"]
  have "snd (svchost_parse True (\<lambda>k. k < 1) (Some (''a:b'' @ [NEWLINE] @ ''c:d''))) = 0" by simp
  ultimately show ?thesis by blast
qed

text \<open>Blanks behind a field are kept: on the line the file comment gives as the format,
  the library and the entry come out with a blank at the end.\<close>

theorem trailing_blank_kept:
  "fst (svchost_parse True (\<lambda>_. True) (Some ''ibso.so : init : aaaa'')) =
     Some [\<lparr>sc_path = ''ibso.so '', sc_entry = ''init '', sc_param = Some ''aaaa''\<rparr>]"
  by code_simp

end
