(* ===== verification/SvcHost.thy ===== *)
theory SvcHost
  imports SvcParse
begin

text \<open>
  The service host (\<open>svchost/svchost_api.c\<close>, \<open>svchost_loop.c\<close>): registration of methods and
  events, dispatch of calls, loading and unloading of services, the run of one thread.

  The libraries of the services and the message bus are the argument \<open>host_lib\<close>: whether a
  library opens and has its entry, the interface the entry returns, whether the bus accepts
  an object, and what a service's \<open>init\<close> leaves in its structure (it registers methods and
  events). Calls into a service are recorded in a log. The list of services is a list of
  addresses with what is stored there; an address that is no longer in it was freed.
\<close>

section \<open>Data\<close>

definition HOST_SERVICE_METHOD_MAX :: nat where "HOST_SERVICE_METHOD_MAX = 512"
definition SVCHOST_FLAG_REGISTERED :: u32 where "SVCHOST_FLAG_REGISTERED = push_bit 16 1"
definition SVCHOST_FLAG_REQUNLOAD :: u32 where "SVCHOST_FLAG_REQUNLOAD = push_bit 17 1"

text \<open>An entry of a method or event table: its name, if it has one, and whether it has a
  function.\<close>

record host_service_method =
  m_name :: "string option"
  m_fn :: bool

record host_service_intf =
  if_id :: u32
  if_flag :: u32
  if_start :: bool
  if_stop :: bool
  if_status :: bool
  if_init :: bool

datatype hook = IntfHook | HandleHook

record ubus_method =
  um_name :: "string option"
  um_handler :: "hook option"

record host_service = svc_conf +
  hs_intf :: "host_service_intf option"
  hs_flag :: u32
  hs_handle :: bool
  hs_meth :: "host_service_method list option"
  hs_event :: "host_service_method list option"
  hs_obj_id :: u32
  hs_inner_cnt :: nat
  hs_inner_meth :: "ubus_method list"

text \<open>\<open>meth_cnt\<close> and \<open>evt_cnt\<close> are the lengths of the tables.\<close>

definition meth_table :: "host_service \<Rightarrow> host_service_method list" where
  "meth_table svc = (case hs_meth svc of None \<Rightarrow> [] | Some ms \<Rightarrow> ms)"

definition event_table :: "host_service \<Rightarrow> host_service_method list" where
  "event_table svc = (case hs_event svc of None \<Rightarrow> [] | Some es \<Rightarrow> es)"

datatype host_event = EvStart u32 | EvStop u32 | EvStatus u32 | EvInit u32 | EvAdd u32 | EvRemove u32 | EvClose

record host_lib =
  lib_open :: "string \<Rightarrow> bool"
  lib_sym :: "string \<Rightarrow> string \<Rightarrow> bool"
  lib_entry :: "string \<Rightarrow> string \<Rightarrow> string option \<Rightarrow> host_service_intf option"
  lib_add :: "u32 \<Rightarrow> bool"
  lib_init :: "host_service \<Rightarrow> host_service"

record host_run_env =
  env_svc :: "(nat \<times> host_service) list"
  env_nsvc :: int
  env_log :: "host_event list"

section \<open>Registration\<close>

fun put_names :: "nat \<Rightarrow> host_service_method list \<Rightarrow> ubus_method list \<Rightarrow> nat \<times> ubus_method list" where
  "put_names k [] slots = (k, slots)"
| "put_names k (t # ts) slots =
     (if m_name t = None \<or> \<not> m_fn t then put_names k ts slots
      else if m_name t = Some [] then put_names k ts slots
      else put_names (Suc k) ts (slots[k := (slots ! k)\<lparr>um_name := m_name t\<rparr>]))"

definition svchost_reg_method :: "host_service \<Rightarrow> host_service_method list \<Rightarrow> int \<times> host_service" where
  "svchost_reg_method svc ptr =
     (if hs_meth svc \<noteq> None then (int (length ptr), svc)
      else if HOST_SERVICE_METHOD_MAX \<le> hs_inner_cnt svc + length ptr then (-1, svc)
      else
        let (k, slots) = put_names (hs_inner_cnt svc) ptr (hs_inner_meth svc);
            svc1 = svc\<lparr>hs_inner_meth := slots\<rparr>
        in if k - hs_inner_cnt svc \<noteq> length ptr then (0, svc1)
           else (int (length ptr), svc1\<lparr>hs_inner_cnt := k, hs_meth := Some ptr\<rparr>))"

text \<open>A \<open>*\<close> at the end of the name of an event is cut off in place, in the table of the
  caller and in the slot, which points to the same text. \<open>reg\<close> is what
  \<open>ubus_register_event_handler\<close> returns for a pattern.\<close>

definition strip_star :: "string \<Rightarrow> string" where
  "strip_star n = (if last n = CHR ''*'' then butlast n else n)"

fun put_events ::
  "(string \<Rightarrow> int) \<Rightarrow> nat \<Rightarrow> host_service_method list \<Rightarrow> ubus_method list \<Rightarrow> nat \<times> host_service_method list \<times> ubus_method list" where
  "put_events reg k [] slots = (k, [], slots)"
| "put_events reg k (t # ts) slots =
     (case m_name t of
        None \<Rightarrow> (let (k', ts', s') = put_events reg k ts slots in (k', t # ts', s'))
      | Some n \<Rightarrow>
          if \<not> m_fn t \<or> n = [] \<or> reg n \<noteq> 0
          then (let (k', ts', s') = put_events reg k ts slots in (k', t # ts', s'))
          else (let (k', ts', s') = put_events reg (Suc k) ts (slots[k := (slots ! k)\<lparr>um_name := Some (strip_star n)\<rparr>])
                in (k', t\<lparr>m_name := Some (strip_star n)\<rparr> # ts', s')))"

definition svchost_reg_event ::
  "(string \<Rightarrow> int) \<Rightarrow> host_service \<Rightarrow> host_service_method list \<Rightarrow> int \<times> host_service \<times> host_service_method list" where
  "svchost_reg_event reg svc ptr =
     (if hs_event svc \<noteq> None then (int (length ptr), svc, ptr)
      else if HOST_SERVICE_METHOD_MAX \<le> hs_inner_cnt svc + length ptr then (-1, svc, ptr)
      else
        let (k, ptr', slots) = put_events reg (hs_inner_cnt svc) ptr (hs_inner_meth svc);
            svc1 = svc\<lparr>hs_inner_meth := slots\<rparr>
        in if k - hs_inner_cnt svc \<noteq> length ptr then (0, svc1, ptr')
           else (int (length ptr), svc1\<lparr>hs_inner_cnt := k, hs_event := Some ptr'\<rparr>, ptr'))"

section \<open>Dispatch\<close>

fun index_of :: "('a \<Rightarrow> bool) \<Rightarrow> 'a list \<Rightarrow> nat option" where
  "index_of P [] = None"
| "index_of P (x # xs) = (if P x then Some 0 else map_option Suc (index_of P xs))"

text \<open>Which function \<open>svchost_meth_handle_hook\<close> calls.\<close>

datatype call_target = CallMethod nat | CallEvent nat | MethodNotFound

definition svchost_meth_handle_hook :: "host_service \<Rightarrow> string \<Rightarrow> call_target" where
  "svchost_meth_handle_hook svc method =
     (case index_of (\<lambda>t. m_name t = Some method) (meth_table svc) of
        Some i \<Rightarrow> CallMethod i
      | None \<Rightarrow>
          (case index_of (\<lambda>t. m_name t = Some [] \<or> m_name t = Some method) (event_table svc) of
             Some i \<Rightarrow> CallEvent i
           | None \<Rightarrow> MethodNotFound))"

text \<open>\<open>svchost_meth_intf_hook\<close>: the call into the service, if any, and the service afterwards;
  \<open>None\<close> when the method is not known. The names are compared up to the length given to
  \<open>strncmp\<close>.\<close>

definition intf_of :: "host_service \<Rightarrow> host_service_intf cres" where
  "intf_of svc = (case hs_intf svc of None \<Rightarrow> Fault NullDeref | Some i \<Rightarrow> Ret i)"

definition svchost_meth_intf_hook ::
  "host_service \<Rightarrow> string \<Rightarrow> (host_event option \<times> host_service) option cres" where
  "svchost_meth_intf_hook svc method =
     cbind (if prefix_of ''__start'' method then cbind (intf_of svc) (\<lambda>i. Ret (if_start i)) else Ret False) (\<lambda>start.
     if start then cbind (intf_of svc) (\<lambda>i. Ret (Some (Some (EvStart (if_id i)), svc)))
     else
     cbind (if prefix_of ''__stop'' method then cbind (intf_of svc) (\<lambda>i. Ret (if_stop i)) else Ret False) (\<lambda>stop.
     if stop then cbind (intf_of svc) (\<lambda>i. Ret (Some (Some (EvStop (if_id i)), svc)))
     else if prefix_of ''__statu'' method
     then cbind (intf_of svc) (\<lambda>i. Ret (Some (if if_status i then Some (EvStatus (if_id i)) else None, svc)))
     else if prefix_of ''__unload'' method
     then Ret (Some (None, svc\<lparr>hs_flag := hs_flag svc OR SVCHOST_FLAG_REQUNLOAD\<rparr>))
     else Ret None))"

section \<open>Loading\<close>

definition svc_of :: "host_run_env \<Rightarrow> nat \<Rightarrow> host_service cres" where
  "svc_of env a = (case map_of (env_svc env) a of None \<Rightarrow> Fault UseAfterFree | Some s \<Rightarrow> Ret s)"

definition put_svc :: "nat \<Rightarrow> host_service \<Rightarrow> host_run_env \<Rightarrow> host_run_env" where
  "put_svc a s env = env\<lparr>env_svc := map (\<lambda>(b, t). (b, if b = a then s else t)) (env_svc env)\<rparr>"

definition log_event :: "host_event \<Rightarrow> host_run_env \<Rightarrow> host_run_env" where
  "log_event e env = env\<lparr>env_log := env_log env @ [e]\<rparr>"

fun next_in :: "(nat \<times> 'a) list \<Rightarrow> nat \<Rightarrow> nat option cres" where
  "next_in [] a = Fault UseAfterFree"
| "next_in ((b, t) # bs) a =
     (if a = b then Ret (case bs of [] \<Rightarrow> None | (c, _) # _ \<Rightarrow> Some c) else next_in bs a)"

text \<open>\<open>svc->next\<close>.\<close>

definition svc_next :: "host_run_env \<Rightarrow> nat \<Rightarrow> nat option cres" where
  "svc_next env a = next_in (env_svc env) a"

definition svchost_check_svc :: "host_run_env \<Rightarrow> nat \<Rightarrow> host_service \<Rightarrow> int" where
  "svchost_check_svc env a svc =
     (case hs_intf svc of
        None \<Rightarrow> -1
      | Some intf \<Rightarrow>
          if \<not> if_start intf \<or> \<not> if_stop intf \<or> if_id intf = 0 then -1
          else if \<exists>(b, t) \<in> set (env_svc env). b \<noteq> a \<and>
                    (case hs_intf t of None \<Rightarrow> False | Some i \<Rightarrow> if_id i = if_id intf) then -1
          else 0)"

definition svchost_load_lib :: "host_lib \<Rightarrow> host_service \<Rightarrow> int \<times> host_service" where
  "svchost_load_lib L svc =
     (if \<not> lib_open L (sc_path svc) then (-1, svc\<lparr>hs_handle := False\<rparr>)
      else
        let svc1 = svc\<lparr>hs_handle := True\<rparr>
        in if \<not> lib_sym L (sc_path svc) (sc_entry svc) then (-1, svc1)
           else (case lib_entry L (sc_path svc) (sc_entry svc) (sc_param svc) of
                   None \<Rightarrow> (-1, svc1\<lparr>hs_intf := None\<rparr>)
                 | Some intf \<Rightarrow> (0, svc1\<lparr>hs_intf := Some intf, hs_flag := if_flag intf\<rparr>)))"

definition meth_names :: "string list" where
  "meth_names = [''__start'', ''__stop'', ''__status'', ''__unload'']"

definition reg_slots :: "ubus_method list \<Rightarrow> ubus_method list" where
  "reg_slots slots =
     map (\<lambda>n. \<lparr>um_name = Some n, um_handler = Some IntfHook\<rparr>) meth_names @
     map (\<lambda>u. u\<lparr>um_handler := Some HandleHook\<rparr>) (drop (length meth_names) slots)"

definition svchost_reg_svc :: "host_lib \<Rightarrow> nat \<Rightarrow> host_service \<Rightarrow> host_run_env \<Rightarrow> (int \<times> host_run_env) cres" where
  "svchost_reg_svc L a svc env =
     (case hs_intf svc of
        None \<Rightarrow> Fault NullDeref
      | Some intf \<Rightarrow>
          let svc1 = svc\<lparr>hs_inner_cnt := length meth_names, hs_inner_meth := reg_slots (hs_inner_meth svc),
                         hs_obj_id := if_id intf\<rparr>
          in if \<not> lib_add L (if_id intf) then Ret (-1, put_svc a svc1 env)
             else
               let svc2 = svc1\<lparr>hs_flag := hs_flag svc1 OR SVCHOST_FLAG_REGISTERED\<rparr>;
                   env1 = log_event (EvAdd (if_id intf)) (env\<lparr>env_nsvc := env_nsvc env + 1\<rparr>)
               in Ret (0, if if_init intf
                          then put_svc a (lib_init L svc2) (log_event (EvInit (if_id intf)) env1)
                          else put_svc a svc2 env1))"

fun auto_start :: "(nat \<times> host_service) list \<Rightarrow> host_run_env \<Rightarrow> host_run_env cres" where
  "auto_start [] env = Ret env"
| "auto_start ((a, svc) # ss) env =
     (if hs_flag svc AND 1 \<noteq> 0
      then (case hs_intf svc of
              None \<Rightarrow> Fault NullDeref
            | Some intf \<Rightarrow> auto_start ss (log_event (EvStart (if_id intf)) env))
      else auto_start ss env)"

definition svchost_auto_start :: "host_run_env \<Rightarrow> host_run_env cres" where
  "svchost_auto_start env = auto_start (env_svc env) env"

text \<open>The loop of \<open>svchost_init_lib\<close> over the addresses that are left.\<close>

fun init_loop :: "host_lib \<Rightarrow> nat list \<Rightarrow> host_run_env \<Rightarrow> (int \<times> host_run_env) cres" where
  "init_loop L [] env = Ret (0, env)"
| "init_loop L (a # as) env =
     cbind (svc_of env a) (\<lambda>svc.
       let (r, svc1) = svchost_load_lib L svc; env1 = put_svc a svc1 env
       in if r < 0 then Ret (-1, env1)
          else if svchost_check_svc env1 a svc1 < 0 then Ret (-1, env1)
          else cbind (svchost_reg_svc L a svc1 env1) (\<lambda>(r2, env2).
                 if r2 < 0 then Ret (-1, env2) else init_loop L as env2))"

definition svchost_init_lib :: "host_lib \<Rightarrow> host_run_env \<Rightarrow> (int \<times> host_run_env) cres" where
  "svchost_init_lib L env =
     cbind (init_loop L (map fst (env_svc env)) env) (\<lambda>(r, env1).
       if r < 0 then Ret (-1, env1)
       else cbind (svchost_auto_start env1) (\<lambda>env2. Ret (0, env2)))"

section \<open>Unloading\<close>

definition svchost_unreg_svc :: "nat \<Rightarrow> host_service \<Rightarrow> host_run_env \<Rightarrow> host_run_env" where
  "svchost_unreg_svc a svc env =
     log_event (EvRemove (hs_obj_id svc))
       (put_svc a (svc\<lparr>hs_inner_cnt := 0,
          hs_inner_meth := take 2 (hs_inner_meth svc) @
            map (\<lambda>u. u\<lparr>um_name := None, um_handler := None\<rparr>) (drop 2 (hs_inner_meth svc))\<rparr>) env)"

text \<open>\<open>svchost_free_svc\<close> unlinks the service from the list and frees it.\<close>

definition svchost_free_svc :: "nat \<Rightarrow> host_run_env \<Rightarrow> (int \<times> host_run_env) cres" where
  "svchost_free_svc a env =
     (if env_svc env = [] then Fault NullDeref
      else if a \<in> set (map fst (env_svc env))
      then Ret (1, env\<lparr>env_svc := filter (\<lambda>(b, _). b \<noteq> a) (env_svc env)\<rparr>)
      else Ret (0, env))"

definition svchost_unload_svc :: "nat \<Rightarrow> host_run_env \<Rightarrow> host_run_env cres" where
  "svchost_unload_svc a env =
     cbind (svc_of env a) (\<lambda>svc.
       let env1 = (case hs_intf svc of
                     None \<Rightarrow> env
                   | Some intf \<Rightarrow> if if_stop intf then log_event (EvStop (if_id intf)) env else env);
           env2 = (if hs_flag svc AND SVCHOST_FLAG_REGISTERED \<noteq> 0 then svchost_unreg_svc a svc env1 else env1);
           env3 = (if hs_handle svc then log_event EvClose env2 else env2);
           env4 = env3\<lparr>env_nsvc := env_nsvc env3 - 1\<rparr>
       in cbind (svchost_free_svc a env4) (\<lambda>(_, env5). Ret env5))"

text \<open>The loops of \<open>svchost_deinit_lib\<close> and \<open>svchost_check_unload\<close> from the service at \<open>p\<close>; both
  go on with \<open>svc->next\<close>. \<open>fuel\<close> bounds the turns.\<close>

fun deinit_loop :: "nat \<Rightarrow> nat option \<Rightarrow> host_run_env \<Rightarrow> host_run_env cres" where
  "deinit_loop fuel None env = Ret env"
| "deinit_loop 0 (Some a) env = Fault NoReturn"
| "deinit_loop (Suc fuel) (Some a) env =
     cbind (svchost_unload_svc a env) (\<lambda>env1.
     cbind (svc_next env1 a) (\<lambda>p. deinit_loop fuel p env1))"

definition first_svc :: "host_run_env \<Rightarrow> nat option" where
  "first_svc env = (case env_svc env of [] \<Rightarrow> None | (a, _) # _ \<Rightarrow> Some a)"

definition svchost_deinit_lib :: "host_run_env \<Rightarrow> host_run_env cres" where
  "svchost_deinit_lib env = deinit_loop (length (env_svc env)) (first_svc env) env"

fun unload_loop :: "nat \<Rightarrow> nat option \<Rightarrow> host_run_env \<Rightarrow> host_run_env cres" where
  "unload_loop fuel None env = Ret env"
| "unload_loop 0 (Some a) env = Fault NoReturn"
| "unload_loop (Suc fuel) (Some a) env =
     cbind (svc_of env a) (\<lambda>svc.
     cbind (if hs_flag svc AND SVCHOST_FLAG_REQUNLOAD \<noteq> 0 then svchost_unload_svc a env else Ret env) (\<lambda>env1.
     cbind (svc_next env1 a) (\<lambda>p. unload_loop fuel p env1)))"

definition svchost_check_unload :: "host_run_env \<Rightarrow> host_run_env cres" where
  "svchost_check_unload env = unload_loop (length (env_svc env)) (first_svc env) env"

text \<open>\<open>svchost_run_loop\<close>: \<open>polls\<close> are what the successive turns of \<open>ubus_loop_poll\<close> do to the
  services; a list that ends stands for the cancelled loop.\<close>

fun svchost_run_loop :: "(host_run_env \<Rightarrow> host_run_env) list \<Rightarrow> host_run_env \<Rightarrow> host_run_env cres" where
  "svchost_run_loop [] env = Ret env"
| "svchost_run_loop (poll # polls) env =
     (if env_nsvc env \<le> 0 then Ret env
      else cbind (svchost_check_unload (poll env)) (svchost_run_loop polls))"

definition svchost_run_init :: "host_lib \<Rightarrow> bool \<Rightarrow> host_run_env \<Rightarrow> (int \<times> host_run_env) cres" where
  "svchost_run_init L uloop env =
     (if \<not> uloop then Ret (-1, env)
      else cbind (svchost_init_lib L env) (\<lambda>(r, env1). Ret (if r < 0 then -1 else 0, env1)))"

definition svchost_run_deinit :: "host_run_env \<Rightarrow> host_run_env cres" where
  "svchost_run_deinit env = svchost_deinit_lib env"

text \<open>\<open>svchost_run\<close>, the whole life of a thread of the host; \<open>uloop\<close> says whether the event loop
  starts.\<close>

definition svchost_run ::
  "host_lib \<Rightarrow> bool \<Rightarrow> (host_run_env \<Rightarrow> host_run_env) list \<Rightarrow> (nat \<times> host_service) list \<Rightarrow> host_run_env cres" where
  "svchost_run L uloop polls svcs =
     cbind (svchost_run_init L uloop \<lparr>env_svc = svcs, env_nsvc = 0, env_log = []\<rparr>) (\<lambda>(ret, env).
     cbind (if ret = 0 then svchost_run_loop polls env else Ret env) (\<lambda>env1.
       svchost_run_deinit env1))"

end
