(* ===== verification/SvcHostSpec.thy ===== *)
theory SvcHostSpec
  imports SvcHost
begin

text \<open>
  What the service host guarantees: registration and dispatch, the state after a
  successful start, and what unloading does.
\<close>

section \<open>Registration\<close>

definition valid_entry :: "host_service_method \<Rightarrow> bool" where
  "valid_entry t \<longleftrightarrow> m_name t \<noteq> None \<and> m_name t \<noteq> Some [] \<and> m_fn t"

lemma put_names_count: "fst (put_names k ts slots) = k + length (filter valid_entry ts)"
  by (induction k ts slots rule: put_names.induct) (auto simp: valid_entry_def)

lemma put_names_slots:
  assumes "k + length ts \<le> length slots"
  shows "length (snd (put_names k ts slots)) = length slots \<and>
    (\<forall>j < k. snd (put_names k ts slots) ! j = slots ! j) \<and>
    (\<forall>i < length (filter valid_entry ts). um_name (snd (put_names k ts slots) ! (k + i)) = m_name (filter valid_entry ts ! i))"
  using assms
proof (induction k ts slots rule: put_names.induct)
  case (2 k t ts slots)
  show ?case
  proof (cases "valid_entry t")
    case True
    let ?s = "slots[k := (slots ! k)\<lparr>um_name := m_name t\<rparr>]"
    have c: "\<not> (m_name t = None \<or> \<not> m_fn t)" "m_name t \<noteq> Some []" using True by (auto simp: valid_entry_def)
    then have e: "put_names k (t # ts) slots = put_names (Suc k) ts ?s" by auto
    have IH: "length (snd (put_names (Suc k) ts ?s)) = length slots"
      "\<forall>j < Suc k. snd (put_names (Suc k) ts ?s) ! j = ?s ! j"
      "\<forall>i < length (filter valid_entry ts). um_name (snd (put_names (Suc k) ts ?s) ! (Suc k + i)) = m_name (filter valid_entry ts ! i)"
      using "2.IH"(3) [OF c] "2.prems" by auto
    have "um_name (snd (put_names (Suc k) ts ?s) ! (k + i)) = m_name (filter valid_entry (t # ts) ! i)"
      if "i < length (filter valid_entry (t # ts))" for i
      using that IH(2,3) True "2.prems" by (cases i) auto
    with e IH(1,2) show ?thesis by simp
  next
    case False
    then have "(m_name t = None \<or> \<not> m_fn t) \<or> \<not> (m_name t = None \<or> \<not> m_fn t) \<and> m_name t = Some []"
      by (auto simp: valid_entry_def)
    with False "2.IH"(1,2) "2.prems" show ?thesis by auto
  qed
qed simp

lemma index_of_first:
  "index_of P xs = Some i \<longleftrightarrow> i < length xs \<and> P (xs ! i) \<and> (\<forall>j < i. \<not> P (xs ! j))"
proof (induction xs arbitrary: i)
  case (Cons x xs)
  show ?case
  proof (cases i)
    case (Suc n)
    then show ?thesis using Cons [of n] by (auto simp: less_Suc_eq_0_disj)
  qed (auto split: option.splits)
qed simp

lemma reg_method_cases:
  assumes "hs_meth svc = None" "hs_inner_cnt svc + length ptr < HOST_SERVICE_METHOD_MAX"
  shows "svchost_reg_method svc ptr =
    (let slots = snd (put_names (hs_inner_cnt svc) ptr (hs_inner_meth svc))
     in if list_all valid_entry ptr
        then (int (length ptr), svc\<lparr>hs_inner_meth := slots, hs_inner_cnt := hs_inner_cnt svc + length ptr, hs_meth := Some ptr\<rparr>)
        else (0, svc\<lparr>hs_inner_meth := slots\<rparr>))"
proof -
  have f: "length (filter valid_entry ptr) = length ptr \<longleftrightarrow> list_all valid_entry ptr"
    by (metis filter_id_conv length_filter_less less_irrefl list_all_iff)
  then have "filter valid_entry ptr = ptr" if "list_all valid_entry ptr"
    using that by (simp add: list_all_iff)
  with f assms put_names_count [of "hs_inner_cnt svc" ptr "hs_inner_meth svc"] show ?thesis
    by (auto simp: svchost_reg_method_def case_prod_beta Let_def)
qed

section \<open>The list of services\<close>

abbreviation svc_addrs :: "host_run_env \<Rightarrow> nat list" where
  "svc_addrs env \<equiv> map fst (env_svc env)"

lemma put_svc_addrs [simp]: "svc_addrs (put_svc a s env) = svc_addrs env"
  by (simp add: put_svc_def case_prod_beta comp_def)

lemma put_svc_other: "b \<noteq> a \<Longrightarrow> map_of (env_svc (put_svc a s env)) b = map_of (env_svc env) b"
proof -
  assume ne: "b \<noteq> a"
  have "map_of (map (\<lambda>(b, t). (b, if b = a then s else t)) xs) b = map_of xs b" for xs :: "(nat \<times> host_service) list"
    using ne by (induction xs) auto
  then show ?thesis by (simp add: put_svc_def)
qed

lemma log_event_simps [simp]:
  "env_svc (log_event e env) = env_svc env" "env_nsvc (log_event e env) = env_nsvc env"
  "env_log (log_event e env) = env_log env @ [e]"
  by (simp_all add: log_event_def)

lemma put_svc_simps [simp]: "env_nsvc (put_svc a s env) = env_nsvc env" "env_log (put_svc a s env) = env_log env"
  by (simp_all add: put_svc_def)

lemma unload_spec:
  assumes "a \<in> set (svc_addrs env)"
  shows "\<exists>env'. svchost_unload_svc a env = Ret env' \<and> svc_addrs env' = filter (\<lambda>b. b \<noteq> a) (svc_addrs env) \<and>
    env_nsvc env' = env_nsvc env - 1 \<and> (\<forall>b. b \<noteq> a \<longrightarrow> map_of (env_svc env') b = map_of (env_svc env) b)"
proof -
  obtain svc where svc: "map_of (env_svc env) a = Some svc"
    using assms by (metis list.set_map map_of_eq_None_iff option.exhaust)
  define env1 where "env1 = (case hs_intf svc of None \<Rightarrow> env
     | Some intf \<Rightarrow> if if_stop intf then log_event (EvStop (if_id intf)) env else env)"
  define env2 where "env2 = (if hs_flag svc AND SVCHOST_FLAG_REGISTERED \<noteq> 0 then svchost_unreg_svc a svc env1 else env1)"
  define env3 where "env3 = (if hs_handle svc then log_event EvClose env2 else env2)"
  have e1: "env_svc env1 = env_svc env" "env_nsvc env1 = env_nsvc env"
    by (auto simp: env1_def split: option.splits)
  have e2: "svc_addrs env2 = svc_addrs env" "env_nsvc env2 = env_nsvc env"
    "\<forall>b. b \<noteq> a \<longrightarrow> map_of (env_svc env2) b = map_of (env_svc env) b"
    using e1 put_svc_other by (auto simp: env2_def svchost_unreg_svc_def)
  have e3: "svc_addrs env3 = svc_addrs env" "env_nsvc env3 = env_nsvc env"
    "\<forall>b. b \<noteq> a \<longrightarrow> map_of (env_svc env3) b = map_of (env_svc env) b"
    using e2 by (auto simp: env3_def)
  have "svchost_unload_svc a env = cbind (svchost_free_svc a (env3\<lparr>env_nsvc := env_nsvc env3 - 1\<rparr>)) (\<lambda>(_, e). Ret e)"
    using svc by (simp add: svchost_unload_svc_def svc_of_def Let_def env1_def env2_def env3_def)
  moreover have "a \<in> set (svc_addrs env3)" "env_svc env3 \<noteq> []" using assms e3(1) by auto
  moreover have "map_of (filter (\<lambda>(b, _). b \<noteq> a) xs) b = map_of xs b" if "b \<noteq> a" for b and xs :: "(nat \<times> host_service) list"
    using that by (induction xs) auto
  moreover have "map fst (filter (\<lambda>(b, _). b \<noteq> a) xs) = filter (\<lambda>b. b \<noteq> a) (map fst xs)" for xs :: "(nat \<times> host_service) list"
    by (induction xs) auto
  ultimately show ?thesis using e3 by (simp add: svchost_free_svc_def)
qed

lemma next_freed: "a \<notin> set (svc_addrs env) \<Longrightarrow> svc_next env a = Fault UseAfterFree"
proof -
  assume "a \<notin> set (svc_addrs env)"
  moreover have "a \<notin> set (map fst xs) \<Longrightarrow> next_in xs a = Fault UseAfterFree" for xs :: "(nat \<times> host_service) list"
    by (induction xs a rule: next_in.induct) auto
  ultimately show ?thesis by (simp add: svc_next_def)
qed

lemma unload_then_next:
  "a \<in> set (svc_addrs env) \<Longrightarrow> cbind (svchost_unload_svc a env) (\<lambda>e. cbind (svc_next e a) (f e)) = Fault UseAfterFree"
proof -
  assume "a \<in> set (svc_addrs env)"
  from unload_spec [OF this] obtain e where e: "svchost_unload_svc a env = Ret e"
    "svc_addrs e = filter (\<lambda>b. b \<noteq> a) (svc_addrs env)" by blast
  then have "a \<notin> set (svc_addrs e)" by (simp only: set_filter) simp
  with e(1) next_freed show ?thesis by simp
qed

lemma deinit_faults: "env_svc env \<noteq> [] \<Longrightarrow> svchost_deinit_lib env = Fault UseAfterFree"
proof -
  assume "env_svc env \<noteq> []"
  then obtain a s ss where e: "env_svc env = (a, s) # ss" by (cases "env_svc env") auto
  then have "a \<in> set (svc_addrs env)" by simp
  from unload_then_next [OF this] e show ?thesis by (simp add: svchost_deinit_lib_def first_svc_def)
qed

definition unload_requested :: "host_run_env \<Rightarrow> bool" where
  "unload_requested env \<longleftrightarrow> (\<exists>(a, s) \<in> set (env_svc env). hs_flag s AND SVCHOST_FLAG_REQUNLOAD \<noteq> 0)"

lemma next_in_split:
  "a \<notin> set (map fst pre) \<Longrightarrow> next_in (pre @ (a, s) # post) a = Ret (case post of [] \<Rightarrow> None | (c, _) # _ \<Rightarrow> Some c)"
  by (induction pre) auto

lemma unload_loop_spec:
  assumes "env_svc env = pre @ post" "distinct (svc_addrs env)"
  shows "unload_loop (length post) (case post of [] \<Rightarrow> None | (c, _) # _ \<Rightarrow> Some c) env =
    (if \<exists>(a, s) \<in> set post. hs_flag s AND SVCHOST_FLAG_REQUNLOAD \<noteq> 0 then Fault UseAfterFree else Ret env)"
  using assms
proof (induction post arbitrary: pre)
  case (Cons x post)
  obtain a s where x: "x = (a, s)" by (cases x)
  have a: "a \<notin> set (map fst pre)" "a \<in> set (svc_addrs env)" using Cons.prems x by auto
  have "map_of (env_svc env) a = Some s" using Cons.prems x by (intro map_of_is_SomeI) auto
  then have s: "svc_of env a = Ret s" by (simp add: svc_of_def)
  have n: "svc_next env a = Ret (case post of [] \<Rightarrow> None | (c, _) # _ \<Rightarrow> Some c)"
    using next_in_split [OF a(1)] Cons.prems x by (simp add: svc_next_def)
  show ?case
  proof (cases "hs_flag s AND SVCHOST_FLAG_REQUNLOAD \<noteq> 0")
    case True
    with unload_then_next [OF a(2)] s x show ?thesis by simp
  next
    case False
    have "unload_loop (length post) (case post of [] \<Rightarrow> None | (c, _) # _ \<Rightarrow> Some c) env =
      (if \<exists>(a, s) \<in> set post. hs_flag s AND SVCHOST_FLAG_REQUNLOAD \<noteq> 0 then Fault UseAfterFree else Ret env)"
      using Cons.prems x by (intro Cons.IH [of "pre @ [x]"]) auto
    with False s n x show ?thesis by simp
  qed
qed simp

lemma check_unload_spec:
  "distinct (svc_addrs env) \<Longrightarrow>
   svchost_check_unload env = (if unload_requested env then Fault UseAfterFree else Ret env)"
  using unload_loop_spec [of env "[]" "env_svc env"]
  by (simp add: svchost_check_unload_def first_svc_def unload_requested_def)

section \<open>Starting\<close>

lemma reg_svc_addrs: "svchost_reg_svc L a svc env = Ret (r, env') \<Longrightarrow> svc_addrs env' = svc_addrs env"
  by (auto simp: svchost_reg_svc_def Let_def split: option.splits if_splits)

lemma init_loop_addrs: "init_loop L as env = Ret (r, env') \<Longrightarrow> svc_addrs env' = svc_addrs env"
proof (induction L as env arbitrary: r env' rule: init_loop.induct)
  case (2 L a as env)
  obtain svc where svc: "svc_of env a = Ret svc" using "2.prems" by (auto elim: cbind_RetE)
  obtain r1 svc1 where l: "svchost_load_lib L svc = (r1, svc1)" by (cases "svchost_load_lib L svc")
  let ?e = "put_svc a svc1 env"
  show ?case
  proof (cases "r1 < 0 \<or> svchost_check_svc ?e a svc1 < 0")
    case True
    then have "env' = ?e" using "2.prems" svc l by (auto simp: Let_def split: if_splits)
    then show ?thesis by simp
  next
    case False
    then obtain r2 env2 where r2: "svchost_reg_svc L a svc1 ?e = Ret (r2, env2)"
        "(if r2 < 0 then Ret (-1, env2) else init_loop L as env2) = Ret (r, env')"
      using "2.prems" svc l by (auto simp: Let_def)
    have "svc_addrs env' = svc_addrs env2"
      using r2(2) "2.IH" [OF svc l [symmetric] refl refl _ _ r2(1) refl] False by (auto split: if_splits)
    with reg_svc_addrs [OF r2(1)] show ?thesis by simp
  qed
qed simp

lemma auto_start_svcs: "auto_start ss env = Ret env' \<Longrightarrow> env_svc env' = env_svc env \<and> env_nsvc env' = env_nsvc env"
  by (induction ss env rule: auto_start.induct) (auto split: if_splits option.splits)

lemma init_lib_addrs: "svchost_init_lib L env = Ret (r, env') \<Longrightarrow> svc_addrs env' = svc_addrs env"
proof -
  assume "svchost_init_lib L env = Ret (r, env')"
  then obtain r1 env1 where l: "init_loop L (svc_addrs env) env = Ret (r1, env1)"
      "(if r1 < 0 then Ret (-1, env1) else cbind (svchost_auto_start env1) (\<lambda>e. Ret (0, e))) = Ret (r, env')"
    by (auto simp: svchost_init_lib_def)
  have "svc_addrs env' = svc_addrs env1"
    using l(2) auto_start_svcs [of "env_svc env1" env1 env'] by (auto simp: svchost_auto_start_def split: if_splits)
  with init_loop_addrs [OF l(1)] show ?thesis by simp
qed

lemma run_loop_addrs:
  assumes "\<forall>p \<in> set polls. \<forall>e. svc_addrs (p e) = svc_addrs e"
    and "svchost_run_loop polls env = Ret env'" "distinct (svc_addrs env)"
  shows "svc_addrs env' = svc_addrs env"
  using assms
proof (induction polls arbitrary: env)
  case (Cons p polls)
  show ?case
  proof (cases "env_nsvc env \<le> 0")
    case False
    with Cons.prems obtain e where e: "svchost_check_unload (p env) = Ret e" "svchost_run_loop polls e = Ret env'" by auto
    have pe: "svc_addrs (p env) = svc_addrs env" using Cons.prems(1) by simp
    with e(1) Cons.prems(3) check_unload_spec [of "p env"] have "e = p env" by (auto split: if_splits)
    with Cons.IH [OF _ e(2)] Cons.prems pe show ?thesis by simp
  qed (use Cons.prems in simp)
qed simp

text \<open>What the host expects of a service's \<open>init\<close>: it does not touch the interface, the flags
  and the library of its service.\<close>

definition init_keeps :: "host_lib \<Rightarrow> bool" where
  "init_keeps L \<longleftrightarrow> (\<forall>s. hs_intf (lib_init L s) = hs_intf s \<and> hs_flag (lib_init L s) = hs_flag s)"

text \<open>The services at the addresses \<open>D\<close> are registered under different numbers, the others
  are not loaded yet.\<close>

definition svc_id :: "host_service \<Rightarrow> u32 option" where
  "svc_id s = map_option if_id (hs_intf s)"

definition registered :: "host_service \<Rightarrow> bool" where
  "registered s \<longleftrightarrow> hs_flag s AND SVCHOST_FLAG_REGISTERED \<noteq> 0 \<and> svc_id s \<noteq> None \<and> svc_id s \<noteq> Some 0"

definition reg_inv :: "nat set \<Rightarrow> host_run_env \<Rightarrow> bool" where
  "reg_inv D env \<longleftrightarrow>
     (\<forall>a s. map_of (env_svc env) a = Some s \<longrightarrow> (if a \<in> D then registered s else svc_id s = None)) \<and>
     (\<forall>a b s t. map_of (env_svc env) a = Some s \<longrightarrow> map_of (env_svc env) b = Some t \<longrightarrow> a \<noteq> b \<longrightarrow>
        svc_id s \<noteq> None \<longrightarrow> svc_id s \<noteq> svc_id t)"

lemma put_svc_map:
  "a \<in> set (svc_addrs env) \<Longrightarrow> map_of (env_svc (put_svc a s env)) = (map_of (env_svc env))(a \<mapsto> s)"
proof (rule ext)
  fix b
  assume "a \<in> set (svc_addrs env)"
  moreover have "a \<in> set (map fst xs) \<Longrightarrow> map_of (map (\<lambda>(b, t). (b, if b = a then s else t)) xs) a = Some s"
    for xs :: "(nat \<times> host_service) list"
    by (induction xs) auto
  ultimately show "map_of (env_svc (put_svc a s env)) b = ((map_of (env_svc env))(a \<mapsto> s)) b"
    using put_svc_other [of b a s env] by (cases "b = a") (simp_all add: put_svc_def)
qed

lemma flag_registered: "(x OR SVCHOST_FLAG_REGISTERED) AND SVCHOST_FLAG_REGISTERED \<noteq> 0"
proof -
  have "bit ((x OR SVCHOST_FLAG_REGISTERED) AND SVCHOST_FLAG_REGISTERED) 16"
    by (simp add: bit_simps SVCHOST_FLAG_REGISTERED_def)
  then show ?thesis by auto
qed

lemma reg_svc_ok:
  assumes "svchost_reg_svc L a svc env = Ret (r, env')" "0 \<le> r" "init_keeps L" "a \<in> set (svc_addrs env)"
  shows "\<exists>s. map_of (env_svc env') = (map_of (env_svc env))(a \<mapsto> s) \<and> svc_id s = svc_id svc \<and>
    hs_flag s AND SVCHOST_FLAG_REGISTERED \<noteq> 0 \<and> env_nsvc env' = env_nsvc env + 1"
proof -
  obtain i where i: "hs_intf svc = Some i" using assms(1) by (auto simp: svchost_reg_svc_def split: option.splits)
  let ?s = "svc\<lparr>hs_inner_cnt := length meth_names, hs_inner_meth := reg_slots (hs_inner_meth svc),
      hs_obj_id := if_id i, hs_flag := hs_flag svc OR SVCHOST_FLAG_REGISTERED\<rparr>"
  have "\<exists>e. env' = put_svc a (if if_init i then lib_init L ?s else ?s) e \<and> env_svc e = env_svc env \<and> env_nsvc e = env_nsvc env + 1"
    using assms(1,2) i by (auto simp: svchost_reg_svc_def Let_def split: if_splits)
  then obtain e where e: "env' = put_svc a (if if_init i then lib_init L ?s else ?s) e" "env_svc e = env_svc env"
      "env_nsvc e = env_nsvc env + 1" by blast
  have "svc_id (if if_init i then lib_init L ?s else ?s) = svc_id svc"
    "hs_flag (if if_init i then lib_init L ?s else ?s) = hs_flag svc OR SVCHOST_FLAG_REGISTERED"
    using assms(3) by (auto simp: init_keeps_def svc_id_def)
  with e assms(4) put_svc_map [of a e] flag_registered show ?thesis by auto
qed

lemma check_svc_ok:
  assumes "0 \<le> svchost_check_svc env a svc" "distinct (svc_addrs env)"
  shows "\<exists>i. svc_id svc = Some i \<and> i \<noteq> 0 \<and> (\<forall>b t. map_of (env_svc env) b = Some t \<longrightarrow> b \<noteq> a \<longrightarrow> svc_id t \<noteq> Some i)"
  using assms by (fastforce simp: svchost_check_svc_def svc_id_def split: option.splits if_splits dest: map_of_SomeD)

lemma init_loop_ok:
  assumes "init_loop L as env = Ret (r, env')" "0 \<le> r" "init_keeps L" "distinct (svc_addrs env)" "reg_inv D env"
    and "set as \<subseteq> set (svc_addrs env)" "distinct as" "set as \<inter> D = {}"
  shows "reg_inv (D \<union> set as) env' \<and> env_nsvc env' = env_nsvc env + int (length as)"
  using assms
proof (induction L as env arbitrary: r env' D rule: init_loop.induct)
  case (2 L a as env)
  obtain svc where svc: "svc_of env a = Ret svc" using "2.prems"(1) by (auto elim: cbind_RetE)
  obtain r1 svc1 where l: "svchost_load_lib L svc = (r1, svc1)" by (cases "svchost_load_lib L svc")
  let ?e = "put_svc a svc1 env"
  have ok: "\<not> r1 < 0" "\<not> svchost_check_svc ?e a svc1 < 0" using "2.prems"(1,2) svc l by (auto simp: Let_def split: if_splits)
  then obtain r2 env2 where r2: "svchost_reg_svc L a svc1 ?e = Ret (r2, env2)" "0 \<le> r2" "init_loop L as env2 = Ret (r, env')"
    using "2.prems"(1,2) svc l by (auto simp: Let_def split: if_splits)
  have a: "a \<in> set (svc_addrs env)" "a \<notin> D" "a \<notin> set as" using "2.prems"(6-8) by auto
  from check_svc_ok [of ?e a svc1] ok(2) "2.prems"(4) obtain i where i: "svc_id svc1 = Some i" "i \<noteq> 0"
      "\<forall>b t. map_of (env_svc ?e) b = Some t \<longrightarrow> b \<noteq> a \<longrightarrow> svc_id t \<noteq> Some i" by auto
  have "a \<in> set (svc_addrs ?e)" using a(1) by (simp only: put_svc_addrs)
  from reg_svc_ok [OF r2(1,2) "2.prems"(3) this] obtain s where s: "map_of (env_svc env2) = (map_of (env_svc ?e))(a \<mapsto> s)"
      "svc_id s = Some i" "hs_flag s AND SVCHOST_FLAG_REGISTERED \<noteq> 0" "env_nsvc env2 = env_nsvc env + 1"
    using i(1) by auto
  have m: "map_of (env_svc env2) = (map_of (env_svc env))(a \<mapsto> s)" using s(1) put_svc_map [OF a(1)] by simp
  have other: "svc_id t \<noteq> Some i" if "map_of (env_svc env) b = Some t" "b \<noteq> a" for b t
    using i(3) [rule_format, of b t] put_svc_other [OF that(2), of svc1 env] that by simp
  have inv: "reg_inv (insert a D) env2"
    using "2.prems"(5) m s(2,3) i(2) other a(2) unfolding reg_inv_def registered_def
    by (auto split: if_splits) (metis option.distinct(1))+
  have ad: "svc_addrs env2 = svc_addrs env" using reg_svc_addrs [OF r2(1)] by simp
  have "reg_inv (insert a D \<union> set as) env' \<and> env_nsvc env' = env_nsvc env2 + int (length as)"
    using "2.IH" [OF svc l [symmetric] refl refl ok(1) ok(2) r2(1) refl _ r2(3) "2.prems"(2,3) _ inv] ad r2(2) "2.prems"(4,6,7,8) by auto
  with s(4) show ?case by simp
qed simp

text \<open>The services that are started automatically, in the order of the list.\<close>

definition started_ids :: "(nat \<times> host_service) list \<Rightarrow> u32 list" where
  "started_ids svcs = concat (map (\<lambda>(a, s). if hs_flag s AND 1 \<noteq> 0 then map if_id (case hs_intf s of None \<Rightarrow> [] | Some i \<Rightarrow> [i]) else []) svcs)"

lemma auto_start_log: "auto_start ss env = Ret env' \<Longrightarrow> env_log env' = env_log env @ map EvStart (started_ids ss)"
proof (induction ss env rule: auto_start.induct)
  case (2 a svc ss env)
  then show ?case by (auto simp: started_ids_def split: if_splits option.splits)
qed (simp add: started_ids_def)

lemma init_lib_ok:
  assumes "svchost_init_lib L env = Ret (0, env')" "init_keeps L" "distinct (svc_addrs env)"
    and "\<forall>(a, s) \<in> set (env_svc env). hs_intf s = None"
  shows "reg_inv (set (svc_addrs env)) env' \<and> env_nsvc env' = env_nsvc env + int (length (env_svc env)) \<and>
    (\<exists>log. env_log env' = log @ map EvStart (started_ids (env_svc env')))"
proof -
  obtain r env1 where r: "init_loop L (svc_addrs env) env = Ret (r, env1)" "0 \<le> r" "svchost_auto_start env1 = Ret env'"
    using assms(1) by (auto simp: svchost_init_lib_def split: if_splits)
  have "reg_inv {} env"
    using assms(4) by (auto simp: reg_inv_def svc_id_def dest!: map_of_SomeD)
  from init_loop_ok [OF r(1,2) assms(2,3) this] assms(3)
  have i: "reg_inv (set (svc_addrs env)) env1" "env_nsvc env1 = env_nsvc env + int (length (env_svc env))" by auto
  have s: "env_svc env' = env_svc env1" "env_nsvc env' = env_nsvc env1"
    using auto_start_svcs r(3) by (auto simp: svchost_auto_start_def)
  then have "reg_inv (set (svc_addrs env)) env'" using i(1) by (simp add: reg_inv_def)
  with i(2) s auto_start_log r(3) show ?thesis unfolding svchost_auto_start_def by metis
qed

lemma run_never_returns:
  assumes "svcs \<noteq> []" "distinct (map fst svcs)"
    and "\<forall>p \<in> set polls. \<forall>e. svc_addrs (p e) = svc_addrs e"
  shows "svchost_run L uloop polls svcs \<noteq> Ret e"
proof
  assume "svchost_run L uloop polls svcs = Ret e"
  then obtain r env1 env2 where r: "svchost_run_init L uloop \<lparr>env_svc = svcs, env_nsvc = 0, env_log = []\<rparr> = Ret (r, env1)"
      "(if r = 0 then svchost_run_loop polls env1 else Ret env1) = Ret env2" "svchost_deinit_lib env2 = Ret e"
    by (auto simp: svchost_run_def svchost_run_deinit_def)
  have a1: "svc_addrs env1 = map fst svcs"
    using r(1) init_lib_addrs by (fastforce simp: svchost_run_init_def split: if_splits)
  then have "svc_addrs env2 = map fst svcs"
    using r(2) run_loop_addrs [OF assms(3), of env1 env2] assms(2) by (auto split: if_splits)
  then have "env_svc env2 \<noteq> []" using assms(1) by auto
  with deinit_faults r(3) show False by simp
qed

section \<open>Properties\<close>

text \<open>C18: Registering a table of valid methods in a service with room for it makes each of
  them callable: their names stand in the slots behind those already used, the number of
  used slots stays below the size of the table, and a call of a name reaches the first
  method of that name. A table with an invalid entry is refused and the number of used
  slots does not change.\<close>

theorem reg_method_then_dispatch:
  assumes "hs_meth svc = None" and "hs_inner_cnt svc + length ptr < HOST_SERVICE_METHOD_MAX"
    and "length (hs_inner_meth svc) = HOST_SERVICE_METHOD_MAX"
    and "svchost_reg_method svc ptr = (r, svc')"
  shows "list_all valid_entry ptr \<and> r = int (length ptr) \<and>
      hs_inner_cnt svc' = hs_inner_cnt svc + length ptr \<and> hs_inner_cnt svc' < HOST_SERVICE_METHOD_MAX \<and>
      (\<forall>i < length ptr. um_name (hs_inner_meth svc' ! (hs_inner_cnt svc + i)) = m_name (ptr ! i)) \<and>
      (\<forall>j < hs_inner_cnt svc. hs_inner_meth svc' ! j = hs_inner_meth svc ! j) \<and>
      (\<forall>i n. i < length ptr \<longrightarrow> m_name (ptr ! i) = Some n \<longrightarrow> (\<forall>j < i. m_name (ptr ! j) \<noteq> Some n) \<longrightarrow>
         svchost_meth_handle_hook svc' n = CallMethod i)
    \<or> \<not> list_all valid_entry ptr \<and> r = 0 \<and> hs_inner_cnt svc' = hs_inner_cnt svc \<and> hs_meth svc' = None"
proof (cases "list_all valid_entry ptr")
  case True
  let ?slots = "snd (put_names (hs_inner_cnt svc) ptr (hs_inner_meth svc))"
  have e: "r = int (length ptr)" "svc' = svc\<lparr>hs_inner_meth := ?slots, hs_inner_cnt := hs_inner_cnt svc + length ptr, hs_meth := Some ptr\<rparr>"
    using reg_method_cases [OF assms(1,2)] True assms(4) by (auto simp: Let_def)
  have f: "filter valid_entry ptr = ptr" using True by (simp add: list_all_iff)
  have s: "\<forall>i < length ptr. um_name (?slots ! (hs_inner_cnt svc + i)) = m_name (ptr ! i)"
    "\<forall>j < hs_inner_cnt svc. ?slots ! j = hs_inner_meth svc ! j"
    using put_names_slots [of "hs_inner_cnt svc" ptr "hs_inner_meth svc"] assms(2,3) f by auto
  have "svchost_meth_handle_hook svc' n = CallMethod i"
    if "i < length ptr" "m_name (ptr ! i) = Some n" "\<forall>j < i. m_name (ptr ! j) \<noteq> Some n" for i n
  proof -
    have "index_of (\<lambda>t. m_name t = Some n) ptr = Some i" using that by (simp add: index_of_first)
    then show ?thesis by (simp add: e(2) svchost_meth_handle_hook_def meth_table_def)
  qed
  with True e s assms(2) show ?thesis by simp
next
  case False
  then show ?thesis using reg_method_cases [OF assms(1,2)] assms(1,4) by (auto simp: Let_def)
qed

definition empty_svc :: host_service where
  "empty_svc = \<lparr>sc_path = ''a'', sc_entry = ''b'', sc_param = None, hs_intf = None, hs_flag = 0, hs_handle = False,
     hs_meth = None, hs_event = None, hs_obj_id = 0, hs_inner_cnt = 4,
     hs_inner_meth = replicate 512 \<lparr>um_name = None, um_handler = None\<rparr>\<rparr>"

theorem reg_method_then_dispatch_witness:
  "svchost_meth_handle_hook (snd (svchost_reg_method empty_svc [\<lparr>m_name = Some ''get'', m_fn = True\<rparr>, \<lparr>m_name = Some ''set'', m_fn = True\<rparr>])) ''set'' = CallMethod 1"
proof -
  let ?p = "[\<lparr>m_name = Some ''get'', m_fn = True\<rparr>, \<lparr>m_name = Some ''set'', m_fn = True\<rparr>]"
  have v: "list_all valid_entry ?p" by (simp add: valid_entry_def)
  have "svchost_reg_method empty_svc ?p = (fst (svchost_reg_method empty_svc ?p), snd (svchost_reg_method empty_svc ?p))" by simp
  from reg_method_then_dispatch [OF _ _ _ this] v show ?thesis
    by (simp add: empty_svc_def HOST_SERVICE_METHOD_MAX_def All_less_Suc)
qed

text \<open>An event registered with the pattern \<open>wan*\<close> is kept as \<open>wan\<close>, and a call with the
  name \<open>wan_up\<close>, which the bus delivers for the pattern, reaches no function; only the
  pattern \<open>*\<close> receives every name.\<close>

theorem event_prefix_pattern_lost:
  "\<exists>svc svc'.
     svchost_reg_event (\<lambda>_. 0) empty_svc [\<lparr>m_name = Some ''wan*'', m_fn = True\<rparr>] =
       (1, svc, [\<lparr>m_name = Some ''wan'', m_fn = True\<rparr>]) \<and>
     svchost_meth_handle_hook svc ''wan'' = CallEvent 0 \<and>
     svchost_meth_handle_hook svc ''wan_up'' = MethodNotFound \<and>
     svchost_reg_event (\<lambda>_. 0) empty_svc [\<lparr>m_name = Some ''*'', m_fn = True\<rparr>] =
       (1, svc', [\<lparr>m_name = Some [], m_fn = True\<rparr>]) \<and>
     (\<forall>n. svchost_meth_handle_hook svc' n = CallEvent 0)"
  by (simp add: svchost_reg_event_def empty_svc_def HOST_SERVICE_METHOD_MAX_def strip_star_def
      svchost_meth_handle_hook_def meth_table_def event_table_def)

text \<open>C17: When \<open>svchost_init_lib\<close> reports success, every service of the configuration is loaded
  and registered under a number that is not 0 and that no other service has, the count of
  services is right, and the services whose interface asks for it were started, in the order
  of the configuration, after all were registered.\<close>

theorem init_lib_registers_all:
  assumes "svchost_init_lib L env = Ret (0, env')" and "init_keeps L" and "distinct (map fst (env_svc env))"
    and "\<forall>(a, s) \<in> set (env_svc env). hs_intf s = None"
  shows "map fst (env_svc env') = map fst (env_svc env) \<and>
    (\<forall>a s. map_of (env_svc env') a = Some s \<longrightarrow> registered s) \<and>
    (\<forall>a b s t. map_of (env_svc env') a = Some s \<longrightarrow> map_of (env_svc env') b = Some t \<longrightarrow> a \<noteq> b \<longrightarrow> svc_id s \<noteq> svc_id t) \<and>
    env_nsvc env' = env_nsvc env + int (length (env_svc env)) \<and>
    (\<exists>log. env_log env' = log @ map EvStart (started_ids (env_svc env')))"
proof -
  note i = init_lib_ok [OF assms] and a = init_lib_addrs [OF assms(1)]
  have m: "x \<in> set (svc_addrs env)" if "map_of (env_svc env') x = Some s" for x s
    using that a by (metis (no_types, lifting) domI dom_map_of_conv_image_fst list.set_map)
  then have "registered s" if "map_of (env_svc env') x = Some s" for x s
    using that i unfolding reg_inv_def by metis
  then show ?thesis using i a unfolding reg_inv_def registered_def by blast
qed

definition demo_lib :: host_lib where
  "demo_lib = \<lparr>lib_open = (\<lambda>_. True), lib_sym = (\<lambda>_ _. True),
     lib_entry = (\<lambda>p _ _. Some \<lparr>if_id = of_nat (length p), if_flag = 1, if_start = True, if_stop = True, if_status = False, if_init = False\<rparr>),
     lib_add = (\<lambda>_. True), lib_init = (\<lambda>s. s)\<rparr>"

definition demo_env :: host_run_env where
  "demo_env = \<lparr>env_svc = [(1, empty_svc), (2, empty_svc\<lparr>sc_path := ''ab''\<rparr>)], env_nsvc = 0, env_log = []\<rparr>"

definition demo_ran :: host_run_env where
  "demo_ran = (case svchost_init_lib demo_lib demo_env of Ret (_, e) \<Rightarrow> e | Fault _ \<Rightarrow> demo_env)"

theorem init_lib_registers_all_witness:
  "env_nsvc demo_ran = 2 \<and> map fst (env_svc demo_ran) = [1, 2] \<and> registered (the (map_of (env_svc demo_ran) 2))"
proof -
  have "svchost_init_lib demo_lib demo_env = Ret (0, demo_ran)"
    by (simp add: demo_ran_def svchost_init_lib_def demo_env_def demo_lib_def empty_svc_def svc_of_def svchost_load_lib_def Let_def
        put_svc_def svchost_check_svc_def svchost_reg_svc_def svchost_auto_start_def log_event_def)
  moreover have "init_keeps demo_lib" by (simp add: init_keeps_def demo_lib_def)
  moreover have "distinct (map fst (env_svc demo_env))" "\<forall>(a, s) \<in> set (env_svc demo_env). hs_intf s = None"
    "env_nsvc demo_env = 0" "length (env_svc demo_env) = 2"
    by (simp_all add: demo_env_def empty_svc_def)
  ultimately have r: "map fst (env_svc demo_ran) = map fst (env_svc demo_env)" "env_nsvc demo_ran = 2"
      "\<forall>a s. map_of (env_svc demo_ran) a = Some s \<longrightarrow> registered s"
    using init_lib_registers_all [of demo_lib demo_env demo_ran] by simp_all
  then have k: "map fst (env_svc demo_ran) = [1, 2]" by (simp add: demo_env_def)
  then have "2 \<in> fst ` set (env_svc demo_ran)" by (metis list.set_intros list.set_map)
  then obtain x where "map_of (env_svc demo_ran) 2 = Some x" by (metis map_of_eq_None_iff not_None_eq)
  with r k show ?thesis by simp
qed

text \<open>A thread of the host never ends cleanly: with at least one service, whatever the
  libraries and the message bus do, \<open>svchost_run\<close> does not return, because both
  \<open>svchost_deinit_lib\<close> and \<open>svchost_check_unload\<close> read the \<open>next\<close> pointer of a service they
  have just freed.\<close>

theorem host_thread_uses_freed_service:
  assumes "svcs \<noteq> []" and "distinct (map fst svcs)"
    and "\<forall>p \<in> set polls. \<forall>e. map fst (env_svc (p e)) = map fst (env_svc e)"
  shows "(\<forall>e. svchost_run L uloop polls svcs \<noteq> Ret e) \<and>
    svchost_deinit_lib \<lparr>env_svc = svcs, env_nsvc = n, env_log = log\<rparr> = Fault UseAfterFree \<and>
    svchost_check_unload \<lparr>env_svc = svcs, env_nsvc = n, env_log = log\<rparr> =
      (if \<exists>(a, s) \<in> set svcs. hs_flag s AND SVCHOST_FLAG_REQUNLOAD \<noteq> 0 then Fault UseAfterFree
       else Ret \<lparr>env_svc = svcs, env_nsvc = n, env_log = log\<rparr>)"
  using run_never_returns [OF assms] deinit_faults [of "\<lparr>env_svc = svcs, env_nsvc = n, env_log = log\<rparr>"]
    check_unload_spec [of "\<lparr>env_svc = svcs, env_nsvc = n, env_log = log\<rparr>"] assms(1,2)
  by (simp add: unload_requested_def)

theorem host_thread_uses_freed_service_witness:
  "svchost_deinit_lib demo_env = Fault UseAfterFree"
  using host_thread_uses_freed_service [of "env_svc demo_env" "[]" demo_lib True 0 "[]"]
  by (simp add: demo_env_def)

text \<open>Unloading a service removes exactly that service from the list, counts it out and
  leaves every other service as it was.\<close>

theorem unload_removes_one:
  assumes "a \<in> set (map fst (env_svc env))"
  shows "\<exists>env'. svchost_unload_svc a env = Ret env' \<and>
    map fst (env_svc env') = filter (\<lambda>b. b \<noteq> a) (map fst (env_svc env)) \<and>
    env_nsvc env' = env_nsvc env - 1 \<and> (\<forall>b. b \<noteq> a \<longrightarrow> map_of (env_svc env') b = map_of (env_svc env) b)"
  by (rule unload_spec [OF assms])

theorem unload_removes_one_witness:
  "\<exists>env'. svchost_unload_svc 1 demo_env = Ret env' \<and> map fst (env_svc env') = [2]"
  using unload_removes_one [of 1 demo_env] by (auto simp: demo_env_def)

end
