(* ===== verification/SvcThreads.thy ===== *)
theory SvcThreads
  imports CPrelude
begin

text \<open>
  The threads of the service host (\<open>svchost_loop\<close>, \<open>svchost_thread\<close>, \<open>svchost_run\<close> and
  \<open>svchost_mian\<close> of \<open>svchost/svchost_loop.c\<close>, in the mode with one thread per service) as a
  step relation. The main thread takes \<open>svchost_mutex\<close> before it creates a thread; the new
  thread initialises its service, counts itself in \<open>svchost_nthread\<close> and releases the
  mutex. When a thread ends it takes the mutex to count itself out. The main thread waits
  until the count is zero and returns, which ends the process with all its threads.
\<close>

section \<open>Steps\<close>

datatype main_pc =
    MLock nat     \<comment> \<open>before \<open>svchost_thread_lock\<close> for service number \<open>k\<close>\<close>
  | MCreate nat   \<comment> \<open>in \<open>svchost_thread\<close>\<close>
  | MError        \<comment> \<open>at the label \<open>error\<close>\<close>
  | MWait         \<comment> \<open>in the loop of \<open>svchost_mian\<close>\<close>
  | MRet int

datatype thread_pc = TInit | TInc | TUnlock | TRun | TLock | TDec | TUnlock2 | TEnd

record host_threads =
  svchost_mutex :: bool
  svchost_nthread :: int
  main_at :: main_pc
  threads :: "thread_pc list"

definition threads_init :: host_threads where
  "threads_init = \<lparr>svchost_mutex = False, svchost_nthread = 0, main_at = MLock 0, threads = []\<rparr>"

text \<open>The main thread with \<open>n\<close> services; \<open>c k\<close> is what \<open>pthread_create\<close> (or the call that sets the
  thread's attribute before it) returns for service number \<open>k\<close>. \<open>svchost_thread\<close> takes only a negative value
  for a failure; after a positive one it goes on although there is no thread.\<close>

inductive main_step :: "nat \<Rightarrow> (nat \<Rightarrow> int) \<Rightarrow> host_threads \<Rightarrow> host_threads \<Rightarrow> bool" for n c where
  lock: "main_at s = MLock k \<Longrightarrow> k < n \<Longrightarrow> \<not> svchost_mutex s \<Longrightarrow>
    main_step n c s (s\<lparr>svchost_mutex := True, main_at := MCreate k\<rparr>)"
| create: "main_at s = MCreate k \<Longrightarrow> c k = 0 \<Longrightarrow>
    main_step n c s (s\<lparr>main_at := MLock (Suc k), threads := threads s @ [TInit]\<rparr>)"
| create_fail: "main_at s = MCreate k \<Longrightarrow> c k < 0 \<Longrightarrow> main_step n c s (s\<lparr>main_at := MError\<rparr>)"
| create_unnoticed: "main_at s = MCreate k \<Longrightarrow> 0 < c k \<Longrightarrow> main_step n c s (s\<lparr>main_at := MLock (Suc k)\<rparr>)"
| fail: "main_at s = MError \<Longrightarrow> main_step n c s (s\<lparr>svchost_mutex := False, main_at := MRet (-1)\<rparr>)"
| created: "main_at s = MLock n \<Longrightarrow> main_step n c s (s\<lparr>main_at := MWait\<rparr>)"
| leave: "main_at s = MWait \<Longrightarrow> \<not> 0 < svchost_nthread s \<Longrightarrow> main_step n c s (s\<lparr>main_at := MRet 0\<rparr>)"

text \<open>Thread \<open>i\<close>. It takes no step once the process has ended.\<close>

inductive thread_step :: "nat \<Rightarrow> host_threads \<Rightarrow> host_threads \<Rightarrow> bool" for i where
  init: "threads s ! i = TInit \<Longrightarrow> thread_step i s (s\<lparr>threads := (threads s)[i := TInc]\<rparr>)"
| inc: "threads s ! i = TInc \<Longrightarrow>
    thread_step i s (s\<lparr>svchost_nthread := svchost_nthread s + 1, threads := (threads s)[i := TUnlock]\<rparr>)"
| unlock: "threads s ! i = TUnlock \<Longrightarrow>
    thread_step i s (s\<lparr>svchost_mutex := False, threads := (threads s)[i := TRun]\<rparr>)"
| run: "threads s ! i = TRun \<Longrightarrow> thread_step i s (s\<lparr>threads := (threads s)[i := TLock]\<rparr>)"
| lock2: "threads s ! i = TLock \<Longrightarrow> \<not> svchost_mutex s \<Longrightarrow>
    thread_step i s (s\<lparr>svchost_mutex := True, threads := (threads s)[i := TDec]\<rparr>)"
| dec: "threads s ! i = TDec \<Longrightarrow>
    thread_step i s (s\<lparr>svchost_nthread := svchost_nthread s - 1, threads := (threads s)[i := TUnlock2]\<rparr>)"
| unlock2: "threads s ! i = TUnlock2 \<Longrightarrow>
    thread_step i s (s\<lparr>svchost_mutex := False, threads := (threads s)[i := TEnd]\<rparr>)"

inductive host_step :: "nat \<Rightarrow> (nat \<Rightarrow> int) \<Rightarrow> host_threads \<Rightarrow> host_threads \<Rightarrow> bool" for n c where
  main: "main_step n c s t \<Longrightarrow> host_step n c s t"
| thread: "i < length (threads s) \<Longrightarrow> (\<forall>r. main_at s \<noteq> MRet r) \<Longrightarrow> thread_step i s t \<Longrightarrow> host_step n c s t"

inductive host_reach :: "nat \<Rightarrow> (nat \<Rightarrow> int) \<Rightarrow> host_threads \<Rightarrow> bool" for n c where
  start: "host_reach n c threads_init"
| step: "host_reach n c s \<Longrightarrow> host_step n c s t \<Longrightarrow> host_reach n c t"

inductive_cases main_stepE: "main_step n c s t"
inductive_cases thread_stepE: "thread_step i s t"

section \<open>Who holds the mutex and who is counted\<close>

fun counted :: "thread_pc \<Rightarrow> nat" where
  "counted TUnlock = 1" | "counted TRun = 1" | "counted TLock = 1" | "counted TDec = 1"
| "counted TInit = 0" | "counted TInc = 0" | "counted TUnlock2 = 0" | "counted TEnd = 0"

fun holds :: "thread_pc \<Rightarrow> nat" where
  "holds TInit = 1" | "holds TInc = 1" | "holds TUnlock = 1" | "holds TDec = 1" | "holds TUnlock2 = 1"
| "holds TRun = 0" | "holds TLock = 0" | "holds TEnd = 0"

fun main_holds :: "main_pc \<Rightarrow> nat" where
  "main_holds (MCreate k) = 1" | "main_holds MError = 1"
| "main_holds (MLock k) = 0" | "main_holds MWait = 0" | "main_holds (MRet r) = 0"

text \<open>No creation of a thread fails unnoticed.\<close>

definition create_ok :: "(nat \<Rightarrow> int) \<Rightarrow> bool" where
  "create_ok c \<longleftrightarrow> (\<forall>k. c k \<le> 0)"

definition host_inv :: "bool \<Rightarrow> host_threads \<Rightarrow> bool" where
  "host_inv ok s \<longleftrightarrow>
     svchost_nthread s = int (sum_list (map counted (threads s))) \<and>
     main_holds (main_at s) + sum_list (map holds (threads s)) \<le> (if svchost_mutex s then 1 else 0) \<and>
     (ok \<longrightarrow> main_holds (main_at s) + sum_list (map holds (threads s)) = (if svchost_mutex s then 1 else 0))"

lemma sum_upd:
  fixes f :: "thread_pc \<Rightarrow> nat"
  assumes "i < length xs"
  shows "sum_list (map f (xs[i := x])) + f (xs ! i) = sum_list (map f xs) + f x"
  using assms by (induction xs arbitrary: i) (auto simp: nth_Cons' split: nat.splits)

lemma thread_inv:
  assumes "thread_step i s t" "i < length (threads s)" "host_inv ok s"
  shows "host_inv ok t"
proof -
  note c = sum_upd [OF assms(2), of counted] and h = sum_upd [OF assms(2), of holds]
  from assms(1) show ?thesis
  proof cases
    case init
    with c [of TInc] h [of TInc] assms(3) show ?thesis by (auto simp: host_inv_def simp del: sum_list_eq_0_iff split: if_splits)
  next
    case inc
    with c [of TUnlock] h [of TUnlock] assms(3) show ?thesis by (auto simp: host_inv_def simp del: sum_list_eq_0_iff split: if_splits)
  next
    case unlock
    with c [of TRun] h [of TRun] assms(3) show ?thesis by (auto simp: host_inv_def simp del: sum_list_eq_0_iff split: if_splits)
  next
    case run
    with c [of TLock] h [of TLock] assms(3) show ?thesis by (auto simp: host_inv_def simp del: sum_list_eq_0_iff split: if_splits)
  next
    case lock2
    with c [of TDec] h [of TDec] assms(3) show ?thesis by (auto simp: host_inv_def simp del: sum_list_eq_0_iff split: if_splits)
  next
    case dec
    with c [of TUnlock2] h [of TUnlock2] assms(3) show ?thesis by (auto simp: host_inv_def simp del: sum_list_eq_0_iff split: if_splits)
  next
    case unlock2
    with c [of TEnd] h [of TEnd] assms(3) show ?thesis by (auto simp: host_inv_def simp del: sum_list_eq_0_iff split: if_splits)
  qed
qed

lemma main_inv: "main_step n c s t \<Longrightarrow> host_inv (create_ok c) s \<Longrightarrow> host_inv (create_ok c) t"
  by (erule main_stepE) (auto simp: host_inv_def create_ok_def not_less [symmetric] split: if_splits)

lemma reach_inv: "host_reach n c s \<Longrightarrow> host_inv (create_ok c) s"
proof (induction rule: host_reach.induct)
  case start
  then show ?case by (simp add: host_inv_def threads_init_def)
next
  case (step s t)
  from step.hyps(2) show ?case by cases (use step.IH main_inv thread_inv in auto)
qed

section \<open>Progress\<close>

fun main_left :: "nat \<Rightarrow> main_pc \<Rightarrow> nat" where
  "main_left n (MLock k) = 4 + 12 * (n - k)"
| "main_left n (MCreate k) = 3 + 12 * (n - k)"
| "main_left n MError = 1" | "main_left n MWait = 1" | "main_left n (MRet r) = 0"

fun thread_left :: "thread_pc \<Rightarrow> nat" where
  "thread_left TInit = 7" | "thread_left TInc = 6" | "thread_left TUnlock = 5" | "thread_left TRun = 4"
| "thread_left TLock = 3" | "thread_left TDec = 2" | "thread_left TUnlock2 = 1" | "thread_left TEnd = 0"

definition steps_left :: "nat \<Rightarrow> host_threads \<Rightarrow> nat" where
  "steps_left n s = main_left n (main_at s) + sum_list (map thread_left (threads s))"

definition main_ok :: "nat \<Rightarrow> host_threads \<Rightarrow> bool" where
  "main_ok n s \<longleftrightarrow> (case main_at s of MLock k \<Rightarrow> k \<le> n | MCreate k \<Rightarrow> k < n | _ \<Rightarrow> True)"

lemma reach_main_ok: "host_reach n c s \<Longrightarrow> main_ok n s"
proof (induction rule: host_reach.induct)
  case start
  then show ?case by (simp add: main_ok_def threads_init_def)
next
  case (step s t)
  from step.hyps(2) show ?case
  proof cases
    case main
    then show ?thesis using step.IH by (auto simp: main_ok_def elim!: main_stepE)
  next
    case (thread i)
    then show ?thesis using step.IH by (auto simp: main_ok_def elim!: thread_stepE)
  qed
qed

lemma step_decreases:
  assumes "host_step n c s t" "main_ok n s"
  shows "steps_left n t < steps_left n s"
  using assms(1)
proof cases
  case main
  then show ?thesis using assms(2) by (auto simp: steps_left_def main_ok_def elim!: main_stepE)
next
  case (thread i)
  note u = sum_upd [OF thread(1), of thread_left]
  from thread(3) show ?thesis
    by cases (use u [of TInc] u [of TUnlock] u [of TRun] u [of TLock] u [of TDec] u [of TUnlock2] u [of TEnd]
      in \<open>auto simp: steps_left_def\<close>)
qed

lemma active_thread:
  assumes "0 < sum_list (map f (threads s))"
  shows "\<exists>i < length (threads s). 0 < (f (threads s ! i) :: nat)"
  using assms by (metis (no_types, lifting) gr_zeroI in_set_conv_nth sum_list_eq_0_iff imageE list.set_map)

text \<open>A thread that does not wait for the mutex can take its step.\<close>

lemma thread_can_step:
  assumes "threads s ! i \<noteq> TEnd" "threads s ! i = TLock \<longrightarrow> \<not> svchost_mutex s"
  shows "\<exists>t. thread_step i s t"
  using assms by (cases "threads s ! i") (auto intro: thread_step.intros)

lemma holder_can_step: "0 < holds (threads s ! i) \<Longrightarrow> \<exists>t. thread_step i s t"
  by (rule thread_can_step) auto

lemma no_deadlock:
  assumes "host_inv True s" "main_ok n s" "\<forall>r. main_at s \<noteq> MRet r"
  shows "\<exists>t. host_step n c s t"
proof (cases "svchost_mutex s \<and> main_holds (main_at s) = 0")
  case True
  with assms(1) have "0 < sum_list (map holds (threads s))" by (simp add: host_inv_def)
  then obtain i where "i < length (threads s)" "0 < holds (threads s ! i)" using active_thread by blast
  with holder_can_step assms(3) show ?thesis by (blast intro: host_step.thread)
next
  case False
  show ?thesis
  proof (cases "main_at s")
    case (MLock k)
    with False have "\<not> svchost_mutex s" by simp
    moreover have "k < n \<or> k = n" using assms(2) MLock by (auto simp: main_ok_def)
    ultimately show ?thesis using MLock by (auto intro: host_step.main main_step.lock main_step.created)
  next
    case MWait
    show ?thesis
    proof (cases "0 < svchost_nthread s")
      case True
      then have "0 < sum_list (map counted (threads s))" using assms(1) by (simp add: host_inv_def)
      then obtain i where i: "i < length (threads s)" "0 < counted (threads s ! i)" using active_thread by blast
      have "\<not> svchost_mutex s" using False MWait by simp
      with i(2) have "\<exists>t. thread_step i s t" by (intro thread_can_step) auto
      with i(1) assms(3) show ?thesis by (blast intro: host_step.thread)
    qed (use MWait in \<open>blast intro: host_step.main main_step.leave\<close>)
  next
    case (MCreate k)
    then show ?thesis by (cases "c k" "0 :: int" rule: linorder_cases) (blast intro: host_step.main main_step.intros)+
  qed (use assms(3) in \<open>blast intro: host_step.main main_step.intros\<close>)+
qed

lemma returned_count: "host_reach n c s \<Longrightarrow> main_at s = MRet 0 \<Longrightarrow> svchost_nthread s \<le> 0"
proof (induction rule: host_reach.induct)
  case start
  then show ?case by (simp add: threads_init_def)
next
  case (step s t)
  from step.hyps(2) show ?case
  proof cases
    case main
    then show ?thesis using step.prems by cases auto
  next
    case (thread i)
    have "main_at t = main_at s" using thread(3) by cases auto
    with thread(2) step.prems show ?thesis by simp
  qed
qed

lemma count_filter: "(\<And>p. f p = (if P p then 1 else 0)) \<Longrightarrow> sum_list (map f ps) = length (filter P ps)"
  by (induction ps) auto

section \<open>Properties\<close>

text \<open>C13: In every reachable state of the host, with any number of services and any
  interleaving, the count of threads is exact, the mutex is held exactly when one thread is
  between taking and releasing it, so at most one service is being initialised at a time,
  and the process has returned normally only when no service is running.\<close>

theorem services_start_one_at_a_time:
  assumes "host_reach n c s"
  shows "svchost_nthread s = int (length (filter (\<lambda>p. counted p = 1) (threads s))) \<and>
    length (filter (\<lambda>p. p = TInit \<or> p = TInc \<or> p = TUnlock \<or> p = TDec \<or> p = TUnlock2) (threads s)) \<le> 1 \<and>
    (main_at s = MRet 0 \<longrightarrow> TRun \<notin> set (threads s) \<and> TLock \<notin> set (threads s))"
proof -
  have inv: "host_inv (create_ok c) s" by (rule reach_inv [OF assms])
  have c: "sum_list (map counted (threads s)) = length (filter (\<lambda>p. counted p = 1) (threads s))"
  proof (rule count_filter)
    show "counted p = (if counted p = 1 then 1 else 0)" for p by (cases p) auto
  qed
  have h: "sum_list (map holds (threads s)) =
      length (filter (\<lambda>p. p = TInit \<or> p = TInc \<or> p = TUnlock \<or> p = TDec \<or> p = TUnlock2) (threads s))"
  proof (rule count_filter)
    show "holds p = (if p = TInit \<or> p = TInc \<or> p = TUnlock \<or> p = TDec \<or> p = TUnlock2 then 1 else 0)" for p
      by (cases p) auto
  qed
  have "TRun \<notin> set (threads s) \<and> TLock \<notin> set (threads s)" if "main_at s = MRet 0"
  proof -
    have "length (filter (\<lambda>p. counted p = 1) (threads s)) = 0"
      using returned_count [OF assms that] inv c by (simp add: host_inv_def)
    then show ?thesis by (auto simp: filter_empty_conv)
  qed
  moreover have "sum_list (map holds (threads s)) \<le> 1"
    using inv by (auto simp: host_inv_def simp del: sum_list_eq_0_iff split: if_splits)
  ultimately show ?thesis using inv c h by (simp add: host_inv_def)
qed

lemma reach_two:
  "host_reach (Suc n) c \<lparr>svchost_mutex = True, svchost_nthread = 0, main_at = MCreate 0, threads = []\<rparr>"
proof -
  have "main_step (Suc n) c threads_init \<lparr>svchost_mutex = True, svchost_nthread = 0, main_at = MCreate 0, threads = []\<rparr>"
    using main_step.lock [of threads_init 0 "Suc n" c] by (simp add: threads_init_def)
  then show ?thesis by (blast intro: host_reach.intros host_step.main)
qed

lemma reach_three:
  assumes "c 0 = 0"
  shows "host_reach (Suc n) c \<lparr>svchost_mutex = True, svchost_nthread = 0, main_at = MLock 1, threads = [TInit]\<rparr>"
proof -
  let ?s = "\<lparr>svchost_mutex = True, svchost_nthread = 0, main_at = MCreate 0, threads = []\<rparr>"
  have "main_step (Suc n) c ?s \<lparr>svchost_mutex = True, svchost_nthread = 0, main_at = MLock 1, threads = [TInit]\<rparr>"
    using main_step.create [of ?s 0 c] assms by simp
  with reach_two show ?thesis by (blast intro: host_reach.intros host_step.main)
qed

theorem services_start_one_at_a_time_witness:
  "length (filter (\<lambda>p. p = TInit \<or> p = TInc \<or> p = TUnlock \<or> p = TDec \<or> p = TUnlock2) [TInit]) \<le> 1"
  using services_start_one_at_a_time [OF reach_three [of "\<lambda>_. 0" 0]] by simp



text \<open>The main thread can return before the last thread has counted itself: with one
  service there is a run in which the process ends while the service is still being
  initialised.\<close>

theorem host_may_exit_early:
  "\<exists>s. host_reach 1 (\<lambda>_. 0) s \<and> main_at s = MRet 0 \<and> threads s = [TInit]"
proof -
  let ?s2 = "\<lparr>svchost_mutex = True, svchost_nthread = 0, main_at = MLock 1, threads = [TInit]\<rparr>"
  let ?s3 = "?s2\<lparr>main_at := MWait\<rparr>" and ?c = "\<lambda>_ :: nat. 0 :: int"
  have "main_step 1 ?c ?s2 ?s3" by (rule main_step.created) simp
  with reach_three [of ?c 0] have r3: "host_reach 1 ?c ?s3" by (auto intro: host_reach.step host_step.main)
  have "main_step 1 ?c ?s3 (?s3\<lparr>main_at := MRet 0\<rparr>)" by (rule main_step.leave) simp_all
  with r3 have "host_reach 1 ?c (?s3\<lparr>main_at := MRet 0\<rparr>)" by (blast intro: host_reach.step host_step.main)
  then show ?thesis by (intro exI [of _ "?s3\<lparr>main_at := MRet 0\<rparr>"]) simp
qed

text \<open>When the thread of the first of several services cannot be created, the failure is not
  noticed (\<open>pthread_create\<close> returns a positive error number), the mutex stays locked and the
  host hangs: a state is reached from which there is no step, without a return.\<close>

theorem failed_create_deadlocks:
  assumes "0 < c 0"
  shows "\<exists>s. host_reach (Suc (Suc n)) c s \<and> (\<forall>r. main_at s \<noteq> MRet r) \<and> (\<nexists>t. host_step (Suc (Suc n)) c s t)"
proof -
  let ?s = "\<lparr>svchost_mutex = True, svchost_nthread = 0, main_at = MCreate 0, threads = []\<rparr>"
  let ?t = "?s\<lparr>main_at := MLock 1\<rparr>"
  have "main_step (Suc (Suc n)) c ?s ?t" using main_step.create_unnoticed [of ?s 0 c] assms by simp
  with reach_two have "host_reach (Suc (Suc n)) c ?t" by (blast intro: host_reach.step host_step.main)
  moreover have "\<nexists>u. host_step (Suc (Suc n)) c ?t u" by (auto elim!: host_step.cases main_step.cases)
  ultimately show ?thesis by (intro exI [of _ ?t]) simp
qed

theorem failed_create_deadlocks_witness:
  "\<exists>s. host_reach 2 (\<lambda>_. 11) s \<and> (\<nexists>t. host_step 2 (\<lambda>_. 11) s t)"
  using failed_create_deadlocks [of "\<lambda>_. 11" 0] by (auto simp: numeral_2_eq_2)

end
