(* ===== verification/Crc32.thy ===== *)
theory Crc32
  imports CPrelude
begin

text \<open>
  The checksum of the stored configuration: the table and the loop of
  \<open>service/cfg/cfg_romfile.c\<close>, against the definition of the CRC by shifts of single bits.
  An \<open>unsigned long\<close> has 32 bits on the target.
\<close>

type_synonym byte = "8 word"

definition crc_32_tab :: "u32 list" where
  "crc_32_tab =
    [0x00000000, 0x77073096, 0xEE0E612C, 0x990951BA, 0x076DC419, 0x706AF48F,
     0xE963A535, 0x9E6495A3, 0x0EDB8832, 0x79DCB8A4, 0xE0D5E91E, 0x97D2D988,
     0x09B64C2B, 0x7EB17CBD, 0xE7B82D07, 0x90BF1D91, 0x1DB71064, 0x6AB020F2,
     0xF3B97148, 0x84BE41DE, 0x1ADAD47D, 0x6DDDE4EB, 0xF4D4B551, 0x83D385C7,
     0x136C9856, 0x646BA8C0, 0xFD62F97A, 0x8A65C9EC, 0x14015C4F, 0x63066CD9,
     0xFA0F3D63, 0x8D080DF5, 0x3B6E20C8, 0x4C69105E, 0xD56041E4, 0xA2677172,
     0x3C03E4D1, 0x4B04D447, 0xD20D85FD, 0xA50AB56B, 0x35B5A8FA, 0x42B2986C,
     0xDBBBC9D6, 0xACBCF940, 0x32D86CE3, 0x45DF5C75, 0xDCD60DCF, 0xABD13D59,
     0x26D930AC, 0x51DE003A, 0xC8D75180, 0xBFD06116, 0x21B4F4B5, 0x56B3C423,
     0xCFBA9599, 0xB8BDA50F, 0x2802B89E, 0x5F058808, 0xC60CD9B2, 0xB10BE924,
     0x2F6F7C87, 0x58684C11, 0xC1611DAB, 0xB6662D3D, 0x76DC4190, 0x01DB7106,
     0x98D220BC, 0xEFD5102A, 0x71B18589, 0x06B6B51F, 0x9FBFE4A5, 0xE8B8D433,
     0x7807C9A2, 0x0F00F934, 0x9609A88E, 0xE10E9818, 0x7F6A0DBB, 0x086D3D2D,
     0x91646C97, 0xE6635C01, 0x6B6B51F4, 0x1C6C6162, 0x856530D8, 0xF262004E,
     0x6C0695ED, 0x1B01A57B, 0x8208F4C1, 0xF50FC457, 0x65B0D9C6, 0x12B7E950,
     0x8BBEB8EA, 0xFCB9887C, 0x62DD1DDF, 0x15DA2D49, 0x8CD37CF3, 0xFBD44C65,
     0x4DB26158, 0x3AB551CE, 0xA3BC0074, 0xD4BB30E2, 0x4ADFA541, 0x3DD895D7,
     0xA4D1C46D, 0xD3D6F4FB, 0x4369E96A, 0x346ED9FC, 0xAD678846, 0xDA60B8D0,
     0x44042D73, 0x33031DE5, 0xAA0A4C5F, 0xDD0D7CC9, 0x5005713C, 0x270241AA,
     0xBE0B1010, 0xC90C2086, 0x5768B525, 0x206F85B3, 0xB966D409, 0xCE61E49F,
     0x5EDEF90E, 0x29D9C998, 0xB0D09822, 0xC7D7A8B4, 0x59B33D17, 0x2EB40D81,
     0xB7BD5C3B, 0xC0BA6CAD, 0xEDB88320, 0x9ABFB3B6, 0x03B6E20C, 0x74B1D29A,
     0xEAD54739, 0x9DD277AF, 0x04DB2615, 0x73DC1683, 0xE3630B12, 0x94643B84,
     0x0D6D6A3E, 0x7A6A5AA8, 0xE40ECF0B, 0x9309FF9D, 0x0A00AE27, 0x7D079EB1,
     0xF00F9344, 0x8708A3D2, 0x1E01F268, 0x6906C2FE, 0xF762575D, 0x806567CB,
     0x196C3671, 0x6E6B06E7, 0xFED41B76, 0x89D32BE0, 0x10DA7A5A, 0x67DD4ACC,
     0xF9B9DF6F, 0x8EBEEFF9, 0x17B7BE43, 0x60B08ED5, 0xD6D6A3E8, 0xA1D1937E,
     0x38D8C2C4, 0x4FDFF252, 0xD1BB67F1, 0xA6BC5767, 0x3FB506DD, 0x48B2364B,
     0xD80D2BDA, 0xAF0A1B4C, 0x36034AF6, 0x41047A60, 0xDF60EFC3, 0xA867DF55,
     0x316E8EEF, 0x4669BE79, 0xCB61B38C, 0xBC66831A, 0x256FD2A0, 0x5268E236,
     0xCC0C7795, 0xBB0B4703, 0x220216B9, 0x5505262F, 0xC5BA3BBE, 0xB2BD0B28,
     0x2BB45A92, 0x5CB36A04, 0xC2D7FFA7, 0xB5D0CF31, 0x2CD99E8B, 0x5BDEAE1D,
     0x9B64C2B0, 0xEC63F226, 0x756AA39C, 0x026D930A, 0x9C0906A9, 0xEB0E363F,
     0x72076785, 0x05005713, 0x95BF4A82, 0xE2B87A14, 0x7BB12BAE, 0x0CB61B38,
     0x92D28E9B, 0xE5D5BE0D, 0x7CDCEFB7, 0x0BDBDF21, 0x86D3D2D4, 0xF1D4E242,
     0x68DDB3F8, 0x1FDA836E, 0x81BE16CD, 0xF6B9265B, 0x6FB077E1, 0x18B74777,
     0x88085AE6, 0xFF0F6A70, 0x66063BCA, 0x11010B5C, 0x8F659EFF, 0xF862AE69,
     0x616BFFD3, 0x166CCF45, 0xA00AE278, 0xD70DD2EE, 0x4E048354, 0x3903B3C2,
     0xA7672661, 0xD06016F7, 0x4969474D, 0x3E6E77DB, 0xAED16A4A, 0xD9D65ADC,
     0x40DF0B66, 0x37D83BF0, 0xA9BCAE53, 0xDEBB9EC5, 0x47B2CF7F, 0x30B5FFE9,
     0xBDBDF21C, 0xCABAC28A, 0x53B39330, 0x24B4A3A6, 0xBAD03605, 0xCDD70693,
     0x54DE5729, 0x23D967BF, 0xB3667A2E, 0xC4614AB8, 0x5D681B02, 0x2A6F2B94,
     0xB40BBE37, 0xC30C8EA1, 0x5A05DF1B, 0x2D02EF8D]"

text \<open>\<open>UPDC32(octet, crc)\<close>; the sign extension of the octet is cut off by the mask.\<close>

definition UPDC32 :: "byte \<Rightarrow> u32 \<Rightarrow> u32" where
  "UPDC32 octet crc = crc_32_tab ! unat ((crc XOR ucast octet) AND 0xFF) XOR drop_bit 8 crc"

definition compute_crc32buf :: "byte list \<Rightarrow> u32" where
  "compute_crc32buf buf = fold UPDC32 buf 0xFFFFFFFF"

section \<open>The CRC by bits\<close>

text \<open>One step of the shift register with the reversed polynomial.\<close>

definition crc_bit :: "u32 \<Rightarrow> u32" where
  "crc_bit x = (if bit x 0 then drop_bit 1 x XOR 0xEDB88320 else drop_bit 1 x)"

definition crc_byte :: "byte \<Rightarrow> u32 \<Rightarrow> u32" where
  "crc_byte o' crc = (crc_bit ^^ 8) (crc XOR ucast o')"

lemma crc_bit_xor: "crc_bit (x XOR y) = crc_bit x XOR crc_bit y"
  by (auto simp: crc_bit_def bit_xor_iff xor.assoc xor.left_commute xor.commute drop_bit_xor)

lemma crc_bits_xor: "(crc_bit ^^ n) (x XOR y) = (crc_bit ^^ n) x XOR (crc_bit ^^ n) y"
  by (induction n) (simp_all add: crc_bit_xor)

text \<open>Bits above the lowest \<open>n\<close> are only shifted.\<close>

lemma crc_bits_high: "take_bit n x = 0 \<Longrightarrow> (crc_bit ^^ n) x = drop_bit n x"
proof (induction n)
  case (Suc n)
  have "take_bit n x = 0" using Suc.prems by (metis take_bit_of_0 take_bit_take_bit min.absorb1 le_SucI order_refl)
  moreover have "\<not> bit (drop_bit n x) 0"
  proof -
    have "\<not> bit (take_bit (Suc n) x) n" using Suc.prems by simp
    then show ?thesis by (simp add: bit_take_bit_iff bit_drop_bit_eq)
  qed
  ultimately show ?case using Suc.IH by (simp add: crc_bit_def drop_bit_drop_bit)
qed simp

definition table_ok :: "nat \<Rightarrow> bool" where
  "table_ok n \<longleftrightarrow> (\<forall>i < n. crc_32_tab ! i = (crc_bit ^^ 8) (of_nat i))"

lemma length_tab: "length crc_32_tab = 256"
  by (simp add: crc_32_tab_def)

lemma of_nat_pow_xor: "j < 2 ^ k \<Longrightarrow> (of_nat (2 ^ k + j) :: u32) = 2 ^ k XOR of_nat j"
proof -
  assume j: "j < 2 ^ k"
  have "(2 ^ k :: u32) AND of_nat j = 0"
  proof (rule bit_word_eqI)
    fix n
    have "\<not> bit j k" using j by (metis bit_nat_iff bit_take_bit_iff less_irrefl take_bit_nat_eq_self)
    then show "bit ((2 ^ k :: u32) AND of_nat j) n = bit (0 :: u32) n"
      by (auto simp: bit_simps)
  qed
  then show ?thesis by (simp add: disjunctive_add_eq_xor)
qed

lemma table_double:
  assumes "table_ok (2 ^ k)" "2 ^ k + 2 ^ k \<le> length crc_32_tab" "crc_32_tab ! (2 ^ k) = (crc_bit ^^ 8) (2 ^ k)"
    and "take (2 ^ k) (drop (2 ^ k) crc_32_tab) = map (\<lambda>x. crc_32_tab ! (2 ^ k) XOR x) (take (2 ^ k) crc_32_tab)"
  shows "table_ok (2 ^ Suc k)"
  unfolding table_ok_def
proof (intro allI impI)
  fix i :: nat
  assume i: "i < 2 ^ Suc k"
  show "crc_32_tab ! i = (crc_bit ^^ 8) (of_nat i)"
  proof (cases "i < 2 ^ k")
    case True
    with assms(1) show ?thesis by (simp add: table_ok_def)
  next
    case False
    define j where "j = i - 2 ^ k"
    have j: "i = 2 ^ k + j" "j < 2 ^ k" using i False by (auto simp: j_def)
    have "crc_32_tab ! i = take (2 ^ k) (drop (2 ^ k) crc_32_tab) ! j" using j assms(2) by simp
    also have "\<dots> = crc_32_tab ! (2 ^ k) XOR crc_32_tab ! j" using j assms(2) by (simp add: assms(4))
    also have "\<dots> = (crc_bit ^^ 8) (2 ^ k XOR of_nat j)"
      using assms(1,3) j(2) by (simp only: crc_bits_xor table_ok_def)
    also have "\<dots> = (crc_bit ^^ 8) (of_nat i)" using of_nat_pow_xor [OF j(2)] j(1) by simp
    finally show ?thesis .
  qed
qed

lemma tab_block_0: "take (2 ^ 0) (drop (2 ^ 0) crc_32_tab) = map (\<lambda>x. crc_32_tab ! (2 ^ 0) XOR x) (take (2 ^ 0) crc_32_tab)"
  by (simp add: crc_32_tab_def)

lemma tab_block_1: "take (2 ^ 1) (drop (2 ^ 1) crc_32_tab) = map (\<lambda>x. crc_32_tab ! (2 ^ 1) XOR x) (take (2 ^ 1) crc_32_tab)"
  by (simp add: crc_32_tab_def)

lemma tab_block_2: "take (2 ^ 2) (drop (2 ^ 2) crc_32_tab) = map (\<lambda>x. crc_32_tab ! (2 ^ 2) XOR x) (take (2 ^ 2) crc_32_tab)"
  by (simp add: crc_32_tab_def)

lemma tab_block_3: "take (2 ^ 3) (drop (2 ^ 3) crc_32_tab) = map (\<lambda>x. crc_32_tab ! (2 ^ 3) XOR x) (take (2 ^ 3) crc_32_tab)"
  by (simp add: crc_32_tab_def)

lemma tab_block_4: "take (2 ^ 4) (drop (2 ^ 4) crc_32_tab) = map (\<lambda>x. crc_32_tab ! (2 ^ 4) XOR x) (take (2 ^ 4) crc_32_tab)"
  by (simp add: crc_32_tab_def)

lemma tab_block_5: "take (2 ^ 5) (drop (2 ^ 5) crc_32_tab) = map (\<lambda>x. crc_32_tab ! (2 ^ 5) XOR x) (take (2 ^ 5) crc_32_tab)"
  by (simp add: crc_32_tab_def)

lemma tab_block_6: "take (2 ^ 6) (drop (2 ^ 6) crc_32_tab) = map (\<lambda>x. crc_32_tab ! (2 ^ 6) XOR x) (take (2 ^ 6) crc_32_tab)"
  by (simp add: crc_32_tab_def)

lemma tab_block_7: "take (2 ^ 7) (drop (2 ^ 7) crc_32_tab) = map (\<lambda>x. crc_32_tab ! (2 ^ 7) XOR x) (take (2 ^ 7) crc_32_tab)"
  by (simp add: crc_32_tab_def)

lemma crc_pow_bits:
  "(crc_bit ^^ 8) (2 ^ 0) = 0x77073096"
  "(crc_bit ^^ 8) (2 ^ 1) = 0xEE0E612C"
  "(crc_bit ^^ 8) (2 ^ 2) = 0x076DC419"
  "(crc_bit ^^ 8) (2 ^ 3) = 0x0EDB8832"
  "(crc_bit ^^ 8) (2 ^ 4) = 0x1DB71064"
  "(crc_bit ^^ 8) (2 ^ 5) = 0x3B6E20C8"
  "(crc_bit ^^ 8) (2 ^ 6) = 0x76DC4190"
  "(crc_bit ^^ 8) (2 ^ 7) = 0xEDB88320"
  by code_simp+

lemma crc_pow_tab:
  "crc_32_tab ! (2 ^ 0) = 0x77073096"
  "crc_32_tab ! (2 ^ 1) = 0xEE0E612C"
  "crc_32_tab ! (2 ^ 2) = 0x076DC419"
  "crc_32_tab ! (2 ^ 3) = 0x0EDB8832"
  "crc_32_tab ! (2 ^ 4) = 0x1DB71064"
  "crc_32_tab ! (2 ^ 5) = 0x3B6E20C8"
  "crc_32_tab ! (2 ^ 6) = 0x76DC4190"
  "crc_32_tab ! (2 ^ 7) = 0xEDB88320"
  by (simp_all add: crc_32_tab_def)

lemma table_correct: "table_ok 256"
proof -
  have t0: "table_ok (2 ^ 0)"
    by (simp add: table_ok_def crc_32_tab_def crc_bits_high)
  have t1: "table_ok (2 ^ 1)"
    using table_double [of 0] t0 tab_block_0 crc_pow_tab(1) crc_pow_bits(1) length_tab by simp
  have t2: "table_ok (2 ^ 2)"
    using table_double [of 1] t1 tab_block_1 crc_pow_tab(2) crc_pow_bits(2) length_tab by simp
  have t3: "table_ok (2 ^ 3)"
    using table_double [of 2] t2 tab_block_2 crc_pow_tab(3) crc_pow_bits(3) length_tab by simp
  have t4: "table_ok (2 ^ 4)"
    using table_double [of 3] t3 tab_block_3 crc_pow_tab(4) crc_pow_bits(4) length_tab by simp
  have t5: "table_ok (2 ^ 5)"
    using table_double [of 4] t4 tab_block_4 crc_pow_tab(5) crc_pow_bits(5) length_tab by simp
  have t6: "table_ok (2 ^ 6)"
    using table_double [of 5] t5 tab_block_5 crc_pow_tab(6) crc_pow_bits(6) length_tab by simp
  have t7: "table_ok (2 ^ 7)"
    using table_double [of 6] t6 tab_block_6 crc_pow_tab(7) crc_pow_bits(7) length_tab by simp
  have t8: "table_ok (2 ^ 8)"
    using table_double [of 7] t7 tab_block_7 crc_pow_tab(8) crc_pow_bits(8) length_tab by simp
  show ?thesis using t8 by simp
qed

lemma UPDC32_bits: "UPDC32 o' crc = crc_byte o' crc"
proof -
  let ?x = "crc XOR ucast o'" and ?f = "crc_bit ^^ 8"
  let ?hi = "?x XOR take_bit 8 ?x"
  have hi: "take_bit 8 ?hi = 0" by simp
  have split: "?x = take_bit 8 ?x XOR ?hi" by (simp add: xor.commute xor.left_commute)
  have "unat (take_bit 8 ?x) < 256"
    using take_bit_nat_less_exp [of 8 "unat ?x"] by (simp add: unsigned_take_bit_eq del: take_bit_xor)
  then have tab: "crc_32_tab ! unat (take_bit 8 ?x) = ?f (take_bit 8 ?x)"
    using table_correct by (simp add: table_ok_def del: take_bit_xor)
  have shift: "drop_bit 8 ?hi = drop_bit 8 crc"
    by (rule bit_word_eqI) (auto simp: bit_simps dest: bit_imp_le_length)
  have "crc_byte o' crc = ?f (take_bit 8 ?x XOR ?hi)" using split by (simp add: crc_byte_def)
  also have "\<dots> = ?f (take_bit 8 ?x) XOR ?f ?hi" by (rule crc_bits_xor)
  also have "?f ?hi = drop_bit 8 crc" using crc_bits_high [OF hi] shift by (simp only:)
  finally have "crc_byte o' crc = ?f (take_bit 8 ?x) XOR drop_bit 8 crc" .
  moreover have "?x AND 0xFF = take_bit 8 ?x" by (simp add: take_bit_eq_mask mask_eq_exp_minus_1)
  ultimately show ?thesis using tab by (simp only: UPDC32_def)
qed

section \<open>Detecting changes\<close>

text \<open>The upper byte of an entry tells which entry it is, so a step can be undone.\<close>

lemma tab_top_distinct: "distinct (map (\<lambda>w. unat (drop_bit 24 w)) crc_32_tab)"
  by (simp add: crc_32_tab_def)

lemma tab_top_inject:
  "i < 256 \<Longrightarrow> j < 256 \<Longrightarrow> drop_bit 24 (crc_32_tab ! i) = drop_bit 24 (crc_32_tab ! j) \<Longrightarrow> i = j"
  using nth_eq_iff_index_eq [OF tab_top_distinct, of i j] length_tab by simp

lemma xor_left_inject: "x XOR y = x XOR z \<longleftrightarrow> y = (z :: u32)"
proof
  assume "x XOR y = x XOR z"
  then have "x XOR (x XOR y) = x XOR (x XOR z)" by simp
  then show "y = z" by (simp add: xor.assoc [symmetric])
qed simp

lemma update_inject:
  assumes "crc_32_tab ! unat (x AND 0xFF) XOR drop_bit 8 x = crc_32_tab ! unat (y AND 0xFF) XOR drop_bit 8 (y :: u32)"
  shows "x = y"
proof -
  have b: "unat (z AND 0xFF) < 256" for z :: u32
  proof -
    have "z AND 0xFF = take_bit 8 z" by (simp add: take_bit_eq_mask mask_eq_exp_minus_1)
    then show ?thesis using take_bit_nat_less_exp [of 8 "unat z"] by (simp add: unsigned_take_bit_eq)
  qed
  have top: "drop_bit 24 (w XOR drop_bit 8 z) = drop_bit 24 w" for w z :: u32
    by (rule bit_word_eqI) (auto simp: bit_simps)
  have "drop_bit 24 (crc_32_tab ! unat (x AND 0xFF)) = drop_bit 24 (crc_32_tab ! unat (y AND 0xFF))"
    using arg_cong [OF assms, of "drop_bit 24"] by (simp only: top)
  with b tab_top_inject have "unat (x AND 0xFF) = unat (y AND 0xFF)" by blast
  then have lo: "x AND 0xFF = y AND 0xFF" by (simp add: word_unat_eq_iff)
  with assms have hi: "drop_bit 8 x = drop_bit 8 y" by (simp only: xor_left_inject)
  have "bit x n = bit y n" if "n < 32" for n
  proof (cases "n < 8")
    case True
    have "bit (x AND mask 8) n = bit (y AND mask 8) n" using lo by (simp add: mask_eq_exp_minus_1)
    with True show ?thesis by (simp add: bit_simps)
  next
    case False
    have "bit (drop_bit 8 x) (n - 8) = bit (drop_bit 8 y) (n - 8)" using hi by simp
    with False show ?thesis by (simp add: bit_simps)
  qed
  then show ?thesis by (intro bit_word_eqI) simp
qed

lemma UPDC32_inject_crc: "UPDC32 o' c = UPDC32 o' d \<Longrightarrow> c = d"
proof -
  assume a: "UPDC32 o' c = UPDC32 o' d"
  have s: "drop_bit 8 (z XOR ucast o') = drop_bit 8 z" for z :: u32
    by (rule bit_word_eqI) (auto simp: bit_simps dest: bit_imp_le_length)
  have "c XOR ucast o' = d XOR ucast o'"
    by (rule update_inject) (use a in \<open>simp only: UPDC32_def s\<close>)
  then show ?thesis by (simp only: xor.commute [of _ "ucast o'"] xor_left_inject)
qed

lemma UPDC32_inject_octet: "UPDC32 o1 c = UPDC32 o2 c \<Longrightarrow> o1 = o2"
proof -
  assume a: "UPDC32 o1 c = UPDC32 o2 c"
  have s: "drop_bit 8 (c XOR ucast z) = drop_bit 8 c" for z :: byte
    by (rule bit_word_eqI) (auto simp: bit_simps dest: bit_imp_le_length)
  have "c XOR ucast o1 = c XOR ucast o2"
    by (rule update_inject) (use a in \<open>simp only: UPDC32_def s\<close>)
  then have e: "(ucast o1 :: u32) = ucast o2" by (simp only: xor_left_inject)
  have "bit o1 n = bit o2 n" if "n < 8" for n
  proof -
    have "bit (ucast o1 :: u32) n = bit (ucast o2 :: u32) n" by (simp only: e)
    with that show ?thesis by (simp add: bit_ucast_iff)
  qed
  then show ?thesis by (intro bit_word_eqI) simp
qed

lemma fold_inject: "fold UPDC32 bs c = fold UPDC32 bs d \<Longrightarrow> c = d"
  by (induction bs arbitrary: c d) (auto dest: UPDC32_inject_crc)

lemma crc_one_byte: "b \<noteq> b' \<Longrightarrow> compute_crc32buf (xs @ b # ys) \<noteq> compute_crc32buf (xs @ b' # ys)"
  by (auto simp: compute_crc32buf_def dest!: fold_inject UPDC32_inject_octet)

section \<open>Properties\<close>

text \<open>C11: The table-driven checksum of a buffer of any length is the checksum defined bit by bit
  from the reflected polynomial 0xEDB88320.\<close>

theorem crc_is_bitwise: "compute_crc32buf buf = fold crc_byte buf 0xFFFFFFFF"
proof -
  have "fold UPDC32 buf c = fold crc_byte buf c" for c
    by (induction buf arbitrary: c) (simp_all add: UPDC32_bits)
  then show ?thesis by (simp add: compute_crc32buf_def)
qed

end
