(* ===== verification/RomFile.thy ===== *)
theory RomFile
  imports CfgCli Crc32
begin

text \<open>
  The stored configuration (\<open>service/cfg/cfg_romfile.c\<close>, \<open>cfg_load_object\<close> of \<open>cfg_cli.c\<close>):
  the header with length and checksum in front of the saved text, its check when the file is
  read back, and loading the checked file.

  The layout of \<open>struct trx_header\<close>, the archive program and the XML parser are outside the
  sources and are the argument \<open>rom_fmt\<close>; \<open>rom_laws\<close> states what the code relies on. What
  \<open>malloc\<close>, \<open>open\<close> and \<open>write\<close> return are arguments of the operations. The build profile
  packs the file (\<open>TCSUPPORT_CT_ZIPROMFILE\<close>) and checks it
  (\<open>TCSUPPORT_CT_BACKUPROMFILEENCHANCEMENT\<close>).
\<close>

section \<open>Format\<close>

record trx_header =
  tx_magic :: u32
  tx_header_len :: u32
  tx_len :: u32
  tx_crc32 :: u32
  tx_romfile_len :: u32

record rom_fmt =
  hdr_size :: nat
  put_header :: "trx_header \<Rightarrow> byte list"
  get_header :: "byte list \<Rightarrow> trx_header"
  tar :: "byte list \<Rightarrow> byte list"
  untar :: "byte list \<Rightarrow> byte list option"
  mxml_load :: "string \<Rightarrow> mxml list option"

text \<open>A header is read back from the bytes it was written to, an archive gives back its
  file.\<close>

definition rom_laws :: "rom_fmt \<Rightarrow> bool" where
  "rom_laws F \<longleftrightarrow>
     0 < hdr_size F \<and> hdr_size F < 4096 \<and> (\<forall>h. length (put_header F h) = hdr_size F) \<and>
     (\<forall>h r. get_header F (put_header F h @ r) = h) \<and> (\<forall>x. untar F (tar F x) = Some x)"

definition TRX_MAGIC3 :: u32 where "TRX_MAGIC3 = 0x33524448"
definition ROMFILE_MAX_LEN :: nat where "ROMFILE_MAX_LEN = 128 * 1024"
definition ROMFILE_MAX_PENDING :: nat where "ROMFILE_MAX_PENDING = 128 * 1024"

lemmas rom_consts [c_defs] = ROMFILE_MAX_LEN_def ROMFILE_MAX_PENDING_def

definition rom_header :: "rom_fmt \<Rightarrow> byte list \<Rightarrow> trx_header" where
  "rom_header F data =
     \<lparr>tx_magic = TRX_MAGIC3, tx_header_len = of_nat (hdr_size F),
      tx_len = of_nat (length data) + of_nat (hdr_size F), tx_crc32 = compute_crc32buf data,
      tx_romfile_len = of_nat (length data)\<rparr>"

section \<open>Writing\<close>

text \<open>\<open>compute_checksum\<close> on the content of the input file. \<open>w1\<close> and \<open>w2\<close> are what the two
  calls of \<open>write\<close> return. The result is the return code and what the output file holds.\<close>

definition compute_checksum ::
  "rom_fmt \<Rightarrow> bool \<Rightarrow> byte list option \<Rightarrow> bool \<Rightarrow> int \<Rightarrow> int \<Rightarrow> int \<times> byte list option" where
  "compute_checksum F mem inp opened w1 w2 =
     (let maxlen = ROMFILE_MAX_LEN - hdr_size F + ROMFILE_MAX_PENDING
      in if \<not> mem then (-1, None)
         else case inp of
                None \<Rightarrow> (-1, None)
              | Some f \<Rightarrow>
                  let buf = take (ROMFILE_MAX_LEN + ROMFILE_MAX_PENDING) f;
                      hdr = put_header F (rom_header F buf)
                  in if maxlen < length buf then (-1, None)
                     else if \<not> opened then (-1, None)
                     else if w1 < 0 then (-1, Some [])
                     else if w2 \<noteq> int (length buf) then (-1, Some (take (nat w1) hdr @ take (nat w2) buf))
                     else (0, Some (tar F (take (nat w1) hdr @ buf))))"

section \<open>Checking\<close>

text \<open>\<open>check_checksum\<close>: \<open>readable\<close> says whether \<open>read\<close> succeeds (its result is stored in an
  unsigned number, so a failure passes the test of the length), \<open>junk\<close> is what the rest of the
  buffer holds, \<open>w\<close> what \<open>write\<close> returns. The result is the return code and the content of the
  output file.\<close>

definition check_checksum ::
  "rom_fmt \<Rightarrow> bool \<Rightarrow> byte list option \<Rightarrow> bool \<Rightarrow> byte list \<Rightarrow> bool \<Rightarrow> (u32 \<Rightarrow> int) \<Rightarrow>
     (int \<times> byte list option) cres" where
  "check_checksum F mem configinfo readable junk opened w =
     (let bufsize = ROMFILE_MAX_LEN + ROMFILE_MAX_PENDING + 1
      in if \<not> mem then Ret (-1, None)
         else case (case configinfo of None \<Rightarrow> None | Some a \<Rightarrow> untar F a) of
                None \<Rightarrow> Ret (-1, None)
              | Some f \<Rightarrow>
                  let got = (if readable then take (ROMFILE_MAX_LEN + ROMFILE_MAX_PENDING) f else []);
                      buf = take bufsize (got @ junk)
                  in if readable \<and> length got < hdr_size F then Ret (-1, None)
                     else
                       let h = get_header F buf;
                           n = tx_len h - of_nat (hdr_size F);
                           content = take (unat n) (drop (hdr_size F) buf)
                       in if tx_magic h \<noteq> TRX_MAGIC3 then Ret (-1, None)
                          else if bufsize < hdr_size F + unat n then Fault ReadPastEnd
                          else if tx_crc32 h \<noteq> compute_crc32buf content then Ret (-1, None)
                          else if \<not> opened then Ret (-1, None)
                          else if tx_len h \<le> of_nat (hdr_size F) then Ret (-1, Some [])
                          else if word_of_int (w n) \<noteq> n then Ret (-1, Some (take (nat (w n)) content))
                          else Ret (0, Some content))"

section \<open>Loading\<close>

definition str_bytes :: "string \<Rightarrow> byte list" where
  "str_bytes s = map of_char s"

definition bytes_str :: "byte list \<Rightarrow> string" where
  "bytes_str bs = map (\<lambda>b. char_of (unat b)) bs"

definition cfg_load_object :: "rom_fmt \<Rightarrow> cfg_env \<Rightarrow> byte list option \<Rightarrow> cfg_state \<Rightarrow> (int \<times> cfg_state) cres" where
  "cfg_load_object F E file s =
     (case file of
        None \<Rightarrow> Ret (-1, s)
      | Some bs \<Rightarrow>
          (case mxml_load F (bytes_str bs) of
             None \<Rightarrow> Ret (-1, s)
           | Some doc \<Rightarrow> cbind (cfg_load_from_xml E [] doc s) (\<lambda>s1. Ret (0, s1))))"

definition check_romfile ::
  "rom_fmt \<Rightarrow> cfg_env \<Rightarrow> bool \<Rightarrow> byte list option \<Rightarrow> bool \<Rightarrow> byte list \<Rightarrow> bool \<Rightarrow> (u32 \<Rightarrow> int) \<Rightarrow> cfg_state \<Rightarrow>
     (int \<times> cfg_state) cres" where
  "check_romfile F E mem pathname readable junk opened w s =
     cbind (check_checksum F mem pathname readable junk opened w) (\<lambda>(flag, out).
       if flag < 0 then Ret (-1, s) else cfg_load_object F E out s)"

definition checkParaValid :: "string \<Rightarrow> int \<Rightarrow> bool cres" where
  "checkParaValid buf len =
     (let part = take (nat (len - 1)) buf; used = takeWhile (\<lambda>c. c \<noteq> CHR 0x00 \<and> c \<noteq> CHR 0xFF) part
      in if length used < length part then Ret (part ! length used = CHR 0x00)
         else if length buf < nat (len - 1) then Fault ReadPastEnd
         else Ret True)"

section \<open>What is written is read back\<close>

lemma unat_of_char: "unat (of_char c :: byte) = (of_char c :: nat)"
proof -
  have "(of_char c :: byte) = of_nat (of_char c :: nat)" by (simp add: of_nat_of_char)
  moreover have "(of_char c :: nat) < 256" using cval_less [of c] by (simp add: cval_def)
  ultimately show ?thesis by (simp add: unat_of_nat)
qed

lemma bytes_str_bytes [simp]: "bytes_str (str_bytes s) = s"
  by (simp add: bytes_str_def str_bytes_def unat_of_char comp_def)

lemma length_str_bytes [simp]: "length (str_bytes s) = length s"
  by (simp add: str_bytes_def)

definition rom_image :: "rom_fmt \<Rightarrow> byte list \<Rightarrow> byte list \<Rightarrow> byte list" where
  "rom_image F data data' = put_header F (rom_header F data) @ data'"

definition rom_fits :: "rom_fmt \<Rightarrow> byte list \<Rightarrow> bool" where
  "rom_fits F data \<longleftrightarrow> data \<noteq> [] \<and> length data \<le> 262144 - hdr_size F"

text \<open>Reading an image whose header was made for \<open>data\<close> and whose content is \<open>data'\<close>, of the
  same length.\<close>

lemma check_image:
  assumes laws: "rom_laws F" and fits: "rom_fits F data" and len: "length data' = length data"
  shows "check_checksum F True (Some (tar F (rom_image F data data'))) True junk True w =
    (if compute_crc32buf data \<noteq> compute_crc32buf data' then Ret (-1, None)
     else if word_of_int (w (of_nat (length data))) \<noteq> (of_nat (length data) :: u32)
     then Ret (-1, Some (take (nat (w (of_nat (length data)))) data'))
     else Ret (0, Some data'))"
proof -
  let ?h = "put_header F (rom_header F data)" and ?n = "of_nat (length data) :: u32"
  have hl: "length ?h = hdr_size F" and hs: "hdr_size F < 4096" "untar F (tar F x) = Some x"
    and gh: "get_header F (?h @ r) = rom_header F data" for x r
    using laws by (simp_all add: rom_laws_def)
  have dl: "0 < length data" "hdr_size F + length data \<le> 262144"
    using fits hs by (auto simp: rom_fits_def)
  have n: "tx_len (rom_header F data) - of_nat (hdr_size F) = ?n" by (simp add: rom_header_def)
  have un: "unat ?n = length data" using dl by (simp add: unat_of_nat)
  have tl: "unat (tx_len (rom_header F data)) = length data + hdr_size F"
    using dl by (simp add: rom_header_def unat_of_nat flip: of_nat_add)
  have small: "\<not> tx_len (rom_header F data) \<le> of_nat (hdr_size F)"
    using dl hs by (simp add: word_le_nat_alt tl unat_of_nat)
  let ?m = "ROMFILE_MAX_LEN + ROMFILE_MAX_PENDING"
  have m: "hdr_size F + length data \<le> ?m" using dl by (simp add: rom_consts)
  have got: "take ?m (?h @ data') = ?h @ data'" using m hl len by simp
  have buf: "take (?m + 1) ((?h @ data') @ junk) = ?h @ data' @ take (?m + 1 - (hdr_size F + length data)) junk"
    using m hl len by simp
  have content: "take (length data) (drop (hdr_size F) (?h @ data' @ r)) = data'" for r
    using hl len by simp
  have fits: "\<not> ?m + 1 < hdr_size F + length data" "\<not> length (?h @ data') < hdr_size F" using m hl by simp_all
  have fields: "tx_magic (rom_header F data) = TRX_MAGIC3" "tx_crc32 (rom_header F data) = compute_crc32buf data"
    by (simp_all add: rom_header_def)
  show ?thesis
    unfolding check_checksum_def rom_image_def
    by (simp only: Let_def hs option.case got buf gh n un small content fields fits if_True if_False
        not_True_eq_False not_False_eq_True simp_thms cong: if_cong)
qed

lemma compute_image:
  assumes "rom_laws F" and "rom_fits F data"
  shows "compute_checksum F True (Some data) True (int (hdr_size F)) (int (length data)) =
    (0, Some (tar F (rom_image F data data)))"
proof -
  let ?m = "ROMFILE_MAX_LEN + ROMFILE_MAX_PENDING"
  have "length data \<le> ?m" "\<not> ROMFILE_MAX_LEN - hdr_size F + ROMFILE_MAX_PENDING < length data"
    using assms by (auto simp: rom_fits_def rom_laws_def rom_consts)
  moreover have "length (put_header F h) = hdr_size F" for h
    using assms by (simp add: rom_laws_def)
  ultimately show ?thesis by (simp add: compute_checksum_def rom_image_def Let_def)
qed

text \<open>A format on which the laws hold: the five fields as their lowest bytes in base 256, no
  compression.\<close>

definition word_bytes :: "u32 \<Rightarrow> byte list" where
  "word_bytes x = map (\<lambda>k. ucast (drop_bit (8 * k) x)) [0, 1, 2, 3]"

definition bytes_word :: "byte list \<Rightarrow> u32" where
  "bytes_word bs = fold (\<lambda>b a. push_bit 8 a OR ucast b) (rev (take 4 bs)) 0"

lemma bytes_word_bytes: "bytes_word (word_bytes x @ r) = x"
proof (rule bit_word_eqI)
  fix n assume "n < LENGTH(32)"
  then consider "n < 8" | "8 \<le> n" "n < 16" | "16 \<le> n" "n < 24" | "24 \<le> n" "n < 32" by force
  then show "bit (bytes_word (word_bytes x @ r)) n = bit x n"
    by cases (auto simp: bytes_word_def word_bytes_def bit_simps)
qed

definition plain_fmt :: rom_fmt where
  "plain_fmt =
     \<lparr>hdr_size = 20,
      put_header = (\<lambda>h. word_bytes (tx_magic h) @ word_bytes (tx_header_len h) @ word_bytes (tx_len h) @
        word_bytes (tx_crc32 h) @ word_bytes (tx_romfile_len h)),
      get_header = (\<lambda>b. \<lparr>tx_magic = bytes_word b, tx_header_len = bytes_word (drop 4 b), tx_len = bytes_word (drop 8 b),
        tx_crc32 = bytes_word (drop 12 b), tx_romfile_len = bytes_word (drop 16 b)\<rparr>),
      tar = (\<lambda>x. x), untar = Some, mxml_load = (\<lambda>_. None)\<rparr>"

lemma length_word_bytes [simp]: "length (word_bytes x) = 4"
  by (simp add: word_bytes_def)

lemma plain_laws: "rom_laws plain_fmt"
  by (simp add: rom_laws_def plain_fmt_def bytes_word_bytes)

section \<open>Properties\<close>

text \<open>C10: A saved configuration that fits the file is read back unchanged: when the writes succeed,
  \<open>compute_checksum\<close> produces an image from which \<open>check_checksum\<close> gives back exactly the bytes
  that were saved.\<close>

theorem rom_roundtrip:
  assumes "rom_laws F" and "rom_fits F data" and "w (of_nat (length data)) = int (length data)"
  shows "\<exists>image. compute_checksum F True (Some data) True (int (hdr_size F)) (int (length data)) = (0, Some image) \<and>
    check_checksum F True (Some image) True junk True w = Ret (0, Some data)"
  using compute_image [OF assms(1,2)] check_image [OF assms(1,2) refl, of junk w] assms(3) by simp

theorem rom_roundtrip_witness:
  "\<exists>image. compute_checksum plain_fmt True (Some [1, 2, 3]) True 20 3 = (0, Some image) \<and>
    check_checksum plain_fmt True (Some image) True [9] True uint = Ret (0, Some [1, 2, 3])"
  using rom_roundtrip [OF plain_laws, of "[1, 2, 3]" uint "[9]"]
  by (simp add: rom_fits_def plain_fmt_def)

text \<open>C12: An image in which one byte of the content has changed is refused: nothing is written to
  the output file, and \<open>check_romfile\<close> reports the failure and leaves the objects as they were.\<close>

theorem rom_corrupt_detected:
  assumes "rom_laws F" and "rom_fits F (xs @ b # ys)" and "b \<noteq> b'"
  defines "file \<equiv> tar F (rom_image F (xs @ b # ys) (xs @ b' # ys))"
  shows "check_checksum F True (Some file) True junk True w = Ret (-1, None) \<and>
    check_romfile F E True (Some file) True junk True w s = Ret (-1, s)"
proof -
  have "check_checksum F True (Some file) True junk True w = Ret (-1, None)"
    using check_image [OF assms(1,2), of "xs @ b' # ys" junk w] crc_one_byte [OF assms(3), of xs ys]
    by (simp add: file_def)
  then show ?thesis by (simp add: check_romfile_def)
qed

theorem rom_corrupt_detected_witness:
  "check_checksum plain_fmt True (Some (tar plain_fmt (rom_image plain_fmt [1, 2, 3] [1, 7, 3]))) True [] True uint = Ret (-1, None)"
  using rom_corrupt_detected [OF plain_laws, of "[1]" 2 "[3]" 7 "[]" uint]
  by (simp add: rom_fits_def plain_fmt_def)

text \<open>The length in the header is used before it is checked: a file with the right magic
  number whose length field is smaller than the header makes the checksum read behind the buffer,
  although the test for such a length follows a few lines later.\<close>

theorem rom_short_len_overreads:
  assumes "rom_laws F" and "tx_magic h = TRX_MAGIC3" and "unat (tx_len h) < hdr_size F"
  shows "check_checksum F True (Some (tar F (put_header F h))) True junk opened w = Fault ReadPastEnd"
proof -
  let ?n = "tx_len h - of_nat (hdr_size F)" and ?m = "ROMFILE_MAX_LEN + ROMFILE_MAX_PENDING"
  have laws: "hdr_size F < 4096" "length (put_header F h) = hdr_size F" "untar F (tar F x) = Some x"
    "get_header F (put_header F h @ r) = h" for x r
    using assms(1) by (simp_all add: rom_laws_def)
  have hs: "unat (of_nat (hdr_size F) :: u32) = hdr_size F" using laws(1) by (simp add: unat_of_nat)
  have "unat ?n = 2 ^ 32 + unat (tx_len h) - hdr_size F"
    using assms(3) laws(1) by (simp add: unat_sub_if' hs)
  then have "?m + 1 < hdr_size F + unat ?n" using laws(1) by (simp add: rom_consts)
  moreover have "take ?m (put_header F h) = put_header F h" using laws(1,2) by (simp add: rom_consts)
  moreover have "take (?m + 1) (put_header F h @ junk) = put_header F h @ take (?m + 1 - hdr_size F) junk"
    using laws(1,2) by (simp add: rom_consts)
  ultimately show ?thesis unfolding check_checksum_def
    by (simp only: Let_def laws option.case assms(2) if_True if_False simp_thms nat_less_le cong: if_cong)
qed

theorem rom_short_len_overreads_witness:
  "\<exists>file. check_checksum plain_fmt True (Some file) True [] True uint = Fault ReadPastEnd"
proof -
  let ?h = "\<lparr>tx_magic = TRX_MAGIC3, tx_header_len = 20, tx_len = 4, tx_crc32 = 0, tx_romfile_len = 0\<rparr>"
  have "unat (tx_len ?h) < hdr_size plain_fmt" by (simp add: plain_fmt_def)
  then show ?thesis using rom_short_len_overreads [OF plain_laws, of ?h] by auto
qed

end
