(* ===== verification/XmlText.thy ===== *)
theory XmlText
  imports CfgCli
begin

text \<open>
  The text \<open>cfg_obj_save_tree\<close> writes as an XML document. The parser (mini-XML) is not part of
  the sources; what loading relies on is that a document is read back from its text. A small
  reader for the texts the program writes shows that this can be met.
\<close>

section \<open>Documents and their text\<close>

text \<open>An element without children is written in the short form, or in the long form when its
  object had only volatile children.\<close>

inductive xml_shows :: "mxml list \<Rightarrow> string \<Rightarrow> bool" where
  shows_Nil: "xml_shows [] []"
| shows_short: "save_attrs p = Ret as \<Longrightarrow> xml_shows bs rest \<Longrightarrow>
    xml_shows (MxNode nm p [] # bs)
      (CHR ''<'' # nm @ as @ (if p \<noteq> [] then '' '' else []) @ ''/>'' @ NL @ rest)"
| shows_long: "save_attrs p = Ret as \<Longrightarrow> xml_shows ch sub \<Longrightarrow> xml_shows bs rest \<Longrightarrow>
    xml_shows (MxNode nm p ch # bs)
      (CHR ''<'' # nm @ as @ (if p \<noteq> [] then '' '' else []) @
       CHR ''>'' # NL @ sub @ ''</'' @ nm @ CHR ''>'' # NL @ rest)"

definition name_char :: "char \<Rightarrow> bool" where
  "name_char c \<longleftrightarrow>
     is_digit c \<or> (65 \<le> cval c \<and> cval c \<le> 90) \<or> (97 \<le> cval c \<and> cval c \<le> 122) \<or> c = CHR ''_'' \<or> c = CHR ''-'' \<or> c = CHR ''.''"

definition xml_name :: "string \<Rightarrow> bool" where
  "xml_name n \<longleftrightarrow> n \<noteq> [] \<and> list_all name_char n"

definition xml_value :: "string \<Rightarrow> bool" where
  "xml_value v \<longleftrightarrow> list_all (\<lambda>c. 32 \<le> cval c \<and> cval c < 127) v"

fun doc_ok :: "mxml list \<Rightarrow> bool" where
  "doc_ok [] = True"
| "doc_ok (MxNode nm p ch # bs) =
     (xml_name nm \<and> list_all (\<lambda>(n, v). xml_name n \<and> xml_value v) p \<and> doc_ok ch \<and> doc_ok bs)"

section \<open>A reader\<close>

text \<open>The attributes up to the end of the tag, one blank before each and one behind the last.\<close>

fun read_attrs :: "nat \<Rightarrow> string \<Rightarrow> (attrs \<times> string) option" where
  "read_attrs 0 s = None"
| "read_attrs (Suc k) s =
     (if s \<noteq> [] \<and> hd s = CHR '' ''
      then let n = takeWhile name_char (tl s); r = dropWhile name_char (tl s)
           in if n = [] then Some ([], tl s)
              else let v = takeWhile (\<lambda>c. c \<noteq> CHR 0x22) (drop 2 r)
                   in map_option (\<lambda>(as, t). ((n, xml_unescape v) # as, t)) (read_attrs k (drop (length v + 3) r))
      else Some ([], s))"

fun read_nodes :: "nat \<Rightarrow> string \<Rightarrow> (mxml list \<times> string) option" where
  "read_nodes 0 s = None"
| "read_nodes (Suc k) s =
     (if s = [] \<or> prefix_of ''</'' s then Some ([], s)
      else let nm = takeWhile name_char (tl s)
           in case read_attrs k (dropWhile name_char (tl s)) of
                None \<Rightarrow> None
              | Some (p, r) \<Rightarrow>
                  if prefix_of ''/>'' r
                  then map_option (\<lambda>(bs, t). (MxNode nm p [] # bs, t)) (read_nodes k (drop 4 r))
                  else case read_nodes k (drop 3 r) of
                         None \<Rightarrow> None
                       | Some (ch, r2) \<Rightarrow>
                           map_option (\<lambda>(bs, t). (MxNode nm p ch # bs, t)) (read_nodes k (drop (length nm + 5) r2)))"

definition xml_read :: "string \<Rightarrow> mxml list option" where
  "xml_read s = map_option fst (read_nodes (Suc (length s)) s)"

lemma name_takeWhile:
  assumes "xml_name n" "\<not> name_char c"
  shows "takeWhile name_char (n @ c # r) = n" "dropWhile name_char (n @ c # r) = c # r"
  using assms by (auto simp: xml_name_def list_all_iff takeWhile_append dropWhile_append)

lemma not_name_chars:
  "\<not> name_char (CHR ''='')" "\<not> name_char (CHR ''/'')" "\<not> name_char (CHR ''>'')" "\<not> name_char (CHR '' '')"
  by (simp_all add: name_char_def is_digit_def cval_def)

lemma value_takeWhile:
  "takeWhile (\<lambda>c. c \<noteq> CHR 0x22) (xml_text v @ CHR 0x22 # r) = xml_text v"
  using xml_text_clean [of v] by (intro takeWhile_append_stop) auto

text \<open>What follows the attributes: the end of the tag.\<close>

definition tag_end :: "string \<Rightarrow> bool" where
  "tag_end r \<longleftrightarrow> r \<noteq> [] \<and> (hd r = CHR ''/'' \<or> hd r = CHR ''>'')"

lemma read_attrs_saved:
  "save_attrs p = Ret as \<Longrightarrow> list_all (\<lambda>(n, v). xml_name n \<and> xml_value v) p \<Longrightarrow> tag_end r \<Longrightarrow> length as < k \<Longrightarrow>
   read_attrs k (as @ (if p \<noteq> [] \<or> b then '' '' else []) @ r) = Some (p, r)"
proof (induction p arbitrary: as k b)
  case Nil
  then obtain k' where k: "k = Suc k'" by (cases k) auto
  have "takeWhile name_char r = []" using Nil.prems(3) not_name_chars by (cases r) (auto simp: tag_end_def)
  moreover have "hd r \<noteq> CHR '' ''" using Nil.prems(3) by (auto simp: tag_end_def)
  ultimately show ?case using Nil.prems k by auto
next
  case (Cons a p)
  obtain n v where a: "a = (n, v)" by force
  obtain rest where as: "as = CHR '' '' # n @ CHR ''='' # CHR 0x22 # xml_text v @ CHR 0x22 # rest" "save_attrs p = Ret rest"
    using Cons.prems(1) a by (auto simp: xmlFormatFunc_def checkvalue_eq split: if_splits)
  have n: "xml_name n" "n \<noteq> []" "list_all (\<lambda>(n, v). xml_name n \<and> xml_value v) p" using Cons.prems(2) a by (auto simp: xml_name_def)
  obtain k' where k: "k = Suc k'" "length rest < k'" using Cons.prems(4) as(1) by (cases k) auto
  let ?t = "rest @ '' '' @ r"
  have ih: "read_attrs k' ?t = Some (p, r)" using Cons.IH [OF as(2) n(3) Cons.prems(3) k(2), of True] by simp
  let ?q = "CHR ''='' # CHR 0x22 # xml_text v @ CHR 0x22 # ?t"
  have "takeWhile name_char (n @ ?q) = n" "dropWhile name_char (n @ ?q) = ?q"
    using name_takeWhile [OF n(1) not_name_chars(1)] by auto
  moreover have "takeWhile (\<lambda>c. c \<noteq> CHR 0x22) (drop 2 ?q) = xml_text v" by (simp add: value_takeWhile)
  moreover have "drop (length (xml_text v) + 3) ?q = ?t" by (simp add: numeral_3_eq_3)
  ultimately show ?case
    using ih n(2) by (simp add: k(1) as(1) a xml_unescape_text Let_def)
qed

definition node_tail :: "string \<Rightarrow> bool" where
  "node_tail t \<longleftrightarrow> t = [] \<or> prefix_of ''</'' t"

lemma read_head:
  assumes "xml_name nm" "save_attrs p = Ret as" "list_all (\<lambda>(n, v). xml_name n \<and> xml_value v) p" "tag_end r" "length as < k"
  defines "s \<equiv> nm @ as @ (if p \<noteq> [] then '' '' else []) @ r"
  shows "takeWhile name_char s = nm" "read_attrs k (dropWhile name_char s) = Some (p, r)"
proof -
  let ?u = "as @ (if p \<noteq> [] then '' '' else []) @ r"
  have "?u \<noteq> [] \<and> \<not> name_char (hd ?u)"
  proof (cases p)
    case Nil
    with assms(2,4) not_name_chars show ?thesis by (auto simp: tag_end_def)
  next
    case (Cons a q)
    obtain n v where "a = (n, v)" by force
    with Cons assms(2) not_name_chars show ?thesis by auto
  qed
  then obtain c u where u: "?u = c # u" "\<not> name_char c" by (cases ?u) auto
  have s: "s = nm @ c # u" by (simp only: s_def u(1))
  show "takeWhile name_char s = nm" unfolding s by (rule name_takeWhile [OF assms(1) u(2)])
  have "dropWhile name_char s = ?u" unfolding s u(1) by (rule name_takeWhile [OF assms(1) u(2)])
  then show "read_attrs k (dropWhile name_char s) = Some (p, r)"
    using read_attrs_saved [OF assms(2-5), of False] by simp
qed

lemma name_not_close: "xml_name nm \<Longrightarrow> \<not> prefix_of ''</'' (CHR ''<'' # nm @ r)"
  using not_name_chars by (cases nm) (auto simp: xml_name_def)

lemma read_nodes_shows:
  "xml_shows doc text \<Longrightarrow> doc_ok doc \<Longrightarrow> node_tail tail \<Longrightarrow> length text < k \<Longrightarrow> read_nodes k (text @ tail) = Some (doc, tail)"
proof (induction arbitrary: tail k rule: xml_shows.induct)
  case shows_Nil
  then show ?case by (cases k) (auto simp: node_tail_def)
next
  case (shows_short p as bs rest nm)
  let ?r = "''/>'' @ NL @ rest @ tail"
  obtain k' where k: "k = Suc k'" "length as < k'" "length rest < k'" using shows_short.prems(3) by (cases k) auto
  have pre: "xml_name nm" "list_all (\<lambda>(n, v). xml_name n \<and> xml_value v) p" "tag_end ?r"
    using shows_short.prems(1) by (simp_all add: tag_end_def)
  note h = read_head [OF pre(1) shows_short.hyps(1) pre(2,3) k(2)]
  have ih: "read_nodes k' (rest @ tail) = Some (bs, tail)" using shows_short.IH shows_short.prems k(3) by simp
  show ?case
    using h ih name_not_close [of nm "as @ (if p \<noteq> [] then '' '' else []) @ ?r"] shows_short.prems(1) k(1)
    by (simp add: Let_def NL_def)
next
  case (shows_long p as ch sub bs rest nm)
  let ?c = "''</'' @ nm @ CHR ''>'' # NL @ rest @ tail" and ?sp = "if p \<noteq> [] then '' '' else []"
  let ?r = "CHR ''>'' # NL @ sub @ ?c"
  obtain k' where k: "k = Suc k'" "length as < k'" "length rest < k'" "length sub < k'" using shows_long.prems(3) by (cases k) auto
  have pre: "xml_name nm" "list_all (\<lambda>(n, v). xml_name n \<and> xml_value v) p" "tag_end ?r"
    using shows_long.prems(1) by (simp_all add: tag_end_def)
  note h = read_head [OF pre(1) shows_long.hyps(1) pre(2,3) k(2)]
  have "read_nodes k' (rest @ tail) = Some (bs, tail)" using shows_long.IH(2) shows_long.prems k(3) by simp
  moreover have "read_nodes k' (sub @ ?c) = Some (ch, ?c)"
    using shows_long.IH(1) shows_long.prems(1) k(4) by (simp add: node_tail_def)
  moreover have "drop 3 ?r = sub @ ?c" "drop (length nm + 5) ?c = rest @ tail" by (simp_all add: NL_def numeral_eq_Suc)
  moreover have "\<not> prefix_of ''/>'' ?r" by simp
  ultimately show ?case
    using h name_not_close [of nm "as @ ?sp @ ?r"] shows_long.prems(1) k(1) by (simp add: Let_def)
qed

lemma xml_read_shows: "xml_shows doc text \<Longrightarrow> doc_ok doc \<Longrightarrow> xml_read text = Some doc"
  using read_nodes_shows [of doc "text" "[]" "Suc (length text)"] by (simp add: xml_read_def node_tail_def)

end
