(* ===== verification/Restore.thy ===== *)
theory Restore
  imports CfgFileSpec RomFile XmlText
begin

text \<open>
  Saving and loading together: the document \<open>cfg_obj_save_tree\<close> writes, and what
  \<open>cfg_load_from_xml\<close> makes of it on a fresh tree.
\<close>

section \<open>The environment\<close>

definition load_ok :: "cfg_env \<Rightarrow> bool" where
  "load_ok E \<longleftrightarrow>
     db_ok (env_types E) \<and> types_ok [db_root (env_types E)] \<and>
     type_name (db_root (env_types E)) = ''root'' \<and> xml_laws E \<and> (\<forall>n. env_calloc E n)"

definition top_types :: "cfg_env \<Rightarrow> cfg_node_type list" where
  "top_types E = type_subtype (db_root (env_types E))"

definition ids_of :: "(cfg_node_type \<times> nat) list \<Rightarrow> u32 list" where
  "ids_of xs = map chain_oid xs"

definition chain_tokens :: "(cfg_node_type \<times> nat) list \<Rightarrow> string list" where
  "chain_tokens xs = concat (map comp_tokens ((''root'', None) # map saved_comp xs))"

lemma ids_of_simps [simp]: "ids_of [] = []" "ids_of (xs @ [x]) = ids_of xs @ [chain_oid x]"
  by (simp_all add: ids_of_def)

lemma load_okD:
  assumes "load_ok E"
  shows "db_ok (env_types E)" "types_ok [db_root (env_types E)]" "lower (type_name (db_root (env_types E))) = ''root''"
    "xml_laws E" "\<forall>n. env_calloc E n" "types_ok (top_types E)"
proof -
  show "lower (type_name (db_root (env_types E))) = ''root''"
    using assms by (simp add: load_ok_def lower_char_def cval_def)
  show "types_ok (top_types E)" using assms types_okD unfolding load_ok_def top_types_def by fastforce
qed (use assms in \<open>auto simp: load_ok_def\<close>)

text \<open>Which objects a state has.\<close>

definition has_obj :: "cfg_state \<Rightarrow> u32 list \<Rightarrow> bool" where
  "has_obj s q \<longleftrightarrow> (case cfg_obj_root s of RootLive r \<Rightarrow> obj_at r q \<noteq> None | _ \<Rightarrow> False)"

lemma has_obj_locked [simp]: "has_obj (cfg_obj_lock s) = has_obj s" "has_obj (cfg_obj_unlock s) = has_obj s"
  by (auto simp: has_obj_def fun_eq_iff)

lemma has_objD: "has_obj s q \<Longrightarrow> \<exists>r x. cfg_obj_root s = RootLive r \<and> obj_at r q = Some x"
  by (auto simp: has_obj_def split: root_ptr.splits)

lemma has_objE:
  assumes "has_obj s q" obtains r x where "cfg_obj_root s = RootLive r" "obj_at r q = Some x"
  using has_objD [OF assms] by blast

section \<open>Paths\<close>

lemma chain_get_obj:
  assumes "load_ok E" "obj_chain (top_types E) xs" "length xs < CFG_MAX_NODE_LEVEL" "cfg_obj_root s = RootLive r"
  shows "cfg_obj_get_obj E s (chain_path xs) = Ret (if has_obj s (ids_of xs) then Some (ids_of xs) else None)"
  using saved_tags_back(2) [OF load_okD(1-3) [OF assms(1)] assms(2) [unfolded top_types_def] assms(3)] assms(4)
  by (simp add: get_obj_live_eq [OF assms(4)] has_obj_def ids_of_def)

lemma chain_query:
  assumes "load_ok E" "obj_chain (top_types E) xs" "length xs < CFG_MAX_NODE_LEVEL" "cfg_obj_root s = RootLive r"
  shows "cfg_obj_query_object E (chain_path xs) None False s =
    Ret ((if has_obj s (ids_of xs) then 1 else -1, []), cfg_obj_unlock (cfg_obj_lock s))"
  using chain_get_obj [OF assms] by (simp add: cfg_obj_query_object_def query_subtype_def Let_def)

lemma walk_chain:
  "types_ok ts \<Longrightarrow> obj_chain ts xs \<Longrightarrow> sub_types db node = ts \<Longrightarrow> xs \<noteq> [] \<Longrightarrow>
   walk_tokens db node na (concat (map (\<lambda>x. comp_tokens (saved_comp x)) xs)) = Some (fst (last xs))"
proof (induction ts xs arbitrary: node na rule: obj_chain.induct)
  case (2 ts t i xs)
  let ?n = "lower (type_name t)"
  have n: "name_ok ?n" "token_digit ?n = 0" using "2.prems" types_okD name_ok_lower by auto
  have f: "find (\<lambda>u. name_match (type_name u) ?n) (sub_types db node) = Some t"
    using "2.prems" find_lower by auto
  have rest: "walk_tokens db (Some t) na' (concat (map (\<lambda>x. comp_tokens (saved_comp x)) xs)) = Some (fst (last ((t, i) # xs)))" for na'
    using "2.IH" [of "Some t" na'] "2.prems" types_okD by (cases "xs = []") auto
  have k: "token_digit (nat_str i) = int i" using "2.prems" by (intro nat_str_token_digit) auto
  show ?case using f n rest k "2.prems" by (auto simp: saved_comp_def)
qed simp

lemma chain_tokens_ok:
  assumes "load_ok E" "obj_chain (top_types E) xs"
  shows "\<forall>t \<in> set (chain_tokens xs). token_ok t"
proof -
  have r: "name_ok ''root''"
    using types_okD [OF load_okD(2) [OF assms(1)]] load_okD(3) [OF assms(1)] name_ok_lower by force
  have "\<forall>t \<in> set (comp_tokens (saved_comp x)). token_ok t" if "x \<in> set xs" for x
  proof -
    have "comp_ok (saved_comp x)" "0 < snd x \<and> snd x < 65536"
      using chain_facts [OF load_okD(6) [OF assms(1)] assms(2) that] by auto
    then show ?thesis by (cases "saved_comp x" rule: comp_tokens.cases) (auto intro!: nat_str_token_ok)
  qed
  with r show ?thesis by (auto simp: chain_tokens_def)
qed

lemma chain_type_query:
  assumes "load_ok E" "obj_chain (top_types E) xs" "xs \<noteq> []" "length (chain_tokens xs) < CFG_MAX_NODE_LEVEL"
  shows "cfg_type_query (env_types E) (chain_path xs) = Ret (Some (fst (last xs)))"
proof -
  let ?db = "env_types E"
  have "find (\<lambda>u. name_match (type_name u) ''root'') (sub_types ?db None) = Some (db_root ?db)"
    using find_lower [OF load_okD(2) [OF assms(1)], of "db_root ?db"] load_okD(3) [OF assms(1)] by simp
  moreover have "walk_tokens ?db (Some (db_root ?db)) False (concat (map (\<lambda>x. comp_tokens (saved_comp x)) xs)) = Some (fst (last xs))"
    using assms(2,3) load_okD(6) [OF assms(1)] by (intro walk_chain) (auto simp: top_types_def)
  moreover have "token_digit ''root'' = 0" by code_simp
  ultimately have "walk_tokens ?db None True (chain_tokens xs) = Some (fst (last xs))"
    by (simp add: chain_tokens_def comp_def)
  then show ?thesis
    using query_tokens [OF chain_tokens_ok [OF assms(1,2)] assms(4), of ?db]
    by (simp add: chain_path_def path_text_def chain_tokens_def)
qed

section \<open>Objects that are always there\<close>

text \<open>The type of the object at a place.\<close>

definition type_at :: "cfg_env \<Rightarrow> u32 list \<Rightarrow> cfg_node_type option" where
  "type_at E q = (if q = [] then Some (db_root (env_types E)) else cfg_type_from_oid E (last q))"

text \<open>Every object has an instance of each type below it that is not created on demand.\<close>

definition static_full :: "cfg_env \<Rightarrow> cfg_state \<Rightarrow> bool" where
  "static_full E s \<longleftrightarrow>
     (\<forall>q t u. has_obj s q \<longrightarrow> type_at E q = Some t \<longrightarrow> u \<in> set (type_subtype t) \<longrightarrow>
        \<not> cfg_type_is_dynamic_type (env_types E) (type_id u) \<longrightarrow> has_obj s (q @ [mk_oid (type_id u) 1]))"

definition node_of :: "cfg_env \<Rightarrow> u32 \<Rightarrow> cfg_node_type \<Rightarrow> cfg_node_obj" where
  "node_of E i t = CfgObj i [] (static_objs (env_types E) (type_subtype t))"

lemma static_find:
  "find (\<lambda>c. obj_id c = j) (static_objs (env_types E) ts) = Some x \<Longrightarrow>
   \<exists>u \<in> set ts. j = mk_oid (type_id u) 1 \<and> x = node_of E j u"
proof (induction ts rule: type_nodes.induct)
  case (2 i nm fl subs ops ix bs)
  show ?case
  proof (cases "\<not> cfg_type_is_dynamic_type (env_types E) i \<and> mk_oid i 1 = j")
    case True
    then show ?thesis using "2.prems" by (auto simp: node_of_def)
  next
    case False
    then have "find (\<lambda>c. obj_id c = j) (static_objs (env_types E) bs) = Some x"
      using "2.prems" by (auto split: if_splits)
    from "2.IH"(2) [OF this] show ?thesis by auto
  qed
qed simp

lemma static_has:
  "u \<in> set ts \<Longrightarrow> \<not> cfg_type_is_dynamic_type (env_types E) (type_id u) \<Longrightarrow>
   find (\<lambda>c. obj_id c = mk_oid (type_id u) 1) (static_objs (env_types E) ts) \<noteq> None"
proof (induction ts rule: type_nodes.induct)
  case (2 i nm fl subs ops ix bs)
  show ?case
  proof (cases "u = CfgType i nm fl subs ops ix")
    case True
    then show ?thesis using "2.prems"(2) by simp
  next
    case False
    then have "u \<in> set bs" using "2.prems"(1) by simp
    from "2.IH"(2) [OF this "2.prems"(2)] show ?thesis by simp
  qed
qed simp

lemma node_at:
  "obj_at (node_of E i t) z = Some x \<Longrightarrow>
   \<exists>j u. x = node_of E j u \<and> (z = [] \<and> u = t \<or>
     z \<noteq> [] \<and> last z = mk_oid (type_id u) 1 \<and> u \<in> set (type_nodes (type_subtype t)))"
proof (induction z arbitrary: i t)
  case Nil
  then show ?case by auto
next
  case (Cons k z)
  then obtain c where c: "cfg_obj_get_child (node_of E i t) k = Some c" "obj_at c z = Some x"
    by (auto split: option.splits)
  from c(1) static_find obtain v where v: "v \<in> set (type_subtype t)" "k = mk_oid (type_id v) 1" "c = node_of E k v"
    by (fastforce simp: cfg_obj_get_child_def node_of_def)
  from Cons.IH [of k v] c(2) v(3) obtain j u where u: "x = node_of E j u" "z = [] \<and> u = v \<or>
      z \<noteq> [] \<and> last z = mk_oid (type_id u) 1 \<and> u \<in> set (type_nodes (type_subtype v))" by blast
  with v nodes_top [OF v(1)] nodes_sub show ?case by (intro exI [of _ j] exI [of _ u]) auto
qed

lemma node_private: "map_option obj_private (obj_at (node_of E i t) z) = Some x \<Longrightarrow> x = []"
  using node_at [of E i t z] by (auto simp: node_of_def)

lemma node_static:
  assumes "load_ok E" "t \<in> set (type_nodes [db_root (env_types E)])" "obj_at (node_of E i t) z = Some x"
    "if z = [] then w = t else cfg_type_from_oid E (last z) = Some w"
    "u \<in> set (type_subtype w)" "\<not> cfg_type_is_dynamic_type (env_types E) (type_id u)"
  shows "obj_at (node_of E i t) (z @ [mk_oid (type_id u) 1]) \<noteq> None"
proof -
  from node_at [OF assms(3)] obtain j v where v: "x = node_of E j v" "z = [] \<and> v = t \<or>
      z \<noteq> [] \<and> last z = mk_oid (type_id v) 1 \<and> v \<in> set (type_nodes (type_subtype t))" by blast
  have "w = v"
  proof (cases "z = []")
    case False
    then have n: "v \<in> set (type_nodes [db_root (env_types E)])" using v(2) nodes_sub assms(2) by blast
    have "unat (type_id v) < 65536"
      using db_ok_id_bounds(2) [OF load_okD(1) [OF assms(1)] n] by (simp add: c_defs)
    then have "cfg_type_from_oid E (last z) = Some v"
      using v(2) False find_by_id_node [OF load_okD(1) [OF assms(1)] n]
      by (simp add: cfg_type_from_oid_def obj_type_shift)
    with assms(4) False show ?thesis by simp
  qed (use v assms(4) in simp)
  with assms(5,6) static_has have "cfg_obj_get_child x (mk_oid (type_id u) 1) \<noteq> None"
    by (simp add: v(1) node_of_def cfg_obj_get_child_def)
  then show ?thesis using assms(3) by (auto simp: obj_at_append)
qed

text \<open>The fresh tree.\<close>

lemma fresh_state:
  assumes "load_ok E" "\<not> cfg_type_is_dynamic_type (env_types E) (type_id (db_root (env_types E)))"
    "cfg_obj_load_from_type E s0 = (root, s1)"
  shows "has_obj (s1\<lparr>cfg_obj_root := root\<rparr>) []" "static_full E (s1\<lparr>cfg_obj_root := root\<rparr>)"
    "attr_at (s1\<lparr>cfg_obj_root := root\<rparr>) q n = None"
proof -
  let ?t = "db_root (env_types E)" and ?s = "s1\<lparr>cfg_obj_root := root\<rparr>"
  have r: "root = RootLive (node_of E (mk_oid (type_id ?t) 1) ?t)"
    using load_static [OF load_okD(5,1) [OF assms(1)] assms(2), of s0] assms(3) by (auto simp: node_of_def)
  show "has_obj ?s []" by (simp add: has_obj_def r)
  show "static_full E ?s"
    unfolding static_full_def
  proof (intro allI impI)
    fix q t u
    assume "has_obj ?s q" "type_at E q = Some t" "u \<in> set (type_subtype t)"
      "\<not> cfg_type_is_dynamic_type (env_types E) (type_id u)"
    then show "has_obj ?s (q @ [mk_oid (type_id u) 1])"
      using node_static [OF assms(1) nodes_top [of ?t "[?t]"], of "mk_oid (type_id ?t) 1" q _ t u]
      by (auto simp: has_obj_def r type_at_def split: if_splits)
  qed
  show "attr_at ?s q n = None"
    using node_at [of E "mk_oid (type_id ?t) 1" ?t q]
    by (auto simp: attr_at_def r node_of_def split: option.splits)
qed

section \<open>Creating an object\<close>

text \<open>The tree after \<open>c\<close> was linked under \<open>p\<close>.\<close>

lemma obj_at_link:
  assumes "obj_at r p = Some obj" "cfg_obj_get_child obj (obj_id c) = None"
  shows "map_option obj_private (obj_at (obj_upd p (link_child c) r) q) =
    (if take (Suc (length p)) q = p @ [obj_id c] then map_option obj_private (obj_at c (drop (Suc (length p)) q))
     else map_option obj_private (obj_at r q))"
  using assms(1)
proof (induction p arbitrary: r q)
  case Nil
  then show ?case
    using assms(2) by (cases q) (auto simp: get_child_link split: option.splits)
next
  case (Cons i p)
  then obtain d where d: "cfg_obj_get_child r i = Some d" "obj_at d p = Some obj" by (auto split: option.splits)
  show ?case
  proof (cases q)
    case (Cons j q')
    show ?thesis
      using Cons.IH [OF d(2), of q'] d(1) Cons
      by (auto simp: get_child_upd simp del: obj_upd.simps split: option.splits)
  qed simp
qed

lemma link_state:
  assumes "cfg_obj_root s = RootLive r" "obj_at r p = Some obj" "cfg_obj_get_child obj i = None"
    and "cfg_obj_root s' = RootLive (obj_upd p (link_child (node_of E i t)) r)"
  shows "has_obj s' q \<longleftrightarrow> (if take (Suc (length p)) q = p @ [i] then obj_at (node_of E i t) (drop (Suc (length p)) q) \<noteq> None
      else has_obj s q)"
    and "attr_at s' q n = attr_at s q n"
proof -
  have i: "obj_id (node_of E i t) = i" by (simp add: node_of_def)
  note l = obj_at_link [OF assms(2), of "node_of E i t" q, unfolded i, OF assms(3)]
  show "has_obj s' q \<longleftrightarrow> (if take (Suc (length p)) q = p @ [i] then obj_at (node_of E i t) (drop (Suc (length p)) q) \<noteq> None
      else has_obj s q)"
    using arg_cong [OF l, of "\<lambda>x. x = None"] assms(1,4) by (simp add: has_obj_def)
  show "attr_at s' q n = attr_at s q n"
  proof (cases "take (Suc (length p)) q = p @ [i]")
    case False
    with l assms(1,4) show ?thesis by (auto simp: attr_at_def split: option.splits)
  next
    case True
    then obtain z where "q = p @ i # z" by (metis append.assoc append_Cons append_Nil append_take_drop_id)
    then have "obj_at r q = None" using assms(2,3) by (simp add: obj_at_append)
    moreover have "attr_at s' q n = None"
      using l True assms(4) by (auto simp: attr_at_def dest!: sym [of "Some _"] node_private split: option.splits simp del: map_option_eq_Some)
    ultimately show ?thesis using assms(1) by (simp add: attr_at_def)
  qed
qed

lemma link_full:
  assumes "load_ok E" "static_full E s" "cfg_obj_root s = RootLive r" "obj_at r p = Some obj"
    "cfg_obj_get_child obj i = None" "cfg_obj_root s' = RootLive (obj_upd p (link_child (node_of E i t)) r)"
    "t \<in> set (type_nodes [db_root (env_types E)])" "cfg_type_from_oid E i = Some t"
  shows "static_full E s'"
  unfolding static_full_def
proof (intro allI impI)
  fix q w u
  assume a: "has_obj s' q" "type_at E q = Some w" "u \<in> set (type_subtype w)"
    "\<not> cfg_type_is_dynamic_type (env_types E) (type_id u)"
  note h = link_state(1) [OF assms(3-6)]
  let ?k = "Suc (length p)" and ?i = "mk_oid (type_id u) 1"
  show "has_obj s' (q @ [?i])"
  proof (cases "take ?k q = p @ [i]")
    case True
    let ?z = "drop ?k q"
    have q: "q = p @ [i] @ ?z" using True by (metis append_assoc append_take_drop_id)
    have len: "?k \<le> length q" using arg_cong [OF True, of length] by simp
    obtain x where x: "obj_at (node_of E i t) ?z = Some x" using a(1) h True by auto
    have "if ?z = [] then w = t else cfg_type_from_oid E (last ?z) = Some w"
    proof (cases "?z = []")
      case True
      then have "q = p @ [i]" using q by simp
      then show ?thesis using a(2) assms(8) True by (simp add: type_at_def)
    next
      case False
      then have "last q = last ?z" "q \<noteq> []" using q by (metis last_append append_is_Nil_conv)+
      then show ?thesis using a(2) False by (simp add: type_at_def)
    qed
    from node_static [OF assms(1,7) x this a(3,4)] show ?thesis using h True len by simp
  next
    case False
    then have "has_obj s q" using a(1) h by simp
    with assms(2) a have hs: "has_obj s (q @ [?i])" unfolding static_full_def by blast
    have "has_obj s' (q @ [?i])"
    proof (cases "take ?k (q @ [?i]) = p @ [i]")
      case True
      with False have "length q < ?k" by (metis append_Nil2 diff_is_0_eq not_le take_append take0)
      then have "q @ [?i] = p @ [i]" using True by simp
      then have "has_obj s (p @ [i])" using hs by simp
      then show ?thesis using assms(3-5) by (simp add: has_obj_def obj_at_append)
    next
      case False
      then show ?thesis using h hs by simp
    qed
    then show ?thesis .
  qed
qed

text \<open>An object that can be created by its path: its type has several instances, and the path
  fits the buffers on the way.\<close>

definition creatable :: "(cfg_node_type \<times> nat) list \<Rightarrow> bool" where
  "creatable xs \<longleftrightarrow>
     is_flag CFG_TYPE_FLAG_MULTIPLE (fst (last xs)) \<and> length (chain_tokens xs) < CFG_MAX_NODE_LEVEL \<and>
     length (chain_path xs) < CFG_MAX_PATH_NAME"

lemma chain_append: "obj_chain ts (xs @ [x]) \<Longrightarrow> obj_chain ts xs"
  by (induction ts xs rule: obj_chain.induct) auto

lemma chain_tokens_length: "length xs < length (chain_tokens xs)"
proof -
  have "length xs \<le> length (concat (map (\<lambda>x. comp_tokens (saved_comp x)) xs))"
  proof (induction xs)
    case (Cons x xs)
    have "0 < length (comp_tokens (saved_comp x))" using comp_tokens_not_Nil by simp
    with Cons show ?case unfolding list.map concat.simps length_append list.size by linarith
  qed simp
  then show ?thesis by (simp add: chain_tokens_def comp_def)
qed

lemma sint_small:
  assumes "unat x < 2 ^ 31"
  shows "sint (x :: u32) = int (unat x)"
proof -
  have "sint (of_nat m :: u32) = int m" if "m < 2 ^ 31" for m
    using that by (simp add: signed_of_nat signed_take_bit_int_eq_self)
  from this [OF assms] show ?thesis by simp
qed

lemma chain_oid_facts:
  assumes "load_ok E" "obj_chain (top_types E) xs" "x \<in> set xs"
  shows "cfg_type_from_oid E (chain_oid x) = Some (fst x)" "0 < sint (chain_oid x)" "cfg_obj_id (chain_oid x) \<noteq> 0"
    "fst x \<in> set (type_nodes [db_root (env_types E)])"
proof -
  have x: "fst x \<in> set (type_nodes (top_types E))" "0 < snd x" "snd x < 65536"
    using chain_facts [OF load_okD(6) [OF assms(1)] assms(2,3)] by auto
  show n: "fst x \<in> set (type_nodes [db_root (env_types E)])"
    using x(1) nodes_sub [OF nodes_top, of "db_root (env_types E)" "[db_root (env_types E)]"] by (simp add: top_types_def)
  have t: "unat (type_id (fst x)) < 1100" using db_ok_id_bounds(2) [OF load_okD(1) [OF assms(1)] n] by (simp add: c_defs)
  have k: "unat (of_nat (snd x) :: u32) = snd x" using x(3) by (intro unat_small) simp
  have u: "unat (chain_oid x) = unat (type_id (fst x)) * 65536 + snd x"
    using t x(3) k by (simp add: chain_oid_def unat_mk_oid)
  have "cfg_obj_type (chain_oid x) = type_id (fst x)" using u x(3) by (simp add: word_unat_eq_iff unat_obj_type)
  then show "cfg_type_from_oid E (chain_oid x) = Some (fst x)"
    using find_by_id_node [OF load_okD(1) [OF assms(1)] n] by (simp add: cfg_type_from_oid_def)
  have "sint (chain_oid x) = int (unat (chain_oid x))"
    using u t x(3) by (intro sint_small) simp
  moreover have "0 < unat (chain_oid x)" using u x(2) by linarith
  ultimately show "0 < sint (chain_oid x)" by linarith
  have "unat (cfg_obj_id (chain_oid x)) = snd x" using u x(3) by (simp add: unat_obj_id)
  then show "cfg_obj_id (chain_oid x) \<noteq> 0" using x(2) by auto
qed

lemma create_chain:
  assumes "load_ok E" "obj_chain (top_types E) (xs @ [x])" "creatable (xs @ [x])"
    "cfg_obj_root s = RootLive r" "has_obj s (ids_of xs)" "\<not> has_obj s (ids_of (xs @ [x]))"
  shows "\<exists>s'. cfg_obj_create_object E (chain_path (xs @ [x])) s = Ret (sint (chain_oid x), s') \<and>
    cfg_obj_root s' = RootLive (obj_upd (ids_of xs) (link_child (node_of E (chain_oid x) (fst x))) r)"
proof -
  let ?db = "env_types E" and ?cs = "(''root'', None) # map saved_comp xs" and ?i = "chain_oid x"
  note db = load_okD(1) [OF assms(1)] and ch = chain_append [OF assms(2)]
  note f = chain_oid_facts [OF assms(1,2), of x]
  obtain n where c: "saved_comp x = (n, Some (snd x))" using assms(3) by (auto simp: creatable_def saved_comp_def)
  have ok: "\<forall>d \<in> set ?cs. comp_ok d" "comp_ok (n, Some (snd x))"
  proof -
    have "name_ok ''root''"
      using types_okD [OF load_okD(2) [OF assms(1)]] load_okD(3) [OF assms(1)] name_ok_lower by force
    then show "\<forall>d \<in> set ?cs. comp_ok d" using chain_facts [OF load_okD(6) [OF assms(1)] ch] by auto
    show "comp_ok (n, Some (snd x))"
      using chain_facts [OF load_okD(6) [OF assms(1)] assms(2), of x] c by auto
  qed
  have pt: "chain_path (xs @ [x]) = path_text (?cs @ [(n, Some (snd x))])" by (simp add: chain_path_def c)
  have "length (chain_tokens (xs @ [x])) = length (chain_tokens xs) + 2" by (simp add: chain_tokens_def c)
  then have lev: "Suc (length xs) < CFG_MAX_NODE_LEVEL - 1" "length xs < CFG_MAX_NODE_LEVEL" "Suc (length xs) < CFG_MAX_NODE_LEVEL"
    using assms(3) chain_tokens_length [of xs] by (simp_all add: creatable_def c_defs)
  have "tag_safe (fst x)" using chain_facts [OF load_okD(6) [OF assms(1)] assms(2), of x] by simp
  then have "n = ''entry'' \<or> n = ''pvc''"
    using assms(3) c by (auto simp: creatable_def tag_safe_def saved_comp_def Let_def)
  then have "\<not> is_digit (hd n)" by (auto simp: is_digit_def cval_def)
  then have pp: "cfg_get_parent_path (Some (chain_path (xs @ [x]))) = Ret (0, chain_path xs)"
    using parent_path_text [OF ok] assms(3) pt by (simp add: creatable_def chain_path_def)
  have "resolve [db_root ?db] (?cs @ [(n, Some (snd x))]) = Some (map chain_oid ((db_root ?db, 1) # xs @ [x]))"
    using saved_tags_back(2) [OF load_okD(1-3) [OF assms(1)] assms(2) [unfolded top_types_def]]
      oid_array_resolve [OF db, of "?cs @ [(n, Some (snd x))]"] ok lev(3) by (simp add: pt del: resolve.simps)
  then have po: "cfg_path_to_oid ?db (chain_path (xs @ [x])) = Ret ?i"
    using path_to_oid_inst [OF db ok] lev by (simp add: pt del: resolve.simps)
  obtain obj where obj: "obj_at r (ids_of xs) = Some obj" "cfg_obj_get_child obj ?i = None"
    using assms(4-6) by (auto simp: has_obj_def obj_at_append split: option.splits)
  let ?s = "cfg_obj_lock (cfg_obj_unlock (cfg_obj_lock s))"
  obtain s1 where a: "cfg_obj_alloc_node E ?s = (True, s1)" using alloc_ok load_okD(5) [OF assms(1)] by blast
  obtain ch0 s2 where c0: "cfg_obj_create_from_type E (type_subtype (fst x)) s1 = (ch0, s2)" by force
  obtain ch1 s3 where c1: "cfg_obj_del_from_type E ch0 s2 = (ch1, s3)" by force
  have "\<forall>t \<in> set (type_nodes (type_subtype (fst x))). unat (type_id t) < 65536"
    using db_ok_id_bounds(2) [OF db] nodes_sub [OF f(4)] by (fastforce simp: c_defs)
  from create_del_static [OF load_okD(5) [OF assms(1)] this, of s1 s2]
  have st: "CfgObj ?i [] ch1 = node_of E ?i (fst x)" using c0 c1 by (simp add: node_of_def)
  have root: "cfg_obj_root s3 = RootLive r"
    using pool_stepD(1) [OF pool_step_trans [OF pool_step_trans [OF pool_step_alloc [OF a] pool_step_create [OF c0]] pool_step_del [OF c1]]] assms(4) by simp
  have "cfg_obj_create_sub_obj E (ids_of xs) ?i ?s = Ret (sint ?i, upd_obj (ids_of xs) (link_child (node_of E ?i (fst x))) s3)"
    using obj f a c0 c1 st assms(4) by (simp add: cfg_obj_create_sub_obj_def deref_def Let_def)
  moreover have "cfg_obj_get_obj E ?s (chain_path xs) = Ret (Some (ids_of xs))"
    using chain_get_obj [OF assms(1) ch lev(2), of ?s r] assms(4,5) by simp
  ultimately have "cfg_obj_create_object E (chain_path (xs @ [x])) s =
      Ret (sint ?i, cfg_obj_unlock (upd_obj (ids_of xs) (link_child (node_of E ?i (fst x))) s3))"
    using chain_query [OF assms(1) ch lev(2) assms(4)] assms(5) f(2)
    by (subst cfg_obj_create_object.simps) (simp add: pp po Let_def)
  then show ?thesis using root by (simp add: upd_obj_root)
qed

lemma chain_last:
  "obj_chain ts (xs @ [x]) \<Longrightarrow> fst x \<in> set (if xs = [] then ts else type_subtype (fst (last xs)))"
  by (induction ts xs rule: obj_chain.induct) (cases x; auto split: if_splits)+

lemma chain_type_at:
  assumes "load_ok E" "obj_chain (top_types E) (xs @ [x])"
  shows "\<exists>t. type_at E (ids_of xs) = Some t \<and> fst x \<in> set (type_subtype t)"
proof (cases "xs = []")
  case True
  with chain_last [OF assms(2)] show ?thesis by (simp add: type_at_def top_types_def)
next
  case False
  then have "last xs \<in> set xs" "last (ids_of xs) = chain_oid (last xs)" "ids_of xs \<noteq> []"
    by (simp_all add: ids_of_def last_map)
  with chain_oid_facts(1) [OF assms(1) chain_append [OF assms(2)]] chain_last [OF assms(2)] False
  show ?thesis by (simp add: type_at_def)
qed

section \<open>Loading one object\<close>

text \<open>What a step of the load keeps: the objects, and the invariant of the fresh tree.\<close>

definition grows :: "cfg_env \<Rightarrow> cfg_state \<Rightarrow> cfg_state \<Rightarrow> bool" where
  "grows E s s' \<longleftrightarrow> static_full E s' \<and> (\<forall>q. has_obj s q \<longrightarrow> has_obj s' q)"

lemma exist_chain:
  assumes "load_ok E" "obj_chain (top_types E) (xs @ [x])" "length (xs @ [x]) < CFG_MAX_NODE_LEVEL"
    "if cfg_type_is_dynamic_type (env_types E) (type_id (fst x)) then creatable (xs @ [x]) else snd x = 1"
    "has_obj s (ids_of xs)" "static_full E s"
  shows "\<exists>s'. load_exist E (chain_path (xs @ [x])) s = Ret (Some True, s') \<and> has_obj s' (ids_of (xs @ [x])) \<and>
    grows E s s' \<and> attr_at s' = attr_at s"
proof (cases "has_obj s (ids_of (xs @ [x]))")
  case True
  from assms(5) obtain r where r: "cfg_obj_root s = RootLive r" by (rule has_objE)
  have "load_exist E (chain_path (xs @ [x])) s = Ret (Some True, cfg_obj_unlock (cfg_obj_lock s))"
    using chain_query [OF assms(1-3) r] True by (simp add: load_exist_def)
  then show ?thesis using True assms(6) by (auto simp: grows_def static_full_def)
next
  case False
  obtain t where t: "type_at E (ids_of xs) = Some t" "fst x \<in> set (type_subtype t)"
    using chain_type_at [OF assms(1,2)] by blast
  have dyn: "cfg_type_is_dynamic_type (env_types E) (type_id (fst x))"
  proof (rule ccontr)
    assume n: "\<not> ?thesis"
    with assms(5,6) t have "has_obj s (ids_of xs @ [mk_oid (type_id (fst x)) 1])" unfolding static_full_def by blast
    with n assms(4) False show False by (simp add: chain_oid_def)
  qed
  from assms(5) obtain r obj where r: "cfg_obj_root s = RootLive r" "obj_at r (ids_of xs) = Some obj" by (rule has_objE)
  let ?s = "cfg_obj_unlock (cfg_obj_lock s)" and ?i = "chain_oid x"
  note f = chain_oid_facts [OF assms(1,2), of x]
  have c: "creatable (xs @ [x])" using dyn assms(4) by simp
  have root: "cfg_obj_root ?s = RootLive r" using r(1) by simp
  obtain s' where s': "cfg_obj_create_object E (chain_path (xs @ [x])) ?s = Ret (sint ?i, s')"
      "cfg_obj_root s' = RootLive (obj_upd (ids_of xs) (link_child (node_of E ?i (fst x))) r)"
    using create_chain [OF assms(1,2) c root] assms(5) False by auto
  have "length (chain_tokens (xs @ [x])) < CFG_MAX_NODE_LEVEL" using c by (simp add: creatable_def)
  then have "cfg_type_query (env_types E) (chain_path (xs @ [x])) = Ret (Some (fst x))"
    using chain_type_query [OF assms(1,2)] by simp
  then have l: "load_exist E (chain_path (xs @ [x])) s = Ret (Some True, s')"
    using chain_query [OF assms(1-3) r(1)] False s'(1) dyn f(2) by (simp add: load_exist_def)
  have gc: "cfg_obj_get_child obj ?i = None"
    using False r by (auto simp: has_obj_def obj_at_append split: option.splits)
  note ls = link_state [OF r gc s'(2)]
  have h: "has_obj s' (ids_of (xs @ [x]))" by (simp add: ls(1))
  have "has_obj s' q" if "has_obj s q" for q
  proof (cases "take (Suc (length (ids_of xs))) q = ids_of xs @ [?i]")
    case True
    then obtain z where "q = ids_of xs @ ?i # z" by (metis append.assoc append_Cons append_Nil append_take_drop_id)
    then show ?thesis using that r gc by (simp add: has_obj_def obj_at_append)
  qed (use that ls(1) in simp)
  then have "grows E s s'" using link_full [OF assms(1,6) r gc s'(2)] f by (simp add: grows_def)
  then show ?thesis using l h ls(2) by (auto simp: fun_eq_iff)
qed

lemma set_chain:
  assumes "xml_laws E" "cfg_obj_get_obj E s path = Ret (Some p)" "has_obj s p" "n \<noteq> []"
  shows "\<exists>s'. cfg_obj_set_object_attr E (Some path) (Some n) (Some v) s = Ret (0, s') \<and> has_obj s' = has_obj s \<and>
    attr_at s' = (attr_at s)(p := (attr_at s p)(n \<mapsto> v)) \<and> cfg_obj_get_obj E s' path = Ret (Some p)"
proof -
  from assms(3) obtain r obj where r: "cfg_obj_root s = RootLive r" "obj_at r p = Some obj" by (rule has_objE)
  let ?f = "\<lambda>y. set_private (env_xml_set E (obj_private y) n v) y"
  let ?s = "cfg_obj_unlock (upd_obj p ?f (cfg_obj_lock s))"
  have "cfg_obj_set_object_attr E (Some path) (Some n) (Some v) s = Ret (0, ?s)"
    using assms(2,4) r by (simp add: cfg_obj_set_object_attr_def cfg_obj_set_obj_attr_def Let_def deref_def)
  moreover have "has_obj ?s = has_obj s"
    using r(1) obj_at_upd_None [of ?f] by (auto simp: has_obj_def upd_obj_root fun_eq_iff)
  moreover have "attr_at ?s = (attr_at s)(p := (attr_at s p)(n \<mapsto> v))"
  proof (intro ext)
    fix q m
    have "attr_at ?s q m = (if q = p then map_of (env_xml_set E (obj_private obj) n v) m else attr_at s q m)"
      using attr_at_upd [of "cfg_obj_lock s" r p obj "\<lambda>y. env_xml_set E (obj_private y) n v" q m] r by simp
    moreover have "attr_at s p = map_of (obj_private obj)" using r by (simp add: attr_at_def fun_eq_iff)
    ultimately show "attr_at ?s q m = ((attr_at s)(p := (attr_at s p)(n \<mapsto> v))) q m"
      using assms(1) by (simp add: xml_laws_def)
  qed
  moreover have "cfg_obj_get_obj E ?s path = Ret (Some p)"
    unfolding get_obj_locked by (subst get_obj_upd) (simp_all add: assms(2))
  ultimately show ?thesis by blast
qed

lemma attrs_chain:
  "xml_laws E \<Longrightarrow> cfg_obj_get_obj E s path = Ret (Some p) \<Longrightarrow> has_obj s p \<Longrightarrow> [] \<notin> fst ` set as \<Longrightarrow>
   \<exists>s'. load_attrs E path as s = Ret s' \<and> has_obj s' = has_obj s \<and>
     attr_at s' = (attr_at s)(p := attr_at s p ++ map_of (rev as))"
proof (induction as arbitrary: s)
  case (Cons a as)
  obtain n v where a: "a = (n, v)" by force
  obtain s1 where s1: "cfg_obj_set_object_attr E (Some path) (Some n) (Some v) s = Ret (0, s1)" "has_obj s1 = has_obj s"
      "attr_at s1 = (attr_at s)(p := (attr_at s p)(n \<mapsto> v))" "cfg_obj_get_obj E s1 path = Ret (Some p)"
    using set_chain [OF Cons.prems(1-3), of n v] Cons.prems(4) a by auto
  have "has_obj s1 p" "[] \<notin> fst ` set as" using s1(2) Cons.prems(3,4) by auto
  from Cons.IH [OF Cons.prems(1) s1(4) this] obtain s2 where
    "load_attrs E path as s1 = Ret s2" "has_obj s2 = has_obj s1" "attr_at s2 = (attr_at s1)(p := attr_at s1 p ++ map_of (rev as))"
    by blast
  then show ?case using s1 a by (simp add: map_add_def fun_eq_iff split: option.splits)
qed simp

section \<open>The saved document\<close>

fun saved_doc :: "cfg_env \<Rightarrow> cfg_node_obj list \<Rightarrow> mxml list" where
  "saved_doc E [] = []"
| "saved_doc E (CfgObj i p ch # bs) =
     (case cfg_type_from_oid E i of
        None \<Rightarrow> []
      | Some t \<Rightarrow>
          if is_flag CFG_TYPE_FLAG_MEMORY t then saved_doc E bs
          else MxNode (save_tag t i) p (saved_doc E ch) # saved_doc E bs)"

text \<open>The attributes saved for the object at a place below a list of objects; \<open>None\<close> for volatile
  objects and what is below them.\<close>

fun saved_at :: "cfg_env \<Rightarrow> cfg_node_obj list \<Rightarrow> u32 list \<Rightarrow> attrs option" where
  "saved_at E [] z = None"
| "saved_at E (CfgObj i p ch # bs) z =
     (case z of
        [] \<Rightarrow> None
      | j # z' \<Rightarrow>
          if j \<noteq> i then saved_at E bs z
          else case cfg_type_from_oid E i of
                 None \<Rightarrow> None
               | Some t \<Rightarrow>
                   if is_flag CFG_TYPE_FLAG_MEMORY t then None
                   else if z' = [] then Some p else saved_at E ch z')"

text \<open>The objects below the object with chain \<open>xs\<close> that a load can restore: each is volatile or
  has a saved name that leads back to it, attributes with different names, and is either always
  there or can be created.\<close>

fun restorable :: "cfg_env \<Rightarrow> (cfg_node_type \<times> nat) list \<Rightarrow> cfg_node_obj list \<Rightarrow> bool" where
  "restorable E xs [] = True"
| "restorable E xs (CfgObj i p ch # bs) =
     (restorable E xs bs \<and> i \<notin> set (map obj_id bs) \<and>
      (case cfg_type_from_oid E i of
         None \<Rightarrow> False
       | Some t \<Rightarrow>
           is_flag CFG_TYPE_FLAG_MEMORY t \<or>
           (let ys = xs @ [(t, unat (cfg_obj_id i))]
            in obj_chain (top_types E) ys \<and> length ys < CFG_MAX_NODE_LEVEL \<and>
               (if cfg_type_is_dynamic_type (env_types E) (type_id t) then creatable ys else unat (cfg_obj_id i) = 1) \<and>
               distinct (map fst p) \<and> [] \<notin> set (map fst p) \<and> restorable E ys ch)))"

lemma oid_parts: "mk_oid (cfg_obj_type i) (cfg_obj_id i) = i"
proof -
  have "unat i < 4294967296" by (rule unat_lt32)
  then have "unat i div 65536 < 65536" by (simp add: div_less_iff_less_mult)
  then have "unat (mk_oid (cfg_obj_type i) (cfg_obj_id i)) = unat i"
    using unat_mk_oid [of "cfg_obj_type i" "cfg_obj_id i"] by (simp add: unat_obj_type unat_obj_id)
  then show ?thesis by (simp add: word_unat_eq_iff)
qed

lemma chain_oid_of:
  assumes "load_ok E" "cfg_type_from_oid E i = Some t"
  shows "chain_oid (t, unat (cfg_obj_id i)) = i" "saved_tag (t, unat (cfg_obj_id i)) = save_tag t i"
proof -
  have "type_id t = cfg_obj_type i"
    using find_by_id_Some(2) [OF load_okD(1) [OF assms(1)]] assms(2) by (simp add: cfg_type_from_oid_def)
  then show "chain_oid (t, unat (cfg_obj_id i)) = i" "saved_tag (t, unat (cfg_obj_id i)) = save_tag t i"
    using oid_parts [of i] by (simp_all add: chain_oid_def saved_tag_def)
qed

lemma saved_at_notin: "j \<notin> obj_id ` set bs \<Longrightarrow> saved_at E bs (j # z) = None"
  by (induction E bs "j # z" rule: saved_at.induct) auto

lemma saved_at_Nil [simp]: "saved_at E bs [] = None"
  by (cases "(E, bs, [] :: u32 list)" rule: saved_at.cases) simp_all

text \<open>\<open>loaded E P os s s'\<close>: the attributes of the objects below \<open>P\<close> are those saved in \<open>os\<close>, and the
  old ones where nothing was saved; nothing changed elsewhere.\<close>

definition loaded :: "cfg_env \<Rightarrow> u32 list \<Rightarrow> cfg_node_obj list \<Rightarrow> cfg_state \<Rightarrow> cfg_state \<Rightarrow> bool" where
  "loaded E P os s s' \<longleftrightarrow>
     (\<forall>z. attr_at s' (P @ z) = (case saved_at E os z of None \<Rightarrow> attr_at s (P @ z) | Some p \<Rightarrow> attr_at s (P @ z) ++ map_of p)) \<and>
     (\<forall>z. saved_at E os z \<noteq> None \<longrightarrow> has_obj s' (P @ z)) \<and>
     (\<forall>q. take (length P) q \<noteq> P \<longrightarrow> attr_at s' q = attr_at s q)"

lemma loaded_Cons:
  assumes t: "cfg_type_from_oid E i = Some t" "\<not> is_flag CFG_TYPE_FLAG_MEMORY t" "i \<notin> obj_id ` set bs"
    and own: "attr_at s2 = (attr_at s)(P @ [i] := attr_at s (P @ [i]) ++ map_of p)" "has_obj s2 (P @ [i])"
    and ch: "loaded E (P @ [i]) ch s2 s3" "grows E s2 s3"
    and bs: "loaded E P bs s3 s4" "grows E s3 s4"
  shows "loaded E P (CfgObj i p ch # bs) s s4"
  unfolding loaded_def
proof (intro conjI allI impI)
  fix z
  let ?o = "CfgObj i p ch # bs"
  have mono: "has_obj s2 q \<Longrightarrow> has_obj s3 q" "has_obj s3 q \<Longrightarrow> has_obj s4 q" for q
    using ch(2) bs(2) by (auto simp: grows_def)
  show "attr_at s4 (P @ z) = (case saved_at E ?o z of None \<Rightarrow> attr_at s (P @ z) | Some p \<Rightarrow> attr_at s (P @ z) ++ map_of p)"
    and "saved_at E ?o z \<noteq> None \<Longrightarrow> has_obj s4 (P @ z)"
  proof -
    have 3: "attr_at s4 (P @ z) = (case saved_at E bs z of None \<Rightarrow> attr_at s3 (P @ z) | Some p \<Rightarrow> attr_at s3 (P @ z) ++ map_of p)"
      "saved_at E bs z \<noteq> None \<Longrightarrow> has_obj s4 (P @ z)" using bs(1) by (auto simp: loaded_def)
    consider (nil) "z = []" | (own) z' where "z = i # z'" | (other) j z' where "z = j # z'" "j \<noteq> i" by (cases z) auto
    then have "attr_at s4 (P @ z) = (case saved_at E ?o z of None \<Rightarrow> attr_at s (P @ z) | Some p \<Rightarrow> attr_at s (P @ z) ++ map_of p) \<and>
        (saved_at E ?o z \<noteq> None \<longrightarrow> has_obj s4 (P @ z))"
    proof cases
      case nil
      then have "attr_at s3 P = attr_at s2 P" using ch(1) by (auto simp: loaded_def)
      then show ?thesis using 3(1) nil own(1) by simp
    next
      case own': own
      then have n: "saved_at E bs z = None" using saved_at_notin [OF t(3)] by simp
      have c: "attr_at s3 (P @ i # z') = (case saved_at E ch z' of None \<Rightarrow> attr_at s2 (P @ i # z') | Some p \<Rightarrow> attr_at s2 (P @ i # z') ++ map_of p)"
        "saved_at E ch z' \<noteq> None \<Longrightarrow> has_obj s3 (P @ i # z')"
        using ch(1) unfolding loaded_def by (metis append_assoc append_Cons append_Nil)+
      show ?thesis
      proof (cases "z' = []")
        case True
        then show ?thesis using own' n c 3(1) t own mono by simp
      next
        case False
        then have "attr_at s2 (P @ i # z') = attr_at s (P @ i # z')" using own(1) by simp
        then show ?thesis using False own' n c 3(1) t mono by (auto split: option.splits)
      qed
    next
      case other
      then have "take (length (P @ [i])) (P @ z) \<noteq> P @ [i]" by simp
      then have "attr_at s3 (P @ z) = attr_at s2 (P @ z)" using ch(1) unfolding loaded_def by blast
      then show ?thesis using 3 other own(1) by (auto split: option.splits)
    qed
    then show "attr_at s4 (P @ z) = (case saved_at E ?o z of None \<Rightarrow> attr_at s (P @ z) | Some p \<Rightarrow> attr_at s (P @ z) ++ map_of p)"
      and "saved_at E ?o z \<noteq> None \<Longrightarrow> has_obj s4 (P @ z)" by blast+
  qed
next
  fix q
  assume q: "take (length P) q \<noteq> P"
  have "take (length P) (take (length (P @ [i])) q) = take (length P) q" by (simp add: min_def)
  with q have n: "take (length (P @ [i])) q \<noteq> P @ [i]" by (metis append_eq_conv_conj)
  then have "q \<noteq> P @ [i]" by auto
  moreover have "attr_at s4 q = attr_at s3 q" using q bs(1) by (simp add: loaded_def)
  moreover have "attr_at s3 q = attr_at s2 q" using n ch(1) unfolding loaded_def by blast
  ultimately show "attr_at s4 q = attr_at s q" using own(1) by simp
qed

lemma grows_trans: "grows E s t \<Longrightarrow> grows E t u \<Longrightarrow> grows E s u"
  by (simp add: grows_def)

lemma grows_same: "static_full E s \<Longrightarrow> has_obj s' = has_obj s \<Longrightarrow> grows E s s'"
  by (simp add: grows_def static_full_def)

text \<open>Loading the saved document of restorable objects.\<close>

lemma load_saved:
  "load_ok E \<Longrightarrow> restorable E xs os \<Longrightarrow> obj_chain (top_types E) xs \<Longrightarrow> has_obj s (ids_of xs) \<Longrightarrow> static_full E s \<Longrightarrow>
   \<exists>s'. cfg_load_from_xml E (rev (map saved_tag xs) @ [''ROMFILE'']) (saved_doc E os) s = Ret s' \<and>
     grows E s s' \<and> loaded E (ids_of xs) os s s'"
proof (induction E xs os arbitrary: s rule: restorable.induct)
  case (1 E xs)
  then show ?case by (simp add: grows_def loaded_def)
next
  case (2 E xs i p ch bs)
  from "2.prems"(2) obtain t where t: "cfg_type_from_oid E i = Some t" by (auto split: option.splits)
  have bs: "restorable E xs bs" "i \<notin> obj_id ` set bs" using "2.prems"(2) by auto
  show ?case
  proof (cases "is_flag CFG_TYPE_FLAG_MEMORY t")
    case True
    from "2.IH"(1) [OF "2.prems"(1) bs(1) "2.prems"(3-5)] obtain s' where
      s': "cfg_load_from_xml E (rev (map saved_tag xs) @ [''ROMFILE'']) (saved_doc E bs) s = Ret s'" "grows E s s'" "loaded E (ids_of xs) bs s s'" by blast
    have "saved_at E (CfgObj i p ch # bs) z = saved_at E bs z" for z
      using t True saved_at_notin [OF bs(2)] by (cases z) auto
    then show ?thesis using s' t True by (auto simp: loaded_def)
  next
    case False
    let ?x = "(t, unat (cfg_obj_id i))" and ?ups = "rev (map saved_tag xs) @ [''ROMFILE'']"
    have ys: "obj_chain (top_types E) (xs @ [?x])" "length (xs @ [?x]) < CFG_MAX_NODE_LEVEL"
        "if cfg_type_is_dynamic_type (env_types E) (type_id (fst ?x)) then creatable (xs @ [?x]) else snd ?x = 1"
        "distinct (map fst p)" "[] \<notin> fst ` set p" "restorable E (xs @ [?x]) ch"
      using "2.prems"(2) t False by (auto simp: Let_def)
    note o = chain_oid_of [OF "2.prems"(1) t]
    have path: "cfg_xml_node_to_path (env_types E) (save_tag t i # ?ups) = Ret (chain_path (xs @ [?x]))"
      using saved_tags_back(1) [OF load_okD(1-3) [OF "2.prems"(1)] ys(1) [unfolded top_types_def] ys(2)] o by simp
    obtain s1 where s1: "load_exist E (chain_path (xs @ [?x])) s = Ret (Some True, s1)" "has_obj s1 (ids_of (xs @ [?x]))"
        "grows E s s1" "attr_at s1 = attr_at s"
      using exist_chain [OF "2.prems"(1) ys(1-3) "2.prems"(4,5)] by blast
    from s1(2) obtain r where r: "cfg_obj_root s1 = RootLive r" by (rule has_objE)
    have "cfg_obj_get_obj E s1 (chain_path (xs @ [?x])) = Ret (Some (ids_of (xs @ [?x])))"
      using chain_get_obj [OF "2.prems"(1) ys(1,2) r] s1(2) by simp
    from attrs_chain [OF load_okD(4) [OF "2.prems"(1)] this s1(2) ys(5)] obtain s2 where
      s2: "load_attrs E (chain_path (xs @ [?x])) p s1 = Ret s2" "has_obj s2 = has_obj s1"
        "attr_at s2 = (attr_at s1)(ids_of (xs @ [?x]) := attr_at s1 (ids_of (xs @ [?x])) ++ map_of (rev p))" by blast
    have g2: "grows E s s2" using s1(3) s2(2) by (auto simp: grows_def static_full_def)
    have h2: "has_obj s2 (ids_of (xs @ [?x]))" "static_full E s2" using s1(2) s2(2) g2 by (simp_all add: grows_def)
    from "2.IH"(2) [OF t refl "2.prems"(1) ys(6,1) h2] obtain s3 where
      s3: "cfg_load_from_xml E (save_tag t i # ?ups) (saved_doc E ch) s2 = Ret s3" "grows E s2 s3" "loaded E (ids_of (xs @ [?x])) ch s2 s3"
      using o(2) by auto
    have h3: "has_obj s3 (ids_of xs)" "static_full E s3" using grows_trans [OF g2 s3(2)] "2.prems"(4) by (simp_all add: grows_def)
    from "2.IH"(1) [OF "2.prems"(1) bs(1) "2.prems"(3) h3] obtain s4 where
      s4: "cfg_load_from_xml E ?ups (saved_doc E bs) s3 = Ret s4" "grows E s3 s4" "loaded E (ids_of xs) bs s3 s4" by blast
    have "cfg_load_from_xml E ?ups (saved_doc E (CfgObj i p ch # bs)) s = Ret s4"
      using t False path s1(1) s2(1) s3(1) s4(1) by simp
    moreover have "loaded E (ids_of xs) (CfgObj i p ch # bs) s s4"
      using s2(3) s1(4) h2(1) s3(2,3) s4(2,3) o(1) ys(4)
      by (intro loaded_Cons [OF t False bs(2), of s2]) (simp_all add: map_of_rev_distinct)
    ultimately show ?thesis using grows_trans [OF grows_trans [OF g2 s3(2)] s4(2)] by blast
  qed
qed

section \<open>The whole tree\<close>

text \<open>A tree whose objects can all be restored.\<close>

definition restorable_root :: "cfg_env \<Rightarrow> cfg_node_obj \<Rightarrow> bool" where
  "restorable_root E r \<longleftrightarrow>
     (let t = db_root (env_types E)
      in cfg_type_from_oid E (obj_id r) = Some t \<and> \<not> is_flag CFG_TYPE_FLAG_MEMORY t \<and> \<not> is_flag CFG_TYPE_FLAG_MULTIPLE t \<and>
         \<not> cfg_type_is_dynamic_type (env_types E) (type_id t) \<and>
         distinct (map fst (obj_private r)) \<and> [] \<notin> set (map fst (obj_private r)) \<and> restorable E [] (obj_child r))"

text \<open>The places of the objects that are saved.\<close>

definition saved_place :: "cfg_env \<Rightarrow> cfg_node_obj \<Rightarrow> u32 list \<Rightarrow> bool" where
  "saved_place E r q \<longleftrightarrow> q = [] \<or> saved_at E (obj_child r) q \<noteq> None"

lemma saved_at_obj:
  "saved_at E os z = Some p \<Longrightarrow>
   \<exists>j z' c x. z = j # z' \<and> find (\<lambda>c. obj_id c = j) os = Some c \<and> obj_at c z' = Some x \<and> obj_private x = p"
proof (induction E os z rule: saved_at.induct)
  case (2 E i q ch bs z)
  obtain j z' where z: "z = j # z'" using "2.prems" by (cases z) auto
  show ?case
  proof (cases "j = i")
    case False
    then show ?thesis using "2.IH"(1) [OF z False] "2.prems" z by auto
  next
    case True
    then obtain t where t: "cfg_type_from_oid E i = Some t" "\<not> is_flag CFG_TYPE_FLAG_MEMORY t"
      using "2.prems" z by (auto split: option.splits if_splits)
    show ?thesis
    proof (cases "z' = []")
      case True
      then show ?thesis using "2.prems" t z \<open>j = i\<close> by simp
    next
      case False
      then show ?thesis
        using "2.IH"(2) [of j z' t] "2.prems" t z \<open>j = i\<close> by (auto simp: cfg_obj_get_child_def)
    qed
  qed
qed simp

lemma load_root:
  assumes "load_ok E" "restorable_root E r" "has_obj s []" "static_full E s" "\<And>q n. attr_at s q n = None"
    "cfg_obj_root u = RootLive r"
  shows "\<exists>s'. cfg_load_from_xml E [] (saved_doc E [r]) s = Ret s' \<and>
    (\<forall>q n. attr_at s' q n = (if saved_place E r q then attr_at u q n else None)) \<and>
    (\<forall>q. saved_place E r q \<longrightarrow> has_obj s' q)"
proof -
  obtain i p ch where o: "r = CfgObj i p ch" by (cases r)
  let ?t = "db_root (env_types E)"
  have t: "cfg_type_from_oid E i = Some ?t" "\<not> is_flag CFG_TYPE_FLAG_MEMORY ?t" "\<not> is_flag CFG_TYPE_FLAG_MULTIPLE ?t"
    "distinct (map fst p)" "[] \<notin> fst ` set p" "restorable E [] ch"
    using assms(2) by (auto simp: restorable_root_def Let_def o)
  have tag: "save_tag ?t i = ''ROMFILE''" using t(3) assms(1) by (simp add: save_tag_def load_ok_def)
  have c: "obj_chain (top_types E) []" "length ([] :: (cfg_node_type \<times> nat) list) < CFG_MAX_NODE_LEVEL" by (simp_all add: c_defs)
  have path: "cfg_xml_node_to_path (env_types E) [''ROMFILE''] = Ret (chain_path [])"
    using saved_tags_back(1) [OF load_okD(1-3) [OF assms(1)] c(1) [unfolded top_types_def] c(2)] by simp
  let ?s = "cfg_obj_unlock (cfg_obj_lock s)"
  obtain r0 where r0: "cfg_obj_root s = RootLive r0" "cfg_obj_root ?s = RootLive r0" using assms(3) by (auto elim!: has_objE)
  have ex: "load_exist E (chain_path []) s = Ret (Some True, ?s)"
    using chain_query [OF assms(1) c r0(1)] assms(3) by (simp add: load_exist_def)
  have "cfg_obj_get_obj E ?s (chain_path []) = Ret (Some [])"
    using chain_get_obj [OF assms(1) c r0(2)] assms(3) by simp
  from attrs_chain [OF load_okD(4) [OF assms(1)] this _ t(5)] assms(3) obtain s2 where
    s2: "load_attrs E (chain_path []) p ?s = Ret s2" "has_obj s2 = has_obj s" "attr_at s2 = (attr_at s)([] := attr_at s [] ++ map_of p)"
    using t(4) by (auto simp: map_of_rev_distinct)
  have "static_full E s2" "has_obj s2 (ids_of [])" using assms(3,4) s2(2) by (simp_all add: static_full_def)
  from load_saved [OF assms(1) t(6) c(1) this(2,1)] obtain s3 where
    s3: "cfg_load_from_xml E [''ROMFILE''] (saved_doc E ch) s2 = Ret s3" "grows E s2 s3" "loaded E [] ch s2 s3" by auto
  have "cfg_load_from_xml E [] (saved_doc E [r]) s = Ret s3" using o t tag path ex s2(1) s3(1) by simp
  moreover have "attr_at s3 q n = (if saved_place E r q then attr_at u q n else None)" for q n
  proof (cases "saved_at E ch q")
    case None
    then show ?thesis
      using s3(3) s2(3) assms(5,6) by (simp add: loaded_def saved_place_def o attr_at_def map_add_def split: option.splits)
  next
    case (Some p')
    from saved_at_obj [OF this] obtain j z' d x where q: "q = j # z'" and
      "find (\<lambda>c. obj_id c = j) ch = Some d" "obj_at d z' = Some x" "obj_private x = p'" by blast
    then have "attr_at u q = map_of p'" using assms(6) o by (simp add: attr_at_def cfg_obj_get_child_def fun_eq_iff)
    moreover have "attr_at s3 q = attr_at s2 q ++ map_of p'" using s3(3) Some by (simp add: loaded_def)
    moreover have "attr_at s2 q = Map.empty" using s2(3) assms(5) q by (simp add: fun_eq_iff)
    ultimately show ?thesis using Some by (simp add: saved_place_def o)
  qed
  moreover have "has_obj s3 q" if "saved_place E r q" for q
    using that s3(2,3) s2(2) assms(3) by (auto simp: saved_place_def o loaded_def grows_def)
  ultimately show ?thesis by blast
qed

end
