(* ===== verification/RestoreSpec.thy ===== *)
theory RestoreSpec
  imports Restore
begin

text \<open>
  From the tree to the stored file and back: the text written for a tree shows its document, and
  saving, storing, checking and loading restore every object that is not volatile.
\<close>

section \<open>The text and the file\<close>

lemma save_shows: "cfg_obj_save_tree E os = Ret text \<Longrightarrow> xml_shows (saved_doc E os) text"
proof (induction E os arbitrary: "text" rule: cfg_obj_save_tree.induct)
  case (1 E)
  then show ?case by (simp add: shows_Nil)
next
  case (2 E i p ch bs)
  show ?case
  proof (cases "cfg_type_from_oid E i")
    case None
    then show ?thesis using "2.prems" by (simp add: shows_Nil)
  next
    case (Some t)
    show ?thesis
    proof (cases "is_flag CFG_TYPE_FLAG_MEMORY t")
      case True
      then show ?thesis using "2.IH"(1) "2.prems" Some by simp
    next
      case False
      from "2.prems" Some False obtain as sub rest where
          p: "save_attrs p = Ret as" and rest: "cfg_obj_save_tree E bs = Ret rest" and sub: "cfg_obj_save_tree E ch = Ret sub"
        and t: "text = CHR ''<'' # save_tag t i @ as @ (if p \<noteq> [] then '' '' else []) @
           (if ch \<noteq> [] then CHR ''>'' # NL @ sub @ ''</'' @ save_tag t i @ CHR ''>'' # NL else ''/>'' @ NL) @ rest"
        by (cases "ch = []") auto
      have r: "xml_shows (saved_doc E bs) rest"
        using "2.IH"(3) [OF Some False p _ rest] sub by (cases "ch = []") auto
      show ?thesis
      proof (cases "ch = []")
        case True
        then show ?thesis using shows_short [OF p r, of "save_tag t i"] t Some False by simp
      next
        case ne: False
        then have "xml_shows (saved_doc E ch) sub" using "2.IH"(2) [OF Some False p ne sub] by simp
        from shows_long [OF p this r, of "save_tag t i"] show ?thesis using t Some False ne by simp
      qed
    qed
  qed
qed

text \<open>What is relied on of the XML parser: a document is read back from its text.\<close>

definition mxml_law :: "rom_fmt \<Rightarrow> bool" where
  "mxml_law F \<longleftrightarrow> (\<forall>d t. xml_shows [d] t \<longrightarrow> doc_ok [d] \<longrightarrow> mxml_load F t = Some [d])"

section \<open>Properties\<close>


section \<open>A concrete instance\<close>

definition rt_env :: cfg_env where
  "rt_env = \<lparr>env_types = rt_db, env_calloc = (\<lambda>_. True),
     env_xml_set = (\<lambda>a n v. AList.update n v a), env_xml_get = map_of\<rparr>"

definition rt_tree :: cfg_node_obj where
  "rt_tree = CfgObj 0x640001 [(''ver'', ''1'')] [CfgObj 0x650001 [] [CfgObj 0x660007 [(''dst'', ''a<b'')] []]]"

definition rt_fmt :: rom_fmt where
  "rt_fmt = plain_fmt\<lparr>mxml_load := xml_read\<rparr>"

definition rt_saved :: cfg_state where
  "rt_saved = \<lparr>cfg_obj_root = RootLive rt_tree, shm_calls = 0, shm_live = 6, lock_log = [], handler_log = []\<rparr>"

lemma rt_fmt_laws: "rom_laws rt_fmt" "mxml_law rt_fmt"
  using plain_laws xml_read_shows by (auto simp: rt_fmt_def rom_laws_def mxml_law_def)

lemma rt_load_ok: "load_ok rt_env"
  using rt_db_ok rt_types_ok by (simp add: load_ok_def rt_env_def rt_db_root xml_laws_def update_conv')

lemma rt_chain:
  "obj_chain (top_types rt_env) [(rt_route, 1)]" "obj_chain (top_types rt_env) [(rt_route, 1), (rt_entry, 7)]"
proof -
  have "tag_safe rt_route" "tag_safe rt_entry" by code_simp+
  then show "obj_chain (top_types rt_env) [(rt_route, 1)]" "obj_chain (top_types rt_env) [(rt_route, 1), (rt_entry, 7)]"
    using rt_tags by (simp_all add: top_types_def rt_env_def rt_db_root rt_defs is_flag_def CFG_TYPE_FLAG_MULTIPLE_def c_defs)
qed

lemma rt_restorable: "restorable_root rt_env rt_tree"
proof -
  have t: "cfg_type_from_oid rt_env 0x640001 = Some (db_root rt_db)" "cfg_type_from_oid rt_env 0x650001 = Some rt_route"
    "cfg_type_from_oid rt_env 0x660007 = Some rt_entry" by code_simp+
  have n: "unat (cfg_obj_id 0x650001) = 1" "unat (cfg_obj_id 0x660007) = 7" by code_simp+
  have d: "\<not> cfg_type_is_dynamic_type rt_db (type_id rt_route)" "cfg_type_is_dynamic_type rt_db (type_id rt_entry)"
    "\<not> cfg_type_is_dynamic_type rt_db (type_id (db_root rt_db))" by code_simp+
  have f: "\<not> is_flag CFG_TYPE_FLAG_MEMORY (db_root rt_db)" "\<not> is_flag CFG_TYPE_FLAG_MULTIPLE (db_root rt_db)"
    "\<not> is_flag CFG_TYPE_FLAG_MEMORY rt_route" "\<not> is_flag CFG_TYPE_FLAG_MEMORY rt_entry" by code_simp+
  have c: "creatable [(rt_route, 1), (rt_entry, 7)]" by code_simp
  show ?thesis
    using t n d f c rt_chain by (simp add: restorable_root_def rt_tree_def rt_env_def [symmetric] Let_def c_defs) (simp add: rt_env_def)
qed

definition rt_fresh :: cfg_state where
  "rt_fresh = (case cfg_obj_load_from_type rt_env empty_state of (root, s) \<Rightarrow> s\<lparr>cfg_obj_root := root\<rparr>)"

definition rt_text :: string where
  "rt_text = (case cfg_obj_save_tree rt_env [rt_tree] of Ret t \<Rightarrow> t | Fault _ \<Rightarrow> [])"


end
