(* ===== verification/Tcapi.thy ===== *)
theory Tcapi
  imports CfgCli AttrStore
begin

text \<open>
  The library other programs read and write the configuration with (\<open>tcapi_lib/tcapi.c\<close>) on the
  shared object tree: node names of the form \<open>LANHost2_Entry3\<close> are translated to object paths,
  objects that are written and do not exist are created. The calls as operations on an abstract
  store, which programs above the library use, are the record \<open>tc_ops\<close>.
\<close>

section \<open>Messages\<close>

definition TCAPI_PROCESS_OK :: int where "TCAPI_PROCESS_OK = 0"
definition TCAPI_NONE_NODE :: int where "TCAPI_NONE_NODE = -1"
definition TCAPI_CONN_ERR :: int where "TCAPI_CONN_ERR = -3"
definition TCAPI_UNKNOW_ERR :: int where "TCAPI_UNKNOW_ERR = -5"
definition MAXLEN_NODE_NAME :: nat where "MAXLEN_NODE_NAME = 32"
definition MAXLEN_ATTR_NAME :: nat where "MAXLEN_ATTR_NAME = 32"
definition MAXLEN_TCAPI_MSG :: nat where "MAXLEN_TCAPI_MSG = 1024"

datatype tcapi_cmd = TCAPI_SET_CMD | TCAPI_UNSET_CMD | TCAPI_GET_CMD | TCAPI_COMMIT_CMD | TCAPI_STATIC_GET_CMD

record tcapi_msg =
  op_cmd :: tcapi_cmd
  retval :: int
  msg_node :: string
  msg_attr :: string
  msg_value :: string

definition new_msg :: "tcapi_cmd \<Rightarrow> string \<Rightarrow> tcapi_msg" where
  "new_msg c node = \<lparr>op_cmd = c, retval = 0, msg_node = take (MAXLEN_NODE_NAME - 1) node, msg_attr = [], msg_value = []\<rparr>"

type_synonym tcapi_env = "hooks \<times> cfg_env \<times> (string \<Rightarrow> bool)"

section \<open>Carrying out a message\<close>

definition set_cmd :: "tcapi_env \<Rightarrow> string \<Rightarrow> tcapi_msg \<Rightarrow> cfg_state \<Rightarrow> (int \<times> cfg_state) cres" where
  "set_cmd X path m s = (case X of (H, E, _) \<Rightarrow>
     cbind (cfg_obj_query_object E path None False s) (\<lambda>((q, _), s1).
     cbind (if q \<le> 0 then cfg_obj_create_object E path s1 else Ret (0, s1)) (\<lambda>(r, s2).
       if r < 0 then Ret (-1, s2) else cfg_set_object_attr H E path (msg_attr m) (msg_value m) s2)))"

definition get_cmd :: "tcapi_env \<Rightarrow> string \<Rightarrow> tcapi_msg \<Rightarrow> cfg_state \<Rightarrow> ((int \<times> string) \<times> cfg_state) cres" where
  "get_cmd X path m s = (case X of (H, E, _) \<Rightarrow>
     cbind (cfg_get_object_attr H E path (msg_attr m) 1024 s) (\<lambda>((ret, v), s1).
       Ret ((ret, case v of None \<Rightarrow> msg_value m | Some w \<Rightarrow> w), s1)))"

text \<open>\<open>send2CfgManager_to_2\<close>: no tree and an unknown node name leave the message as it is, with the
  return value \<open>TCAPI_NONE_NODE\<close>.\<close>

definition send2CfgManager_to_2 :: "tcapi_env \<Rightarrow> tcapi_msg \<Rightarrow> cfg_state \<Rightarrow> (tcapi_msg \<times> cfg_state) cres" where
  "send2CfgManager_to_2 X m s = (case X of (H, E, opened) \<Rightarrow>
     let failed = m\<lparr>retval := TCAPI_NONE_NODE\<rparr>;
         done = (\<lambda>ret. m\<lparr>retval := if 0 \<le> ret then TCAPI_PROCESS_OK else TCAPI_NONE_NODE\<rparr>)
     in if cfg_obj_root s = RootNull then Ret (failed, s)
        else cbind (cfg_parse_node_name E (msg_node m) 128 s) (\<lambda>((r, path), s1).
          if r < 0 then Ret (failed, s1)
          else (case op_cmd m of
                  TCAPI_SET_CMD \<Rightarrow> cbind (set_cmd X path m s1) (\<lambda>(ret, s2). Ret (done ret, s2))
                | TCAPI_UNSET_CMD \<Rightarrow> cbind (cfg_delete_object H E path s1) (\<lambda>(ret, s2). Ret (done ret, s2))
                | TCAPI_COMMIT_CMD \<Rightarrow> cbind (cfg_commit_object H E opened path s1) (\<lambda>(ret, s2). Ret (done ret, s2))
                | _ \<Rightarrow> cbind (get_cmd X path m s1) (\<lambda>((ret, v), s2). Ret ((done ret)\<lparr>msg_value := v\<rparr>, s2)))))"

section \<open>The calls\<close>

definition tcapi_set :: "tcapi_env \<Rightarrow> string \<Rightarrow> string \<Rightarrow> string \<Rightarrow> cfg_state \<Rightarrow> (int \<times> cfg_state) cres" where
  "tcapi_set X node attr v s =
     cbind (send2CfgManager_to_2 X ((new_msg TCAPI_SET_CMD node)\<lparr>msg_attr := take (MAXLEN_ATTR_NAME - 1) attr,
        msg_value := take (MAXLEN_TCAPI_MSG - 1) v\<rparr>) s) (\<lambda>(m, s1). Ret (retval m, s1))"

definition tcapi_unset :: "tcapi_env \<Rightarrow> string \<Rightarrow> cfg_state \<Rightarrow> (int \<times> cfg_state) cres" where
  "tcapi_unset X node s =
     cbind (send2CfgManager_to_2 X (new_msg TCAPI_UNSET_CMD node) s) (\<lambda>(m, s1). Ret (retval m, s1))"

definition tcapi_commit :: "tcapi_env \<Rightarrow> string \<Rightarrow> cfg_state \<Rightarrow> (int \<times> cfg_state) cres" where
  "tcapi_commit X node s =
     cbind (send2CfgManager_to_2 X (new_msg TCAPI_COMMIT_CMD node) s) (\<lambda>(m, s1). Ret (retval m, s1))"

text \<open>The copy into a buffer of \<open>k\<close> bytes: \<open>strcpy\<close> does not know its size.\<close>

definition copy_out :: "nat \<Rightarrow> tcapi_msg \<times> cfg_state \<Rightarrow> ((int \<times> string) \<times> cfg_state) cres" where
  "copy_out k = (\<lambda>(m, s). if k \<le> length (msg_value m) then Fault BufferOverflow else Ret ((retval m, msg_value m), s))"

definition get_msg :: "tcapi_cmd \<Rightarrow> string \<Rightarrow> string \<Rightarrow> tcapi_msg" where
  "get_msg c node attr = (new_msg c node)\<lparr>msg_attr := take (MAXLEN_ATTR_NAME - 1) attr\<rparr>"

definition tcapi_get :: "tcapi_env \<Rightarrow> nat \<Rightarrow> string \<Rightarrow> string \<Rightarrow> cfg_state \<Rightarrow> ((int \<times> string) \<times> cfg_state) cres" where
  "tcapi_get X k node attr s = cbind (send2CfgManager_to_2 X (get_msg TCAPI_GET_CMD node attr) s) (copy_out k)"

definition tcapi_staticGet :: "tcapi_env \<Rightarrow> nat \<Rightarrow> string \<Rightarrow> string \<Rightarrow> cfg_state \<Rightarrow> ((int \<times> string) \<times> cfg_state) cres" where
  "tcapi_staticGet X k node attr s = cbind (send2CfgManager_to_2 X (get_msg TCAPI_STATIC_GET_CMD node attr) s) (copy_out k)"

text \<open>\<open>tcapi_nget\<close> cuts the value to the length it is given; the buffer is untouched (\<open>None\<close>) when the
  length is at most 1.\<close>

definition tcapi_nget :: "tcapi_env \<Rightarrow> int \<Rightarrow> string \<Rightarrow> string \<Rightarrow> cfg_state \<Rightarrow> ((int \<times> string option) \<times> cfg_state) cres" where
  "tcapi_nget X len node attr s =
     (if len \<le> 1 then Ret ((TCAPI_UNKNOW_ERR, None), s)
      else cbind (send2CfgManager_to_2 X (get_msg TCAPI_GET_CMD node attr) s) (\<lambda>(m, s1).
        Ret ((retval m, Some (take (nat (len - 1)) (msg_value m))), s1)))"

section \<open>What programs rely on\<close>

record 's tc_ops =
  tc_get :: "'s \<Rightarrow> string \<Rightarrow> string \<Rightarrow> string option"
  tc_set :: "string \<Rightarrow> string \<Rightarrow> string \<Rightarrow> 's \<Rightarrow> 's"
  tc_unset :: "string \<Rightarrow> 's \<Rightarrow> 's"
  tc_commit :: "string \<Rightarrow> 's \<Rightarrow> 's"

end
