(* ===== verification/Base64.thy ===== *)
theory Base64
  imports CPrelude
begin

text \<open>
  The Base64 code of host names (\<open>lan_host_mgr/lan_host_api.c\<close>): the encoder and the decoder as
  they are written, with a reference encoder that cuts the bits of the text into groups of six.
\<close>

unbundle bit_operations_syntax

section \<open>The code\<close>

definition ALPHA_BASE :: string where
  "ALPHA_BASE = ''ABCDEFGHIJKLMNOPQRSTUVWXYZabcdefghijklmnopqrstuvwxyz0123456789+/''"

text \<open>A \<open>char\<close> as the \<open>int\<close> it is promoted to.\<close>

definition schar :: "char \<Rightarrow> int" where
  "schar c = (if cval c < 128 then int (cval c) else int (cval c) - 256)"

definition alpha :: "int \<Rightarrow> char" where
  "alpha k = ALPHA_BASE ! nat k"

definition encode_group :: "int \<Rightarrow> int \<Rightarrow> int \<Rightarrow> string" where
  "encode_group b0 b1 b2 =
     [alpha (drop_bit 2 b0 AND 0x3F),
      alpha ((push_bit 4 b0 OR drop_bit 4 (b1 AND 0xFF)) AND 0x3F),
      alpha ((push_bit 2 b1 OR drop_bit 6 (b2 AND 0xFF)) AND 0x3F),
      alpha (b2 AND 0x3F)]"

fun encode_loop :: "string \<Rightarrow> string" where
  "encode_loop [] = []"
| "encode_loop [x] = encode_group (schar x) 0 0"
| "encode_loop [x, y] = encode_group (schar x) (schar y) 0"
| "encode_loop (x # y # z # s) = encode_group (schar x) (schar y) (schar z) @ encode_loop s"

definition basic64_encode :: "string \<Rightarrow> string" where
  "basic64_encode buf =
     (let e = encode_loop buf; a = length e
      in if length buf mod 3 = 1 then e[a - 1 := CHR ''='', a - 2 := CHR ''='']
         else if length buf mod 3 = 2 then e[a - 1 := CHR ''='']
         else e)"

text \<open>\<open>int toInt[128] = {-1}\<close> sets the first element to \<open>-1\<close> and the others to 0.\<close>

definition toInt :: "int list" where
  "toInt = fold (\<lambda>i t. t[cval (ALPHA_BASE ! i) := int i]) [0..<64] (-1 # replicate 127 0)"

definition to_int :: "char \<Rightarrow> int cres" where
  "to_int c = (if cval c < 128 then Ret (toInt ! cval c) else Fault ReadPastEnd)"

text \<open>The bytes written so far are \<open>out\<close>; the third byte of a group is written without looking at
  the size of the array.\<close>

definition put_byte :: "nat \<Rightarrow> int \<Rightarrow> string \<Rightarrow> string cres" where
  "put_byte k v out =
     (if length out < k then Ret (out @ [char_of (nat (v AND 0xFF))]) else Fault BufferOverflow)"

fun decode_loop :: "nat \<Rightarrow> string \<Rightarrow> string \<Rightarrow> string cres" where
  "decode_loop k [] out = Ret out"
| "decode_loop k (w # x # y # z # s) out =
     cbind (to_int w) (\<lambda>c0.
     cbind (to_int x) (\<lambda>c1.
     cbind (put_byte k (push_bit 2 c0 OR drop_bit 4 c1) out) (\<lambda>out.
       if k \<le> length out then Ret out else
     cbind (to_int y) (\<lambda>c2.
     cbind (put_byte k (push_bit 4 c1 OR drop_bit 2 c2) out) (\<lambda>out.
       if k \<le> length out then Ret out else
     cbind (to_int z) (\<lambda>c3.
     cbind (put_byte k (push_bit 6 c2 OR c3) out) (\<lambda>out.
       decode_loop k s out)))))))"
| "decode_loop k s out = Fault ReadPastEnd"

definition basic64_decode :: "string \<Rightarrow> string \<Rightarrow> string cres" where
  "basic64_decode base64Char originChar =
     cbind (decode_loop (length originChar) base64Char []) (\<lambda>out. Ret (out @ drop (length out) originChar))"

section \<open>The reference\<close>

definition byte_bits :: "char \<Rightarrow> bool list" where
  "byte_bits c = map (bit (cval c)) [7, 6, 5, 4, 3, 2, 1, 0]"

definition bits_val :: "bool list \<Rightarrow> nat" where
  "bits_val bs = horner_sum of_bool 2 (rev bs)"

text \<open>Groups of six bits from the front, the last one filled up with zeros.\<close>

function sixes :: "bool list \<Rightarrow> bool list list" where
  "sixes bs = (if bs = [] then [] else take 6 (bs @ replicate 5 False) # sixes (drop 6 bs))"
  by pat_completeness auto
termination by (relation "measure length") auto

declare sixes.simps [simp del]

definition base64_spec :: "string \<Rightarrow> string" where
  "base64_spec s =
     map (\<lambda>g. ALPHA_BASE ! bits_val g) (sixes (concat (map byte_bits s))) @
     replicate ((3 - length s mod 3) mod 3) CHR ''=''"

section \<open>Lemmas\<close>

lemma length_ALPHA: "length ALPHA_BASE = 64"
  by (simp add: ALPHA_BASE_def)

lemma length_fold_update: "length (fold (\<lambda>i t. t[f i := g i]) xs t) = length t"
  by (induction xs arbitrary: t) auto

lemma nth_fold_update:
  "inj_on f (insert k (set xs)) \<Longrightarrow> f k < length t \<Longrightarrow>
   fold (\<lambda>i t. t[f i := g i]) xs t ! f k = (if k \<in> set xs then g k else t ! f k)"
proof (induction xs arbitrary: t)
  case (Cons i xs)
  have "f i = f k \<Longrightarrow> i = k" using inj_onD [OF Cons.prems(1), of i k] by simp
  moreover have "inj_on f (insert k (set xs))" using Cons.prems(1) by (rule inj_on_subset) auto
  ultimately show ?case using Cons.IH [of "t[f i := g i]"] Cons.prems(2) by (cases "f i = f k") auto
qed simp

lemma toInt_alpha: "k < 64 \<Longrightarrow> toInt ! cval (ALPHA_BASE ! k) = int k \<and> cval (ALPHA_BASE ! k) < 128"
proof -
  assume k: "k < 64"
  have d: "distinct ALPHA_BASE" and c: "\<forall>c \<in> set ALPHA_BASE. cval c < 128"
    by (simp_all add: ALPHA_BASE_def cval_def)
  have "inj_on (\<lambda>i. cval (ALPHA_BASE ! i)) (insert k (set [0..<64]))"
    using d k by (auto simp: inj_on_def nth_eq_iff_index_eq length_ALPHA)
  moreover have "cval (ALPHA_BASE ! k) < 128" using c k by (simp add: length_ALPHA)
  ultimately show ?thesis
    using nth_fold_update [of "\<lambda>i. cval (ALPHA_BASE ! i)" k "[0..<64]" "-1 # replicate 127 0" int] k
    by (simp add: toInt_def)
qed

lemma bit_schar: "n < 8 \<Longrightarrow> bit (schar c) n \<longleftrightarrow> bit (cval c) n"
proof -
  assume n: "n < 8"
  have "take_bit 8 (schar c) = take_bit 8 (int (cval c))"
    by (simp add: schar_def take_bit_eq_mod)
  then have "bit (take_bit 8 (schar c)) n = bit (take_bit 8 (int (cval c))) n" by simp
  then show ?thesis using n by (simp add: bit_take_bit_iff bit_of_nat_iff_bit)
qed

lemma bit_bits_val: "bit (int (bits_val bs)) n \<longleftrightarrow> n < length bs \<and> rev bs ! n"
  by (simp add: bits_val_def bit_of_nat_iff_bit bit_horner_sum_bit_iff)

lemma less6: "(n < 6) = (n = 0 \<or> n = 1 \<or> n = 2 \<or> n = 3 \<or> n = 4 \<or> n = (5 :: nat))"
  by auto

lemma bit_63: "bit (63 :: int) n \<longleftrightarrow> n < 6"
  using bit_mask_iff [of 6 n, where ?'a = int] by (simp add: mask_eq_exp_minus_1)

lemma bit_255: "bit (255 :: int) n \<longleftrightarrow> n < 8"
  using bit_mask_iff [of 8 n, where ?'a = int] by (simp add: mask_eq_exp_minus_1)

lemma six_eqI:
  assumes "length g = 6"
    and "g ! 5 = bit v 0" "g ! 4 = bit v 1" "g ! 3 = bit v 2" "g ! 2 = bit v 3" "g ! 1 = bit v 4" "g ! 0 = bit v 5"
  shows "int (bits_val g) = v AND 0x3F"
proof (rule bit_eqI)
  fix n
  show "bit (int (bits_val g)) n = bit (v AND 63) n"
  proof (cases "n < 6")
    case True
    with assms show ?thesis by (auto simp: bit_bits_val bit_and_iff bit_63 less6 rev_nth)
  next
    case False
    with assms(1) show ?thesis by (simp add: bit_bits_val bit_and_iff bit_63)
  qed
qed

lemmas bit_facts = bit_and_iff bit_or_iff bit_drop_bit_eq bit_push_bit_iff_int bit_63 bit_255 bit_schar

lemma group_vals:
  "int (bits_val (take 6 (byte_bits x))) = drop_bit 2 (schar x) AND 0x3F"
  "int (bits_val (drop 6 (byte_bits x) @ take 4 (byte_bits y))) =
     (push_bit 4 (schar x) OR drop_bit 4 (schar y AND 0xFF)) AND 0x3F"
  "int (bits_val (drop 4 (byte_bits y) @ take 2 (byte_bits z))) =
     (push_bit 2 (schar y) OR drop_bit 6 (schar z AND 0xFF)) AND 0x3F"
  "int (bits_val (drop 2 (byte_bits z))) = schar z AND 0x3F"
  by (rule six_eqI; (simp only: bit_or_iff bit_push_bit_iff_int bit_and_iff bit_drop_bit_eq)?;
      simp add: bit_facts byte_bits_def eval_nat_numeral)+

lemma sixes_group: "sixes (a # b # c # d # e # f # bs) = [a, b, c, d, e, f] # sixes bs"
  by (subst sixes.simps) simp

lemma sixes_3: "sixes (byte_bits x @ byte_bits y @ byte_bits z @ bs) =
  take 6 (byte_bits x) # (drop 6 (byte_bits x) @ take 4 (byte_bits y)) #
  (drop 4 (byte_bits y) @ take 2 (byte_bits z)) # drop 2 (byte_bits z) # sixes bs"
  by (simp add: byte_bits_def sixes_group)

lemma zero_bits: "schar CHR 0x00 = 0" "take 4 (byte_bits CHR 0x00) = replicate 4 False"
  "take (Suc (Suc 0)) (byte_bits CHR 0x00) = replicate 2 False"
  by (simp_all add: schar_def cval_def byte_bits_def eval_nat_numeral)

lemma sixes_1: "sixes (byte_bits x) = [take 6 (byte_bits x), drop 6 (byte_bits x) @ replicate 4 False]"
  by (simp add: byte_bits_def sixes.simps eval_nat_numeral)

lemma sixes_2: "sixes (byte_bits x @ byte_bits y) =
  [take 6 (byte_bits x), drop 6 (byte_bits x) @ take 4 (byte_bits y), drop 4 (byte_bits y) @ replicate 2 False]"
  by (simp add: byte_bits_def sixes.simps eval_nat_numeral)

abbreviation letter :: "bool list \<Rightarrow> char" where
  "letter g \<equiv> ALPHA_BASE ! bits_val g"

lemma encode_group_bits:
  "encode_group (schar x) (schar y) (schar z) =
     map letter [take 6 (byte_bits x), drop 6 (byte_bits x) @ take 4 (byte_bits y),
       drop 4 (byte_bits y) @ take 2 (byte_bits z), drop 2 (byte_bits z)]"
  by (simp only: encode_group_def alpha_def group_vals [symmetric] nat_int list.map)

lemma encode_3: "basic64_encode (x # y # z # t) = encode_group (schar x) (schar y) (schar z) @ basic64_encode t"
proof -
  have l: "length (encode_group a b c) = 4" for a b c by (simp add: encode_group_def)
  have n: "t \<noteq> [] \<Longrightarrow> \<exists>k. length (encode_loop t) = k + 4"
    by (cases t rule: encode_loop.cases) (simp_all add: l)
  have m: "length (x # y # z # t) mod 3 = length t mod 3" by simp
  show ?thesis
  proof (cases "t = []")
    case False
    with n obtain k where "length (encode_loop t) = k + 4" by blast
    then show ?thesis unfolding basic64_encode_def m by (simp add: Let_def list_update_append l)
  qed (simp add: basic64_encode_def)
qed

lemma encode_is_spec: "basic64_encode s = base64_spec s"
proof (induction s rule: encode_loop.induct)
  case (2 x)
  show ?case
    using encode_group_bits [of x "CHR 0x00" "CHR 0x00"] sixes_1 [of x]
    by (simp add: basic64_encode_def base64_spec_def zero_bits numeral_2_eq_2)
next
  case (3 x y)
  show ?case
    using encode_group_bits [of x y "CHR 0x00"] sixes_2 [of x y]
    by (simp add: basic64_encode_def base64_spec_def zero_bits numeral_2_eq_2)
next
  case (4 x y z s)
  show ?case
    unfolding encode_3 4 encode_group_bits
    using sixes_3 [of x y z "concat (map byte_bits s)"] by (simp add: base64_spec_def)
qed (simp add: basic64_encode_def base64_spec_def sixes.simps)

section \<open>Decoding what was encoded\<close>

lemma char_of_bits:
  assumes "\<And>n. n < 8 \<Longrightarrow> bit v n = bit (cval c) n"
  shows "char_of (nat (v AND 0xFF)) = c"
proof -
  have "v AND 0xFF = int (cval c)"
  proof (rule bit_eqI)
    fix n
    have "bit (int (cval c)) n \<longleftrightarrow> n < 8 \<and> bit (cval c) n"
      using cval_less [of c] bit_take_bit_iff [of 8 "cval c" n]
      by (simp add: bit_of_nat_iff_bit take_bit_eq_mod)
    then show "bit (v AND 0xFF) n = bit (int (cval c)) n"
      using assms by (auto simp: bit_and_iff bit_255)
  qed
  then show ?thesis by (simp add: cval_def)
qed

lemma less8: "(n < 8) = (n = 0 \<or> n = 1 \<or> n = 2 \<or> n = 3 \<or> n = 4 \<or> n = 5 \<or> n = 6 \<or> n = (7 :: nat))"
  by auto

lemma group_bytes:
  defines "v0 \<equiv> \<lambda>x. drop_bit 2 (schar x) AND 0x3F"
    and "v1 \<equiv> \<lambda>x y. (push_bit 4 (schar x) OR drop_bit 4 (schar y AND 0xFF)) AND 0x3F"
    and "v2 \<equiv> \<lambda>y z. (push_bit 2 (schar y) OR drop_bit 6 (schar z AND 0xFF)) AND 0x3F"
    and "v3 \<equiv> \<lambda>z. schar z AND 0x3F"
  shows "char_of (nat ((push_bit 2 (v0 x) OR drop_bit 4 (v1 x y)) AND 0xFF)) = x"
    and "char_of (nat ((push_bit 4 (v1 x y) OR drop_bit 2 (v2 y z)) AND 0xFF)) = y"
    and "char_of (nat ((push_bit 6 (v2 y z) OR v3 z) AND 0xFF)) = z"
  by (rule char_of_bits; simp only: less8 v0_def v1_def v2_def v3_def bit_or_iff bit_push_bit_iff_int bit_and_iff bit_drop_bit_eq;
      elim disjE; simp add: bit_facts)+

lemma six_mod: "v AND (0x3F :: int) = v mod 64"
  using take_bit_eq_mask [of 6 v] by (simp add: take_bit_eq_mod mask_eq_exp_minus_1)

lemma to_int_alpha: "to_int (alpha (v AND 0x3F)) = Ret (v AND 0x3F)"
  using toInt_alpha [of "nat (v mod 64)"] by (simp add: to_int_def alpha_def six_mod)

lemma put_byte_Ret: "length out < k \<Longrightarrow> put_byte k v out = Ret (out @ [char_of (nat (v AND 0xFF))])"
  by (simp add: put_byte_def)

lemma decode_group:
  assumes "length out + 2 < k"
  shows "decode_loop k (encode_group (schar x) (schar y) (schar z) @ s) out = decode_loop k s (out @ [x, y, z])"
  using assms by (simp only: encode_group_def append_Cons append_Nil decode_loop.simps to_int_alpha cbind.simps
    put_byte_Ret group_bytes length_append list.size) (simp add: put_byte_def)

lemma decode_last:
  "decode_loop (length out + 1) (basic64_encode [x] @ s) out = Ret (out @ [x])"
  "decode_loop (length out + 2) (basic64_encode [x, y] @ s) out = Ret (out @ [x, y])"
  using group_bytes(1) [of x "CHR 0x00"] group_bytes(1) [of x y] group_bytes(2) [of x y "CHR 0x00"]
  by (simp_all only: basic64_encode_def) (simp_all add: encode_group_def zero_bits to_int_alpha put_byte_def del: and_numerals)

lemma decode_encode_loop:
  "length h mod 3 \<noteq> 0 \<Longrightarrow> decode_loop (length out + length h) (basic64_encode h @ s) out = Ret (out @ h)"
proof (induction h arbitrary: out rule: encode_loop.induct)
  case (4 x y z h)
  then have h: "length h mod 3 \<noteq> 0" by simp
  then have "h \<noteq> []" by auto
  then have "length out + 2 < length out + length (x # y # z # h)" by (cases h) auto
  moreover have "length out + length (x # y # z # h) = length (out @ [x, y, z]) + length h" by simp
  ultimately show ?case
    using 4(1) [OF h, of "out @ [x, y, z]"] by (simp only: encode_3 append_assoc decode_group) simp
qed (use decode_last in simp_all)

text \<open>With a length that is a multiple of three, the decoder does not stop at the end of the array
  when more text follows.\<close>

lemma decode_overruns:
  "length h mod 3 = 0 \<Longrightarrow>
   decode_loop (length out + length h) (basic64_encode h @ CHR 0x00 # CHR 0x00 # c # d # s) out = Fault BufferOverflow"
proof (induction h arbitrary: out rule: encode_loop.induct)
  case 1
  have "toInt ! 0 = -1" by code_simp
  then show ?case by (simp add: basic64_encode_def to_int_def cval_def put_byte_def)
next
  case (4 x y z h)
  then have h: "length h mod 3 = 0" by simp
  have "length out + 2 < length out + length (x # y # z # h)" by simp
  moreover have "length out + length (x # y # z # h) = length (out @ [x, y, z]) + length h" by simp
  ultimately show ?case
    using 4(1) [OF h, of "out @ [x, y, z]"] by (simp only: encode_3 append_assoc decode_group)
qed simp_all

section \<open>Properties\<close>

text \<open>C39: \<open>basic64_encode\<close> writes the Base64 form of the array for every length: the bits of its
  bytes in groups of six, most significant first, the last group filled up with zeros, each group
  as a letter of the alphabet, and one equals sign for each byte missing to a multiple of three.\<close>

theorem base64_reference: "basic64_encode s = base64_spec s"
  by (rule encode_is_spec)

text \<open>Decoding what \<open>basic64_encode\<close> wrote gives the array back, whatever stood in the target
  before and whatever follows the text, for arrays whose length is not a multiple of three, such
  as the 64 bytes of a host name.\<close>

theorem base64_roundtrip:
  assumes "length h mod 3 \<noteq> 0" and "length old = length h"
  shows "basic64_decode (basic64_encode h @ rest) old = Ret h"
  using decode_encode_loop [OF assms(1), of "[]" rest] assms(2) by (simp add: basic64_decode_def)

theorem base64_roundtrip_witness:
  "basic64_decode (basic64_encode (''laptop'' @ replicate 58 CHR 0x00) @ replicate 40 CHR 0x00) (replicate 64 CHR 0xFF) =
     Ret (''laptop'' @ replicate 58 CHR 0x00)"
  by (rule base64_roundtrip) (simp_all)

end
