(* ===== verification/LanHost.thy ===== *)
theory LanHost
  imports Tcapi CScan Base64 "HOL-Library.Signed_Division"
begin

text \<open>
  The table of LAN hosts and its operations (\<open>lan_host_mgr/lan_host_api.c\<close>). The table and the
  variables of the program are a record; the configuration is a store with the operations of
  \<open>Tcapi\<close>; what the program reads from the system (the files of \<open>/proc\<close>, the lease file, clocks,
  traffic counters, the stations of the radios) is the record \<open>lh_world\<close>, one set of readings for
  each call; commands, events and commits are a log.
\<close>

unbundle bit_operations_syntax

type_synonym u8 = "8 word"
type_synonym u64 = "64 word"

section \<open>Data\<close>

definition OFFLINE_TIME :: u32 where "OFFLINE_TIME = 86400"
definition LAN_PORT_NUM :: nat where "LAN_PORT_NUM = 4"
definition DEV_MAC_ADDR_LEN :: nat where "DEV_MAC_ADDR_LEN = 12"
definition HOSTNAME_LEN :: nat where "HOSTNAME_LEN = 63"
definition IP_ADDR_LEN :: nat where "IP_ADDR_LEN = 16"
definition TIME_LEN :: nat where "TIME_LEN = 32"
definition DUPLEX_LEN :: nat where "DUPLEX_LEN = 4"
definition WIFI_ONLINING :: u8 where "WIFI_ONLINING = 2"

definition IP_FLAG :: u32 where "IP_FLAG = 1"
definition HOST_NAME_FLAG :: u32 where "HOST_NAME_FLAG = 2"
definition IPV6_FLAG :: u32 where "IPV6_FLAG = 4"

definition ONLINE :: u8 where "ONLINE = 1"
definition OFFLINE :: u8 where "OFFLINE = 0"

definition SYNC_NEW_ENTRY :: u32 where "SYNC_NEW_ENTRY = 0x1"
definition SYNC_DEL_ENTRY :: u32 where "SYNC_DEL_ENTRY = 0x2"
definition SYNC_UPDATE_STATE :: u32 where "SYNC_UPDATE_STATE = 0x4"
definition SYNC_UPDATE_MAC :: u32 where "SYNC_UPDATE_MAC = 0x8"
definition SYNC_UPDATE_IP :: u32 where "SYNC_UPDATE_IP = 0x10"
definition SYNC_UPDATE_CNT :: u32 where "SYNC_UPDATE_CNT = 0x20"
definition SYNC_UPDATE_HOSTNAME :: u32 where "SYNC_UPDATE_HOSTNAME = 0x40"
definition SYNC_UPDATE_ONLINE_TIME :: u32 where "SYNC_UPDATE_ONLINE_TIME = 0x80"
definition SYNC_UPDATE_ACTIVE_TIME :: u32 where "SYNC_UPDATE_ACTIVE_TIME = 0x100"
definition SYNC_UPDATE_INACTIVE_TIME :: u32 where "SYNC_UPDATE_INACTIVE_TIME = 0x200"
definition SYNC_UPDATE_PORT :: u32 where "SYNC_UPDATE_PORT = 0x400"
definition SYNC_UPDATE_POWER_LEVEL :: u32 where "SYNC_UPDATE_POWER_LEVEL = 0x800"
definition SYNC_UPDATE_CONNTYPE :: u32 where "SYNC_UPDATE_CONNTYPE = 0x1000"
definition SYNC_UPDATE_NEGORATE :: u32 where "SYNC_UPDATE_NEGORATE = 0x2000"
definition SYNC_UPDATE_IPv6 :: u32 where "SYNC_UPDATE_IPv6 = 0x4000"
definition SYNC_UPDATE_DUPLEXMODE :: u32 where "SYNC_UPDATE_DUPLEXMODE = 0x8000"
definition SYNC_ADD_IP :: u32 where "SYNC_ADD_IP = 0x10000"

text \<open>The fields of an entry the program uses; \<open>host_name\<close> is the whole array.\<close>

record lan_host_entry =
  valid :: bool
  update_flag :: u32
  exist :: u8
  mac :: string
  host_name :: string
  ip :: string
  conn_type :: u8
  port :: u8
  port_bind :: u8
  active :: u8
  online_time :: int
  active_time :: string
  offline_time :: u32
  inactive_time :: string
  online_duration :: u32
  rxbytes :: u64
  txbytes :: u64
  power_level :: int
  negorate :: u32
  duplex_mode :: string
  dev_online_notify :: u8
  expireDay :: string
  expireTime :: string
  AddressSrc :: int

text \<open>\<open>bzero\<close> of an entry.\<close>

definition zero_entry :: lan_host_entry where
  "zero_entry = \<lparr>valid = False, update_flag = 0, exist = 0, mac = [], host_name = replicate 64 CHR 0x00,
     ip = [], conn_type = 0, port = 0, port_bind = 0, active = 0, online_time = 0, active_time = [],
     offline_time = 0, inactive_time = [], online_duration = 0, rxbytes = 0, txbytes = 0, power_level = 0,
     negorate = 0, duplex_mode = [], dev_online_notify = 0, expireDay = [], expireTime = [], AddressSrc = 0\<rparr>"

datatype lh_action =
    Run string
  | TcCommit string
  | LanEvent string
  | LanEventNoData
  | DbusInform string
  | SaveRaw

record 's lanhost =
  lan_host_entry :: "lan_host_entry list"
  check_flag :: "int list"
  lan_port_status :: "int list"
  lan_port_rate :: "u32 list"
  lan_port_duplex :: "string list"
  save_flag :: bool
  gLastGetTime :: "int option"
  lh_store :: 's
  lh_log :: "lh_action list"

record lh_world =
  w_stb_list :: "string option"
  w_udhcp_lease :: "string option"
  w_arp :: "string option"
  w_ipv6_neigh :: "string option"
  w_eth_portmap :: "string option"
  w_gsw_link_st :: "string option"
  w_eth_port_status :: "string option"
  w_uptime :: int
  w_monotonic :: int
  w_localtime :: "int \<times> int \<times> int \<times> int \<times> int \<times> int"
  w_time_after :: "string \<Rightarrow> u32 \<Rightarrow> string"
  w_traffic :: "int \<Rightarrow> string \<Rightarrow> u64 \<times> u64 \<Rightarrow> u64 \<times> u64"
  w_stations :: "nat \<Rightarrow> u8 list list"
  w_bssids :: nat
  w_wlan_ports :: nat

section \<open>Access\<close>

definition lh_log_act :: "lh_action \<Rightarrow> 's lanhost \<Rightarrow> 's lanhost" where
  "lh_log_act a s = s\<lparr>lh_log := lh_log s @ [a]\<rparr>"

abbreviation ent :: "'s lanhost \<Rightarrow> nat \<Rightarrow> lan_host_entry" where
  "ent s i \<equiv> lan_host_entry s ! i"

definition upd_ent :: "nat \<Rightarrow> (lan_host_entry \<Rightarrow> lan_host_entry) \<Rightarrow> 's lanhost \<Rightarrow> 's lanhost" where
  "upd_ent i f s = s\<lparr>lan_host_entry := (lan_host_entry s)[i := f (ent s i)]\<rparr>"

definition max_lan_host_num :: "'s lanhost \<Rightarrow> nat" where
  "max_lan_host_num s = length (lan_host_entry s)"

definition LANHost2_Entry :: "nat \<Rightarrow> string" where
  "LANHost2_Entry i = ''LANHost2_Entry'' @ nat_str i"

definition LANHost2_Common :: string where
  "LANHost2_Common = ''LANHost2_Common''"

text \<open>\<open>tcapi_get\<close> into an array of \<open>k\<close> bytes, and \<open>tcapi_set\<close>.\<close>

definition tget :: "'s tc_ops \<Rightarrow> nat \<Rightarrow> string \<Rightarrow> string \<Rightarrow> 's lanhost \<Rightarrow> (int \<times> string) cres" where
  "tget T k node attr s =
     (case tc_get T (lh_store s) node attr of
        None \<Rightarrow> Ret (-1, [])
      | Some v \<Rightarrow> if k \<le> length v then Fault BufferOverflow else Ret (0, v))"

definition tset :: "'s tc_ops \<Rightarrow> string \<Rightarrow> string \<Rightarrow> string \<Rightarrow> 's lanhost \<Rightarrow> 's lanhost" where
  "tset T node attr v s = s\<lparr>lh_store := tc_set T node attr v (lh_store s)\<rparr>"

definition tcommit :: "'s tc_ops \<Rightarrow> string \<Rightarrow> 's lanhost \<Rightarrow> 's lanhost" where
  "tcommit T node s = lh_log_act (TcCommit node) (s\<lparr>lh_store := tc_commit T node (lh_store s)\<rparr>)"

definition hasf :: "u32 \<Rightarrow> u32 \<Rightarrow> bool" where
  "hasf flag m \<longleftrightarrow> flag AND m \<noteq> 0"

definition if_do :: "bool \<Rightarrow> ('a \<Rightarrow> 'a) \<Rightarrow> 'a \<Rightarrow> 'a" where
  "if_do b f x = (if b then f x else x)"

section \<open>Addresses and times\<close>

text \<open>\<open>mac_add_dot\<close>: six groups of two with colons between them, as the text up to the first zero byte.\<close>

fun dot_groups :: "nat \<Rightarrow> string \<Rightarrow> string" where
  "dot_groups n (a # b # s) = a # b # (if n = 0 then [] else CHR '':'' # dot_groups (n - 1) s)"
| "dot_groups n s = s"

definition lan_mac_add_dot :: "string \<Rightarrow> string" where
  "lan_mac_add_dot old_mac = dot_groups 5 old_mac"

definition lan_mac_rm_dot :: "string \<Rightarrow> string" where
  "lan_mac_rm_dot old_mac = filter (\<lambda>c. c \<noteq> CHR '':'') (take 17 old_mac)"

definition get_current_time :: "lh_world \<Rightarrow> nat \<Rightarrow> string" where
  "get_current_time W len = (case w_localtime W of (y, mo, d, h, mi, sc) \<Rightarrow>
     take (len - 1) (pad0 4 y @ ''-'' @ pad0 2 mo @ ''-'' @ pad0 2 d @ '' '' @
       pad0 2 h @ '':'' @ pad0 2 mi @ '':'' @ pad0 2 sc))"

text \<open>\<open>sscanf(buf, "%d=%s", &port, mac)\<close> with \<open>char mac[32]\<close>.\<close>

definition scan_stb :: "string \<Rightarrow> int \<times> string \<Rightarrow> (int \<times> string) cres" where
  "scan_stb buf = (\<lambda>(p, m).
     case scan_int buf of
       None \<Rightarrow> Ret (p, m)
     | Some (p', r) \<Rightarrow>
         if r = [] \<or> hd r \<noteq> CHR ''='' then Ret (p', m)
         else (case scan_word (tl r) of
                 None \<Rightarrow> Ret (p', m)
               | Some (w, _) \<Rightarrow> if 32 \<le> length w then Fault BufferOverflow else Ret (p', w)))"

fun stb_port :: "string list \<Rightarrow> string \<Rightarrow> int \<times> string \<Rightarrow> int cres" where
  "stb_port [] new_mac pm = Ret (-1)"
| "stb_port (l # ls) new_mac pm =
     cbind (scan_stb l pm) (\<lambda>(p, m).
       if strcasecmp_eq m new_mac then Ret p else stb_port ls new_mac (p, m))"

definition get_lan_port_by_mac :: "lh_world \<Rightarrow> string \<Rightarrow> int cres" where
  "get_lan_port_by_mac W dev_mac =
     (case w_stb_list W of
        None \<Rightarrow> Ret (-1)
      | Some t \<Rightarrow> stb_port (fgets_all 126 t) (lan_mac_add_dot dev_mac) (0, []))"

section \<open>Copying an entry to the configuration\<close>

text \<open>\<open>set_ipv6_from_dhcp_arp\<close>: the neighbours with the address of the host that are reachable, or
  stale while the host has an IPv4 address; three global addresses are kept.\<close>

definition neigh_match :: "string \<Rightarrow> string \<Rightarrow> string option list \<Rightarrow> bool" where
  "neigh_match new_mac ipv4 fs =
     (case fs of
        [_, _, Some m, Some st] \<Rightarrow>
          strcasecmp_eq m new_mac \<and> (strcasecmp_eq st ''REACHABLE'' \<or> ipv4 \<noteq> [] \<and> strcasecmp_eq st ''STALE'')
      | _ \<Rightarrow> False)"

fun neigh_loop :: "'s tc_ops \<Rightarrow> string \<Rightarrow> string \<Rightarrow> string \<Rightarrow> string list \<Rightarrow> nat \<Rightarrow> 's lanhost \<Rightarrow> 's lanhost cres" where
  "neigh_loop T node new_mac ipv4 [] n s = Ret s"
| "neigh_loop T node new_mac ipv4 (l # ls) n s =
     (if 3 \<le> n then Ret s
      else cbind (scan_words [64, 15, 20, 15] l [None, None, None, None]) (\<lambda>(k, fs).
        if k = 4 \<and> neigh_match new_mac ipv4 fs
        then (let a = the (fs ! 0)
              in if prefix_of ''fe80:'' a
                 then neigh_loop T node new_mac ipv4 ls n (tset T node ''l_IPv6'' a s)
                 else neigh_loop T node new_mac ipv4 ls (Suc n) (tset T node (''g_IPv6_'' @ nat_str (Suc n)) a s))
        else neigh_loop T node new_mac ipv4 ls n s))"

definition set_ipv6_from_dhcp_arp :: "lh_world \<Rightarrow> 's tc_ops \<Rightarrow> nat \<Rightarrow> 's lanhost \<Rightarrow> (int \<times> 's lanhost) cres" where
  "set_ipv6_from_dhcp_arp W T i s =
     (let node = LANHost2_Entry i;
          s1 = lh_log_act (Run ''/usr/bin/ip -6 neigh show dev br0 > /tmp/ipv6_arp'')
                 (tset T node ''g_IPv6_3'' [] (tset T node ''g_IPv6_2'' [] (tset T node ''g_IPv6_1'' [] s)))
      in case w_ipv6_neigh W of
           None \<Rightarrow> Ret (-1, s1)
         | Some t \<Rightarrow>
             cbind (neigh_loop T node (lan_mac_add_dot (mac (ent s i))) (ip (ent s i)) (getline_all t) 0 s1) (\<lambda>s2.
               Ret (0, s2)))"

definition sync_ip :: "'s tc_ops \<Rightarrow> string \<Rightarrow> lan_host_entry \<Rightarrow> 's lanhost \<Rightarrow> 's lanhost" where
  "sync_ip T node e s =
     (let s1 = tset T node ''IP'' (if port_bind e \<noteq> 0 then [] else ip e) s
      in if AddressSrc e = 1
         then tset T node ''ExpireTime'' (expireTime e) (tset T node ''ExpireDay'' (expireDay e) (tset T node ''AddressSrc'' ''DHCP'' s1))
         else tset T node ''ExpireTime'' ''0'' (tset T node ''ExpireDay'' ''0'' (tset T node ''AddressSrc'' ''Static'' s1)))"

definition u8_str :: "u8 \<Rightarrow> string" where "u8_str w = nat_str (unat w)"

text \<open>The attributes written before and after the IPv6 addresses.\<close>

definition sync_first :: "'s tc_ops \<Rightarrow> string \<Rightarrow> lan_host_entry \<Rightarrow> u32 \<Rightarrow> 's lanhost \<Rightarrow> 's lanhost" where
  "sync_first T node e flag s =
     if_do (hasf flag SYNC_ADD_IP) (tset T node ''IP'' (ip e))
     (if_do (hasf flag SYNC_UPDATE_IP) (sync_ip T node e)
     (if_do (hasf flag SYNC_UPDATE_MAC) (tset T node ''MAC'' (mac e))
     (if_do (hasf flag SYNC_UPDATE_STATE) (tset T node ''Active'' (u8_str (active e))) s)))"

definition sync_cnt :: "'s tc_ops \<Rightarrow> string \<Rightarrow> lan_host_entry \<Rightarrow> 's lanhost \<Rightarrow> 's lanhost" where
  "sync_cnt T node e s =
     tset T node ''TxBytes'' (nat_str (unat (txbytes e))) (tset T node ''RxBytes'' (nat_str (unat (rxbytes e))) s)"

definition sync_port :: "'s tc_ops \<Rightarrow> string \<Rightarrow> lan_host_entry \<Rightarrow> 's lanhost \<Rightarrow> 's lanhost" where
  "sync_port T node e s =
     tset T node ''PortBind'' (u8_str (port_bind e)) (tset T node ''Port'' (u8_str (port e)) s)"

definition sync_rest :: "'s tc_ops \<Rightarrow> string \<Rightarrow> lan_host_entry \<Rightarrow> u32 \<Rightarrow> 's lanhost \<Rightarrow> 's lanhost" where
  "sync_rest T node e flag s =
     if_do (hasf flag SYNC_UPDATE_DUPLEXMODE) (tset T node ''DuplexMode'' (duplex_mode e))
     (if_do (hasf flag SYNC_UPDATE_NEGORATE) (tset T node ''NegoRate'' (int_str (sint (negorate e))))
     (if_do (hasf flag SYNC_UPDATE_POWER_LEVEL) (tset T node ''PowerLevel'' (int_str (power_level e)))
     (if_do (hasf flag SYNC_UPDATE_CONNTYPE) (tset T node ''ConnectionType'' (u8_str (conn_type e)))
     (if_do (hasf flag SYNC_UPDATE_PORT) (sync_port T node e)
     (if_do (hasf flag SYNC_UPDATE_INACTIVE_TIME) (tset T node ''LatestInactiveTime'' (inactive_time e))
     (if_do (hasf flag SYNC_UPDATE_ACTIVE_TIME) (tset T node ''LatestActiveTime'' (active_time e))
     (if_do (hasf flag SYNC_UPDATE_ONLINE_TIME) (tset T node ''OnlineTime'' (nat_str (unat (online_duration e))))
     (if_do (hasf flag SYNC_UPDATE_HOSTNAME) (tset T node ''HostName'' (basic64_encode (host_name e)))
     (if_do (hasf flag SYNC_UPDATE_CNT) (sync_cnt T node e) s)))))))))"

definition sync_tail :: "'s tc_ops \<Rightarrow> nat \<Rightarrow> u32 \<Rightarrow> 's lanhost \<Rightarrow> 's lanhost" where
  "sync_tail T i flag s =
     (let s1 = if_do (hasf flag SYNC_NEW_ENTRY) (tcommit T LANHost2_Common) s
      in if hasf flag SYNC_ADD_IP then lh_log_act (LanEvent (''add;'' @ nat_str i)) s1
         else if_do (hasf flag (SYNC_UPDATE_IP OR SYNC_UPDATE_IPv6 OR SYNC_UPDATE_PORT))
                (lh_log_act (LanEvent (''update;'' @ nat_str i))) s1)"

definition SYNC_SAVED :: u32 where
  "SYNC_SAVED = SYNC_NEW_ENTRY OR SYNC_DEL_ENTRY OR SYNC_UPDATE_STATE OR SYNC_UPDATE_MAC OR SYNC_UPDATE_HOSTNAME OR
     SYNC_UPDATE_ACTIVE_TIME OR SYNC_UPDATE_INACTIVE_TIME OR SYNC_UPDATE_PORT"

text \<open>\<open>sync_lan_host_info\<close>: an entry whose node was removed by another program is cleared.\<close>

definition sync_lan_host_info :: "lh_world \<Rightarrow> 's tc_ops \<Rightarrow> nat \<Rightarrow> u32 \<Rightarrow> 's lanhost \<Rightarrow> (int \<times> 's lanhost) cres" where
  "sync_lan_host_info W T i flag s0 =
     (let s = if_do (hasf flag SYNC_SAVED) (save_flag_update (\<lambda>_. True)) s0; node = LANHost2_Entry i
      in if flag = 0 then Ret (-1, s)
         else if hasf flag SYNC_DEL_ENTRY
         then Ret (0, tcommit T LANHost2_Common (s\<lparr>lh_store := tc_unset T node (lh_store s)\<rparr>))
         else cbind (if hasf flag SYNC_NEW_ENTRY then Ret (0, []) else tget T 32 node ''MAC'' s) (\<lambda>(r, _).
           if r \<noteq> 0 then Ret (0, upd_ent i (\<lambda>_. zero_entry) s)
           else
             let e = ent s i; s1 = sync_first T node e flag s
             in cbind (if hasf flag SYNC_UPDATE_IPv6 then set_ipv6_from_dhcp_arp W T i s1 else Ret (0, s1)) (\<lambda>(_, s2).
               Ret (0, sync_tail T i flag (sync_rest T node e flag s2)))))"

section \<open>The address of a host\<close>

text \<open>\<open>check_expire_time\<close>: the lease time left, computed at most every three seconds.\<close>

definition expire_strings :: "int \<Rightarrow> string \<times> string" where
  "expire_strings timeLeft =
     (let days = timeLeft sdiv 86400; t = timeLeft smod 86400; hours = t sdiv 3600; t2 = t smod 3600
      in (take 9 (int_str days),
          take 9 (int_str hours @ '':'' @ int_str (t2 sdiv 60) @ '':'' @ int_str (t2 smod 60))))"

definition check_expire_time :: "lh_world \<Rightarrow> nat \<Rightarrow> string \<Rightarrow> 's lanhost \<Rightarrow> 's lanhost cres" where
  "check_expire_time W i lease_time s =
     (let cur = w_monotonic W; left = atoi lease_time - cur
      in if (case gLastGetTime s of None \<Rightarrow> False | Some t \<Rightarrow> cur - t < 3) then Ret s
         else if left < - (2 ^ 31) then Fault IntOverflow
         else Ret (upd_ent i (\<lambda>e. e\<lparr>expireDay := fst (expire_strings left), expireTime := snd (expire_strings left)\<rparr>)
                (s\<lparr>gLastGetTime := Some cur\<rparr>)))"

text \<open>The line of the lease file with the address: MAC, IP, lease time and host name. A field that a
  line lacks keeps what the line before left.\<close>

fun lease_loop :: "string list \<Rightarrow> string \<Rightarrow> string option list \<Rightarrow> string option list option cres" where
  "lease_loop [] new_mac fs = Ret None"
| "lease_loop (l # ls) new_mac fs =
     cbind (scan_words [32, 32, 32, 128] l fs) (\<lambda>(_, fs1).
     cbind (known (fs1 ! 0)) (\<lambda>m.
       if strcasecmp_eq m new_mac then Ret (Some fs1) else lease_loop ls new_mac fs1))"

text \<open>\<open>strncpy\<close> of a host name: 63 bytes are written.\<close>

definition put_host_name :: "string \<Rightarrow> string \<Rightarrow> string" where
  "put_host_name src old =
     (let h = take HOSTNAME_LEN src in h @ replicate (HOSTNAME_LEN - length h) CHR 0x00 @ drop HOSTNAME_LEN old)"

definition set_ip_from_dhcp :: "lh_world \<Rightarrow> 's tc_ops \<Rightarrow> nat \<Rightarrow> 's lanhost \<Rightarrow> (int \<times> 's lanhost) cres" where
  "set_ip_from_dhcp W T i s =
     (case w_udhcp_lease W of
        None \<Rightarrow> Ret (-1, s)
      | Some t \<Rightarrow>
          cbind (lease_loop (fgets_all 98 t) (lan_mac_add_dot (mac (ent s i))) [None, None, None, None]) (\<lambda>found.
            case found of
              None \<Rightarrow> Ret (0, s)
            | Some fs \<Rightarrow>
                cbind (known (fs ! 1)) (\<lambda>new_ip.
                  if hasf (update_flag (ent s i)) HOST_NAME_FLAG \<and> strcasecmp_eq (ip (ent s i)) new_ip then Ret (1, s)
                  else
                    cbind (known (fs ! 3)) (\<lambda>name.
                    cbind (known (fs ! 2)) (\<lambda>lease_time.
                    cbind (check_expire_time W i lease_time
                             (upd_ent i (\<lambda>e. e\<lparr>host_name := put_host_name name (host_name e), ip := take IP_ADDR_LEN new_ip,
                                update_flag := update_flag e OR (HOST_NAME_FLAG OR IP_FLAG)\<rparr>) s)) (\<lambda>s1.
                    cbind (sync_lan_host_info W T i (SYNC_UPDATE_IP OR SYNC_UPDATE_HOSTNAME)
                             (upd_ent i (\<lambda>e. e\<lparr>AddressSrc := 1\<rparr>) s1)) (\<lambda>(_, s2).
                      Ret (1, s2))))))))"

text \<open>The first line of the ARP table is its heading.\<close>

fun arp_loop :: "string list \<Rightarrow> string \<Rightarrow> string option list \<Rightarrow> string option cres" where
  "arp_loop [] new_mac fs = Ret None"
| "arp_loop (l # ls) new_mac fs =
     cbind (scan_words [32, 32, 32, 32, 32, 32] l fs) (\<lambda>(_, fs1).
     cbind (known (fs1 ! 0)) (\<lambda>a.
       if a = [] then arp_loop ls new_mac fs1
       else
     cbind (known (fs1 ! 5)) (\<lambda>dev.
       if \<not> strcasecmp_eq dev ''br0'' then arp_loop ls new_mac fs1
       else
     cbind (known (fs1 ! 3)) (\<lambda>hw.
       if strcasecmp_eq hw new_mac then Ret (Some a) else arp_loop ls new_mac fs1))))"

definition set_ip_from_arp :: "lh_world \<Rightarrow> 's tc_ops \<Rightarrow> nat \<Rightarrow> 's lanhost \<Rightarrow> (int \<times> 's lanhost) cres" where
  "set_ip_from_arp W T i s =
     (if hasf (update_flag (ent s i)) IP_FLAG \<and> ip (ent s i) \<noteq> [] then Ret (1, s)
      else case w_arp W of
             None \<Rightarrow> Ret (0, s)
           | Some t \<Rightarrow>
               cbind (arp_loop (tl (fgets_all 254 t)) (lan_mac_add_dot (mac (ent s i))) [None, None, None, None, None, None]) (\<lambda>found.
                 case found of
                   None \<Rightarrow> Ret (0, s)
                 | Some a \<Rightarrow>
                     cbind (sync_lan_host_info W T i SYNC_UPDATE_IP
                              (upd_ent i (\<lambda>e. e\<lparr>ip := take IP_ADDR_LEN a, update_flag := update_flag e OR IP_FLAG, AddressSrc := 0\<rparr>) s)) (\<lambda>(_, s1).
                       Ret (1, s1))))"

definition set_lan_host_entry :: "lh_world \<Rightarrow> 's tc_ops \<Rightarrow> nat \<Rightarrow> 's lanhost \<Rightarrow> (int \<times> 's lanhost) cres" where
  "set_lan_host_entry W T i s =
     cbind (set_ip_from_dhcp W T i s) (\<lambda>(r, s1).
       if r = 1 then Ret (0, s1)
       else cbind (set_ip_from_arp W T i s1) (\<lambda>(r2, s2). Ret (if r2 = 1 then 0 else -1, s2)))"

end
