(* ===== verification/LanHostOps.thy ===== *)
theory LanHostOps
  imports LanHost
begin

text \<open>
  Finding, adding and removing hosts, and switching them on and off (\<open>lan_host_mgr/lan_host_api.c\<close>).
\<close>

section \<open>Searching the table\<close>

text \<open>The number of hosts and the size of the table the configuration allows; a missing limit is 0.\<close>

definition read_num :: "'s tc_ops \<Rightarrow> string \<Rightarrow> 's lanhost \<Rightarrow> int cres" where
  "read_num T attr s = cbind (tget T 8 LANHost2_Common attr s) (\<lambda>(_, v). Ret (if v = [] then 0 else atoi v))"

definition read_limits :: "'s tc_ops \<Rightarrow> 's lanhost \<Rightarrow> (int \<times> int) cres" where
  "read_limits T s =
     cbind (read_num T ''LANHostNumber'' s) (\<lambda>n.
     cbind (read_num T ''LANHostMaxNumber'' s) (\<lambda>m. Ret (n, min m (int (max_lan_host_num s)))))"

text \<open>Whether entry \<open>i\<close> is the new candidate for replacement: it is offline, its time is below the
  smallest so far, and the user does not control the host.\<close>

definition replaceable :: "'s tc_ops \<Rightarrow> nat \<Rightarrow> u32 \<Rightarrow> 's lanhost \<Rightarrow> bool cres" where
  "replaceable T i off_time s =
     (let e = ent s i
      in if active e = 0 \<and> 0 < offline_time e \<and> offline_time e < off_time
         then cbind (tget T 4 (''LanHost2_Entry'' @ nat_str i) ''ControlStatus'' s) (\<lambda>(_, v). Ret (v \<noteq> ''1''))
         else Ret False)"

text \<open>\<open>check_mac_exist\<close> on the entries \<open>is\<close>. \<open>Inl i\<close>: entry \<open>i\<close> is the host and has no address, which is
  treated as not found; \<open>Inr (found, latest_inactive_index, empty_index)\<close> otherwise.\<close>

fun mac_scan :: "'s tc_ops \<Rightarrow> string \<Rightarrow> nat list \<Rightarrow> u32 \<Rightarrow> int \<Rightarrow> bool \<Rightarrow> int \<Rightarrow> 's lanhost \<Rightarrow>
  ((nat + bool \<times> int \<times> int) \<times> 's lanhost) cres" where
  "mac_scan T new_mac [] off_time latest seen slot s = Ret (Inr (False, latest, slot), s)"
| "mac_scan T new_mac (i # is) off_time latest seen slot s =
     cbind (replaceable T i off_time s) (\<lambda>repl.
       let e = ent s i;
           off_time' = (if repl then offline_time e else off_time);
           latest' = (if repl then int i else latest)
       in if valid e
          then if strcasecmp_eq (mac e) new_mac
               then if ip e = [] \<and> port_bind e = 0 then Ret (Inl i, s)
                    else Ret (Inr (True, latest', slot), if_do (exist e = 0) (upd_ent i (exist_update (\<lambda>_. 1))) s)
               else mac_scan T new_mac is off_time' latest' seen slot s
          else mac_scan T new_mac is off_time' latest' True (if seen then slot else int i) s)"

text \<open>The result and the variable \<open>empty_index\<close> of the caller afterwards.\<close>

definition check_mac_exist :: "'s tc_ops \<Rightarrow> string \<Rightarrow> int \<Rightarrow> 's lanhost \<Rightarrow> ((bool \<times> int) \<times> 's lanhost) cres" where
  "check_mac_exist T dev_mac empty_index s =
     cbind (read_limits T s) (\<lambda>(n, m).
     cbind (mac_scan T (lan_mac_rm_dot dev_mac) [0..<nat m] OFFLINE_TIME (-1) False empty_index s) (\<lambda>(r, s1).
       case r of
         Inl i \<Rightarrow> Ret ((False, int i), s1)
       | Inr (found, latest, slot) \<Rightarrow> Ret ((found, if m = n then latest else slot), s1)))"

fun empty_scan :: "'s tc_ops \<Rightarrow> nat list \<Rightarrow> u32 \<Rightarrow> nat option \<Rightarrow> 's lanhost \<Rightarrow> (nat option \<times> nat option) cres" where
  "empty_scan T [] off_time latest s = Ret (None, latest)"
| "empty_scan T (i # is) off_time latest s =
     cbind (replaceable T i off_time s) (\<lambda>repl.
       if \<not> valid (ent s i) then Ret (Some i, latest)
       else empty_scan T is (if repl then offline_time (ent s i) else off_time) (if repl then Some i else latest) s)"

definition find_empty_lan_host_entry :: "'s tc_ops \<Rightarrow> 's lanhost \<Rightarrow> nat option cres" where
  "find_empty_lan_host_entry T s =
     cbind (read_limits T s) (\<lambda>(n, m).
     cbind (empty_scan T [0..<nat m] OFFLINE_TIME None s) (\<lambda>(e, latest).
       Ret (case e of Some i \<Rightarrow> Some i | None \<Rightarrow> if m = n then latest else None)))"

definition find_lan_host_entry_by_mac :: "string \<Rightarrow> 's lanhost \<Rightarrow> nat option" where
  "find_lan_host_entry_by_mac m s = find (\<lambda>i. strcasecmp_eq (mac (ent s i)) m) [0..<max_lan_host_num s]"

definition get_lan_host_cnt_by_mac :: "lh_world \<Rightarrow> 's tc_ops \<Rightarrow> string \<Rightarrow> u64 \<times> u64 \<Rightarrow> 's lanhost \<Rightarrow> (u64 \<times> u64) cres" where
  "get_lan_host_cnt_by_mac W T m cnt s =
     cbind (tget T 8 LANHost2_Common ''EnableStats'' s) (\<lambda>(_, v). Ret (w_traffic W (atoi v) m cnt))"

section \<open>LAN ports\<close>

definition Wan_Node :: "nat \<Rightarrow> nat \<Rightarrow> string" where
  "Wan_Node i j = ''Wan_PVC'' @ nat_str i @ ''_Entry'' @ nat_str j"

text \<open>The first bridged connection decides; its attribute \<open>LANn\<close> says whether the port is bound to it.\<close>

fun bind_scan :: "'s tc_ops \<Rightarrow> string \<Rightarrow> (nat \<times> nat) list \<Rightarrow> 's lanhost \<Rightarrow> string cres" where
  "bind_scan T lanName [] s = Ret []"
| "bind_scan T lanName ((i, j) # ps) s =
     cbind (tget T 32 (Wan_Node i j) ''ServiceList'' s) (\<lambda>(_, service).
     cbind (tget T 32 (Wan_Node i j) ''WanMode'' s) (\<lambda>(_, mode).
       if service = ''OTHER'' \<and> mode = ''Bridge''
       then cbind (tget T 32 (Wan_Node i j) lanName s) (\<lambda>(_, b). Ret b)
       else bind_scan T lanName ps s))"

definition get_lan_port_bind :: "'s tc_ops \<Rightarrow> int \<Rightarrow> 's lanhost \<Rightarrow> u8 cres" where
  "get_lan_port_bind T p s =
     cbind (bind_scan T (''LAN'' @ int_str p) (List.product [0..<8] [0..<8]) s) (\<lambda>b.
       Ret (if b = ''Yes'' then 1 else 0))"

text \<open>The lines of \<open>eth_portmap\<close> between the two headings map LAN ports to switch ports.\<close>

fun portmap_loop :: "string list \<Rightarrow> bool \<Rightarrow> int list \<Rightarrow> int list" where
  "portmap_loop [] started sw = sw"
| "portmap_loop (l # ls) started sw =
     (if strstr l ''switch_port_map'' \<noteq> None then sw
      else if strstr l ''lan_port_map'' \<noteq> None then portmap_loop ls True sw
      else if \<not> started then portmap_loop ls started sw
      else case scan_int l of
             None \<Rightarrow> portmap_loop ls started sw
           | Some (a, r) \<Rightarrow>
               (case scan_int r of
                  None \<Rightarrow> portmap_loop ls started sw
                | Some (b, _) \<Rightarrow> portmap_loop ls started (if 0 \<le> a \<and> a \<le> 6 then sw[nat a := b] else sw)))"

text \<open>\<open>sscanf(buf, "%s : %s", port_buf, link_rate)\<close>: the new \<open>link_rate\<close>.\<close>

definition scan_rate :: "string \<Rightarrow> string \<Rightarrow> string cres" where
  "scan_rate l old =
     (case scan_word l of
        None \<Rightarrow> Ret old
      | Some (w, r) \<Rightarrow>
          if 64 \<le> length w then Fault BufferOverflow
          else let r' = dropWhile is_space r
               in if r' = [] \<or> hd r' \<noteq> CHR '':'' then Ret old
                  else (case scan_word (tl r') of
                          None \<Rightarrow> Ret old
                        | Some (v, _) \<Rightarrow> if 64 \<le> length v then Fault BufferOverflow else Ret v))"

text \<open>The rate on the line of port \<open>k\<close>, or the last one when there is no such line, and the number of
  lines passed.\<close>

fun link_loop :: "string list \<Rightarrow> int \<Rightarrow> int \<Rightarrow> string \<Rightarrow> (string \<times> int) cres" where
  "link_loop [] k n rate = Ret (rate, n)"
| "link_loop (l # ls) k n rate =
     (if strstr l ''Port'' = None then link_loop ls k n rate
      else cbind (scan_rate l rate) (\<lambda>rate'.
        if k = n then Ret (rate', n) else link_loop ls k (n + 1) rate'))"

definition rate_of :: "string \<Rightarrow> u32 \<Rightarrow> u32" where
  "rate_of link_rate old =
     (let real_rate = takeWhile (\<lambda>c. c \<noteq> CHR ''/'') link_rate
      in if real_rate = ''10M'' then 10000
         else if real_rate = ''100M'' then 100000
         else if real_rate = ''1000M'' then 1000000
         else old)"

definition get_lan_port_negorate :: "lh_world \<Rightarrow> int \<Rightarrow> 's lanhost \<Rightarrow> (u32 \<times> 's lanhost) cres" where
  "get_lan_port_negorate W p s =
     (case w_eth_portmap W of
        None \<Rightarrow> Ret (0, s)
      | Some t \<Rightarrow>
          let sw = portmap_loop (fgets_all 158 t) False (replicate 7 (-1)); k = nat (p - 1); old = lan_port_rate s ! k
          in if p < 1 \<or> int LAN_PORT_NUM < p then Fault ReadPastEnd
             else if 0 < old then Ret (old, s)
             else case w_gsw_link_st W of
                    None \<Rightarrow> Ret (0, s)
                  | Some l \<Rightarrow>
                      cbind (link_loop (fgets_all 126 l) (sw ! k) 0 []) (\<lambda>(link_rate, _).
                        Ret (rate_of link_rate old, s\<lparr>lan_port_rate := (lan_port_rate s)[k := rate_of link_rate old]\<rparr>)))"

definition duplex_of :: "string \<Rightarrow> string" where
  "duplex_of link_rate =
     (let r = dropWhile (\<lambda>c. c \<noteq> CHR ''/'') link_rate;
          real_duplex = (if takeWhile (\<lambda>c. c \<noteq> CHR ''/'') link_rate = [] then [] else takeWhile (\<lambda>c. c \<noteq> CHR '' '') (tl r))
      in if real_duplex = ''Half'' then ''Half'' else if real_duplex = ''Full'' then ''Full'' else ''Auto'')"

definition get_lan_port_duplexmode :: "lh_world \<Rightarrow> int \<Rightarrow> 's lanhost \<Rightarrow> (string option \<times> 's lanhost) cres" where
  "get_lan_port_duplexmode W p s =
     (if 4 < p \<or> p < 1 then Ret (None, s)
      else case w_gsw_link_st W of
             None \<Rightarrow> Ret (None, s)
           | Some l \<Rightarrow>
               cbind (link_loop (fgets_all 126 l) p 0 []) (\<lambda>(link_rate, n).
                 let d = (if p \<noteq> n then ''Auto'' else duplex_of link_rate)
                 in Ret (Some d, s\<lparr>lan_port_duplex := (lan_port_duplex s)[nat (p - 1) := d]\<rparr>)))"

text \<open>The negotiated rate and the duplex mode of the port of entry \<open>i\<close>; \<open>None\<close> when the mode cannot be
  read. The rate is stored before the mode is looked up.\<close>

definition set_link :: "lh_world \<Rightarrow> nat \<Rightarrow> int \<Rightarrow> 's lanhost \<Rightarrow> (bool \<times> 's lanhost) cres" where
  "set_link W i p s =
     cbind (get_lan_port_negorate W p s) (\<lambda>(r, s1).
     cbind (get_lan_port_duplexmode W p (upd_ent i (negorate_update (\<lambda>_. r)) s1)) (\<lambda>(d, s2).
       case d of
         None \<Rightarrow> Ret (False, s2)
       | Some t \<Rightarrow> Ret (True, upd_ent i (duplex_mode_update (\<lambda>_. take DUPLEX_LEN t)) s2)))"

section \<open>Adding and removing\<close>

definition LINK_FLAGS :: u32 where "LINK_FLAGS = SYNC_UPDATE_NEGORATE OR SYNC_UPDATE_DUPLEXMODE"

definition add_lan_host :: "lh_world \<Rightarrow> 's tc_ops \<Rightarrow> nat option \<Rightarrow> string \<Rightarrow> u8 \<Rightarrow> int \<Rightarrow> 's lanhost \<Rightarrow> (int \<times> 's lanhost) cres" where
  "add_lan_host W T idx dev_mac ctype p s =
     (case idx of
        None \<Rightarrow> Ret (-1, s)
      | Some i \<Rightarrow>
          let new_mac = lan_mac_rm_dot dev_mac
          in cbind (set_lan_host_entry W T i s) (\<lambda>(ip_ret, s1).
            if mac (ent s1 i) = new_mac \<and> ip_ret \<noteq> 0 then Ret (-1, s1)
            else
              let s2 = upd_ent i (\<lambda>e. (if_do (ctype = 0) (\<lambda>e. e\<lparr>exist := 1, active := 1\<rparr>) (e\<lparr>valid := True\<rparr>))
                         \<lparr>mac := take DEV_MAC_ADDR_LEN new_mac, active_time := get_current_time W TIME_LEN,
                          online_time := w_uptime W\<rparr>) s1;
                  moved = (int (unat (port (ent s2 i))) \<noteq> p);
                  s3 = upd_ent i (port_update (\<lambda>_. of_int p)) s2;
                  flag0 = (if moved then SYNC_UPDATE_PORT else 0)
              in cbind (if ctype = 0 then cbind (get_lan_port_bind T p s3) (\<lambda>b. Ret (upd_ent i (port_bind_update (\<lambda>_. b)) s3))
                        else Ret s3) (\<lambda>s4.
                 let s5 = upd_ent i (\<lambda>e. if_do (ctype = 0 \<or> ip_ret = 0) (\<lambda>e. e\<lparr>active := 1, exist := 1\<rparr>) (e\<lparr>conn_type := ctype\<rparr>)) s4
                 in cbind (if ctype = 0 then set_link W i p s5 else Ret (True, s5)) (\<lambda>(ok, s6).
                    if \<not> ok then Ret (-1, s6)
                    else
                      cbind (sync_lan_host_info W T i
                               (flag0 OR (if ctype = 0 then LINK_FLAGS else 0) OR SYNC_NEW_ENTRY OR SYNC_UPDATE_STATE OR
                                SYNC_UPDATE_MAC OR SYNC_UPDATE_CONNTYPE OR SYNC_UPDATE_ACTIVE_TIME) s6) (\<lambda>(_, s7).
                        Ret (0, lh_log_act (LanEvent (''add;'' @ nat_str i)) s7))))))"

definition del_lan_host :: "lh_world \<Rightarrow> 's tc_ops \<Rightarrow> nat \<Rightarrow> 's lanhost \<Rightarrow> (int \<times> 's lanhost) cres" where
  "del_lan_host W T i s =
     cbind (sync_lan_host_info W T i SYNC_DEL_ENTRY (upd_ent i (\<lambda>_. zero_entry) s)) (\<lambda>(_, s1).
       Ret (0, lh_log_act (LanEvent (''del;'' @ nat_str i)) s1))"

section \<open>Online and offline\<close>

definition online_msg :: "nat \<Rightarrow> lan_host_entry \<Rightarrow> string" where
  "online_msg i e = take 127 (''/com/ctc/igd1/Config/LANHosts/'' @ nat_str (i + 1) @ '';com.ctc.igd1.LANHost;Active:b:'' @
     u8_str (active e) @ '';LatestActiveTime:s:'' @ active_time e)"

definition set_lan_host_online :: "lh_world \<Rightarrow> 's tc_ops \<Rightarrow> nat \<Rightarrow> bool \<Rightarrow> 's lanhost \<Rightarrow> (int \<times> 's lanhost) cres" where
  "set_lan_host_online W T i ip_flag s =
     (if valid (ent s i) \<and> active (ent s i) = 1 then Ret (-1, s)
      else
        let s1 = upd_ent i (valid_update (\<lambda>_. True)) s
        in cbind (if ip_flag
                  then set_lan_host_entry W T i (upd_ent i (update_flag_update (\<lambda>f. f AND NOT IP_FLAG)) s1)
                  else Ret (0, s1)) (\<lambda>(ip_ret, s2).
           let s3 = upd_ent i (\<lambda>e. (if_do (conn_type e = 0 \<or> ip_ret = 0) (active_update (\<lambda>_. 1)) e)
                      \<lparr>active_time := get_current_time W TIME_LEN, online_time := w_uptime W\<rparr>) s2;
               wired = (conn_type (ent s3 i) = 0)
           in cbind (if wired then set_link W i (int (unat (port (ent s3 i)))) s3 else Ret (True, s3)) (\<lambda>(ok, s4).
              if \<not> ok then Ret (-1, s4)
              else
                cbind (sync_lan_host_info W T i
                         ((if wired then LINK_FLAGS else 0) OR SYNC_UPDATE_STATE OR SYNC_UPDATE_ACTIVE_TIME OR SYNC_UPDATE_CONNTYPE) s4) (\<lambda>(_, s5).
                cbind (tget T 32 (LANHost2_Entry i) ''DeviceOnlineNofication'' s5) (\<lambda>(_, v).
                  Ret (0, if_do (atoi v = 1) (lh_log_act (DbusInform (online_msg i (ent s5 i)))) s5))))))"

definition offline_stamp :: "lh_world \<Rightarrow> bool \<Rightarrow> lan_host_entry \<Rightarrow> string" where
  "offline_stamp W initflag e =
     (if \<not> initflag \<or> inactive_time e = [] \<or> strstr (inactive_time e) ''1970-'' \<noteq> None
      then if strstr (active_time e) ''1970-'' = None then w_time_after W (active_time e) (online_duration e)
           else get_current_time W TIME_LEN
      else inactive_time e)"

definition set_lan_host_offline :: "lh_world \<Rightarrow> 's tc_ops \<Rightarrow> nat \<Rightarrow> bool \<Rightarrow> 's lanhost \<Rightarrow> (int \<times> 's lanhost) cres" where
  "set_lan_host_offline W T i initflag s =
     cbind (sync_lan_host_info W T i (SYNC_UPDATE_STATE OR SYNC_UPDATE_IP OR SYNC_UPDATE_INACTIVE_TIME)
              (upd_ent i (\<lambda>e. e\<lparr>active := OFFLINE, ip := [], update_flag := update_flag e AND NOT IP_FLAG AND NOT HOST_NAME_FLAG,
                 inactive_time := offline_stamp W initflag e, offline_time := of_int (w_uptime W),
                 host_name := replicate 64 CHR 0x00\<rparr>) s)) (\<lambda>(_, s1).
       Ret (0, s1))"

end
