(* ===== verification/LanHostMgr.thy ===== *)
theory LanHostMgr
  imports LanHostOps
begin

text \<open>
  The LAN host manager: its start and its periodic check (\<open>lan_host_mgr/lan_host_mgr.c\<close>) and its
  event handlers (\<open>lan_host_mgr/lan_host_msg.c\<close>).
\<close>

section \<open>Start\<close>

text \<open>\<open>sscanf\<close> with four \<open>%d\<close>.\<close>

fun scan_ints :: "string \<Rightarrow> int list \<Rightarrow> int list" where
  "scan_ints t [] = []"
| "scan_ints t (v # vs) = (case scan_int t of None \<Rightarrow> v # vs | Some (n, r) \<Rightarrow> n # scan_ints r vs)"

definition init_lan_port_status :: "lh_world \<Rightarrow> 's lanhost \<Rightarrow> 's lanhost" where
  "init_lan_port_status W s =
     (let line = (case w_eth_port_status W of None \<Rightarrow> [] | Some t \<Rightarrow> (case fgets_all 30 t of [] \<Rightarrow> [] | l # _ \<Rightarrow> l))
      in s\<lparr>lan_port_status := scan_ints line (lan_port_status s), check_flag := replicate (max_lan_host_num s) 10\<rparr>)"

text \<open>\<open>sscanf\<close> with \<open>%u\<close>, 0 when there is no number.\<close>

definition scan_uint :: "string \<Rightarrow> u32" where
  "scan_uint s =
     (let t = dropWhile is_space s;
          neg = (t \<noteq> [] \<and> hd t = CHR ''-'');
          u = (if t \<noteq> [] \<and> (hd t = CHR ''-'' \<or> hd t = CHR ''+'') then tl t else t);
          n = of_int (min (2 ^ 32 - 1) (int (atoi_digits 0 u)))
      in if u = [] \<or> \<not> is_digit (hd u) then 0 else if neg then - n else n)"

definition init_lan_host_entry :: "lh_world \<Rightarrow> 's tc_ops \<Rightarrow> nat \<Rightarrow> 's lanhost \<Rightarrow> (int \<times> 's lanhost) cres" where
  "init_lan_host_entry W T i s =
     (let node = LANHost2_Entry i; get = (\<lambda>a f. cbind (tget T 128 node a s) (\<lambda>(_, v). f v))
      in get ''MAC'' (\<lambda>m. get ''HostName'' (\<lambda>hn.
         cbind (basic64_decode (hn @ replicate (128 - length hn) CHR 0x00) (host_name (ent s i))) (\<lambda>name.
         get ''IP'' (\<lambda>a. get ''ConnectionType'' (\<lambda>ct. get ''Port'' (\<lambda>pt. get ''Active'' (\<lambda>ac.
         get ''LatestActiveTime'' (\<lambda>at. get ''LatestInactiveTime'' (\<lambda>it. get ''OnlineTime'' (\<lambda>ot.
         get ''RxBytes'' (\<lambda>rx. get ''TxBytes'' (\<lambda>tx. get ''PowerLevel'' (\<lambda>pl. get ''DeviceOnlineNofication'' (\<lambda>dn.
           set_lan_host_offline W T i True
             (upd_ent i (\<lambda>e. e\<lparr>mac := take DEV_MAC_ADDR_LEN m, host_name := name, ip := take IP_ADDR_LEN a,
                conn_type := of_int (atoi ct), port := of_int (atoi pt), active := of_int (atoi ac),
                active_time := take (TIME_LEN - 1) at, inactive_time := take (TIME_LEN - 1) it,
                online_duration := scan_uint ot, rxbytes := ucast (scan_uint rx), txbytes := ucast (scan_uint tx),
                power_level := (case scan_int pl of None \<Rightarrow> 0 | Some (n, _) \<Rightarrow> n),
                dev_online_notify := of_int (atoi dn), valid := True\<rparr>) s))))))))))))))))"

fun init_entries :: "lh_world \<Rightarrow> 's tc_ops \<Rightarrow> nat list \<Rightarrow> 's lanhost \<Rightarrow> 's lanhost cres" where
  "init_entries W T [] s = Ret s"
| "init_entries W T (i # is) s =
     cbind (tget T 13 (LANHost2_Entry i) ''MAC'' s) (\<lambda>(r, _).
       if r \<noteq> 0 then init_entries W T is s
       else cbind (init_lan_host_entry W T i s) (\<lambda>(_, s1). init_entries W T is s1))"

definition init_lan_host_info :: "lh_world \<Rightarrow> 's tc_ops \<Rightarrow> 's lanhost \<Rightarrow> 's lanhost cres" where
  "init_lan_host_info W T s =
     (let n = max_lan_host_num s
      in init_entries W T [0..<n] (s\<lparr>lan_host_entry := replicate n zero_entry\<rparr>))"

definition NEIGH_FLUSH :: string where
  "NEIGH_FLUSH = ''/usr/bin/ip neigh flush dev br0 2>/dev/null''"

text \<open>What \<open>main\<close> does before its loop, and the period of the check in seconds.\<close>

definition chk_period :: "'s tc_ops \<Rightarrow> 's lanhost \<Rightarrow> int cres" where
  "chk_period T s =
     cbind (tget T 10 ''Sys_Entry'' ''lanhost_chk_period'' s) (\<lambda>(r, v).
       Ret (if r = 0 \<and> 0 < atoi v \<and> atoi v \<le> 20 then atoi v else 2))"

definition lan_host_mgr_start :: "lh_world \<Rightarrow> 's tc_ops \<Rightarrow> 's lanhost \<Rightarrow> (int \<times> 's lanhost) cres" where
  "lan_host_mgr_start W T s =
     cbind (chk_period T s) (\<lambda>p.
     cbind (init_lan_host_info W T (init_lan_port_status W s)) (\<lambda>s1.
       Ret (p, lh_log_act (Run NEIGH_FLUSH) (tset T ''wifiMacTab_Common'' ''lanhostdone'' ''1'' s1))))"

section \<open>The periodic check\<close>

definition station_mac :: "u8 list \<Rightarrow> string" where
  "station_mac addr = concat (map (\<lambda>b. hex2 (unat b)) (take 6 addr))"

definition wifi_find_by_mactab :: "u8 list list \<Rightarrow> lan_host_entry \<Rightarrow> bool" where
  "wifi_find_by_mactab tab e \<longleftrightarrow> (\<exists>a \<in> set tab. strcasecmp_eq (mac e) (station_mac a))"

definition wlan_node :: "lh_world \<Rightarrow> nat \<Rightarrow> string" where
  "wlan_node W i = (if i < w_wlan_ports W then ''WLan_Entry'' @ nat_str i else ''WLan11ac_Entry'' @ nat_str (i - w_wlan_ports W))"

fun wifi_scan :: "lh_world \<Rightarrow> 's tc_ops \<Rightarrow> lan_host_entry \<Rightarrow> nat list \<Rightarrow> 's lanhost \<Rightarrow> bool cres" where
  "wifi_scan W T e [] s = Ret False"
| "wifi_scan W T e (i # is) s =
     cbind (tget T 16 (wlan_node W i) ''EnableSSID'' s) (\<lambda>(r, v).
       if r < 0 \<or> v = ''0'' then wifi_scan W T e is s
       else if wifi_find_by_mactab (w_stations W i) e then Ret True
       else wifi_scan W T e is s)"

definition wifi_exsit_check :: "lh_world \<Rightarrow> 's tc_ops \<Rightarrow> lan_host_entry \<Rightarrow> 's lanhost \<Rightarrow> bool cres" where
  "wifi_exsit_check W T e s = wifi_scan W T e [0..<w_bssids W] s"

text \<open>The lines of \<open>stb_list\<close>: hosts on the four LAN ports that are not in the table are added. The
  variables \<open>port\<close>, \<open>mac\<close> and \<open>empty_index\<close> keep their values from line to line.\<close>

fun stb_loop :: "lh_world \<Rightarrow> 's tc_ops \<Rightarrow> string list \<Rightarrow> int \<times> string \<Rightarrow> int \<Rightarrow> 's lanhost \<Rightarrow> (int \<times> 's lanhost) cres" where
  "stb_loop W T [] pm slot s = Ret (fst pm, s)"
| "stb_loop W T (l # ls) pm slot s =
     cbind (scan_stb l pm) (\<lambda>(p, m).
     cbind (check_mac_exist T m slot s) (\<lambda>((found, slot1), s1).
     cbind (if \<not> found \<and> 1 \<le> p \<and> p \<le> 4 \<and> slot1 \<noteq> -1
            then add_lan_host W T (Some (nat slot1)) m 0 p s1 else Ret (0, s1)) (\<lambda>(_, s2).
       stb_loop W T ls (p, m) slot1 s2)))"

text \<open>The parts of the loop over the entries: a host that is online gets its counters and its time;
  one that is not is looked for while \<open>check_flag\<close> runs.\<close>

definition update_online :: "lh_world \<Rightarrow> 's tc_ops \<Rightarrow> nat \<Rightarrow> u64 \<times> u64 \<Rightarrow> 's lanhost \<Rightarrow> ((u64 \<times> u64) \<times> 's lanhost) cres" where
  "update_online W T i cnt s =
     cbind (get_lan_host_cnt_by_mac W T (mac (ent s i)) cnt s) (\<lambda>cnt1.
     cbind (sync_lan_host_info W T i (SYNC_UPDATE_CNT OR SYNC_UPDATE_ONLINE_TIME)
              (upd_ent i (\<lambda>e. e\<lparr>rxbytes := fst cnt1, txbytes := snd cnt1,
                 online_duration := of_int (w_uptime W - online_time e)\<rparr>) s)) (\<lambda>(_, s1).
       Ret (cnt1, s1)))"

definition come_back :: "lh_world \<Rightarrow> 's tc_ops \<Rightarrow> nat \<Rightarrow> int \<Rightarrow> int \<Rightarrow> 's lanhost \<Rightarrow> 's lanhost cres" where
  "come_back W T i stale_port lan_port s =
     cbind (if lan_port \<noteq> int (unat (port (ent s i)))
            then cbind (get_lan_port_bind T stale_port s) (\<lambda>b.
                   sync_lan_host_info W T i SYNC_UPDATE_PORT (upd_ent i (\<lambda>e. e\<lparr>port := of_int lan_port, port_bind := b\<rparr>) s))
            else Ret (0, s)) (\<lambda>(_, s1).
     cbind (set_lan_host_online W T i True s1) (\<lambda>(_, s2).
       Ret (s2\<lparr>check_flag := (check_flag s2)[i := 0]\<rparr>)))"

definition check_offline :: "lh_world \<Rightarrow> 's tc_ops \<Rightarrow> nat \<Rightarrow> int \<Rightarrow> 's lanhost \<Rightarrow> 's lanhost cres" where
  "check_offline W T i stale_port s =
     cbind (if valid (ent s i) \<and> conn_type (ent s i) = 0
            then cbind (get_lan_port_by_mac W (mac (ent s i))) (\<lambda>lan_port.
                   if 1 \<le> lan_port \<and> lan_port \<le> 4 \<and> lan_port_status s ! nat (lan_port - 1) = 1
                   then cbind (set_lan_host_entry W T i s) (\<lambda>(r, s1).
                          if r = 0 \<or> port_bind (ent s1 i) \<noteq> 0 then come_back W T i stale_port lan_port s1 else Ret s1)
                   else Ret s)
            else Ret s) (\<lambda>s2.
       Ret (s2\<lparr>check_flag := (check_flag s2)[i := check_flag s2 ! i - 1]\<rparr>))"

definition check_gone :: "lh_world \<Rightarrow> 's tc_ops \<Rightarrow> nat \<Rightarrow> 's lanhost \<Rightarrow> 's lanhost cres" where
  "check_gone W T i s =
     (let e = ent s i
      in if valid e \<and> active e = 1 \<and> exist e = 0
         then cbind (if conn_type e = 0 then Ret False else wifi_exsit_check W T e s) (\<lambda>there.
                if there then Ret s else cbind (set_lan_host_offline W T i False s) (\<lambda>(_, s1). Ret s1))
         else Ret s)"

definition check_expired :: "lh_world \<Rightarrow> 's tc_ops \<Rightarrow> nat \<Rightarrow> 's lanhost \<Rightarrow> 's lanhost cres" where
  "check_expired W T i s =
     (let e = ent s i
      in if valid e \<and> active e = 0 \<and> OFFLINE_TIME < of_int (w_uptime W) - offline_time e
         then cbind (del_lan_host W T i s) (\<lambda>(_, s1). Ret s1) else Ret s)"

definition check_entry :: "lh_world \<Rightarrow> 's tc_ops \<Rightarrow> int \<Rightarrow> nat \<Rightarrow> u64 \<times> u64 \<Rightarrow> 's lanhost \<Rightarrow> ((u64 \<times> u64) \<times> 's lanhost) cres" where
  "check_entry W T stale_port i cnt s =
     cbind (if valid (ent s i) \<and> active (ent s i) = 1 then update_online W T i cnt s
            else if 0 < check_flag s ! i then cbind (check_offline W T i stale_port s) (\<lambda>s1. Ret (cnt, s1))
            else Ret (cnt, s)) (\<lambda>(cnt1, s1).
     cbind (check_gone W T i s1) (\<lambda>s2.
     cbind (check_expired W T i s2) (\<lambda>s3. Ret (cnt1, s3))))"

fun check_entries :: "lh_world \<Rightarrow> 's tc_ops \<Rightarrow> int \<Rightarrow> nat list \<Rightarrow> u64 \<times> u64 \<Rightarrow> 's lanhost \<Rightarrow> 's lanhost cres" where
  "check_entries W T stale_port [] cnt s = Ret s"
| "check_entries W T stale_port (i # is) cnt s =
     cbind (check_entry W T stale_port i cnt s) (\<lambda>(cnt1, s1). check_entries W T stale_port is cnt1 s1)"

definition clear_exist :: "'s lanhost \<Rightarrow> 's lanhost" where
  "clear_exist s = s\<lparr>lan_host_entry := map (\<lambda>e. if_do (exist e = 1) (exist_update (\<lambda>_. 0)) e) (lan_host_entry s)\<rparr>"

definition check_lan_host_update :: "lh_world \<Rightarrow> 's tc_ops \<Rightarrow> 's lanhost \<Rightarrow> (int \<times> 's lanhost) cres" where
  "check_lan_host_update W T s =
     (let s1 = clear_exist s
      in case w_stb_list W of
           None \<Rightarrow> Ret (-1, s1)
         | Some t \<Rightarrow>
             cbind (stb_loop W T (fgets_all 126 t) (0, []) (-1) s1) (\<lambda>(p, s2).
             cbind (check_entries W T p [0..<max_lan_host_num s2] (0, 0) s2) (\<lambda>s3.
               Ret (0, if_do (save_flag s3)
                         (\<lambda>u. lh_log_act SaveRaw (lh_log_act LanEventNoData (u\<lparr>save_flag := False\<rparr>))) s3))))"

section \<open>Events of the driver and of other programs\<close>

datatype link_speed = SPEED_10M | SPEED_100M | SPEED_1000M | SPEED_OTHER
datatype link_duplex = HALF_DUPLEX | FULL_DUPLEX | DUPLEX_OTHER

text \<open>The fields of a message between semicolons, cut to the sizes of their arrays.\<close>

definition msg_field :: "string \<Rightarrow> nat \<Rightarrow> nat \<Rightarrow> string" where
  "msg_field data k sz = (let fs = strtok_all CHR '';'' data in if k < length fs then take (sz - 1) (fs ! k) else [])"

definition inc_int :: "int \<Rightarrow> int cres" where
  "inc_int n = (if n = 2 ^ 31 - 1 then Fault IntOverflow else Ret (n + 1))"

definition move_port :: "lh_world \<Rightarrow> 's tc_ops \<Rightarrow> nat \<Rightarrow> int \<Rightarrow> u32 \<Rightarrow> 's lanhost \<Rightarrow> (int \<times> 's lanhost) cres" where
  "move_port W T i p extra s =
     (let moved = (int (unat (port (ent s i))) \<noteq> p)
      in if \<not> moved \<and> extra = 0 then Ret (0, s)
         else sync_lan_host_info W T i ((if moved then SYNC_UPDATE_PORT else 0) OR extra) (upd_ent i (port_update (\<lambda>_. of_int p)) s))"

definition wifi_add :: "lh_world \<Rightarrow> 's tc_ops \<Rightarrow> string \<Rightarrow> int \<Rightarrow> 's lanhost \<Rightarrow> (int \<times> 's lanhost) cres" where
  "wifi_add W T new_mac p s =
     cbind (case find_lan_host_entry_by_mac new_mac s of
              Some i \<Rightarrow>
                cbind (set_lan_host_online W T i True (upd_ent i (conn_type_update (\<lambda>_. 1)) s)) (\<lambda>(_, s1).
                cbind (move_port W T i p 0 s1) (\<lambda>(_, s2).
                cbind (set_lan_host_online W T i True s2) (\<lambda>(_, s3). Ret (Some i, s3))))
            | None \<Rightarrow>
                cbind (find_empty_lan_host_entry T s) (\<lambda>idx.
                cbind (add_lan_host W T idx new_mac 1 p s) (\<lambda>(_, s1). Ret (idx, s1)))) (\<lambda>(idx, s4).
       case idx of
         None \<Rightarrow> Ret (-1, s4)
       | Some i \<Rightarrow> Ret (0, if_do (\<not> hasf (update_flag (ent s4 i)) IP_FLAG \<or> ip (ent s4 i) = [])
                            (upd_ent i (exist_update (\<lambda>_. WIFI_ONLINING))) s4))"

definition wifi_del :: "lh_world \<Rightarrow> 's tc_ops \<Rightarrow> string \<Rightarrow> int \<Rightarrow> 's lanhost \<Rightarrow> (int \<times> 's lanhost) cres" where
  "wifi_del W T new_mac old_ssid_idx s =
     (case find_lan_host_entry_by_mac new_mac s of
        Some i \<Rightarrow>
          cbind (inc_int old_ssid_idx) (\<lambda>p.
            if int (unat (port (ent s i))) = p then set_lan_host_offline W T i False s else Ret (0, s))
      | None \<Rightarrow> Ret (0, s))"

definition wifi_update :: "lh_world \<Rightarrow> 's tc_ops \<Rightarrow> string \<Rightarrow> int \<Rightarrow> string \<Rightarrow> string \<Rightarrow> 's lanhost \<Rightarrow> (int \<times> 's lanhost) cres" where
  "wifi_update W T new_mac old_ssid_idx rssi rate s =
     (case find_lan_host_entry_by_mac new_mac s of
        None \<Rightarrow> Ret (0, s)
      | Some i \<Rightarrow>
          if atoi rate * 1000 < - (2 ^ 31) \<or> 2 ^ 31 - 1 < atoi rate * 1000 then Fault IntOverflow
          else
            cbind (inc_int old_ssid_idx) (\<lambda>p.
            cbind (move_port W T i p (SYNC_UPDATE_POWER_LEVEL OR SYNC_UPDATE_NEGORATE OR SYNC_UPDATE_DUPLEXMODE)
                     (upd_ent i (\<lambda>e. e\<lparr>power_level := atoi rssi, negorate := of_int (atoi rate * 1000)\<rparr>) s)) (\<lambda>(_, s1).
              Ret (0, s1))))"

definition wifi_update_handler :: "lh_world \<Rightarrow> 's tc_ops \<Rightarrow> string \<Rightarrow> 's lanhost \<Rightarrow> (int \<times> 's lanhost) cres" where
  "wifi_update_handler W T data s =
     (let cmd = msg_field data 0 16;
          old_ssid_idx = (case scan_int (msg_field data 1 16) of None \<Rightarrow> 0 | Some (n, _) \<Rightarrow> n);
          new_mac = lan_mac_rm_dot (msg_field data 3 32)
      in if cmd = ''add'' then cbind (inc_int old_ssid_idx) (\<lambda>p. wifi_add W T new_mac p s)
         else if cmd = ''del'' then wifi_del W T new_mac old_ssid_idx s
         else if cmd = ''update''
         then wifi_update W T new_mac old_ssid_idx (msg_field data 4 16) (msg_field data 5 16) s
         else Ret (0, s))"

fun dhcp_all :: "lh_world \<Rightarrow> 's tc_ops \<Rightarrow> nat list \<Rightarrow> 's lanhost \<Rightarrow> 's lanhost cres" where
  "dhcp_all W T [] s = Ret s"
| "dhcp_all W T (i # is) s = cbind (set_ip_from_dhcp W T i s) (\<lambda>(_, s1). dhcp_all W T is s1)"

definition dhcp_reinit_hander :: "lh_world \<Rightarrow> 's tc_ops \<Rightarrow> 's lanhost \<Rightarrow> (int \<times> 's lanhost) cres" where
  "dhcp_reinit_hander W T s = cbind (dhcp_all W T [0..<max_lan_host_num s] s) (\<lambda>s1. Ret (0, s1))"

definition speed_rate :: "link_speed \<Rightarrow> u32 \<Rightarrow> u32" where
  "speed_rate v old = (case v of SPEED_10M \<Rightarrow> 10000 | SPEED_100M \<Rightarrow> 100000 | SPEED_1000M \<Rightarrow> 1000000 | SPEED_OTHER \<Rightarrow> old)"

definition duplex_str :: "link_duplex \<Rightarrow> string" where
  "duplex_str d = (case d of HALF_DUPLEX \<Rightarrow> ''Half'' | FULL_DUPLEX \<Rightarrow> ''Full'' | DUPLEX_OTHER \<Rightarrow> ''Auto'')"

definition lan_up_handler :: "int \<Rightarrow> link_speed \<Rightarrow> link_duplex \<Rightarrow> 's lanhost \<Rightarrow> (int \<times> 's lanhost) cres" where
  "lan_up_handler p v d s =
     (if p < 0 \<or> int LAN_PORT_NUM \<le> p then Fault BufferOverflow
      else let k = nat p
           in Ret (0, lh_log_act (Run NEIGH_FLUSH)
                (s\<lparr>lan_port_status := (lan_port_status s)[k := 1],
                   lan_port_rate := (lan_port_rate s)[k := speed_rate v (lan_port_rate s ! k)],
                   lan_port_duplex := (lan_port_duplex s)[k := duplex_str d],
                   check_flag := replicate (max_lan_host_num s) 3\<rparr>)))"

definition on_port :: "int \<Rightarrow> lan_host_entry \<Rightarrow> bool" where
  "on_port p e \<longleftrightarrow> valid e \<and> active e \<noteq> 0 \<and> conn_type e = 0 \<and> int (unat (port e)) = p + 1"

fun down_all :: "lh_world \<Rightarrow> 's tc_ops \<Rightarrow> int \<Rightarrow> nat list \<Rightarrow> 's lanhost \<Rightarrow> 's lanhost cres" where
  "down_all W T p [] s = Ret s"
| "down_all W T p (i # is) s =
     cbind (if on_port p (ent s i) then cbind (set_lan_host_offline W T i False s) (\<lambda>(_, s1). Ret s1) else Ret s) (\<lambda>s2.
       down_all W T p is s2)"

definition lan_down_handler :: "lh_world \<Rightarrow> 's tc_ops \<Rightarrow> int \<Rightarrow> 's lanhost \<Rightarrow> (int \<times> 's lanhost) cres" where
  "lan_down_handler W T p s =
     (if p < 0 \<or> int LAN_PORT_NUM \<le> p then Fault BufferOverflow
      else cbind (down_all W T p [0..<max_lan_host_num s] (s\<lparr>lan_port_status := (lan_port_status s)[nat p := 0]\<rparr>)) (\<lambda>s1.
        Ret (0, lh_log_act (Run NEIGH_FLUSH) s1)))"

definition alink_entry :: "lh_world \<Rightarrow> 's tc_ops \<Rightarrow> string \<Rightarrow> nat \<Rightarrow> 's lanhost \<Rightarrow> 's lanhost cres" where
  "alink_entry W T ipaddr i s =
     cbind (get_lan_port_by_mac W (mac (ent s i))) (\<lambda>lan_port.
       let e = ent s i
       in if 0 < lan_port \<and> (active e = OFFLINE \<or> ip e = [] \<or> active e = ONLINE \<and> \<not> strcasecmp_eq ipaddr (ip e))
          then
            let wired = (conn_type e = 0 \<and> lan_port \<le> 4)
            in cbind (sync_lan_host_info W T i (SYNC_UPDATE_IP OR (if wired then SYNC_UPDATE_PORT else 0))
                        (upd_ent i (\<lambda>e. if_do wired (port_update (\<lambda>_. of_int lan_port))
                           (e\<lparr>ip := take IP_ADDR_LEN ipaddr, update_flag := update_flag e OR IP_FLAG\<rparr>)) s)) (\<lambda>(_, s1).
               cbind (set_lan_host_online W T i False s1) (\<lambda>(_, s2). Ret s2))
          else Ret s)"

fun alink_all :: "lh_world \<Rightarrow> 's tc_ops \<Rightarrow> string \<Rightarrow> string \<Rightarrow> nat list \<Rightarrow> 's lanhost \<Rightarrow> 's lanhost cres" where
  "alink_all W T ipaddr mac_addr [] s = Ret s"
| "alink_all W T ipaddr mac_addr (i # is) s =
     cbind (if strcasecmp_eq mac_addr (mac (ent s i)) \<and> valid (ent s i) then alink_entry W T ipaddr i s else Ret s) (\<lambda>s1.
       alink_all W T ipaddr mac_addr is s1)"

definition alink_bridge_dev_handler :: "lh_world \<Rightarrow> 's tc_ops \<Rightarrow> string \<Rightarrow> string \<Rightarrow> 's lanhost \<Rightarrow> (int \<times> 's lanhost) cres" where
  "alink_bridge_dev_handler W T ipaddr macaddr s =
     cbind (alink_all W T ipaddr (lan_mac_rm_dot macaddr) [0..<max_lan_host_num s] s) (\<lambda>s1. Ret (0, s1))"

datatype ecnt_event =
    WifiUpdateStaInfo string
  | DhcpReinit
  | EthUp int link_speed link_duplex
  | EthDown int
  | AlinkBridgeDev string string
  | OtherEvent

definition ecnt_dispatch :: "lh_world \<Rightarrow> 's tc_ops \<Rightarrow> ecnt_event \<Rightarrow> 's lanhost \<Rightarrow> (int \<times> 's lanhost) cres" where
  "ecnt_dispatch W T ev s =
     (case ev of
        WifiUpdateStaInfo d \<Rightarrow> wifi_update_handler W T d s
      | DhcpReinit \<Rightarrow> dhcp_reinit_hander W T s
      | EthUp p v d \<Rightarrow> lan_up_handler p v d s
      | EthDown p \<Rightarrow> lan_down_handler W T p s
      | AlinkBridgeDev a m \<Rightarrow> alink_bridge_dev_handler W T a m s
      | OtherEvent \<Rightarrow> Ret (0, s))"

text \<open>\<open>ecnt_event_handler\<close> on the messages that wait in the socket.\<close>

fun ecnt_event_handler :: "lh_world \<Rightarrow> 's tc_ops \<Rightarrow> ecnt_event list \<Rightarrow> 's lanhost \<Rightarrow> (int \<times> 's lanhost) cres" where
  "ecnt_event_handler W T [] s = Ret (-1, s)"
| "ecnt_event_handler W T (ev # evs) s = cbind (ecnt_dispatch W T ev s) (\<lambda>(_, s1). ecnt_event_handler W T evs s1)"

section \<open>Neighbour events\<close>

text \<open>The address is new: it is stored, and for a wired host the port with it.\<close>

definition arp_new_ip :: "lh_world \<Rightarrow> 's tc_ops \<Rightarrow> nat \<Rightarrow> string \<Rightarrow> int \<Rightarrow> 's lanhost \<Rightarrow> (int \<times> 's lanhost) cres" where
  "arp_new_ip W T i abuf lan_port s =
     (let flag = (if ip (ent s i) = [] then SYNC_ADD_IP else SYNC_UPDATE_IP);
          s1 = upd_ent i (\<lambda>e. e\<lparr>ip := take IP_ADDR_LEN abuf, update_flag := update_flag e OR IP_FLAG\<rparr>) s
      in if conn_type (ent s i) = 0
         then cbind (get_lan_port_bind T lan_port s1) (\<lambda>b.
                sync_lan_host_info W T i (flag OR SYNC_UPDATE_PORT)
                  (upd_ent i (\<lambda>e. e\<lparr>port := of_int lan_port, port_bind := b\<rparr>) s1))
         else sync_lan_host_info W T i flag s1)"

text \<open>An address that becomes known. While the entry is online with this address there is nothing to do:
  the last branch compares the address with the one that was compared before.\<close>

definition arp_ipv4 :: "lh_world \<Rightarrow> 's tc_ops \<Rightarrow> nat \<Rightarrow> string \<Rightarrow> int \<Rightarrow> bool \<Rightarrow> 's lanhost \<Rightarrow> 's lanhost cres" where
  "arp_ipv4 W T i abuf lan_port up s0 =
     (let s = if_do (\<not> strcasecmp_eq (ip (ent s0 i)) abuf) (upd_ent i (update_flag_update (\<lambda>f. f AND NOT IP_FLAG))) s0;
          e = ent s i
      in if active e = OFFLINE \<or> \<not> hasf (update_flag e) IP_FLAG
         then if conn_type e = 1 \<or> conn_type e = 0 \<and> up
              then cbind (if hasf (update_flag e) IP_FLAG then Ret (0, s) else arp_new_ip W T i abuf lan_port s) (\<lambda>(_, s3).
                     if conn_type (ent s3 i) = 0 \<or> exist (ent s3 i) = WIFI_ONLINING
                     then cbind (set_lan_host_online W T i False s3) (\<lambda>(_, s4). Ret s4)
                     else Ret s3)
              else Ret s
         else if IP_ADDR_LEN \<le> length abuf then Fault Indeterminate
         else if strcasecmp_eq abuf (ip e) then Ret s
         else cbind (sync_lan_host_info W T i SYNC_UPDATE_IP (upd_ent i (ip_update (\<lambda>_. abuf)) s)) (\<lambda>(_, s1). Ret s1))"

definition arp_add_handler :: "lh_world \<Rightarrow> 's tc_ops \<Rightarrow> string \<Rightarrow> string \<Rightarrow> int \<Rightarrow> 's lanhost \<Rightarrow> (int \<times> 's lanhost) cres" where
  "arp_add_handler W T lladdr abuf ip_type s =
     (case find (\<lambda>i. strcasecmp_eq (lan_mac_rm_dot lladdr) (mac (ent s i))) [0..<max_lan_host_num s] of
        None \<Rightarrow> Ret (0, s)
      | Some i \<Rightarrow>
          if \<not> valid (ent s i) then Ret (0, s)
          else cbind (get_lan_port_by_mac W (mac (ent s i))) (\<lambda>lan_port.
            let up = (1 \<le> lan_port \<and> lan_port \<le> 4 \<and> lan_port_status s ! nat (lan_port - 1) = 1)
            in if ip_type = 0 then cbind (arp_ipv4 W T i abuf lan_port up s) (\<lambda>s1. Ret (1, s1))
               else if ip_type = 1 \<and> \<not> hasf (update_flag (ent s i)) IPV6_FLAG
               then cbind (sync_lan_host_info W T i SYNC_UPDATE_IPv6 (upd_ent i (update_flag_update (\<lambda>f. f OR IPV6_FLAG)) s)) (\<lambda>(_, s1). Ret (1, s1))
               else Ret (1, s)))"

text \<open>\<open>arp_del_handler\<close> only looks for the entry.\<close>

definition arp_del_handler :: "string \<Rightarrow> string \<Rightarrow> 's lanhost \<Rightarrow> int" where
  "arp_del_handler lladdr abuf s =
     (if \<exists>i < max_lan_host_num s. strcasecmp_eq (lan_mac_rm_dot lladdr) (mac (ent s i)) \<and> strcasecmp_eq abuf (ip (ent s i))
      then 1 else 0)"

datatype neigh_kind = RTM_NEWNEIGH | RTM_DELNEIGH | RTM_OTHER
datatype addr_family = AF_INET | AF_INET6 | AF_OTHER

text \<open>A neighbour message: its kind, its family, the link-layer address when it has one, and the address
  as \<open>inet_ntop\<close> prints it, \<open>None\<close> when it cannot. A message without link-layer address is handled with
  the addresses of the message before.\<close>

record neigh_msg =
  nm_kind :: neigh_kind
  nm_family :: addr_family
  nm_lladdr :: "string option"
  nm_dst :: "string option"

definition neigh_vars :: "neigh_msg \<Rightarrow> string \<times> string \<times> int \<Rightarrow> (bool \<times> string \<times> string \<times> int)" where
  "neigh_vars m = (\<lambda>(ll, ab, ty).
     case nm_lladdr m of
       None \<Rightarrow> (True, ll, ab, ty)
     | Some l \<Rightarrow>
         (case nm_dst m of
            None \<Rightarrow> (False, l, ab, ty)
          | Some a \<Rightarrow> (True, l, a, case nm_family m of AF_INET \<Rightarrow> 0 | AF_INET6 \<Rightarrow> 1 | AF_OTHER \<Rightarrow> ty)))"

fun arp_event_handler :: "lh_world \<Rightarrow> 's tc_ops \<Rightarrow> neigh_msg list \<Rightarrow> string \<times> string \<times> int \<Rightarrow> 's lanhost \<Rightarrow> (int \<times> 's lanhost) cres" where
  "arp_event_handler W T [] v s = Ret (-1, s)"
| "arp_event_handler W T (m # ms) v s =
     (case neigh_vars m v of (go, ll, ab, ty) \<Rightarrow>
        cbind (if go \<and> nm_kind m = RTM_NEWNEIGH then arp_add_handler W T ll ab ty s else Ret (0, s)) (\<lambda>(_, s1).
          arp_event_handler W T ms (ll, ab, ty) s1))"

end
