(* ===== verification/LanHostStore.thy ===== *)
theory LanHostStore
  imports LanHost
begin

text \<open>
  What the LAN host manager relies on of the configuration, as the locale \<open>host_store\<close>, the commit
  handler of the LAN hosts (\<open>service/cfg/type/cfg_type_lanhost2.c\<close>), and a plain store that meets the
  contract; the object tree meets it in \<open>LanHostTree\<close>.
\<close>

section \<open>The contract\<close>

text \<open>\<open>G\<close> holds of the stores that can occur. Writing to a host keeps the limit of the table, and so do
  deleting a host and a commit; writing an attribute other than the address of a host that is there
  keeps all addresses. Object numbers have 16 bits for the instance: a greater index may lead to
  any other object.\<close>

definition host_nodes :: "string set" where
  "host_nodes = insert ''wifiMacTab_Common'' (range LANHost2_Entry)"

definition MAX_INSTANCE :: nat where "MAX_INSTANCE = 65535"

locale host_store =
  fixes T :: "'s tc_ops" and G :: "'s \<Rightarrow> bool"
  assumes set_keeps: "G s \<Longrightarrow> n \<in> host_nodes \<Longrightarrow> a \<noteq> ''LANHostMaxNumber'' \<Longrightarrow>
      tc_get T s LANHost2_Common ''LANHostMaxNumber'' = Some w \<Longrightarrow> tc_get T (tc_set T n a v s) LANHost2_Common ''LANHostMaxNumber'' = Some w"
    and set_macs: "G s \<Longrightarrow> tc_get T s (LANHost2_Entry i) ''MAC'' = Some m \<Longrightarrow> a \<noteq> ''MAC'' \<Longrightarrow>
      tc_get T (tc_set T (LANHost2_Entry i) a v s) (LANHost2_Entry j) ''MAC'' = tc_get T s (LANHost2_Entry j) ''MAC''"
    and unset_keeps: "G s \<Longrightarrow> i < MAX_INSTANCE \<Longrightarrow> tc_get T s LANHost2_Common ''LANHostMaxNumber'' = Some w \<Longrightarrow>
      tc_get T (tc_unset T (LANHost2_Entry i) s) LANHost2_Common ''LANHostMaxNumber'' = Some w"
    and commit_keeps: "G s \<Longrightarrow> tc_get T s LANHost2_Common ''LANHostMaxNumber'' = Some w \<Longrightarrow>
      tc_get T (tc_commit T LANHost2_Common s) LANHost2_Common ''LANHostMaxNumber'' = Some w"
    and set_good: "G s \<Longrightarrow> n \<in> host_nodes \<Longrightarrow> G (tc_set T n a v s)"
    and unset_good: "G s \<Longrightarrow> i < MAX_INSTANCE \<Longrightarrow> G (tc_unset T (LANHost2_Entry i) s)"
    and commit_good: "G s \<Longrightarrow> G (tc_commit T LANHost2_Common s)"

section \<open>The commit handler\<close>

text \<open>\<open>cfg_type_lanhost_common2_commit\<close> counts the hosts and the controlled hosts. The configuration is
  given by functions that read and write attributes and that create a missing object, and by the
  names of the nodes.\<close>

record 's cfg_access =
  ca_get :: "'s \<Rightarrow> string \<Rightarrow> string \<Rightarrow> string option"
  ca_set :: "string \<Rightarrow> string \<Rightarrow> string \<Rightarrow> 's \<Rightarrow> 's"
  ca_create :: "string \<Rightarrow> 's \<Rightarrow> 's"
  ca_entry :: "nat \<Rightarrow> string"
  ca_common :: string

definition ca_read :: "'s cfg_access \<Rightarrow> 's \<Rightarrow> string \<Rightarrow> string \<Rightarrow> string" where
  "ca_read A s node attr = (case ca_get A s node attr of None \<Rightarrow> [] | Some v \<Rightarrow> take 31 v)"

definition ca_number :: "'s cfg_access \<Rightarrow> 's \<Rightarrow> string \<Rightarrow> int \<Rightarrow> int" where
  "ca_number A s attr dflt = (let v = ca_read A s (ca_common A) attr in if v = [] then dflt else atoi v)"

fun count_hosts :: "'s cfg_access \<Rightarrow> 's \<Rightarrow> int \<Rightarrow> nat list \<Rightarrow> int \<times> int \<Rightarrow> int \<times> int" where
  "count_hosts A s max_ctrl [] hc = hc"
| "count_hosts A s max_ctrl (i # is) (h, c) =
     (if ca_read A s (ca_entry A i) ''MAC'' = [] then count_hosts A s max_ctrl is (h, c)
      else count_hosts A s max_ctrl is
             (h + 1, if c < max_ctrl \<and> atoi (ca_read A s (ca_entry A i) ''ControlStatus'') = 1 then c + 1 else c))"

definition cfg_type_lanhost_common2_commit :: "'s cfg_access \<Rightarrow> 's \<Rightarrow> 's" where
  "cfg_type_lanhost_common2_commit A s =
     (case count_hosts A s (ca_number A s ''ControlListMaxNumber'' 32) [0..<nat (ca_number A s ''LANHostMaxNumber'' 64)] (0, 0) of
        (h, c) \<Rightarrow> ca_set A (ca_common A) ''ControlListNumber'' (int_str c)
                   (ca_set A (ca_common A) ''LANHostNumber'' (int_str h) (ca_create A (ca_common A) s)))"

section \<open>A plain store\<close>

text \<open>Attributes of named nodes; a node that is written appears, and the counters are kept by the handler.\<close>

definition plain_set :: "string \<Rightarrow> string \<Rightarrow> string \<Rightarrow> plain \<Rightarrow> plain" where
  "plain_set n a v s = s(n \<mapsto> (case s n of None \<Rightarrow> [a \<mapsto> v] | Some m \<Rightarrow> m(a \<mapsto> v)))"

definition plain_get :: "plain \<Rightarrow> string \<Rightarrow> string \<Rightarrow> string option" where
  "plain_get s n a = Option.bind (s n) (\<lambda>m. m a)"

definition plain_access :: "plain cfg_access" where
  "plain_access = \<lparr>ca_get = plain_get, ca_set = plain_set, ca_create = (\<lambda>_ s. s), ca_entry = LANHost2_Entry,
     ca_common = LANHost2_Common\<rparr>"

definition plain_tc :: "plain tc_ops" where
  "plain_tc = \<lparr>tc_get = plain_get, tc_set = plain_set, tc_unset = (\<lambda>n s. s(n := None)),
     tc_commit = (\<lambda>n s. if n = LANHost2_Common then cfg_type_lanhost_common2_commit plain_access s else s)\<rparr>"

lemma plain_get_set: "plain_get (plain_set n a v s) m b = (if n = m \<and> a = b then Some v else plain_get s m b)"
  by (auto simp: plain_get_def plain_set_def split: option.split)

lemma plain_get_unset: "plain_get (s(n := None)) m b = (if m = n then None else plain_get s m b)"
  by (simp add: plain_get_def)

lemma node_names: "LANHost2_Entry i \<noteq> LANHost2_Common" "''wifiMacTab_Common'' \<noteq> LANHost2_Common"
  by (auto simp: LANHost2_Entry_def LANHost2_Common_def)

interpretation ph: host_store plain_tc "\<lambda>_. True"
proof unfold_locales
  fix s w
  assume "tc_get plain_tc s LANHost2_Common ''LANHostMaxNumber'' = Some w"
  then show "tc_get plain_tc (tc_commit plain_tc LANHost2_Common s) LANHost2_Common ''LANHostMaxNumber'' = Some w"
    by (simp add: plain_tc_def cfg_type_lanhost_common2_commit_def plain_access_def plain_get_set split: prod.split)
qed (use node_names node_names [symmetric] in \<open>auto simp: plain_tc_def plain_get_set plain_get_unset host_nodes_def\<close>)

end
