(* ===== verification/CPost.thy ===== *)
theory CPost
  imports CPrelude
begin

text \<open>
  What holds of the result of a computation that does not fault, computed along its structure. The
  rules of an operation are collected in \<open>wp\<close>.
\<close>

definition post :: "'a cres \<Rightarrow> ('a \<Rightarrow> bool) \<Rightarrow> bool" where
  "post m P \<longleftrightarrow> (\<forall>a. m = Ret a \<longrightarrow> P a)"

named_theorems wp \<open>rules for the result of an operation\<close>

lemma post_Ret [simp]: "post (Ret a) P \<longleftrightarrow> P a"
  by (simp add: post_def)

lemma post_Fault [simp]: "post (Fault e) P"
  by (simp add: post_def)

lemma post_cbind [simp]: "post (cbind m f) P \<longleftrightarrow> post m (\<lambda>a. post (f a) P)"
  by (cases m) simp_all

lemma post_True: "(\<And>a. P a) \<Longrightarrow> post m P"
  by (simp add: post_def)

lemma post_mono: "post m Q \<Longrightarrow> (\<And>a. Q a \<Longrightarrow> P a) \<Longrightarrow> post m P"
  by (simp add: post_def)

lemma post_snd: "post m (\<lambda>x. R (snd x)) \<Longrightarrow> (\<And>r u. R u \<Longrightarrow> P (r, u)) \<Longrightarrow> post m P"
  by (auto simp: post_def)

lemma post_conj: "post m P \<Longrightarrow> post m Q \<Longrightarrow> post m (\<lambda>x. P x \<and> Q x)"
  by (simp add: post_def)

lemma postD: "post m P \<Longrightarrow> m = Ret a \<Longrightarrow> P a"
  by (simp add: post_def)

lemma postI: "(\<And>a. m = Ret a \<Longrightarrow> P a) \<Longrightarrow> post m P"
  by (simp add: post_def)

end
