(* ===== verification/LanHostInv.thy ===== *)
theory LanHostInv
  imports LanHostMgr LanHostStore CPost
begin

text \<open>
  What the operations on LAN hosts keep: an operation on one entry leaves the others alone, and no
  handler enters a host twice. The lemmas are proved in the locale \<open>host_store\<close>.
\<close>

unbundle bit_operations_syntax

section \<open>Operations on one entry\<close>

definition mac_key :: "lan_host_entry \<Rightarrow> string" where
  "mac_key e = lower (mac e)"

text \<open>The limit of the table in the configuration covers the whole table.\<close>

definition roomy :: "'s tc_ops \<Rightarrow> ('s \<Rightarrow> bool) \<Rightarrow> 's lanhost \<Rightarrow> bool" where
  "roomy T G s \<longleftrightarrow> G (lh_store s) \<and> (\<exists>w. tc_get T (lh_store s) LANHost2_Common ''LANHostMaxNumber'' = Some w \<and>
     int (max_lan_host_num s) \<le> atoi w)"

definition entry_ok :: "lan_host_entry \<Rightarrow> bool" where
  "entry_ok e \<longleftrightarrow> (valid e \<or> mac e = [])"

definition sane :: "'s tc_ops \<Rightarrow> ('s \<Rightarrow> bool) \<Rightarrow> 's lanhost \<Rightarrow> bool" where
  "sane T G s \<longleftrightarrow> roomy T G s \<and> length (check_flag s) = max_lan_host_num s \<and> max_lan_host_num s \<le> MAX_INSTANCE \<and>
     (\<forall>e \<in> set (lan_host_entry s). entry_ok e)"

text \<open>The host is the same and not newly seen, or the entry was cleared.\<close>

definition milder :: "lan_host_entry \<Rightarrow> lan_host_entry \<Rightarrow> bool" where
  "milder e e' \<longleftrightarrow> mac e' = mac e \<and> exist e' \<in> {exist e, 0} \<or> mac e' = [] \<and> exist e' = 0"

lemma milder_refl [simp]: "milder e e"
  by (simp add: milder_def)

lemma milder_trans: "milder e f \<Longrightarrow> milder f g \<Longrightarrow> milder e g"
  by (auto simp: milder_def)

definition tame :: "'s tc_ops \<Rightarrow> ('s \<Rightarrow> bool) \<Rightarrow> nat \<Rightarrow> 's lanhost \<Rightarrow> 's lanhost \<Rightarrow> bool" where
  "tame T G i s s' \<longleftrightarrow>
     length (lan_host_entry s') = length (lan_host_entry s) \<and> length (check_flag s') = length (check_flag s) \<and>
     (\<forall>j. j \<noteq> i \<longrightarrow> ent s' j = ent s j) \<and>
     milder (ent s i) (ent s' i) \<and>
     (entry_ok (ent s i) \<longrightarrow> entry_ok (ent s' i)) \<and>
     (G (lh_store s) \<longrightarrow> G (lh_store s') \<and> (\<forall>w. tc_get T (lh_store s) LANHost2_Common ''LANHostMaxNumber'' = Some w \<longrightarrow>
        tc_get T (lh_store s') LANHost2_Common ''LANHostMaxNumber'' = Some w))"

lemma tame_refl [simp]: "tame T G i s s"
  by (simp add: tame_def)

lemma tame_trans: "tame T G i s t \<Longrightarrow> tame T G i t u \<Longrightarrow> tame T G i s u"
  by (auto simp: tame_def intro: milder_trans)

text \<open>Changes of the other variables, and of fields the relation does not look at.\<close>

lemma tame_vars [simp]:
  "tame T G i s (lh_log_act a u) = tame T G i s u"
  "tame T G i s (u\<lparr>save_flag := b\<rparr>) = tame T G i s u"
  "tame T G i s (u\<lparr>gLastGetTime := g\<rparr>) = tame T G i s u"
  "tame T G i s (u\<lparr>lan_port_rate := r\<rparr>) = tame T G i s u"
  "tame T G i s (u\<lparr>lan_port_duplex := d\<rparr>) = tame T G i s u"
  "tame T G i s (u\<lparr>lan_port_status := z\<rparr>) = tame T G i s u"
  "tame T G i s (u\<lparr>check_flag := (check_flag u)[j := c]\<rparr>) = tame T G i s u"
  by (simp_all add: tame_def lh_log_act_def)

lemma ent_upd: "ent (upd_ent i f s) j = (if j = i \<and> i < length (lan_host_entry s) then f (ent s i) else ent s j)"
  by (cases "i < length (lan_host_entry s)") (simp_all add: upd_ent_def nth_list_update list_update_beyond)

lemma upd_ent_simps [simp]:
  "length (lan_host_entry (upd_ent i f s)) = length (lan_host_entry s)" "check_flag (upd_ent i f s) = check_flag s"
  "lh_store (upd_ent i f s) = lh_store s" "max_lan_host_num (upd_ent i f s) = max_lan_host_num s"
  by (simp_all add: upd_ent_def max_lan_host_num_def)

definition gentle :: "(lan_host_entry \<Rightarrow> lan_host_entry) \<Rightarrow> bool" where
  "gentle f \<longleftrightarrow> (\<forall>e. milder e (f e) \<and> (entry_ok e \<longrightarrow> entry_ok (f e)))"

lemma tame_upd: "gentle f \<Longrightarrow> tame T G i s u \<Longrightarrow> tame T G i s (upd_ent i f u)"
  by (rule tame_trans [of T G i s u]) (auto simp: tame_def gentle_def ent_upd)

lemma gentle_zero: "gentle (\<lambda>_. zero_entry)"
  by (simp add: gentle_def milder_def zero_entry_def entry_ok_def)


lemmas gentle_simps = gentle_def milder_def entry_ok_def if_do_def

text \<open>Only \<open>del_lan_host\<close> synchronises a deletion.\<close>

lemma hasf_or [simp]: "hasf (a OR b) f = (hasf a f \<or> hasf b f)" "\<not> hasf 0 f"
  "hasf (if c then a else b) f = (if c then hasf a f else hasf b f)"
  by (auto simp: hasf_def bit.conj_disj_distrib2 or_eq_0_iff)

lemma no_del [simp]:
  "\<not> hasf SYNC_NEW_ENTRY SYNC_DEL_ENTRY" "\<not> hasf SYNC_UPDATE_STATE SYNC_DEL_ENTRY" "\<not> hasf SYNC_UPDATE_MAC SYNC_DEL_ENTRY"
  "\<not> hasf SYNC_UPDATE_IP SYNC_DEL_ENTRY" "\<not> hasf SYNC_UPDATE_CNT SYNC_DEL_ENTRY" "\<not> hasf SYNC_UPDATE_HOSTNAME SYNC_DEL_ENTRY"
  "\<not> hasf SYNC_UPDATE_ONLINE_TIME SYNC_DEL_ENTRY" "\<not> hasf SYNC_UPDATE_ACTIVE_TIME SYNC_DEL_ENTRY"
  "\<not> hasf SYNC_UPDATE_INACTIVE_TIME SYNC_DEL_ENTRY" "\<not> hasf SYNC_UPDATE_PORT SYNC_DEL_ENTRY"
  "\<not> hasf SYNC_UPDATE_POWER_LEVEL SYNC_DEL_ENTRY" "\<not> hasf SYNC_UPDATE_CONNTYPE SYNC_DEL_ENTRY"
  "\<not> hasf SYNC_UPDATE_NEGORATE SYNC_DEL_ENTRY" "\<not> hasf SYNC_UPDATE_IPv6 SYNC_DEL_ENTRY"
  "\<not> hasf SYNC_UPDATE_DUPLEXMODE SYNC_DEL_ENTRY" "\<not> hasf SYNC_ADD_IP SYNC_DEL_ENTRY" "\<not> hasf LINK_FLAGS SYNC_DEL_ENTRY"
  by (simp_all add: hasf_def LINK_FLAGS_def SYNC_NEW_ENTRY_def SYNC_DEL_ENTRY_def SYNC_UPDATE_STATE_def SYNC_UPDATE_MAC_def
      SYNC_UPDATE_IP_def SYNC_UPDATE_CNT_def SYNC_UPDATE_HOSTNAME_def SYNC_UPDATE_ONLINE_TIME_def SYNC_UPDATE_ACTIVE_TIME_def
      SYNC_UPDATE_INACTIVE_TIME_def SYNC_UPDATE_PORT_def SYNC_UPDATE_POWER_LEVEL_def SYNC_UPDATE_CONNTYPE_def
      SYNC_UPDATE_NEGORATE_def SYNC_UPDATE_IPv6_def SYNC_UPDATE_DUPLEXMODE_def SYNC_ADD_IP_def)

text \<open>Readings do not change the state.\<close>

lemma reading_wp [wp]:
  "(\<And>r. P r) \<Longrightarrow> post (tget T k nd a u) P"
  "(\<And>r. Q r) \<Longrightarrow> post (scan_words ks l fs) Q"
  "(\<And>r. R r) \<Longrightarrow> post (known v) R"
  "(\<And>r. A r) \<Longrightarrow> post (lease_loop ls m fs) A"
  "(\<And>r. B r) \<Longrightarrow> post (arp_loop ls m fs) B"
  "(\<And>r. C r) \<Longrightarrow> post (get_lan_port_bind T p u) C"
  "(\<And>r. D r) \<Longrightarrow> post (get_lan_port_by_mac W m) D"
  "(\<And>r. G r) \<Longrightarrow> post (get_lan_host_cnt_by_mac W T m c u) G"
  "(\<And>r. H r) \<Longrightarrow> post (wifi_exsit_check W T e u) H"
  "(\<And>r. K r) \<Longrightarrow> post (link_loop ls kk nn rt) K"
  "(\<And>r. L r) \<Longrightarrow> post (inc_int z) L"
  "(\<And>r. M r) \<Longrightarrow> post (scan_stb l pm) M"
  "(\<And>r. N r) \<Longrightarrow> post (basic64_decode b o1) N"
  "(\<And>r. F r) \<Longrightarrow> post (find_empty_lan_host_entry T u) F"
  by (rule post_True; assumption)+

context host_store
begin

lemma tame_store:
  assumes "tame T G i s u" "\<And>w. G (lh_store u) \<Longrightarrow> tc_get T (lh_store u) LANHost2_Common ''LANHostMaxNumber'' = Some w \<Longrightarrow>
    tc_get T st LANHost2_Common ''LANHostMaxNumber'' = Some w" "G (lh_store u) \<Longrightarrow> G st"
  shows "tame T G i s (u\<lparr>lh_store := st\<rparr>)"
  using assms by (auto simp: tame_def)

lemma tame_tset: "tame T G i s u \<Longrightarrow> a \<noteq> ''LANHostMaxNumber'' \<Longrightarrow> tame T G i s (tset T (LANHost2_Entry k) a v u)"
  unfolding tset_def by (erule tame_store) (auto simp: host_nodes_def intro: set_keeps set_good)

lemma tame_tcommit: "tame T G i s u \<Longrightarrow> tame T G i s (tcommit T LANHost2_Common u)"
  unfolding tcommit_def tame_vars by (erule tame_store) (auto intro: commit_keeps commit_good)

lemma tame_if_do: "(b \<Longrightarrow> tame T G i s (f u)) \<Longrightarrow> tame T G i s u \<Longrightarrow> tame T G i s (if_do b f u)"
  by (simp add: if_do_def)

lemma tame_sync_parts:
  assumes "tame T G i s u"
  shows "tame T G i s (sync_first T (LANHost2_Entry k) e fl u)" "tame T G i s (sync_rest T (LANHost2_Entry k) e fl u)"
    "tame T G i s (sync_tail T k fl u)"
  using assms
  by (auto simp: sync_first_def sync_rest_def sync_tail_def sync_ip_def sync_cnt_def sync_port_def Let_def
      intro!: tame_if_do tame_tset tame_tcommit)

lemma neigh_loop_tame:
  "tame T G i s u \<Longrightarrow> post (neigh_loop T (LANHost2_Entry k) m a ls n u) (tame T G i s)"
  by (induction ls arbitrary: n u) (auto simp: Let_def tame_tset intro!: wp split: prod.split)

lemma ipv6_tame: "tame T G i s u \<Longrightarrow> post (set_ipv6_from_dhcp_arp W T i u) (\<lambda>x. tame T G i s (snd x))"
  by (auto simp: set_ipv6_from_dhcp_arp_def Let_def
      intro!: neigh_loop_tame [THEN post_mono] tame_tset split: option.split)

lemma sync_tame: "tame T G i s u \<Longrightarrow> hasf fl SYNC_DEL_ENTRY \<longrightarrow> i < MAX_INSTANCE \<Longrightarrow> post (sync_lan_host_info W T i fl u) (\<lambda>x. tame T G i s (snd x))"
  by (auto simp: sync_lan_host_info_def Let_def gentle_zero
      intro!: wp ipv6_tame [THEN post_snd] tame_sync_parts tame_if_do tame_tcommit tame_upd tame_store unset_keeps unset_good
      split: prod.split)

lemmas sync_wp [wp] = sync_tame [THEN post_snd]

lemma expire_tame: "tame T G i s u \<Longrightarrow> post (check_expire_time W i l u) (tame T G i s)"
  by (auto simp: check_expire_time_def Let_def gentle_simps intro!: tame_upd)

lemmas expire_wp [wp] = expire_tame [THEN post_mono]

lemma dhcp_tame: "tame T G i s u \<Longrightarrow> post (set_ip_from_dhcp W T i u) (\<lambda>x. tame T G i s (snd x))"
  by (auto simp: set_ip_from_dhcp_def gentle_simps intro!: wp tame_upd split: option.split)

lemmas dhcp_wp [wp] = dhcp_tame [THEN post_snd]

lemma arp_tame: "tame T G i s u \<Longrightarrow> post (set_ip_from_arp W T i u) (\<lambda>x. tame T G i s (snd x))"
  by (auto simp: set_ip_from_arp_def gentle_simps intro!: wp tame_upd split: option.split)

lemmas arp_wp [wp] = arp_tame [THEN post_snd]

lemma set_entry_tame: "tame T G i s u \<Longrightarrow> post (set_lan_host_entry W T i u) (\<lambda>x. tame T G i s (snd x))"
  by (auto simp: set_lan_host_entry_def intro!: wp)

lemmas set_entry_wp [wp] = set_entry_tame [THEN post_snd]

lemma negorate_tame: "tame T G i s u \<Longrightarrow> post (get_lan_port_negorate W p u) (\<lambda>x. tame T G i s (snd x))"
  by (auto simp: get_lan_port_negorate_def Let_def intro!: wp split: option.split prod.split)

lemma duplex_tame: "tame T G i s u \<Longrightarrow> post (get_lan_port_duplexmode W p u) (\<lambda>x. tame T G i s (snd x))"
  by (auto simp: get_lan_port_duplexmode_def Let_def intro!: wp split: option.split prod.split)

lemma link_tame: "tame T G i s u \<Longrightarrow> post (set_link W i p u) (\<lambda>x. tame T G i s (snd x))"
  by (auto simp: set_link_def gentle_simps intro!: negorate_tame [of i s, THEN post_snd] duplex_tame [of i s, THEN post_snd]
      tame_upd split: option.split)

lemmas link_wp [wp] = link_tame [THEN post_snd]

lemma online_tame: "tame T G i s u \<Longrightarrow> post (set_lan_host_online W T i f u) (\<lambda>x. tame T G i s (snd x))"
  by (auto simp: set_lan_host_online_def Let_def gentle_simps intro!: wp tame_upd tame_if_do split: prod.split)

lemmas online_wp [wp] = online_tame [THEN post_snd]

lemma offline_tame: "tame T G i s u \<Longrightarrow> post (set_lan_host_offline W T i f u) (\<lambda>x. tame T G i s (snd x))"
  by (auto simp: set_lan_host_offline_def gentle_simps intro!: wp tame_upd)

lemmas offline_wp [wp] = offline_tame [THEN post_snd]

lemma del_tame: "i < MAX_INSTANCE \<Longrightarrow> tame T G i s u \<Longrightarrow> post (del_lan_host W T i u) (\<lambda>x. tame T G i s (snd x))"
  by (auto simp: del_lan_host_def gentle_zero intro!: wp tame_upd)

lemmas del_wp [wp] = del_tame [THEN post_snd]

lemma move_port_tame: "tame T G i s u \<Longrightarrow> \<not> hasf x SYNC_DEL_ENTRY \<Longrightarrow> post (move_port W T i p x u) (\<lambda>x. tame T G i s (snd x))"
  by (auto simp: move_port_def Let_def gentle_simps intro!: wp tame_upd)

lemmas move_port_wp [wp] = move_port_tame [THEN post_snd]

lemma update_online_tame: "tame T G i s u \<Longrightarrow> post (update_online W T i c u) (\<lambda>x. tame T G i s (snd x))"
  by (auto simp: update_online_def gentle_simps intro!: wp tame_upd)

lemmas update_online_wp [wp] = update_online_tame [THEN post_snd]

lemma come_back_tame: "tame T G i s u \<Longrightarrow> post (come_back W T i p q u) (tame T G i s)"
  by (auto simp: come_back_def gentle_simps intro!: wp tame_upd)

lemmas come_back_wp [wp] = come_back_tame [THEN post_mono]

lemma check_offline_tame: "tame T G i s u \<Longrightarrow> post (check_offline W T i p u) (tame T G i s)"
  by (auto simp: check_offline_def intro!: wp split: prod.split)

lemmas check_offline_wp [wp] = check_offline_tame [THEN post_mono]

lemma check_gone_tame: "tame T G i s u \<Longrightarrow> post (check_gone W T i u) (tame T G i s)"
  by (auto simp: check_gone_def Let_def intro!: wp)

lemmas check_gone_wp [wp] = check_gone_tame [THEN post_mono]

lemma check_expired_tame: "i < MAX_INSTANCE \<Longrightarrow> tame T G i s u \<Longrightarrow> post (check_expired W T i u) (tame T G i s)"
  by (auto simp: check_expired_def Let_def intro!: wp)

lemmas check_expired_wp [wp] = check_expired_tame [THEN post_mono]

lemma check_entry_tame: "i < MAX_INSTANCE \<Longrightarrow> tame T G i s u \<Longrightarrow> post (check_entry W T p i c u) (\<lambda>x. tame T G i s (snd x))"
  by (auto simp: check_entry_def intro!: wp)

lemma alink_entry_tame: "tame T G i s u \<Longrightarrow> post (alink_entry W T a i u) (tame T G i s)"
  by (auto simp: alink_entry_def Let_def gentle_simps intro!: wp tame_upd)

lemma arp_new_ip_tame: "tame T G i s u \<Longrightarrow> post (arp_new_ip W T i a p u) (\<lambda>x. tame T G i s (snd x))"
  by (auto simp: arp_new_ip_def Let_def gentle_simps intro!: sync_tame tame_upd wp)

lemmas arp_new_ip_wp [wp] = arp_new_ip_tame [THEN post_snd]

lemma arp_ipv4_tame: "tame T G i s u \<Longrightarrow> post (arp_ipv4 W T i a p up u) (tame T G i s)"
proof -
  assume u: "tame T G i s u"
  define t where "t = if_do (\<not> strcasecmp_eq (ip (ent u i)) a) (upd_ent i (update_flag_update (\<lambda>f. f AND NOT IP_FLAG))) u"
  have "tame T G i s t" using u unfolding t_def by (intro tame_if_do tame_upd) (simp_all add: gentle_simps)
  then show ?thesis
    unfolding arp_ipv4_def t_def [symmetric] Let_def
    by (auto simp: gentle_simps intro!: wp tame_upd split: prod.split)
qed

end

section \<open>Adding a host\<close>

definition adds :: "'s tc_ops \<Rightarrow> ('s \<Rightarrow> bool) \<Rightarrow> nat \<Rightarrow> string \<Rightarrow> 's lanhost \<Rightarrow> 's lanhost \<Rightarrow> bool" where
  "adds T G i new s s' \<longleftrightarrow>
     length (lan_host_entry s') = length (lan_host_entry s) \<and> length (check_flag s') = length (check_flag s) \<and>
     (\<forall>j. j \<noteq> i \<longrightarrow> ent s' j = ent s j) \<and>
     (milder (ent s i) (ent s' i) \<or> mac (ent s' i) = new) \<and>
     (entry_ok (ent s i) \<longrightarrow> entry_ok (ent s' i)) \<and>
     (G (lh_store s) \<longrightarrow> G (lh_store s') \<and> (\<forall>w. tc_get T (lh_store s) LANHost2_Common ''LANHostMaxNumber'' = Some w \<longrightarrow>
        tc_get T (lh_store s') LANHost2_Common ''LANHostMaxNumber'' = Some w))"

lemma adds_refl [simp]: "adds T G i new s s"
  by (simp add: adds_def)

lemma adds_tame: "adds T G i new s t \<Longrightarrow> tame T G i t u \<Longrightarrow> adds T G i new s u"
  using milder_trans [of "ent s i" "ent t i" "ent u i"] by (auto simp: adds_def tame_def milder_def)

lemma tame_adds: "tame T G i s t \<Longrightarrow> adds T G i new s t"
  using adds_tame [OF adds_refl] .

lemma adds_log [simp]: "adds T G i new s (lh_log_act a u) = adds T G i new s u"
  by (simp add: adds_def lh_log_act_def)

lemma adds_upd:
  assumes "adds T G i new s u" "\<And>e. mac (f e) = new \<and> valid (f e)"
  shows "adds T G i new s (upd_ent i f u)"
  using assms(1) assms(2) [of "ent u i"] by (auto simp: adds_def ent_upd entry_ok_def)

lemma upd_ent_upd: "upd_ent i g (upd_ent i f s) = upd_ent i (\<lambda>e. g (f e)) s"
  by (cases "i < length (lan_host_entry s)") (simp_all add: upd_ent_def list_update_beyond)

context host_store
begin

lemma adds_sync: "adds T G i new s u \<Longrightarrow> \<not> hasf fl SYNC_DEL_ENTRY \<Longrightarrow> post (sync_lan_host_info W T i fl u) (\<lambda>x. adds T G i new s (snd x))"
  by (rule post_mono [OF sync_tame [OF tame_refl]]) (auto intro: adds_tame)

lemma adds_link: "adds T G i new s u \<Longrightarrow> post (set_link W i p u) (\<lambda>x. adds T G i new s (snd x))"
  by (rule post_mono [OF link_tame [OF tame_refl]]) (rule adds_tame)

lemma adds_set_entry: "adds T G i new s u \<Longrightarrow> post (set_lan_host_entry W T i u) (\<lambda>x. adds T G i new s (snd x))"
  by (rule post_mono [OF set_entry_tame [OF tame_refl]]) (rule adds_tame)

lemma add_adds:
  "post (add_lan_host W T (Some i) m ct p s) (\<lambda>x. adds T G i (take DEV_MAC_ADDR_LEN (lan_mac_rm_dot m)) s (snd x))"
proof -
  define new where "new = take DEV_MAC_ADDR_LEN (lan_mac_rm_dot m)"
  show ?thesis
    unfolding add_lan_host_def Let_def new_def [symmetric]
    by (auto simp: if_do_def upd_ent_upd intro!: reading_wp adds_upd adds_sync [of i new s, THEN post_snd]
        adds_link [of i new s, THEN post_snd] adds_set_entry [OF adds_refl [of T G i new s], THEN post_snd]
        split: if_splits)
qed

end

section \<open>No host twice\<close>

definition uniq :: "'s lanhost \<Rightarrow> bool" where
  "uniq s \<longleftrightarrow> (\<forall>i < max_lan_host_num s. \<forall>j < max_lan_host_num s.
     i \<noteq> j \<longrightarrow> mac (ent s i) \<noteq> [] \<longrightarrow> mac_key (ent s i) \<noteq> mac_key (ent s j))"

definition lh_inv :: "'s tc_ops \<Rightarrow> ('s \<Rightarrow> bool) \<Rightarrow> 's lanhost \<Rightarrow> bool" where
  "lh_inv T G s \<longleftrightarrow> sane T G s \<and> uniq s"

lemma sane_iff: "sane T G s \<longleftrightarrow> roomy T G s \<and> length (check_flag s) = max_lan_host_num s \<and> max_lan_host_num s \<le> MAX_INSTANCE \<and>
   (\<forall>i < max_lan_host_num s. entry_ok (ent s i))"
  by (auto simp: sane_def max_lan_host_num_def all_set_conv_all_nth)

definition fresh :: "nat \<Rightarrow> string \<Rightarrow> 's lanhost \<Rightarrow> bool" where
  "fresh i new s \<longleftrightarrow> (new \<noteq> [] \<longrightarrow> (\<forall>j < max_lan_host_num s. j \<noteq> i \<longrightarrow> mac_key (ent s j) \<noteq> lower new))"

lemma adds_inv:
  assumes "adds T G i new s s'" "lh_inv T G s" "fresh i new s"
  shows "lh_inv T G s'"
proof -
  have l: "max_lan_host_num s' = max_lan_host_num s" and o: "j \<noteq> i \<Longrightarrow> ent s' j = ent s j" for j
    using assms(1) by (simp_all add: adds_def max_lan_host_num_def)
  have "sane T G s'"
  proof -
    have "entry_ok (ent s' j)" if "j < max_lan_host_num s" for j
      using assms(1,2) that o [of j] by (cases "j = i") (auto simp: lh_inv_def sane_iff adds_def)
    moreover have "roomy T G s'" using assms(1,2) unfolding lh_inv_def sane_iff roomy_def l by (auto simp: adds_def)
    moreover have "max_lan_host_num s \<le> MAX_INSTANCE" using assms(2) unfolding lh_inv_def sane_def by blast
    moreover have "length (check_flag s') = max_lan_host_num s"
      using assms(1,2) by (simp add: lh_inv_def sane_iff adds_def)
    ultimately show ?thesis unfolding sane_iff l by blast
  qed
  moreover have "uniq s'"
    unfolding uniq_def l
  proof (intro allI impI)
    fix a b
    assume ab: "a < max_lan_host_num s" "b < max_lan_host_num s" "a \<noteq> b" "mac (ent s' a) \<noteq> []"
    have u: "mac (ent s a) \<noteq> [] \<Longrightarrow> mac_key (ent s a) \<noteq> mac_key (ent s b)"
      "mac (ent s b) \<noteq> [] \<Longrightarrow> mac_key (ent s b) \<noteq> mac_key (ent s a)"
      using assms(2) ab by (auto simp: lh_inv_def uniq_def)
    have m: "mac (ent s' i) \<in> {mac (ent s i), [], new}" using assms(1) by (auto simp: adds_def milder_def)
    show "mac_key (ent s' a) \<noteq> mac_key (ent s' b)"
      using ab u m o [of a] o [of b] assms(3) by (cases "a = i"; cases "b = i") (auto simp: mac_key_def fresh_def)
  qed
  ultimately show ?thesis by (simp add: lh_inv_def)
qed

lemma tame_inv: "tame T G i s s' \<Longrightarrow> lh_inv T G s \<Longrightarrow> lh_inv T G s'"
  by (rule adds_inv [OF tame_adds [where new = "[]"]]) (simp_all add: fresh_def)

lemma exist_inv [simp]: "lh_inv T G (upd_ent i (exist_update f) s) = lh_inv T G s"
proof -
  have "mac (ent (upd_ent i (exist_update f) s) j) = mac (ent s j)" "valid (ent (upd_ent i (exist_update f) s) j) = valid (ent s j)" for j
    by (simp_all add: ent_upd)
  then show ?thesis by (simp add: lh_inv_def sane_iff roomy_def uniq_def mac_key_def entry_ok_def)
qed

lemma inv_vars [simp]:
  "lh_inv T G (lh_log_act a u) = lh_inv T G u"
  "lh_inv T G (u\<lparr>save_flag := b\<rparr>) = lh_inv T G u"
  "lh_inv T G (u\<lparr>lan_port_status := z\<rparr>) = lh_inv T G u"
  "lh_inv T G (u\<lparr>lan_port_rate := r\<rparr>) = lh_inv T G u"
  "lh_inv T G (u\<lparr>lan_port_duplex := d\<rparr>) = lh_inv T G u"
  by (simp_all add: lh_inv_def sane_def uniq_def roomy_def max_lan_host_num_def lh_log_act_def)

subsection \<open>Searching\<close>

lemma replaceable_wp: "(\<And>b. P b) \<Longrightarrow> post (replaceable T i o1 s) P"
  by (rule post_True)

lemma roomy_limits: "roomy T G s \<Longrightarrow> post (read_limits T s) (\<lambda>(n, m). m = int (max_lan_host_num s))"
  by (auto simp: read_limits_def read_num_def tget_def roomy_def min_def atoi_def [of "[]"] intro!: post_True split: option.split)

lemma mac_scan_spec:
  "post (mac_scan T new ks o1 lat seen slot s) (\<lambda>(r, s'). case r of
     Inl i \<Rightarrow> s' = s \<and> i \<in> set ks \<and> valid (ent s i) \<and> strcasecmp_eq (mac (ent s i)) new
   | Inr (found, _, _) \<Rightarrow>
       if found then \<exists>i \<in> set ks. valid (ent s i) \<and> strcasecmp_eq (mac (ent s i)) new \<and>
         s' = if_do (exist (ent s i) = 0) (upd_ent i (exist_update (\<lambda>_. 1))) s
       else s' = s \<and> (\<forall>j \<in> set ks. valid (ent s j) \<longrightarrow> \<not> strcasecmp_eq (mac (ent s j)) new))"
proof (induction ks arbitrary: o1 lat seen slot)
  case (Cons k ks)
  have "post (mac_scan T new ks o2 lat2 seen2 slot2 s) (\<lambda>x. \<not> (valid (ent s k) \<and> strcasecmp_eq (mac (ent s k)) new) \<longrightarrow>
      (case x of (r, s') \<Rightarrow> case r of
     Inl i \<Rightarrow> s' = s \<and> i \<in> set (k # ks) \<and> valid (ent s i) \<and> strcasecmp_eq (mac (ent s i)) new
   | Inr (found, _, _) \<Rightarrow>
       if found then \<exists>i \<in> set (k # ks). valid (ent s i) \<and> strcasecmp_eq (mac (ent s i)) new \<and>
         s' = if_do (exist (ent s i) = 0) (upd_ent i (exist_update (\<lambda>_. 1))) s
       else s' = s \<and> (\<forall>j \<in> set (k # ks). valid (ent s j) \<longrightarrow> \<not> strcasecmp_eq (mac (ent s j)) new)))" for o2 lat2 seen2 slot2
    by (rule post_mono [OF Cons.IH]) (auto split: sum.splits if_splits)
  then show ?case by (auto simp: Let_def intro!: replaceable_wp elim!: post_mono)
qed simp

lemma check_mac_spec:
  assumes "lh_inv T G s"
  shows "post (check_mac_exist T m slot s) (\<lambda>((found, sl), s'). lh_inv T G s' \<and> (\<not> found \<longrightarrow> fresh (nat sl) (lan_mac_rm_dot m) s'))"
proof -
  let ?new = "lan_mac_rm_dot m" and ?n = "max_lan_host_num s"
  have r: "roomy T G s" and u: "uniq s" and e: "\<And>i. i < ?n \<Longrightarrow> entry_ok (ent s i)"
    using assms by (auto simp: lh_inv_def sane_iff)
  have key: "strcasecmp_eq (mac x) ?new \<longleftrightarrow> mac_key x = lower ?new" for x
    by (simp add: strcasecmp_eq_def mac_key_def)
  have same: "fresh i ?new s" if "i < ?n" "strcasecmp_eq (mac (ent s i)) ?new" for i
    using u that unfolding fresh_def uniq_def key by (metis list.map_disc_iff mac_key_def)
  have none: "fresh i ?new s" if "\<forall>j \<in> set [0..<?n]. valid (ent s j) \<longrightarrow> \<not> strcasecmp_eq (mac (ent s j)) ?new" for i
    unfolding fresh_def
  proof (intro impI allI)
    fix j assume j: "?new \<noteq> []" "j < ?n"
    with that e [of j] show "mac_key (ent s j) \<noteq> lower ?new"
      by (cases "valid (ent s j)") (auto simp: key entry_ok_def mac_key_def)
  qed
  have scan: "post (mac_scan T ?new [0..<?n] o1 lat seen slot1 s) (\<lambda>(r, s'). case r of
      Inl i \<Rightarrow> lh_inv T G s' \<and> fresh i ?new s'
    | Inr (found, _, _) \<Rightarrow> lh_inv T G s' \<and> (\<not> found \<longrightarrow> (\<forall>i. fresh i ?new s')))" for o1 lat seen slot1
    by (rule post_mono [OF mac_scan_spec]) (use same none assms in \<open>auto simp: if_do_def split: sum.splits if_splits\<close>)
  show ?thesis
    unfolding check_mac_exist_def post_cbind
    apply (rule post_mono [OF roomy_limits [OF r]])
    apply clarsimp
    apply (rule post_mono [OF scan])
    subgoal for n x by (cases x; cases "fst x") auto
    done
qed

definition mac_ok :: "string \<Rightarrow> bool" where
  "mac_ok m \<longleftrightarrow> length (lan_mac_rm_dot m) \<le> DEV_MAC_ADDR_LEN"

definition line_ok :: "string \<Rightarrow> bool" where
  "line_ok l \<longleftrightarrow> (case scan_stb l (0, []) of Ret (_, m) \<Rightarrow> mac_ok m | Fault _ \<Rightarrow> True)"

definition stb_ok :: "lh_world \<Rightarrow> bool" where
  "stb_ok W \<longleftrightarrow> (case w_stb_list W of None \<Rightarrow> True | Some t \<Rightarrow> list_all line_ok (fgets_all 126 t))"

lemma scan_stb_ok: "line_ok l \<Longrightarrow> mac_ok (snd pm) \<Longrightarrow> post (scan_stb l pm) (\<lambda>x. mac_ok (snd x))"
  by (auto simp: line_ok_def scan_stb_def split: prod.splits option.splits if_splits)

lemma mac_ok_Nil: "mac_ok []"
  by (simp add: mac_ok_def lan_mac_rm_dot_def)

context host_store
begin

lemma add_inv:
  assumes "lh_inv T G s" "mac_ok m" "fresh i (lan_mac_rm_dot m) s"
  shows "post (add_lan_host W T (Some i) m ct p s) (\<lambda>x. lh_inv T G (snd x))"
proof (rule post_mono [OF add_adds])
  fix x :: "int \<times> 's lanhost"
  assume "adds T G i (take DEV_MAC_ADDR_LEN (lan_mac_rm_dot m)) s (snd x)"
  then show "lh_inv T G (snd x)" using assms by (auto simp: mac_ok_def intro: adds_inv)
qed

lemma stb_loop_inv:
  "lh_inv T G s \<Longrightarrow> list_all line_ok ls \<Longrightarrow> mac_ok (snd pm) \<Longrightarrow> post (stb_loop W T ls pm slot s) (\<lambda>x. lh_inv T G (snd x))"
proof (induction ls arbitrary: pm slot s)
  case (Cons l ls)
  have l: "line_ok l" "list_all line_ok ls" using Cons.prems by auto
  show ?case
    unfolding stb_loop.simps post_cbind
    apply (rule post_mono [OF scan_stb_ok [OF l(1) Cons.prems(3)]])
    apply clarsimp
    apply (rule post_mono [OF check_mac_spec [OF Cons.prems(1)]])
    apply (auto intro!: Cons.IH [OF _ l(2)] add_inv [THEN post_snd])
    done
qed simp

lemma check_entries_inv: "lh_inv T G s \<Longrightarrow> \<forall>k \<in> set ks. k < MAX_INSTANCE \<Longrightarrow> post (check_entries W T p ks c s) (lh_inv T G)"
  by (induction ks arbitrary: c s)
     (auto intro!: check_entry_tame [OF _ tame_refl, THEN post_snd] dest: tame_inv)

lemma clear_exist_inv: "lh_inv T G (clear_exist s) = lh_inv T G s"
proof -
  have l: "max_lan_host_num (clear_exist s) = max_lan_host_num s" by (simp add: clear_exist_def max_lan_host_num_def)
  have "mac (ent (clear_exist s) j) = mac (ent s j)" "valid (ent (clear_exist s) j) = valid (ent s j)"
    if "j < max_lan_host_num s" for j
    using that by (simp_all add: clear_exist_def max_lan_host_num_def if_do_def)
  then show ?thesis
    unfolding lh_inv_def sane_iff uniq_def roomy_def l
    by (simp add: entry_ok_def mac_key_def) (simp add: clear_exist_def)
qed

lemma check_all_inv:
  assumes "lh_inv T G s"
  shows "post (check_entries W T p [0..<max_lan_host_num s] c s) (lh_inv T G)"
proof -
  have "max_lan_host_num s \<le> MAX_INSTANCE" using assms unfolding lh_inv_def sane_def by blast
  then show ?thesis by (intro check_entries_inv [OF assms]) simp
qed

lemma check_update_inv:
  "lh_inv T G s \<Longrightarrow> stb_ok W \<Longrightarrow> post (check_lan_host_update W T s) (\<lambda>x. lh_inv T G (snd x))"
  by (auto simp: check_lan_host_update_def Let_def clear_exist_inv stb_ok_def if_do_def mac_ok_Nil
      intro!: stb_loop_inv [THEN post_snd] check_all_inv [THEN post_mono] split: option.splits)

lemma tame_inv_post:
  "post m (\<lambda>x. tame T G i s (snd x)) \<Longrightarrow> lh_inv T G s \<Longrightarrow> post m (\<lambda>x. lh_inv T G (snd x))"
  "post n (tame T G i s) \<Longrightarrow> lh_inv T G s \<Longrightarrow> post n (lh_inv T G)"
  by (auto elim!: post_mono tame_inv)

lemma rm_dot_idem: "lan_mac_rm_dot (lan_mac_rm_dot m) = lan_mac_rm_dot m"
proof -
  have "length (lan_mac_rm_dot m) \<le> 17" unfolding lan_mac_rm_dot_def by (rule order_trans [OF length_filter_le]) simp
  then show ?thesis by (simp add: lan_mac_rm_dot_def)
qed

lemma find_none_fresh:
  "find_lan_host_entry_by_mac new s = None \<Longrightarrow> fresh i new s"
  by (auto simp: find_lan_host_entry_by_mac_def find_None_iff fresh_def strcasecmp_eq_def mac_key_def)

lemma wifi_add_inv:
  assumes "lh_inv T G s" "mac_ok m"
  shows "post (wifi_add W T (lan_mac_rm_dot m) p s) (\<lambda>x. lh_inv T G (snd x))"
proof -
  show ?thesis
  proof (cases "find_lan_host_entry_by_mac (lan_mac_rm_dot m) s")
    case None
    have "post (add_lan_host W T idx (lan_mac_rm_dot m) 1 p s) (\<lambda>x. lh_inv T G (snd x))" for idx
    proof (cases idx)
      case None
      then show ?thesis using assms by (simp add: add_lan_host_def)
    next
      case (Some i)
      then show ?thesis
        using add_inv [of s "lan_mac_rm_dot m" i W 1 p] find_none_fresh [OF None] assms by (simp add: rm_dot_idem mac_ok_def)
    qed
    note add = post_snd [OF this]
    show ?thesis
      unfolding wifi_add_def None by (auto simp: if_do_def intro!: reading_wp add split: option.split)
  next
    case (Some i)
    have t: "tame T G i s (upd_ent i (conn_type_update (\<lambda>_. 1)) s)" by (intro tame_upd) (simp_all add: gentle_simps)
    have inv: "lh_inv T G u" if "tame T G i s u" for u using tame_inv [OF that assms(1)] .
    show ?thesis
      unfolding wifi_add_def Some
      by (auto simp: if_do_def inv intro!: online_tame [of i s, THEN post_snd] move_port_tame [of i s, THEN post_snd] t)
  qed
qed

lemma wifi_del_inv: "lh_inv T G s \<Longrightarrow> post (wifi_del W T m o1 s) (\<lambda>x. lh_inv T G (snd x))"
  by (auto simp: wifi_del_def intro!: reading_wp tame_inv_post(1) [OF offline_tame [OF tame_refl]] split: option.split)

lemma wifi_update_inv: "lh_inv T G s \<Longrightarrow> post (wifi_update W T m o1 rs rt s) (\<lambda>x. lh_inv T G (snd x))"
  unfolding wifi_update_def
  by (auto simp: gentle_simps intro!: reading_wp move_port_tame [of _ s, THEN post_snd] tame_upd
      intro: tame_inv split: option.split)

lemma dhcp_all_inv: "lh_inv T G s \<Longrightarrow> post (dhcp_all W T ks s) (lh_inv T G)"
  by (induction ks arbitrary: s) (auto intro!: dhcp_tame [OF tame_refl, THEN post_snd] dest: tame_inv)

lemma down_all_inv: "lh_inv T G s \<Longrightarrow> post (down_all W T p ks s) (lh_inv T G)"
  by (induction ks arbitrary: s) (auto intro!: offline_tame [OF tame_refl, THEN post_snd] dest: tame_inv)

lemma alink_all_inv: "lh_inv T G s \<Longrightarrow> post (alink_all W T a m ks s) (lh_inv T G)"
  by (induction ks arbitrary: s) (auto intro!: alink_entry_tame [OF tame_refl, THEN post_mono] dest: tame_inv)

end

definition event_ok :: "ecnt_event \<Rightarrow> bool" where
  "event_ok ev \<longleftrightarrow> (case ev of WifiUpdateStaInfo d \<Rightarrow> mac_ok (msg_field d 3 32) | _ \<Rightarrow> True)"

lemma check_flag_inv:
  "length c = max_lan_host_num s \<Longrightarrow> length (check_flag s) = max_lan_host_num s \<Longrightarrow> lh_inv T G (s\<lparr>check_flag := c\<rparr>) = lh_inv T G s"
  by (simp add: lh_inv_def sane_def uniq_def roomy_def max_lan_host_num_def)

context host_store
begin

lemma dispatch_inv:
  assumes "lh_inv T G s" "event_ok ev"
  shows "post (ecnt_dispatch W T ev s) (\<lambda>x. lh_inv T G (snd x))"
proof (cases ev)
  case (WifiUpdateStaInfo d)
  then show ?thesis
    using assms
    by (auto simp: ecnt_dispatch_def wifi_update_handler_def Let_def event_ok_def
        intro!: reading_wp wifi_add_inv wifi_del_inv wifi_update_inv)
next
  case (EthUp p v d)
  let ?s = "s\<lparr>lan_port_status := (lan_port_status s)[nat p := 1],
    lan_port_rate := (lan_port_rate s)[nat p := speed_rate v (lan_port_rate s ! nat p)],
    lan_port_duplex := (lan_port_duplex s)[nat p := duplex_str d]\<rparr>"
  have "lh_inv T G ?s" "length (check_flag ?s) = max_lan_host_num ?s" "max_lan_host_num ?s = max_lan_host_num s"
    using assms(1) by (simp_all add: lh_inv_def sane_def max_lan_host_num_def uniq_def roomy_def)
  then have "lh_inv T G (?s\<lparr>check_flag := replicate (max_lan_host_num s) 3\<rparr>)"
    by (subst check_flag_inv) simp_all
  then show ?thesis using EthUp by (simp add: ecnt_dispatch_def lan_up_handler_def Let_def)
qed (use assms in \<open>auto simp: ecnt_dispatch_def dhcp_reinit_hander_def lan_down_handler_def alink_bridge_dev_handler_def
    intro!: dhcp_all_inv [THEN post_mono] down_all_inv [THEN post_mono] alink_all_inv [THEN post_mono]\<close>)

lemma arp_add_inv: "lh_inv T G s \<Longrightarrow> post (arp_add_handler W T ll ab ty s) (\<lambda>x. lh_inv T G (snd x))"
  unfolding arp_add_handler_def Let_def
  by (auto simp: gentle_simps intro!: reading_wp arp_ipv4_tame [OF tame_refl, THEN post_mono] sync_tame [of _ s, THEN post_snd] tame_upd
      intro: tame_inv split: option.split)

lemma arp_event_inv: "lh_inv T G s \<Longrightarrow> post (arp_event_handler W T ms v s) (\<lambda>x. lh_inv T G (snd x))"
proof (induction ms arbitrary: v s)
  case (Cons m ms)
  then show ?case
    by (cases "neigh_vars m v") (auto intro!: arp_add_inv [THEN post_snd])
qed simp

end

section \<open>Start\<close>

definition macs_same :: "'s tc_ops \<Rightarrow> 's lanhost \<Rightarrow> 's lanhost \<Rightarrow> bool" where
  "macs_same T s s' \<longleftrightarrow> (\<forall>j. tc_get T (lh_store s') (LANHost2_Entry j) ''MAC'' = tc_get T (lh_store s) (LANHost2_Entry j) ''MAC'')"

definition mac_known :: "'s tc_ops \<Rightarrow> ('s \<Rightarrow> bool) \<Rightarrow> nat \<Rightarrow> 's lanhost \<Rightarrow> 's lanhost \<Rightarrow> bool" where
  "mac_known T G i s u \<longleftrightarrow> macs_same T s u \<and> G (lh_store u) \<and> tc_get T (lh_store s) (LANHost2_Entry i) ''MAC'' \<noteq> None"

context host_store
begin

lemma known_tset: "mac_known T G i s u \<Longrightarrow> a \<noteq> ''MAC'' \<Longrightarrow> mac_known T G i s (tset T (LANHost2_Entry i) a v u)"
  by (auto simp: mac_known_def macs_same_def tset_def host_nodes_def set_macs set_good)

lemma known_if_do: "(b \<Longrightarrow> mac_known T G i s (f u)) \<Longrightarrow> mac_known T G i s u \<Longrightarrow> mac_known T G i s (if_do b f u)"
  by (simp add: if_do_def)

lemma known_log [simp]: "mac_known T G i s (lh_log_act a u) = mac_known T G i s u"
  by (simp add: mac_known_def macs_same_def lh_log_act_def)

lemma macs_simps [simp]:
  "macs_same T u (upd_ent i f v) = macs_same T u v" "macs_same T (upd_ent i f v) u = macs_same T v u"
  "macs_same T u (if_do b (save_flag_update (\<lambda>_. True)) u)" "macs_same T u u"
  by (simp_all add: macs_same_def if_do_def)

lemma known_first:
  assumes "mac_known T G i s u" "\<not> hasf fl SYNC_UPDATE_MAC"
  shows "mac_known T G i s (sync_first T (LANHost2_Entry i) e fl u)"
proof -
  have "mac_known T G i s (sync_ip T (LANHost2_Entry i) e v)" if "mac_known T G i s v" for v
    using that unfolding sync_ip_def Let_def by (auto intro!: known_tset)
  then show ?thesis
    using assms unfolding sync_first_def by (intro known_if_do known_tset) (simp_all add: known_if_do known_tset)
qed

lemma known_rest:
  assumes "mac_known T G i s u"
  shows "mac_known T G i s (sync_rest T (LANHost2_Entry i) e fl u)"
  unfolding sync_rest_def sync_cnt_def sync_port_def by (intro known_if_do known_tset) (simp_all add: assms)

lemma known_tail: "mac_known T G i s u \<Longrightarrow> \<not> hasf fl SYNC_NEW_ENTRY \<Longrightarrow> mac_known T G i s (sync_tail T k fl u)"
  by (simp add: sync_tail_def if_do_def Let_def)

lemma offline_macs: "G (lh_store u) \<Longrightarrow> post (set_lan_host_offline W T i f u) (\<lambda>x. macs_same T u (snd x))"
proof -
  let ?fl = "SYNC_UPDATE_STATE OR SYNC_UPDATE_IP OR SYNC_UPDATE_INACTIVE_TIME"
  have fl: "?fl \<noteq> 0" "\<not> hasf ?fl SYNC_DEL_ENTRY" "\<not> hasf ?fl SYNC_NEW_ENTRY" "\<not> hasf ?fl SYNC_UPDATE_MAC" "\<not> hasf ?fl SYNC_UPDATE_IPv6"
    by (simp_all add: hasf_def SYNC_UPDATE_STATE_def SYNC_UPDATE_IP_def SYNC_UPDATE_INACTIVE_TIME_def SYNC_DEL_ENTRY_def
        SYNC_NEW_ENTRY_def SYNC_UPDATE_MAC_def SYNC_UPDATE_IPv6_def)
  have "post (sync_lan_host_info W T i ?fl u) (\<lambda>x. macs_same T u (snd x))" if G: "G (lh_store u)" for u
  proof (cases "tc_get T (lh_store u) (LANHost2_Entry i) ''MAC''")
    case None
    then show ?thesis
      unfolding sync_lan_host_info_def Let_def using fl by (simp add: tget_def if_do_def macs_same_def)
  next
    case (Some m)
    have "mac_known T G i u (if_do b (save_flag_update (\<lambda>_. True)) u)" for b
      using Some G by (simp add: mac_known_def macs_same_def if_do_def)
    then have "mac_known T G i u (sync_tail T i ?fl (sync_rest T (LANHost2_Entry i) e ?fl
        (sync_first T (LANHost2_Entry i) e ?fl (if_do b (save_flag_update (\<lambda>_. True)) u))))" for b e
      by (intro known_tail known_rest known_first fl)
    then show ?thesis
      unfolding sync_lan_host_info_def Let_def using fl by (auto simp: mac_known_def intro!: reading_wp)
  qed
  from post_snd [OF this] show "G (lh_store u) \<Longrightarrow> ?thesis"
    unfolding set_lan_host_offline_def post_cbind by fastforce
qed

text \<open>What the table holds while it is loaded: nothing, or the address the configuration had at the start.\<close>

definition table_loaded :: "'s lanhost \<Rightarrow> 's lanhost \<Rightarrow> bool" where
  "table_loaded s0 s \<longleftrightarrow> macs_same T s0 s \<and> max_lan_host_num s = max_lan_host_num s0 \<and> sane T G s \<and>
     (\<forall>j < max_lan_host_num s. mac (ent s j) = [] \<or>
        (\<exists>m. tc_get T (lh_store s0) (LANHost2_Entry j) ''MAC'' = Some m \<and> mac (ent s j) = take DEV_MAC_ADDR_LEN m))"

lemma table_loaded_step:
  assumes "table_loaded s0 u" "tame T G i u x" "macs_same T u x"
  shows "table_loaded s0 x"
proof -
  have "sane T G x"
    using assms(1,2) unfolding table_loaded_def sane_iff roomy_def tame_def max_lan_host_num_def by metis
  moreover have "macs_same T s0 x" using assms(1,3) by (simp add: table_loaded_def macs_same_def)
  moreover have n: "max_lan_host_num x = max_lan_host_num u" using assms(2) by (simp add: tame_def max_lan_host_num_def)
  moreover have "mac (ent x j) = [] \<or> mac (ent x j) = mac (ent u j)" for j
    using assms(2) by (cases "j = i") (auto simp: tame_def milder_def)
  ultimately show ?thesis using assms(1) unfolding table_loaded_def n by metis
qed

lemma tget_val: "(\<And>r v. v = [] \<or> tc_get T (lh_store s) n a = Some v \<Longrightarrow> P (r, v)) \<Longrightarrow> post (tget T k n a s) P"
  by (auto simp: tget_def split: option.split)

lemma init_entry_loads:
  assumes "table_loaded s0 s"
  shows "post (init_lan_host_entry W T i s) (\<lambda>x. table_loaded s0 (snd x))"
proof -
  have fin: "post (set_lan_host_offline W T i True (upd_ent i f s)) (\<lambda>x. table_loaded s0 (snd x))"
    if m: "m = [] \<or> tc_get T (lh_store s) (LANHost2_Entry i) ''MAC'' = Some m"
      and f: "\<And>e. mac (f e) = take DEV_MAC_ADDR_LEN m" "\<And>e. valid (f e)" for f m
  proof -
    have l: "table_loaded s0 (upd_ent i f s)"
      using assms m f by (auto simp: table_loaded_def sane_iff roomy_def ent_upd entry_ok_def macs_same_def)
    then have g: "G (lh_store (upd_ent i f s))" by (simp add: table_loaded_def sane_def roomy_def)
    show ?thesis
      by (rule post_mono [OF post_conj [OF offline_tame [OF tame_refl] offline_macs [OF g]]])
         (auto intro: table_loaded_step [OF l])
  qed
  show ?thesis
    unfolding init_lan_host_entry_def Let_def
    apply (subst post_cbind)
    apply (rule tget_val)
    subgoal for r m by (auto intro!: reading_wp fin [of m])
    done
qed

lemma init_entries_load: "table_loaded s0 s \<Longrightarrow> post (init_entries W T ks s) (table_loaded s0)"
  by (induction ks arbitrary: s) (auto intro!: reading_wp init_entry_loads [THEN post_snd])

end

end
