(* ===== verification/LanHostCheck.thy ===== *)
theory LanHostCheck
  imports LanHostInv
begin

text \<open>
  What the searches of the table find and what the periodic check of the LAN host manager achieves.
\<close>

unbundle bit_operations_syntax

section \<open>The slot for a new host\<close>

text \<open>A host that may make room for another: offline, stamped below one day of uptime, and not controlled
  by the user.\<close>

definition removable :: "'s tc_ops \<Rightarrow> 's lanhost \<Rightarrow> nat \<Rightarrow> bool" where
  "removable T s i \<longleftrightarrow> active (ent s i) = 0 \<and> 0 < offline_time (ent s i) \<and> offline_time (ent s i) < OFFLINE_TIME \<and>
     tc_get T (lh_store s) (''LanHost2_Entry'' @ nat_str i) ''ControlStatus'' \<noteq> Some ''1''"

definition oldest :: "'s tc_ops \<Rightarrow> 's lanhost \<Rightarrow> nat set \<Rightarrow> nat option \<Rightarrow> bool" where
  "oldest T s K r \<longleftrightarrow> (case r of
     None \<Rightarrow> \<forall>j \<in> K. \<not> removable T s j
   | Some i \<Rightarrow> i \<in> K \<and> removable T s i \<and>
       (\<forall>j \<in> K. removable T s j \<longrightarrow> offline_time (ent s i) \<le> offline_time (ent s j) \<and> (offline_time (ent s i) = offline_time (ent s j) \<longrightarrow> i \<le> j)))"

definition bound_of :: "'s lanhost \<Rightarrow> nat option \<Rightarrow> u32" where
  "bound_of s r = (case r of None \<Rightarrow> OFFLINE_TIME | Some i \<Rightarrow> offline_time (ent s i))"

lemma replaceable_spec:
  "replaceable T i b s = Ret r \<Longrightarrow> b \<le> OFFLINE_TIME \<Longrightarrow> r \<longleftrightarrow> removable T s i \<and> offline_time (ent s i) < b"
  by (auto simp: replaceable_def removable_def tget_def Let_def split: if_splits option.splits)

lemma oldest_bound: "oldest T s K r \<Longrightarrow> bound_of s r \<le> OFFLINE_TIME"
  by (auto simp: oldest_def bound_of_def removable_def split: option.splits)

lemma oldest_step:
  assumes "oldest T s {0..<k} r" "replaceable T k (bound_of s r) s = Ret b"
  shows "oldest T s {0..<Suc k} (if b then Some k else r)"
proof -
  have b: "b \<longleftrightarrow> removable T s k \<and> offline_time (ent s k) < bound_of s r"
    by (rule replaceable_spec [OF assms(2) oldest_bound [OF assms(1)]])
  have K: "{0..<Suc k} = insert k {0..<k}" by auto
  show ?thesis
  proof (cases r)
    case None
    then have "removable T s k \<longrightarrow> offline_time (ent s k) < bound_of s r" by (simp add: bound_of_def removable_def)
    then show ?thesis using assms(1) None b unfolding oldest_def K by auto
  next
    case (Some i)
    then have o: "bound_of s r = offline_time (ent s i)" by (simp add: bound_of_def)
    show ?thesis
    proof (cases b)
      case True
      with b o Some assms(1) have "offline_time (ent s k) < offline_time (ent s j)" if "j < k" "removable T s j" for j
        using that unfolding oldest_def by (auto intro: less_le_trans)
      then have "offline_time (ent s k) \<le> offline_time (ent s j) \<and> offline_time (ent s k) \<noteq> offline_time (ent s j)"
        if "j < k" "removable T s j" for j
        using that by (metis less_le)
      then show ?thesis using True b unfolding oldest_def K by auto
    next
      case False
      then show ?thesis using b o Some assms(1) unfolding oldest_def K by (auto simp: not_less)
    qed
  qed
qed

lemma empty_scan_spec:
  assumes "empty_scan T [k..<n] (bound_of s r) r s = Ret (e, l)" "oldest T s {0..<k} r" "k \<le> n" "\<forall>j < k. valid (ent s j)"
  shows "case e of Some i \<Rightarrow> i < n \<and> \<not> valid (ent s i) \<and> (\<forall>j < i. valid (ent s j))
    | None \<Rightarrow> (\<forall>j < n. valid (ent s j)) \<and> oldest T s {0..<n} l"
  using assms
proof (induction "n - k" arbitrary: k r)
  case 0
  then show ?case by simp
next
  case (Suc d)
  then have k: "[k..<n] = k # [Suc k..<n]" by (simp add: upt_conv_Cons)
  obtain b where b: "replaceable T k (bound_of s r) s = Ret b"
      "(if \<not> valid (ent s k) then Ret (Some k, r)
       else empty_scan T [Suc k..<n] (if b then offline_time (ent s k) else bound_of s r) (if b then Some k else r) s) = Ret (e, l)"
    using Suc.prems(1) unfolding k by (auto simp del: cbind_eq_Ret elim!: cbind_RetE)
  show ?case
  proof (cases "valid (ent s k)")
    case False
    then show ?thesis using b(2) Suc by auto
  next
    case True
    have "(if b then offline_time (ent s k) else bound_of s r) = bound_of s (if b then Some k else r)"
      by (simp add: bound_of_def)
    moreover have "oldest T s {0..<Suc k} (if b then Some k else r)" by (rule oldest_step [OF Suc.prems(2) b(1)])
    ultimately show ?thesis
      using b(2) True Suc.prems Suc.hyps(2) by (intro Suc.hyps(1) [of "Suc k" "if b then Some k else r"]) (auto simp: less_Suc_eq)
  qed
qed


text \<open>Two hosts that went offline fill the table.\<close>

definition host_at :: "string \<Rightarrow> u32 \<Rightarrow> lan_host_entry" where
  "host_at m off = zero_entry\<lparr>valid := True, mac := m, offline_time := off\<rparr>"

definition table_of :: "plain \<Rightarrow> lan_host_entry list \<Rightarrow> plain lanhost" where
  "table_of st es = \<lparr>lan_host_entry = es, check_flag = replicate (length es) 0, lan_port_status = replicate 4 0,
     lan_port_rate = replicate 4 0, lan_port_duplex = replicate 4 [], save_flag = False, gLastGetTime = None,
     lh_store = st, lh_log = []\<rparr>"

definition full_table :: "plain lanhost" where
  "full_table = table_of [LANHost2_Common \<mapsto> [''LANHostMaxNumber'' \<mapsto> ''2'', ''LANHostNumber'' \<mapsto> ''2'']]
     [host_at ''001122334455'' 700, host_at ''001122334466'' 300]"


section \<open>What a call leaves in the table\<close>

text \<open>Copying an entry to the configuration leaves the table alone, or clears the entry.\<close>

definition synced :: "nat \<Rightarrow> 's lanhost \<Rightarrow> 's lanhost \<Rightarrow> bool" where
  "synced i s s' \<longleftrightarrow> lan_host_entry s' \<in> {lan_host_entry s, (lan_host_entry s)[i := zero_entry]}"

lemma table_vars [simp]:
  "lan_host_entry (tset T n a v s) = lan_host_entry s" "lan_host_entry (tcommit T n s) = lan_host_entry s"
  "lan_host_entry (lh_log_act x s) = lan_host_entry s"
  by (simp_all add: tset_def tcommit_def lh_log_act_def)

lemma table_if_do: "(\<And>u. lan_host_entry (f u) = lan_host_entry u) \<Longrightarrow> lan_host_entry (if_do b f s) = lan_host_entry s"
  by (simp add: if_do_def)

lemma table_sync_parts [simp]:
  "lan_host_entry (sync_first T n e fl s) = lan_host_entry s" "lan_host_entry (sync_rest T n e fl s) = lan_host_entry s"
  "lan_host_entry (sync_tail T k fl s) = lan_host_entry s"
  by (simp_all add: sync_first_def sync_rest_def sync_tail_def sync_ip_def sync_cnt_def sync_port_def Let_def table_if_do)

lemma neigh_loop_table:
  "lan_host_entry u = es \<Longrightarrow> post (neigh_loop T n m a ls c u) (\<lambda>x. lan_host_entry x = es)"
  by (induction ls arbitrary: c u) (auto simp: Let_def intro!: wp split: prod.split)

lemma ipv6_table: "post (set_ipv6_from_dhcp_arp W T i u) (\<lambda>x. lan_host_entry (snd x) = lan_host_entry u)"
  by (auto simp: set_ipv6_from_dhcp_arp_def Let_def intro!: neigh_loop_table [THEN post_mono] split: option.split)

lemma sync_synced: "post (sync_lan_host_info W T i fl s) (\<lambda>x. synced i s (snd x))"
  by (auto simp: sync_lan_host_info_def Let_def synced_def upd_ent_def table_if_do
      intro!: wp ipv6_table [THEN post_mono] split: prod.split)

section \<open>The periodic check\<close>

text \<open>With no assumption on the configuration, the lemmas of the locale say what happens to the table.\<close>

interpretation frame: host_store T "\<lambda>_. False" for T
  by unfold_locales simp_all

text \<open>What the check promises of an entry.\<close>

definition settled :: "lh_world \<Rightarrow> lan_host_entry \<Rightarrow> bool" where
  "settled W e \<longleftrightarrow> (valid e \<and> active e = 0 \<longrightarrow> \<not> OFFLINE_TIME < of_int (w_uptime W) - offline_time e) \<and>
     (valid e \<and> active e = 1 \<and> conn_type e = 0 \<longrightarrow> exist e \<noteq> 0)"

lemma zero_settled [simp]: "settled W zero_entry"
  by (simp add: settled_def zero_entry_def)

lemma offline_gone:
  "i < max_lan_host_num s \<Longrightarrow> post (set_lan_host_offline W T i f s) (\<lambda>x. valid (ent (snd x) i) \<longrightarrow> active (ent (snd x) i) = 0)"
  unfolding set_lan_host_offline_def post_cbind
  by (rule post_mono [OF sync_synced])
     (auto simp: synced_def upd_ent_def max_lan_host_num_def OFFLINE_def zero_entry_def)

lemma del_zero: "i < max_lan_host_num s \<Longrightarrow> post (del_lan_host W T i s) (\<lambda>x. ent (snd x) i = zero_entry)"
  unfolding del_lan_host_def post_cbind
  by (rule post_mono [OF sync_synced]) (auto simp: synced_def upd_ent_def max_lan_host_num_def)

lemma gone_wired:
  "i < max_lan_host_num s \<Longrightarrow>
   post (check_gone W T i s) (\<lambda>s'. valid (ent s' i) \<and> active (ent s' i) = 1 \<and> conn_type (ent s' i) = 0 \<longrightarrow> exist (ent s' i) \<noteq> 0)"
  unfolding check_gone_def Let_def
  by (auto intro!: reading_wp offline_gone [THEN post_mono])

lemma expired_settled:
  assumes "i < max_lan_host_num s" "valid (ent s i) \<and> active (ent s i) = 1 \<and> conn_type (ent s i) = 0 \<longrightarrow> exist (ent s i) \<noteq> 0"
  shows "post (check_expired W T i s) (\<lambda>s'. settled W (ent s' i))"
  using assms unfolding check_expired_def Let_def
  by (auto simp: settled_def intro!: del_zero [THEN post_mono]) (simp_all add: zero_entry_def)

lemma tame_num: "tame T G i s u \<Longrightarrow> max_lan_host_num u = max_lan_host_num s"
  by (simp add: tame_def max_lan_host_num_def)

lemma check_entry_settled:
  assumes "i < max_lan_host_num s"
  shows "post (check_entry W T p i c s) (\<lambda>x. settled W (ent (snd x) i))"
proof -
  have part: "post (if valid (ent s i) \<and> active (ent s i) = 1 then update_online W T i c s
      else if 0 < check_flag s ! i then cbind (check_offline W T i p s) (\<lambda>s1. Ret (c, s1)) else Ret (c, s))
      (\<lambda>x. tame T (\<lambda>_. False) i s (snd x))"
    by (auto intro!: frame.update_online_tame frame.check_offline_tame [THEN post_mono])
  show ?thesis
    unfolding check_entry_def post_cbind
    apply (rule post_mono [OF part])
    apply (clarsimp dest!: tame_num)
    apply (rule post_mono [OF post_conj [OF gone_wired frame.check_gone_tame [OF tame_refl]]])
     apply (use assms in simp)
    apply (clarsimp dest!: tame_num)
    apply (rule post_mono [OF expired_settled])
      apply (use assms in simp)
     apply simp
    apply simp
    done
qed

lemma check_entries_settled:
  "distinct ks \<Longrightarrow> \<forall>k \<in> set ks. k < max_lan_host_num s \<and> k < MAX_INSTANCE \<Longrightarrow>
   post (check_entries W T p ks c s) (\<lambda>s'. max_lan_host_num s' = max_lan_host_num s \<and>
     (\<forall>k \<in> set ks. settled W (ent s' k)) \<and> (\<forall>k. k \<notin> set ks \<longrightarrow> ent s' k = ent s k))"
proof (induction ks arbitrary: c s)
  case (Cons k ks)
  have k: "k < max_lan_host_num s" "k < MAX_INSTANCE" using Cons.prems by auto
  show ?case
    unfolding check_entries.simps post_cbind
  proof (rule post_mono [OF post_conj [OF check_entry_settled [OF k(1)] frame.check_entry_tame [OF k(2) tame_refl]]])
    fix x :: "(u64 \<times> u64) \<times> 'a lanhost"
    assume x: "settled W (ent (snd x) k) \<and> tame T (\<lambda>_. False) k s (snd x)"
    obtain c1 s1 where x1: "x = (c1, s1)" by (cases x)
    have n: "max_lan_host_num s1 = max_lan_host_num s" and o: "j \<noteq> k \<Longrightarrow> ent s1 j = ent s j" for j
      using x tame_num [of T "\<lambda>_. False" k s s1] by (auto simp: x1 tame_def)
    show "post (case x of (cnt1, s1) \<Rightarrow> check_entries W T p ks cnt1 s1) (\<lambda>s'. max_lan_host_num s' = max_lan_host_num s \<and>
        (\<forall>k \<in> set (k # ks). settled W (ent s' k)) \<and> (\<forall>j. j \<notin> set (k # ks) \<longrightarrow> ent s' j = ent s j))"
      unfolding x1 prod.case
      by (rule post_mono [OF Cons.IH]) (use Cons.prems x n o in \<open>auto simp: x1\<close>)
  qed
qed simp

text \<open>The addresses the lines of \<open>stb_list\<close> give; a line without one repeats the last.\<close>

fun stb_macs :: "string list \<Rightarrow> int \<times> string \<Rightarrow> string list cres" where
  "stb_macs [] pm = Ret []"
| "stb_macs (l # ls) pm = cbind (scan_stb l pm) (\<lambda>(p, m). cbind (stb_macs ls (p, m)) (\<lambda>ms. Ret (m # ms)))"

definition same_mac :: "lan_host_entry \<Rightarrow> string \<Rightarrow> bool" where
  "same_mac e m \<longleftrightarrow> mac_key e \<in> {lower (lan_mac_rm_dot m), lower (take DEV_MAC_ADDR_LEN (lan_mac_rm_dot m))}"

definition seen_in :: "string set \<Rightarrow> 's lanhost \<Rightarrow> bool" where
  "seen_in S s \<longleftrightarrow> (\<forall>i < max_lan_host_num s. exist (ent s i) = 1 \<longrightarrow> (\<exists>m \<in> S. same_mac (ent s i) m))"

lemma check_mac_marks:
  "post (check_mac_exist T m slot s) (\<lambda>x. snd x = s \<or>
     (\<exists>i. same_mac (ent s i) m \<and> snd x = upd_ent i (exist_update (\<lambda>_. 1)) s))"
proof -
  have scan: "post (mac_scan T (lan_mac_rm_dot m) ks o1 lat se sl s) (\<lambda>x. snd x = s \<or>
      (\<exists>i. same_mac (ent s i) m \<and> snd x = upd_ent i (exist_update (\<lambda>_. 1)) s))" for ks o1 lat se sl
    apply (rule post_mono [OF mac_scan_spec])
    subgoal for x
      by (cases x; cases "fst x") (auto simp: same_mac_def strcasecmp_eq_def mac_key_def if_do_def split: if_splits)
    done
  show ?thesis
    unfolding check_mac_exist_def post_cbind
    apply (rule post_True)
    apply clarsimp
    apply (rule post_mono [OF scan])
    subgoal for n k x by (cases x; cases "fst x") auto
    done
qed

lemma adds_num: "adds T G i m s s' \<Longrightarrow> max_lan_host_num s' = max_lan_host_num s"
  by (simp add: adds_def max_lan_host_num_def)

lemma adds_seen:
  assumes "adds T G i (take DEV_MAC_ADDR_LEN (lan_mac_rm_dot m)) s s'" "seen_in S s" "m \<in> S"
  shows "seen_in S s'"
proof -
  show ?thesis
    unfolding seen_in_def adds_num [OF assms(1)]
  proof (intro allI impI)
    fix j assume j: "j < max_lan_host_num s" "exist (ent s' j) = 1"
    show "\<exists>m \<in> S. same_mac (ent s' j) m"
      using assms j by (cases "j = i") (auto simp: adds_def milder_def seen_in_def same_mac_def mac_key_def)
  qed
qed

lemma mark_seen: "seen_in S s \<Longrightarrow> same_mac (ent s i) m \<Longrightarrow> m \<in> S \<Longrightarrow> seen_in S (upd_ent i (exist_update f) s)"
  by (auto simp: seen_in_def ent_upd same_mac_def mac_key_def)

lemma stb_loop_seen:
  "seen_in S s \<Longrightarrow> stb_macs ls pm = Ret ms \<Longrightarrow> set ms \<subseteq> S \<Longrightarrow>
   post (stb_loop W T ls pm slot s) (\<lambda>x. seen_in S (snd x) \<and> max_lan_host_num (snd x) = max_lan_host_num s)"
proof (induction ls arbitrary: pm slot s ms)
  case (Cons l ls)
  from Cons.prems(2) obtain p m ms1 where m: "scan_stb l pm = Ret (p, m)" "stb_macs ls (p, m) = Ret ms1" "ms = m # ms1"
    by auto
  have S: "m \<in> S" "set ms1 \<subseteq> S" using Cons.prems(3) m by auto
  have IH: "post (stb_loop W T ls (p, m) sl u) (\<lambda>x. seen_in S (snd x) \<and> max_lan_host_num (snd x) = max_lan_host_num s)"
    if "seen_in S u" "max_lan_host_num u = max_lan_host_num s" for sl u
    using Cons.IH [OF that(1) m(2) S(2)] that(2) by simp
  have add: "post (add_lan_host W T (Some i) m ct q u) (\<lambda>x. seen_in S (snd x) \<and> max_lan_host_num (snd x) = max_lan_host_num u)"
    if "seen_in S u" for i ct q u
    by (rule post_mono [OF frame.add_adds])
       (use that S(1) in \<open>auto intro: adds_seen adds_num\<close>)
  have chk: "post (check_mac_exist T m slot s) (\<lambda>x. seen_in S (snd x) \<and> max_lan_host_num (snd x) = max_lan_host_num s)"
    by (rule post_mono [OF check_mac_marks]) (use Cons.prems(1) S(1) in \<open>auto intro: mark_seen\<close>)
  show ?case
    unfolding stb_loop.simps m(1) cbind.simps prod.case post_cbind
    by (rule post_mono [OF chk]) (auto intro!: IH add [THEN post_mono])
qed simp

lemma tame_seen: "tame T G i s s' \<Longrightarrow> seen_in S s \<Longrightarrow> seen_in S s'"
proof -
  assume a: "tame T G i s s'" "seen_in S s"
  have "exist (ent s j) = 1 \<and> mac (ent s' j) = mac (ent s j)" if "exist (ent s' j) = 1" for j
    using a(1) that by (cases "j = i") (auto simp: tame_def milder_def)
  then show ?thesis using a(2) unfolding seen_in_def tame_num [OF a(1)] by (auto simp: same_mac_def mac_key_def)
qed

lemma check_entries_seen:
  "seen_in S s \<Longrightarrow> \<forall>k \<in> set ks. k < MAX_INSTANCE \<Longrightarrow> post (check_entries W T p ks c s) (seen_in S)"
proof (induction ks arbitrary: c s)
  case (Cons k ks)
  then have k: "k < MAX_INSTANCE" by simp
  show ?case
    unfolding check_entries.simps post_cbind
    by (rule post_mono [OF frame.check_entry_tame [OF k tame_refl]])
       (use Cons.prems in \<open>auto intro!: Cons.IH dest: tame_seen\<close>)
qed simp

lemma clear_seen: "seen_in S (clear_exist s)"
  by (auto simp: seen_in_def clear_exist_def max_lan_host_num_def if_do_def)


definition idle_world :: lh_world where
  "idle_world = \<lparr>w_stb_list = Some [], w_udhcp_lease = None, w_arp = None, w_ipv6_neigh = None,
     w_eth_portmap = None, w_gsw_link_st = None, w_eth_port_status = None, w_uptime = 100000, w_monotonic = 100000,
     w_localtime = (126, 0, 2, 3, 4, 5), w_time_after = (\<lambda>t _. t), w_traffic = (\<lambda>_ _ x. x),
     w_stations = (\<lambda>_. []), w_bssids = 0, w_wlan_ports = 0\<rparr>"

text \<open>Of two hosts that are offline one has been so for more than a day.\<close>

definition idle_table :: "plain lanhost" where
  "idle_table = table_of (\<lambda>_. None) [host_at ''001122334455'' 700, host_at ''001122334466'' 99000]"

definition idle_after :: "plain lanhost" where
  "idle_after = (case check_lan_host_update idle_world plain_tc idle_table of Ret (_, s) \<Rightarrow> s | Fault _ \<Rightarrow> idle_table)"


section \<open>No limit\<close>

text \<open>No entry holds an address it did not hold.\<close>

definition no_new :: "'s lanhost \<Rightarrow> 's lanhost \<Rightarrow> bool" where
  "no_new s s' \<longleftrightarrow> max_lan_host_num s' = max_lan_host_num s \<and>
     (\<forall>i < max_lan_host_num s. mac (ent s' i) \<in> {mac (ent s i), []})"

lemma no_new_refl [simp]: "no_new s s"
  by (simp add: no_new_def)

lemma no_new_trans: "no_new s t \<Longrightarrow> no_new t u \<Longrightarrow> no_new s u"
  unfolding no_new_def by (metis insert_iff singletonD)

lemma tame_no_new: "tame T G i s s' \<Longrightarrow> no_new s s'"
  unfolding no_new_def by (metis insert_iff milder_def tame_def tame_num)

lemma no_limit: "tc_get T (lh_store s) LANHost2_Common ''LANHostMaxNumber'' = None \<Longrightarrow> post (read_limits T s) (\<lambda>(n, m). m = 0)"
  by (auto simp: read_limits_def read_num_def tget_def atoi_def intro!: post_True split: option.split)

lemma no_limit_check:
  "tc_get T (lh_store s) LANHost2_Common ''LANHostMaxNumber'' = None \<Longrightarrow>
   post (check_mac_exist T m (-1) s) (\<lambda>x. x = ((False, -1), s))"
  unfolding check_mac_exist_def post_cbind
  by (rule post_mono [OF no_limit]) auto

lemma no_limit_stb:
  "tc_get T (lh_store s) LANHost2_Common ''LANHostMaxNumber'' = None \<Longrightarrow> post (stb_loop W T ls pm (-1) s) (\<lambda>x. snd x = s)"
proof (induction ls arbitrary: pm)
  case (Cons l ls)
  show ?case
    unfolding stb_loop.simps post_cbind
    by (auto intro!: reading_wp no_limit_check [OF Cons.prems, THEN post_mono] Cons.IH [OF Cons.prems])
qed simp

lemma no_limit_empty:
  "tc_get T (lh_store s) LANHost2_Common ''LANHostMaxNumber'' = None \<Longrightarrow> post (find_empty_lan_host_entry T s) (\<lambda>x. x = None)"
  unfolding find_empty_lan_host_entry_def post_cbind
  by (rule post_mono [OF no_limit]) auto

lemma entries_no_new: "\<forall>k \<in> set ks. k < MAX_INSTANCE \<Longrightarrow> post (check_entries W T p ks c s) (no_new s)"
proof (induction ks arbitrary: c s)
  case (Cons k ks)
  then have k: "k < MAX_INSTANCE" by simp
  show ?case
    unfolding check_entries.simps post_cbind
    by (rule post_mono [OF frame.check_entry_tame [OF k tame_refl]])
       (use Cons.prems in \<open>auto intro!: Cons.IH [THEN post_mono] intro: no_new_trans dest!: tame_no_new\<close>)
qed simp

lemma tame_keeps_no_new: "tame T G i s u \<Longrightarrow> no_new s0 s \<Longrightarrow> no_new s0 u"
  by (blast intro: no_new_trans tame_no_new)

lemma dhcp_no_new: "no_new s0 s \<Longrightarrow> post (dhcp_all W T ks s) (no_new s0)"
  by (induction ks arbitrary: s) (auto intro!: frame.dhcp_tame [OF tame_refl, THEN post_snd] dest: tame_keeps_no_new)

lemma down_no_new: "no_new s0 s \<Longrightarrow> post (down_all W T p ks s) (no_new s0)"
  by (induction ks arbitrary: s) (auto intro!: frame.offline_tame [OF tame_refl, THEN post_snd] dest: tame_keeps_no_new)

lemma alink_no_new: "no_new s0 s \<Longrightarrow> post (alink_all W T a m ks s) (no_new s0)"
  by (induction ks arbitrary: s) (auto intro!: frame.alink_entry_tame [OF tame_refl, THEN post_mono] dest: tame_keeps_no_new)

lemma no_new_vars [simp]:
  "no_new s0 (lh_log_act a u) = no_new s0 u" "no_new s0 (u\<lparr>lan_port_status := z\<rparr>) = no_new s0 u"
  "no_new s0 (u\<lparr>check_flag := c\<rparr>) = no_new s0 u" "no_new s0 (u\<lparr>lan_port_rate := r\<rparr>) = no_new s0 u"
  "no_new s0 (u\<lparr>lan_port_duplex := d\<rparr>) = no_new s0 u" "no_new s0 (u\<lparr>save_flag := b\<rparr>) = no_new s0 u"
  by (simp_all add: no_new_def max_lan_host_num_def lh_log_act_def)

lemma no_new_exist [simp]: "no_new s0 (upd_ent i (exist_update f) u) = no_new s0 u"
  by (auto simp: no_new_def ent_upd)

lemma no_new_clear [simp]: "no_new s (clear_exist s)"
  by (simp add: no_new_def clear_exist_def max_lan_host_num_def if_do_def)

lemma wifi_no_new:
  assumes "tc_get T (lh_store s) LANHost2_Common ''LANHostMaxNumber'' = None"
  shows "post (wifi_add W T m p s) (\<lambda>x. no_new s (snd x))"
proof (cases "find_lan_host_entry_by_mac m s")
  case None
  then show ?thesis
    unfolding wifi_add_def by (auto simp: add_lan_host_def intro!: no_limit_empty [OF assms, THEN post_mono])
next
  case (Some i)
  have t: "tame T (\<lambda>_. False) i s (upd_ent i (conn_type_update (\<lambda>_. 1)) s)" by (intro tame_upd) (simp_all add: gentle_simps)
  show ?thesis
    unfolding wifi_add_def Some
    by (auto simp: if_do_def intro!: frame.online_tame [of _ i s, THEN post_snd] frame.move_port_tame [of _ i s, THEN post_snd] t)
       (blast dest: tame_no_new)+
qed

lemma wifi_others_no_new:
  "post (wifi_del W T m o1 s) (\<lambda>x. no_new s (snd x))" "post (wifi_update W T m o1 rs rt s) (\<lambda>x. no_new s (snd x))"
  unfolding wifi_del_def wifi_update_def
  by (auto simp: gentle_simps intro!: reading_wp frame.offline_tame [OF tame_refl, THEN post_snd]
      frame.move_port_tame [of _ _ s, THEN post_snd] tame_upd dest: tame_no_new split: option.split)

lemma dispatch_no_new:
  assumes "tc_get T (lh_store s) LANHost2_Common ''LANHostMaxNumber'' = None"
  shows "post (ecnt_dispatch W T ev s) (\<lambda>x. no_new s (snd x))"
proof (cases ev)
  case (WifiUpdateStaInfo d)
  then show ?thesis
    by (auto simp: ecnt_dispatch_def wifi_update_handler_def Let_def
        intro!: reading_wp wifi_no_new [OF assms] wifi_others_no_new)
qed (auto simp: ecnt_dispatch_def dhcp_reinit_hander_def lan_up_handler_def lan_down_handler_def alink_bridge_dev_handler_def Let_def
    intro!: dhcp_no_new [THEN post_mono] down_no_new [THEN post_mono] alink_no_new [THEN post_mono])

text \<open>While the configuration has no \<open>LANHostMaxNumber\<close>, neither the periodic check nor an event enters
  a host: every entry keeps its address or loses it. The missing limit counts as 0, where the commit
  handler of the hosts takes 64.\<close>

theorem no_limit_no_hosts:
  assumes "tc_get T (lh_store s) LANHost2_Common ''LANHostMaxNumber'' = None" and "max_lan_host_num s \<le> MAX_INSTANCE"
    and "check_lan_host_update W T s = Ret (r, s') \<or> ecnt_dispatch W T ev s = Ret (r, s')"
    and "i < max_lan_host_num s"
  shows "mac (ent s' i) = mac (ent s i) \<or> mac (ent s' i) = []"
proof -
  have "post (check_lan_host_update W T s) (\<lambda>x. no_new s (snd x))"
  proof -
    have l: "tc_get T (lh_store (clear_exist s)) LANHost2_Common ''LANHostMaxNumber'' = None"
      using assms(1) by (simp add: clear_exist_def)
    have n: "max_lan_host_num (clear_exist s) = max_lan_host_num s" by (simp add: clear_exist_def max_lan_host_num_def)
    have "post (check_entries W T p [0..<max_lan_host_num s] c (clear_exist s)) (no_new s)" for p c
      by (rule post_mono [OF entries_no_new]) (use assms(2) in \<open>auto intro: no_new_trans [OF no_new_clear]\<close>)
    then show ?thesis
      unfolding check_lan_host_update_def Let_def
      by (auto simp: if_do_def n intro!: no_limit_stb [OF l, THEN post_mono] elim!: post_mono split: option.split)
  qed
  then have "no_new s s'" using assms(3) dispatch_no_new [OF assms(1), of W ev] by (auto dest: postD)
  then show ?thesis using assms(4) by (auto simp: no_new_def)
qed

definition refused :: "plain lanhost" where
  "refused = (case ecnt_dispatch idle_world plain_tc (WifiUpdateStaInfo ''add;0;0;00:11:22:dd:ee:ff'') (table_of (\<lambda>_. None) [zero_entry]) of
     Ret (_, s) \<Rightarrow> s | Fault _ \<Rightarrow> table_of (\<lambda>_. None) [])"

theorem no_limit_no_hosts_witness:
  "ecnt_dispatch idle_world plain_tc (WifiUpdateStaInfo ''add;0;0;00:11:22:dd:ee:ff'') (table_of (\<lambda>_. None) [zero_entry]) = Ret (-1, refused) \<and>
   mac (ent refused 0) = []"
proof -
  let ?ev = "WifiUpdateStaInfo ''add;0;0;00:11:22:dd:ee:ff''" and ?s = "table_of (\<lambda>_. None) [zero_entry]"
  have "(case ecnt_dispatch idle_world plain_tc ?ev ?s of Ret (r, s) \<Rightarrow> r = -1 | Fault _ \<Rightarrow> False)" by code_simp
  then have e: "ecnt_dispatch idle_world plain_tc ?ev ?s = Ret (-1, refused)" by (auto simp: refused_def split: cres.splits)
  have l: "tc_get plain_tc (lh_store ?s) LANHost2_Common ''LANHostMaxNumber'' = None" "max_lan_host_num ?s = 1" "mac (ent ?s 0) = []"
    by code_simp+
  show ?thesis
    using no_limit_no_hosts [OF l(1) _ disjI2 [OF e], of 0] l e by (simp add: MAX_INSTANCE_def)
qed

section \<open>A node removed by another program\<close>

definition unplaced :: "nat \<Rightarrow> 's lanhost \<Rightarrow> bool" where
  "unplaced i s \<longleftrightarrow> i < max_lan_host_num s \<and> conn_type (ent s i) = 0 \<and> port (ent s i) = 0"

lemma unplaced_upd:
  "unplaced i s \<Longrightarrow> (\<And>e. conn_type (f e) = conn_type e \<and> port (f e) = port e) \<Longrightarrow> unplaced i (upd_ent i f s)"
  by (auto simp: unplaced_def ent_upd)

lemma unplaced_sync: "unplaced i s \<Longrightarrow> post (sync_lan_host_info W T i fl s) (\<lambda>x. unplaced i (snd x))"
  by (rule post_mono [OF sync_synced]) (auto simp: synced_def unplaced_def max_lan_host_num_def zero_entry_def)

lemma unplaced_expire: "unplaced i s \<Longrightarrow> post (check_expire_time W i l s) (unplaced i)"
  by (auto simp: check_expire_time_def Let_def intro!: unplaced_upd) (simp add: unplaced_def max_lan_host_num_def)

lemma unplaced_entry: "unplaced i s \<Longrightarrow> post (set_lan_host_entry W T i s) (\<lambda>x. unplaced i (snd x))"
  by (auto simp: set_lan_host_entry_def set_ip_from_dhcp_def set_ip_from_arp_def
      intro!: reading_wp unplaced_sync [THEN post_snd] unplaced_expire [THEN post_mono] unplaced_upd split: option.split)

lemma unplaced_online:
  fixes s :: "'s lanhost"
  assumes "unplaced i s" "\<not> valid (ent s i)" "w_eth_portmap W = Some t"
  shows "post (set_lan_host_online W T i f s) (\<lambda>_. False)"
proof -
  have link: "set_link W i (int (unat (port (ent v i)))) v = Fault ReadPastEnd" if "unplaced i v" for v :: "'s lanhost"
    using that assms(3) by (simp add: set_link_def get_lan_port_negorate_def Let_def unplaced_def)
  have tail: "post (cbind (if conn_type (ent v i) = 0 then set_link W i (int (unat (port (ent v i)))) v else Ret (True, v)) h) P"
    if "unplaced i v" for v :: "'s lanhost" and h P
    using that link [OF that] by (simp add: unplaced_def)
  have upd: "unplaced i (upd_ent i (\<lambda>e. (if_do (conn_type e = 0 \<or> k = (0::int)) (active_update (\<lambda>_. 1)) e)\<lparr>active_time := a, online_time := o1\<rparr>) v)"
    if "unplaced i v" for v :: "'s lanhost" and k a o1
    using that by (intro unplaced_upd) (auto simp: if_do_def)
  have "unplaced i (upd_ent i (valid_update (\<lambda>_. True)) s)"
    "unplaced i (upd_ent i (update_flag_update g) (upd_ent i (valid_update (\<lambda>_. True)) s))" for g
    using assms(1) by (intro unplaced_upd; simp)+
  then have first: "post (if f then set_lan_host_entry W T i (upd_ent i (update_flag_update g) (upd_ent i (valid_update (\<lambda>_. True)) s))
      else Ret (0, upd_ent i (valid_update (\<lambda>_. True)) s)) (\<lambda>x. unplaced i (snd x))" for g
    by (auto intro: unplaced_entry)
  have v: "\<not> (valid (ent s i) \<and> active (ent s i) = 1)" using assms(2) by simp
  show ?thesis
    unfolding set_lan_host_online_def Let_def if_not_P [OF v] post_cbind [of "if f then _ else _"]
    apply (rule post_mono [OF first])
    subgoal for x by (cases x, simp only: prod.case snd_conv, rule tail, rule upd, assumption)
    done
qed


definition moved_world :: lh_world where
  "moved_world = idle_world\<lparr>w_eth_portmap := Some []\<rparr>"


end
