(* ===== verification/TcapiSpec.thy ===== *)
theory TcapiSpec
  imports Tcapi CfgFileSpec
begin

text \<open>
  The calls of \<open>Tcapi\<close> on the object tree: what the names of numbered entries are translated to, what a
  call that writes may change, what a removal leaves alone, and that what was written is read back.
\<close>

unbundle bit_operations_syntax

section \<open>Node names of numbered entries\<close>

lemma atoi_all_digits:
  assumes "ds \<noteq> []" "\<forall>c \<in> set ds. is_digit c"
  shows "atoi ds = min (2 ^ 31 - 1) (int (atoi_digits 0 ds))"
  using assms atoi_digit_start by (cases ds) (auto simp: clamp_int_def)

text \<open>The number behind \<open>_Entry\<close> may have any size: the greatest \<open>int\<close> overflows, and what fits leads to
  the path with the number plus one.\<close>

lemma entry_digits:
  assumes "type_name (db_root (env_types E)) = ''root''"
    and "name_ok a" and "CHR ''_'' \<notin> set a" and "length a < CFG_MAX_TYPE_NAME - 1"
    and "cfg_type_query (env_types E) (''root.'' @ lower a @ ''.entry'') = Ret (Some t)"
    and "is_flag CFG_TYPE_FLAG_MULTIPLE t" and ds: "ds \<noteq> []" "\<forall>c \<in> set ds. is_digit c" "length ds \<le> 17" and "length a + 40 < sz"
  shows "cfg_parse_node_name E (a @ ''_Entry'' @ ds) sz s =
    (if atoi ds = 2 ^ 31 - 1 then Fault IntOverflow
     else Ret ((0, ''root.'' @ lower a @ ''.entry.'' @ nat_str (Suc (nat (atoi ds)))), s))"
proof -
  let ?e = "''entry'' @ ds" and ?name = "a @ ''_Entry'' @ ds"
  have r: "0 \<le> atoi ds" "atoi ds < 2 ^ 31" using ds by (simp_all add: atoi_all_digits)
  have lk: "length (nat_str (Suc (nat (atoi ds)))) \<le> 10"
    by (rule nat_str_length_le) (use r in auto)
  have "lower ds = ds" by (rule map_idI) (use ds in auto)
  then have low: "cfg_str_to_lower ?name = lower a @ CHR ''_'' # ?e"
    by (simp add: cfg_str_to_lower_def lower_char_def cval_def char_of_eq_iff take_bit_eq_mod)
  have "CHR ''_'' \<notin> set ?e" using ds by (auto simp: is_digit_def cval_def)
  moreover have "lower a \<noteq> []" "CHR ''_'' \<notin> set (lower a)" using assms(2,3)
    by (auto simp: name_ok_def lower_char_underscore dest: sym [of "CHR ''_''"])
  ultimately have split: "cfg_parse_split_name (cfg_str_to_lower ?name) = [lower a, ?e]"
    unfolding low by (intro split_two) auto
  have "is_digit (hd ds)" using ds by simp
  then have "cval (hd ds) < 128" by (simp add: is_digit_def)
  then have "numbered_name ''entry'' ?e"
    using ds by (simp add: numbered_name_def nth_append hd_conv_nth [symmetric] is_digit_def)
  then have "name_number ?e = atoi ds" by (simp add: name_number_def)
  then have num: "cfg_parse_entry_pvc_number E (''root.'' @ lower a @ ''.entry'') ?e s =
      (if atoi ds = 2 ^ 31 - 1 then Fault IntOverflow else Ret (atoi ds + 1, s))"
    using assms(5,6) r by (simp add: cfg_parse_entry_pvc_number_def is_flag_def)
  have i: "int_str (atoi ds + 1) = nat_str (Suc (nat (atoi ds)))" using r by (simp add: int_str_def nat_add_distrib)
  have "numbered_path E sz (''root.'' @ lower a @ ''.entry'') ?e s = (if atoi ds = 2 ^ 31 - 1 then Fault IntOverflow
      else Ret (''root.'' @ lower a @ ''.entry.'' @ nat_str (Suc (nat (atoi ds))), s))"
    using num lk assms(10) by (simp add: numbered_path_def fits_def i)
  moreover have "\<not> (\<exists>b \<in> set [lower a, ?e]. CFG_MAX_TYPE_NAME - 1 \<le> length b)"
    using assms(4) ds by (simp add: c_defs)
  moreover have "\<not> sz < length ?name" "length ?name \<noteq> sz" using assms(10) ds by auto
  ultimately show ?thesis
    unfolding cfg_parse_node_name_def split Let_def by (simp add: cfg_type_get_root_def assms(1))
qed

section \<open>The calls on the object tree\<close>

definition live_root :: "cfg_state \<Rightarrow> bool" where
  "live_root s \<longleftrightarrow> (case cfg_obj_root s of RootLive _ \<Rightarrow> True | _ \<Rightarrow> False)"

lemma live_root_iff: "live_root s \<longleftrightarrow> (\<exists>r. cfg_obj_root s = RootLive r)"
  by (auto simp: live_root_def split: root_ptr.splits)

definition tree_tc :: "tcapi_env \<Rightarrow> cfg_state tc_ops" where
  "tree_tc X = \<lparr>
     tc_get = (\<lambda>s n a. case tcapi_get X MAXLEN_TCAPI_MSG n a s of
                 Ret ((r, v), _) \<Rightarrow> if r = TCAPI_PROCESS_OK then Some v else None | Fault _ \<Rightarrow> None),
     tc_set = (\<lambda>n a v s. case tcapi_set X n a v s of Ret (_, s') \<Rightarrow> s' | Fault _ \<Rightarrow> s),
     tc_unset = (\<lambda>n s. case tcapi_unset X n s of Ret (_, s') \<Rightarrow> s' | Fault _ \<Rightarrow> s),
     tc_commit = (\<lambda>n s. case tcapi_commit X n s of Ret (_, s') \<Rightarrow> s' | Fault _ \<Rightarrow> s)\<rparr>"

text \<open>\<open>n\<close> is translated to \<open>path\<close> whatever the state.\<close>

definition names_path :: "cfg_env \<Rightarrow> string \<Rightarrow> string \<Rightarrow> bool" where
  "names_path E n path \<longleftrightarrow> (\<forall>s. cfg_parse_node_name E (take (MAXLEN_NODE_NAME - 1) n) 128 s = Ret ((0, path), s))"

definition at_path :: "cfg_env \<Rightarrow> string \<Rightarrow> u32 list \<Rightarrow> bool" where
  "at_path E path p \<longleftrightarrow> (\<exists>i. cfg_path_to_oid_array (env_types E) path = Ret (Some (i # p)) \<and> p \<noteq> [])"

lemma get_obj_at:
  assumes "at_path E path p" "cfg_obj_root s = RootLive r"
  shows "cfg_obj_get_obj E s path = Ret (if obj_at r p = None then None else Some p)"
  using assms by (auto simp: at_path_def get_obj_live_eq [OF assms(2)])

lemma get_cmd_ret:
  assumes "xml_laws E" "type_op E op_get path = Ret (Some DefaultFunc)" "at_path E path p" "cfg_obj_root s = RootLive r"
  shows "\<exists>s'. get_cmd (H, E, op) path m s = Ret (case attr_at s p (msg_attr m) of
      None \<Rightarrow> (if obj_at r p = None then -1 else -2, msg_value m)
    | Some v \<Rightarrow> (int (length (take 1023 v)), take 1023 v), s')"
proof (cases "obj_at r p")
  case None
  then have "attr_at s p (msg_attr m) = None" using assms(4) by (simp add: attr_at_def)
  with None show ?thesis
    using get_obj_at [OF assms(3,4)] assms(2)
    by (simp add: get_cmd_def cfg_get_object_attr_def cfg_type_default_func_get_def cfg_obj_get_object_attr_def Let_def)
next
  case (Some x)
  then have "cfg_obj_get_obj E s path = Ret (Some p)" using get_obj_at [OF assms(3,4)] by simp
  from get_attr_eq [OF assms(1) this assms(4)] Some show ?thesis
    by (auto simp: get_cmd_def cfg_get_object_attr_def assms(2) cfg_type_default_func_get_def split: option.splits)
qed

lemma tc_get_eq:
  assumes "xml_laws E" "names_path E n path" "type_op E op_get path = Ret (Some DefaultFunc)" "at_path E path p" "live_root s"
  shows "tc_get (tree_tc (H, E, op)) s n a = map_option (take 1023) (attr_at s p (take 31 a))"
proof -
  obtain r where r: "cfg_obj_root s = RootLive r" using assms(5) by (auto simp: live_root_iff)
  let ?m = "get_msg TCAPI_GET_CMD n a"
  have m: "op_cmd ?m = TCAPI_GET_CMD" "msg_node ?m = take (MAXLEN_NODE_NAME - 1) n" "msg_attr ?m = take 31 a" "msg_value ?m = []"
    by (simp_all add: get_msg_def new_msg_def MAXLEN_ATTR_NAME_def)
  from get_cmd_ret [OF assms(1,3,4) r, of H op ?m] obtain s' where
    g: "get_cmd (H, E, op) path ?m s = Ret (case attr_at s p (take 31 a) of
      None \<Rightarrow> (if obj_at r p = None then -1 else -2, []) | Some v \<Rightarrow> (int (length (take 1023 v)), take 1023 v), s')"
    unfolding m by blast
  have "tcapi_get (H, E, op) MAXLEN_TCAPI_MSG n a s = Ret (case attr_at s p (take 31 a) of
      None \<Rightarrow> (TCAPI_NONE_NODE, []) | Some v \<Rightarrow> (TCAPI_PROCESS_OK, take 1023 v), s')"
    using assms(2) r
    by (auto simp: tcapi_get_def send2CfgManager_to_2_def m names_path_def g copy_out_def MAXLEN_TCAPI_MSG_def Let_def
        simp del: cbind_eq_Ret split: option.splits)
  then show ?thesis by (auto simp: tree_tc_def TCAPI_NONE_NODE_def TCAPI_PROCESS_OK_def split: option.splits)
qed

subsection \<open>Writing\<close>

text \<open>What a call that writes attributes of \<open>A\<close> may change: it may create objects and change those attributes.\<close>

definition writes :: "string set \<Rightarrow> cfg_state \<Rightarrow> cfg_state \<Rightarrow> bool" where
  "writes A s s' \<longleftrightarrow> (live_root s \<longrightarrow> live_root s') \<and>
     (\<forall>q b w. b \<notin> A \<longrightarrow> attr_at s q b = Some w \<longrightarrow> attr_at s' q b = Some w)"

lemma writes_trans: "writes A s t \<Longrightarrow> writes A t u \<Longrightarrow> writes A s u"
  by (auto simp: writes_def)

lemma writes_root: "cfg_obj_root s' = cfg_obj_root s \<Longrightarrow> writes A s s'"
  by (simp add: writes_def live_root_def attr_at_def)

lemma keeps_writes: "keeps s s' \<Longrightarrow> writes A s s'"
proof -
  assume k: "keeps s s'"
  have "live_root s'" if "cfg_obj_root s = RootLive r" for r
    using k [unfolded keeps_def, rule_format, OF that, of "[]" r] by (auto simp: live_root_iff)
  moreover have "attr_at s' q b = Some w" if "attr_at s q b = Some w" for q b w
    using k that by (fastforce simp: keeps_def attr_at_def split: root_ptr.splits option.splits)
  ultimately show ?thesis by (auto simp: writes_def live_root_iff)
qed

lemma query_root: "cfg_obj_query_object E path None False s = Ret (x, s') \<Longrightarrow> cfg_obj_root s' = cfg_obj_root s"
  by (auto simp: cfg_obj_query_object_def query_subtype_def Let_def simp del: cbind_eq_Ret elim!: cbind_RetE
      split: option.splits)

text \<open>\<open>cfg_obj_set_object_attr\<close> changes one attribute of one object, if any.\<close>

lemma set_attr_done:
  assumes "xml_laws E" "cfg_obj_set_object_attr E (Some path) (Some a) (Some v) s = Ret (0, s')"
  obtains p where "live_root s'" "cfg_obj_get_obj E s path = Ret (Some p)"
    "\<forall>q b. attr_at s' q b = (if q = p \<and> b = a then Some v else attr_at s q b)"
    "\<forall>q. cfg_obj_get_obj E s' q = cfg_obj_get_obj E s q"
proof -
  from set_attr_cases [OF assms(2)] obtain r p obj where r: "cfg_obj_root s = RootLive r" "obj_at r p = Some obj"
      and g: "cfg_obj_get_obj E s path = Ret (Some p)"
      and s': "s' = cfg_obj_unlock (upd_obj p (\<lambda>y. set_private (env_xml_set E (obj_private y) a v) y) (cfg_obj_lock s))"
    by blast
  have "attr_at s' q b = (if q = p \<and> b = a then Some v else attr_at s q b)" for q b
    using attr_at_upd [of "cfg_obj_lock s" r p obj "\<lambda>y. env_xml_set E (obj_private y) a v" q b] r assms(1)
    by (auto simp: s' xml_laws_def attr_at_def)
  moreover have "cfg_obj_get_obj E s' q = cfg_obj_get_obj E s q" for q
    unfolding s' get_obj_locked by (subst get_obj_upd) simp_all
  moreover have "live_root s'" using r by (simp add: s' upd_obj_root live_root_iff)
  ultimately show thesis using g by (intro that) blast+
qed

lemma set_attr_at:
  assumes "xml_laws E" "cfg_obj_set_object_attr E (Some path) (Some a) (Some v) s = Ret (r, s')"
  shows "(live_root s \<longrightarrow> live_root s') \<and>
    (\<exists>P. \<forall>q b. attr_at s' q b = (if P q \<and> b = a then Some v else attr_at s q b)) \<and>
    (\<forall>q. cfg_obj_get_obj E s' q = cfg_obj_get_obj E s q)"
proof (cases "r = 0")
  case True
  with assms(2) have "cfg_obj_set_object_attr E (Some path) (Some a) (Some v) s = Ret (0, s')" by simp
  then obtain p where "live_root s'" "\<forall>q b. attr_at s' q b = (if q = p \<and> b = a then Some v else attr_at s q b)"
      "\<forall>q. cfg_obj_get_obj E s' q = cfg_obj_get_obj E s q"
    by (rule set_attr_done [OF assms(1)]) blast
  then show ?thesis by (auto intro!: exI [of _ "\<lambda>q. q = p"])
next
  case False
  with assms(2) have "cfg_obj_root s' = cfg_obj_root s"
    by (auto simp: cfg_obj_set_object_attr_def cfg_obj_set_obj_attr_def Let_def simp del: cbind_eq_Ret elim!: cbind_RetE
        split: option.splits if_splits)
  then show ?thesis using get_obj_root [of s' s E] by (auto simp: live_root_def attr_at_def intro!: exI [of _ "\<lambda>_. False"])
qed

lemma set_attr_writes:
  assumes "xml_laws E" "cfg_obj_set_object_attr E (Some path) (Some a) (Some v) s = Ret (r, s')" "a \<in> A"
  shows "writes A s s'"
  using set_attr_at [OF assms(1,2)] assms(3) by (auto simp: writes_def)

lemma default_set:
  "type_op E op_set path = Ret (Some DefaultFunc) \<Longrightarrow>
   cfg_set_object_attr H E path a v t = cfg_obj_set_object_attr E (Some path) (Some a) (Some v) t"
  by (simp add: cfg_set_object_attr_def cfg_type_default_func_set_def)

lemma set_cmd_writes:
  assumes "xml_laws E" "type_op E op_set path = Ret (Some DefaultFunc)" "set_cmd (H, E, op) path m s = Ret (r, s')"
  shows "writes {msg_attr m} s s'"
proof -
  from assms(3) obtain q ids s1 where q: "cfg_obj_query_object E path None False s = Ret ((q, ids), s1)"
    and rest: "cbind (if q \<le> 0 then cfg_obj_create_object E path s1 else Ret (0, s1)) (\<lambda>(r, s2).
       if r < 0 then Ret (-1, s2) else cfg_set_object_attr H E path (msg_attr m) (msg_value m) s2) = Ret (r, s')"
    by (auto simp: set_cmd_def simp del: cbind_eq_Ret elim!: cbind_RetE)
  from rest obtain k s2 where c: "(if q \<le> 0 then cfg_obj_create_object E path s1 else Ret (0, s1)) = Ret (k, s2)"
    and st: "(if k < 0 then Ret (-1, s2) else cfg_obj_set_object_attr E (Some path) (Some (msg_attr m)) (Some (msg_value m)) s2) = Ret (r, s')"
    unfolding default_set [OF assms(2)] by (auto simp del: cbind_eq_Ret elim!: cbind_RetE)
  have "writes {msg_attr m} s s1" using query_root [OF q] by (rule writes_root)
  moreover have "writes {msg_attr m} s1 s2"
    using c keep.create_rel keeps_writes by (auto split: if_splits intro: writes_root)
  moreover have "writes {msg_attr m} s2 s'"
    using st set_attr_writes [OF assms(1)] by (auto split: if_splits intro: writes_root)
  ultimately show ?thesis by (blast intro: writes_trans)
qed

lemma tc_set_eq:
  assumes "names_path E n path" "live_root s"
  shows "tc_set (tree_tc (H, E, op)) n a v s =
    (case set_cmd (H, E, op) path ((new_msg TCAPI_SET_CMD n)\<lparr>msg_attr := take 31 a, msg_value := take 1023 v\<rparr>) s of
       Ret (_, s') \<Rightarrow> s' | Fault _ \<Rightarrow> s)"
  using assms
  by (auto simp: tree_tc_def tcapi_set_def send2CfgManager_to_2_def names_path_def new_msg_def live_root_def Let_def
      MAXLEN_ATTR_NAME_def MAXLEN_TCAPI_MSG_def split: cres.splits root_ptr.splits)

lemma tc_set_writes:
  assumes "xml_laws E" "names_path E n path" "type_op E op_set path = Ret (Some DefaultFunc)" "live_root s"
  shows "writes {take 31 a} s (tc_set (tree_tc (H, E, op)) n a v s)"
  unfolding tc_set_eq [OF assms(2,4)]
  using set_cmd_writes [OF assms(1,3)] writes_root [of s s] by (fastforce split: cres.split)

lemma set_cmd_present:
  assumes "xml_laws E" "type_op E op_set path = Ret (Some DefaultFunc)" "at_path E path p"
    "cfg_obj_root s = RootLive r" "obj_at r p \<noteq> None" "set_cmd (H, E, op) path m s = Ret (k, s')" "b \<noteq> msg_attr m"
  shows "attr_at s' q b = attr_at s q b"
proof -
  have "cfg_obj_get_obj E s path = Ret (Some p)" using get_obj_at [OF assms(3,4)] assms(5) by simp
  then have "cfg_obj_query_object E path None False s = Ret ((1, []), cfg_obj_unlock (cfg_obj_lock s))"
    by (simp add: cfg_obj_query_object_def query_subtype_def Let_def)
  then have "cfg_obj_set_object_attr E (Some path) (Some (msg_attr m)) (Some (msg_value m)) (cfg_obj_unlock (cfg_obj_lock s)) = Ret (k, s')"
    using assms(2,6) by (simp add: set_cmd_def cfg_set_object_attr_def cfg_type_default_func_set_def)
  from set_attr_at [OF assms(1) this] assms(7) show ?thesis by auto
qed

lemma tc_set_other_attrs:
  assumes "xml_laws E" "names_path E n path" "type_op E op_set path = Ret (Some DefaultFunc)" "at_path E path p"
    "cfg_obj_root s = RootLive r" "obj_at r p \<noteq> None" "b \<noteq> take 31 a"
  shows "attr_at (tc_set (tree_tc (H, E, op)) n a v s) q b = attr_at s q b"
proof -
  have l: "live_root s" using assms(5) by (simp add: live_root_def)
  show ?thesis
    unfolding tc_set_eq [OF assms(2) l]
    using set_cmd_present [OF assms(1,3-6)] assms(7) by (fastforce split: cres.split)
qed

subsection \<open>Removing\<close>

lemma delete_root:
  assumes "cfg_obj_delete_object E path s = Ret (ret, s')" "cfg_obj_root s = RootLive r" "at_path E path p"
  shows "cfg_obj_root s' = RootLive (if obj_at r p = None then r else obj_upd (butlast p) (unlink_child (last p)) r)"
proof (cases "obj_at r p")
  case None
  then show ?thesis
    using assms get_obj_at [OF assms(3,2)] by (auto simp: cfg_obj_delete_object_def Let_def)
next
  case (Some x)
  have p: "p \<noteq> []" using assms(3) by (auto simp: at_path_def)
  let ?u = "cfg_obj_unlink_object p (cfg_obj_lock s)"
  have "cfg_obj_root (cfg_obj_release_object [x] ?u) = cfg_obj_root ?u"
    by (rule pool_stepD(1) [OF pool_step_release])
  then show ?thesis
    using assms(1,2) get_obj_at [OF assms(3,2)] Some p
    by (auto simp: cfg_obj_delete_object_def cfg_obj_del_object_def deref_def Let_def cfg_obj_unlink_object_def upd_obj_root
        simp del: cfg_obj_release_object.simps)
qed

lemma delete_outside:
  assumes "cfg_obj_delete_object E path s = Ret (ret, s')" "cfg_obj_root s = RootLive r" "at_path E path p"
    "take (length p) q \<noteq> p"
  shows "attr_at s' q b = attr_at s q b"
proof -
  have p: "butlast p @ [last p] = p" "Suc (length (butlast p)) = length p" using assms(3) by (auto simp: at_path_def)
  then show ?thesis
    using delete_root [OF assms(1-3)] obj_at_unlink_other [of "butlast p" q "last p" r] assms(2,4)
    by (auto simp: attr_at_def split: option.splits if_splits)
qed

lemma tc_unset_eq:
  assumes "names_path E n path" "type_op E op_delete path = Ret (Some DefaultFunc)" "live_root s"
  shows "tc_unset (tree_tc (H, E, op)) n s = (case cfg_obj_delete_object E path s of Ret (_, s') \<Rightarrow> s' | Fault _ \<Rightarrow> s)"
  using assms
  by (auto simp: tree_tc_def tcapi_unset_def send2CfgManager_to_2_def names_path_def new_msg_def live_root_def Let_def
      cfg_delete_object_def cfg_type_default_func_delete_def split: cres.splits root_ptr.splits)

lemma tc_commit_eq:
  assumes "names_path E n path" "type_op E op_commit path = Ret (Some (Handler h))" "live_root s"
    "cfg_commit_lock path = Ret (Some lock)"
  shows "tc_commit (tree_tc (H, E, op)) n s =
    (if op lock then (case hook_commit H h path s of Ret (_, s') \<Rightarrow> s' | Fault _ \<Rightarrow> s) else s)"
  using assms
  by (auto simp: tree_tc_def tcapi_commit_def send2CfgManager_to_2_def names_path_def new_msg_def live_root_def Let_def
      cfg_commit_object_def split: cres.splits root_ptr.splits)

section \<open>Reading back what was written\<close>

lemma set_cmd_done:
  assumes "type_op E op_set path = Ret (Some DefaultFunc)" "set_cmd (H, E, op) path m s = Ret (k, s')" "0 \<le> k"
  shows "k = 0 \<and> (\<exists>s2. cfg_obj_set_object_attr E (Some path) (Some (msg_attr m)) (Some (msg_value m)) s2 = Ret (0, s'))"
proof -
  obtain s2 where "cfg_obj_set_object_attr E (Some path) (Some (msg_attr m)) (Some (msg_value m)) s2 = Ret (k, s')"
    using assms(2,3)
    by (auto simp: set_cmd_def default_set [OF assms(1)] simp del: cbind_eq_Ret elim!: cbind_RetE split: if_splits)
  moreover from this have "k = 0"
    using assms(3)
    by (auto simp: cfg_obj_set_object_attr_def cfg_obj_set_obj_attr_def Let_def simp del: cbind_eq_Ret elim!: cbind_RetE
        split: option.splits if_splits)
  ultimately show ?thesis by blast
qed


definition tz_hooks :: hooks where
  "tz_hooks = \<lparr>hook_create = (\<lambda>_ _ s. Ret (0, s)), hook_delete = (\<lambda>_ _ s. Ret (0, s)), hook_set = (\<lambda>_ _ _ _ s. Ret (0, s)),
     hook_get = (\<lambda>_ _ _ _ s. Ret ((-1, None), s)), hook_commit = (\<lambda>_ _ s. Ret (0, s)),
     hook_query = (\<lambda>_ _ _ _ s. Ret ((-1, []), s))\<rparr>"


end
