(* ===== verification/LanHostTree.thy ===== *)
theory LanHostTree
  imports TcapiSpec LanHostStore ProductTypes
begin

text \<open>
  The object tree of the shipped types as the store of the LAN host manager: the tree behind the
  calls of \<open>Tcapi\<close>, with the commit handler of the LAN hosts, keeps the contract \<open>host_store\<close>.
\<close>

unbundle bit_operations_syntax

section \<open>Types found by name\<close>

lemma unnumbered_Cons: "unnumbered (t # ts) = hd (unnumbered [t]) # unnumbered ts"
  by (cases t) simp

lemma unnumbered_fields [simp]:
  "type_name (hd (unnumbered [t])) = type_name t" "type_flag (hd (unnumbered [t])) = type_flag t"
  "type_ops (hd (unnumbered [t])) = type_ops t" "type_subtype (hd (unnumbered [t])) = unnumbered (type_subtype t)"
  by (cases t; simp)+

lemma find_unnumbered:
  "find (\<lambda>t. P (type_name t)) (unnumbered ts) = map_option (\<lambda>t. hd (unnumbered [t])) (find (\<lambda>t. P (type_name t)) ts)"
proof (induction ts)
  case (Cons t ts)
  then show ?case by (subst unnumbered_Cons) (simp del: unnumbered.simps)
qed simp

lemma walk_unnumbered:
  "walk_names (unnumbered ts) ns = map_option (\<lambda>t. hd (unnumbered [t])) (walk_names ts ns)"
proof (induction ns arbitrary: ts)
  case (Cons n ns)
  have "find (\<lambda>t. name_match (type_name t) n) (unnumbered ts) =
      map_option (\<lambda>t. hd (unnumbered [t])) (find (\<lambda>t. name_match (type_name t) n) ts)"
    by (rule find_unnumbered)
  then show ?case using Cons.IH by (simp del: unnumbered.simps split: option.split)
qed simp

text \<open>What the operations of a type are, by the names that lead to it.\<close>

definition ops_at :: "cfg_node_type list \<Rightarrow> string list \<Rightarrow> (u32 \<times> cfg_node_ops option) option" where
  "ops_at ts ns = map_option (\<lambda>t. (type_flag t, type_ops t)) (walk_names ts ns)"

lemma ops_at_init:
  assumes "cfg_type_init root = Ret db"
  shows "ops_at [db_root db] ns = ops_at [root] ns"
proof -
  have "ops_at (unnumbered ts) ns = ops_at ts ns" for ts
    by (simp add: ops_at_def walk_unnumbered option.map_comp o_def del: unnumbered.simps)
  then show ?thesis using init_spec(2) [OF assms] by metis
qed

lemma walk_tokens_inst:
  "\<forall>n \<in> set ns. name_ok n \<Longrightarrow> ns \<noteq> [] \<Longrightarrow> token_digit d \<noteq> 0 \<Longrightarrow>
   walk_tokens db node na (ns @ [d]) = walk_names (sub_types db node) ns"
proof (induction ns arbitrary: node na)
  case (Cons n ns)
  show ?case
  proof (cases "ns = []")
    case True
    with Cons.prems show ?thesis by (auto split: option.splits)
  next
    case False
    have "walk_tokens db (Some u) False (ns @ [d]) = walk_names (type_subtype u) ns" for u
      using Cons.IH [of "Some u" False] Cons.prems False by simp
    with False Cons.prems show ?thesis by (simp split: option.splits)
  qed
qed simp

lemma type_op_names:
  assumes "\<forall>n \<in> set ns. name_ok n" "ns \<noteq> []" "length ns < CFG_MAX_NODE_LEVEL - 1" "ops_at [db_root (env_types E)] ns = Some (fl, Some o1)"
  shows "type_op E sel (join_dots ns) = Ret (sel o1)"
    and "0 < k \<Longrightarrow> k < 2 ^ 31 \<Longrightarrow> type_op E sel (join_dots (ns @ [nat_str k])) = Ret (sel o1)"
proof -
  obtain t where t: "walk_names [db_root (env_types E)] ns = Some t" "type_ops t = Some o1"
    using assms(4) by (auto simp: ops_at_def)
  have q: "cfg_type_query (env_types E) (join_dots ns) = Ret (Some t)"
    using query_tokens [of ns "env_types E"] walk_tokens_names [OF assms(1,2), of "env_types E" None True] assms(1,3) t
    by simp
  then show "type_op E sel (join_dots ns) = Ret (sel o1)" by (simp add: type_op_def t)
  assume k: "0 < k" "k < 2 ^ 31"
  have "cfg_type_query (env_types E) (join_dots (ns @ [nat_str k])) = Ret (walk_tokens (env_types E) None True (ns @ [nat_str k]))"
    using k assms(1,3) nat_str_token_ok [of k] by (intro query_tokens) auto
  moreover have "walk_tokens (env_types E) None True (ns @ [nat_str k]) = Some t"
    using walk_tokens_inst [OF assms(1,2), of "nat_str k" "env_types E" None True] nat_str_token_digit [OF k] k t by simp
  ultimately show "type_op E sel (join_dots (ns @ [nat_str k])) = Ret (sel o1)" by (simp add: type_op_def t)
qed

section \<open>The nodes of the LAN hosts\<close>

definition ENTRY_NAMES :: "string list" where "ENTRY_NAMES = [''root'', ''lanhost2'', ''entry'']"
definition COMMON_NAMES :: "string list" where "COMMON_NAMES = [''root'', ''lanhost2'', ''common'']"
definition MACTAB_NAMES :: "string list" where "MACTAB_NAMES = [''root'', ''wifimactab'', ''common'']"

lemma host_names:
  "\<forall>n \<in> set ENTRY_NAMES. name_ok n" "\<forall>n \<in> set COMMON_NAMES. name_ok n" "\<forall>n \<in> set MACTAB_NAMES. name_ok n"
  "ENTRY_NAMES \<noteq> []" "COMMON_NAMES \<noteq> []" "MACTAB_NAMES \<noteq> []"
  "length ENTRY_NAMES < CFG_MAX_NODE_LEVEL - 1" "length COMMON_NAMES < CFG_MAX_NODE_LEVEL - 1" "length MACTAB_NAMES < CFG_MAX_NODE_LEVEL - 1"
  "join_dots ENTRY_NAMES = ''root.lanhost2.entry''" "join_dots COMMON_NAMES = ''root.lanhost2.common''"
  "join_dots MACTAB_NAMES = ''root.wifimactab.common''"
  by code_simp+

text \<open>The types of the LAN hosts are in the tree, with the operations of the tables.\<close>

definition host_types :: "type_db \<Rightarrow> bool" where
  "host_types db \<longleftrightarrow> db_ok db \<and> type_name (db_root db) = ''root'' \<and>
     (\<exists>fl. ops_at [db_root db] ENTRY_NAMES = Some (fl, Some cfg_type_lanhost2_entry_ops) \<and> fl AND CFG_TYPE_FLAG_MULTIPLE \<noteq> 0) \<and>
     (\<exists>fl. ops_at [db_root db] COMMON_NAMES = Some (fl, Some cfg_type_lanhost2_common_ops)) \<and>
     (\<exists>fl. ops_at [db_root db] MACTAB_NAMES = Some (fl, Some cfg_type_wifimactab_common_ops))"

lemma entry_ops:
  assumes "host_types (env_types E)" "0 < k" "k < 2 ^ 31"
  shows "type_op E op_get (''root.lanhost2.entry.'' @ nat_str k) = Ret (Some DefaultFunc)"
    "type_op E op_set (''root.lanhost2.entry.'' @ nat_str k) = Ret (Some DefaultFunc)"
    "type_op E op_delete (''root.lanhost2.entry.'' @ nat_str k) = Ret (Some DefaultFunc)"
proof -
  have p: "join_dots (ENTRY_NAMES @ [nat_str k]) = ''root.lanhost2.entry.'' @ nat_str k"
    by (simp add: ENTRY_NAMES_def join_dots_append)
  obtain fl where "ops_at [db_root (env_types E)] ENTRY_NAMES = Some (fl, Some cfg_type_lanhost2_entry_ops)"
    using assms(1) by (auto simp: host_types_def)
  note type_op_names(2) [OF host_names(1,4,7) this assms(2,3), unfolded p]
  then show "type_op E op_get (''root.lanhost2.entry.'' @ nat_str k) = Ret (Some DefaultFunc)"
    "type_op E op_set (''root.lanhost2.entry.'' @ nat_str k) = Ret (Some DefaultFunc)"
    "type_op E op_delete (''root.lanhost2.entry.'' @ nat_str k) = Ret (Some DefaultFunc)"
    by (simp_all add: cfg_type_lanhost2_entry_ops_def)
qed

lemma common_ops:
  assumes "host_types (env_types E)"
  shows "type_op E op_get ''root.lanhost2.common'' = Ret (Some DefaultFunc)"
    "type_op E op_set ''root.lanhost2.common'' = Ret (Some DefaultFunc)"
    "type_op E op_create ''root.lanhost2.common'' = Ret (Some DefaultFunc)"
    "type_op E op_query ''root.lanhost2.common'' = Ret (Some DefaultFunc)"
    "type_op E op_commit ''root.lanhost2.common'' = Ret (Some (Handler ''cfg_type_lanhost_common2_commit''))"
    "type_op E op_set ''root.wifimactab.common'' = Ret (Some DefaultFunc)"
proof -
  obtain fl where "ops_at [db_root (env_types E)] COMMON_NAMES = Some (fl, Some cfg_type_lanhost2_common_ops)"
    using assms(1) by (auto simp: host_types_def)
  note type_op_names(1) [OF host_names(2,5,8) this, unfolded host_names]
  then show "type_op E op_get ''root.lanhost2.common'' = Ret (Some DefaultFunc)"
    "type_op E op_set ''root.lanhost2.common'' = Ret (Some DefaultFunc)"
    "type_op E op_create ''root.lanhost2.common'' = Ret (Some DefaultFunc)"
    "type_op E op_query ''root.lanhost2.common'' = Ret (Some DefaultFunc)"
    "type_op E op_commit ''root.lanhost2.common'' = Ret (Some (Handler ''cfg_type_lanhost_common2_commit''))"
    by (simp_all add: cfg_type_lanhost2_common_ops_def)
  obtain fl where "ops_at [db_root (env_types E)] MACTAB_NAMES = Some (fl, Some cfg_type_wifimactab_common_ops)"
    using assms(1) by (auto simp: host_types_def)
  from type_op_names(1) [OF host_names(3,6,9) this, unfolded host_names]
  show "type_op E op_set ''root.wifimactab.common'' = Ret (Some DefaultFunc)"
    by (simp add: cfg_type_wifimactab_common_ops_def)
qed

text \<open>Where the names lead.\<close>

lemma common_path:
  assumes "host_types (env_types E)"
  shows "names_path E LANHost2_Common ''root.lanhost2.common''" "names_path E ''wifiMacTab_Common'' ''root.wifimactab.common''"
proof -
  have n: "take (MAXLEN_NODE_NAME - 1) LANHost2_Common = ''LANHost2_Common''"
    "take (MAXLEN_NODE_NAME - 1) ''wifiMacTab_Common'' = ''wifiMacTab_Common''"
    "cfg_parse_split_name (cfg_str_to_lower ''LANHost2_Common'') = [''lanhost2'', ''common'']"
    "cfg_parse_split_name (cfg_str_to_lower ''wifiMacTab_Common'') = [''wifimactab'', ''common'']"
    by code_simp+
  show "names_path E LANHost2_Common ''root.lanhost2.common''" "names_path E ''wifiMacTab_Common'' ''root.wifimactab.common''"
    using assms unfolding names_path_def n cfg_parse_node_name_def
    by (simp_all add: Let_def host_types_def cfg_type_get_root_def fits_def c_defs)
qed

lemma entry_path:
  assumes "host_types (env_types E)"
  shows "(\<exists>k. 0 < k \<and> k < 2 ^ 31 \<and> names_path E (LANHost2_Entry i) (''root.lanhost2.entry.'' @ nat_str k) \<and> (i < MAX_INSTANCE \<longrightarrow> k = Suc i)) \<or>
    \<not> i < MAX_INSTANCE \<and> (\<forall>s. cfg_parse_node_name E (take (MAXLEN_NODE_NAME - 1) (LANHost2_Entry i)) 128 s = Fault IntOverflow)"
proof -
  let ?ds = "take 17 (nat_str i)"
  obtain t where t: "walk_names [db_root (env_types E)] ENTRY_NAMES = Some t" "is_flag CFG_TYPE_FLAG_MULTIPLE t"
    using assms by (auto simp: host_types_def ops_at_def is_flag_def)
  have q: "cfg_type_query (env_types E) (''root.'' @ lower ''LANHost2'' @ ''.entry'') = Ret (Some t)"
  proof -
    have "''root.'' @ lower ''LANHost2'' @ ''.entry'' = join_dots ENTRY_NAMES" by code_simp
    then show ?thesis
      using query_tokens [of ENTRY_NAMES "env_types E"] walk_tokens_names [OF host_names(1,4), of "env_types E" None True] host_names t
      by simp
  qed
  have ds: "?ds \<noteq> []" "\<forall>c \<in> set ?ds. is_digit c" "length ?ds \<le> 17"
    using nat_str_digits [of i] by (auto dest: in_set_takeD)
  have n: "name_ok ''LANHost2''" "CHR ''_'' \<notin> set ''LANHost2''" "length ''LANHost2'' < CFG_MAX_TYPE_NAME - 1" "length ''LANHost2'' + 40 < 128"
    by code_simp+
  have r: "type_name (db_root (env_types E)) = ''root''" using assms by (simp add: host_types_def)
  have e: "take (MAXLEN_NODE_NAME - 1) (LANHost2_Entry i) = ''LANHost2'' @ ''_Entry'' @ ?ds"
    by (simp add: LANHost2_Entry_def MAXLEN_NODE_NAME_def)
  have lo: "''root.'' @ lower ''LANHost2'' @ ''.entry.'' = ''root.lanhost2.entry.''" by code_simp
  note p = entry_digits [OF r n(1-3) q t(2) ds n(4), folded e]
  have a: "0 \<le> atoi ?ds" "atoi ?ds < 2 ^ 31" using ds by (simp_all add: atoi_all_digits)
  have "i < MAX_INSTANCE \<Longrightarrow> ?ds = nat_str i" using length_nat_str_16 [of i] by (simp add: MAX_INSTANCE_def)
  then have s: "i < MAX_INSTANCE \<Longrightarrow> atoi ?ds = int i" by (simp add: atoi_nat_str MAX_INSTANCE_def)
  show ?thesis
  proof (cases "atoi ?ds = 2 ^ 31 - 1")
    case True
    then have "\<not> i < MAX_INSTANCE" using s by (auto simp: MAX_INSTANCE_def)
    then show ?thesis using p True by simp
  next
    case False
    have "names_path E (LANHost2_Entry i) (''root.lanhost2.entry.'' @ nat_str (Suc (nat (atoi ?ds))))"
      unfolding names_path_def using p False lo by (simp add: append_assoc [symmetric] del: append_assoc)
    then show ?thesis using False a s by (intro disjI1 exI [of _ "Suc (nat (atoi ?ds))"]) auto
  qed
qed

text \<open>The object numbers: hosts and the common node are brothers.\<close>

lemma find_SomeD: "find P xs = Some x \<Longrightarrow> x \<in> set xs"
  by (auto simp: find_Some_iff)

lemma walk_in: "walk_names ts ns = Some t \<Longrightarrow> t \<in> set (type_nodes ts)"
proof (induction ns arbitrary: ts)
  case (Cons n ns)
  then obtain u where u: "u \<in> set ts" "(if ns = [] then Some u else walk_names (type_subtype u) ns) = Some t"
    by (auto dest!: find_SomeD split: option.splits)
  show ?case
  proof (cases "ns = []")
    case False
    with u Cons.IH show ?thesis using nodes_sub nodes_top by fastforce
  qed (use u nodes_top in auto)
qed simp

lemma host_places:
  assumes "host_types (env_types E)"
  obtains i c e where "at_path E ''root.lanhost2.common'' [i, mk_oid (type_id c) 1]"
    "\<And>k. 0 < k \<Longrightarrow> k < 2 ^ 31 \<Longrightarrow> at_path E (''root.lanhost2.entry.'' @ nat_str k) [i, mk_oid (type_id e) (of_nat k)]"
    "type_id c \<noteq> type_id e" "unat (type_id c) < 65536" "unat (type_id e) < 65536"
proof -
  let ?db = "env_types E" and ?f = "\<lambda>n. find (\<lambda>t. name_match (type_name t) n)"
  have db: "db_ok ?db" using assms by (simp add: host_types_def)
  obtain e c where e: "walk_names [db_root ?db] ENTRY_NAMES = Some e" "type_ops e = Some cfg_type_lanhost2_entry_ops"
    and c: "walk_names [db_root ?db] COMMON_NAMES = Some c" "type_ops c = Some cfg_type_lanhost2_common_ops"
    using assms by (auto simp: host_types_def ops_at_def)
  from e(1) obtain r l where r: "?f ''root'' [db_root ?db] = Some r" "?f ''lanhost2'' (type_subtype r) = Some l"
      "?f ''entry'' (type_subtype l) = Some e"
    by (auto simp: ENTRY_NAMES_def split: option.splits)
  with c(1) have rc: "?f ''common'' (type_subtype l) = Some c" by (auto simp: COMMON_NAMES_def split: option.splits)
  have nodes: "e \<in> set (type_nodes [db_root ?db])" "c \<in> set (type_nodes [db_root ?db])" using walk_in e c by blast+
  have "op_commit cfg_type_lanhost2_entry_ops \<noteq> op_commit cfg_type_lanhost2_common_ops"
    by (simp add: cfg_type_lanhost2_entry_ops_def cfg_type_lanhost2_common_ops_def)
  then have "e \<noteq> c" using e c by auto
  then have ne: "type_id c \<noteq> type_id e"
    using db_ok_distinct [OF db] nodes by (metis find_by_id_node [OF db] option.inject)
  let ?i = "mk_oid (type_id l) 1"
  have ok: "comp_ok (n, None)" if "n \<in> set (ENTRY_NAMES @ COMMON_NAMES)" for n using that host_names(1,2) by auto
  have "path_text [(''root'', None), (''lanhost2'', None), (''common'', None)] = ''root.lanhost2.common''" by code_simp
  moreover have "cfg_path_to_oid_array ?db (path_text [(''root'', None), (''lanhost2'', None), (''common'', None)]) =
      Ret (Some [mk_oid (type_id r) 1, ?i, mk_oid (type_id c) 1])"
    using oid_array_resolve [OF db, of "[(''root'', None), (''lanhost2'', None), (''common'', None)]"] r rc ok
    by (simp add: COMMON_NAMES_def ENTRY_NAMES_def comp_inst_def c_defs)
  ultimately have pc: "at_path E ''root.lanhost2.common'' [?i, mk_oid (type_id c) 1]" by (simp add: at_path_def)
  have pe: "at_path E (''root.lanhost2.entry.'' @ nat_str k) [?i, mk_oid (type_id e) (of_nat k)]" if k: "0 < k" "k < 2 ^ 31" for k
  proof -
    let ?cs = "[(''root'', None), (''lanhost2'', None), (''entry'', Some k)]"
    have "comp_ok (''entry'', Some k)" using ok [of "''entry''"] k by (simp add: ENTRY_NAMES_def)
    then have "cfg_path_to_oid_array ?db (path_text ?cs) = Ret (Some [mk_oid (type_id r) 1, ?i, mk_oid (type_id e) (of_nat k)])"
      using oid_array_resolve [OF db, of ?cs] r ok by (simp add: ENTRY_NAMES_def comp_inst_def c_defs)
    moreover have "path_text ?cs = ''root.lanhost2.entry.'' @ nat_str k" by (simp add: path_text_def)
    ultimately show ?thesis by (simp add: at_path_def)
  qed
  have "unat (type_id t) < 65536" if "t \<in> set (type_nodes [db_root ?db])" for t
    using db_ok_id_bounds(2) [OF db that] by (simp add: c_defs)
  with nodes show thesis using that [OF pc pe ne] by blast
qed

section \<open>The commit handler on the tree\<close>

definition tree_access :: "hooks \<Rightarrow> cfg_env \<Rightarrow> cfg_state cfg_access" where
  "tree_access H E = \<lparr>ca_get = so_get (tree_ops E), ca_set = so_set (tree_ops E),
     ca_create = (\<lambda>path s. case cfg_query_object H E path None False s of
        Ret ((q, _), s1) \<Rightarrow> (if q < 0 then (case cfg_create_object H E path s1 of Ret (_, s2) \<Rightarrow> s2 | Fault _ \<Rightarrow> s1) else s1)
      | Fault _ \<Rightarrow> s),
     ca_entry = (\<lambda>i. ''root.lanhost2.entry.'' @ nat_str (Suc i)), ca_common = ''root.lanhost2.common''\<rparr>"

text \<open>The handlers of the other types are arbitrary.\<close>

definition host_hooks :: "hooks \<Rightarrow> cfg_env \<Rightarrow> hooks" where
  "host_hooks H E = H\<lparr>hook_commit := \<lambda>h path s.
     if h = ''cfg_type_lanhost_common2_commit'' then Ret (0, cfg_type_lanhost_common2_commit (tree_access H E) s)
     else hook_commit H h path s\<rparr>"

lemma tree_set_writes:
  assumes "xml_laws E" "a \<in> A"
  shows "writes A s (so_set (tree_ops E) n a v s)"
  using set_attr_writes [OF assms(1) _ assms(2), of n v s] writes_root [of s s A]
  by (auto simp: tree_ops_def split: cres.split)

lemma tree_create_writes:
  assumes "host_types (env_types E)"
  shows "writes A s (ca_create (tree_access H E) ''root.lanhost2.common'' s)"
proof -
  have q: "cfg_query_object H E ''root.lanhost2.common'' None False s = cfg_obj_query_object E ''root.lanhost2.common'' None False s"
    by (simp add: cfg_query_object_def common_ops [OF assms] cfg_type_default_func_query_def)
  have c: "cfg_create_object H E ''root.lanhost2.common'' s1 = cfg_obj_create_object E ''root.lanhost2.common'' s1" for s1
    by (simp add: cfg_create_object_def common_ops [OF assms] cfg_type_default_func_create_def)
  have "writes A s s1" "writes A s s2"
    if "cfg_obj_query_object E ''root.lanhost2.common'' None False s = Ret (x, s1)"
      "cfg_obj_create_object E ''root.lanhost2.common'' s1 = Ret (y, s2)" for x s1 y s2
    using writes_root [OF query_root [OF that(1)]] keeps_writes [OF keep.create_rel [OF that(2)]] writes_trans by blast+
  moreover have "writes A s s1" if "cfg_obj_query_object E ''root.lanhost2.common'' None False s = Ret (x, s1)" for x s1
    using writes_root [OF query_root [OF that]] by blast
  ultimately show ?thesis
    by (auto simp: tree_access_def q c writes_root split: cres.splits)
qed

lemma commit_writes:
  assumes "host_types (env_types E)" "xml_laws E"
  shows "writes {''LANHostNumber'', ''ControlListNumber''} s (cfg_type_lanhost_common2_commit (tree_access H E) s)"
proof -
  let ?A = "{''LANHostNumber'', ''ControlListNumber''}"
  have c: "ca_set (tree_access H E) = so_set (tree_ops E)" "ca_common (tree_access H E) = ''root.lanhost2.common''"
    by (simp_all add: tree_access_def)
  have "writes ?A s (so_set (tree_ops E) n ''ControlListNumber'' v (so_set (tree_ops E) n ''LANHostNumber'' w
      (ca_create (tree_access H E) ''root.lanhost2.common'' s)))" for n v w
    using tree_set_writes [OF assms(2), of "''ControlListNumber''" ?A] tree_set_writes [OF assms(2), of "''LANHostNumber''" ?A]
      tree_create_writes [OF assms(1), of ?A s H] by (meson insertI1 insertI2 writes_trans)
  then show ?thesis unfolding cfg_type_lanhost_common2_commit_def c by (simp split: prod.split)
qed

section \<open>The contract\<close>

lemma no_path:
  assumes "\<forall>s. cfg_parse_node_name E (take (MAXLEN_NODE_NAME - 1) n) 128 s = Fault f"
  shows "tc_get (tree_tc (H, E, op)) s n a = None" "tc_set (tree_tc (H, E, op)) n a v s = s"
  using assms
  by (auto simp: tree_tc_def tcapi_get_def tcapi_set_def get_msg_def new_msg_def send2CfgManager_to_2_def Let_def copy_out_def
      TCAPI_NONE_NODE_def TCAPI_PROCESS_OK_def split: cres.splits if_splits)

lemma host_set_writes:
  assumes "host_types (env_types E)" "xml_laws E" "live_root s" "n \<in> host_nodes"
  shows "writes {take 31 a} s (tc_set (tree_tc (H, E, op)) n a v s)"
proof (cases "n = ''wifiMacTab_Common''")
  case True
  then show ?thesis using tc_set_writes [OF assms(2) common_path(2) common_ops(6)] assms by simp
next
  case False
  then obtain i where n: "n = LANHost2_Entry i" using assms(4) by (auto simp: host_nodes_def)
  from entry_path [OF assms(1), of i] show ?thesis
    using no_path(2) [of E n] tc_set_writes [OF assms(2) _ entry_ops(2) assms(3)] assms(1) writes_root [of s s] by (auto simp: n)
qed

lemma common_get:
  assumes "host_types (env_types E)" "xml_laws E"
  obtains p where "\<And>s a. live_root s \<Longrightarrow> tc_get (tree_tc (H, E, op)) s LANHost2_Common a = map_option (take 1023) (attr_at s p (take 31 a))"
  using host_places [OF assms(1)] tc_get_eq [OF assms(2) common_path(1) common_ops(1)] assms(1) by metis

lemma writes_common:
  assumes "host_types (env_types E)" "xml_laws E" "writes A s s'" "live_root s" "''LANHostMaxNumber'' \<notin> A"
    "tc_get (tree_tc (H, E, op)) s LANHost2_Common ''LANHostMaxNumber'' = Some w"
  shows "tc_get (tree_tc (H, E, op)) s' LANHost2_Common ''LANHostMaxNumber'' = Some w"
proof -
  obtain p where p: "\<And>s a. live_root s \<Longrightarrow>
      tc_get (tree_tc (H, E, op)) s LANHost2_Common a = map_option (take 1023) (attr_at s p (take 31 a))"
    using common_get [OF assms(1,2)] by blast
  with assms(3-) show ?thesis by (auto simp: writes_def)
qed

text \<open>Writing another attribute of a host that is there changes no address.\<close>

lemma host_set_macs:
  assumes "host_types (env_types E)" "xml_laws E" "live_root s" "a \<noteq> ''MAC''"
    "tc_get (tree_tc (H, E, op)) s (LANHost2_Entry i) ''MAC'' = Some m"
  shows "tc_get (tree_tc (H, E, op)) (tc_set (tree_tc (H, E, op)) (LANHost2_Entry i) a v s) (LANHost2_Entry j) ''MAC'' =
    tc_get (tree_tc (H, E, op)) s (LANHost2_Entry j) ''MAC''"
proof -
  let ?T = "tree_tc (H, E, op)"
  let ?s = "tc_set ?T (LANHost2_Entry i) a v s"
  obtain l c e where at: "\<And>k. 0 < k \<Longrightarrow> k < 2 ^ 31 \<Longrightarrow> at_path E (''root.lanhost2.entry.'' @ nat_str k) [l, mk_oid (type_id e) (of_nat k)]"
    using host_places [OF assms(1)] by metis
  obtain k where k: "0 < k" "k < 2 ^ 31" "names_path E (LANHost2_Entry i) (''root.lanhost2.entry.'' @ nat_str k)"
    using entry_path [OF assms(1), of i] no_path(1) [of E "LANHost2_Entry i"] assms(5) by force
  obtain r where r: "cfg_obj_root s = RootLive r" using assms(3) by (auto simp: live_root_iff)
  let ?p = "[l, mk_oid (type_id e) (of_nat k)]"
  have "attr_at s ?p ''MAC'' \<noteq> None"
    using tc_get_eq [OF assms(2) k(3) entry_ops(1) [OF assms(1) k(1,2)] at [OF k(1,2)] assms(3), of H op "''MAC''"] assms(5)
    by (cases "attr_at s ?p ''MAC''") auto
  then have "obj_at r ?p \<noteq> None" using r by (auto simp: attr_at_def simp del: obj_at.simps split: option.splits)
  moreover have "''MAC'' \<noteq> take 31 a" using assms(4) by (cases "length a \<le> 31") (auto dest: arg_cong [of _ _ length])
  ultimately have o: "attr_at ?s q ''MAC'' = attr_at s q ''MAC''" for q
    by (rule tc_set_other_attrs [OF assms(2) k(3) entry_ops(2) [OF assms(1) k(1,2)] at [OF k(1,2)] r])
  have l': "live_root ?s"
    using host_set_writes [OF assms(1-3), of "LANHost2_Entry i" a H op v] assms(3) by (auto simp: writes_def host_nodes_def)
  have "tc_get ?T u (LANHost2_Entry j) ''MAC'' = map_option (take 1023) (attr_at u [l, mk_oid (type_id e) (of_nat n)] ''MAC'')"
    if "0 < n" "n < 2 ^ 31" "names_path E (LANHost2_Entry j) (''root.lanhost2.entry.'' @ nat_str n)" "live_root u" for u n
    using tc_get_eq [OF assms(2) that(3) entry_ops(1) [OF assms(1) that(1,2)] at [OF that(1,2)] that(4)] by simp
  then show ?thesis
    using entry_path [OF assms(1), of j] no_path(1) [of E "LANHost2_Entry j"] assms(3) l' o by fastforce
qed

lemma host_unset:
  assumes "host_types (env_types E)" "xml_laws E" "live_root s" "i < MAX_INSTANCE"
  shows "live_root (tc_unset (tree_tc (H, E, op)) (LANHost2_Entry i) s)"
    and "tc_get (tree_tc (H, E, op)) (tc_unset (tree_tc (H, E, op)) (LANHost2_Entry i) s) LANHost2_Common b =
      tc_get (tree_tc (H, E, op)) s LANHost2_Common b"
proof -
  let ?T = "tree_tc (H, E, op)" and ?path = "''root.lanhost2.entry.'' @ nat_str (Suc i)"
  let ?s = "tc_unset ?T (LANHost2_Entry i) s"
  have i: "0 < Suc i" "Suc i < 2 ^ 31" "Suc i < 65536" using assms(4) by (simp_all add: MAX_INSTANCE_def)
  obtain l c e where pc: "at_path E ''root.lanhost2.common'' [l, mk_oid (type_id c) 1]"
    and pe: "at_path E ?path [l, mk_oid (type_id e) (of_nat (Suc i))]"
    and ne: "type_id c \<noteq> type_id e" and b: "unat (type_id c) < 65536" "unat (type_id e) < 65536"
    using host_places [OF assms(1)] i by metis
  obtain r where r: "cfg_obj_root s = RootLive r" using assms(3) by (auto simp: live_root_iff)
  have "names_path E (LANHost2_Entry i) ?path" using entry_path [OF assms(1), of i] assms(4) by auto
  note eq = tc_unset_eq [OF this entry_ops(3) [OF assms(1) i(1,2)] assms(3), of H op]
  have "unat (of_nat (Suc i) :: u32) = Suc i" by (rule unat_small) (use i in simp)
  then have "unat (mk_oid (type_id c) 1) \<noteq> unat (mk_oid (type_id e) (of_nat (Suc i)))"
    using ne b i(3) by (simp add: unat_mk_oid word_unat_eq_iff)
  then have "mk_oid (type_id c) 1 \<noteq> mk_oid (type_id e) (of_nat (Suc i))" by metis
  then have "attr_at ?s [l, mk_oid (type_id c) 1] a = attr_at s [l, mk_oid (type_id c) 1] a" for a
    unfolding eq using delete_outside [OF _ r pe, of _ _ "[l, mk_oid (type_id c) 1]" a]
    by (cases "cfg_obj_delete_object E ?path s") auto
  moreover show l: "live_root ?s" unfolding eq using delete_root [OF _ r pe] assms(3) by (auto simp: live_root_iff split: cres.split)
  ultimately show "tc_get ?T ?s LANHost2_Common b = tc_get ?T s LANHost2_Common b"
    using tc_get_eq [OF assms(2) common_path(1) common_ops(1) pc] assms(1,3) by simp
qed

text \<open>The tree keeps the contract, whatever the other types, their handlers, and the way attributes
  are stored, and whether lock files can be opened.\<close>

lemma tree_host_store:
  assumes "host_types (env_types E)" "xml_laws E"
  shows "host_store (tree_tc (host_hooks H E, E, op)) live_root"
proof -
  let ?H = "host_hooks H E"
  let ?T = "tree_tc (?H, E, op)"
  have t31: "take 31 a \<noteq> ''LANHostMaxNumber''" if "a \<noteq> ''LANHostMaxNumber''" for a
    using that by (cases "length a \<le> 31") (auto dest: arg_cong [of _ _ length])
  have c: "writes {''LANHostNumber'', ''ControlListNumber''} s (tc_commit ?T LANHost2_Common s)" if "live_root s" for s
  proof -
    have lock: "cfg_commit_lock ''root.lanhost2.common'' = Ret (Some ''/tmp/root.lanhost2.lock'')" by code_simp
    show ?thesis
      using tc_commit_eq [OF common_path(1) common_ops(5) that lock, of E ?H op] assms(1) commit_writes [OF assms, of s H] writes_root [of s s]
      by (simp add: host_hooks_def)
  qed
  have w: "writes {take 31 a} s (tc_set ?T n a v s)" if "live_root s" "n \<in> host_nodes" for s n a v
    by (rule host_set_writes [OF assms that])
  show ?thesis
  proof unfold_locales
    fix s n a w v
    assume "live_root s" "n \<in> host_nodes" "a \<noteq> ''LANHostMaxNumber''" "tc_get ?T s LANHost2_Common ''LANHostMaxNumber'' = Some w"
    then show "tc_get ?T (tc_set ?T n a v s) LANHost2_Common ''LANHostMaxNumber'' = Some w"
      by (intro writes_common [OF assms w]) (auto dest: t31)
  next
    fix s w
    assume "live_root s" "tc_get ?T s LANHost2_Common ''LANHostMaxNumber'' = Some w"
    then show "tc_get ?T (tc_commit ?T LANHost2_Common s) LANHost2_Common ''LANHostMaxNumber'' = Some w"
      by (intro writes_common [OF assms c]) auto
  qed (use host_set_macs [OF assms] host_unset [OF assms] w c in \<open>auto simp: writes_def\<close>)
qed

section \<open>The shipped types\<close>

lemma product_host_types:
  assumes "cfg_type_init (product_root mx) = Ret db"
  shows "host_types db"
proof -
  have "map (ops_at [product_root mx]) [ENTRY_NAMES, COMMON_NAMES, MACTAB_NAMES] =
     [Some (CFG_TYPE_FLAG_MULTIPLE OR mx ''MAX_LANHOST2_ENTRY_NUM'', Some cfg_type_lanhost2_entry_ops),
      Some (1, Some cfg_type_lanhost2_common_ops),
      Some (CFG_TYPE_FLAG_MEMORY OR CFG_TYPE_FLAG_UPDATE OR 1, Some cfg_type_wifimactab_common_ops)]"
    by code_simp
  moreover have "type_name (product_root mx) = ''root''" by (simp add: product_root_def cfg_type_root_def)
  moreover have "(CFG_TYPE_FLAG_MULTIPLE OR x) AND CFG_TYPE_FLAG_MULTIPLE \<noteq> 0" for x
    by (simp add: bit.conj_disj_distrib2 or_eq_0_iff CFG_TYPE_FLAG_MULTIPLE_def)
  moreover have "type_name (db_root db) = type_name (product_root mx)"
    using arg_cong [OF init_spec(2) [OF assms], of "\<lambda>x. type_name (hd x)"] by (simp del: unnumbered.simps)
  ultimately show ?thesis using init_spec(1) [OF assms] by (simp add: host_types_def ops_at_init [OF assms])
qed

definition product_db :: "(string \<Rightarrow> u32) \<Rightarrow> type_db" where
  "product_db mx = (case cfg_type_init (product_root mx) of Ret db \<Rightarrow> db | Fault _ \<Rightarrow> \<lparr>db_root = product_root mx, db_cache = []\<rparr>)"

lemma product_db_init: "cfg_type_init (product_root mx) = Ret (product_db mx)"
  using init_total [of "product_root mx"] product_count [of mx]
  by (auto simp: product_db_def c_defs type_count_nodes simp del: type_nodes.simps type_count.simps)

interpretation th: host_store "tree_tc (host_hooks H (alist_env (product_db mx)), alist_env (product_db mx), op)" live_root for H mx op
  by (rule tree_host_store [OF _ alist_xml_laws]) (simp add: alist_env_def product_host_types [OF product_db_init])

end
