(* ===== verification/LanHostSpec.thy ===== *)
theory LanHostSpec
  imports LanHostCheck LanHostTree
begin

text \<open>
  Runs of the LAN host manager: from its start through any sequence of periodic checks, events and
  neighbour messages no host is entered twice.
\<close>

unbundle bit_operations_syntax

section \<open>Runs of the manager\<close>

text \<open>The variables of the program when it is loaded, with a table of \<open>N\<close> entries.\<close>

definition lh_static :: "nat \<Rightarrow> 's \<Rightarrow> 's lanhost" where
  "lh_static N st = \<lparr>lan_host_entry = replicate N zero_entry, check_flag = replicate N 0, lan_port_status = replicate 4 0,
     lan_port_rate = replicate 4 0, lan_port_duplex = replicate 4 [], save_flag = False, gLastGetTime = None,
     lh_store = st, lh_log = []\<rparr>"

text \<open>A step is the periodic check, an event, a batch of neighbour messages, or a change of the
  configuration by another program that keeps the limit of the table.\<close>

inductive lh_step :: "'s tc_ops \<Rightarrow> ('s \<Rightarrow> bool) \<Rightarrow> 's lanhost \<Rightarrow> 's lanhost \<Rightarrow> bool" for T G where
  tick: "stb_ok W \<Longrightarrow> check_lan_host_update W T s = Ret (r, s') \<Longrightarrow> lh_step T G s s'"
| event: "event_ok ev \<Longrightarrow> ecnt_dispatch W T ev s = Ret (r, s') \<Longrightarrow> lh_step T G s s'"
| neigh: "arp_event_handler W T ms ([], [], -1) s = Ret (r, s') \<Longrightarrow> lh_step T G s s'"
| other: "roomy T G (s\<lparr>lh_store := st\<rparr>) \<Longrightarrow> lh_step T G s (s\<lparr>lh_store := st\<rparr>)"

definition macs_distinct :: "'s tc_ops \<Rightarrow> nat \<Rightarrow> 's \<Rightarrow> bool" where
  "macs_distinct T N st \<longleftrightarrow> (\<forall>i < N. \<forall>j < N. i \<noteq> j \<longrightarrow>
     (case (tc_get T st (LANHost2_Entry i) ''MAC'', tc_get T st (LANHost2_Entry j) ''MAC'') of
        (Some m, Some m') \<Rightarrow> m \<noteq> [] \<longrightarrow> lower (take 12 m) \<noteq> lower (take 12 m')
      | _ \<Rightarrow> True))"

context host_store
begin

lemma step_inv: "lh_step T G s s' \<Longrightarrow> lh_inv T G s \<Longrightarrow> lh_inv T G s'"
proof (induction rule: lh_step.induct)
  case (other st s)
  then show ?case by (simp add: lh_inv_def sane_def uniq_def max_lan_host_num_def)
qed (auto dest: postD [OF check_update_inv] postD [OF dispatch_inv] postD [OF arp_event_inv])

lemma run_inv: "(lh_step T G)\<^sup>*\<^sup>* s s' \<Longrightarrow> lh_inv T G s \<Longrightarrow> lh_inv T G s'"
  by (induction rule: rtranclp_induct) (auto dest: step_inv)

lemma start_inv:
  assumes "N \<le> MAX_INSTANCE" "roomy T G (lh_static N st)" "macs_distinct T N st" "lan_host_mgr_start W T (lh_static N st) = Ret (p, s)"
  shows "lh_inv T G s \<and> max_lan_host_num s = N"
proof -
  let ?s0 = "init_lan_port_status W (lh_static N st)"
  let ?s1 = "?s0\<lparr>lan_host_entry := replicate N zero_entry\<rparr>"
  have n: "max_lan_host_num ?s0 = N" by (simp add: init_lan_port_status_def lh_static_def max_lan_host_num_def)
  have "table_loaded ?s1 ?s1"
    using assms(1,2) by (auto simp: table_loaded_def sane_iff roomy_def max_lan_host_num_def init_lan_port_status_def lh_static_def
        entry_ok_def zero_entry_def)
  then have "post (init_lan_host_info W T ?s0) (table_loaded ?s1)"
    unfolding init_lan_host_info_def Let_def n by (rule init_entries_load)
  moreover obtain u where u: "init_lan_host_info W T ?s0 = Ret u"
      and s: "s = lh_log_act (Run NEIGH_FLUSH) (tset T ''wifiMacTab_Common'' ''lanhostdone'' ''1'' u)"
    using assms(4) by (auto simp: lan_host_mgr_start_def)
  ultimately have l: "table_loaded ?s1 u" by (auto dest: postD)
  have n1: "max_lan_host_num ?s1 = N" by (simp add: max_lan_host_num_def)
  have st: "lh_store ?s1 = st" by (simp add: init_lan_port_status_def lh_static_def)
  have "uniq u"
    unfolding uniq_def
  proof (intro allI impI)
    fix i j
    assume ij: "i < max_lan_host_num u" "j < max_lan_host_num u" "i \<noteq> j" "mac (ent u i) \<noteq> []"
    then have N: "i < N" "j < N" using l n1 by (auto simp: table_loaded_def)
    from l ij obtain m where m: "tc_get T st (LANHost2_Entry i) ''MAC'' = Some m" "mac (ent u i) = take DEV_MAC_ADDR_LEN m"
      unfolding table_loaded_def st by blast
    show "mac_key (ent u i) \<noteq> mac_key (ent u j)"
    proof (cases "mac (ent u j) = []")
      case False
      with l ij obtain m' where "tc_get T st (LANHost2_Entry j) ''MAC'' = Some m'" "mac (ent u j) = take DEV_MAC_ADDR_LEN m'"
        unfolding table_loaded_def st by blast
      moreover have "m \<noteq> []" using m ij by auto
      moreover note assms(3) [unfolded macs_distinct_def, rule_format, OF N ij(3)]
      ultimately show ?thesis using m by (simp add: mac_key_def DEV_MAC_ADDR_LEN_def)
    qed (use ij in \<open>simp add: mac_key_def\<close>)
  qed
  with l have "lh_inv T G u" by (simp add: lh_inv_def table_loaded_def)
  moreover have "roomy T G (tset T ''wifiMacTab_Common'' a v u)" if "roomy T G u" "a \<noteq> ''LANHostMaxNumber''" for a v
    using that set_keeps set_good by (auto simp: host_nodes_def roomy_def tset_def max_lan_host_num_def)
  ultimately have "lh_inv T G (tset T ''wifiMacTab_Common'' ''lanhostdone'' ''1'' u)"
    by (auto simp: lh_inv_def sane_def uniq_def tset_def max_lan_host_num_def)
  then have "lh_inv T G s"
    by (simp add: s lh_inv_def sane_def uniq_def roomy_def lh_log_act_def max_lan_host_num_def)
  then show ?thesis using l n1 by (simp add: s table_loaded_def lh_log_act_def tset_def max_lan_host_num_def)
qed

lemma run_unique:
  assumes "N \<le> MAX_INSTANCE" "roomy T G (lh_static N st)" "macs_distinct T N st" "lan_host_mgr_start W T (lh_static N st) = Ret (p, s)"
    "(lh_step T G)\<^sup>*\<^sup>* s s'"
  shows "uniq s'"
  using run_inv [OF assms(5)] start_inv [OF assms(1-4)] by (simp add: lh_inv_def)

end

text \<open>On the object tree of the shipped types, with any handlers of the other types.\<close>

lemmas product_macs_unique = th.run_unique

section \<open>A concrete configuration\<close>

definition lh_conf :: plain where
  "lh_conf = (\<lambda>_. None)(LANHost2_Common \<mapsto> [''LANHostMaxNumber'' \<mapsto> ''2''])"

definition lh_quiet :: lh_world where
  "lh_quiet = \<lparr>w_stb_list = None, w_udhcp_lease = None, w_arp = None, w_ipv6_neigh = None,
     w_eth_portmap = None, w_gsw_link_st = None, w_eth_port_status = None, w_uptime = 100, w_monotonic = 100,
     w_localtime = (126, 0, 2, 3, 4, 5), w_time_after = (\<lambda>t _. t), w_traffic = (\<lambda>_ _ x. x),
     w_stations = (\<lambda>_. []), w_bssids = 0, w_wlan_ports = 0\<rparr>"

definition lh_started :: "plain lanhost" where
  "lh_started = (case lan_host_mgr_start lh_quiet plain_tc (lh_static 2 lh_conf) of Ret (p, s) \<Rightarrow> s | Fault _ \<Rightarrow> lh_static 2 lh_conf)"

text \<open>A station joins the first SSID.\<close>

definition lh_joined :: "plain lanhost" where
  "lh_joined = (case ecnt_dispatch lh_quiet plain_tc (WifiUpdateStaInfo ''add;0;0;00:11:22:dd:ee:ff'') lh_started of
     Ret (r, s) \<Rightarrow> s | Fault _ \<Rightarrow> lh_started)"

lemma lh_started_eq: "lan_host_mgr_start lh_quiet plain_tc (lh_static 2 lh_conf) = Ret (2, lh_started)"
proof -
  have "(case lan_host_mgr_start lh_quiet plain_tc (lh_static 2 lh_conf) of Ret (p, s) \<Rightarrow> p = 2 | Fault _ \<Rightarrow> False)" by code_simp
  then show ?thesis by (auto simp: lh_started_def split: cres.splits)
qed

lemma lh_joined_eq:
  "ecnt_dispatch lh_quiet plain_tc (WifiUpdateStaInfo ''add;0;0;00:11:22:dd:ee:ff'') lh_started = Ret (0, lh_joined)"
  "map mac (lan_host_entry lh_joined) = [''001122ddeeff'', []]"
proof -
  have "(case ecnt_dispatch lh_quiet plain_tc (WifiUpdateStaInfo ''add;0;0;00:11:22:dd:ee:ff'') lh_started of
      Ret (p, s) \<Rightarrow> p = 0 \<and> map mac (lan_host_entry s) = [''001122ddeeff'', []] | Fault _ \<Rightarrow> False)" by code_simp
  then show "ecnt_dispatch lh_quiet plain_tc (WifiUpdateStaInfo ''add;0;0;00:11:22:dd:ee:ff'') lh_started = Ret (0, lh_joined)"
    "map mac (lan_host_entry lh_joined) = [''001122ddeeff'', []]"
    by (auto simp: lh_joined_def split: cres.splits)
qed

section \<open>No host twice\<close>



end
