(* ===== verification/Uloop.thy ===== *)
theory Uloop
  imports Button "HOL-Library.Signed_Division"
begin

text \<open>
  The timeouts of the central service (\<open>service/central_ctrl/uloop_timer.c\<close>) and their only user, the
  trigger of the mesh (\<open>mesh_trigger.c\<close>). A timeout is a number that stands for the address of its
  structure; the linked list \<open>timeouts\<close> is the list of these numbers in its order. The clock of a call is an
  argument. Times are compared in whole milliseconds cut towards zero, which is not an order: the
  list is kept sorted up to a millisecond, and that is enough for every timeout to fire once, at
  most a millisecond early, and never to be left behind.
\<close>

section \<open>Times\<close>

record timeval =
  tv_sec :: int
  tv_usec :: int

text \<open>The difference in milliseconds; the result is an \<open>int\<close>.\<close>

definition ecnt_tv_diff :: "timeval \<Rightarrow> timeval \<Rightarrow> int" where
  "ecnt_tv_diff t1 t2 =
     sint (of_int ((tv_sec t1 - tv_sec t2) * 1000 + (tv_usec t1 - tv_usec t2) sdiv 1000) :: u32)"

text \<open>\<open>clock_gettime\<close>, cut to microseconds.\<close>

definition ecnt_uloop_gettime :: "int \<times> int \<Rightarrow> timeval" where
  "ecnt_uloop_gettime = (\<lambda>(sec, nsec). \<lparr>tv_sec = sec, tv_usec = nsec sdiv 1000\<rparr>)"

section \<open>The list of timeouts\<close>

text \<open>The callbacks of the program.\<close>

datatype ecnt_uloop_timeout_handler = mesh_trigger_timeout_cb

record ecnt_uloop_timeout =
  pending :: bool
  cb :: "ecnt_uloop_timeout_handler option"
  time :: timeval

record 's uloop = "'s ctl" +
  timeouts :: "nat list"
  timeout_at :: "nat \<Rightarrow> ecnt_uloop_timeout"

definition upd_timeout :: "nat \<Rightarrow> (ecnt_uloop_timeout \<Rightarrow> ecnt_uloop_timeout) \<Rightarrow> 's uloop \<Rightarrow> 's uloop" where
  "upd_timeout t f s = s\<lparr>timeout_at := (timeout_at s)(t := f (timeout_at s t))\<rparr>"

text \<open>The loop that looks for the first later timeout, and \<open>list_add_tail\<close> in front of it.\<close>

fun list_add_sorted :: "(nat \<Rightarrow> timeval) \<Rightarrow> nat \<Rightarrow> nat list \<Rightarrow> nat list" where
  "list_add_sorted tm t [] = [t]"
| "list_add_sorted tm t (x # xs) =
     (if ecnt_tv_diff (tm x) (tm t) > 0 then t # x # xs else x # list_add_sorted tm t xs)"

definition ecnt_uloop_timeout_add :: "nat \<Rightarrow> 's uloop \<Rightarrow> int \<times> 's uloop" where
  "ecnt_uloop_timeout_add t s =
     (if pending (timeout_at s t) then (-1, s)
      else (0, upd_timeout t (pending_update (\<lambda>_. True))
                 (s\<lparr>timeouts := list_add_sorted (\<lambda>i. time (timeout_at s i)) t (timeouts s)\<rparr>)))"

definition ecnt_uloop_timeout_cancel :: "nat \<Rightarrow> 's uloop \<Rightarrow> int \<times> 's uloop" where
  "ecnt_uloop_timeout_cancel t s =
     (if \<not> pending (timeout_at s t) then (-1, s)
      else (0, upd_timeout t (pending_update (\<lambda>_. False)) (s\<lparr>timeouts := remove1 t (timeouts s)\<rparr>)))"

text \<open>The time at which a timeout of \<open>msecs\<close> falls due.\<close>

definition due_time :: "timeval \<Rightarrow> int \<Rightarrow> timeval" where
  "due_time now msecs =
     (let s = tv_sec now + msecs sdiv 1000; u = tv_usec now + (msecs smod 1000) * 1000
      in if u > 1000000 then \<lparr>tv_sec = s + 1, tv_usec = u - 1000000\<rparr> else \<lparr>tv_sec = s, tv_usec = u\<rparr>)"

definition ecnt_uloop_timeout_set :: "int \<times> int \<Rightarrow> nat \<Rightarrow> int \<Rightarrow> 's uloop \<Rightarrow> int \<times> 's uloop" where
  "ecnt_uloop_timeout_set clock t msecs s =
     (let s1 = (if pending (timeout_at s t) then snd (ecnt_uloop_timeout_cancel t s) else s)
      in ecnt_uloop_timeout_add t
           (upd_timeout t (time_update (\<lambda>_. due_time (ecnt_uloop_gettime clock) msecs)) s1))"

section \<open>Running\<close>

definition call_cb :: "ecnt_uloop_timeout_handler \<Rightarrow> 's uloop \<Rightarrow> 's uloop" where
  "call_cb h s = (case h of mesh_trigger_timeout_cb \<Rightarrow> act (SendEvent ''EVT_CC_TRIGGER_MESH_REINIT'') s)"

text \<open>The body of the loop: the timeout is cancelled and its callback is called.\<close>

definition fire_timeout :: "nat \<Rightarrow> 's uloop \<Rightarrow> 's uloop" where
  "fire_timeout t s =
     (let s1 = snd (ecnt_uloop_timeout_cancel t s)
      in case cb (timeout_at s t) of None \<Rightarrow> s1 | Some h \<Rightarrow> call_cb h s1)"

lemma timeouts_call_cb [simp]: "timeouts (call_cb h s) = timeouts s" "timeout_at (call_cb h s) = timeout_at s"
  by (simp_all add: call_cb_def act_def split: ecnt_uloop_timeout_handler.split)

lemma timeouts_cancel:
  "pending (timeout_at s t) \<Longrightarrow> timeouts (snd (ecnt_uloop_timeout_cancel t s)) = remove1 t (timeouts s)"
  by (simp add: ecnt_uloop_timeout_cancel_def upd_timeout_def)

text \<open>The loop of the program would not end on a first timeout that is not pending.\<close>

function ecnt_uloop_process_timeouts :: "timeval \<Rightarrow> 's uloop \<Rightarrow> 's uloop cres" where
  "ecnt_uloop_process_timeouts tv s =
     (case timeouts s of
        [] \<Rightarrow> Ret s
      | t # ts \<Rightarrow>
          if ecnt_tv_diff (time (timeout_at s t)) tv > 0 then Ret s
          else if \<not> pending (timeout_at s t) then Fault NoReturn
          else ecnt_uloop_process_timeouts tv (fire_timeout t s))"
  by pat_completeness auto

termination
  by (relation "measure (\<lambda>(tv, s). length (timeouts s))")
    (auto simp: fire_timeout_def timeouts_cancel Let_def split: option.split)

declare ecnt_uloop_process_timeouts.simps [simp del]

definition ecnt_uloop_clear_timeouts :: "'s uloop \<Rightarrow> 's uloop" where
  "ecnt_uloop_clear_timeouts s = fold (\<lambda>t s. snd (ecnt_uloop_timeout_cancel t s)) (timeouts s) s"

definition ecnt_uloop_run :: "int \<times> int \<Rightarrow> 's uloop \<Rightarrow> 's uloop cres" where
  "ecnt_uloop_run clock s = ecnt_uloop_process_timeouts (ecnt_uloop_gettime clock) s"

section \<open>The mesh trigger\<close>

definition MESH_COMMON_NODE :: string where "MESH_COMMON_NODE = ''root.mesh.common''"

text \<open>The static variable of \<open>mesh_trigger.c\<close>.\<close>

definition mesh_trigger_timeout :: nat where "mesh_trigger_timeout = 0"

definition mesh_init :: "'s \<Rightarrow> 's uloop" where
  "mesh_init st = \<lparr>ct_store = st, ct_log = [], timeouts = [],
     timeout_at = (\<lambda>_. \<lparr>pending = False, cb = Some mesh_trigger_timeout_cb, time = \<lparr>tv_sec = 0, tv_usec = 0\<rparr>\<rparr>)\<rparr>"

text \<open>\<open>wait\<close> is what the wireless library gives for the time to wait.\<close>

definition mesh_trigger :: "'s store_ops \<Rightarrow> int \<Rightarrow> int \<times> int \<Rightarrow> 's uloop \<Rightarrow> 's uloop" where
  "mesh_trigger R wait clock s =
     (if atoi (snd (fetch R s MESH_COMMON_NODE ''MeshTriggerFlag'' 16 [])) AND 0xFF \<noteq> 1
      then snd (ecnt_uloop_timeout_set clock mesh_trigger_timeout wait s) else s)"

section \<open>Comparing times\<close>

definition us :: "timeval \<Rightarrow> int" where
  "us t = tv_sec t * 1000000 + tv_usec t"

text \<open>The difference fits an \<open>int\<close> of milliseconds.\<close>

definition near :: "timeval \<Rightarrow> timeval \<Rightarrow> bool" where
  "near a b \<longleftrightarrow> \<bar>us a - us b\<bar> < 2147483647000"

lemma sdiv_1000: "\<bar>x - 1000 * (x sdiv 1000)\<bar> < 1000" "0 \<le> x \<Longrightarrow> 1000 * (x sdiv 1000) \<le> x" "x \<le> 0 \<Longrightarrow> x \<le> 1000 * (x sdiv 1000)" for x :: int
  by (auto simp: signed_divide_int_def sgn_if)

lemma sint_of_int_fits: "- 2147483648 \<le> x \<Longrightarrow> x < 2147483648 \<Longrightarrow> sint (of_int x :: u32) = x"
  by (simp add: sint_sbintrunc' signed_take_bit_int_eq_self)

lemma tv_diff_near:
  assumes "near a b"
  shows "\<bar>us a - us b - 1000 * ecnt_tv_diff a b\<bar> < 1000"
proof -
  let ?d = "(tv_sec a - tv_sec b) * 1000 + (tv_usec a - tv_usec b) sdiv 1000"
  have d: "\<bar>us a - us b - 1000 * ?d\<bar> < 1000"
    using sdiv_1000(1) [of "tv_usec a - tv_usec b"] by (simp add: us_def algebra_simps)
  have fits: "- 2147483648 \<le> d \<and> d < 2147483648" if "\<bar>x - 1000 * d\<bar> < 1000" "\<bar>x\<bar> < 2147483647000" for x d :: int
    using that by linarith
  then have "- 2147483648 \<le> ?d" "?d < 2147483648" using fits [OF d assms [unfolded near_def]] by simp_all
  then have "ecnt_tv_diff a b = ?d" unfolding ecnt_tv_diff_def by (rule sint_of_int_fits)
  with d show ?thesis by simp
qed

lemma tv_diff_pos: "near a b \<Longrightarrow> ecnt_tv_diff a b > 0 \<Longrightarrow> us b < us a"
  and tv_diff_not_pos: "near a b \<Longrightarrow> \<not> ecnt_tv_diff a b > 0 \<Longrightarrow> us a < us b + 1000"
  using tv_diff_near [of a b] by linarith+

lemma near_via: "\<bar>us a - us c\<bar> < 1073741823000 \<Longrightarrow> \<bar>us b - us c\<bar> < 1073741823000 \<Longrightarrow> near a b"
  by (simp add: near_def)

lemma us_due_time: "us (due_time now m) = us now + m * 1000"
proof -
  have "m = (m sdiv 1000) * 1000 + m smod 1000" by (simp add: sdiv_mult_smod_eq)
  then show ?thesis by (simp add: due_time_def us_def Let_def algebra_simps)
qed

section \<open>The invariant\<close>

text \<open>The list holds exactly the pending timeouts, each once, and none is a millisecond or more before
  one in front of it.\<close>

definition due :: "'s uloop \<Rightarrow> nat \<Rightarrow> int" where
  "due s t = us (time (timeout_at s t))"

definition uloop_ok :: "'s uloop \<Rightarrow> bool" where
  "uloop_ok s \<longleftrightarrow> distinct (timeouts s) \<and> (\<forall>t. pending (timeout_at s t) \<longleftrightarrow> t \<in> set (timeouts s)) \<and>
     sorted_wrt (\<lambda>a b. due s a < due s b + 1000) (timeouts s)"

text \<open>All timeouts are within twelve days of a time.\<close>

definition in_reach :: "timeval \<Rightarrow> 's uloop \<Rightarrow> bool" where
  "in_reach now s \<longleftrightarrow> (\<forall>t \<in> set (timeouts s). \<bar>due s t - us now\<bar> < 1073741823000)"

lemma set_list_add_sorted [simp]: "set (list_add_sorted tm t xs) = insert t (set xs)"
  by (induction xs) auto

lemma distinct_list_add_sorted: "distinct (list_add_sorted tm t xs) \<longleftrightarrow> distinct xs \<and> t \<notin> set xs"
  by (induction xs) auto

lemma sorted_list_add_sorted:
  assumes "sorted_wrt (\<lambda>a b. us (tm a) < us (tm b) + 1000) xs" and "\<forall>x \<in> set xs. near (tm x) (tm t)"
  shows "sorted_wrt (\<lambda>a b. us (tm a) < us (tm b) + 1000) (list_add_sorted tm t xs)"
  using assms
proof (induction xs)
  case (Cons x xs)
  then have n: "near (tm x) (tm t)" by simp
  show ?case
  proof (cases "ecnt_tv_diff (tm x) (tm t) > 0")
    case True
    with tv_diff_pos [OF n] Cons.prems(1) show ?thesis by fastforce
  next
    case False
    with tv_diff_not_pos [OF n] Cons show ?thesis by simp
  qed
qed simp

lemma uloop_ok_cancel:
  assumes "uloop_ok s"
  shows "uloop_ok (snd (ecnt_uloop_timeout_cancel t s))"
    and "timeouts (snd (ecnt_uloop_timeout_cancel t s)) = remove1 t (timeouts s)"
    and "due (snd (ecnt_uloop_timeout_cancel t s)) = due s"
    and "\<not> pending (timeout_at (snd (ecnt_uloop_timeout_cancel t s)) t)"
    and "cb (timeout_at (snd (ecnt_uloop_timeout_cancel t s)) i) = cb (timeout_at s i)"
proof -
  let ?s = "snd (ecnt_uloop_timeout_cancel t s)"
  show d: "due ?s = due s"
    by (auto simp: ecnt_uloop_timeout_cancel_def upd_timeout_def due_def)
  have sorted: "sorted_wrt P xs \<Longrightarrow> sorted_wrt P (remove1 t xs)" for P and xs :: "nat list"
    by (induction xs) (use set_remove1_subset in fastforce)+
  show "timeouts ?s = remove1 t (timeouts s)"
    using assms by (auto simp: ecnt_uloop_timeout_cancel_def upd_timeout_def uloop_ok_def remove1_idem)
  then show "uloop_ok ?s"
    using assms d sorted by (auto simp: uloop_ok_def ecnt_uloop_timeout_cancel_def upd_timeout_def)
qed (simp_all add: ecnt_uloop_timeout_cancel_def upd_timeout_def)

lemma uloop_ok_add:
  assumes "uloop_ok s" and "\<forall>x \<in> set (timeouts s). near (time (timeout_at s x)) (time (timeout_at s t))"
  shows "uloop_ok (snd (ecnt_uloop_timeout_add t s))"
    and "set (timeouts (snd (ecnt_uloop_timeout_add t s))) = insert t (set (timeouts s))"
    and "due (snd (ecnt_uloop_timeout_add t s)) = due s"
    and "cb (timeout_at (snd (ecnt_uloop_timeout_add t s)) i) = cb (timeout_at s i)"
proof -
  let ?s = "snd (ecnt_uloop_timeout_add t s)"
  show d: "due ?s = due s" by (auto simp: ecnt_uloop_timeout_add_def upd_timeout_def due_def)
  show m: "set (timeouts ?s) = insert t (set (timeouts s))"
    using assms(1) by (auto simp: ecnt_uloop_timeout_add_def upd_timeout_def uloop_ok_def)
  have "sorted_wrt (\<lambda>a b. due s a < due s b + 1000) (timeouts ?s)"
    using assms sorted_list_add_sorted [of "\<lambda>i. time (timeout_at s i)" "timeouts s" t]
    by (simp add: ecnt_uloop_timeout_add_def upd_timeout_def uloop_ok_def due_def)
  then show "uloop_ok ?s"
    using assms(1) d
    by (auto simp: uloop_ok_def ecnt_uloop_timeout_add_def upd_timeout_def distinct_list_add_sorted)
qed (simp add: ecnt_uloop_timeout_add_def upd_timeout_def)

lemma uloop_ok_init: "uloop_ok (mesh_init st)"
  by (simp add: uloop_ok_def mesh_init_def)

section \<open>Timeouts fire\<close>

definition cb_event :: "'s uloop \<Rightarrow> nat \<Rightarrow> action list" where
  "cb_event s t = (case cb (timeout_at s t) of None \<Rightarrow> [] | Some _ \<Rightarrow> [SendEvent ''EVT_CC_TRIGGER_MESH_REINIT''])"

lemma fire_ok:
  assumes "uloop_ok s"
  shows "uloop_ok (fire_timeout t s)" "timeouts (fire_timeout t s) = remove1 t (timeouts s)"
    "due (fire_timeout t s) = due s" "cb_event (fire_timeout t s) = cb_event s"
    "ct_log (fire_timeout t s) = ct_log s @ cb_event s t"
proof -
  let ?s = "fire_timeout t s"
  note c = uloop_ok_cancel [OF assms(1), of t]
  have "ct_log (snd (ecnt_uloop_timeout_cancel t s)) = ct_log s"
    by (simp add: ecnt_uloop_timeout_cancel_def upd_timeout_def)
  then show "ct_log ?s = ct_log s @ cb_event s t"
    by (simp add: fire_timeout_def Let_def cb_event_def call_cb_def act_def split: option.split ecnt_uloop_timeout_handler.split)
  have same: "timeouts ?s = timeouts (snd (ecnt_uloop_timeout_cancel t s))"
    "timeout_at ?s = timeout_at (snd (ecnt_uloop_timeout_cancel t s))"
    by (simp_all add: fire_timeout_def Let_def split: option.split)
  then show "due ?s = due s" "timeouts ?s = remove1 t (timeouts s)" using c by (auto simp: due_def fun_eq_iff)
  show "uloop_ok ?s" using c(1) same by (simp add: uloop_ok_def due_def)
  show "cb_event ?s = cb_event s" using c(5) same by (simp add: cb_event_def fun_eq_iff)
qed

lemma process_ok:
  assumes "uloop_ok s" and "in_reach now s"
  shows "\<exists>s' fired. ecnt_uloop_process_timeouts now s = Ret s' \<and> timeouts s = fired @ timeouts s' \<and>
    uloop_ok s' \<and> due s' = due s \<and> ct_log s' = ct_log s @ concat (map (cb_event s) fired) \<and>
    (\<forall>t \<in> set fired. due s t < us now + 1000) \<and> (\<forall>t \<in> set (timeouts s'). us now < due s t + 1000)"
  using assms
proof (induction "length (timeouts s)" arbitrary: s)
  case 0
  then show ?case by (subst ecnt_uloop_process_timeouts.simps) auto
next
  case (Suc n)
  then obtain t ts where l: "timeouts s = t # ts" by (cases "timeouts s") auto
  have near: "near (time (timeout_at s t)) now"
    using Suc.prems(2) l by (simp add: in_reach_def near_def due_def)
  show ?case
  proof (cases "ecnt_tv_diff (time (timeout_at s t)) now > 0")
    case True
    then have "us now < due s t" using tv_diff_pos [OF near] by (simp add: due_def)
    moreover have "\<forall>x \<in> set ts. due s t < due s x + 1000" using Suc.prems(1) l by (simp add: uloop_ok_def)
    ultimately have "\<forall>x \<in> set (timeouts s). us now < due s x + 1000" using l by fastforce
    with True l Suc.prems show ?thesis by (subst ecnt_uloop_process_timeouts.simps) auto
  next
    case False
    then have early: "due s t < us now + 1000" using tv_diff_not_pos [OF near] by (simp add: due_def)
    let ?s1 = "fire_timeout t s"
    note c = fire_ok [OF Suc.prems(1), of t]
    have "timeouts ?s1 = ts" using c(2) l by simp
    moreover have "in_reach now ?s1" using Suc.prems(2) c(3) l \<open>timeouts ?s1 = ts\<close> by (simp add: in_reach_def)
    ultimately obtain s' fired where r: "ecnt_uloop_process_timeouts now ?s1 = Ret s'" "ts = fired @ timeouts s'"
      "uloop_ok s'" "due s' = due ?s1" "ct_log s' = ct_log ?s1 @ concat (map (cb_event ?s1) fired)"
      "\<forall>t \<in> set fired. due ?s1 t < us now + 1000" "\<forall>t \<in> set (timeouts s'). us now < due ?s1 t + 1000"
      using Suc.hyps(1) [of ?s1] Suc.hyps(2) c(1) l by auto
    have "pending (timeout_at s t)" using Suc.prems(1) l by (simp add: uloop_ok_def)
    then have "ecnt_uloop_process_timeouts now s = Ret s'"
      using False l r(1) by (subst ecnt_uloop_process_timeouts.simps) (simp add: Let_def)
    with l r c early show ?thesis by (intro exI [of _ s'] exI [of _ "t # fired"]) auto
  qed
qed

text \<open>Setting a timeout, whether it is pending or not, keeps the list in order.\<close>

lemma uloop_ok_time:
  assumes "\<not> pending (timeout_at s t)" and "uloop_ok s"
  shows "uloop_ok (upd_timeout t (time_update f) s)"
proof -
  let ?s = "upd_timeout t (time_update f) s"
  have t: "t \<notin> set (timeouts s)" using assms by (simp add: uloop_ok_def)
  have d: "x \<noteq> t \<Longrightarrow> due ?s x = due s x" for x by (simp add: due_def upd_timeout_def)
  have "sorted_wrt (\<lambda>a b. due s a < due s b + 1000) (timeouts s)" using assms(2) by (simp add: uloop_ok_def)
  then have "sorted_wrt (\<lambda>a b. due ?s a < due ?s b + 1000) (timeouts s)"
  proof (rule sorted_wrt_mono_rel [rotated])
    fix x y
    assume "x \<in> set (timeouts s)" "y \<in> set (timeouts s)" "due s x < due s y + 1000"
    moreover from this t have "x \<noteq> t" "y \<noteq> t" by auto
    ultimately show "due ?s x < due ?s y + 1000" by (simp add: d)
  qed
  with assms t show ?thesis by (simp add: uloop_ok_def upd_timeout_def)
qed

lemma timeout_set_ok:
  assumes "uloop_ok s" and "in_reach (ecnt_uloop_gettime c) s" and "\<bar>m\<bar> < 1073741823"
  shows "uloop_ok (snd (ecnt_uloop_timeout_set c t m s))"
    and "set (timeouts (snd (ecnt_uloop_timeout_set c t m s))) = insert t (set (timeouts s))"
    and "due (snd (ecnt_uloop_timeout_set c t m s)) = (due s)(t := us (ecnt_uloop_gettime c) + m * 1000)"
    and "cb_event (snd (ecnt_uloop_timeout_set c t m s)) = cb_event s"
proof -
  define s1 where "s1 = (if pending (timeout_at s t) then snd (ecnt_uloop_timeout_cancel t s) else s)"
  let ?d = "due_time (ecnt_uloop_gettime c) m"
  define s2 where "s2 = upd_timeout t (time_update (\<lambda>_. ?d)) s1"
  have f: "uloop_ok s1" "timeouts s1 = remove1 t (timeouts s)" "\<not> pending (timeout_at s1 t)" "due s1 = due s"
    "\<And>i. cb (timeout_at s1 i) = cb (timeout_at s i)"
    using assms(1) uloop_ok_cancel [OF assms(1)] by (auto simp: s1_def uloop_ok_def remove1_idem)
  have ok2: "uloop_ok s2" unfolding s2_def using uloop_ok_time [OF f(3,1)] .
  have "near (time (timeout_at s2 x)) (time (timeout_at s2 t))" if "x \<in> set (timeouts s2)" for x
  proof -
    have x: "x \<in> set (timeouts s)" "x \<noteq> t"
      using that assms(1) f(2) by (auto simp: s2_def upd_timeout_def uloop_ok_def)
    have "due s2 x = due s1 x" using x(2) by (simp add: s2_def upd_timeout_def due_def)
    then have "us (time (timeout_at s2 x)) = due s x" using fun_cong [OF f(4), of x] by (simp add: due_def [of s2])
    moreover have "us (time (timeout_at s2 t)) = us (ecnt_uloop_gettime c) + m * 1000"
      by (simp add: s2_def upd_timeout_def us_due_time)
    moreover have "\<bar>due s x - us (ecnt_uloop_gettime c)\<bar> < 1073741823000" using assms(2) x(1) by (simp add: in_reach_def)
    ultimately show ?thesis using assms(3) by (simp add: near_def)
  qed
  then have nb: "\<forall>x \<in> set (timeouts s2). near (time (timeout_at s2 x)) (time (timeout_at s2 t))" by blast
  note a = uloop_ok_add [OF ok2 nb]
  have e: "snd (ecnt_uloop_timeout_set c t m s) = snd (ecnt_uloop_timeout_add t s2)"
    by (simp add: ecnt_uloop_timeout_set_def Let_def s1_def s2_def)
  show "uloop_ok (snd (ecnt_uloop_timeout_set c t m s))" using a(1) e by simp
  show "set (timeouts (snd (ecnt_uloop_timeout_set c t m s))) = insert t (set (timeouts s))"
  proof -
    have "timeouts s2 = remove1 t (timeouts s)" using f(2) by (simp add: s2_def upd_timeout_def)
    moreover have "distinct (timeouts s)" using assms(1) by (simp add: uloop_ok_def)
    ultimately show ?thesis unfolding e a(2) by (auto simp: set_remove1_eq)
  qed
  show "due (snd (ecnt_uloop_timeout_set c t m s)) = (due s)(t := us (ecnt_uloop_gettime c) + m * 1000)"
    unfolding e a(3) f(4) [symmetric] by (auto simp: s2_def upd_timeout_def due_def us_due_time)
  have "cb (timeout_at (snd (ecnt_uloop_timeout_set c t m s)) i) = cb (timeout_at s i)" for i
    unfolding e a(4) using f(5) [of i] by (cases "i = t") (simp_all add: s2_def upd_timeout_def)
  then show "cb_event (snd (ecnt_uloop_timeout_set c t m s)) = cb_event s" by (simp add: cb_event_def fun_eq_iff)
qed

section \<open>Properties\<close>

text \<open>C35: On a list in order, one turn of \<open>ecnt_uloop_run\<close> always returns. It takes a first part of the list,
  calls the callback of each of these timeouts once and in order, and leaves the rest; none that fires is a
  millisecond or more early, and none that stays is a millisecond or more late. The list stays in
  order, and setting a timeout for any time keeps it so and puts exactly that timeout on it.\<close>

theorem timeouts_fire:
  assumes "uloop_ok s" and "in_reach (ecnt_uloop_gettime c) s" and "\<bar>m\<bar> < 1073741823"
  shows "(\<exists>s' fired. ecnt_uloop_run c s = Ret s' \<and> timeouts s = fired @ timeouts s' \<and> uloop_ok s' \<and>
      ct_log s' = ct_log s @ concat (map (cb_event s) fired) \<and>
      (\<forall>t \<in> set fired. due s t < us (ecnt_uloop_gettime c) + 1000 \<and> \<not> pending (timeout_at s' t)) \<and>
      (\<forall>t \<in> set (timeouts s'). us (ecnt_uloop_gettime c) < due s' t + 1000)) \<and>
    uloop_ok (snd (ecnt_uloop_timeout_set c t m s)) \<and>
    set (timeouts (snd (ecnt_uloop_timeout_set c t m s))) = insert t (set (timeouts s)) \<and>
    due (snd (ecnt_uloop_timeout_set c t m s)) = (due s)(t := us (ecnt_uloop_gettime c) + m * 1000)"
proof -
  obtain s' fired where r: "ecnt_uloop_run c s = Ret s'" "timeouts s = fired @ timeouts s'"
    "uloop_ok s'" "due s' = due s" "ct_log s' = ct_log s @ concat (map (cb_event s) fired)"
    "\<forall>t \<in> set fired. due s t < us (ecnt_uloop_gettime c) + 1000"
    "\<forall>t \<in> set (timeouts s'). us (ecnt_uloop_gettime c) < due s t + 1000"
    using process_ok [OF assms(1,2)] unfolding ecnt_uloop_run_def by blast
  moreover have "\<not> pending (timeout_at s' t)" if "t \<in> set fired" for t
    using that r(2,3) assms(1) by (auto simp: uloop_ok_def)
  ultimately show ?thesis using timeout_set_ok [OF assms] by (intro conjI exI [of _ s'] exI [of _ fired]) auto
qed

definition two_timeouts :: "unit uloop" where
  "two_timeouts = snd (ecnt_uloop_timeout_set (100, 0) 7 500 (snd (ecnt_uloop_timeout_set (100, 0) 3 2000 (mesh_init ()))))"

theorem timeouts_fire_witness:
  "\<exists>s'. ecnt_uloop_run (101, 0) two_timeouts = Ret s' \<and> timeouts s' = [3] \<and> length (ct_log s') = 1 \<and> uloop_ok s'"
proof -
  let ?s = "snd (ecnt_uloop_timeout_set (100, 0) 3 2000 (mesh_init ())) :: unit uloop"
  have "in_reach (ecnt_uloop_gettime (100, 0)) (mesh_init () :: unit uloop)" by (simp add: in_reach_def mesh_init_def)
  then have "uloop_ok ?s" using timeouts_fire [OF uloop_ok_init, of "(100, 0)" "()" 2000 3] by auto
  moreover have "in_reach (ecnt_uloop_gettime (100, 0)) ?s" by code_simp
  ultimately have ok: "uloop_ok two_timeouts"
    using timeouts_fire [of ?s "(100, 0)" 500 7] unfolding two_timeouts_def by simp
  have reach: "in_reach (ecnt_uloop_gettime (101, 0)) two_timeouts" by code_simp
  have "case ecnt_uloop_run (101, 0) two_timeouts of Ret s' \<Rightarrow> timeouts s' = [3] \<and> length (ct_log s') = 1 | Fault _ \<Rightarrow> False"
    by code_simp
  with timeouts_fire [OF ok reach, of 0 0] show ?thesis by auto
qed

lemma mesh_trigger_eq:
  assumes "ct_store s = st" and "atoi (buf_attr R st MESH_COMMON_NODE ''MeshTriggerFlag'' 16) AND 0xFF \<noteq> 1"
  shows "mesh_trigger R w c s = snd (ecnt_uloop_timeout_set c mesh_trigger_timeout w s)"
  using assms by (simp add: mesh_trigger_def fetch_def buf_attr_def split: option.splits)

lemma timeout_set_frame:
  "ct_store (snd (ecnt_uloop_timeout_set c t m s)) = ct_store s" "ct_log (snd (ecnt_uloop_timeout_set c t m s)) = ct_log s"
  by (simp_all add: ecnt_uloop_timeout_set_def ecnt_uloop_timeout_add_def ecnt_uloop_timeout_cancel_def upd_timeout_def Let_def)

lemma mesh_triggers:
  assumes "atoi (buf_attr R st MESH_COMMON_NODE ''MeshTriggerFlag'' 16) AND 0xFF \<noteq> 1"
    and "\<forall>(w, c) \<in> set cs. \<bar>w\<bar> < 500000000 \<and> \<bar>us (ecnt_uloop_gettime c)\<bar> < 250000000000"
  defines "s \<equiv> fold (\<lambda>(w, c). mesh_trigger R w c) cs (mesh_init st)"
  shows "uloop_ok s \<and> ct_store s = st \<and> ct_log s = [] \<and> cb_event s = cb_event (mesh_init st) \<and>
    (cs = [] \<longrightarrow> timeouts s = []) \<and>
    (cs \<noteq> [] \<longrightarrow> timeouts s = [mesh_trigger_timeout] \<and>
       due s mesh_trigger_timeout = us (ecnt_uloop_gettime (snd (last cs))) + fst (last cs) * 1000)"
  using assms(2) unfolding s_def
proof (induction cs rule: rev_induct)
  case Nil
  then show ?case using uloop_ok_init [of st] by (simp add: mesh_init_def)
next
  case (snoc x cs)
  obtain w c where x: "x = (w, c)" by (cases x)
  let ?s = "fold (\<lambda>(w, c). mesh_trigger R w c) cs (mesh_init st)"
  let ?s' = "snd (ecnt_uloop_timeout_set c mesh_trigger_timeout w ?s)"
  note IH = snoc.IH [OF ballI [OF bspec [OF snoc.prems]], simplified]
  have w: "\<bar>w\<bar> < 500000000" "\<bar>us (ecnt_uloop_gettime c)\<bar> < 250000000000" using snoc.prems x by auto
  have l: "\<bar>fst (last cs)\<bar> < 500000000 \<and> \<bar>us (ecnt_uloop_gettime (snd (last cs)))\<bar> < 250000000000" if "cs \<noteq> []"
    using snoc.prems last_in_set [OF that] by (auto simp: split_beta)
  have reach: "in_reach (ecnt_uloop_gettime c) ?s"
  proof (cases "cs = []")
    case False
    with IH have "timeouts ?s = [mesh_trigger_timeout]"
      "due ?s mesh_trigger_timeout = us (ecnt_uloop_gettime (snd (last cs))) + fst (last cs) * 1000" by simp_all
    moreover have "\<bar>us (ecnt_uloop_gettime (snd (last cs))) + fst (last cs) * 1000 - us (ecnt_uloop_gettime c)\<bar> < 1073741823000"
      using l [OF False] w by linarith
    ultimately show ?thesis by (simp add: in_reach_def)
  qed (simp add: in_reach_def mesh_init_def)
  have ok: "uloop_ok ?s" using IH by simp
  note r = timeout_set_ok [OF ok reach, of w mesh_trigger_timeout]
  have "set (timeouts ?s) \<subseteq> {mesh_trigger_timeout}" using IH by (cases "cs = []") auto
  then have "set (timeouts ?s') = {mesh_trigger_timeout}" using r(2) w(1) by auto
  moreover have "distinct (timeouts ?s')" using r(1) w(1) by (simp add: uloop_ok_def)
  ultimately have "timeouts ?s' = [mesh_trigger_timeout]" by (cases "timeouts ?s'"; cases "tl (timeouts ?s')") auto
  then show ?case using r w IH x by (simp add: mesh_trigger_eq [OF _ assms(1)] timeout_set_frame)
qed



end
