(* ===== verification/Parental.thy ===== *)
theory Parental
  imports Button
begin

text \<open>
  Parental control (\<open>service/other/parental_common.c\<close>, \<open>parental_ctrl_polling.c\<close>,
  \<open>parental_boot_execute.c\<close>, \<open>parental_mac_boot_execute.c\<close>, the handlers of \<open>type/cfg_type_parental.c\<close> and
  the filter switches of \<open>utility.c\<close>). Eight groups of hosts have times and addresses; a thread looks every
  second whether a time begins or ends and then writes the packet filter anew. Commands are the log
  of \<open>Button\<close>, the attributes a store of \<open>AttrStore\<close>; the pattern files of the application filter are a
  component of the state, and so are the times that are met.
\<close>

section \<open>Constants and state\<close>

definition MAX_PARENTAL_NUM :: nat where "MAX_PARENTAL_NUM = 8"
definition MAX_MAC_PER_ENTRY :: nat where "MAX_MAC_PER_ENTRY = 4"
definition MAX_MAC_ARRAY_SIZE :: nat where "MAX_MAC_ARRAY_SIZE = 20"
definition MAX_DURATION_PER_ENTRY :: nat where "MAX_DURATION_PER_ENTRY = 4"
definition MAX_URL_PER_ENTRY :: nat where "MAX_URL_PER_ENTRY = 10"
definition MAX_PARENTAL_MAC_NUM :: nat where "MAX_PARENTAL_MAC_NUM = MAX_PARENTAL_NUM * MAX_MAC_PER_ENTRY"
definition MAX_URL_INPUT_LENGTH :: nat where "MAX_URL_INPUT_LENGTH = 48"
definition MAX_PARENTAL_MAC_LEN :: nat where "MAX_PARENTAL_MAC_LEN = 18"

definition PARENTAL_ENTRY_NODE :: string where "PARENTAL_ENTRY_NODE = ''root.parental.entry''"
definition PARENTAL_COMMON_NODE :: string where "PARENTAL_COMMON_NODE = ''root.parental.common''"
definition PARENTAL_MAC_ENTRY_NODE :: string where "PARENTAL_MAC_ENTRY_NODE = ''root.parentalmac.entry''"
definition PARENTAL_MAC_COMMON_NODE :: string where "PARENTAL_MAC_COMMON_NODE = ''root.parentalmac.common''"
definition GLOBALSTATE_PRESYSSTATE_NODE :: string where "GLOBALSTATE_PRESYSSTATE_NODE = ''root.globalstate.presysstate''"
definition GLOBALSTATE_COMMON_NODE :: string where "GLOBALSTATE_COMMON_NODE = ''root.globalstate.common''"

definition APP_VECTOR :: u32 where "APP_VECTOR = 16"
definition URL_VECTOR :: u32 where "URL_VECTOR = 32"
definition PARENTAL_VECTOR :: u32 where "PARENTAL_VECTOR = 256"
definition L7_BIT_MASK :: u32 where "L7_BIT_MASK = APP_VECTOR OR URL_VECTOR"

record parental_duration =
  dur_start :: u32
  dur_end :: u32
  repeat_days :: "8 word"
  matched_stat :: bool

definition zero_duration :: parental_duration where
  "zero_duration = \<lparr>dur_start = 0, dur_end = 0, repeat_days = 0, matched_stat = False\<rparr>"

record 's parental = "'s ctl" +
  parental_setting :: "parental_duration list list"
  is_parental_init :: bool
  l7_files :: "string \<rightharpoonup> string"

text \<open>The first line of \<open>/proc/version\<close>, and whether the pattern files can be opened for writing.\<close>

record par_env =
  pe_version :: "string option"
  pe_writable :: bool

section \<open>Commands\<close>

text \<open>\<open>vsprintf\<close> into a buffer of 200 bytes, then \<open>system\<close>.\<close>

definition execParentalRule :: "string \<Rightarrow> 's parental \<Rightarrow> 's parental cres" where
  "execParentalRule rule s = (if length rule < 200 then Ret (act (System rule) s) else Fault BufferOverflow)"

fun execParentalRules :: "string list \<Rightarrow> 's parental \<Rightarrow> 's parental cres" where
  "execParentalRules [] s = Ret s"
| "execParentalRules (r # rs) s = cbind (execParentalRule r s) (execParentalRules rs)"

definition CHAIN_IN :: string where "CHAIN_IN = ''parental_black_chain_in''"
definition CHAIN_FWD :: string where "CHAIN_FWD = ''parental_black_chain_fwd''"

definition pat_name :: "nat \<Rightarrow> string" where
  "pat_name k = ''parental_url_'' @ nat_str k"

definition pat_path :: "nat \<Rightarrow> string" where
  "pat_path k = ''/etc/l7-protocols/'' @ pat_name k @ ''.pat''"

definition rm_pat :: "nat \<Rightarrow> 's parental \<Rightarrow> 's parental cres" where
  "rm_pat k s = cbind (execParentalRule (''rm -f '' @ pat_path k) s)
     (\<lambda>s1. Ret (s1\<lparr>l7_files := (l7_files s1)(pat_path k := None)\<rparr>))"

definition clear_chain :: "string \<Rightarrow> string \<Rightarrow> string list" where
  "clear_chain chain hook =
     [''iptables -t filter -F '' @ chain, ''iptables -t filter -Z '' @ chain,
      ''iptables -t filter -D '' @ hook @ '' -j '' @ chain, ''iptables -t filter -X '' @ chain]"

definition clear_sub :: "string \<Rightarrow> string list" where
  "clear_sub chain =
     [''iptables -t filter -F '' @ chain, ''iptables -t filter -Z '' @ chain, ''iptables -t filter -X '' @ chain]"

fun clear_nodes :: "nat list \<Rightarrow> 's parental \<Rightarrow> 's parental cres" where
  "clear_nodes [] s = Ret s"
| "clear_nodes (i # is) s =
     cbind (rm_pat i s) (\<lambda>s1.
     cbind (execParentalRules (clear_sub (CHAIN_IN @ nat_str i) @ clear_sub (CHAIN_FWD @ nat_str i)) s1)
       (clear_nodes is))"

definition clearParental :: "'s parental \<Rightarrow> 's parental cres" where
  "clearParental s =
     cbind (execParentalRules (clear_chain CHAIN_IN ''INPUT'' @ clear_chain CHAIN_FWD ''FORWARD'') s) (\<lambda>s1.
     cbind (clear_nodes [0..<MAX_PARENTAL_NUM] s1) (rm_pat 999))"

section \<open>Times\<close>

definition entry_node :: "nat \<Rightarrow> string" where
  "entry_node idx = numbered PARENTAL_ENTRY_NODE (idx + 1)"

text \<open>A numeric attribute, 0 when it cannot be read or is empty.\<close>

definition num_attr :: "'s store_ops \<Rightarrow> ('s, 'm) ctl_scheme \<Rightarrow> string \<Rightarrow> string \<Rightarrow> int" where
  "num_attr R s node attr = (case fetch R s node attr 128 [] of (r, v) \<Rightarrow> if 0 < r then atoi v else 0)"

definition load_duration :: "'s store_ops \<Rightarrow> ('s, 'm) ctl_scheme \<Rightarrow> string \<Rightarrow> nat \<Rightarrow> parental_duration" where
  "load_duration R s node i =
     \<lparr>dur_start = of_int (num_attr R s node (''StartTime'' @ nat_str i)),
      dur_end = of_int (num_attr R s node (''EndTime'' @ nat_str i)),
      repeat_days = of_int (num_attr R s node (''RepeatDay'' @ nat_str i)), matched_stat = False\<rparr>"

definition initParentalDuration :: "'s store_ops \<Rightarrow> 's parental \<Rightarrow> 's parental" where
  "initParentalDuration R s =
     s\<lparr>parental_setting := map (\<lambda>node_idx.
         let node = entry_node node_idx
         in if 0 < fst (fetch R s node ''DurationActive'' 128 [])
            then map (load_duration R s node) [0..<MAX_DURATION_PER_ENTRY]
            else replicate MAX_DURATION_PER_ENTRY zero_duration) [0..<MAX_PARENTAL_NUM]\<rparr>"

text \<open>What \<open>localtime\<close> gives: the day of the week, from Sunday, and the time of day.\<close>

record wall_clock =
  tm_wday :: nat
  tm_hour :: nat
  tm_min :: nat
  tm_sec :: nat

definition cur_sec :: "wall_clock \<Rightarrow> nat" where
  "cur_sec c = tm_hour c * 3600 + tm_min c * 60 + tm_sec c"

definition isCurrentInDuration :: "wall_clock \<Rightarrow> parental_duration \<Rightarrow> bool" where
  "isCurrentInDuration c d \<longleftrightarrow>
     list_ex (\<lambda>week. push_bit week 1 AND repeat_days d \<noteq> 0 \<and> week = tm_wday c \<and>
       dur_start d \<le> of_nat (cur_sec c) \<and> of_nat (cur_sec c) \<le> dur_end d) [0..<7]"

definition duration_at :: "'s parental \<Rightarrow> nat \<Rightarrow> nat \<Rightarrow> parental_duration" where
  "duration_at s i j = parental_setting s ! i ! j"

definition set_matched :: "nat \<Rightarrow> nat \<Rightarrow> bool \<Rightarrow> 's parental \<Rightarrow> 's parental" where
  "set_matched i j b s =
     s\<lparr>parental_setting := (parental_setting s)[i := (parental_setting s ! i)[j := (duration_at s i j)\<lparr>matched_stat := b\<rparr>]]\<rparr>"

definition isSetpIntoDuration :: "wall_clock \<Rightarrow> nat \<Rightarrow> nat \<Rightarrow> 's parental \<Rightarrow> bool \<times> 's parental" where
  "isSetpIntoDuration c i j s =
     (let d = duration_at s i j
      in if matched_stat d then (False, s)
         else if \<not> isCurrentInDuration c d then (False, s)
         else (True, set_matched i j True s))"

definition isGoOutOfDuration :: "wall_clock \<Rightarrow> nat \<Rightarrow> nat \<Rightarrow> 's parental \<Rightarrow> bool \<times> 's parental" where
  "isGoOutOfDuration c i j s =
     (let d = duration_at s i j
      in if \<not> matched_stat d then (False, s)
         else if isCurrentInDuration c d then (False, s)
         else (True, set_matched i j False s))"

section \<open>Filter switches (\<open>utility.c\<close>)\<close>

definition after_space :: "string \<Rightarrow> string option" where
  "after_space s = (case dropWhile (\<lambda>c. c \<noteq> CHR '' '') s of [] \<Rightarrow> None | _ # t \<Rightarrow> Some t)"

text \<open>The second word of the version line; \<open>strchr\<close> of what was not found is read through.\<close>

definition decideModulePath :: "par_env \<Rightarrow> nat \<Rightarrow> string cres" where
  "decideModulePath E len =
     (case pe_version E of
        None \<Rightarrow> Ret []
      | Some [] \<Rightarrow> Ret []
      | Some buf \<Rightarrow>
          (case after_space buf of
             None \<Rightarrow> Fault NullDeref
           | Some a \<Rightarrow>
               (case after_space a of
                  None \<Rightarrow> Fault NullDeref
                | Some [] \<Rightarrow> Fault ReadPastEnd
                | Some (c # cs) \<Rightarrow> Ret (take (len - 1) (c # takeWhile (\<lambda>x. x \<noteq> CHR '' '') cs)))))"

definition insmod :: "par_env \<Rightarrow> string \<Rightarrow> string \<Rightarrow> ('s, 'm) ctl_scheme \<Rightarrow> ('s, 'm) ctl_scheme cres" where
  "insmod E cmd module s =
     cbind (decideModulePath E 16) (\<lambda>v. Ret (act (System (take 127 (cmd @ v @ module))) s))"

definition check_and_set_l7filter :: "par_env \<Rightarrow> 's store_ops \<Rightarrow> u32 \<Rightarrow> ('s, 'm) ctl_scheme \<Rightarrow> ('s, 'm) ctl_scheme cres" where
  "check_and_set_l7filter E R new s =
     (let pre = of_int (atoi (snd (fetch R s GLOBALSTATE_PRESYSSTATE_NODE ''FilterState'' 32 []))) :: u32
      in if pre AND L7_BIT_MASK \<noteq> 0
         then if new AND L7_BIT_MASK = 0
              then Ret (act (System ''rmmod xt_layer7'')
                     (act (System ''iptables -t filter -F url_filter_chain'')
                     (act (System ''iptables -t filter -F app_filter_chain'') s)))
              else Ret s
         else if new AND L7_BIT_MASK \<noteq> 0
              then insmod E ''taskset 2 insmod /lib/modules/'' ''/kernel/net/netfilter/xt_layer7.ko &'' s
              else Ret s)"

definition check_and_set_filter :: "par_env \<Rightarrow> 's store_ops \<Rightarrow> u32 \<Rightarrow> ('s, 'm) ctl_scheme \<Rightarrow> ('s, 'm) ctl_scheme cres" where
  "check_and_set_filter E R new s =
     (let (r, v) = fetch R s GLOBALSTATE_PRESYSSTATE_NODE ''FilterState'' 32 [];
          flag = (if r < 0 then 0 else atoi v)
      in cbind
           (if flag \<noteq> 0
            then if new = 0
                 then Ret (act (System ''rmmod iptable_filter'') (act (System ''/usr/script/filter_forward_stop.sh'')
                        (act (System ''iptables -t filter -F'') s)))
                 else Ret s
            else if new \<noteq> 0
                 then cbind (insmod E ''taskset 2 insmod /lib/modules/'' ''/kernel/net/ipv4/netfilter/iptable_filter.ko &'' s) (\<lambda>s1.
                      cbind (insmod E ''taskset 2 /sbin/insmod /lib/modules/'' ''/kernel/net/ipv6/netfilter/ip6table_filter.ko &'' s1) (\<lambda>s2.
                        Ret (act (System ''/usr/script/filter_forward_start.sh'') s2)))
                 else Ret s)
           (\<lambda>s1. Ret (put_attr R GLOBALSTATE_PRESYSSTATE_NODE ''FilterState'' (nat_str (unat new)) s1)))"

definition checkParentalOn :: "par_env \<Rightarrow> 's store_ops \<Rightarrow> 's parental \<Rightarrow> (bool \<times> 's parental) cres" where
  "checkParentalOn E R s =
     (case fetch R s GLOBALSTATE_PRESYSSTATE_NODE ''FilterState'' 32 [] of (r, v) \<Rightarrow>
        if r \<le> 0 then Ret (False, s)
        else let (r2, a) = fetch R s PARENTAL_COMMON_NODE ''Active'' 32 [];
                 sta = (if 0 < r2 \<and> strcmp a ''Yes'' = 0 then of_int (atoi v) OR PARENTAL_VECTOR
                        else of_int (atoi v) AND NOT PARENTAL_VECTOR)
             in cbind (check_and_set_l7filter E R sta s) (\<lambda>s1.
                cbind (check_and_set_filter E R sta s1) (\<lambda>s2.
                  Ret (sta AND PARENTAL_VECTOR \<noteq> 0, s2))))"

section \<open>The groups\<close>

definition attr_is :: "'s store_ops \<Rightarrow> ('s, 'm) ctl_scheme \<Rightarrow> nat \<Rightarrow> string \<Rightarrow> string \<Rightarrow> bool" where
  "attr_is R s idx attr v = (case fetch R s (entry_node idx) attr 32 [] of (r, a) \<Rightarrow> 0 < r \<and> strcmp a v = 0)"

definition isParentalEntryNodeActive :: "'s store_ops \<Rightarrow> nat \<Rightarrow> ('s, 'm) ctl_scheme \<Rightarrow> bool" where
  "isParentalEntryNodeActive R idx s = attr_is R s idx ''Active'' ''Yes''"

definition isParentalEntryNodeDurationActive :: "'s store_ops \<Rightarrow> nat \<Rightarrow> ('s, 'm) ctl_scheme \<Rightarrow> bool" where
  "isParentalEntryNodeDurationActive R idx s = attr_is R s idx ''DurationActive'' ''Yes''"

text \<open>True for a black list.\<close>

definition getDuationType :: "'s store_ops \<Rightarrow> nat \<Rightarrow> ('s, 'm) ctl_scheme \<Rightarrow> bool" where
  "getDuationType R idx s \<longleftrightarrow> \<not> attr_is R s idx ''DurationPolicy'' ''White''"

definition getFilterType :: "'s store_ops \<Rightarrow> nat \<Rightarrow> ('s, 'm) ctl_scheme \<Rightarrow> bool" where
  "getFilterType R idx s \<longleftrightarrow> \<not> attr_is R s idx ''Policy'' ''White''"

definition sub_chain_rules :: "nat \<Rightarrow> string list" where
  "sub_chain_rules i =
     [''iptables -t filter -N '' @ CHAIN_IN @ nat_str i,
      ''iptables -t filter -A '' @ CHAIN_IN @ '' -j '' @ CHAIN_IN @ nat_str i,
      ''iptables -t filter -N '' @ CHAIN_FWD @ nat_str i,
      ''iptables -t filter -A '' @ CHAIN_FWD @ '' -j '' @ CHAIN_FWD @ nat_str i]"

definition initParental :: "'s store_ops \<Rightarrow> 's parental \<Rightarrow> 's parental cres" where
  "initParental R s =
     execParentalRules
       ([''iptables -t filter -N '' @ CHAIN_IN, ''iptables -t filter -I INPUT -j '' @ CHAIN_IN,
         ''iptables -t filter -N '' @ CHAIN_FWD, ''iptables -t filter -I FORWARD -j '' @ CHAIN_FWD] @
        concat (map (\<lambda>i. if isParentalEntryNodeActive R i s \<or> isParentalEntryNodeDurationActive R i s
                         then sub_chain_rules i else []) [0..<MAX_PARENTAL_NUM])) s"

section \<open>URL patterns\<close>

definition url_host :: "string \<Rightarrow> string" where
  "url_host url =
     (let phttp = (case strstr url ''https://'' of
                     Some (_, b) \<Rightarrow> Some (drop 8 b)
                   | None \<Rightarrow> map_option (\<lambda>(_, b). drop 7 b) (strstr url ''http://''));
          u = (case phttp of Some p \<Rightarrow> p | None \<Rightarrow> url)
      in case strstr u ''www.'' of Some (_, b) \<Rightarrow> if length u > 4 then drop 4 b else u | None \<Rightarrow> u)"

definition BLANKS :: string where
  "BLANKS = ''['' @ [CHR 0x5C] @ ''x09-'' @ [CHR 0x5C] @ ''x0d ]*''"

definition l7_pattern :: "string \<Rightarrow> string" where
  "l7_pattern host = ''(Host:'' @ BLANKS @ '' .*'' @ host @ ''|Refer:'' @ BLANKS @ '' .*'' @ host @ '')''"

text \<open>\<open>snprintf\<close> into \<open>out_len\<close> bytes.\<close>

definition createL7Rules :: "string \<Rightarrow> nat \<Rightarrow> string" where
  "createL7Rules url out_len = take (out_len - 1) (l7_pattern (url_host url))"

definition write2ParentalFile :: "par_env \<Rightarrow> nat \<Rightarrow> string \<Rightarrow> 's parental \<Rightarrow> int \<times> 's parental" where
  "write2ParentalFile E k url s =
     (if \<not> pe_writable E then (-1, s)
      else (0, s\<lparr>l7_files := (l7_files s)(pat_path k \<mapsto>
              (case l7_files s (pat_path k) of
                 Some old \<Rightarrow> old @ ''|'' @ url
               | None \<Rightarrow> pat_name k @ [CHR 0x0A] @ url))\<rparr>))"

definition url_step :: "par_env \<Rightarrow> 's store_ops \<Rightarrow> nat \<Rightarrow> nat \<Rightarrow> nat \<times> 's parental \<Rightarrow> nat \<times> 's parental" where
  "url_step E R i j = (\<lambda>(urlNum, s).
     if \<not> isParentalEntryNodeActive R i s then (urlNum, s)
     else case fetch R s (entry_node i) (''URL'' @ nat_str j) 512 [] of (r, url) \<Rightarrow>
            if r \<le> 0 then (urlNum, s)
            else (urlNum + 1,
                  snd (write2ParentalFile E i (createL7Rules url (MAX_URL_INPUT_LENGTH * 2 + 30)) s)))"

text \<open>The number of addresses is not reset from group to group.\<close>

definition url_node :: "par_env \<Rightarrow> 's store_ops \<Rightarrow> nat \<Rightarrow> nat \<times> 's parental \<Rightarrow> nat \<times> 's parental" where
  "url_node E R i = (\<lambda>(urlNum, s).
     if fst (fetch R s (entry_node i) ''Active'' 128 []) \<le> 0 then (urlNum, s)
     else let (n, s1) = fold (url_step E R i) [0..<MAX_URL_PER_ENTRY] (urlNum, s)
          in (n, put_attr R (entry_node i) ''urlNum'' (nat_str n) s1))"

definition initParentalUrlfilter :: "par_env \<Rightarrow> 's store_ops \<Rightarrow> 's parental \<Rightarrow> 's parental" where
  "initParentalUrlfilter E R s =
     snd (write2ParentalFile E 999 (''(Host:'' @ BLANKS @ '')'')
       (snd (fold (url_node E R) [0..<MAX_PARENTAL_NUM] (0, s))))"

section \<open>Packet filter rules\<close>

definition isDurationMatched :: "'s store_ops \<Rightarrow> nat \<Rightarrow> 's parental \<Rightarrow> bool \<times> 's parental" where
  "isDurationMatched R i s =
     (let s1 = put_attr R (entry_node i) ''induration'' ''0'' s
      in if list_ex (\<lambda>j. matched_stat (duration_at s i j)) [0..<MAX_DURATION_PER_ENTRY]
         then (True, put_attr R (entry_node i) ''induration'' ''1'' s1)
         else (False, s1))"

text \<open>The hosts of a group. A host without a group number is taken with the number of the host before it,
  the first ones with 0.\<close>

fun mac_loop :: "'s store_ops \<Rightarrow> ('s, 'm) ctl_scheme \<Rightarrow> nat \<Rightarrow> nat list \<Rightarrow> int \<Rightarrow> string list \<Rightarrow> string list" where
  "mac_loop R s i [] pid macs = macs"
| "mac_loop R s i (k # ks) pid macs =
     (if length macs < MAX_MAC_PER_ENTRY
      then let node = numbered PARENTAL_MAC_ENTRY_NODE (k + 1);
               (r, v) = fetch R s node ''ParentalID'' 32 [];
               pid' = (if 0 \<le> r \<and> v \<noteq> [] then atoi v else pid);
               (r2, m) = fetch R s node ''Mac'' 32 []
           in mac_loop R s i ks pid'
                (if int i = pid' \<and> 0 \<le> r2 \<and> m \<noteq> [] then macs @ [take (MAX_MAC_ARRAY_SIZE - 1) m] else macs)
      else macs)"

definition parental_macs :: "'s store_ops \<Rightarrow> nat \<Rightarrow> ('s, 'm) ctl_scheme \<Rightarrow> string list" where
  "parental_macs R i s = mac_loop R s i [0..<MAX_PARENTAL_MAC_NUM] 0 []"

definition getParentalMac :: "'s store_ops \<Rightarrow> nat \<Rightarrow> 's parental \<Rightarrow> string list \<times> 's parental" where
  "getParentalMac R i s =
     (let macs = parental_macs R i s
      in (macs, put_attr R (entry_node i) ''macNum'' (nat_str (length macs)) s))"

datatype filter_mode = MAC_FILTER | URL_FILTER | NO_FILTER

definition mac_rule :: "string \<Rightarrow> string" where
  "mac_rule mac = take 63 (''-m mac --mac-source '' @ mac)"

definition url_rule :: "nat \<Rightarrow> string" where
  "url_rule k = take 63 (''-m layer7 --l7proto '' @ pat_name k)"

definition parental_rules :: "nat \<Rightarrow> string \<Rightarrow> filter_mode \<Rightarrow> bool \<Rightarrow> string list" where
  "parental_rules i mac filter_type is_black =
     (if filter_type = MAC_FILTER
      then if is_black
           then [''iptables -t filter -A '' @ CHAIN_IN @ nat_str i @ '' '' @ mac_rule mac @ '' -p udp --dport 53 -j DROP'',
                 ''iptables -t filter -A '' @ CHAIN_FWD @ nat_str i @ '' '' @ mac_rule mac @ '' -p tcp --dport 80 -j DROP'',
                 ''iptables -t filter -A '' @ CHAIN_FWD @ nat_str i @ '' '' @ mac_rule mac @ '' -p tcp --dport 443 -j DROP'']
           else []
      else if is_black
           then [''iptables -t filter -A '' @ CHAIN_FWD @ nat_str i @ '' '' @ mac_rule mac @ '' '' @ url_rule i @ '' -j DROP'']
           else [''iptables -t filter -A '' @ CHAIN_FWD @ nat_str i @ '' '' @ mac_rule mac @ '' '' @ url_rule i @ '' -j ACCEPT'',
                 ''iptables -t filter -A '' @ CHAIN_FWD @ nat_str i @ '' '' @ mac_rule mac @ '' '' @ url_rule 999 @ '' -j DROP''])"

text \<open>The last byte of the array of an address is never written; it is read when the address fills the
  others.\<close>

definition addParentalRule :: "nat \<Rightarrow> string \<Rightarrow> filter_mode \<Rightarrow> bool \<Rightarrow> 's parental \<Rightarrow> 's parental cres" where
  "addParentalRule i mac filter_type is_black s =
     (if mac = [] then Ret s
      else if length mac = MAX_MAC_ARRAY_SIZE - 1 then Fault Indeterminate
      else execParentalRules (parental_rules i mac filter_type is_black) s)"

fun addParentalRules :: "nat \<Rightarrow> filter_mode \<Rightarrow> bool \<Rightarrow> string list \<Rightarrow> 's parental \<Rightarrow> 's parental cres" where
  "addParentalRules i ft black [] s = Ret s"
| "addParentalRules i ft black (m # ms) s = cbind (addParentalRule i m ft black s) (addParentalRules i ft black ms)"

text \<open>Which filter a group gets: by time, by address, or none.\<close>

definition use_filter_mode :: "bool \<Rightarrow> bool \<Rightarrow> bool \<Rightarrow> bool \<Rightarrow> filter_mode" where
  "use_filter_mode duation_active duation_type duation_in mac_rule_active =
     (if duation_active
      then if duation_type
           then if duation_in then MAC_FILTER else if mac_rule_active then URL_FILTER else NO_FILTER
           else if duation_in then if mac_rule_active then URL_FILTER else NO_FILTER
           else MAC_FILTER
      else if mac_rule_active then URL_FILTER else NO_FILTER)"

definition start_node :: "'s store_ops \<Rightarrow> nat \<Rightarrow> 's parental \<Rightarrow> 's parental cres" where
  "start_node R i s =
     (let duation_active = isParentalEntryNodeDurationActive R i s;
          mac_rule_active = isParentalEntryNodeActive R i s
      in if \<not> mac_rule_active \<and> \<not> duation_active then Ret s
         else let (duation_in, s1) = isDurationMatched R i s;
                  duation_type = getDuationType R i s1;
                  url_type = getFilterType R i s1;
                  mode = use_filter_mode duation_active duation_type duation_in mac_rule_active;
                  (macs, s2) = getParentalMac R i s1
              in case mode of
                   MAC_FILTER \<Rightarrow> addParentalRules i MAC_FILTER True macs s2
                 | URL_FILTER \<Rightarrow> addParentalRules i URL_FILTER url_type macs s2
                 | NO_FILTER \<Rightarrow> Ret s2)"

fun start_nodes :: "'s store_ops \<Rightarrow> nat list \<Rightarrow> 's parental \<Rightarrow> 's parental cres" where
  "start_nodes R [] s = Ret s"
| "start_nodes R (i # is) s = cbind (start_node R i s) (start_nodes R is)"

definition startParental :: "'s store_ops \<Rightarrow> 's parental \<Rightarrow> 's parental cres" where
  "startParental R s = start_nodes R [0..<MAX_PARENTAL_NUM] s"

definition restart_body :: "par_env \<Rightarrow> 's store_ops \<Rightarrow> 's parental \<Rightarrow> 's parental cres" where
  "restart_body E R s =
     cbind (clearParental s) (\<lambda>s1.
     cbind (checkParentalOn E R s1) (\<lambda>(on, s2).
       if on then cbind (initParental R s2) (\<lambda>s3. startParental R (initParentalUrlfilter E R s3)) else Ret s2))"

definition restartParental :: "par_env \<Rightarrow> 's store_ops \<Rightarrow> 's parental \<Rightarrow> 's parental cres" where
  "restartParental E R s =
     (if atoi (snd (fetch R s GLOBALSTATE_COMMON_NODE ''isParentalRestarting'' 4 [])) \<noteq> 1
      then cbind (restart_body E R (put_attr R GLOBALSTATE_COMMON_NODE ''isParentalRestarting'' ''1'' s)) (\<lambda>s1.
             Ret (put_attr R GLOBALSTATE_COMMON_NODE ''isParentalRestarting'' ''0''
               (act (System ''/userfs/bin/dnsmasq &'') (act (System ''/usr/bin/killall -9 dnsmasq'') s1))))
      else Ret s)"

section \<open>Polling and events\<close>

text \<open>One time of one group; \<open>||\<close> looks at the end only when it does not begin.\<close>

definition check_duration :: "par_env \<Rightarrow> 's store_ops \<Rightarrow> wall_clock \<Rightarrow> nat \<times> nat \<Rightarrow> 's parental \<Rightarrow> 's parental cres" where
  "check_duration E R c = (\<lambda>(i, j) s.
     let (into, s1) = isSetpIntoDuration c i j s
     in if into then restartParental E R s1
        else let (out, s2) = isGoOutOfDuration c i j s1 in if out then restartParental E R s2 else Ret s2)"

fun check_durations :: "par_env \<Rightarrow> 's store_ops \<Rightarrow> ((nat \<times> nat) \<times> wall_clock) list \<Rightarrow> 's parental \<Rightarrow> 's parental cres" where
  "check_durations E R [] s = Ret s"
| "check_durations E R ((ij, c) # ds) s = cbind (check_duration E R c ij s) (check_durations E R ds)"

definition all_durations :: "(nat \<times> nat) list" where
  "all_durations = List.product [0..<MAX_PARENTAL_NUM] [0..<MAX_DURATION_PER_ENTRY]"

text \<open>The clock is read anew for each time.\<close>

definition checkParentalDuration :: "par_env \<Rightarrow> 's store_ops \<Rightarrow> (nat \<times> nat \<Rightarrow> wall_clock) \<Rightarrow> 's parental \<Rightarrow> 's parental cres" where
  "checkParentalDuration E R cl s = check_durations E R (map (\<lambda>ij. (ij, cl ij)) all_durations) s"

text \<open>One turn of the polling thread.\<close>

definition other_mgr_polling :: "par_env \<Rightarrow> 's store_ops \<Rightarrow> bool \<Rightarrow> (nat \<times> nat \<Rightarrow> wall_clock) \<Rightarrow> 's parental \<Rightarrow> 's parental cres" where
  "other_mgr_polling E R cfg_load cl s = (if \<not> cfg_load then Ret s else checkParentalDuration E R cl s)"

definition svc_other_handle_event_parental_boot :: "par_env \<Rightarrow> 's store_ops \<Rightarrow> 's parental \<Rightarrow> 's parental cres" where
  "svc_other_handle_event_parental_boot E R s =
     (let cnt = length (filter (\<lambda>i. 0 < fst (fetch R s (entry_node i) ''Active'' 5 [])) [0..<MAX_PARENTAL_NUM]);
          s1 = put_attr R PARENTAL_COMMON_NODE ''Num'' (nat_str cnt) s;
          s2 = initParentalDuration R s1
      in if \<not> is_parental_init s2
         then cbind (restartParental E R (s2\<lparr>is_parental_init := True\<rparr>)) (\<lambda>s3.
                Ret (put_attr R WEBCURSET_ENTRY_NODE ''parental_id''
                  (snd (fetch R s3 PARENTAL_COMMON_NODE ''parental_id'' 32 [])) s3))
         else Ret (put_attr R PARENTAL_COMMON_NODE ''parental_id''
                (snd (fetch R s2 WEBCURSET_ENTRY_NODE ''parental_id'' 32 [])) s2))"

definition svc_other_handle_event_parental_update :: "par_env \<Rightarrow> 's store_ops \<Rightarrow> 's parental \<Rightarrow> 's parental cres" where
  "svc_other_handle_event_parental_update E R s =
     cbind (svc_other_handle_event_parental_boot E R s) (restartParental E R)"

section \<open>The list of hosts\<close>

text \<open>Whether there is an object, and creating one (\<open>None\<close> when this fails).\<close>

record 's obj_ops =
  oo_query :: "'s \<Rightarrow> string \<Rightarrow> bool"
  oo_create :: "string \<Rightarrow> 's \<Rightarrow> 's option"

definition need_object :: "'s obj_ops \<Rightarrow> string \<Rightarrow> ('s, 'm) ctl_scheme \<Rightarrow> ('s, 'm) ctl_scheme option" where
  "need_object Q node s =
     (if oo_query Q (ct_store s) node then Some s
      else map_option (\<lambda>t. s\<lparr>ct_store := t\<rparr>) (oo_create Q node (ct_store s)))"

text \<open>The address of a host is entered in its group: the first slot that does not hold it already is overwritten.\<close>

fun mac_slots :: "'s store_ops \<Rightarrow> 's obj_ops \<Rightarrow> string \<Rightarrow> string \<Rightarrow> nat list \<Rightarrow> ('s, 'm) ctl_scheme \<Rightarrow> ('s, 'm) ctl_scheme" where
  "mac_slots R Q node mac [] s = s"
| "mac_slots R Q node mac (k # ks) s =
     (case need_object Q node s of
        None \<Rightarrow> s
      | Some s1 \<Rightarrow>
          (case fetch R s1 node (''MAC'' @ nat_str k) 32 [] of (r, v) \<Rightarrow>
             if 0 < r \<and> strcmp mac v = 0 then mac_slots R Q node mac ks s1
             else put_attr R node (''MAC'' @ nat_str k) mac s1))"

definition mac_boot_step :: "'s store_ops \<Rightarrow> 's obj_ops \<Rightarrow> nat \<Rightarrow> nat \<times> ('s, 'm) ctl_scheme \<Rightarrow> nat \<times> ('s, 'm) ctl_scheme" where
  "mac_boot_step R Q k = (\<lambda>(cnt, s).
     let node = numbered PARENTAL_MAC_ENTRY_NODE (k + 1)
     in case fetch R s node ''Mac'' (MAX_PARENTAL_MAC_LEN + 1) [] of (r, mac) \<Rightarrow>
          if r \<le> 0 then (cnt, s)
          else case fetch R s node ''ParentalID'' 8 [] of (r2, v) \<Rightarrow>
                 (cnt + 1,
                  if 0 < r2
                  then mac_slots R Q (PARENTAL_ENTRY_NODE @ ''.'' @ int_str (atoi v + 1)) mac [0..<MAX_MAC_PER_ENTRY] s
                  else s))"

definition svc_other_handle_event_parental_mac_boot :: "'s store_ops \<Rightarrow> 's obj_ops \<Rightarrow> ('s, 'm) ctl_scheme \<Rightarrow> ('s, 'm) ctl_scheme" where
  "svc_other_handle_event_parental_mac_boot R Q s =
     (let (cnt, s1) = fold (mac_boot_step R Q) [0..<MAX_PARENTAL_MAC_NUM] (0, s)
      in put_attr R PARENTAL_MAC_COMMON_NODE ''Num'' (nat_str cnt) s1)"

text \<open>A new host takes the first entry without an address.\<close>

fun add_host :: "'s store_ops \<Rightarrow> string \<Rightarrow> string \<Rightarrow> string \<Rightarrow> nat list \<Rightarrow> ('s, 'm) ctl_scheme \<Rightarrow> ('s, 'm) ctl_scheme" where
  "add_host R mac desc pid [] s = s"
| "add_host R mac desc pid (k # ks) s =
     (let node = numbered PARENTAL_MAC_ENTRY_NODE (k + 1)
      in if fst (fetch R s node ''Mac'' 64 []) \<le> 0
         then put_attr R node ''ParentalID'' pid (put_attr R node ''Description'' desc (put_attr R node ''Mac'' mac s))
         else add_host R mac desc pid ks s)"

text \<open>The buffer \<open>attrValue\<close> is not cleared: what cannot be read has the value read before.\<close>

definition mac_action :: "'s store_ops \<Rightarrow> ('s, 'm) ctl_scheme \<Rightarrow> ('s, 'm) ctl_scheme" where
  "mac_action R s =
     (case fetch R s PARENTAL_MAC_ENTRY_NODE ''Action'' 64 [] of (r, v) \<Rightarrow>
        if r \<le> 0 then s
        else let s1 =
               (if strcmp v ''Add'' = 0
                then let mac = snd (fetch R s PARENTAL_MAC_ENTRY_NODE ''Mac'' 64 v);
                         desc = snd (fetch R s PARENTAL_MAC_ENTRY_NODE ''Description'' 64 mac);
                         pid = snd (fetch R s PARENTAL_MAC_ENTRY_NODE ''ParentalID'' 64 desc)
                     in add_host R mac desc pid [0..<MAX_PARENTAL_MAC_NUM] s
                else if strcmp v ''Del'' = 0
                then fold (\<lambda>tok s. s\<lparr>ct_store := so_delete R (PARENTAL_MAC_ENTRY_NODE @ ''.'' @ int_str (atoi tok + 1)) (ct_store s)\<rparr>)
                       (strtok_all CHR '','' (snd (fetch R s PARENTAL_MAC_ENTRY_NODE ''DeleteIndex'' 64 v))) s
                else s)
             in put_attr R PARENTAL_MAC_ENTRY_NODE ''Action'' ''No'' s1)"

definition svc_other_handle_event_parental_mac_update :: "par_env \<Rightarrow> 's store_ops \<Rightarrow> 's obj_ops \<Rightarrow> 's parental \<Rightarrow> 's parental cres" where
  "svc_other_handle_event_parental_mac_update E R Q s =
     restartParental E R (svc_other_handle_event_parental_mac_boot R Q (mac_action R s))"

section \<open>The handlers of the type (\<open>cfg_type_parental.c\<close>)\<close>

text \<open>The entry of the host with address \<open>mac\<close>, if it has one.\<close>

fun del_host :: "'s store_ops \<Rightarrow> string \<Rightarrow> nat list \<Rightarrow> ('s, 'm) ctl_scheme \<Rightarrow> ('s, 'm) ctl_scheme" where
  "del_host R mac [] s = s"
| "del_host R mac (k # ks) s =
     (let node = numbered PARENTAL_MAC_ENTRY_NODE (k + 1)
      in case fetch R s node ''Mac'' 32 [] of (r, v) \<Rightarrow>
           if 0 < r \<and> strcmp mac v = 0 then s\<lparr>ct_store := so_delete R node (ct_store s)\<rparr>
           else del_host R mac ks s)"

text \<open>One index of the list. The buffer of the address is cleared once, before the first.\<close>

fun parental_del_loop ::
  "'s store_ops \<Rightarrow> string \<Rightarrow> string \<Rightarrow> string list \<Rightarrow> string \<Rightarrow> ('s, 'm) ctl_scheme \<Rightarrow> int \<times> ('s, 'm) ctl_scheme" where
  "parental_del_loop R path attr [] macVal s = (0, s)"
| "parental_del_loop R path attr (p # ps) macVal s =
     (let idx = atoi p; n = int_str idx
      in if idx < 0 then (-1, s)
         else if strcmp attr ''delMAC'' = 0
         then let mac = snd (fetch R s path (take 31 (''MAC'' @ n)) 32 macVal)
              in parental_del_loop R path attr ps mac
                   (put_attr R path (take 31 (''MAC'' @ n)) [] (del_host R mac [0..<MAX_PARENTAL_MAC_NUM] s))
         else if strcmp attr ''delURL'' = 0
         then parental_del_loop R path attr ps macVal (put_attr R path (''URL'' @ n) [] s)
         else if strcmp attr ''delTime'' = 0
         then parental_del_loop R path attr ps macVal
                (put_attr R path (''RepeatDay'' @ n) [] (put_attr R path (''EndTime'' @ n) []
                   (put_attr R path (''StartTime'' @ n) [] s)))
         else (-1, s))"

definition parental_del :: "'s store_ops \<Rightarrow> string \<Rightarrow> string \<Rightarrow> string \<Rightarrow> ('s, 'm) ctl_scheme \<Rightarrow> int \<times> ('s, 'm) ctl_scheme" where
  "parental_del R path attr val s = parental_del_loop R path attr (strtok_all CHR '','' val) [] s"

text \<open>The days 1 to 7 as the bits of a week that begins on Sunday, which is day 7; \<open>None\<close> when a character is
  not a day.\<close>

fun repeat_flag :: "string \<Rightarrow> nat \<Rightarrow> int \<Rightarrow> int option" where
  "repeat_flag [] n flag = Some flag"
| "repeat_flag (c # cs) n flag =
     (if n \<ge> 7 then Some flag
      else let d = atoi [c]
           in if d \<le> 0 \<or> d > 7 then None
              else repeat_flag cs (n + 1) (flag OR (if d = 7 then 1 else push_bit (nat d) 1)))"

fun set_host ::
  "'s store_ops \<Rightarrow> 's obj_ops \<Rightarrow> string \<Rightarrow> string \<Rightarrow> nat list \<Rightarrow> ('s, 'm) ctl_scheme \<Rightarrow> (int \<times> ('s, 'm) ctl_scheme) option" where
  "set_host R Q path val [] s = None"
| "set_host R Q path val (k # ks) s =
     (let node = numbered PARENTAL_MAC_ENTRY_NODE (k + 1)
      in if fst (fetch R s node ''Mac'' 32 []) \<le> 0
         then (case need_object Q node s of
                 None \<Rightarrow> Some (-1, s)
               | Some s1 \<Rightarrow>
                   let tmp = snd (fetch R s1 WEBCURSET_ENTRY_NODE ''parental_id'' 32 []);
                       s2 = put_attr R node ''Mac'' val s1;
                       s3 = (if atoi tmp = 0
                             then put_attr R path ''DurationPolicy'' ''White'' (put_attr R path ''DurationActive'' ''Yes'' s2)
                             else s2)
                   in Some (0, put_attr R node ''ParentalID'' (take 3 (int_str (atoi tmp))) s3))
         else set_host R Q path val ks s)"

text \<open>The result is \<open>-1\<close> for the errors of the function itself; where it returns what the store returns, 0 stands
  for it. When all entries are taken the function goes on to its end and writes the attribute \<open>MAC\<close> itself.\<close>

definition cfg_type_parental_func_set ::
  "'s store_ops \<Rightarrow> 's obj_ops \<Rightarrow> string \<Rightarrow> string \<Rightarrow> string \<Rightarrow> ('s, 'm) ctl_scheme \<Rightarrow> int \<times> ('s, 'm) ctl_scheme" where
  "cfg_type_parental_func_set R Q path attr val s =
     (let addIdx = snd (fetch R s PARENTAL_COMMON_NODE ''AddIndx'' 16 [])
      in if strcmp attr ''MAC'' = 0
         then if atoi addIdx > int MAX_MAC_PER_ENTRY then (-1, s)
              else let s1 = put_attr R path (''MAC'' @ addIdx) val s
                   in case set_host R Q path val [0..<MAX_PARENTAL_MAC_NUM] s1 of
                        Some r \<Rightarrow> r
                      | None \<Rightarrow> (0, put_attr R path attr val s1)
         else if strcmp attr ''URL'' = 0 then (0, put_attr R path (''URL'' @ addIdx) val s)
         else if strcmp attr ''StartTime'' = 0 then (0, put_attr R path (''StartTime'' @ addIdx) val s)
         else if strcmp attr ''EndTime'' = 0 then (0, put_attr R path (''EndTime'' @ addIdx) val s)
         else if strcmp attr ''RepeatDay'' = 0
         then (case repeat_flag val 0 0 of
                 None \<Rightarrow> (-1, s)
               | Some flag \<Rightarrow> (0, put_attr R path (''RepeatDay'' @ addIdx) (int_str flag) s))
         else if strcmp attr ''DelFlag'' = 0
         then parental_del R path val (snd (fetch R s PARENTAL_COMMON_NODE ''DelIdx'' 128 [])) s
         else (0, put_attr R path attr val s))"

definition cfg_type_parental_func_commit :: "string \<Rightarrow> ('s, 'm) ctl_scheme \<Rightarrow> int \<times> ('s, 'm) ctl_scheme" where
  "cfg_type_parental_func_commit path s = (0, act (SendEvent ''EVT_CFG_OTHER_PARENTAL_UPDATE'') s)"

definition svc_cfg_boot_parental :: "('s, 'm) ctl_scheme \<Rightarrow> int \<times> ('s, 'm) ctl_scheme" where
  "svc_cfg_boot_parental s = (0, act (SendEvent ''EVT_CFG_OTHER_PARENTAL_BOOT'') s)"

definition cfg_type_parental_mac_func_commit :: "string \<Rightarrow> ('s, 'm) ctl_scheme \<Rightarrow> int \<times> ('s, 'm) ctl_scheme" where
  "cfg_type_parental_mac_func_commit path s = (0, act (SendEvent ''EVT_CFG_OTHER_PARENTAL_MAC_UPDATE'') s)"

definition svc_cfg_boot_parental_mac :: "('s, 'm) ctl_scheme \<Rightarrow> int \<times> ('s, 'm) ctl_scheme" where
  "svc_cfg_boot_parental_mac s = (0, act (SendEvent ''EVT_CFG_OTHER_PARENTAL_MAC_BOOT'') s)"

end
