(* ===== verification/Netfilter.thy ===== *)
theory Netfilter
  imports Parental
begin

text \<open>
  What the commands of parental control mean: the chains of the packet filter, the documented effect of
  the options of \<open>iptables\<close> that are used, the text of a command, and the verdict on a packet. The chains
  of parental control are constructors of their own; \<open>Base\<close> are all others, under other names.
\<close>

section \<open>Chains, rules and commands\<close>

datatype fw_chain = Base string | In | Fwd | InN nat | FwdN nat

datatype pkt_match = SrcMac string | UdpPort nat | TcpPort nat | Layer7 string | Other string

datatype target = Drop | Accept | Jump fw_chain

datatype fw_rule = Rule (rule_matches: "pkt_match list") (rule_target: target)

datatype fw_cmd =
    NewChain fw_chain
  | Flush fw_chain
  | Zero fw_chain
  | DeleteChain fw_chain
  | Append fw_chain fw_rule
  | Insert fw_chain fw_rule
  | Delete fw_chain fw_rule

type_synonym fw = "fw_chain \<rightharpoonup> fw_rule list"

fun chain_text :: "fw_chain \<Rightarrow> string" where
  "chain_text (Base c) = c"
| "chain_text In = CHAIN_IN"
| "chain_text Fwd = CHAIN_FWD"
| "chain_text (InN i) = CHAIN_IN @ nat_str i"
| "chain_text (FwdN i) = CHAIN_FWD @ nat_str i"

fun match_text :: "pkt_match \<Rightarrow> string" where
  "match_text (SrcMac m) = ''-m mac --mac-source '' @ m"
| "match_text (UdpPort n) = ''-p udp --dport '' @ nat_str n"
| "match_text (TcpPort n) = ''-p tcp --dport '' @ nat_str n"
| "match_text (Layer7 p) = ''-m layer7 --l7proto '' @ p"
| "match_text (Other t) = t"

fun target_text :: "target \<Rightarrow> string" where
  "target_text Drop = ''DROP''"
| "target_text Accept = ''ACCEPT''"
| "target_text (Jump c) = chain_text c"

fun rule_text :: "fw_rule \<Rightarrow> string" where
  "rule_text (Rule ms t) = concat (map (\<lambda>m. '' '' @ match_text m) ms) @ '' -j '' @ target_text t"

fun cmd_text :: "fw_cmd \<Rightarrow> string" where
  "cmd_text (NewChain c) = ''iptables -t filter -N '' @ chain_text c"
| "cmd_text (Flush c) = ''iptables -t filter -F '' @ chain_text c"
| "cmd_text (Zero c) = ''iptables -t filter -Z '' @ chain_text c"
| "cmd_text (DeleteChain c) = ''iptables -t filter -X '' @ chain_text c"
| "cmd_text (Append c r) = ''iptables -t filter -A '' @ chain_text c @ rule_text r"
| "cmd_text (Insert c r) = ''iptables -t filter -I '' @ chain_text c @ rule_text r"
| "cmd_text (Delete c r) = ''iptables -t filter -D '' @ chain_text c @ rule_text r"

section \<open>The effect of a command\<close>

text \<open>A command that does not apply (the chain exists already, is missing, is not empty or is in use)
  fails and changes nothing.\<close>

definition referenced :: "fw \<Rightarrow> fw_chain \<Rightarrow> bool" where
  "referenced F c \<longleftrightarrow> (\<exists>c' rs r. F c' = Some rs \<and> r \<in> set rs \<and> rule_target r = Jump c)"

definition target_known :: "fw \<Rightarrow> fw_rule \<Rightarrow> bool" where
  "target_known F r \<longleftrightarrow> (case rule_target r of Jump c \<Rightarrow> F c \<noteq> None | _ \<Rightarrow> True)"

fun fw_step :: "fw_cmd \<Rightarrow> fw \<Rightarrow> fw" where
  "fw_step (NewChain c) F = (if F c = None then F(c \<mapsto> []) else F)"
| "fw_step (Flush c) F = (if F c = None then F else F(c \<mapsto> []))"
| "fw_step (Zero c) F = F"
| "fw_step (DeleteChain c) F = (if F c = Some [] \<and> \<not> referenced F c then F(c := None) else F)"
| "fw_step (Append c r) F = (case F c of None \<Rightarrow> F | Some rs \<Rightarrow> if target_known F r then F(c \<mapsto> rs @ [r]) else F)"
| "fw_step (Insert c r) F = (case F c of None \<Rightarrow> F | Some rs \<Rightarrow> if target_known F r then F(c \<mapsto> r # rs) else F)"
| "fw_step (Delete c r) F = (case F c of None \<Rightarrow> F | Some rs \<Rightarrow> F(c \<mapsto> remove1 r rs))"

abbreviation fw_run :: "fw_cmd list \<Rightarrow> fw \<Rightarrow> fw" where
  "fw_run \<equiv> fold fw_step"

section \<open>Verdicts\<close>

text \<open>\<open>pk_mac p m\<close>: the text \<open>m\<close> is the source address of the packet; \<open>pk_l7 p n\<close>: its connection matches the pattern
  file named \<open>n\<close>; \<open>pk_other p t\<close>: it meets a condition \<open>t\<close> that only the rules of others use.\<close>

record packet =
  pk_mac :: "string \<Rightarrow> bool"
  pk_udp :: "nat option"
  pk_tcp :: "nat option"
  pk_l7 :: "string \<Rightarrow> bool"
  pk_other :: "string \<Rightarrow> bool"

fun match_packet :: "packet \<Rightarrow> pkt_match \<Rightarrow> bool" where
  "match_packet p (SrcMac m) = pk_mac p m"
| "match_packet p (UdpPort n) = (pk_udp p = Some n)"
| "match_packet p (TcpPort n) = (pk_tcp p = Some n)"
| "match_packet p (Layer7 n) = pk_l7 p n"
| "match_packet p (Other t) = pk_other p t"

datatype decision = DROPPED | ACCEPTED

text \<open>The first rule that matches decides, a jump by the rules of the chain it leads to; \<open>n\<close> bounds the depth of
  jumps, which the kernel bounds too.\<close>

function verdict :: "nat \<Rightarrow> fw \<Rightarrow> packet \<Rightarrow> fw_rule list \<Rightarrow> decision option" where
  "verdict n F p [] = None"
| "verdict n F p (Rule ms t # rs) =
     (if list_all (match_packet p) ms
      then case t of
             Drop \<Rightarrow> Some DROPPED
           | Accept \<Rightarrow> Some ACCEPTED
           | Jump c \<Rightarrow>
               (case n of
                  0 \<Rightarrow> verdict n F p rs
                | Suc k \<Rightarrow> (case verdict k F p (case F c of None \<Rightarrow> [] | Some rs' \<Rightarrow> rs') of
                             Some d \<Rightarrow> Some d
                           | None \<Rightarrow> verdict n F p rs))
      else verdict n F p rs)"
  by pat_completeness auto

termination
  by (relation "measures [\<lambda>(n, F, p, rs). n, \<lambda>(n, F, p, rs). length rs]") auto

lemma verdict_append:
  "verdict n F p (rs @ rs') = (case verdict n F p rs of Some d \<Rightarrow> Some d | None \<Rightarrow> verdict n F p rs')"
proof (induction rs)
  case (Cons r rs)
  then show ?case by (cases r) (auto split: target.splits nat.splits option.splits)
qed simp

lemma verdict_concat:
  "verdict n F p (concat rss) = foldr (\<lambda>rs d. case verdict n F p rs of Some x \<Rightarrow> Some x | None \<Rightarrow> d) rss None"
  by (induction rss) (auto simp: verdict_append split: option.splits)

end
