(* ===== verification/ParentalFw.thy ===== *)
theory ParentalFw
  imports Netfilter
begin

text \<open>
  The packet filter around parental control: a base that belongs to others, and the chains of the
  groups put in front of it. Clearing and building again lead from any such filter to exactly the new one.
\<close>

section \<open>A filter with parental control\<close>

text \<open>The rules of a group in the order they are added, with \<open>True\<close> for those of incoming packets.\<close>

type_synonym group_rules = "(bool \<times> fw_rule) list"
type_synonym groups = "nat \<rightharpoonup> group_rules"

definition in_rules :: "group_rules \<Rightarrow> fw_rule list" where
  "in_rules g = map snd (filter fst g)"

definition fwd_rules :: "group_rules \<Rightarrow> fw_rule list" where
  "fwd_rules g = map snd (filter (\<lambda>x. \<not> fst x) g)"

definition jump :: "fw_chain \<Rightarrow> fw_rule" where
  "jump c = Rule [] (Jump c)"

definition sub_jumps :: "(nat \<Rightarrow> fw_chain) \<Rightarrow> groups \<Rightarrow> nat list \<Rightarrow> fw_rule list" where
  "sub_jumps f gs is = map (\<lambda>i. jump (f i)) (filter (\<lambda>i. gs i \<noteq> None) is)"

definition with_groups :: "fw \<Rightarrow> groups \<Rightarrow> fw" where
  "with_groups B gs = (\<lambda>c. case c of
       Base h \<Rightarrow> if h = ''INPUT'' then map_option ((#) (jump In)) (B c)
                 else if h = ''FORWARD'' then map_option ((#) (jump Fwd)) (B c) else B c
     | In \<Rightarrow> Some (sub_jumps InN gs [0..<MAX_PARENTAL_NUM])
     | Fwd \<Rightarrow> Some (sub_jumps FwdN gs [0..<MAX_PARENTAL_NUM])
     | InN i \<Rightarrow> if i < MAX_PARENTAL_NUM then map_option in_rules (gs i) else None
     | FwdN i \<Rightarrow> if i < MAX_PARENTAL_NUM then map_option fwd_rules (gs i) else None)"

definition install :: "fw \<Rightarrow> groups option \<Rightarrow> fw" where
  "install B pol = (case pol of None \<Rightarrow> B | Some gs \<Rightarrow> with_groups B gs)"

text \<open>No rule jumps to a chain of parental control or to one of the two it hooks into.\<close>

definition flat_rules :: "fw_rule list \<Rightarrow> bool" where
  "flat_rules rs \<longleftrightarrow> (\<forall>r \<in> set rs. case rule_target r of Jump c \<Rightarrow> (\<exists>h. c = Base h \<and> h \<noteq> ''INPUT'' \<and> h \<noteq> ''FORWARD'') | _ \<Rightarrow> True)"

definition flat :: "fw \<Rightarrow> bool" where
  "flat F \<longleftrightarrow> (\<forall>c rs. F c = Some rs \<longrightarrow> flat_rules rs)"

definition base_ok :: "fw \<Rightarrow> bool" where
  "base_ok B \<longleftrightarrow> flat B \<and> B (Base ''INPUT'') \<noteq> None \<and> B (Base ''FORWARD'') \<noteq> None \<and>
     (\<forall>c. (\<exists>h. c = Base h) \<or> B c = None)"

definition groups_ok :: "groups \<Rightarrow> bool" where
  "groups_ok gs \<longleftrightarrow> (\<forall>i g. gs i = Some g \<longrightarrow> flat_rules (map snd g))"

lemma base_none:
  assumes "base_ok B"
  shows "B In = None" "B Fwd = None" "B (InN i) = None" "B (FwdN i) = None"
  using assms unfolding base_ok_def by blast+

lemma flat_unreferenced: "flat F \<Longrightarrow> \<nexists>h. c = Base h \<Longrightarrow> \<not> referenced F c"
  unfolding referenced_def flat_def flat_rules_def by (fastforce split: target.splits)

lemma flat_upd: "flat F \<Longrightarrow> (\<And>rs. v = Some rs \<Longrightarrow> flat_rules rs) \<Longrightarrow> flat (F(c := v))"
  by (auto simp: flat_def)

lemma flat_rules_Nil [simp]: "flat_rules []"
  by (simp add: flat_rules_def)

lemma jump_notin_flat: "flat_rules rs \<Longrightarrow> \<nexists>h. c = Base h \<Longrightarrow> jump c \<notin> set rs"
  by (force simp: flat_rules_def jump_def)

section \<open>Clearing\<close>

definition clear_hook_cmds :: "fw_chain \<Rightarrow> string \<Rightarrow> fw_cmd list" where
  "clear_hook_cmds c h = [Flush c, Zero c, Delete (Base h) (jump c), DeleteChain c]"

definition clear_sub_cmds :: "fw_chain \<Rightarrow> fw_cmd list" where
  "clear_sub_cmds c = [Flush c, Zero c, DeleteChain c]"

definition clear_cmds :: "fw_cmd list" where
  "clear_cmds = clear_hook_cmds In ''INPUT'' @ clear_hook_cmds Fwd ''FORWARD'' @
     concat (map (\<lambda>i. clear_sub_cmds (InN i) @ clear_sub_cmds (FwdN i)) [0..<MAX_PARENTAL_NUM])"

lemma clear_sub_flat:
  assumes "flat F" "\<nexists>h. c = Base h"
  shows "fw_run (clear_sub_cmds c) F = F(c := None)" "flat (F(c := None))"
proof -
  have "flat (F(c \<mapsto> []))" by (rule flat_upd [OF assms(1)]) simp
  then show "fw_run (clear_sub_cmds c) F = F(c := None)"
    using flat_unreferenced [OF _ assms(2)] by (auto simp: clear_sub_cmds_def)
  show "flat (F(c := None))" by (rule flat_upd [OF assms(1)]) simp
qed

lemma clear_subs_flat:
  "flat F \<Longrightarrow> fw_run (concat (map (\<lambda>i. clear_sub_cmds (InN i) @ clear_sub_cmds (FwdN i)) is)) F =
     (\<lambda>c. case c of InN i \<Rightarrow> if i \<in> set is then None else F c | FwdN i \<Rightarrow> if i \<in> set is then None else F c | _ \<Rightarrow> F c)"
proof (induction "is" arbitrary: F)
  case (Cons i "is")
  note a = clear_sub_flat [OF Cons.prems, of "InN i"]
  note b = clear_sub_flat [OF a(2), of "FwdN i"]
  have "fw_run (concat (map (\<lambda>i. clear_sub_cmds (InN i) @ clear_sub_cmds (FwdN i)) (i # is))) F =
      fw_run (concat (map (\<lambda>i. clear_sub_cmds (InN i) @ clear_sub_cmds (FwdN i)) is)) (F(InN i := None, FwdN i := None))"
    using a b by simp
  then show ?case using Cons.IH [OF b(2)] by (auto simp: fun_eq_iff split: fw_chain.splits)
qed (auto split: fw_chain.splits)

text \<open>Nothing but the hook leads to a chain.\<close>

definition only_hook :: "fw \<Rightarrow> fw_chain \<Rightarrow> string \<Rightarrow> fw_rule list \<Rightarrow> bool" where
  "only_hook F c h rs \<longleftrightarrow> F c \<noteq> None \<and> F (Base h) = Some (jump c # rs) \<and>
     (\<forall>r \<in> set rs. rule_target r \<noteq> Jump c) \<and>
     (\<forall>c' rs' r. F c' = Some rs' \<longrightarrow> c' \<noteq> c \<longrightarrow> c' \<noteq> Base h \<longrightarrow> r \<in> set rs' \<longrightarrow> rule_target r \<noteq> Jump c)"

lemma clear_hook:
  assumes "only_hook F c h rs" "\<nexists>h. c = Base h"
  shows "fw_run (clear_hook_cmds c h) F = F(c := None, Base h \<mapsto> rs)"
proof -
  let ?F = "F(c \<mapsto> [], Base h \<mapsto> rs)"
  have ne: "c \<noteq> Base h" using assms(2) by blast
  have "\<not> referenced ?F c" using assms(1) ne unfolding referenced_def only_hook_def by (auto split: if_splits)
  moreover have r: "fw_run [Flush c, Zero c, Delete (Base h) (jump c)] F = ?F"
    using assms(1) ne by (auto simp: only_hook_def)
  moreover have "clear_hook_cmds c h = [Flush c, Zero c, Delete (Base h) (jump c)] @ [DeleteChain c]"
    by (simp add: clear_hook_cmds_def)
  ultimately have "fw_run (clear_hook_cmds c h) F = ?F(c := None)"
    using ne by (simp only: fold_append o_apply r) simp
  then show ?thesis using ne by (simp add: fun_upd_twist)
qed

lemma flat_target: "flat_rules rs \<Longrightarrow> r \<in> set rs \<Longrightarrow> rule_target r = Jump c \<Longrightarrow> \<exists>h. c = Base h"
  by (force simp: flat_rules_def)

lemma sub_jumps_target: "r \<in> set (sub_jumps f gs is) \<Longrightarrow> rule_target r = Jump c \<Longrightarrow> \<exists>i. c = f i"
  by (auto simp: sub_jumps_def jump_def)

lemma with_groups_target:
  assumes "base_ok B" "groups_ok gs" "with_groups B gs c' = Some rs" "r \<in> set rs" "rule_target r = Jump c" "\<nexists>h. c = Base h"
  shows "c' = Base ''INPUT'' \<and> c = In \<and> r = jump In \<or> c' = Base ''FORWARD'' \<and> c = Fwd \<and> r = jump Fwd \<or>
    c' = In \<and> (\<exists>i. c = InN i) \<or> c' = Fwd \<and> (\<exists>i. c = FwdN i)"
proof (cases c')
  case (Base h)
  have "r \<notin> set rs'" if "B c' = Some rs'" for rs'
    using assms(1,5,6) that flat_target [of rs' r c] by (auto simp: base_ok_def flat_def)
  then show ?thesis using assms(3-6) Base by (auto simp: with_groups_def jump_def split: if_splits)
next
  case (InN i)
  then obtain g where "gs i = Some g" "rs = in_rules g" using assms(3) by (auto simp: with_groups_def split: if_splits)
  then have "flat_rules rs" using assms(2) by (force simp: groups_ok_def flat_rules_def in_rules_def fwd_rules_def)
  then show ?thesis using flat_target assms(4-6) by blast
next
  case (FwdN i)
  then obtain g where "gs i = Some g" "rs = fwd_rules g" using assms(3) by (auto simp: with_groups_def split: if_splits)
  then have "flat_rules rs" using assms(2) by (force simp: groups_ok_def flat_rules_def in_rules_def fwd_rules_def)
  then show ?thesis using flat_target assms(4-6) by blast
qed (use assms(3-5) sub_jumps_target in \<open>auto simp: with_groups_def\<close>)

lemma with_groups_flat:
  assumes "base_ok B" "groups_ok gs" "with_groups B gs c = Some rs" "c \<notin> {In, Fwd, Base ''INPUT'', Base ''FORWARD''}"
  shows "flat_rules rs"
  using assms
  by (cases c) (force simp: with_groups_def base_ok_def flat_def groups_ok_def flat_rules_def in_rules_def fwd_rules_def split: if_splits)+

lemma clear_with_groups:
  assumes "base_ok B" "groups_ok gs"
  shows "fw_run clear_cmds (with_groups B gs) = B"
proof -
  obtain rin rfw where b: "B (Base ''INPUT'') = Some rin" "B (Base ''FORWARD'') = Some rfw"
    using assms(1) by (auto simp: base_ok_def)
  have fl: "flat_rules rin" "flat_rules rfw" using assms(1) b by (auto simp: base_ok_def flat_def)
  let ?F = "with_groups B gs" let ?F1 = "?F(In := None, Base ''INPUT'' \<mapsto> rin)"
  let ?F2 = "?F1(Fwd := None, Base ''FORWARD'' \<mapsto> rfw)"
  have nj: "rule_target r \<noteq> Jump c" if "r \<in> set rin \<union> set rfw" "\<nexists>h. c = Base h" for r c
    using that fl flat_target by blast
  note t = with_groups_target [OF assms]
  have "only_hook ?F In ''INPUT'' rin"
    unfolding only_hook_def using b nj t by (fastforce simp: with_groups_def)
  then have 1: "fw_run (clear_hook_cmds In ''INPUT'') ?F = ?F1" by (rule clear_hook) simp
  have "only_hook ?F1 Fwd ''FORWARD'' rfw"
    unfolding only_hook_def using b nj t by (fastforce simp: with_groups_def split: if_splits)
  then have 2: "fw_run (clear_hook_cmds Fwd ''FORWARD'') ?F1 = ?F2" by (rule clear_hook) simp
  have "flat ?F2"
    unfolding flat_def
  proof (intro allI impI)
    fix c rs
    assume a: "?F2 c = Some rs"
    show "flat_rules rs"
    proof (cases "c = Base ''INPUT'' \<or> c = Base ''FORWARD''")
      case False
      then show ?thesis using a with_groups_flat [OF assms, of c rs] by (auto split: if_splits)
    qed (use a fl in auto)
  qed
  note 3 = clear_subs_flat [OF this, of "[0..<MAX_PARENTAL_NUM]"]
  show ?thesis
    unfolding clear_cmds_def fold_append o_apply 1 2 3
    using b base_none [OF assms(1)] by (auto simp: fun_eq_iff with_groups_def split: fw_chain.splits)
qed

lemma clear_base:
  assumes "base_ok B"
  shows "fw_run clear_cmds B = B"
proof -
  obtain rin rfw where b: "B (Base ''INPUT'') = Some rin" "B (Base ''FORWARD'') = Some rfw"
    using assms by (auto simp: base_ok_def)
  have fl: "flat B" using assms by (simp add: base_ok_def)
  then have "jump In \<notin> set rin" "jump Fwd \<notin> set rfw" using b jump_notin_flat by (auto simp: flat_def)
  then have 1: "fw_run (clear_hook_cmds In ''INPUT'') B = B" "fw_run (clear_hook_cmds Fwd ''FORWARD'') B = B"
    using b base_none [OF assms] by (auto simp: clear_hook_cmds_def remove1_idem fun_upd_idem)
  show ?thesis
    unfolding clear_cmds_def fold_append o_apply 1 clear_subs_flat [OF fl]
    using base_none [OF assms] by (auto simp: fun_eq_iff split: fw_chain.splits)
qed

lemma clear_install: "base_ok B \<Longrightarrow> (\<And>gs. pol = Some gs \<Longrightarrow> groups_ok gs) \<Longrightarrow> fw_run clear_cmds (install B pol) = B"
  by (cases pol) (simp_all add: install_def clear_base clear_with_groups)

section \<open>Building\<close>

definition sub_cmds :: "nat \<Rightarrow> fw_cmd list" where
  "sub_cmds i = [NewChain (InN i), Append In (jump (InN i)), NewChain (FwdN i), Append Fwd (jump (FwdN i))]"

definition init_cmds :: "groups \<Rightarrow> fw_cmd list" where
  "init_cmds gs = [NewChain In, Insert (Base ''INPUT'') (jump In), NewChain Fwd, Insert (Base ''FORWARD'') (jump Fwd)] @
     concat (map (\<lambda>i. if gs i \<noteq> None then sub_cmds i else []) [0..<MAX_PARENTAL_NUM])"

definition group_cmds :: "nat \<Rightarrow> group_rules \<Rightarrow> fw_cmd list" where
  "group_cmds i g = map (\<lambda>(b, r). Append (if b then InN i else FwdN i) r) g"

definition rule_cmds :: "groups \<Rightarrow> fw_cmd list" where
  "rule_cmds gs = concat (map (\<lambda>i. case gs i of None \<Rightarrow> [] | Some g \<Rightarrow> group_cmds i g) [0..<MAX_PARENTAL_NUM])"

text \<open>The chains of the groups in \<open>A\<close> with the rules of those in \<open>D\<close>.\<close>

definition partly :: "fw \<Rightarrow> groups \<Rightarrow> nat list \<Rightarrow> nat set \<Rightarrow> fw" where
  "partly B gs A D = (\<lambda>c. case c of
       In \<Rightarrow> Some (sub_jumps InN gs A)
     | Fwd \<Rightarrow> Some (sub_jumps FwdN gs A)
     | InN i \<Rightarrow> if i \<in> set A then map_option (\<lambda>g. if i \<in> D then in_rules g else []) (gs i) else None
     | FwdN i \<Rightarrow> if i \<in> set A then map_option (\<lambda>g. if i \<in> D then fwd_rules g else []) (gs i) else None
     | Base h \<Rightarrow> with_groups B gs c)"

lemma build_subs:
  "distinct (A @ is) \<Longrightarrow>
   fw_run (concat (map (\<lambda>i. if gs i \<noteq> None then sub_cmds i else []) is)) (partly B gs A {}) = partly B gs (A @ is) {}"
proof (induction "is" arbitrary: A)
  case (Cons i "is")
  have "fw_run (if gs i \<noteq> None then sub_cmds i else []) (partly B gs A {}) = partly B gs (A @ [i]) {}"
  proof (cases "gs i")
    case (Some g)
    then show ?thesis using Cons.prems
      by (auto simp: sub_cmds_def partly_def target_known_def jump_def sub_jumps_def fun_eq_iff split: fw_chain.splits)
  qed (use Cons.prems in \<open>auto simp: partly_def sub_jumps_def fun_eq_iff split: fw_chain.splits\<close>)
  moreover have "distinct ((A @ [i]) @ is)" using Cons.prems by simp
  ultimately show ?case using Cons.IH [of "A @ [i]"] by simp
qed simp

lemma run_group:
  assumes "F (InN i) = Some a" "F (FwdN i) = Some b" "\<forall>(x, r) \<in> set g. \<exists>t. r = Rule t Drop \<or> r = Rule t Accept"
  shows "fw_run (group_cmds i g) F = F(InN i \<mapsto> a @ in_rules g, FwdN i \<mapsto> b @ fwd_rules g)"
  using assms
proof (induction g arbitrary: F a b)
  case Nil
  then show ?case by (auto simp: group_cmds_def in_rules_def fwd_rules_def fun_eq_iff)
next
  case (Cons xr g)
  obtain x r where xr: "xr = (x, r)" by (cases xr)
  have k: "target_known F r" using Cons.prems(3) xr by (auto simp: target_known_def)
  show ?case
  proof (cases x)
    case True
    let ?F = "F(InN i \<mapsto> a @ [r])"
    have "fw_run (group_cmds i (xr # g)) F = fw_run (group_cmds i g) ?F"
      using xr True k Cons.prems(1) by (simp add: group_cmds_def)
    also have "\<dots> = ?F(InN i \<mapsto> (a @ [r]) @ in_rules g, FwdN i \<mapsto> b @ fwd_rules g)"
      using Cons.prems by (intro Cons.IH) auto
    finally show ?thesis using xr True by (auto simp: in_rules_def fwd_rules_def fun_eq_iff)
  next
    case False
    let ?F = "F(FwdN i \<mapsto> b @ [r])"
    have "fw_run (group_cmds i (xr # g)) F = fw_run (group_cmds i g) ?F"
      using xr False k Cons.prems(2) by (simp add: group_cmds_def)
    also have "\<dots> = ?F(InN i \<mapsto> a @ in_rules g, FwdN i \<mapsto> (b @ [r]) @ fwd_rules g)"
      using Cons.prems by (intro Cons.IH) auto
    finally show ?thesis using xr False by (auto simp: in_rules_def fwd_rules_def fun_eq_iff)
  qed
qed

definition decides :: "group_rules \<Rightarrow> bool" where
  "decides g \<longleftrightarrow> (\<forall>(x, r) \<in> set g. \<exists>t. r = Rule t Drop \<or> r = Rule t Accept)"

lemma decides_flat: "\<forall>i g. gs i = Some g \<longrightarrow> decides g \<Longrightarrow> groups_ok gs"
  by (fastforce simp: decides_def groups_ok_def flat_rules_def)

lemma run_groups:
  assumes "\<forall>i g. gs i = Some g \<longrightarrow> decides g" "set is \<subseteq> set A" "distinct is" "set is \<inter> D = {}"
  shows "fw_run (concat (map (\<lambda>i. case gs i of None \<Rightarrow> [] | Some g \<Rightarrow> group_cmds i g) is)) (partly B gs A D) =
    partly B gs A (D \<union> set is)"
  using assms(2-4)
proof (induction "is" arbitrary: D)
  case (Cons i "is")
  have "fw_run (case gs i of None \<Rightarrow> [] | Some g \<Rightarrow> group_cmds i g) (partly B gs A D) = partly B gs A (insert i D)"
  proof (cases "gs i")
    case (Some g)
    have "fw_run (group_cmds i g) (partly B gs A D) = (partly B gs A D)(InN i \<mapsto> [] @ in_rules g, FwdN i \<mapsto> [] @ fwd_rules g)"
      using Cons.prems Some assms(1) by (intro run_group) (auto simp: partly_def decides_def)
    then show ?thesis using Some Cons.prems by (auto simp: partly_def fun_eq_iff split: fw_chain.splits)
  qed (auto simp: partly_def fun_eq_iff map_option_case split: fw_chain.splits option.splits)
  moreover have "set is \<inter> insert i D = {}" using Cons.prems by auto
  ultimately show ?case using Cons.IH [of "insert i D"] Cons.prems by simp
qed simp

lemma build_groups:
  assumes "base_ok B" "\<forall>i g. gs i = Some g \<longrightarrow> decides g"
  shows "fw_run (init_cmds gs @ rule_cmds gs) B = with_groups B gs"
proof -
  obtain rin rfw where b: "B (Base ''INPUT'') = Some rin" "B (Base ''FORWARD'') = Some rfw"
    using assms(1) by (auto simp: base_ok_def)
  have "fw_run [NewChain In, Insert (Base ''INPUT'') (jump In), NewChain Fwd, Insert (Base ''FORWARD'') (jump Fwd)] B =
      partly B gs [] {}"
    using b base_none [OF assms(1)]
    by (auto simp: partly_def with_groups_def sub_jumps_def target_known_def jump_def fun_eq_iff split: fw_chain.splits)
  then have "fw_run (init_cmds gs) B = partly B gs [0..<MAX_PARENTAL_NUM] {}"
    unfolding init_cmds_def fold_append o_apply using build_subs [of "[]" "[0..<MAX_PARENTAL_NUM]" gs B] by simp
  then have "fw_run (init_cmds gs @ rule_cmds gs) B = partly B gs [0..<MAX_PARENTAL_NUM] (set [0..<MAX_PARENTAL_NUM])"
    unfolding rule_cmds_def fold_append o_apply
    using run_groups [OF assms(2), of "[0..<MAX_PARENTAL_NUM]" "[0..<MAX_PARENTAL_NUM]" "{}"] by simp
  also have "\<dots> = with_groups B gs"
    by (auto simp: partly_def with_groups_def fun_eq_iff split: fw_chain.splits option.splits)
  finally show ?thesis .
qed

text \<open>From any such filter the commands lead to the filter of the new groups.\<close>

definition restart_cmds :: "groups option \<Rightarrow> fw_cmd list" where
  "restart_cmds pol = clear_cmds @ (case pol of None \<Rightarrow> [] | Some gs \<Rightarrow> init_cmds gs @ rule_cmds gs)"

lemma restart_installs:
  assumes "base_ok B" "\<And>gs i g. old = Some gs \<Longrightarrow> gs i = Some g \<Longrightarrow> decides g"
    "\<And>gs i g. new = Some gs \<Longrightarrow> gs i = Some g \<Longrightarrow> decides g"
  shows "fw_run (restart_cmds new) (install B old) = install B new"
proof -
  have "fw_run clear_cmds (install B old) = B" using assms(1,2) by (intro clear_install) (auto intro: decides_flat)
  then show ?thesis
    using build_groups [OF assms(1)] assms(3) by (auto simp: restart_cmds_def install_def split: option.splits)
qed

section \<open>Verdicts\<close>

text \<open>The rules of others decide as they do without parental control.\<close>

lemma base_verdict: "flat B \<Longrightarrow> flat_rules rs \<Longrightarrow> verdict n (with_groups B gs) p rs = verdict n B p rs"
proof (induction n B p rs rule: verdict.induct)
  case (2 n B p ms t rs)
  have r: "flat_rules rs" using "2.prems"(2) by (simp add: flat_rules_def)
  show ?case
  proof (cases t)
    case (Jump c)
    then obtain h where h: "c = Base h" "h \<noteq> ''INPUT''" "h \<noteq> ''FORWARD''" using "2.prems"(2) by (auto simp: flat_rules_def)
    then have c: "with_groups B gs c = B c" by (simp add: with_groups_def)
    have "flat_rules (case B c of None \<Rightarrow> [] | Some rs' \<Rightarrow> rs')"
      using "2.prems"(1) by (auto simp: flat_def split: option.splits)
    then show ?thesis using 2 r Jump c by (auto split: nat.splits option.splits)
  qed (use 2 r in auto)
qed simp

text \<open>The first group that decides.\<close>

fun first_decision :: "(group_rules \<Rightarrow> decision option) \<Rightarrow> groups \<Rightarrow> nat list \<Rightarrow> decision option" where
  "first_decision f gs [] = None"
| "first_decision f gs (i # is) =
     (case Option.bind (gs i) f of Some d \<Rightarrow> Some d | None \<Rightarrow> first_decision f gs is)"

lemma verdict_sub_jumps:
  assumes "\<And>i. i \<in> set is \<Longrightarrow> F (f i) = map_option h (gs i)"
  shows "verdict (Suc n) F p (sub_jumps f gs is) = first_decision (\<lambda>g. verdict n F p (h g)) gs is"
  using assms
proof (induction "is")
  case (Cons i "is")
  then show ?case by (cases "gs i") (auto simp: sub_jumps_def jump_def split: option.splits)
qed (simp add: sub_jumps_def)

lemma verdict_decides:
  "\<forall>r \<in> set rs. \<exists>t. r = Rule t Drop \<or> r = Rule t Accept \<Longrightarrow> verdict n F p rs = verdict 0 Map.empty p rs"
proof (induction rs)
  case (Cons r rs)
  then show ?case by (cases r) auto
qed simp

lemma hook_verdict:
  assumes "\<forall>i g. gs i = Some g \<longrightarrow> decides g"
  shows "verdict (Suc (Suc n)) (with_groups B gs) p (jump Fwd # rs) =
      (case first_decision (\<lambda>g. verdict 0 Map.empty p (fwd_rules g)) gs [0..<MAX_PARENTAL_NUM] of
         Some d \<Rightarrow> Some d | None \<Rightarrow> verdict (Suc (Suc n)) (with_groups B gs) p rs)"
    and "verdict (Suc (Suc n)) (with_groups B gs) p (jump In # rs) =
      (case first_decision (\<lambda>g. verdict 0 Map.empty p (in_rules g)) gs [0..<MAX_PARENTAL_NUM] of
         Some d \<Rightarrow> Some d | None \<Rightarrow> verdict (Suc (Suc n)) (with_groups B gs) p rs)"
proof -
  let ?F = "with_groups B gs"
  have d: "verdict n ?F p (fwd_rules g) = verdict 0 Map.empty p (fwd_rules g)"
    "verdict n ?F p (in_rules g) = verdict 0 Map.empty p (in_rules g)" if "gs i = Some g" for i g
    using assms that by (intro verdict_decides; force simp: decides_def fwd_rules_def in_rules_def)+
  have cong: "(\<And>i g. gs i = Some g \<Longrightarrow> f g = f' g) \<Longrightarrow> first_decision f gs is = first_decision f' gs is" for f f' "is"
    by (induction "is") (auto split: option.splits Option.bind_splits)
  have sub: "i \<in> set [0..<MAX_PARENTAL_NUM] \<Longrightarrow> ?F (FwdN i) = map_option fwd_rules (gs i)"
    "i \<in> set [0..<MAX_PARENTAL_NUM] \<Longrightarrow> ?F (InN i) = map_option in_rules (gs i)" for i
    by (simp_all add: with_groups_def)
  have "verdict (Suc n) ?F p (sub_jumps FwdN gs [0..<MAX_PARENTAL_NUM]) =
      first_decision (\<lambda>g. verdict 0 Map.empty p (fwd_rules g)) gs [0..<MAX_PARENTAL_NUM]"
    by (rule trans [OF verdict_sub_jumps [where F = ?F and f = FwdN and h = fwd_rules and gs = gs, OF sub(1)] cong]) (simp_all only: d)
  moreover have "verdict (Suc n) ?F p (sub_jumps InN gs [0..<MAX_PARENTAL_NUM]) =
      first_decision (\<lambda>g. verdict 0 Map.empty p (in_rules g)) gs [0..<MAX_PARENTAL_NUM]"
    by (rule trans [OF verdict_sub_jumps [where F = ?F and f = InN and h = in_rules and gs = gs, OF sub(2)] cong]) (simp_all only: d)
  moreover have "?F Fwd = Some (sub_jumps FwdN gs [0..<MAX_PARENTAL_NUM])" "?F In = Some (sub_jumps InN gs [0..<MAX_PARENTAL_NUM])"
    by (simp_all add: with_groups_def)
  ultimately show "verdict (Suc (Suc n)) ?F p (jump Fwd # rs) =
      (case first_decision (\<lambda>g. verdict 0 Map.empty p (fwd_rules g)) gs [0..<MAX_PARENTAL_NUM] of
         Some d \<Rightarrow> Some d | None \<Rightarrow> verdict (Suc (Suc n)) ?F p rs)"
    and "verdict (Suc (Suc n)) ?F p (jump In # rs) =
      (case first_decision (\<lambda>g. verdict 0 Map.empty p (in_rules g)) gs [0..<MAX_PARENTAL_NUM] of
         Some d \<Rightarrow> Some d | None \<Rightarrow> verdict (Suc (Suc n)) ?F p rs)"
    by (simp_all add: jump_def)
qed

end
