(* ===== verification/ParentalRun.thy ===== *)
theory ParentalRun
  imports ParentalFw
begin

text \<open>
  What a restart of parental control does: it runs exactly the commands of \<open>ParentalFw\<close> for the groups of the
  configuration, and keeps every setting it reads.
\<close>

section \<open>Frames\<close>

text \<open>The attributes that are written while parental control restarts, the first three once the filter is
  switched; the others it only reads. \<open>W\<close> is a set of attributes that may change.\<close>

definition COUNTS :: "string set" where
  "COUNTS = {''urlNum'', ''induration'', ''macNum''}"

definition WRITTEN :: "string set" where
  "WRITTEN = COUNTS \<union> {''FilterState'', ''isParentalRestarting''}"

lemma written_iff: "a \<in> COUNTS \<longleftrightarrow> a = ''urlNum'' \<or> a = ''induration'' \<or> a = ''macNum''"
  "a \<in> WRITTEN \<longleftrightarrow> a \<in> COUNTS \<or> a = ''FilterState'' \<or> a = ''isParentalRestarting''"
  by (auto simp: COUNTS_def WRITTEN_def)

definition keeps_attrs :: "string set \<Rightarrow> 's store_ops \<Rightarrow> ('s, 'm) ctl_scheme \<Rightarrow> ('s, 'm) ctl_scheme \<Rightarrow> bool" where
  "keeps_attrs W R s t \<longleftrightarrow> (\<forall>n a. a \<notin> W \<longrightarrow> so_get R (ct_store t) n a = so_get R (ct_store s) n a)"

text \<open>A computation from \<open>s\<close> returns, runs exactly the commands \<open>cs\<close> and keeps what the restart only reads.\<close>

definition runs :: "string set \<Rightarrow> 's store_ops \<Rightarrow> 's parental \<Rightarrow> string list \<Rightarrow> 's parental cres \<Rightarrow> bool" where
  "runs W R s cs m \<longleftrightarrow> (\<exists>s'. m = Ret s' \<and> ct_log s' = ct_log s @ map System cs \<and> keeps_attrs W R s s' \<and>
     parental_setting s' = parental_setting s \<and> is_parental_init s' = is_parental_init s)"

lemma keeps_refl [simp]: "keeps_attrs W R s s"
  by (simp add: keeps_attrs_def)

lemma keeps_trans: "keeps_attrs W R s t \<Longrightarrow> keeps_attrs W R t u \<Longrightarrow> keeps_attrs W R s u"
  by (simp add: keeps_attrs_def)

lemma keeps_fetch: "keeps_attrs W R s t \<Longrightarrow> a \<notin> W \<Longrightarrow> fetch R t n a k b = fetch R s n a k b"
  by (simp add: keeps_attrs_def fetch_def get_attr_def)

lemma runs_bind:
  assumes "runs W R s cs m" and "\<And>s'. m = Ret s' \<Longrightarrow> keeps_attrs W R s s' \<Longrightarrow> parental_setting s' = parental_setting s \<Longrightarrow> runs W R s' ds (f s')"
  shows "runs W R s (cs @ ds) (cbind m f)"
proof -
  obtain s' where s': "m = Ret s'" "ct_log s' = ct_log s @ map System cs" "keeps_attrs W R s s'"
    "parental_setting s' = parental_setting s" "is_parental_init s' = is_parental_init s"
    using assms(1) by (auto simp: runs_def)
  from assms(2) [OF s'(1,3,4)] s' show ?thesis by (auto simp: runs_def intro: keeps_trans)
qed

lemma runs_Ret: "runs W R s [] (Ret s)"
  by (simp add: runs_def)

lemma runs_rules: "\<forall>r \<in> set rs. length r < 200 \<Longrightarrow> runs W R s rs (execParentalRules rs s)"
proof (induction rs arbitrary: s)
  case (Cons r rs)
  have "runs W R s [r] (execParentalRule r s)"
    using Cons.prems by (simp add: runs_def execParentalRule_def act_def keeps_attrs_def)
  then have "runs W R s ([r] @ rs) (cbind (execParentalRule r s) (execParentalRules rs))"
    using Cons by (intro runs_bind) auto
  then show ?case by simp
qed (simp add: runs_Ret)

lemma runs_rm_pat: "length (pat_path k) < 100 \<Longrightarrow> runs W R s [''rm -f '' @ pat_path k] (rm_pat k s)"
  by (simp add: runs_def rm_pat_def execParentalRule_def act_def keeps_attrs_def)

section \<open>Clearing\<close>

definition clear_node_texts :: "nat \<Rightarrow> string list" where
  "clear_node_texts i = (''rm -f '' @ pat_path i) # clear_sub (CHAIN_IN @ nat_str i) @ clear_sub (CHAIN_FWD @ nat_str i)"

definition clear_texts :: "string list" where
  "clear_texts = clear_chain CHAIN_IN ''INPUT'' @ clear_chain CHAIN_FWD ''FORWARD'' @
     concat (map clear_node_texts [0..<MAX_PARENTAL_NUM]) @ [''rm -f '' @ pat_path 999]"

lemma clear_lengths: "list_all (\<lambda>r. length r < 200) clear_texts \<and> list_all (\<lambda>k. length (pat_path k) < 100) (999 # [0..<MAX_PARENTAL_NUM])"
  by code_simp

lemma runs_clear_nodes:
  "\<forall>i \<in> set is. length (pat_path i) < 100 \<and> (\<forall>r \<in> set (clear_node_texts i). length r < 200) \<Longrightarrow>
   runs W R s (concat (map clear_node_texts is)) (clear_nodes is s)"
proof (induction "is" arbitrary: s)
  case (Cons i "is")
  have IH: "runs W R s (concat (map clear_node_texts is)) (clear_nodes is s)" for s using Cons by simp
  have len: "length (pat_path i) < 100"
    "\<forall>r \<in> set (clear_sub (CHAIN_IN @ nat_str i) @ clear_sub (CHAIN_FWD @ nat_str i)). length r < 200"
    using Cons.prems by (auto simp: clear_node_texts_def)
  have "runs W R s ([''rm -f '' @ pat_path i] @ (clear_sub (CHAIN_IN @ nat_str i) @ clear_sub (CHAIN_FWD @ nat_str i)) @ concat (map clear_node_texts is))
      (clear_nodes (i # is) s)"
    unfolding clear_nodes.simps by (intro runs_bind runs_rm_pat runs_rules IH len)
  then show ?case by (simp add: clear_node_texts_def [of i])
qed (simp add: runs_Ret)

lemma runs_clear: "runs W R s clear_texts (clearParental s)"
proof -
  have len: "\<forall>r \<in> set clear_texts. length r < 200" "length (pat_path 999) < 100" "\<forall>i \<in> set [0..<MAX_PARENTAL_NUM]. length (pat_path i) < 100"
    using clear_lengths by (auto simp: list_all_iff)
  have "runs W R s ((clear_chain CHAIN_IN ''INPUT'' @ clear_chain CHAIN_FWD ''FORWARD'') @
      concat (map clear_node_texts [0..<MAX_PARENTAL_NUM]) @ [''rm -f '' @ pat_path 999]) (clearParental s)"
    unfolding clearParental_def
    by (intro runs_bind runs_rules runs_clear_nodes runs_rm_pat) (use len in \<open>auto simp: clear_texts_def\<close>)
  then show ?thesis by (simp add: clear_texts_def)
qed

text \<open>The commands of the packet filter among those that are run.\<close>

definition fw_texts :: "string list \<Rightarrow> string list" where
  "fw_texts = filter (prefix_of ''iptables '')"

lemma clear_fw: "fw_texts clear_texts = map cmd_text clear_cmds"
  by code_simp

section \<open>The groups\<close>

definition group_on :: "'s store_ops \<Rightarrow> ('s, 'm) ctl_scheme \<Rightarrow> nat \<Rightarrow> bool" where
  "group_on R s i \<longleftrightarrow> isParentalEntryNodeActive R i s \<or> isParentalEntryNodeDurationActive R i s"

definition in_time :: "'s parental \<Rightarrow> nat \<Rightarrow> bool" where
  "in_time s i \<longleftrightarrow> list_ex (\<lambda>j. matched_stat (duration_at s i j)) [0..<MAX_DURATION_PER_ENTRY]"

text \<open>A black list blocks within its times, a white list outside of them; else the addresses are looked at when the
  group is active.\<close>

definition group_mode :: "'s store_ops \<Rightarrow> 's parental \<Rightarrow> nat \<Rightarrow> filter_mode" where
  "group_mode R s i =
     (if isParentalEntryNodeDurationActive R i s \<and> getDuationType R i s = in_time s i then MAC_FILTER
      else if isParentalEntryNodeActive R i s then URL_FILTER else NO_FILTER)"

lemma mode_by_time: "use_filter_mode a black t u = (if a \<and> black = t then MAC_FILTER else if u then URL_FILTER else NO_FILTER)"
  by (simp add: use_filter_mode_def)

text \<open>The rules of one address of a group.\<close>

fun mac_group :: "nat \<Rightarrow> filter_mode \<Rightarrow> bool \<Rightarrow> string \<Rightarrow> group_rules" where
  "mac_group i MAC_FILTER black m =
     [(True, Rule [SrcMac m, UdpPort 53] Drop), (False, Rule [SrcMac m, TcpPort 80] Drop), (False, Rule [SrcMac m, TcpPort 443] Drop)]"
| "mac_group i URL_FILTER black m =
     (if black then [(False, Rule [SrcMac m, Layer7 (pat_name i)] Drop)]
      else [(False, Rule [SrcMac m, Layer7 (pat_name i)] Accept), (False, Rule [SrcMac m, Layer7 (pat_name 999)] Drop)])"
| "mac_group i NO_FILTER black m = []"

definition group_rules_of :: "'s store_ops \<Rightarrow> 's parental \<Rightarrow> nat \<Rightarrow> group_rules" where
  "group_rules_of R s i = concat (map (mac_group i (group_mode R s i) (getFilterType R i s)) (parental_macs R i s))"

definition groups_of :: "'s store_ops \<Rightarrow> 's parental \<Rightarrow> groups" where
  "groups_of R s i = (if i < MAX_PARENTAL_NUM \<and> group_on R s i then Some (group_rules_of R s i) else None)"

lemma groups_decide: "groups_of R s i = Some g \<Longrightarrow> decides g"
proof -
  have "decides (mac_group i md b m)" for md b m by (cases "(i, md, b, m)" rule: mac_group.cases) (auto simp: decides_def)
  then show "groups_of R s i = Some g \<Longrightarrow> decides g"
    by (fastforce simp: groups_of_def group_rules_of_def decides_def split: if_splits)
qed

text \<open>Every address of a group is a text shorter than the array it is copied to.\<close>

definition macs_fit :: "'s store_ops \<Rightarrow> ('s, 'm) ctl_scheme \<Rightarrow> bool" where
  "macs_fit R s \<longleftrightarrow> (\<forall>i < MAX_PARENTAL_NUM. \<forall>m \<in> set (parental_macs R i s). length m < MAX_MAC_ARRAY_SIZE - 1)"

lemma nat_str_digit: "i < 10 \<Longrightarrow> length (nat_str i) = 1"
  by (subst nat_str.simps) simp

lemma nat_str_ports: "nat_str 53 = ''53''" "nat_str 80 = ''80''" "nat_str 443 = ''443''" "nat_str 999 = ''999''"
  by code_simp+

lemma group_cmds_append: "group_cmds i (g @ h) = group_cmds i g @ group_cmds i h"
  by (simp add: group_cmds_def)

lemma mac_rule_fits: "length m < 19 \<Longrightarrow> mac_rule m = ''-m mac --mac-source '' @ m"
  by (simp add: mac_rule_def)

lemma url_rule_fits: "i < 8 \<or> i = 999 \<Longrightarrow> url_rule i = ''-m layer7 --l7proto '' @ pat_name i"
  using nat_str_digit [of i] by (auto simp: url_rule_def pat_name_def nat_str_ports)

lemma parental_rules_texts:
  assumes "length m < 19" "i < 8" "md \<noteq> NO_FILTER" "md = MAC_FILTER \<longrightarrow> b"
  shows "parental_rules i m md b = map cmd_text (group_cmds i (mac_group i md b m))"
    "\<forall>r \<in> set (parental_rules i m md b). length r < 200"
proof -
  note t = mac_rule_fits [OF assms(1)] url_rule_fits [of i] url_rule_fits [of 999]
  show "parental_rules i m md b = map cmd_text (group_cmds i (mac_group i md b m))"
    using assms t by (cases md) (auto simp: parental_rules_def group_cmds_def nat_str_ports)
  show "\<forall>r \<in> set (parental_rules i m md b). length r < 200"
    using assms t nat_str_digit [of i]
    by (cases md) (auto simp: parental_rules_def CHAIN_IN_def CHAIN_FWD_def pat_name_def nat_str_ports)
qed

lemma runs_add_rules:
  assumes "\<forall>m \<in> set ms. length m < 19" "\<forall>m \<in> set ms. m \<noteq> []" "i < 8" "md \<noteq> NO_FILTER" "md = MAC_FILTER \<longrightarrow> b"
  shows "runs W R s (map cmd_text (group_cmds i (concat (map (mac_group i md b) ms)))) (addParentalRules i md b ms s)"
  using assms(1,2)
proof (induction ms arbitrary: s)
  case (Cons m ms)
  have "runs W R s (map cmd_text (group_cmds i (mac_group i md b m))) (addParentalRule i m md b s)"
    using Cons.prems parental_rules_texts [OF _ assms(3-5), of m] runs_rules [of "parental_rules i m md b" W R s]
    by (simp add: addParentalRule_def MAX_MAC_ARRAY_SIZE_def)
  then have "runs W R s (map cmd_text (group_cmds i (mac_group i md b m)) @ map cmd_text (group_cmds i (concat (map (mac_group i md b) ms))))
      (addParentalRules i md b (m # ms) s)"
    unfolding addParentalRules.simps using Cons by (intro runs_bind) auto
  then show ?case by (simp add: group_cmds_append)
qed (simp add: runs_Ret group_cmds_def)

text \<open>What is read does not depend on what is written.\<close>

lemma keeps_read: "keeps_attrs W R s t \<Longrightarrow> W \<subseteq> WRITTEN \<Longrightarrow> a \<notin> WRITTEN \<Longrightarrow> fetch R t n a k b = fetch R s n a k b"
  using keeps_fetch [of W R s t a n k b] by blast

lemma keeps_attr_is: "keeps_attrs W R s t \<Longrightarrow> W \<subseteq> WRITTEN \<Longrightarrow> a \<notin> WRITTEN \<Longrightarrow> attr_is R t i a v = attr_is R s i a v"
  by (simp add: attr_is_def keeps_read)

lemma keeps_mac_loop: "keeps_attrs W R s t \<Longrightarrow> W \<subseteq> WRITTEN \<Longrightarrow> mac_loop R t i ks pid ms = mac_loop R s i ks pid ms"
  by (induction ks arbitrary: pid ms) (simp_all add: keeps_read written_iff Let_def split_beta)

lemma keeps_group:
  assumes "keeps_attrs W R s t" "W \<subseteq> WRITTEN"
  shows "isParentalEntryNodeActive R i t = isParentalEntryNodeActive R i s"
    "isParentalEntryNodeDurationActive R i t = isParentalEntryNodeDurationActive R i s"
    "getDuationType R i t = getDuationType R i s" "getFilterType R i t = getFilterType R i s"
    "parental_macs R i t = parental_macs R i s" "group_on R t i = group_on R s i"
  using keeps_attr_is [OF assms] keeps_mac_loop [OF assms]
  by (simp_all add: isParentalEntryNodeActive_def isParentalEntryNodeDurationActive_def getDuationType_def
      getFilterType_def parental_macs_def group_on_def written_iff)

lemma keeps_groups_of:
  assumes "keeps_attrs W R s t" "parental_setting t = parental_setting s" "W \<subseteq> WRITTEN"
  shows "groups_of R t = groups_of R s" "macs_fit R t = macs_fit R s"
  using keeps_group [OF assms(1,3)] assms(2)
  by (simp_all add: groups_of_def group_rules_of_def group_mode_def in_time_def duration_at_def macs_fit_def fun_eq_iff)

lemma mac_loop_all:
  "list_all P ms \<Longrightarrow> (\<And>n m. snd (fetch R s n ''Mac'' 32 []) = m \<Longrightarrow> m \<noteq> [] \<Longrightarrow> P (take (MAX_MAC_ARRAY_SIZE - 1) m)) \<Longrightarrow>
   list_all P (mac_loop R s i ks pid ms)"
proof (induction ks arbitrary: pid ms)
  case (Cons k ks)
  then show ?case by (auto simp: Let_def split_beta intro!: Cons.IH)
qed simp

lemma parental_macs_props: "\<forall>m \<in> set (parental_macs R i s). m \<noteq> []"
  using mac_loop_all [of "\<lambda>m. m \<noteq> []" "[]" R s i "[0..<MAX_PARENTAL_MAC_NUM]" 0] by (auto simp: parental_macs_def list_all_iff MAX_MAC_ARRAY_SIZE_def)

context attr_store
begin

lemma put_keeps: "a \<in> W \<Longrightarrow> keeps_attrs W R s (put_attr R n a v s)"
  unfolding keeps_attrs_def
proof (intro allI impI)
  fix m b
  assume "a \<in> W" "b \<notin> W"
  then have "\<not> same n m \<or> a \<noteq> b" by auto
  then show "so_get R (ct_store (put_attr R n a v s)) m b = so_get R (ct_store s) m b"
    by (simp add: put_attr_def get_set_other)
qed

lemma put_frame: "ct_log (put_attr R n a v s) = ct_log s" "parental_setting (put_attr R n a v t) = parental_setting t"
  "is_parental_init (put_attr R n a v t) = is_parental_init t"
  by (simp_all add: put_attr_def)

lemma put_runs: "a \<in> W \<Longrightarrow> runs W R s [] (Ret (put_attr R n a v s))"
  by (simp add: runs_def put_keeps put_frame)

lemma runs_put: "a \<in> W \<Longrightarrow> runs W R (put_attr R n a v s) cs m \<Longrightarrow> runs W R s cs m"
  by (auto simp: runs_def put_frame intro: keeps_trans [OF put_keeps])

lemma runs_start_node:
  assumes "macs_fit R s" "i < MAX_PARENTAL_NUM" "COUNTS \<subseteq> W" "W \<subseteq> WRITTEN"
  shows "runs W R s (map cmd_text (case groups_of R s i of None \<Rightarrow> [] | Some g \<Rightarrow> group_cmds i g)) (start_node R i s)"
proof (cases "group_on R s i")
  case True
  have c: "''induration'' \<in> W" "''macNum'' \<in> W" using assms(3) by (auto simp: COUNTS_def)
  obtain s1 where m: "isDurationMatched R i s = (in_time s i, s1)" and r1: "runs W R s [] (Ret s1)"
  proof
    let ?s = "put_attr R (entry_node i) ''induration'' ''0'' s"
    let ?t = "if in_time s i then put_attr R (entry_node i) ''induration'' ''1'' ?s else ?s"
    show "isDurationMatched R i s = (in_time s i, ?t)" by (simp add: isDurationMatched_def in_time_def Let_def)
    show "runs W R s [] (Ret ?t)"
    proof (rule runs_put [of "''induration''" W "entry_node i" "''0''"])
      show "runs W R ?s [] (Ret ?t)" using put_runs [of "''induration''" W ?s] c by (simp add: runs_Ret)
    qed (rule c)
  qed
  have k: "keeps_attrs W R s s1" "parental_setting s1 = parental_setting s" using r1 by (auto simp: runs_def)
  let ?ms = "parental_macs R i s" let ?md = "group_mode R s i" let ?b = "getFilterType R i s"
  let ?s2 = "put_attr R (entry_node i) ''macNum'' (nat_str (length ?ms)) s1"
  have ms: "\<forall>m \<in> set ?ms. length m < 19" "\<forall>m \<in> set ?ms. m \<noteq> []" and i: "i < 8"
    using assms(1,2) parental_macs_props [of R i s] by (auto simp: macs_fit_def MAX_MAC_ARRAY_SIZE_def MAX_PARENTAL_NUM_def)
  have e: "start_node R i s = (case ?md of MAC_FILTER \<Rightarrow> addParentalRules i MAC_FILTER True ?ms ?s2
      | URL_FILTER \<Rightarrow> addParentalRules i URL_FILTER ?b ?ms ?s2 | NO_FILTER \<Rightarrow> Ret ?s2)"
    using True m
    by (auto simp: start_node_def group_on_def getParentalMac_def group_mode_def mode_by_time Let_def keeps_group [OF k(1) assms(4)]
        split: filter_mode.split)
  have g: "groups_of R s i = Some (concat (map (mac_group i ?md ?b) ?ms))"
    using True assms(2) by (simp add: groups_of_def group_rules_of_def)
  have blk: "mac_group i MAC_FILTER b = mac_group i MAC_FILTER True" for b by (simp add: fun_eq_iff)
  have "runs W R ?s2 (map cmd_text (group_cmds i (concat (map (mac_group i ?md ?b) ?ms)))) (start_node R i s)"
  proof (cases ?md)
    case MAC_FILTER
    then show ?thesis using e runs_add_rules [OF ms i, of MAC_FILTER True W R ?s2] blk [of ?b] by simp
  next
    case URL_FILTER
    then show ?thesis using e runs_add_rules [OF ms i, of URL_FILTER ?b W R ?s2] by simp
  next
    case NO_FILTER
    have "concat (map (mac_group i NO_FILTER ?b) ?ms) = []" by simp
    then show ?thesis using e NO_FILTER by (simp only: runs_Ret group_cmds_def list.map filter_mode.case)
  qed
  then have "runs W R s1 (map cmd_text (group_cmds i (concat (map (mac_group i ?md ?b) ?ms)))) (start_node R i s)"
    by (rule runs_put [OF c(2)])
  then show ?thesis using r1 g runs_bind [of W R s "[]" "Ret s1" _ "\<lambda>_. start_node R i s"] by simp
next
  case False
  then show ?thesis by (simp add: start_node_def group_on_def groups_of_def runs_Ret)
qed

lemma runs_start_nodes:
  assumes "COUNTS \<subseteq> W" "W \<subseteq> WRITTEN" "macs_fit R s" "set is \<subseteq> {..<MAX_PARENTAL_NUM}"
  shows "runs W R s (map cmd_text (concat (map (\<lambda>i. case groups_of R s i of None \<Rightarrow> [] | Some g \<Rightarrow> group_cmds i g) is))) (start_nodes R is s)"
  using assms(3,4)
proof (induction "is" arbitrary: s)
  case (Cons i "is")
  let ?c = "\<lambda>s i. case groups_of R s i of None \<Rightarrow> [] | Some g \<Rightarrow> group_cmds i g"
  have "runs W R s (map cmd_text (?c s i) @ map cmd_text (concat (map (?c s) is))) (start_nodes R (i # is) s)"
    unfolding start_nodes.simps
  proof (rule runs_bind)
    show "runs W R s (map cmd_text (?c s i)) (start_node R i s)" using Cons.prems assms(1,2) by (intro runs_start_node) auto
    fix s'
    assume k: "keeps_attrs W R s s'" "parental_setting s' = parental_setting s"
    then have "macs_fit R s'" using Cons.prems(1) keeps_groups_of(2) [OF k assms(2)] by simp
    then have "runs W R s' (map cmd_text (concat (map (?c s') is))) (start_nodes R is s')" using Cons by simp
    then show "runs W R s' (map cmd_text (concat (map (?c s) is))) (start_nodes R is s')"
      using keeps_groups_of(1) [OF k assms(2)] by simp
  qed
  then show ?case by simp
qed (simp add: runs_Ret)

lemma runs_start:
  "COUNTS \<subseteq> W \<Longrightarrow> W \<subseteq> WRITTEN \<Longrightarrow> macs_fit R s \<Longrightarrow> runs W R s (map cmd_text (rule_cmds (groups_of R s))) (startParental R s)"
  unfolding startParental_def rule_cmds_def by (rule runs_start_nodes) auto

text \<open>The pattern files are written without a command.\<close>

lemma write_runs: "runs W R s [] (Ret (snd (write2ParentalFile E k u s)))"
  by (simp add: write2ParentalFile_def runs_def keeps_attrs_def)

lemma runs_fold:
  assumes "\<And>x n s. runs W R s [] (Ret (snd (f x (n, s))))"
  shows "runs W R s [] (Ret (snd (fold f xs (n, s))))"
proof (induction xs arbitrary: n s)
  case (Cons x xs)
  obtain n' s' where f: "f x (n, s) = (n', s')" by (cases "f x (n, s)")
  then have "runs W R s [] (Ret s')" using assms [of s x n] by simp
  from runs_bind [OF this, of "[]" "\<lambda>_. Ret (snd (fold f xs (n', s')))"] Cons.IH [of s' n'] f
  show ?case by simp
qed (simp add: runs_Ret)

lemma runs_urlfilter: "COUNTS \<subseteq> W \<Longrightarrow> runs W R s [] (Ret (initParentalUrlfilter E R s))"
proof -
  assume c: "COUNTS \<subseteq> W"
  have step: "runs W R s [] (Ret (snd (url_step E R i j (n, s))))" for i j n s
    using write_runs [of W s E i] by (simp add: url_step_def runs_Ret split_beta)
  have "runs W R s [] (Ret (snd (url_node E R i (n, s))))" for i n s
  proof -
    obtain m t where f: "fold (url_step E R i) [0..<MAX_URL_PER_ENTRY] (n, s) = (m, t)" by force
    then have r: "runs W R s [] (Ret t)" using runs_fold [of W "url_step E R i" s "[0..<MAX_URL_PER_ENTRY]" n] step by simp
    have "runs W R t [] (Ret (put_attr R (entry_node i) ''urlNum'' (nat_str m) t))" using c by (intro put_runs) (auto simp: COUNTS_def)
    with r have "runs W R s [] (Ret (put_attr R (entry_node i) ''urlNum'' (nat_str m) t))"
      using runs_bind [OF r, of "[]" "\<lambda>_. Ret (put_attr R (entry_node i) ''urlNum'' (nat_str m) t)"] by simp
    then show ?thesis using f by (simp add: url_node_def runs_Ret)
  qed
  then have r: "runs W R s [] (Ret (snd (fold (url_node E R) [0..<MAX_PARENTAL_NUM] (0, s))))" by (rule runs_fold)
  show "runs W R s [] (Ret (initParentalUrlfilter E R s))"
    unfolding initParentalUrlfilter_def
    using runs_bind [OF r, of "[]" "\<lambda>t. Ret (snd (write2ParentalFile E 999 (''(Host:'' @ BLANKS @ '')'') t))"] write_runs by simp
qed

lemma runs_init:
  "runs W R s (map cmd_text (init_cmds (groups_of R s))) (initParental R s)"
proof -
  let ?a = "\<lambda>i. isParentalEntryNodeActive R i s \<or> isParentalEntryNodeDurationActive R i s"
  let ?ts = "\<lambda>is. concat (map (\<lambda>i. if ?a i then sub_chain_rules i else []) is)"
  have "map cmd_text (concat (map (\<lambda>i. if groups_of R s i \<noteq> None then sub_cmds i else []) is)) = ?ts is"
    if "set is \<subseteq> {..<MAX_PARENTAL_NUM}" for "is"
    using that by (induction "is") (auto simp: groups_of_def group_on_def sub_cmds_def sub_chain_rules_def jump_def)
  then have t: "map cmd_text (concat (map (\<lambda>i. if groups_of R s i \<noteq> None then sub_cmds i else []) [0..<MAX_PARENTAL_NUM])) =
      ?ts [0..<MAX_PARENTAL_NUM]" using atLeast_upt by blast
  have "\<forall>r \<in> set (?ts [0..<MAX_PARENTAL_NUM]). length r < 200"
    using nat_str_digit by (auto simp: sub_chain_rules_def CHAIN_IN_def CHAIN_FWD_def MAX_PARENTAL_NUM_def split: if_splits)
  then show ?thesis
    unfolding initParental_def init_cmds_def map_append t
    by (rule_tac back_subst [of "\<lambda>x. runs W R s x _", OF runs_rules]) (auto simp: jump_def CHAIN_IN_def CHAIN_FWD_def)
qed

end

section \<open>The switch\<close>

text \<open>The state of the filters can be read and says that a filter other than parental control is in use,
  so that the filter is not unloaded.\<close>

definition filter_state :: "'s store_ops \<Rightarrow> ('s, 'm) ctl_scheme \<Rightarrow> u32" where
  "filter_state R s = of_int (atoi (snd (fetch R s GLOBALSTATE_PRESYSSTATE_NODE ''FilterState'' 32 [])))"

definition filter_in_use :: "'s store_ops \<Rightarrow> ('s, 'm) ctl_scheme \<Rightarrow> bool" where
  "filter_in_use R s \<longleftrightarrow> 0 < fst (fetch R s GLOBALSTATE_PRESYSSTATE_NODE ''FilterState'' 32 []) \<and>
     filter_state R s AND NOT PARENTAL_VECTOR \<noteq> 0"

definition parental_on :: "'s store_ops \<Rightarrow> ('s, 'm) ctl_scheme \<Rightarrow> bool" where
  "parental_on R s \<longleftrightarrow> (case fetch R s PARENTAL_COMMON_NODE ''Active'' 32 [] of (r, v) \<Rightarrow> 0 < r \<and> strcmp v ''Yes'' = 0)"

lemma vector_bits:
  "(x OR PARENTAL_VECTOR) AND L7_BIT_MASK = x AND L7_BIT_MASK" "(x AND NOT PARENTAL_VECTOR) AND L7_BIT_MASK = x AND L7_BIT_MASK"
  "(x OR PARENTAL_VECTOR) AND PARENTAL_VECTOR \<noteq> 0" "(x AND NOT PARENTAL_VECTOR) AND PARENTAL_VECTOR = 0" "x OR PARENTAL_VECTOR \<noteq> 0"
  for x :: u32
proof -
  have c: "PARENTAL_VECTOR AND L7_BIT_MASK = 0" "NOT PARENTAL_VECTOR AND L7_BIT_MASK = L7_BIT_MASK" "PARENTAL_VECTOR \<noteq> 0"
    by (simp_all add: PARENTAL_VECTOR_def L7_BIT_MASK_def APP_VECTOR_def URL_VECTOR_def)
  show "(x OR PARENTAL_VECTOR) AND L7_BIT_MASK = x AND L7_BIT_MASK"
    by (simp add: bit.conj_disj_distrib2 c(1))
  show "(x AND NOT PARENTAL_VECTOR) AND L7_BIT_MASK = x AND L7_BIT_MASK" by (simp add: and.assoc c(2))
  have o: "(x OR PARENTAL_VECTOR) AND PARENTAL_VECTOR = PARENTAL_VECTOR" by (simp add: bit.conj_disj_distrib2)
  show "(x OR PARENTAL_VECTOR) AND PARENTAL_VECTOR \<noteq> 0" unfolding o by (rule c(3))
  then show "x OR PARENTAL_VECTOR \<noteq> 0" by (metis bit.conj_zero_left)
  show "(x AND NOT PARENTAL_VECTOR) AND PARENTAL_VECTOR = 0" by (simp add: and.assoc)
qed

text \<open>The bits of the application filter are never changed here, so its module is neither loaded nor
  unloaded for parental control.\<close>

lemma l7filter_idle:
  "new AND L7_BIT_MASK = filter_state R s AND L7_BIT_MASK \<Longrightarrow> check_and_set_l7filter E R new s = Ret s"
  by (simp add: check_and_set_l7filter_def filter_state_def Let_def)

definition new_state :: "'s store_ops \<Rightarrow> ('s, 'm) ctl_scheme \<Rightarrow> u32" where
  "new_state R s = (if parental_on R s then filter_state R s OR PARENTAL_VECTOR else filter_state R s AND NOT PARENTAL_VECTOR)"

lemma checkParentalOn_in_use:
  assumes "filter_in_use R s"
  shows "checkParentalOn E R s =
    Ret (parental_on R s, put_attr R GLOBALSTATE_PRESYSSTATE_NODE ''FilterState'' (nat_str (unat (new_state R s))) s)"
proof -
  obtain r v where f: "fetch R s GLOBALSTATE_PRESYSSTATE_NODE ''FilterState'' 32 [] = (r, v)" by force
  have r: "0 < r" and x: "filter_state R s = of_int (atoi v)" and nz: "of_int (atoi v) AND NOT PARENTAL_VECTOR \<noteq> (0 :: u32)"
    using assms f by (auto simp: filter_in_use_def filter_state_def)
  have v: "atoi v \<noteq> 0" using nz by auto
  have n: "new_state R s = (if parental_on R s then of_int (atoi v) OR PARENTAL_VECTOR else of_int (atoi v) AND NOT PARENTAL_VECTOR)"
    by (simp add: new_state_def x)
  have l7: "check_and_set_l7filter E R (new_state R s) s = Ret s"
    by (rule l7filter_idle) (simp add: n x vector_bits)
  have "check_and_set_filter E R (new_state R s) s =
      Ret (put_attr R GLOBALSTATE_PRESYSSTATE_NODE ''FilterState'' (nat_str (unat (new_state R s))) s)"
    using r v nz vector_bits(5) by (simp add: check_and_set_filter_def f n)
  moreover have "(new_state R s AND PARENTAL_VECTOR \<noteq> 0) = parental_on R s"
    using vector_bits(3,4) by (simp add: n)
  moreover have "checkParentalOn E R s = cbind (check_and_set_l7filter E R (new_state R s) s) (\<lambda>s1.
      cbind (check_and_set_filter E R (new_state R s) s1) (\<lambda>s2. Ret (new_state R s AND PARENTAL_VECTOR \<noteq> 0, s2)))"
    using r by (simp add: checkParentalOn_def f n parental_on_def Let_def split_beta)
  ultimately show ?thesis using l7 by simp
qed

section \<open>Restarting\<close>

definition policy :: "'s store_ops \<Rightarrow> 's parental \<Rightarrow> groups option" where
  "policy R s = (if parental_on R s then Some (groups_of R s) else None)"

definition restarting :: "'s store_ops \<Rightarrow> ('s, 'm) ctl_scheme \<Rightarrow> bool" where
  "restarting R s \<longleftrightarrow> atoi (snd (fetch R s GLOBALSTATE_COMMON_NODE ''isParentalRestarting'' 4 [])) = 1"

lemma rules_store: "execParentalRules rs s = Ret s' \<Longrightarrow> ct_store s' = ct_store s"
  by (induction rs arbitrary: s) (auto simp: execParentalRule_def act_def split: if_splits)

lemma rm_store: "rm_pat k s = Ret s' \<Longrightarrow> ct_store s' = ct_store s"
  by (auto simp: rm_pat_def execParentalRule_def act_def split: if_splits)

lemma clear_store: "clearParental s = Ret s' \<Longrightarrow> ct_store s' = ct_store s"
proof -
  have "clear_nodes is s = Ret s' \<Longrightarrow> ct_store s' = ct_store s" for "is" s and s' :: "'a parental"
    by (induction "is" arbitrary: s) (fastforce dest: rules_store rm_store)+
  then show "clearParental s = Ret s' \<Longrightarrow> ct_store s' = ct_store s"
    by (fastforce simp: clearParental_def dest: rules_store rm_store)
qed

lemma fetch_store: "ct_store s' = ct_store s \<Longrightarrow> fetch R s' n a k b = fetch R s n a k b"
  by (simp add: fetch_def)

lemma fw_texts_cmds: "fw_texts (map cmd_text cs) = map cmd_text cs"
proof -
  have "prefix_of ''iptables '' (cmd_text c)" for c by (cases c) simp_all
  then show ?thesis by (simp add: fw_texts_def)
qed

lemma fw_texts_append: "fw_texts (a @ b) = fw_texts a @ fw_texts b"
  by (simp add: fw_texts_def)

definition build_texts :: "groups option \<Rightarrow> string list" where
  "build_texts pol = (case pol of None \<Rightarrow> [] | Some gs \<Rightarrow> map cmd_text (init_cmds gs) @ map cmd_text (rule_cmds gs))"

definition restart_texts :: "groups option \<Rightarrow> string list" where
  "restart_texts pol =
     clear_texts @ build_texts pol @ [''/usr/bin/killall -9 dnsmasq'', ''/userfs/bin/dnsmasq &'']"

lemma restart_fw_texts: "fw_texts (restart_texts pol) = map cmd_text (restart_cmds pol)"
  by (simp add: restart_texts_def build_texts_def restart_cmds_def fw_texts_append fw_texts_cmds clear_fw split: option.split)
    (simp add: fw_texts_def)

definition ready :: "'s store_ops \<Rightarrow> 's parental \<Rightarrow> bool" where
  "ready R s \<longleftrightarrow> filter_in_use R s \<and> macs_fit R s \<and> \<not> restarting R s"

lemma atoi_nat_str_clamp: "atoi (nat_str n) = clamp_int (int n)"
proof -
  obtain c cs where s: "nat_str n = c # cs" by (cases "nat_str n") auto
  then have "is_digit c" using nat_str_digits [of n] by simp
  then have "atoi (nat_str n) = clamp_int (int (atoi_digits 0 (nat_str n)))" by (simp add: s atoi_digit_start)
  then show ?thesis by simp
qed

lemma atoi_state:
  assumes "n AND NOT PARENTAL_VECTOR \<noteq> 0"
  shows "(of_int (atoi (nat_str (unat n))) :: u32) AND NOT PARENTAL_VECTOR \<noteq> 0"
proof (cases "unat n < 2 ^ 31")
  case True
  then show ?thesis using assms by (simp add: atoi_nat_str)
next
  case False
  then have "2147483648 \<le> unat n" by simp
  then have "2147483648 \<le> int (unat n)" by linarith
  then have "clamp_int (int (unat n)) = 2147483647" unfolding clamp_int_def by simp
  then have "atoi (nat_str (unat n)) = 2147483647" by (simp only: atoi_nat_str_clamp)
  then show ?thesis by (simp add: PARENTAL_VECTOR_def)
qed

context attr_store
begin

lemma put_fetch_other:
  "a \<noteq> b \<Longrightarrow> fetch R (put_attr R n a v s) m b k buf = fetch R s m b k buf"
  by (simp add: fetch_def put_attr_def get_attr_def get_set_other)

lemma runs_trans: "runs V R s cs (Ret t) \<Longrightarrow> runs W R t ds m \<Longrightarrow> V \<subseteq> U \<Longrightarrow> W \<subseteq> U \<Longrightarrow> runs U R s (cs @ ds) m"
proof -
  assume a: "runs V R s cs (Ret t)" "runs W R t ds m" "V \<subseteq> U" "W \<subseteq> U"
  have "keeps_attrs V R s t \<Longrightarrow> keeps_attrs W R t u \<Longrightarrow> keeps_attrs U R s u" for u
    using a(3,4) unfolding keeps_attrs_def by (metis subsetD)
  then show "runs U R s (cs @ ds) m" using a(1,2) by (auto simp: runs_def)
qed

text \<open>Once the filter is switched, only the counts are written.\<close>

lemma runs_build:
  assumes "macs_fit R s"
  shows "runs COUNTS R s (build_texts (Some (groups_of R s)))
    (cbind (initParental R s) (\<lambda>s3. startParental R (initParentalUrlfilter E R s3)))"
  unfolding build_texts_def option.case
proof (rule runs_bind [OF runs_init])
  fix s3
  assume k: "keeps_attrs COUNTS R s s3" "parental_setting s3 = parental_setting s"
  have c: "COUNTS \<subseteq> WRITTEN" by (auto simp: WRITTEN_def)
  obtain s4 where s4: "initParentalUrlfilter E R s3 = s4" by simp
  have r: "runs COUNTS R s3 [] (Ret s4)" using runs_urlfilter [of COUNTS s3 E] s4 by simp
  then have "keeps_attrs COUNTS R s s4" "parental_setting s4 = parental_setting s"
    using k by (auto simp: runs_def intro: keeps_trans)
  note g4 = keeps_groups_of [OF this c]
  have "runs COUNTS R s4 (map cmd_text (rule_cmds (groups_of R s))) (startParental R s4)"
    using runs_start [OF subset_refl c, of s4] g4 assms by simp
  then show "runs COUNTS R s3 (map cmd_text (rule_cmds (groups_of R s))) (startParental R (initParentalUrlfilter E R s3))"
    using runs_bind [OF r, of _ "startParental R"] s4 by simp
qed

lemma runs_body:
  assumes "filter_in_use R s" "macs_fit R s"
  shows "runs WRITTEN R s (clear_texts @ build_texts (policy R s)) (restart_body E R s) \<and>
    (\<exists>s2 s'. restart_body E R s = Ret s' \<and> ct_store s2 = so_set R GLOBALSTATE_PRESYSSTATE_NODE ''FilterState'' (nat_str (unat (new_state R s))) (ct_store s) \<and>
       keeps_attrs COUNTS R s2 s')"
proof -
  obtain s1 where c: "clearParental s = Ret s1" and r1: "runs {} R s clear_texts (Ret s1)"
    using runs_clear [of "{}" R s] by (auto simp: runs_def)
  note st = fetch_store [OF clear_store [OF c]]
  have same: "filter_in_use R s1" "parental_on R s1 = parental_on R s" "new_state R s1 = new_state R s"
    using assms(1) by (simp_all add: filter_in_use_def filter_state_def parental_on_def new_state_def st)
  let ?s2 = "put_attr R GLOBALSTATE_PRESYSSTATE_NODE ''FilterState'' (nat_str (unat (new_state R s))) s1"
  have r2: "runs {''FilterState''} R s1 [] (Ret ?s2)" by (rule put_runs) simp
  have r12: "runs WRITTEN R s clear_texts (Ret ?s2)"
    using runs_trans [OF r1 r2, of WRITTEN] by (simp add: WRITTEN_def)
  then have k2: "keeps_attrs WRITTEN R s ?s2" "parental_setting ?s2 = parental_setting s" by (auto simp: runs_def)
  note g2 = keeps_groups_of [OF k2 subset_refl]
  have b: "restart_body E R s =
      (if parental_on R s then cbind (initParental R ?s2) (\<lambda>s3. startParental R (initParentalUrlfilter E R s3)) else Ret ?s2)"
    by (simp add: restart_body_def c checkParentalOn_in_use [OF same(1)] same(2,3))
  have r3: "runs COUNTS R ?s2 (build_texts (policy R s)) (restart_body E R s)"
    using runs_build [of ?s2 E] g2 assms(2) by (simp add: b policy_def runs_Ret build_texts_def)
  then obtain s' where "restart_body E R s = Ret s'" "keeps_attrs COUNTS R ?s2 s'" by (auto simp: runs_def)
  moreover have "ct_store ?s2 = so_set R GLOBALSTATE_PRESYSSTATE_NODE ''FilterState'' (nat_str (unat (new_state R s))) (ct_store s)"
    using clear_store [OF c] by (simp add: put_attr_def)
  ultimately show ?thesis using runs_trans [OF r12 r3, of WRITTEN] by (auto simp: WRITTEN_def)
qed

lemma switched_in_use:
  assumes "filter_in_use R t" "n AND NOT PARENTAL_VECTOR \<noteq> 0"
    "so_get R (ct_store u) GLOBALSTATE_PRESYSSTATE_NODE ''FilterState'' =
       so_get R (so_set R GLOBALSTATE_PRESYSSTATE_NODE ''FilterState'' (nat_str (unat n)) (ct_store t)) GLOBALSTATE_PRESYSSTATE_NODE ''FilterState''"
  shows "filter_in_use R u"
proof -
  have "has (ct_store t) GLOBALSTATE_PRESYSSTATE_NODE"
    using assms(1) get_has by (auto simp: filter_in_use_def fetch_def get_attr_def split: option.splits)
  then have "so_get R (ct_store u) GLOBALSTATE_PRESYSSTATE_NODE ''FilterState'' = Some (nat_str (unat n))"
    using assms(3) by (simp add: get_set_same)
  moreover have "length (nat_str (unat n)) \<le> 10" 
  proof (rule nat_str_length_le)
    have "unat n < 2 ^ 32" using unsigned_less [of n] by simp
    then show "unat n < 10 ^ 10" by simp
  qed simp
  ultimately show ?thesis
    using atoi_state [OF assms(2)] by (simp add: filter_in_use_def filter_state_def fetch_def get_attr_def)
qed

lemma not_restarting: "\<not> restarting R (put_attr R GLOBALSTATE_COMMON_NODE ''isParentalRestarting'' ''0'' s)"
proof (cases "has (ct_store s) GLOBALSTATE_COMMON_NODE")
  case True
  have "atoi ''0'' \<noteq> 1" by code_simp
  with True show ?thesis by (simp add: restarting_def fetch_def get_attr_def put_attr_def get_set_same)
next
  case False
  then have "so_get R (so_set R GLOBALSTATE_COMMON_NODE ''isParentalRestarting'' ''0'' (ct_store s)) GLOBALSTATE_COMMON_NODE ''isParentalRestarting'' = None"
    using get_has has_set by (metis not_None_eq)
  moreover have "atoi [] \<noteq> 1" by code_simp
  ultimately show ?thesis by (simp add: restarting_def fetch_def get_attr_def put_attr_def)
qed

lemma new_state_in_use: "filter_in_use R s \<Longrightarrow> new_state R s AND NOT PARENTAL_VECTOR \<noteq> 0"
  by (simp add: filter_in_use_def new_state_def bit.conj_disj_distrib2 and.assoc)

text \<open>A restart runs the commands, keeps the settings and leaves parental control ready for the next.\<close>

lemma restart_runs:
  assumes "ready R s"
  shows "\<exists>s'. restartParental E R s = Ret s' \<and> ready R s' \<and> runs WRITTEN R s (restart_texts (policy R s)) (Ret s')"
proof -
  let ?n = "GLOBALSTATE_COMMON_NODE" and ?a = "''isParentalRestarting''"
  let ?s1 = "put_attr R ?n ?a ''1'' s"
  have r: "filter_in_use R s" "macs_fit R s" "\<not> restarting R s" using assms by (simp_all add: ready_def)
  have k1: "keeps_attrs WRITTEN R s ?s1" "parental_setting ?s1 = parental_setting s"
    by (rule put_keeps) (simp_all add: WRITTEN_def put_frame)
  note g1 = keeps_groups_of [OF k1 subset_refl]
  have o: "fetch R ?s1 m b k v = fetch R s m b k v" if "b \<noteq> ?a" for m b k v using that by (simp add: put_fetch_other)
  have same: "filter_in_use R ?s1" "policy R ?s1 = policy R s" "new_state R ?s1 = new_state R s"
    using r(1) g1 by (simp_all add: filter_in_use_def filter_state_def parental_on_def new_state_def policy_def o)
  obtain s2 s3 where b: "runs WRITTEN R ?s1 (clear_texts @ build_texts (policy R s)) (Ret s3)" "restart_body E R ?s1 = Ret s3"
      "ct_store s2 = so_set R GLOBALSTATE_PRESYSSTATE_NODE ''FilterState'' (nat_str (unat (new_state R s))) (ct_store ?s1)"
      "keeps_attrs COUNTS R s2 s3"
    using runs_body [OF same(1), of E] g1(2) r(2) same(2,3) by auto
  let ?s4 = "act (System ''/userfs/bin/dnsmasq &'') (act (System ''/usr/bin/killall -9 dnsmasq'') s3)"
  let ?s' = "put_attr R ?n ?a ''0'' ?s4"
  have ret: "restartParental E R s = Ret ?s'"
    using r(3) b(2) by (simp add: restartParental_def restarting_def)
  have "runs {} R s3 [''/usr/bin/killall -9 dnsmasq'', ''/userfs/bin/dnsmasq &''] (Ret ?s4)"
    by (simp add: runs_def act_def keeps_attrs_def)
  then have r4: "runs WRITTEN R ?s1 ((clear_texts @ build_texts (policy R s)) @ [''/usr/bin/killall -9 dnsmasq'', ''/userfs/bin/dnsmasq &'']) (Ret ?s4)"
    by (rule runs_trans [OF b(1)]) simp_all
  have p4: "runs {?a} R ?s4 [] (Ret ?s')" by (rule put_runs) simp
  have run: "runs WRITTEN R s (restart_texts (policy R s)) (Ret ?s')"
    using runs_put [OF _ runs_trans [OF r4 p4, of WRITTEN]] by (simp add: restart_texts_def WRITTEN_def)
  have "so_get R (ct_store ?s') GLOBALSTATE_PRESYSSTATE_NODE ''FilterState'' = so_get R (ct_store s2) GLOBALSTATE_PRESYSSTATE_NODE ''FilterState''"
    using b(4) by (simp add: put_attr_def get_set_other act_def keeps_attrs_def COUNTS_def)
  then have "filter_in_use R ?s'"
    using switched_in_use [OF same(1), of "new_state R s" ?s'] new_state_in_use [OF r(1)] b(3) by simp
  moreover have "macs_fit R ?s'" using run r(2) keeps_groups_of(2) [OF _ _ subset_refl, of R s ?s'] by (auto simp: runs_def)
  ultimately have "ready R ?s'" using not_restarting by (simp add: ready_def)
  then show ?thesis using ret run by blast
qed

end

end
