(* ===== verification/ParentalSpec.thy ===== *)
theory ParentalSpec
  imports ParentalRun
begin

text \<open>
  Parental control is what it promises: every packet gets the verdict of the first group that decides, and
  the polling thread keeps the times up to date.
\<close>

section \<open>Verdicts\<close>

text \<open>The hosts of a group, the first four: those whose group number is its number, when every host has one.\<close>

definition host_attr :: "'s store_ops \<Rightarrow> ('s, 'm) ctl_scheme \<Rightarrow> string \<Rightarrow> nat \<Rightarrow> string" where
  "host_attr R s a k = snd (fetch R s (numbered PARENTAL_MAC_ENTRY_NODE (k + 1)) a 32 [])"

definition ids_given :: "'s store_ops \<Rightarrow> ('s, 'm) ctl_scheme \<Rightarrow> bool" where
  "ids_given R s \<longleftrightarrow> (\<forall>k < MAX_PARENTAL_MAC_NUM. host_attr R s ''Mac'' k \<noteq> [] \<longrightarrow> host_attr R s ''ParentalID'' k \<noteq> [])"

definition group_macs :: "'s store_ops \<Rightarrow> nat \<Rightarrow> ('s, 'm) ctl_scheme \<Rightarrow> string list" where
  "group_macs R i s = take MAX_MAC_PER_ENTRY (map (\<lambda>k. take (MAX_MAC_ARRAY_SIZE - 1) (host_attr R s ''Mac'' k))
     (filter (\<lambda>k. host_attr R s ''Mac'' k \<noteq> [] \<and> atoi (host_attr R s ''ParentalID'' k) = int i) [0..<MAX_PARENTAL_MAC_NUM]))"

lemma fetch_some: "snd (fetch R s n a k []) \<noteq> [] \<Longrightarrow> 0 \<le> fst (fetch R s n a k [])"
  by (auto simp: fetch_def split: option.splits)

lemma mac_loop_hosts:
  assumes "\<forall>k \<in> set ks. host_attr R s ''Mac'' k \<noteq> [] \<longrightarrow> host_attr R s ''ParentalID'' k \<noteq> []" "length ms \<le> MAX_MAC_PER_ENTRY"
  shows "mac_loop R s i ks pid ms = ms @ take (MAX_MAC_PER_ENTRY - length ms)
    (map (\<lambda>k. take (MAX_MAC_ARRAY_SIZE - 1) (host_attr R s ''Mac'' k))
      (filter (\<lambda>k. host_attr R s ''Mac'' k \<noteq> [] \<and> atoi (host_attr R s ''ParentalID'' k) = int i) ks))"
  using assms
proof (induction ks arbitrary: pid ms)
  case (Cons k ks)
  let ?id = "fetch R s (numbered PARENTAL_MAC_ENTRY_NODE (k + 1)) ''ParentalID'' 32 []"
  let ?m = "fetch R s (numbered PARENTAL_MAC_ENTRY_NODE (k + 1)) ''Mac'' 32 []"
  let ?ms = "if host_attr R s ''Mac'' k \<noteq> [] \<and> atoi (host_attr R s ''ParentalID'' k) = int i
    then ms @ [take (MAX_MAC_ARRAY_SIZE - 1) (host_attr R s ''Mac'' k)] else ms"
  show ?case
  proof (cases "length ms < MAX_MAC_PER_ENTRY")
    case True
    let ?pid = "if 0 \<le> fst ?id \<and> snd ?id \<noteq> [] then atoi (snd ?id) else pid"
    have "(if int i = ?pid \<and> 0 \<le> fst ?m \<and> snd ?m \<noteq> [] then ms @ [take (MAX_MAC_ARRAY_SIZE - 1) (snd ?m)] else ms) = ?ms"
      using Cons.prems(1) fetch_some [of R s _ "''ParentalID''" 32] fetch_some [of R s _ "''Mac''" 32]
      by (cases "snd ?m = []") (auto simp: host_attr_def)
    then have "mac_loop R s i (k # ks) pid ms = mac_loop R s i ks ?pid ?ms"
      using True by (simp only: mac_loop.simps Let_def split_beta if_True)
    moreover have "length ?ms \<le> MAX_MAC_PER_ENTRY" using True by simp
    ultimately show ?thesis
      using Cons.IH [of ?ms ?pid] Cons.prems(1) True by (auto simp: take_Cons' split: if_splits)
  qed (use Cons.prems in simp)
qed simp

lemma macs_of_group: "ids_given R s \<Longrightarrow> parental_macs R i s = group_macs R i s"
  unfolding parental_macs_def group_macs_def by (subst mac_loop_hosts) (auto simp: ids_given_def)

text \<open>What a group means for a packet that is forwarded, and for one to the gateway itself.\<close>

definition of_group :: "'s store_ops \<Rightarrow> 's parental \<Rightarrow> nat \<Rightarrow> packet \<Rightarrow> bool" where
  "of_group R s i p \<longleftrightarrow> group_on R s i \<and> list_ex (pk_mac p) (group_macs R i s)"

definition fwd_decision :: "'s store_ops \<Rightarrow> 's parental \<Rightarrow> packet \<Rightarrow> nat \<Rightarrow> decision option" where
  "fwd_decision R s p i =
     (if \<not> of_group R s i p then None
      else case group_mode R s i of
             MAC_FILTER \<Rightarrow> if pk_tcp p = Some 80 \<or> pk_tcp p = Some 443 then Some DROPPED else None
           | URL_FILTER \<Rightarrow>
               if getFilterType R i s then if pk_l7 p (pat_name i) then Some DROPPED else None
               else if pk_l7 p (pat_name i) then Some ACCEPTED
               else if pk_l7 p (pat_name 999) then Some DROPPED else None
           | NO_FILTER \<Rightarrow> None)"

definition in_decision :: "'s store_ops \<Rightarrow> 's parental \<Rightarrow> packet \<Rightarrow> nat \<Rightarrow> decision option" where
  "in_decision R s p i =
     (if of_group R s i p \<and> group_mode R s i = MAC_FILTER \<and> pk_udp p = Some 53 then Some DROPPED else None)"

fun first_some :: "(nat \<Rightarrow> 'a option) \<Rightarrow> nat list \<Rightarrow> 'a option" where
  "first_some f [] = None"
| "first_some f (i # is) = (case f i of Some d \<Rightarrow> Some d | None \<Rightarrow> first_some f is)"

lemma rules_append [simp]:
  "in_rules (g @ h) = in_rules g @ in_rules h" "fwd_rules (g @ h) = fwd_rules g @ fwd_rules h"
  by (simp_all add: in_rules_def fwd_rules_def)

lemma group_verdicts:
  fixes ms :: "string list" and i :: nat
  defines "g md b \<equiv> concat (map (mac_group i md b) ms)"
  shows "verdict 0 Map.empty p (fwd_rules (g MAC_FILTER b)) =
      (if list_ex (pk_mac p) ms \<and> (pk_tcp p = Some 80 \<or> pk_tcp p = Some 443) then Some DROPPED else None)"
    "verdict 0 Map.empty p (fwd_rules (g URL_FILTER True)) =
      (if list_ex (pk_mac p) ms \<and> pk_l7 p (pat_name i) then Some DROPPED else None)"
    "verdict 0 Map.empty p (fwd_rules (g URL_FILTER False)) =
      (if \<not> list_ex (pk_mac p) ms then None else if pk_l7 p (pat_name i) then Some ACCEPTED
       else if pk_l7 p (pat_name 999) then Some DROPPED else None)"
    "verdict 0 Map.empty p (fwd_rules (g NO_FILTER b)) = None"
    "verdict 0 Map.empty p (in_rules (g MAC_FILTER b)) =
      (if list_ex (pk_mac p) ms \<and> pk_udp p = Some 53 then Some DROPPED else None)"
    "verdict 0 Map.empty p (in_rules (g URL_FILTER b)) = None"
    "verdict 0 Map.empty p (in_rules (g NO_FILTER b)) = None"
  unfolding g_def
  by (induction ms) (simp_all add: verdict_append in_rules_def fwd_rules_def)

lemma group_decisions:
  assumes "i < MAX_PARENTAL_NUM" "ids_given R s"
  shows "Option.bind (groups_of R s i) (\<lambda>g. verdict 0 Map.empty p (fwd_rules g)) = fwd_decision R s p i"
    and "Option.bind (groups_of R s i) (\<lambda>g. verdict 0 Map.empty p (in_rules g)) = in_decision R s p i"
proof -
  note v = group_verdicts [where i = i and p = p and ms = "group_macs R i s"]
  note m = macs_of_group [OF assms(2)]
  show "Option.bind (groups_of R s i) (\<lambda>g. verdict 0 Map.empty p (fwd_rules g)) = fwd_decision R s p i"
    using assms v
    by (cases "group_mode R s i"; cases "getFilterType R i s") (simp_all add: m groups_of_def group_rules_of_def fwd_decision_def of_group_def)
  show "Option.bind (groups_of R s i) (\<lambda>g. verdict 0 Map.empty p (in_rules g)) = in_decision R s p i"
    using assms v
    by (cases "group_mode R s i") (simp_all add: m groups_of_def group_rules_of_def in_decision_def of_group_def)
qed

lemma first_decision_some:
  "(\<And>i. i \<in> set is \<Longrightarrow> Option.bind (gs i) f = h i) \<Longrightarrow> first_decision f gs is = first_some h is"
  by (induction "is") (auto split: option.splits)

lemma hook_decisions:
  assumes "ids_given R s"
  shows "verdict (Suc (Suc n)) (with_groups B (groups_of R s)) p (jump Fwd # rs) =
      (case first_some (fwd_decision R s p) [0..<MAX_PARENTAL_NUM] of
         Some d \<Rightarrow> Some d | None \<Rightarrow> verdict (Suc (Suc n)) (with_groups B (groups_of R s)) p rs)"
    and "verdict (Suc (Suc n)) (with_groups B (groups_of R s)) p (jump In # rs) =
      (case first_some (in_decision R s p) [0..<MAX_PARENTAL_NUM] of
         Some d \<Rightarrow> Some d | None \<Rightarrow> verdict (Suc (Suc n)) (with_groups B (groups_of R s)) p rs)"
proof -
  have d: "\<forall>i g. groups_of R s i = Some g \<longrightarrow> decides g" using groups_decide by blast
  have "first_decision (\<lambda>g. verdict 0 Map.empty p (fwd_rules g)) (groups_of R s) [0..<MAX_PARENTAL_NUM] =
      first_some (fwd_decision R s p) [0..<MAX_PARENTAL_NUM]"
    "first_decision (\<lambda>g. verdict 0 Map.empty p (in_rules g)) (groups_of R s) [0..<MAX_PARENTAL_NUM] =
      first_some (in_decision R s p) [0..<MAX_PARENTAL_NUM]"
    by (intro first_decision_some group_decisions assms; simp)+
  then show "verdict (Suc (Suc n)) (with_groups B (groups_of R s)) p (jump Fwd # rs) =
      (case first_some (fwd_decision R s p) [0..<MAX_PARENTAL_NUM] of
         Some d \<Rightarrow> Some d | None \<Rightarrow> verdict (Suc (Suc n)) (with_groups B (groups_of R s)) p rs)"
    "verdict (Suc (Suc n)) (with_groups B (groups_of R s)) p (jump In # rs) =
      (case first_some (in_decision R s p) [0..<MAX_PARENTAL_NUM] of
         Some d \<Rightarrow> Some d | None \<Rightarrow> verdict (Suc (Suc n)) (with_groups B (groups_of R s)) p rs)"
    by (simp_all add: hook_verdict [OF d])
qed

section \<open>Polling\<close>

text \<open>The groups of a state have their four times each.\<close>

definition setting_ok :: "'s parental \<Rightarrow> bool" where
  "setting_ok s \<longleftrightarrow> length (parental_setting s) = MAX_PARENTAL_NUM \<and>
     list_all (\<lambda>ds. length ds = MAX_DURATION_PER_ENTRY) (parental_setting s)"

lemma set_matched_at:
  assumes "setting_ok s" "i < MAX_PARENTAL_NUM" "j < MAX_DURATION_PER_ENTRY" "i' < MAX_PARENTAL_NUM" "j' < MAX_DURATION_PER_ENTRY"
  shows "duration_at (set_matched i j b s) i' j' = (if i' = i \<and> j' = j then (duration_at s i j)\<lparr>matched_stat := b\<rparr> else duration_at s i' j')"
  using assms by (auto simp: setting_ok_def set_matched_def duration_at_def nth_list_update list_all_length)

lemma set_matched_ok: "setting_ok s \<Longrightarrow> i < MAX_PARENTAL_NUM \<Longrightarrow> setting_ok (set_matched i j b s)"
  by (auto simp: setting_ok_def set_matched_def list_all_length nth_list_update)

text \<open>The filter of the policy before becomes that of the policy after by the commands that were run in between.\<close>

definition applies :: "fw \<Rightarrow> 's store_ops \<Rightarrow> 's parental \<Rightarrow> 's parental \<Rightarrow> bool" where
  "applies B R s s' \<longleftrightarrow> (\<exists>ts cs. ct_log s' = ct_log s @ map System ts \<and> fw_texts ts = map cmd_text cs \<and>
     fw_run cs (install B (policy R s)) = install B (policy R s'))"

lemma applies_refl: "applies B R s s"
  unfolding applies_def by (rule exI [of _ "[]"], rule exI [of _ "[]"]) (simp add: fw_texts_def)

lemma applies_trans:
  assumes "applies B R s t" "applies B R t u"
  shows "applies B R s u"
proof -
  obtain ts cs ts' cs' where
    "ct_log t = ct_log s @ map System ts" "fw_texts ts = map cmd_text cs" "fw_run cs (install B (policy R s)) = install B (policy R t)"
    "ct_log u = ct_log t @ map System ts'" "fw_texts ts' = map cmd_text cs'" "fw_run cs' (install B (policy R t)) = install B (policy R u)"
    using assms unfolding applies_def by blast
  then have "ct_log u = ct_log s @ map System (ts @ ts')" "fw_texts (ts @ ts') = map cmd_text (cs @ cs')"
    "fw_run (cs @ cs') (install B (policy R s)) = install B (policy R u)"
    by (simp_all add: fw_texts_append)
  then show ?thesis unfolding applies_def by blast
qed

lemma policy_decides: "policy R s = Some gs \<Longrightarrow> gs i = Some g \<Longrightarrow> decides g"
  by (auto simp: policy_def groups_decide split: if_splits)

lemma keeps_policy:
  assumes "keeps_attrs W R s t" "parental_setting t = parental_setting s" "W \<subseteq> WRITTEN"
  shows "policy R t = policy R s"
  using keeps_groups_of(1) [OF assms] keeps_read [OF assms(1,3)]
  by (simp add: policy_def parental_on_def written_iff)

text \<open>Looking at one time leaves it met exactly when the clock is in it.\<close>

definition looked :: "wall_clock \<Rightarrow> parental_duration \<Rightarrow> parental_duration" where
  "looked c d = d\<lparr>matched_stat := isCurrentInDuration c d\<rparr>"

lemma all_durations_set: "distinct all_durations" "set all_durations = {..<MAX_PARENTAL_NUM} \<times> {..<MAX_DURATION_PER_ENTRY}"
  by (auto simp: all_durations_def distinct_product)

context attr_store
begin

lemma restart_applies:
  assumes "ready R s" "base_ok B"
  shows "\<exists>s' ts cs. restartParental E R s = Ret s' \<and> ready R s' \<and> parental_setting s' = parental_setting s \<and>
    keeps_attrs WRITTEN R s s' \<and> policy R s' = policy R s \<and> ct_log s' = ct_log s @ map System ts \<and>
    fw_texts ts = map cmd_text cs \<and> (\<forall>t. fw_run cs (install B (policy R t)) = install B (policy R s))"
proof -
  obtain s' where s': "restartParental E R s = Ret s'" "ready R s'" "runs WRITTEN R s (restart_texts (policy R s)) (Ret s')"
    using restart_runs [OF assms(1)] by blast
  then have k: "keeps_attrs WRITTEN R s s'" "parental_setting s' = parental_setting s"
    "ct_log s' = ct_log s @ map System (restart_texts (policy R s))"
    by (auto simp: runs_def)
  have "fw_run (restart_cmds (policy R s)) (install B (policy R t)) = install B (policy R s)" for t :: "'s parental"
    using assms(2) policy_decides by (intro restart_installs) blast+
  then show ?thesis using s'(1,2) k keeps_policy [OF k(1,2)] restart_fw_texts by blast
qed

lemma change_applies:
  assumes "ready R s" "setting_ok s" "base_ok B" "i < MAX_PARENTAL_NUM"
  shows "\<exists>s'. restartParental E R (set_matched i j b s) = Ret s' \<and> ready R s' \<and>
    parental_setting s' = parental_setting (set_matched i j b s) \<and> applies B R s s'"
proof -
  let ?s1 = "set_matched i j b s"
  have st: "ct_store ?s1 = ct_store s" "ct_log ?s1 = ct_log s" by (simp_all add: set_matched_def)
  note f = fetch_store [OF st(1)]
  have "keeps_attrs {} R s ?s1" using st by (simp add: keeps_attrs_def)
  from keeps_group(5) [OF this] have "macs_fit R ?s1 = macs_fit R s" by (simp add: macs_fit_def)
  then have "ready R ?s1"
    using assms(1) by (simp add: ready_def filter_in_use_def filter_state_def restarting_def f)
  from restart_applies [OF this assms(3), of E] st show ?thesis unfolding applies_def by metis
qed

lemma check_duration_step:
  assumes "ready R s" "setting_ok s" "base_ok B" "i < MAX_PARENTAL_NUM" "j < MAX_DURATION_PER_ENTRY"
  shows "\<exists>s'. check_duration E R c (i, j) s = Ret s' \<and> ready R s' \<and> setting_ok s' \<and> applies B R s s' \<and>
    (\<forall>i' < MAX_PARENTAL_NUM. \<forall>j' < MAX_DURATION_PER_ENTRY. duration_at s' i' j' =
       (if (i', j') = (i, j) then looked c (duration_at s i j) else duration_at s i' j'))"
proof (cases "matched_stat (duration_at s i j) = isCurrentInDuration c (duration_at s i j)")
  case True
  then have "check_duration E R c (i, j) s = Ret s"
    by (auto simp: check_duration_def isSetpIntoDuration_def isGoOutOfDuration_def Let_def)
  moreover have "looked c (duration_at s i j) = duration_at s i j" using True by (simp add: looked_def)
  ultimately show ?thesis using assms(1,2) applies_refl by auto
next
  case False
  let ?b = "isCurrentInDuration c (duration_at s i j)"
  have e: "check_duration E R c (i, j) s = restartParental E R (set_matched i j ?b s)"
    using False by (auto simp: check_duration_def isSetpIntoDuration_def isGoOutOfDuration_def Let_def)
  obtain s' where s': "restartParental E R (set_matched i j ?b s) = Ret s'" "ready R s'"
      "parental_setting s' = parental_setting (set_matched i j ?b s)" "applies B R s s'"
    using change_applies [OF assms(1-4)] by blast
  have "setting_ok s'" using set_matched_ok [OF assms(2,4)] s'(3) by (simp add: setting_ok_def)
  moreover have "duration_at s' = duration_at (set_matched i j ?b s)" by (simp add: duration_at_def fun_eq_iff s'(3))
  ultimately show ?thesis using e s' set_matched_at [OF assms(2,4,5), of _ _ ?b] by (auto simp: looked_def)
qed

lemma check_durations_list:
  assumes "ready R s" "setting_ok s" "base_ok B" "distinct ijs" "set ijs \<subseteq> {..<MAX_PARENTAL_NUM} \<times> {..<MAX_DURATION_PER_ENTRY}"
  shows "\<exists>s'. check_durations E R (map (\<lambda>ij. (ij, cl ij)) ijs) s = Ret s' \<and> ready R s' \<and> setting_ok s' \<and> applies B R s s' \<and>
    (\<forall>i < MAX_PARENTAL_NUM. \<forall>j < MAX_DURATION_PER_ENTRY. duration_at s' i j =
       (if (i, j) \<in> set ijs then looked (cl (i, j)) (duration_at s i j) else duration_at s i j))"
  using assms
proof (induction ijs arbitrary: s)
  case (Cons ij ijs)
  obtain i j where ij: "ij = (i, j)" "i < MAX_PARENTAL_NUM" "j < MAX_DURATION_PER_ENTRY" using Cons.prems(5) by auto
  obtain t where t: "check_duration E R (cl ij) ij s = Ret t" "ready R t" "setting_ok t" "applies B R s t"
    "\<forall>i' < MAX_PARENTAL_NUM. \<forall>j' < MAX_DURATION_PER_ENTRY. duration_at t i' j' =
       (if (i', j') = (i, j) then looked (cl ij) (duration_at s i j) else duration_at s i' j')"
    using check_duration_step [OF Cons.prems(1-3) ij(2,3), of E "cl ij"] ij(1) by blast
  obtain s' where s': "check_durations E R (map (\<lambda>ij. (ij, cl ij)) ijs) t = Ret s'" "ready R s'" "setting_ok s'" "applies B R t s'"
    "\<forall>i < MAX_PARENTAL_NUM. \<forall>j < MAX_DURATION_PER_ENTRY. duration_at s' i j =
       (if (i, j) \<in> set ijs then looked (cl (i, j)) (duration_at t i j) else duration_at t i j)"
    using Cons.IH [OF t(2,3) Cons.prems(3)] Cons.prems(4,5) by auto
  have "duration_at s' i' j' = (if (i', j') \<in> set (ij # ijs) then looked (cl (i', j')) (duration_at s i' j') else duration_at s i' j')"
    if "i' < MAX_PARENTAL_NUM" "j' < MAX_DURATION_PER_ENTRY" for i' j'
    using s'(5) t(5) that ij(1) Cons.prems(4) by auto
  then show ?case using t(1) s' applies_trans [OF t(4) s'(4)] by auto
qed (auto simp: applies_refl)

end

lemma init_setting_ok: "setting_ok (initParentalDuration R s)"
  by (auto simp: setting_ok_def initParentalDuration_def Let_def list_all_iff)

section \<open>What parental control promises\<close>

definition parental_decision :: "(nat \<Rightarrow> decision option) \<Rightarrow> 's store_ops \<Rightarrow> 's parental \<Rightarrow> decision option" where
  "parental_decision f R s = (if parental_on R s then first_some f [0..<MAX_PARENTAL_NUM] else None)"

definition or_else :: "decision option \<Rightarrow> decision option \<Rightarrow> decision option" where
  "or_else d e = (case d of Some x \<Rightarrow> Some x | None \<Rightarrow> e)"

text \<open>The verdict of a hook, with jumps to a depth of \<open>n + 2\<close>.\<close>

definition hook_decision :: "nat \<Rightarrow> fw \<Rightarrow> string \<Rightarrow> packet \<Rightarrow> decision option" where
  "hook_decision n F h p = verdict (Suc (Suc n)) F p (case F (Base h) of None \<Rightarrow> [] | Some rs \<Rightarrow> rs)"

lemma hook_installed:
  assumes "base_ok B" "ids_given R s"
  shows "hook_decision n (install B (policy R s)) ''FORWARD'' p = or_else (parental_decision (fwd_decision R s p) R s) (hook_decision n B ''FORWARD'' p)"
    "hook_decision n (install B (policy R s)) ''INPUT'' p = or_else (parental_decision (in_decision R s p) R s) (hook_decision n B ''INPUT'' p)"
proof -
  obtain rin rfw where b: "B (Base ''INPUT'') = Some rin" "B (Base ''FORWARD'') = Some rfw" "flat B"
    using assms(1) by (auto simp: base_ok_def)
  have bv: "verdict m (with_groups B gs) p rs = verdict m B p rs" if "rs = rin \<or> rs = rfw" for m gs rs
    using base_verdict [OF b(3), of rs] b that by (auto simp: flat_def)
  have w: "with_groups B gs (Base ''FORWARD'') = Some (jump Fwd # rfw)" "with_groups B gs (Base ''INPUT'') = Some (jump In # rin)" for gs
    using b by (simp_all add: with_groups_def)
  show "hook_decision n (install B (policy R s)) ''FORWARD'' p = or_else (parental_decision (fwd_decision R s p) R s) (hook_decision n B ''FORWARD'' p)"
    "hook_decision n (install B (policy R s)) ''INPUT'' p = or_else (parental_decision (in_decision R s p) R s) (hook_decision n B ''INPUT'' p)"
    by (simp_all add: hook_decision_def install_def policy_def parental_decision_def or_else_def w b(1,2) hook_decisions [OF assms(2)] bv del: verdict.simps split: option.split)
qed


text \<open>A network with one computer that may not browse from eight to nine in the evening of a Monday.\<close>

definition kid_store :: plain where
  "kid_store = [''root.globalstate.presysstate'' \<mapsto> [''FilterState'' \<mapsto> ''1''],
     ''root.globalstate.common'' \<mapsto> [''isParentalRestarting'' \<mapsto> ''0''],
     ''root.parental.common'' \<mapsto> [''Active'' \<mapsto> ''Yes''],
     ''root.parental.entry.1'' \<mapsto> [''DurationActive'' \<mapsto> ''Yes'', ''StartTime0'' \<mapsto> ''72000'', ''EndTime0'' \<mapsto> ''75600'', ''RepeatDay0'' \<mapsto> ''2''],
     ''root.parentalmac.entry.1'' \<mapsto> [''ParentalID'' \<mapsto> ''0'', ''Mac'' \<mapsto> ''00:11:22:33:44:55'']]"

definition kid_state :: "bool \<Rightarrow> plain parental" where
  "kid_state b = \<lparr>ct_store = kid_store, ct_log = [],
     parental_setting = (\<lparr>dur_start = 72000, dur_end = 75600, repeat_days = 2, matched_stat = b\<rparr> # replicate 3 zero_duration) #
       replicate 7 (replicate 4 zero_duration), is_parental_init = True, l7_files = Map.empty\<rparr>"

definition others_fw :: fw where
  "others_fw = [Base ''INPUT'' \<mapsto> [], Base ''FORWARD'' \<mapsto> [Rule [Other ''-i wan''] Drop]]"

definition web_packet :: packet where
  "web_packet = \<lparr>pk_mac = (=) ''00:11:22:33:44:55'', pk_udp = None, pk_tcp = Some 443, pk_l7 = (\<lambda>_. False), pk_other = (\<lambda>_. False)\<rparr>"

lemma short_macs_fit: "(\<And>n v. so_get R (ct_store s) n ''Mac'' = Some v \<Longrightarrow> length v < 19) \<Longrightarrow> macs_fit R s"
proof -
  assume short: "\<And>n v. so_get R (ct_store s) n ''Mac'' = Some v \<Longrightarrow> length v < 19"
  have "length (snd (fetch R s n ''Mac'' 32 [])) < 19" for n
    using short [of n] by (auto simp: fetch_def get_attr_def split: option.splits)
  then have "list_all (\<lambda>m. length m < 19) (mac_loop R s i ks pid [])" for i ks pid
    by (intro mac_loop_all) (auto simp: min_less_iff_disj)
  then show ?thesis by (simp add: macs_fit_def parental_macs_def list_all_iff MAX_MAC_ARRAY_SIZE_def)
qed

lemma kid_ready: "ready plain_ops (kid_state b)"
proof -
  have "so_get plain_ops (ct_store (kid_state b)) ''root.globalstate.presysstate'' ''FilterState'' = Some ''1''"
    "so_get plain_ops (ct_store (kid_state b)) ''root.globalstate.common'' ''isParentalRestarting'' = Some ''0''"
    by (simp_all add: plain_ops_def kid_state_def kid_store_def)
  moreover have "atoi ''1'' = 1" "atoi ''0'' = 0" by code_simp+
  moreover have "macs_fit plain_ops (kid_state b)"
    by (rule short_macs_fit) (auto simp: plain_ops_def kid_state_def kid_store_def split: if_splits)
  ultimately show ?thesis
    by (simp add: ready_def filter_in_use_def filter_state_def restarting_def fetch_def get_attr_def
        GLOBALSTATE_PRESYSSTATE_NODE_def GLOBALSTATE_COMMON_NODE_def PARENTAL_VECTOR_def)
qed

lemma kid_ids: "ids_given plain_ops (kid_state b)"
proof -
  have h: "so_get plain_ops (ct_store (kid_state b)) n ''Mac'' = None \<or> so_get plain_ops (ct_store (kid_state b)) n ''ParentalID'' = Some ''0''" for n
    by (auto simp: plain_ops_def kid_state_def kid_store_def)
  have "host_attr plain_ops (kid_state b) ''Mac'' k = [] \<or> host_attr plain_ops (kid_state b) ''ParentalID'' k = ''0''" for k
    using h [of "numbered PARENTAL_MAC_ENTRY_NODE (k + 1)"] by (auto simp: host_attr_def fetch_def get_attr_def)
  then show ?thesis unfolding ids_given_def by (metis list.distinct(1))
qed

lemma others_ok: "base_ok others_fw"
  by (auto simp: base_ok_def others_fw_def flat_def flat_rules_def split: if_splits)




section \<open>Days of the week\<close>

lemma repeat_flag_bits:
  "\<forall>d \<in> set ds. 1 \<le> d \<and> d \<le> 7 \<Longrightarrow> n + length ds \<le> 7 \<Longrightarrow>
   \<exists>g. repeat_flag (map digit_char ds) n flag = Some g \<and> (\<forall>k. bit g k \<longleftrightarrow> bit flag k \<or> k \<in> (\<lambda>d. d mod 7) ` set ds)"
proof (induction ds arbitrary: n flag)
  case (Cons d ds)
  then have d: "1 \<le> d" "d \<le> 7" by simp_all
  have "nat_str d = [digit_char d]" using d by (subst nat_str.simps) simp
  then have a: "atoi [digit_char d] = int d" using atoi_nat_str [of d] d by simp
  have p: "(if int d = 7 then 1 else push_bit (nat (int d)) 1) = push_bit (d mod 7) (1 :: int)"
    using d by (cases "d = 7") auto
  obtain g where "repeat_flag (map digit_char ds) (n + 1) (flag OR push_bit (d mod 7) 1) = Some g"
    "\<forall>k. bit g k \<longleftrightarrow> bit (flag OR push_bit (d mod 7) 1) k \<or> k \<in> (\<lambda>d. d mod 7) ` set ds"
    using Cons.IH [of "n + 1" "flag OR push_bit (d mod 7) 1"] Cons.prems by auto
  moreover have "repeat_flag (map digit_char (d # ds)) n flag = repeat_flag (map digit_char ds) (n + 1) (flag OR push_bit (d mod 7) 1)"
    using Cons.prems d by (simp add: a p [symmetric] Let_def)
  ultimately show ?case by (auto simp: bit_or_iff bit_exp_iff)
qed simp

lemma low_bits: "(\<And>k. bit g k \<Longrightarrow> k < 7) \<Longrightarrow> 0 \<le> g \<and> g < 128" for g :: int
proof -
  assume b: "\<And>k. bit g k \<Longrightarrow> k < 7"
  have "take_bit 7 g = g" by (rule bit_eqI) (auto simp: bit_take_bit_iff b)
  then show ?thesis using take_bit_nonnegative [of 7 g] take_bit_int_less_exp [of 7 g] by simp
qed

lemma week_test:
  assumes "tm_wday c < 7"
  shows "isCurrentInDuration c d \<longleftrightarrow> bit (repeat_days d) (tm_wday c) \<and> dur_start d \<le> of_nat (cur_sec c) \<and> of_nat (cur_sec c) \<le> dur_end d"
proof -
  have "push_bit w 1 AND repeat_days d \<noteq> 0 \<longleftrightarrow> bit (repeat_days d) w" for w
    using and_exp_eq_0_iff_not_bit [of "repeat_days d" w] by (simp add: and.commute)
  then show ?thesis using assms by (auto simp: isCurrentInDuration_def list_ex_iff)
qed

lemma day_mod: "w < 7 \<Longrightarrow> \<forall>d \<in> set ds. 1 \<le> d \<and> d \<le> 7 \<Longrightarrow> w \<in> (\<lambda>d. d mod 7) ` set ds \<longleftrightarrow> (if w = 0 then 7 else w) \<in> set ds"
  for w :: nat
proof -
  have m: "d mod 7 = (if d = 7 then 0 else d)" if "1 \<le> d" "d \<le> 7" for d :: nat using that by auto
  assume "w < 7" "\<forall>d \<in> set ds. 1 \<le> d \<and> d \<le> 7"
  then show "w \<in> (\<lambda>d. d mod 7) ` set ds \<longleftrightarrow> (if w = 0 then 7 else w) \<in> set ds" by (force simp: m image_iff)
qed

lemma loaded_duration:
  "g < MAX_PARENTAL_NUM \<Longrightarrow> k < MAX_DURATION_PER_ENTRY \<Longrightarrow> 0 < fst (fetch R s (entry_node g) ''DurationActive'' 128 []) \<Longrightarrow>
   duration_at (initParentalDuration R s) g k = load_duration R s (entry_node g) k"
  by (simp add: duration_at_def initParentalDuration_def Let_def)

text \<open>C34: The days of a time come back: when the days 1 (Monday) to 7 (Sunday) of a time are set through the type handler
  and the times are loaded again, the gateway takes a moment to be in that time exactly when its day of the
  week is one of those set and its time of day is between the start and the end, which are kept.
\<close>

theorem repeat_days_round_trip:
  assumes "attr_store R same has" and "g < MAX_PARENTAL_NUM" and "k < MAX_DURATION_PER_ENTRY"
    and "fetch R s PARENTAL_COMMON_NODE ''AddIndx'' 16 [] = (r, nat_str k)"
    and "0 < fst (fetch R s (entry_node g) ''DurationActive'' 128 [])"
    and "\<forall>d \<in> set ds. 1 \<le> d \<and> d \<le> 7" and "length ds \<le> 7" and "tm_wday c < 7"
  shows "\<exists>s'. cfg_type_parental_func_set R Q (entry_node g) ''RepeatDay'' (map digit_char ds) s = (0, s') \<and>
    (isCurrentInDuration c (duration_at (initParentalDuration R s') g k) \<longleftrightarrow>
       (if tm_wday c = 0 then 7 else tm_wday c) \<in> set ds \<and>
       (of_int (num_attr R s (entry_node g) (''StartTime'' @ nat_str k)) :: u32) \<le> of_nat (cur_sec c) \<and>
       of_nat (cur_sec c) \<le> (of_int (num_attr R s (entry_node g) (''EndTime'' @ nat_str k)) :: u32))"
proof -
  note st = attr_store.get_set_same [OF assms(1)] attr_store.get_set_other [OF assms(1)] attr_store.get_has [OF assms(1)]
  let ?a = "''RepeatDay'' @ nat_str k"
  obtain f where f: "repeat_flag (map digit_char ds) 0 0 = Some f" "\<And>b. bit f b \<longleftrightarrow> b \<in> (\<lambda>d. d mod 7) ` set ds"
    using repeat_flag_bits [OF assms(6), of 0 0] assms(7) by auto
  have "b < 7" if "bit f b" for b using that f(2) by force
  then have b: "0 \<le> f" "f < 128" using low_bits [of f] by simp_all
  let ?s' = "put_attr R (entry_node g) ?a (int_str f) s"
  have set: "cfg_type_parental_func_set R Q (entry_node g) ''RepeatDay'' (map digit_char ds) s = (0, ?s')"
    using f(1) assms(4) by (simp add: cfg_type_parental_func_set_def Let_def)
  have o: "fetch R ?s' (entry_node g) x 128 [] = fetch R s (entry_node g) x 128 []" if "x \<noteq> ?a" for x
    using attr_store.put_fetch_other [OF assms(1)] that by metis
  have n: "num_attr R ?s' (entry_node g) (''StartTime'' @ nat_str k) = num_attr R s (entry_node g) (''StartTime'' @ nat_str k)"
    "num_attr R ?s' (entry_node g) (''EndTime'' @ nat_str k) = num_attr R s (entry_node g) (''EndTime'' @ nat_str k)"
    unfolding num_attr_def by (subst o; simp)+
  have act: "0 < fst (fetch R ?s' (entry_node g) ''DurationActive'' 128 [])" using assms(5) by (subst o) simp_all
  have "has (ct_store s) (entry_node g)"
    using assms(5) st(3) by (auto simp: fetch_def get_attr_def split: option.splits)
  then have v: "so_get R (ct_store ?s') (entry_node g) ?a = Some (nat_str (nat f))"
    using st(1) b by (simp add: put_attr_def int_str_def)
  have "length (nat_str (nat f)) \<le> 3" using b by (intro nat_str_length_le) auto
  then have nf: "num_attr R ?s' (entry_node g) ?a = f"
    using v b atoi_nat_str [of "nat f"] by (simp add: num_attr_def fetch_def get_attr_def)
  have d: "duration_at (initParentalDuration R ?s') g k =
      \<lparr>dur_start = of_int (num_attr R s (entry_node g) (''StartTime'' @ nat_str k)),
       dur_end = of_int (num_attr R s (entry_node g) (''EndTime'' @ nat_str k)), repeat_days = of_int f, matched_stat = False\<rparr>"
    unfolding loaded_duration [OF assms(2,3) act] load_duration_def n nf ..
  have "bit (of_int f :: 8 word) (tm_wday c) \<longleftrightarrow> bit f (tm_wday c)" using assms(8) by (simp add: bit_of_int_iff)
  then have "isCurrentInDuration c (duration_at (initParentalDuration R ?s') g k) \<longleftrightarrow>
       (if tm_wday c = 0 then 7 else tm_wday c) \<in> set ds \<and>
       (of_int (num_attr R s (entry_node g) (''StartTime'' @ nat_str k)) :: u32) \<le> of_nat (cur_sec c) \<and>
       of_nat (cur_sec c) \<le> (of_int (num_attr R s (entry_node g) (''EndTime'' @ nat_str k)) :: u32)"
    using day_mod [OF assms(8,6)] by (simp only: week_test [OF assms(8)] d f(2) parental_duration.simps)
  then show ?thesis using set by blast
qed

theorem repeat_days_round_trip_witness:
  "\<exists>s'. cfg_type_parental_func_set plain_ops \<lparr>oo_query = plain_has, oo_create = (\<lambda>n t. Some (t(n \<mapsto> Map.empty)))\<rparr>
      ''root.parental.entry.1'' ''RepeatDay'' ''67''
      ((kid_state False)\<lparr>ct_store := kid_store(''root.parental.common'' \<mapsto> [''AddIndx'' \<mapsto> ''0''])\<rparr>) = (0, s') \<and>
    isCurrentInDuration \<lparr>tm_wday = 0, tm_hour = 20, tm_min = 30, tm_sec = 0\<rparr> (duration_at (initParentalDuration plain_ops s') 0 0)"
proof -
  let ?s = "(kid_state False)\<lparr>ct_store := kid_store(''root.parental.common'' \<mapsto> [''AddIndx'' \<mapsto> ''0''])\<rparr>"
  have n: "nat_str 0 = ''0''" "entry_node 0 = ''root.parental.entry.1''" "digit_char 6 = CHR ''6''" "digit_char 7 = CHR ''7''"
    by code_simp+
  have t: "atoi ''72000'' = 72000" "atoi ''75600'' = 75600"
    by (simp_all add: atoi_def is_space_def is_digit_def digit_val_def cval_def clamp_int_def)
  have f: "fetch plain_ops ?s PARENTAL_COMMON_NODE ''AddIndx'' 16 [] = (1, nat_str 0)"
    "0 < fst (fetch plain_ops ?s (entry_node 0) ''DurationActive'' 128 [])"
    "num_attr plain_ops ?s (entry_node 0) (''StartTime'' @ nat_str 0) = 72000"
    "num_attr plain_ops ?s (entry_node 0) (''EndTime'' @ nat_str 0) = 75600"
    by (simp_all add: num_attr_def fetch_def get_attr_def plain_ops_def kid_store_def PARENTAL_COMMON_NODE_def n t)
  note th = repeat_days_round_trip [OF ps.attr_store_axioms _ _ f(1,2), of "[6, 7]" "\<lparr>tm_wday = 0, tm_hour = 20, tm_min = 30, tm_sec = 0\<rparr>"
      "\<lparr>oo_query = plain_has, oo_create = (\<lambda>n t. Some (t(n \<mapsto> Map.empty)))\<rparr>", unfolded f(3,4)]
  show ?thesis using th by (simp add: MAX_PARENTAL_NUM_def MAX_DURATION_PER_ENTRY_def n cur_sec_def)
qed

end
